(* ===== verification/Prelude.thy ===== *)
theory Prelude
  imports Complex_Main
begin

text \<open>
  What the components share: the Python exceptions the code raises or catches, the shape of a
  step that may raise and that changes a state, and the lemma collections the component
  theories add to.

  A Python call that can raise is a value of type \<open>exn + 'a\<close> (\<open>Inl\<close> the exception). A call
  that also reads or writes state is a \<open>('s, 'a) prog\<close>: it takes the state before and returns
  the outcome together with the state after, so the effects done before an exception stay.
\<close>

named_theorems py_simps \<open>evaluation of the modelled Python string and dict primitives\<close>
named_theorems prog_simps \<open>unfolding of the state-and-exception combinators\<close>
named_theorems store_simps \<open>what a key-value store returns after an operation\<close>

subsection \<open>Exceptions\<close>

text \<open>
  One constructor per exception class that some handler of the code distinguishes.
  \<open>HttpError\<close> is FastAPI's \<open>HTTPException(status_code, detail)\<close>, \<open>Transport\<close> is any
  \<open>httpx.RequestError\<close> / \<open>requests.RequestException\<close>, \<open>Timeout\<close> the timeouts among them;
  \<open>JwtExpired\<close> and \<open>JwtInvalid\<close> are PyJWT's \<open>ExpiredSignatureError\<close> and its other
  \<open>InvalidTokenError\<close>s. \<open>ApiError\<close> is google-genai's \<open>errors.APIError\<close> with its code.
\<close>

datatype exn =
    ValueError string
  | KeyError string
  | TypeError string
  | IndexError string
  | AttributeError string
  | RuntimeError string
  | ImportError string
  | HttpError int string
  | Transport string
  | Timeout string
  | HttpStatus int
  | JwtExpired
  | JwtInvalid string
  | SigningKeyNotFound string
  | ServiceAuthError string
  | RequestValidationError
  | ApiError "int option"
  | OtherError string

subsection \<open>Results\<close>

definition bind_res :: "exn + 'a \<Rightarrow> ('a \<Rightarrow> exn + 'b) \<Rightarrow> exn + 'b" where
  "bind_res r f = (case r of Inl e \<Rightarrow> Inl e | Inr x \<Rightarrow> f x)"

lemma bind_res_simps [simp]:
  "bind_res (Inl e) f = Inl e"
  "bind_res (Inr x) f = f x"
  by (simp_all add: bind_res_def)

lemma bind_res_Inr_conv:
  "bind_res r f = Inr y \<longleftrightarrow> (\<exists>x. r = Inr x \<and> f x = Inr y)"
  by (cases r) auto

lemma bind_res_Inl_conv:
  "bind_res r f = Inl e \<longleftrightarrow> r = Inl e \<or> (\<exists>x. r = Inr x \<and> f x = Inl e)"
  by (cases r) auto

subsection \<open>Stateful programs\<close>

type_synonym ('s, 'a) prog = "'s \<Rightarrow> (exn + 'a) \<times> 's"

definition ret :: "'a \<Rightarrow> ('s, 'a) prog" where
  "ret x s = (Inr x, s)"

definition raise :: "exn \<Rightarrow> ('s, 'a) prog" where
  "raise e s = (Inl e, s)"

definition andthen :: "('s, 'a) prog \<Rightarrow> ('a \<Rightarrow> ('s, 'b) prog) \<Rightarrow> ('s, 'b) prog" where
  "andthen m f s = (case m s of (Inl e, s') \<Rightarrow> (Inl e, s') | (Inr x, s') \<Rightarrow> f x s')"

definition catch :: "('s, 'a) prog \<Rightarrow> (exn \<Rightarrow> ('s, 'a) prog) \<Rightarrow> ('s, 'a) prog" where
  "catch m h s = (case m s of (Inl e, s') \<Rightarrow> h e s' | (Inr x, s') \<Rightarrow> (Inr x, s'))"

definition finally_do :: "('s, 'a) prog \<Rightarrow> ('s \<Rightarrow> 's) \<Rightarrow> ('s, 'a) prog" where
  "finally_do m f s = (case m s of (r, s') \<Rightarrow> (r, f s'))"

definition asks :: "('s \<Rightarrow> 'a) \<Rightarrow> ('s, 'a) prog" where
  "asks f s = (Inr (f s), s)"

definition modify :: "('s \<Rightarrow> 's) \<Rightarrow> ('s, unit) prog" where
  "modify f s = (Inr (), f s)"

definition lift_res :: "exn + 'a \<Rightarrow> ('s, 'a) prog" where
  "lift_res r s = (r, s)"

lemma prog_run [simp, prog_simps]:
  "ret x s = (Inr x, s)"
  "raise e s = (Inl e, s)"
  "asks f s = (Inr (f s), s)"
  "modify g s = (Inr (), g s)"
  "lift_res r s = (r, s)"
  by (simp_all add: ret_def raise_def asks_def modify_def lift_res_def)

lemma andthen_simps [prog_simps]:
  "m s = (Inl e, s') \<Longrightarrow> andthen m f s = (Inl e, s')"
  "m s = (Inr x, s') \<Longrightarrow> andthen m f s = f x s'"
  by (simp_all add: andthen_def)

lemma andthen_run [simp]:
  "andthen (ret x) f s = f x s"
  "andthen (raise e) f s = (Inl e, s)"
  "andthen (asks g) f s = f (g s) s"
  "andthen (modify h) k s = k () (h s)"
  by (simp_all add: andthen_def)

lemma andthen_lift_res [simp]:
  "andthen (lift_res (Inl e)) f s = (Inl e, s)"
  "andthen (lift_res (Inr x)) f s = f x s"
  by (simp_all add: andthen_def)

text \<open>How a composed step can have returned normally, and how it can have raised.\<close>

lemma andthen_Inr_conv:
  "andthen m f s = (Inr y, t) \<longleftrightarrow> (\<exists>x u. m s = (Inr x, u) \<and> f x u = (Inr y, t))"
  by (auto simp: andthen_def split: prod.splits sum.splits)

lemma andthen_Inl_conv:
  "andthen m f s = (Inl e, t) \<longleftrightarrow>
     m s = (Inl e, t) \<or> (\<exists>x u. m s = (Inr x, u) \<and> f x u = (Inl e, t))"
  by (auto simp: andthen_def split: prod.splits sum.splits)

lemma catch_Inr [simp]: "m s = (Inr x, t) \<Longrightarrow> catch m h s = (Inr x, t)"
  by (simp add: catch_def)

lemma catch_Inl [simp]: "m s = (Inl e, t) \<Longrightarrow> catch m h s = h e t"
  by (simp add: catch_def)

lemma catch_Inr_conv:
  "catch m h s = (Inr y, t) \<longleftrightarrow>
     m s = (Inr y, t) \<or> (\<exists>e u. m s = (Inl e, u) \<and> h e u = (Inr y, t))"
  by (auto simp: catch_def split: prod.splits sum.splits)

lemma catch_Inl_conv:
  "catch m h s = (Inl e, t) \<longleftrightarrow> (\<exists>e' u. m s = (Inl e', u) \<and> h e' u = (Inl e, t))"
  by (auto simp: catch_def split: prod.splits sum.splits)

text \<open>
  A property of the state that a step keeps whatever its outcome, closed under composition:
  the shape of every "this handler leaves that part alone" lemma below.
\<close>

definition keeps :: "('s \<Rightarrow> 'v) \<Rightarrow> ('s, 'a) prog \<Rightarrow> bool" where
  "keeps f m \<longleftrightarrow> (\<forall>s. f (snd (m s)) = f s)"

lemma keepsI: "(\<And>s. f (snd (m s)) = f s) \<Longrightarrow> keeps f m"
  by (simp add: keeps_def)

lemma keepsD: "keeps f m \<Longrightarrow> f (snd (m s)) = f s"
  by (simp add: keeps_def)

lemma keeps_basic [simp, intro]:
  "keeps f (ret x)" "keeps f (raise e)" "keeps f (asks g)" "keeps f (lift_res r)"
  by (simp_all add: keeps_def)

lemma keeps_modify: "(\<And>s. f (g s) = f s) \<Longrightarrow> keeps f (modify g)"
  by (simp add: keeps_def)

lemma keeps_andthen [intro]:
  assumes "keeps f m" and "\<And>x. keeps f (g x)"
  shows "keeps f (andthen m g)"
proof (rule keepsI)
  fix s
  show "f (snd (andthen m g s)) = f s"
    using keepsD [OF assms(1), of s] keepsD [OF assms(2)]
    by (auto simp: andthen_def split: prod.splits sum.splits)
qed

lemma keeps_catch [intro]:
  assumes "keeps f m" and "\<And>e. keeps f (h e)"
  shows "keeps f (catch m h)"
proof (rule keepsI)
  fix s
  show "f (snd (catch m h s)) = f s"
    using keepsD [OF assms(1), of s] keepsD [OF assms(2)]
    by (auto simp: catch_def split: prod.splits sum.splits)
qed

lemma keeps_if [intro]: "keeps f m \<Longrightarrow> keeps f n \<Longrightarrow> keeps f (if b then m else n)"
  by simp

text \<open>
  An assertion on the state that a step preserves whatever its outcome.
\<close>

definition stable :: "('s \<Rightarrow> bool) \<Rightarrow> ('s, 'a) prog \<Rightarrow> bool" where
  "stable P m \<longleftrightarrow> (\<forall>s. P s \<longrightarrow> P (snd (m s)))"

lemma stableI: "(\<And>s. P s \<Longrightarrow> P (snd (m s))) \<Longrightarrow> stable P m"
  by (simp add: stable_def)

lemma stableD: "stable P m \<Longrightarrow> P s \<Longrightarrow> m s = (r, t) \<Longrightarrow> P t"
  by (metis snd_conv stable_def)

lemma stable_basic [simp, intro]:
  "stable P (ret x)" "stable P (raise e)" "stable P (asks g)" "stable P (lift_res r)"
  by (simp_all add: stable_def)

lemma stable_modify: "(\<And>s. P s \<Longrightarrow> P (g s)) \<Longrightarrow> stable P (modify g)"
  by (simp add: stable_def)

lemma stable_andthen [intro]:
  assumes "stable P m" and "\<And>x. stable P (g x)"
  shows "stable P (andthen m g)"
proof (rule stableI)
  fix s assume s: "P s"
  show "P (snd (andthen m g s))"
  proof (cases "m s")
    case (Pair r t)
    have t: "P t" using stableD [OF assms(1) s Pair] .
    show ?thesis
    proof (cases r)
      case (Inr x)
      then show ?thesis using Pair t assms(2) [of x] by (simp add: andthen_def stable_def)
    qed (simp add: andthen_def Pair t)
  qed
qed

lemma stable_catch [intro]:
  assumes "stable P m" and "\<And>e. stable P (h e)"
  shows "stable P (catch m h)"
proof (rule stableI)
  fix s assume s: "P s"
  show "P (snd (catch m h s))"
  proof (cases "m s")
    case (Pair r t)
    have t: "P t" using stableD [OF assms(1) s Pair] .
    show ?thesis
    proof (cases r)
      case (Inl e)
      then show ?thesis using Pair t assms(2) [of e] by (simp add: catch_def stable_def)
    qed (simp add: catch_def Pair t)
  qed
qed

lemma stable_if [intro]: "stable P m \<Longrightarrow> stable P n \<Longrightarrow> stable P (if b then m else n)"
  by simp

lemma stable_option [intro]:
  "stable P m \<Longrightarrow> (\<And>x. stable P (n x)) \<Longrightarrow> stable P (case v of None \<Rightarrow> m | Some x \<Rightarrow> n x)"
  by (cases v) auto

lemma stable_prod [intro]: "(\<And>x y. stable P (n x y)) \<Longrightarrow> stable P (case p of (x, y) \<Rightarrow> n x y)"
  by (cases p) auto

subsection \<open>The process environment\<close>

text \<open>\<open>os.environ\<close>: \<open>os.getenv(name)\<close> is \<open>E name\<close>, with a default \<open>getenv E name d\<close>.\<close>

type_synonym environ = "string \<Rightarrow> string option"

definition getenv :: "environ \<Rightarrow> string \<Rightarrow> string \<Rightarrow> string" where
  "getenv E name d = (case E name of None \<Rightarrow> d | Some v \<Rightarrow> v)"

lemma getenv_simps [simp]:
  "E n = None \<Longrightarrow> getenv E n d = d"
  "E n = Some v \<Longrightarrow> getenv E n d = v"
  by (simp_all add: getenv_def)

subsection \<open>Lists and maps\<close>

lemma takeWhile_neq_append:
  "c \<notin> set xs \<Longrightarrow> takeWhile (\<lambda>x. x \<noteq> c) (xs @ c # ys) = xs"
  by (induction xs) auto

lemma dropWhile_neq_append:
  "c \<notin> set xs \<Longrightarrow> dropWhile (\<lambda>x. x \<noteq> c) (xs @ c # ys) = c # ys"
  by (induction xs) auto

lemma append_sep_eq:
  assumes "c \<notin> set xs" and "c \<notin> set us" and "xs @ c # ys = us @ c # vs"
  shows "xs = us \<and> ys = vs"
proof -
  have "xs = us"
    using assms takeWhile_neq_append [of c xs ys] takeWhile_neq_append [of c us vs] by simp
  then show ?thesis using assms(3) by simp
qed

lemma find_SomeD: "find P xs = Some x \<Longrightarrow> x \<in> set xs \<and> P x"
  by (induction xs) (auto split: if_splits)

lemma set_drop_last: "set (drop (length xs - n) xs) \<subseteq> set xs"
  by (rule set_drop_subset)

end
