(* ===== verification/Py_Str.thy ===== *)
theory Py_Str
  imports Prelude "HOL-Library.Sublist"
begin

text \<open>
  Python's \<open>str\<close> methods as the code uses them. A \<open>str\<close> is a HOL \<open>string\<close>, one \<open>char\<close> per
  code point, so the repertoire is the code points 0 to 255 (Latin-1). The two literals of
  the code outside it, an em dash and an ellipsis in texts meant for people, are written
  with the otherwise unused code points 151 and 133.
\<close>

subsection \<open>Characters\<close>

abbreviation ord :: "char \<Rightarrow> nat" where
  "ord c \<equiv> of_char c"

definition chr :: "nat \<Rightarrow> char" where
  "chr n = char_of n"

lemma chr_code [code, py_simps]:
  "chr n = Char (odd n) (odd (n div 2)) (odd (n div 4)) (odd (n div 8))
     (odd (n div 16)) (odd (n div 32)) (odd (n div 64)) (odd (n div 128))"
  by (simp add: chr_def char_of_def bit_iff_odd)

lemma chr_ord [simp]: "chr (ord c) = c"
  by (simp add: chr_def)

lemma ord_chr: "n < 256 \<Longrightarrow> ord (chr n) = n"
  by (simp add: chr_def take_bit_eq_mod)

text \<open>\<open>str.isspace\<close> on one character.\<close>

definition is_space :: "char \<Rightarrow> bool" where
  "is_space c \<longleftrightarrow> (let n = ord c in (9 \<le> n \<and> n \<le> 13) \<or> (28 \<le> n \<and> n \<le> 32) \<or> n = 133 \<or> n = 160)"

definition is_digit :: "char \<Rightarrow> bool" where
  "is_digit c \<longleftrightarrow> 48 \<le> ord c \<and> ord c \<le> 57"

definition digit_val :: "char \<Rightarrow> nat" where
  "digit_val c = ord c - 48"

definition digit_char :: "nat \<Rightarrow> char" where
  "digit_char d = chr (48 + d)"

definition lower_char :: "char \<Rightarrow> char" where
  "lower_char c =
     (let n = ord c
      in if (65 \<le> n \<and> n \<le> 90) \<or> (192 \<le> n \<and> n \<le> 222 \<and> n \<noteq> 215) then chr (n + 32) else c)"

definition upper_char :: "char \<Rightarrow> char" where
  "upper_char c =
     (let n = ord c
      in if (97 \<le> n \<and> n \<le> 122) \<or> (224 \<le> n \<and> n \<le> 254 \<and> n \<noteq> 247) then chr (n - 32) else c)"

definition lower :: "string \<Rightarrow> string" where
  "lower = map lower_char"

definition upper :: "string \<Rightarrow> string" where
  "upper = map upper_char"

subsection \<open>Stripping, prefixes, substrings\<close>

definition lstrip :: "string \<Rightarrow> string" where
  "lstrip s = dropWhile is_space s"

definition rstrip :: "string \<Rightarrow> string" where
  "rstrip s = rev (dropWhile is_space (rev s))"

definition strip :: "string \<Rightarrow> string" where
  "strip s = rstrip (lstrip s)"

definition rstrip_char :: "char \<Rightarrow> string \<Rightarrow> string" where
  "rstrip_char c s = rev (dropWhile (\<lambda>x. x = c) (rev s))"

definition lstrip_char :: "char \<Rightarrow> string \<Rightarrow> string" where
  "lstrip_char c s = dropWhile (\<lambda>x. x = c) s"

definition startswith :: "string \<Rightarrow> string \<Rightarrow> bool" where
  "startswith s p \<longleftrightarrow> take (length p) s = p"

text \<open>\<open>sub in s\<close>.\<close>

fun contains :: "string \<Rightarrow> string \<Rightarrow> bool" where
  "contains s [] = True"
| "contains [] (x # xs) = False"
| "contains (c # cs) sub = (startswith (c # cs) sub \<or> contains cs sub)"

text \<open>\<open>s.partition(c)\<close> for a one-character separator: head, whether it was found, tail.\<close>

definition partition_char :: "char \<Rightarrow> string \<Rightarrow> string \<times> bool \<times> string" where
  "partition_char c s =
     (takeWhile (\<lambda>x. x \<noteq> c) s, c \<in> set s, tl (dropWhile (\<lambda>x. x \<noteq> c) s))"

subsection \<open>Splitting and joining\<close>

text \<open>\<open>s.split()\<close>: the maximal runs of non-space characters.\<close>

fun split_go :: "string \<Rightarrow> string \<Rightarrow> string list" where
  "split_go cur [] = (if cur = [] then [] else [cur])"
| "split_go cur (c # cs) =
     (if is_space c then (if cur = [] then split_go [] cs else cur # split_go [] cs)
      else split_go (cur @ [c]) cs)"

definition split_ws :: "string \<Rightarrow> string list" where
  "split_ws s = split_go [] s"

text \<open>\<open>s.split(None, 1)\<close>: the first word, and the rest after the spaces that follow it.\<close>

definition split_ws1 :: "string \<Rightarrow> string list" where
  "split_ws1 s =
     (let t = lstrip s; w = takeWhile (\<lambda>c. \<not> is_space c) t;
          r = lstrip (dropWhile (\<lambda>c. \<not> is_space c) t)
      in if t = [] then [] else if r = [] then [w] else [w, r])"

text \<open>\<open>s.split(c)\<close> for a one-character separator.\<close>

fun split_char_go :: "char \<Rightarrow> string \<Rightarrow> string \<Rightarrow> string list" where
  "split_char_go sep cur [] = [cur]"
| "split_char_go sep cur (c # cs) =
     (if c = sep then cur # split_char_go sep [] cs else split_char_go sep (cur @ [c]) cs)"

definition split_char :: "char \<Rightarrow> string \<Rightarrow> string list" where
  "split_char sep s = split_char_go sep [] s"

text \<open>\<open>s.split(sep)\<close> and \<open>s.replace(old, new)\<close> for a longer, non-empty \<open>sep\<close>.\<close>

function split_str_go :: "string \<Rightarrow> string \<Rightarrow> string \<Rightarrow> string list" where
  "split_str_go sep cur [] = [cur]"
| "split_str_go sep cur (c # cs) =
     (if sep \<noteq> [] \<and> startswith (c # cs) sep
      then cur # split_str_go sep [] (drop (length sep) (c # cs))
      else split_str_go sep (cur @ [c]) cs)"
  by pat_completeness auto
termination
  by (relation "measure (\<lambda>(sep, cur, s). length s)") auto

definition split_str :: "string \<Rightarrow> string \<Rightarrow> string list" where
  "split_str sep s = split_str_go sep [] s"

fun join_str :: "string \<Rightarrow> string list \<Rightarrow> string" where
  "join_str sep [] = []"
| "join_str sep [x] = x"
| "join_str sep (x # y # ys) = x @ sep @ join_str sep (y # ys)"

definition replace_str :: "string \<Rightarrow> string \<Rightarrow> string \<Rightarrow> string" where
  "replace_str old new s = join_str new (split_str old s)"

subsection \<open>Integers\<close>

text \<open>\<open>str(n)\<close>.\<close>

fun str_nat :: "nat \<Rightarrow> string" where
  "str_nat n = (if n < 10 then [digit_char n] else str_nat (n div 10) @ [digit_char (n mod 10)])"

declare str_nat.simps [simp del]

definition str_int :: "int \<Rightarrow> string" where
  "str_int i = (if i < 0 then ''-'' @ str_nat (nat (- i)) else str_nat (nat i))"

text \<open>
  \<open>int(s)\<close>: surrounding spaces, one sign, then decimal digits with single underscores
  between them; anything else is a \<open>ValueError\<close> (\<open>None\<close>).
\<close>

fun digits_val :: "bool \<Rightarrow> nat \<Rightarrow> string \<Rightarrow> nat option" where
  "digits_val seen acc [] = (if seen then Some acc else None)"
| "digits_val seen acc (c # cs) =
     (if is_digit c then digits_val True (10 * acc + digit_val c) cs
      else if c = CHR ''_'' \<and> seen \<and> cs \<noteq> [] then digits_val False acc cs
      else None)"

definition parse_int :: "string \<Rightarrow> int option" where
  "parse_int s =
     (case strip s of
        [] \<Rightarrow> None
      | c # cs \<Rightarrow>
          if c = CHR ''-'' then map_option (\<lambda>n. - int n) (digits_val False 0 cs)
          else if c = CHR ''+'' then map_option int (digits_val False 0 cs)
          else map_option int (digits_val False 0 (c # cs)))"

subsection \<open>\<open>html.escape\<close>\<close>

definition escape_char :: "char \<Rightarrow> string" where
  "escape_char c =
     (if c = CHR ''&'' then ''&amp;''
      else if c = CHR ''<'' then ''&lt;''
      else if c = CHR ''>'' then ''&gt;''
      else if c = CHR 0x22 then ''&quot;''
      else if c = CHR 0x27 then ''&#x27;''
      else [c])"

definition html_escape :: "string \<Rightarrow> string" where
  "html_escape s = concat (map escape_char s)"

subsection \<open>Facts\<close>

lemma startswith_iff_prefix: "startswith s p \<longleftrightarrow> prefix p s"
  unfolding startswith_def
  by (metis append_eq_conv_conj append_take_drop_id prefixE prefixI)

lemma startswith_append [simp]: "startswith (p @ s) p"
  by (simp add: startswith_def)

lemma startswith_Nil [simp]: "startswith s []"
  by (simp add: startswith_def)

lemma contains_iff_sublist: "contains s sub \<longleftrightarrow> sublist sub s"
proof (induction s sub rule: contains.induct)
  case (3 c cs v va)
  then show ?case by (simp add: startswith_iff_prefix sublist_Cons_right)
qed simp_all

lemma lstrip_idem [simp]: "lstrip (lstrip s) = lstrip s"
  by (simp add: lstrip_def dropWhile_idem)

lemma set_lstrip: "set (lstrip s) \<subseteq> set s"
  by (auto simp: lstrip_def dest: set_dropWhileD)

lemma set_rstrip: "set (rstrip s) \<subseteq> set s"
  by (auto simp: rstrip_def dest: set_dropWhileD)

lemma set_strip: "set (strip s) \<subseteq> set s"
  using set_lstrip set_rstrip by (fastforce simp: strip_def)

lemma strip_Nil [simp]: "strip [] = []"
  by (simp add: strip_def lstrip_def rstrip_def)

text \<open>A string with no space at either end is its own strip.\<close>

lemma dropWhile_hd_not: "xs = [] \<or> \<not> P (hd xs) \<Longrightarrow> dropWhile P xs = xs"
  by (cases xs) auto

lemma strip_id:
  assumes "s = [] \<or> (\<not> is_space (hd s) \<and> \<not> is_space (last s))"
  shows "strip s = s"
  using assms
  by (cases "s = []")
     (simp_all add: strip_def lstrip_def rstrip_def dropWhile_hd_not hd_rev)

lemma strip_no_space: "\<forall>c \<in> set s. \<not> is_space c \<Longrightarrow> strip s = s"
  by (rule strip_id) (cases "s = []", auto)

lemma hd_lstrip: "lstrip s \<noteq> [] \<Longrightarrow> \<not> is_space (hd (lstrip s))"
  unfolding lstrip_def using hd_dropWhile by blast

subsubsection \<open>Words\<close>

lemma split_go_words:
  assumes "w \<in> set (split_go cur s)" and "\<forall>c \<in> set cur. \<not> is_space c"
  shows "w \<noteq> [] \<and> (\<forall>c \<in> set w. \<not> is_space c)"
  using assms
proof (induction s arbitrary: cur)
  case (Cons c cs)
  show ?case
  proof (cases "is_space c")
    case True
    with Cons.prems Cons.IH [of "[]"] show ?thesis by (cases "cur = []") auto
  next
    case False
    with Cons.prems Cons.IH [of "cur @ [c]"] show ?thesis by simp
  qed
qed (simp split: if_splits)

lemma split_ws_words: "w \<in> set (split_ws s) \<Longrightarrow> w \<noteq> [] \<and> (\<forall>c \<in> set w. \<not> is_space c)"
  unfolding split_ws_def by (erule split_go_words) simp

lemma split_go_word:
  "\<forall>c \<in> set w. \<not> is_space c \<Longrightarrow> split_go cur w = (if cur @ w = [] then [] else [cur @ w])"
  by (induction w arbitrary: cur) auto

lemma split_go_append_space:
  "\<forall>c \<in> set w. \<not> is_space c \<Longrightarrow> is_space x \<Longrightarrow>
   split_go cur (w @ x # s) =
     (if cur @ w = [] then split_go [] s else (cur @ w) # split_go [] s)"
  by (induction w arbitrary: cur) auto

text \<open>Splitting a space-joined list of words gives the words back: scopes in a token.\<close>

lemma is_space_blank [simp]: "is_space (CHR '' '')"
  by (simp add: is_space_def)

lemma split_ws_join:
  assumes "\<forall>w \<in> set ws. w \<noteq> [] \<and> (\<forall>c \<in> set w. \<not> is_space c)"
  shows "split_ws (join_str '' '' ws) = ws"
  using assms
proof (induction "'' ''" ws rule: join_str.induct)
  case 1
  show ?case by (simp add: split_ws_def)
next
  case (2 x)
  then show ?case by (simp add: split_ws_def split_go_word)
next
  case (3 x y ys)
  then have IH: "split_ws (join_str '' '' (y # ys)) = y # ys" by simp
  from 3 have "\<forall>c \<in> set x. \<not> is_space c" and "x \<noteq> []" by auto
  with IH show ?case by (simp add: split_ws_def split_go_append_space)
qed

subsubsection \<open>Escaping\<close>

lemma html_escape_append [simp]: "html_escape (s @ t) = html_escape s @ html_escape t"
  by (simp add: html_escape_def)

lemma set_escape_char: "set (escape_char c) \<inter> {CHR ''<'', CHR ''>'', CHR 0x22, CHR 0x27} = {}"
  by (simp add: escape_char_def)

text \<open>No markup character survives the escape.\<close>

lemma html_escape_safe:
  "c \<in> set (html_escape s) \<Longrightarrow> c \<notin> {CHR ''<'', CHR ''>'', CHR 0x22, CHR 0x27}"
  using set_escape_char by (fastforce simp: html_escape_def)

subsubsection \<open>Decimal numerals\<close>

lemma ord_digit_char: "d < 10 \<Longrightarrow> ord (digit_char d) = 48 + d"
  by (simp add: digit_char_def ord_chr)

lemma digit_char_is_digit [simp]: "d < 10 \<Longrightarrow> is_digit (digit_char d)"
  by (simp add: is_digit_def ord_digit_char)

lemma digit_val_char [simp]: "d < 10 \<Longrightarrow> digit_val (digit_char d) = d"
  by (simp add: digit_val_def ord_digit_char)

lemma str_nat_not_Nil [simp]: "str_nat n \<noteq> []"
  by (subst str_nat.simps) simp

lemma str_nat_digits: "c \<in> set (str_nat n) \<Longrightarrow> is_digit c"
proof (induction n rule: str_nat.induct)
  case (1 n)
  then show ?case
    by (cases "n < 10") (auto simp: str_nat.simps [of n])
qed

lemma digits_val_append:
  "\<forall>c \<in> set s. is_digit c \<Longrightarrow> s \<noteq> [] \<Longrightarrow>
   digits_val b acc (s @ t) =
     digits_val True (the (digits_val b acc s)) t"
proof (induction s arbitrary: b acc)
  case (Cons c cs)
  then show ?case by (cases "cs = []") simp_all
qed simp

lemma digits_val_str_nat: "digits_val False 0 (str_nat n) = Some n"
proof (induction n rule: str_nat.induct)
  case (1 n)
  show ?case
  proof (cases "n < 10")
    case True
    then show ?thesis by (simp add: str_nat.simps [of n])
  next
    case False
    have "\<forall>c \<in> set (str_nat (n div 10)). is_digit c" by (auto dest: str_nat_digits)
    with False 1 show ?thesis
      by (simp add: str_nat.simps [of n] digits_val_append)
  qed
qed

lemma digit_not_space: "is_digit c \<Longrightarrow> \<not> is_space c"
  by (auto simp: is_digit_def is_space_def Let_def)

lemma strip_str_nat [simp]: "strip (str_nat n) = str_nat n"
  by (rule strip_no_space) (auto dest!: str_nat_digits digit_not_space)

lemma str_nat_hd: "str_nat n = c # cs \<Longrightarrow> is_digit c"
  using str_nat_digits [of c n] by simp

text \<open>\<open>int(str(n)) == n\<close>.\<close>

lemma parse_int_str_int: "parse_int (str_int i) = Some i"
proof (cases "i < 0")
  case True
  have sp: "\<not> is_space (CHR ''-'')" by (simp add: is_space_def)
  have "strip (str_int i) = str_int i"
    using True sp by (intro strip_no_space) (auto simp: str_int_def dest!: str_nat_digits digit_not_space)
  with True show ?thesis by (simp add: parse_int_def str_int_def digits_val_str_nat)
next
  case False
  obtain c cs where c: "str_nat (nat i) = c # cs" by (cases "str_nat (nat i)") auto
  then have "c \<noteq> CHR ''-''" "c \<noteq> CHR ''+''" using str_nat_hd [OF c] by (auto simp: is_digit_def)
  with False c digits_val_str_nat [of "nat i"] strip_str_nat [of "nat i"] show ?thesis
    by (simp add: parse_int_def str_int_def)
qed

subsection \<open>Case and white space\<close>

lemma lower_char_space: "is_space c \<Longrightarrow> lower_char c = c"
  by (auto simp: is_space_def lower_char_def Let_def)

lemma lower_space: "c \<in> set s \<Longrightarrow> is_space c \<Longrightarrow> c \<in> set (lower s)"
  using lower_char_space by (force simp: lower_def)

lemma lower_no_space:
  assumes "lower w = v" and "\<forall>c \<in> set v. \<not> is_space c"
  shows "\<forall>c \<in> set w. \<not> is_space c"
  using assms lower_space [of _ w] by blast

lemma lstrip_not_space: "\<forall>c \<in> set w. \<not> is_space c \<Longrightarrow> lstrip w = w"
  unfolding lstrip_def by (cases w) auto

lemma split_ws1_single: "w \<noteq> [] \<Longrightarrow> \<forall>c \<in> set w. \<not> is_space c \<Longrightarrow> split_ws1 w = [w]"
  using lstrip_not_space [of w]
  by (cases w) (auto simp: split_ws1_def Let_def takeWhile_eq_all_conv [THEN iffD2]
      dropWhile_eq_Nil_conv [THEN iffD2] lstrip_def)

subsection \<open>URL quoting\<close>

text \<open>\<open>urllib.parse.quote_plus\<close> over UTF-8, and \<open>urlencode\<close> of a dict of strings.\<close>

definition hex_upper :: "nat \<Rightarrow> char" where
  "hex_upper d = (if d < 10 then digit_char d else chr (55 + d))"

definition percent :: "nat \<Rightarrow> string" where
  "percent b = [CHR ''%'', hex_upper (b div 16), hex_upper (b mod 16)]"

definition url_safe :: "char \<Rightarrow> bool" where
  "url_safe c \<longleftrightarrow>
     (let n = ord c
      in (48 \<le> n \<and> n \<le> 57) \<or> (65 \<le> n \<and> n \<le> 90) \<or> (97 \<le> n \<and> n \<le> 122) \<or> n \<in> {45, 46, 95, 126})"

definition quote_char :: "char \<Rightarrow> string" where
  "quote_char c =
     (if url_safe c then [c]
      else if c = CHR '' '' then ''+''
      else (let n = ord c
            in if n < 128 then percent n else percent (192 + n div 64) @ percent (128 + n mod 64)))"

definition quote_plus :: "string \<Rightarrow> string" where
  "quote_plus s = concat (map quote_char s)"

definition urlencode :: "(string \<times> string) list \<Rightarrow> string" where
  "urlencode ps = join_str ''&'' (map (\<lambda>(k, v). quote_plus k @ ''='' @ quote_plus v) ps)"

end
