(* ===== verification/Json.thy ===== *)
theory Json
  imports Py_Str
begin

text \<open>
  Plain Python data, as \<open>json.loads\<close> builds it and as the services pass it around, and the
  standard library's JSON text format. A dict is its list of items in insertion order.
  The text of a float (\<open>float.__repr__\<close>) and its inverse are parameters: CPython computes
  them in C. The constants \<open>NaN\<close> and \<open>Infinity\<close> that Python's parser also takes have no
  real value and are refused.
\<close>

datatype json =
    JNull
  | JBool bool
  | JInt int
  | JFloat real
  | JStr string
  | JList "json list"
  | JObj "(string \<times> json) list"

type_synonym dict = "(string \<times> json) list"

subsection \<open>Dict operations\<close>

text \<open>\<open>d.get(k)\<close>, \<open>d.get(k, v)\<close>, \<open>d[k] = v\<close>, \<open>{k: v for k, v in d.items() if k != x}\<close>.\<close>

abbreviation dict_get :: "dict \<Rightarrow> string \<Rightarrow> json option" where
  "dict_get \<equiv> map_of"

definition get_or :: "dict \<Rightarrow> string \<Rightarrow> json \<Rightarrow> json" where
  "get_or d k v = (case dict_get d k of None \<Rightarrow> v | Some x \<Rightarrow> x)"

fun dict_set :: "dict \<Rightarrow> string \<Rightarrow> json \<Rightarrow> dict" where
  "dict_set [] k v = [(k, v)]"
| "dict_set ((a, x) # d) k v = (if a = k then (a, v) # d else (a, x) # dict_set d k v)"

definition dict_without :: "dict \<Rightarrow> string \<Rightarrow> dict" where
  "dict_without d k = filter (\<lambda>(a, _). a \<noteq> k) d"

lemma dict_get_set [simp]: "dict_get (dict_set d k v) a = (if a = k then Some v else dict_get d a)"
  by (induction d) auto

lemma keys_dict_set: "fst ` set (dict_set d k v) = insert k (fst ` set d)"
  by (induction d k v rule: dict_set.induct) (simp_all add: insert_commute)

lemma distinct_dict_set: "distinct (map fst d) \<Longrightarrow> distinct (map fst (dict_set d k v))"
proof (induction d)
  case (Cons p d)
  obtain a x where p: "p = (a, x)" by (cases p)
  show ?case
  proof (cases "a = k")
    case False
    have "a \<notin> fst ` set (dict_set d k v)" using Cons.prems False by (simp add: keys_dict_set p)
    then show ?thesis using False Cons by (simp add: p)
  qed (use Cons.prems in \<open>simp add: p\<close>)
qed simp

lemma dict_get_without [simp]: "dict_get (dict_without d k) a = (if a = k then None else dict_get d a)"
  unfolding dict_without_def by (induction d) auto

lemma get_or_set [simp]: "get_or (dict_set d k v) a x = (if a = k then v else get_or d a x)"
  by (simp add: get_or_def)

text \<open>Truth value testing, and the types the code tests with \<open>isinstance\<close>.\<close>

fun truthy :: "json \<Rightarrow> bool" where
  "truthy JNull = False"
| "truthy (JBool b) = b"
| "truthy (JInt i) = (i \<noteq> 0)"
| "truthy (JFloat r) = (r \<noteq> 0)"
| "truthy (JStr s) = (s \<noteq> [])"
| "truthy (JList xs) = (xs \<noteq> [])"
| "truthy (JObj d) = (d \<noteq> [])"

text \<open>\<open>a or b\<close>.\<close>

definition or_else :: "json \<Rightarrow> json \<Rightarrow> json" where
  "or_else a b = (if truthy a then a else b)"

fun is_str :: "json \<Rightarrow> bool" where
  "is_str (JStr _) = True"
| "is_str _ = False"

definition opt_json :: "json option \<Rightarrow> json" where
  "opt_json v = (case v of None \<Rightarrow> JNull | Some x \<Rightarrow> x)"

text \<open>\<open>list(v)\<close>, the items a loop over \<open>v\<close> sees, \<open>len(v)\<close> and \<open>int(v)\<close>.\<close>

definition py_list :: "json \<Rightarrow> exn + json list" where
  "py_list v =
     (case v of
        JStr s \<Rightarrow> Inr (map (\<lambda>c. JStr [c]) s)
      | JList xs \<Rightarrow> Inr xs
      | JObj d \<Rightarrow> Inr (map (JStr \<circ> fst) d)
      | _ \<Rightarrow> Inl (TypeError ''object is not iterable''))"

text \<open>Calling a dict's method on a value: the dict, or the \<open>AttributeError\<close> of anything else.\<close>

definition as_obj :: "json \<Rightarrow> exn + dict" where
  "as_obj v = (case v of JObj d \<Rightarrow> Inr d | _ \<Rightarrow> Inl (AttributeError ''get''))"

lemma as_obj_Inr [simp]: "as_obj v = Inr d \<longleftrightarrow> v = JObj d"
  by (cases v) (auto simp: as_obj_def)

lemma as_obj_JObj [simp]: "as_obj (JObj d) = Inr d"
  by simp

text \<open>\<open>v.get(k, dflt)\<close>.\<close>

definition field_or :: "json \<Rightarrow> string \<Rightarrow> json \<Rightarrow> exn + json" where
  "field_or v k dflt = bind_res (as_obj v) (\<lambda>d. Inr (get_or d k dflt))"

definition py_len :: "json \<Rightarrow> exn + nat" where
  "py_len v =
     (case v of
        JStr s \<Rightarrow> Inr (length s)
      | JList xs \<Rightarrow> Inr (length xs)
      | JObj d \<Rightarrow> Inr (length d)
      | _ \<Rightarrow> Inl (TypeError ''object has no len()''))"

definition py_int :: "json \<Rightarrow> exn + int" where
  "py_int v =
     (case v of
        JInt i \<Rightarrow> Inr i
      | JBool b \<Rightarrow> Inr (if b then 1 else 0)
      | JFloat r \<Rightarrow> Inr (if r < 0 then \<lceil>r\<rceil> else \<lfloor>r\<rfloor>)
      | JStr s \<Rightarrow>
          (case parse_int s of
             Some i \<Rightarrow> Inr i
           | None \<Rightarrow> Inl (ValueError ''invalid literal for int() with base 10''))
      | _ \<Rightarrow> Inl (TypeError ''int() argument must be a string or a real number''))"

text \<open>\<open>v[k]\<close> with a string key.\<close>

definition item :: "json \<Rightarrow> string \<Rightarrow> exn + json" where
  "item v k =
     (case v of
        JObj d \<Rightarrow> (case dict_get d k of Some x \<Rightarrow> Inr x | None \<Rightarrow> Inl (KeyError k))
      | _ \<Rightarrow> Inl (TypeError ''indices must be integers''))"

text \<open>\<open>k in v\<close>.\<close>

definition key_in :: "string \<Rightarrow> json \<Rightarrow> exn + bool" where
  "key_in k v =
     (case v of
        JObj d \<Rightarrow> Inr (dict_get d k \<noteq> None)
      | JList xs \<Rightarrow> Inr (JStr k \<in> set xs)
      | JStr s \<Rightarrow> Inr (contains s k)
      | _ \<Rightarrow> Inl (TypeError ''argument is not iterable''))"

text \<open>\<open>v[0]\<close>.\<close>

definition first_item :: "json \<Rightarrow> exn + json" where
  "first_item v =
     (case v of
        JList (x # _) \<Rightarrow> Inr x
      | JList [] \<Rightarrow> Inl (IndexError ''list index out of range'')
      | JStr (c # _) \<Rightarrow> Inr (JStr [c])
      | JStr [] \<Rightarrow> Inl (IndexError ''string index out of range'')
      | JObj _ \<Rightarrow> Inl (KeyError ''0'')
      | _ \<Rightarrow> Inl (TypeError ''object is not subscriptable''))"

lemma opt_json_simps [simp]: "opt_json None = JNull" "opt_json (Some v) = v"
  by (simp_all add: opt_json_def)

subsection \<open>\<open>str()\<close> and \<open>repr()\<close>\<close>

definition hex_char :: "nat \<Rightarrow> char" where
  "hex_char d = (if d < 10 then digit_char d else chr (87 + d))"

definition repr_char :: "char \<Rightarrow> char \<Rightarrow> string" where
  "repr_char q c =
     (let n = ord c
      in if c = q \<or> n = 92 then [CHR 0x5C, c]
         else if n = 10 then [CHR 0x5C, CHR ''n'']
         else if n = 13 then [CHR 0x5C, CHR ''r'']
         else if n = 9 then [CHR 0x5C, CHR ''t'']
         else if n < 32 \<or> (127 \<le> n \<and> n \<le> 160) \<or> n = 173
           then [CHR 0x5C, CHR ''x'', hex_char (n div 16), hex_char (n mod 16)]
         else [c])"

definition repr_str :: "string \<Rightarrow> string" where
  "repr_str s =
     (let q = (if CHR 0x27 \<in> set s \<and> CHR 0x22 \<notin> set s then CHR 0x22 else CHR 0x27)
      in [q] @ concat (map (repr_char q) s) @ [q])"

fun py_repr :: "(real \<Rightarrow> string) \<Rightarrow> json \<Rightarrow> string" where
  "py_repr fr JNull = ''None''"
| "py_repr fr (JBool b) = (if b then ''True'' else ''False'')"
| "py_repr fr (JInt i) = str_int i"
| "py_repr fr (JFloat r) = fr r"
| "py_repr fr (JStr s) = repr_str s"
| "py_repr fr (JList xs) = ''['' @ join_str '', '' (map (py_repr fr) xs) @ '']''"
| "py_repr fr (JObj d) =
     ''{'' @ join_str '', '' (map (\<lambda>(k, v). repr_str k @ '': '' @ py_repr fr v) d) @ ''}''"

definition py_str :: "(real \<Rightarrow> string) \<Rightarrow> json \<Rightarrow> string" where
  "py_str fr v = (case v of JStr s \<Rightarrow> s | _ \<Rightarrow> py_repr fr v)"

lemma py_str_JStr [simp]: "py_str fr (JStr s) = s"
  by (simp add: py_str_def)

subsection \<open>\<open>json.dumps\<close>\<close>

definition dump_char :: "char \<Rightarrow> string" where
  "dump_char c =
     (let n = ord c; bs = CHR 0x5C
      in if n = 34 then [bs, c]
         else if n = 92 then [bs, c]
         else if n = 10 then [bs, CHR ''n'']
         else if n = 13 then [bs, CHR ''r'']
         else if n = 9 then [bs, CHR ''t'']
         else if n = 12 then [bs, CHR ''f'']
         else if n = 8 then [bs, CHR ''b'']
         else if n < 32 \<or> 126 < n
           then [bs, CHR ''u'', CHR ''0'', CHR ''0'', hex_char (n div 16), hex_char (n mod 16)]
         else [c])"

definition dump_str :: "string \<Rightarrow> string" where
  "dump_str s = [CHR 0x22] @ concat (map dump_char s) @ [CHR 0x22]"

fun dumps :: "(real \<Rightarrow> string) \<Rightarrow> json \<Rightarrow> string" where
  "dumps fr JNull = ''null''"
| "dumps fr (JBool b) = (if b then ''true'' else ''false'')"
| "dumps fr (JInt i) = str_int i"
| "dumps fr (JFloat r) = fr r"
| "dumps fr (JStr s) = dump_str s"
| "dumps fr (JList xs) = ''['' @ join_str '', '' (map (dumps fr) xs) @ '']''"
| "dumps fr (JObj d) =
     ''{'' @ join_str '', '' (map (\<lambda>(k, v). dump_str k @ '': '' @ dumps fr v) d) @ ''}''"

subsection \<open>\<open>json.loads\<close>\<close>

definition json_ws :: "char \<Rightarrow> bool" where
  "json_ws c \<longleftrightarrow> c = CHR '' '' \<or> c = CHR 0x09 \<or> c = CHR 0x0A \<or> c = CHR 0x0D"

abbreviation skip_ws :: "string \<Rightarrow> string" where
  "skip_ws \<equiv> dropWhile json_ws"

definition hex_val :: "char \<Rightarrow> nat option" where
  "hex_val c =
     (let n = ord c
      in if 48 \<le> n \<and> n \<le> 57 then Some (n - 48)
         else if 97 \<le> n \<and> n \<le> 102 then Some (n - 87)
         else if 65 \<le> n \<and> n \<le> 70 then Some (n - 55)
         else None)"

definition hex4 :: "char \<Rightarrow> char \<Rightarrow> char \<Rightarrow> char \<Rightarrow> nat option" where
  "hex4 a b c d =
     (case (hex_val a, hex_val b, hex_val c, hex_val d) of
        (Some p, Some q, Some r, Some s) \<Rightarrow> Some (((p * 16 + q) * 16 + r) * 16 + s)
      | _ \<Rightarrow> None)"

definition simple_escape :: "char \<Rightarrow> char option" where
  "simple_escape c =
     (let n = ord c
      in if n = 34 \<or> n = 92 \<or> n = 47 then Some c
         else if c = CHR ''n'' then Some (CHR 0x0A)
         else if c = CHR ''r'' then Some (CHR 0x0D)
         else if c = CHR ''t'' then Some (CHR 0x09)
         else if c = CHR ''f'' then Some (CHR 0x0C)
         else if c = CHR ''b'' then Some (CHR 0x08)
         else None)"

definition push_char :: "char \<Rightarrow> (string \<times> string) option \<Rightarrow> (string \<times> string) option" where
  "push_char c r = map_option (\<lambda>(s, t). (c # s, t)) r"

text \<open>The rest of a string literal after its opening quote. Code points above 255 are outside the model.\<close>

fun parse_string :: "string \<Rightarrow> (string \<times> string) option" where
  "parse_string [] = None"
| "parse_string (c # cs) =
     (if c = CHR 0x22 then Some ([], cs)
      else if ord c = 92 then
        (case cs of
           [] \<Rightarrow> None
         | e # es \<Rightarrow>
             if e = CHR ''u'' then
               (case es of
                  h1 # h2 # h3 # h4 # r \<Rightarrow>
                    (case hex4 h1 h2 h3 h4 of
                       None \<Rightarrow> None
                     | Some n \<Rightarrow> if n < 256 then push_char (chr n) (parse_string r) else None)
                | _ \<Rightarrow> None)
             else (case simple_escape e of None \<Rightarrow> None | Some ch \<Rightarrow> push_char ch (parse_string es)))
      else if ord c < 32 then None
      else push_char c (parse_string cs))"

text \<open>
  A number token: the sign and integer part, then a fraction and an exponent where they
  match; without either it is an int.
\<close>

definition span_digits :: "string \<Rightarrow> string \<times> string" where
  "span_digits s = (takeWhile is_digit s, dropWhile is_digit s)"

definition int_token :: "string \<Rightarrow> (string \<times> string) option" where
  "int_token s =
     (case s of
        [] \<Rightarrow> None
      | c # cs \<Rightarrow>
          if c = CHR ''0'' then Some (''0'', cs)
          else if is_digit c then Some (takeWhile is_digit s, dropWhile is_digit s)
          else None)"

definition frac_token :: "string \<Rightarrow> string \<times> string" where
  "frac_token s =
     (case s of
        c # d # cs \<Rightarrow>
          if c = CHR ''.'' \<and> is_digit d
          then (c # takeWhile is_digit (d # cs), dropWhile is_digit (d # cs)) else ([], s)
      | _ \<Rightarrow> ([], s))"

definition exp_token :: "string \<Rightarrow> string \<times> string" where
  "exp_token s =
     (case s of
        c # d # cs \<Rightarrow>
          if (c = CHR ''e'' \<or> c = CHR ''E'') \<and> is_digit d
          then (c # takeWhile is_digit (d # cs), dropWhile is_digit (d # cs))
          else if (c = CHR ''e'' \<or> c = CHR ''E'') \<and> (d = CHR ''+'' \<or> d = CHR ''-'')
            \<and> cs \<noteq> [] \<and> is_digit (hd cs)
          then (c # d # takeWhile is_digit cs, dropWhile is_digit cs)
          else ([], s)
      | _ \<Rightarrow> ([], s))"

definition parse_number :: "(string \<Rightarrow> real) \<Rightarrow> string \<Rightarrow> (json \<times> string) option" where
  "parse_number fp s =
     (let (sign, s1) = (if s \<noteq> [] \<and> hd s = CHR ''-'' then (''-'', tl s) else ([], s))
      in case int_token s1 of
           None \<Rightarrow> None
         | Some (ds, s2) \<Rightarrow>
             (let (fr, s3) = frac_token s2; (ex, s4) = exp_token s3
              in if fr = [] \<and> ex = []
                 then map_option (\<lambda>n. (JInt (if sign = [] then int n else - int n), s2))
                        (digits_val False 0 ds)
                 else Some (JFloat (fp (sign @ ds @ fr @ ex)), s4)))"

text \<open>
  The scanner, with a bound on the nesting depth and the number of items that the length of
  the text always satisfies (lemma \<open>loads_dumps\<close>): \<open>loads\<close> starts it with one more than the
  length. Repeated keys keep the last value, as in a dict.
\<close>

fun parse_value :: "nat \<Rightarrow> (string \<Rightarrow> real) \<Rightarrow> string \<Rightarrow> (json \<times> string) option"
  and parse_items :: "nat \<Rightarrow> (string \<Rightarrow> real) \<Rightarrow> json list \<Rightarrow> string \<Rightarrow> (json \<times> string) option"
  and parse_pairs :: "nat \<Rightarrow> (string \<Rightarrow> real) \<Rightarrow> dict \<Rightarrow> string \<Rightarrow> (json \<times> string) option"
where
  "parse_value 0 fp s = None"
| "parse_value (Suc n) fp s =
     (case s of
        [] \<Rightarrow> None
      | c # cs \<Rightarrow>
          if c = CHR 0x22 then map_option (\<lambda>(x, t). (JStr x, t)) (parse_string cs)
          else if c = CHR ''{'' then
            (case skip_ws cs of
               [] \<Rightarrow> None
             | d # ds \<Rightarrow> if d = CHR ''}'' then Some (JObj [], ds) else parse_pairs n fp [] (d # ds))
          else if c = CHR ''['' then
            (case skip_ws cs of
               [] \<Rightarrow> None
             | d # ds \<Rightarrow> if d = CHR '']'' then Some (JList [], ds) else parse_items n fp [] (d # ds))
          else if startswith s ''null'' then Some (JNull, drop 4 s)
          else if startswith s ''true'' then Some (JBool True, drop 4 s)
          else if startswith s ''false'' then Some (JBool False, drop 5 s)
          else parse_number fp s)"
| "parse_items 0 fp acc s = None"
| "parse_items (Suc n) fp acc s =
     (case parse_value n fp s of
        None \<Rightarrow> None
      | Some (v, t) \<Rightarrow>
          (case skip_ws t of
             [] \<Rightarrow> None
           | d # ds \<Rightarrow>
               if d = CHR '','' then parse_items n fp (acc @ [v]) (skip_ws ds)
               else if d = CHR '']'' then Some (JList (acc @ [v]), ds)
               else None))"
| "parse_pairs 0 fp acc s = None"
| "parse_pairs (Suc n) fp acc s =
     (case s of
        [] \<Rightarrow> None
      | c # cs \<Rightarrow>
          if c \<noteq> CHR 0x22 then None
          else
            (case parse_string cs of
               None \<Rightarrow> None
             | Some (k, t) \<Rightarrow>
                 (case skip_ws t of
                    [] \<Rightarrow> None
                  | e # es \<Rightarrow>
                      if e \<noteq> CHR '':'' then None
                      else
                        (case parse_value n fp (skip_ws es) of
                           None \<Rightarrow> None
                         | Some (v, u) \<Rightarrow>
                             (case skip_ws u of
                                [] \<Rightarrow> None
                              | d # ds \<Rightarrow>
                                  if d = CHR '','' then
                                    parse_pairs n fp (dict_set acc k v) (skip_ws ds)
                                  else if d = CHR ''}'' then Some (JObj (dict_set acc k v), ds)
                                  else None)))))"

definition loads :: "(string \<Rightarrow> real) \<Rightarrow> string \<Rightarrow> json option" where
  "loads fp s =
     (case parse_value (Suc (length s)) fp (skip_ws s) of
        None \<Rightarrow> None
      | Some (v, t) \<Rightarrow> if skip_ws t = [] then Some v else None)"

end
