(* ===== verification/Json_Codec.thy ===== *)
theory Json_Codec
  imports Json
begin

text \<open>
  The JSON text format round-trips: what \<open>json.dumps\<close> writes, \<open>json.loads\<close> reads back as the
  same value, wherever the text ends. The only parameter is the text of floats.
\<close>

subsection \<open>What is to be read back\<close>

fun floats :: "json \<Rightarrow> real set" where
  "floats (JFloat r) = {r}"
| "floats (JList xs) = \<Union> (floats ` set xs)"
| "floats (JObj d) = \<Union> ((\<lambda>(k, v). floats v) ` set d)"
| "floats _ = {}"

text \<open>A dict has one item per key.\<close>

fun wf_json :: "json \<Rightarrow> bool" where
  "wf_json (JList xs) = list_all wf_json xs"
| "wf_json (JObj d) = (distinct (map fst d) \<and> list_all (\<lambda>(k, v). wf_json v) d)"
| "wf_json _ = True"

text \<open>
  What the parameters owe each other: a float's text is read back as that float, by the
  number scanner, whatever separator follows.
\<close>

definition ends_token :: "string \<Rightarrow> bool" where
  "ends_token t \<longleftrightarrow> t = [] \<or> hd t \<in> {CHR '','', CHR '']'', CHR ''}''}"

definition float_text :: "(real \<Rightarrow> string) \<Rightarrow> (string \<Rightarrow> real) \<Rightarrow> real \<Rightarrow> bool" where
  "float_text fr fp r \<longleftrightarrow>
     fr r \<noteq> [] \<and> (is_digit (hd (fr r)) \<or> hd (fr r) = CHR ''-'') \<and>
     (\<forall>t. ends_token t \<longrightarrow> parse_number fp (fr r @ t) = Some (JFloat r, t))"

subsection \<open>Strings\<close>

lemma ord_bound: "ord c < 256"
  using of_char_mod_256 [of c, where ?'a = nat] by (metis mod_less_divisor zero_less_numeral)

lemma hex_val_hex_char: "d < 16 \<Longrightarrow> hex_val (hex_char d) = Some d"
  by (auto simp: hex_val_def hex_char_def digit_char_def ord_chr Let_def)

lemma hex4_dump: "n < 256 \<Longrightarrow>
    hex4 (CHR ''0'') (CHR ''0'') (hex_char (n div 16)) (hex_char (n mod 16)) = Some n"
  by (simp add: hex4_def hex_val_hex_char hex_val_def [of "CHR ''0''"] less_mult_imp_div_less)

lemma parse_string_dump_char:
  "parse_string (dump_char c @ t) = push_char c (parse_string t)"
proof -
  have special: ?thesis if "ord c \<in> {34, 92, 10, 13, 9, 12, 8}"
  proof -
    have "ord c = ord (CHR 0x22) \<or> ord c = ord (CHR 0x5C) \<or> ord c = ord (CHR 0x0A) \<or>
        ord c = ord (CHR 0x0D) \<or> ord c = ord (CHR 0x09) \<or> ord c = ord (CHR 0x0C) \<or>
        ord c = ord (CHR 0x08)"
      using that by simp
    then consider "c = CHR 0x22" | "c = CHR 0x5C" | "c = CHR 0x0A" | "c = CHR 0x0D"
      | "c = CHR 0x09" | "c = CHR 0x0C" | "c = CHR 0x08"
      unfolding of_char_eq_iff by blast
    then show ?thesis
      by cases (simp_all add: dump_char_def simple_escape_def Let_def)
  qed
  show ?thesis
  proof (cases "ord c \<in> {34, 92, 10, 13, 9, 12, 8}")
    case True
    then show ?thesis by (rule special)
  next
    case False
    then have "c \<noteq> CHR 0x22" by auto
    then show ?thesis
      using False ord_bound [of c]
      by (auto simp: dump_char_def Let_def hex4_dump)
  qed
qed

lemma parse_string_dump: "parse_string (concat (map dump_char s) @ CHR 0x22 # t) = Some (s, t)"
proof (induction s)
  case (Cons c s)
  have "parse_string (concat (map dump_char (c # s)) @ CHR 0x22 # t) =
      push_char c (parse_string (concat (map dump_char s) @ CHR 0x22 # t))"
    by (simp only: list.simps concat.simps append_assoc parse_string_dump_char)
  then show ?case by (simp add: Cons push_char_def)
qed simp

subsection \<open>Integers\<close>

lemma takeWhile_digits_append:
  assumes "\<forall>c \<in> set ds. is_digit c" and "t = [] \<or> \<not> is_digit (hd t)"
  shows "takeWhile is_digit (ds @ t) = ds" and "dropWhile is_digit (ds @ t) = t"
proof -
  from assms(1) have "takeWhile is_digit (ds @ t) = ds @ takeWhile is_digit t"
    and "dropWhile is_digit (ds @ t) = dropWhile is_digit t" by auto
  with assms(2) show "takeWhile is_digit (ds @ t) = ds" and "dropWhile is_digit (ds @ t) = t"
    by (cases t; simp)+
qed

lemma ends_token_cases:
  assumes "ends_token t"
  shows "t = [] \<or> \<not> is_digit (hd t)" and "frac_token t = ([], t)" and "exp_token t = ([], t)"
  using assms
  by (auto simp: ends_token_def is_digit_def frac_token_def exp_token_def split: list.splits)

lemma str_nat_zero_hd: "str_nat n = CHR ''0'' # cs \<Longrightarrow> n = 0 \<and> cs = []"
proof (induction n arbitrary: cs rule: str_nat.induct)
  case (1 n)
  show ?case
  proof (cases "n < 10")
    case True
    with 1 have "digit_char n = CHR ''0''" "cs = []" by (simp_all add: str_nat.simps [of n])
    with True ord_digit_char [of n] show ?thesis by simp
  next
    case False
    then obtain ds where "str_nat (n div 10) = CHR ''0'' # ds"
      using "1.prems" by (cases "str_nat (n div 10)") (simp_all add: str_nat.simps [of n])
    with "1.IH" [OF False] False show ?thesis by auto
  qed
qed

lemma int_token_str_nat: "ends_token t \<Longrightarrow> int_token (str_nat n @ t) = Some (str_nat n, t)"
proof -
  assume t: "ends_token t"
  obtain c cs where c: "str_nat n = c # cs" by (cases "str_nat n") auto
  have dig: "\<forall>c \<in> set (str_nat n). is_digit c" by (auto dest: str_nat_digits)
  show ?thesis
  proof (cases "c = CHR ''0''")
    case True
    with c str_nat_zero_hd [of n cs] show ?thesis by (simp add: int_token_def)
  next
    case False
    have "is_digit c" using c dig by simp
    with False c takeWhile_digits_append [OF dig ends_token_cases(1) [OF t]]
    show ?thesis by (simp add: int_token_def)
  qed
qed

lemma digit_not_minus: "is_digit c \<Longrightarrow> c \<noteq> CHR ''-''"
  by (auto simp: is_digit_def)

lemma parse_number_str_int: "ends_token t \<Longrightarrow> parse_number fp (str_int i @ t) = Some (JInt i, t)"
proof -
  assume t: "ends_token t"
  have hd: "hd (str_nat n @ t) \<noteq> CHR ''-''" for n
    using str_nat_hd [of n] by (cases "str_nat n") (auto dest: digit_not_minus)
  show ?thesis
  proof (cases "i < 0")
    case True
    then show ?thesis
      by (simp add: parse_number_def str_int_def int_token_str_nat [OF t] ends_token_cases [OF t]
          digits_val_str_nat)
  next
    case False
    then show ?thesis
      using hd [of "nat i"]
      by (simp add: parse_number_def str_int_def int_token_str_nat [OF t] ends_token_cases [OF t]
          digits_val_str_nat)
  qed
qed

subsection \<open>Values\<close>

text \<open>How a number is recognised by the scanner, from its first character.\<close>

lemma parse_value_number:
  assumes "s \<noteq> []" and "is_digit (hd s) \<or> hd s = CHR ''-''"
  shows "parse_value (Suc n) fp s = parse_number fp s"
proof -
  obtain c cs where s: "s = c # cs" using assms(1) by (cases s) auto
  with assms(2) have "c \<noteq> CHR 0x22" "c \<noteq> CHR ''{''" "c \<noteq> CHR ''[''" "c \<noteq> CHR ''n''"
    "c \<noteq> CHR ''t''" "c \<noteq> CHR ''f''" by (auto simp: is_digit_def)
  with s show ?thesis by (simp add: startswith_def)
qed

lemma str_int_start: "str_int i \<noteq> [] \<and> (is_digit (hd (str_int i)) \<or> hd (str_int i) = CHR ''-'')"
proof -
  have "is_digit (hd (str_nat n))" for n
    using str_nat_hd [of n] by (cases "str_nat n") auto
  then show ?thesis by (simp add: str_int_def)
qed

text \<open>No value's text starts with a space or with a closing bracket.\<close>

lemma dumps_hd:
  assumes "\<forall>r \<in> floats v. float_text fr fp r"
  shows "dumps fr v \<noteq> [] \<and> \<not> json_ws (hd (dumps fr v)) \<and> hd (dumps fr v) \<noteq> CHR '']''
    \<and> hd (dumps fr v) \<noteq> CHR ''}''"
proof -
  have num: "x \<noteq> [] \<Longrightarrow> is_digit (hd x) \<or> hd x = CHR ''-'' \<Longrightarrow>
      \<not> json_ws (hd x) \<and> hd x \<noteq> CHR '']'' \<and> hd x \<noteq> CHR ''}''" for x
    by (auto simp: json_ws_def is_digit_def)
  show ?thesis
  proof (cases v)
    case (JInt i)
    then show ?thesis using num str_int_start [of i] by simp
  next
    case (JFloat r)
    then show ?thesis using num assms by (auto simp: float_text_def)
  qed (simp_all add: json_ws_def dump_str_def)
qed

lemma skip_ws_dumps:
  "\<forall>r \<in> floats v. float_text fr fp r \<Longrightarrow> skip_ws (dumps fr v @ t) = dumps fr v @ t"
  using dumps_hd [of v fr fp] by (cases "dumps fr v") auto

text \<open>The fuel a value needs: one per scanner call on the way down.\<close>

fun need :: "json \<Rightarrow> nat" where
  "need (JList xs) = Suc (sum_list (map (\<lambda>x. Suc (need x)) xs))"
| "need (JObj d) = Suc (sum_list (map (\<lambda>(k, x). Suc (need x)) d))"
| "need _ = 1"

definition reads_back :: "(real \<Rightarrow> string) \<Rightarrow> (string \<Rightarrow> real) \<Rightarrow> json \<Rightarrow> bool" where
  "reads_back fr fp v \<longleftrightarrow>
     (\<forall>n t. need v \<le> n \<longrightarrow> ends_token t \<longrightarrow> parse_value n fp (dumps fr v @ t) = Some (v, t))"

lemma reads_backD:
  "reads_back fr fp v \<Longrightarrow> need v \<le> n \<Longrightarrow> ends_token t \<Longrightarrow>
   parse_value n fp (dumps fr v @ t) = Some (v, t)"
  by (simp add: reads_back_def)

lemma ends_token_sep [simp]:
  "ends_token (CHR '','' # t)" "ends_token (CHR '']'' # t)" "ends_token (CHR ''}'' # t)"
  "ends_token []"
  by (simp_all add: ends_token_def)

lemma parse_items_dumps:
  assumes "xs \<noteq> []" and "\<forall>x \<in> set xs. reads_back fr fp x \<and> (\<forall>r \<in> floats x. float_text fr fp r)"
    and "sum_list (map (\<lambda>x. Suc (need x)) xs) \<le> n"
  shows "parse_items n fp acc (join_str '', '' (map (dumps fr) xs) @ CHR '']'' # t) =
    Some (JList (acc @ xs), t)"
  using assms
proof (induction xs arbitrary: n acc)
  case (Cons x xs)
  then obtain m where n: "n = Suc m" and m: "need x \<le> m"
    "sum_list (map (\<lambda>x. Suc (need x)) xs) \<le> m"
    by (cases n) auto
  have x: "reads_back fr fp x" using Cons.prems by simp
  show ?case
  proof (cases xs)
    case Nil
    then show ?thesis
      using reads_backD [OF x m(1), of "CHR '']'' # t"] by (simp add: n json_ws_def)
  next
    case (Cons y ys)
    let ?rest = "join_str '', '' (map (dumps fr) xs) @ CHR '']'' # t"
    have "skip_ws (CHR '' '' # ?rest) = ?rest"
    proof -
      have "skip_ws (dumps fr y @ u) = dumps fr y @ u" for u
        using Cons.prems Cons by (intro skip_ws_dumps [of _ _ fp]) simp
      then show ?thesis by (cases ys) (simp_all add: Cons json_ws_def)
    qed
    moreover have "parse_items m fp (acc @ [x]) ?rest = Some (JList (acc @ [x] @ xs), t)"
      using Cons.IH [of m "acc @ [x]"] Cons.prems Cons m by simp
    ultimately show ?thesis
      using reads_backD [OF x m(1), of "CHR '','' # CHR '' '' # ?rest"]
      by (simp add: n Cons json_ws_def)
  qed
qed simp

lemma dict_set_fresh: "k \<notin> fst ` set acc \<Longrightarrow> dict_set acc k v = acc @ [(k, v)]"
  by (induction acc) auto

lemma parse_pairs_dumps:
  assumes "d \<noteq> []"
    and "\<forall>p \<in> set d. reads_back fr fp (snd p) \<and> (\<forall>r \<in> floats (snd p). float_text fr fp r)"
    and "sum_list (map (\<lambda>(k, x). Suc (need x)) d) \<le> n"
    and "distinct (map fst (acc @ d))"
  shows "parse_pairs n fp acc
      (join_str '', '' (map (\<lambda>(k, v). dump_str k @ '': '' @ dumps fr v) d) @ CHR ''}'' # t) =
    Some (JObj (acc @ d), t)"
  using assms
proof (induction d arbitrary: n acc)
  case (Cons p d)
  obtain k x where p: "p = (k, x)" by (cases p)
  from Cons.prems obtain m where n: "n = Suc m" and m: "need x \<le> m"
    "sum_list (map (\<lambda>(k, x). Suc (need x)) d) \<le> m"
    by (cases n) (auto simp: p)
  have x: "reads_back fr fp x" and fx: "\<forall>r \<in> floats x. float_text fr fp r"
    using Cons.prems by (simp_all add: p)
  have fresh: "dict_set acc k x = acc @ [(k, x)]"
    using Cons.prems(4) by (intro dict_set_fresh) (simp add: p)
  have key: "parse_string (concat (map dump_char k) @ CHR 0x22 # u) = Some (k, u)" for u
    by (rule parse_string_dump)
  show ?case
  proof (cases d)
    case Nil
    then show ?thesis
      using reads_backD [OF x m(1), of "CHR ''}'' # t"]
      by (simp add: n p dump_str_def key json_ws_def skip_ws_dumps [OF fx] fresh)
  next
    case (Cons q e)
    let ?items = "\<lambda>e. join_str '', '' (map (\<lambda>(k, v). dump_str k @ '': '' @ dumps fr v) e)"
    let ?rest = "?items d @ CHR ''}'' # t"
    have "skip_ws (CHR '' '' # ?rest) = ?rest"
      by (cases e) (simp_all add: Cons json_ws_def dump_str_def split: prod.splits)
    moreover have "parse_pairs m fp (acc @ [(k, x)]) ?rest = Some (JObj (acc @ [(k, x)] @ d), t)"
      using Cons.IH [of m "acc @ [(k, x)]"] Cons.prems Cons m by (simp add: p)
    moreover have "?items (p # d) = dump_str k @ '': '' @ dumps fr x @ '', '' @ ?items d"
      by (simp add: Cons p)
    ultimately show ?thesis
      using reads_backD [OF x m(1), of "CHR '','' # CHR '' '' # ?rest"]
      by (simp add: n p dump_str_def key json_ws_def skip_ws_dumps [OF fx] fresh del: join_str.simps)
  qed
qed simp

lemma dumps_reads_back:
  "wf_json v \<Longrightarrow> \<forall>r \<in> floats v. float_text fr fp r \<Longrightarrow> reads_back fr fp v"
  unfolding reads_back_def
proof (induction v)
  case (JInt i)
  show ?case
  proof (intro allI impI)
    fix n t assume "need (JInt i) \<le> n" and t: "ends_token t"
    then obtain m where "n = Suc m" by (cases n) auto
    then show "parse_value n fp (dumps fr (JInt i) @ t) = Some (JInt i, t)"
      using parse_value_number [of "str_int i @ t"] str_int_start [of i] parse_number_str_int [OF t]
      by simp
  qed
next
  case (JFloat r)
  show ?case
  proof (intro allI impI)
    fix n t assume "need (JFloat r) \<le> n" and t: "ends_token t"
    then obtain m where "n = Suc m" by (cases n) auto
    then show "parse_value n fp (dumps fr (JFloat r) @ t) = Some (JFloat r, t)"
      using JFloat.prems t parse_value_number [of "fr r @ t"] by (simp add: float_text_def)
  qed
next
  case (JStr s)
  show ?case
  proof (intro allI impI)
    fix n t assume "need (JStr s) \<le> n" and "ends_token t"
    then obtain m where "n = Suc m" by (cases n) auto
    then show "parse_value n fp (dumps fr (JStr s) @ t) = Some (JStr s, t)"
      using parse_string_dump [of s t] by (simp add: dump_str_def)
  qed
next
  case (JList xs)
  have ok: "\<forall>x \<in> set xs. reads_back fr fp x \<and> (\<forall>r \<in> floats x. float_text fr fp r)"
    using JList by (auto simp: reads_back_def list_all_iff)
  show ?case
  proof (intro allI impI)
    fix n t assume need: "need (JList xs) \<le> n" and "ends_token t"
    then obtain m where n: "n = Suc m" by (cases n) auto
    show "parse_value n fp (dumps fr (JList xs) @ t) = Some (JList xs, t)"
    proof (cases xs)
      case Nil
      then show ?thesis by (simp add: n json_ws_def)
    next
      case (Cons y ys)
      let ?body = "join_str '', '' (map (dumps fr) xs) @ CHR '']'' # t"
      have y: "dumps fr y \<noteq> [] \<and> \<not> json_ws (hd (dumps fr y)) \<and> hd (dumps fr y) \<noteq> CHR '']''"
        using dumps_hd [of y fr fp] ok Cons by simp
      then obtain c cs where "?body = c # cs" and "\<not> json_ws c" and "c \<noteq> CHR '']''"
        by (cases "dumps fr y"; cases ys) (simp_all add: Cons)
      moreover have "parse_items m fp [] ?body = Some (JList xs, t)"
        using parse_items_dumps [OF _ ok, of m "[]" t] need Cons by (simp add: n)
      ultimately show ?thesis by (simp add: n)
    qed
  qed
next
  case (JObj d)
  have ok: "\<forall>p \<in> set d. reads_back fr fp (snd p) \<and> (\<forall>r \<in> floats (snd p). float_text fr fp r)"
    using JObj by (fastforce simp: reads_back_def list_all_iff)
  show ?case
  proof (intro allI impI)
    fix n t assume need: "need (JObj d) \<le> n" and "ends_token t"
    then obtain m where n: "n = Suc m" by (cases n) auto
    show "parse_value n fp (dumps fr (JObj d) @ t) = Some (JObj d, t)"
    proof (cases d)
      case Nil
      then show ?thesis by (simp add: n json_ws_def)
    next
      case (Cons q e)
      let ?body = "join_str '', '' (map (\<lambda>(k, v). dump_str k @ '': '' @ dumps fr v) d) @ CHR ''}'' # t"
      obtain cs where "?body = CHR 0x22 # cs"
        by (cases q; cases e) (simp_all add: Cons dump_str_def)
      moreover have "parse_pairs m fp [] ?body = Some (JObj d, t)"
        using parse_pairs_dumps [OF _ ok, of m "[]" t] need Cons JObj.prems by (simp add: n)
      ultimately show ?thesis by (simp add: n json_ws_def)
    qed
  qed
qed (auto simp: startswith_def gr0_conv_Suc dest!: Suc_le_D)

text \<open>The length of the text is always enough fuel.\<close>

lemma need_le_length:
  "\<forall>r \<in> floats v. float_text fr fp r \<Longrightarrow> need v \<le> length (dumps fr v)"
proof (induction v)
  case (JInt i)
  then show ?case using str_int_start [of i] by (cases "str_int i") auto
next
  case (JFloat r)
  then show ?case by (cases "fr r") (auto simp: float_text_def)
next
  case (JStr s)
  then show ?case by (simp add: dump_str_def)
next
  case (JList xs)
  have "sum_list (map (\<lambda>x. Suc (need x)) xs) \<le> Suc (length (join_str '', '' (map (dumps fr) xs)))"
    using JList
  proof (induction xs)
    case (Cons x xs)
    then have "need x \<le> length (dumps fr x)"
      and "sum_list (map (\<lambda>x. Suc (need x)) xs) \<le> Suc (length (join_str '', '' (map (dumps fr) xs)))"
      by auto
    then show ?case by (cases xs) auto
  qed simp
  then show ?case by simp
next
  case (JObj d)
  have "sum_list (map (\<lambda>(k, x). Suc (need x)) d) \<le>
      Suc (length (join_str '', '' (map (\<lambda>(k, v). dump_str k @ '': '' @ dumps fr v) d)))"
    using JObj
  proof (induction d)
    case (Cons p d)
    obtain k x where p: "p = (k, x)" by (cases p)
    from Cons.prems(2) have "\<forall>r \<in> floats x. float_text fr fp r" by (simp add: p)
    then have "need x \<le> length (dumps fr x)" using Cons.prems(1) [of p x] by (simp add: p)
    moreover have "sum_list (map (\<lambda>(k, x). Suc (need x)) d) \<le>
        Suc (length (join_str '', '' (map (\<lambda>(k, v). dump_str k @ '': '' @ dumps fr v) d)))"
      using Cons.prems by (intro Cons.IH) auto
    ultimately show ?case by (cases d) (auto simp: p)
  qed simp
  then show ?case by simp
qed simp_all

lemma loads_dumps:
  assumes "wf_json v" and "\<forall>r \<in> floats v. float_text fr fp r"
  shows "loads fp (dumps fr v) = Some v"
proof -
  have "skip_ws (dumps fr v) = dumps fr v" using skip_ws_dumps [OF assms(2), of "[]"] by simp
  moreover have "need v \<le> Suc (length (dumps fr v))" using need_le_length [OF assms(2)] by simp
  ultimately show ?thesis
    using reads_backD [OF dumps_reads_back [OF assms], of "Suc (length (dumps fr v))" "[]"]
    by (simp add: loads_def)
qed

end
