(* ===== verification/Http.thy ===== *)
theory Http
  imports Json
begin

text \<open>
  Outgoing HTTP calls. \<open>requests\<close> and \<open>httpx\<close> are third-party code, and so is whatever answers
  them: a network is a function of the request and of an abstract outside world, which it may
  change, and it takes time. A response whose body is not JSON has no \<open>json\<close>. The state keeps
  the requests sent so far, the wall clock and the monotonic clock; component states extend it.
\<close>

datatype body = NoBody | JsonBody json | FormBody "(string \<times> string) list"

record request =
  meth :: string
  url :: string
  query :: "(string \<times> string) list"
  headers :: "(string \<times> string) list"
  body :: body
  follow_redirects :: bool

record response =
  status :: int
  resp_text :: string
  resp_json :: "json option"
  resp_location :: "string option"

text \<open>The answer, the seconds it took, and the world after it.\<close>

type_synonym 'w net = "request \<Rightarrow> 'w \<Rightarrow> (exn + response) \<times> real \<times> 'w"

record 'w net_state =
  world :: 'w
  wall :: real
  mono :: real
  sent :: "request list"

definition send :: "'w net \<Rightarrow> request \<Rightarrow> (('w, 'z) net_state_scheme, response) prog" where
  "send net q s =
     (case net q (world s) of (r, dt, w) \<Rightarrow>
        (r, s\<lparr>world := w, wall := wall s + dt, mono := mono s + dt, sent := sent s @ [q]\<rparr>))"

text \<open>Answers arrive after they were asked for.\<close>

definition net_causal :: "'w net \<Rightarrow> bool" where
  "net_causal net \<longleftrightarrow> (\<forall>q w. 0 \<le> fst (snd (net q w)))"

definition get :: "string \<Rightarrow> (string \<times> string) list \<Rightarrow> (string \<times> string) list \<Rightarrow> request" where
  "get u ps hs = \<lparr>meth = ''GET'', url = u, query = ps, headers = hs, body = NoBody,
     follow_redirects = False\<rparr>"

definition post_form :: "string \<Rightarrow> (string \<times> string) list \<Rightarrow> (string \<times> string) list \<Rightarrow> request" where
  "post_form u hs form = \<lparr>meth = ''POST'', url = u, query = [], headers = hs, body = FormBody form,
     follow_redirects = False\<rparr>"

definition with_json :: "string \<Rightarrow> string \<Rightarrow> (string \<times> string) list \<Rightarrow> json \<Rightarrow> request" where
  "with_json m u hs j = \<lparr>meth = m, url = u, query = [], headers = hs, body = JsonBody j,
     follow_redirects = False\<rparr>"

text \<open>\<open>resp.json()\<close>, and the exceptions that are \<open>RequestException\<close> / \<open>RequestError\<close>.\<close>

definition json_of :: "response \<Rightarrow> exn + json" where
  "json_of r = (case resp_json r of Some j \<Rightarrow> Inr j | None \<Rightarrow> Inl (ValueError ''Expecting value''))"

fun is_request_error :: "exn \<Rightarrow> bool" where
  "is_request_error (Transport _) = True"
| "is_request_error (Timeout _) = True"
| "is_request_error _ = False"

text \<open>
  \<open>resp.raise_for_status()\<close>: \<open>requests\<close> raises for client and server errors, \<open>httpx\<close> for
  every status that is not a success. \<open>httpx.HTTPError\<close> covers both that and the transport.
\<close>

definition raise_for_status :: "response \<Rightarrow> exn + unit" where
  "raise_for_status r = (if 400 \<le> status r \<and> status r < 600 then Inl (HttpStatus (status r)) else Inr ())"

definition httpx_raise_for_status :: "response \<Rightarrow> exn + unit" where
  "httpx_raise_for_status r =
     (if 200 \<le> status r \<and> status r < 300 then Inr () else Inl (HttpStatus (status r)))"

fun is_http_error :: "exn \<Rightarrow> bool" where
  "is_http_error (Transport _) = True"
| "is_http_error (Timeout _) = True"
| "is_http_error (HttpStatus _) = True"
| "is_http_error _ = False"

lemma send_sent [simp]: "sent (snd (send net q s)) = sent s @ [q]"
  by (auto simp: send_def split: prod.splits)

lemma send_more [simp]: "net_state.more (snd (send net q s)) = net_state.more s"
  by (auto simp: send_def split: prod.splits)

lemma send_mono: "net_causal net \<Longrightarrow> mono s \<le> mono (snd (send net q s))"
  by (auto simp: send_def net_causal_def split: prod.splits) (metis fst_conv snd_conv)

subsection \<open>Which requests a step can send\<close>

text \<open>\<open>sends A m\<close>: whatever happens, \<open>m\<close> adds only requests of \<open>A\<close> to those sent.\<close>

definition sends :: "request set \<Rightarrow> (('w, 'z) net_state_scheme, 'a) prog \<Rightarrow> bool" where
  "sends A m \<longleftrightarrow> (\<forall>s. \<exists>qs. sent (snd (m s)) = sent s @ qs \<and> set qs \<subseteq> A)"

lemma sendsD:
  assumes "sends A m" and "m s = (r, t)"
  obtains qs where "sent t = sent s @ qs" and "set qs \<subseteq> A"
  using assms unfolding sends_def by (metis snd_conv)

lemma sends_quiet: "(\<And>s. sent (snd (m s)) = sent s) \<Longrightarrow> sends A m"
  by (simp add: sends_def exI [of _ "[]"])

lemma sends_basic [simp, intro]:
  "sends A (ret x)" "sends A (raise e)" "sends A (asks g)" "sends A (lift_res r)"
  by (simp_all add: sends_quiet)

lemma sends_modify: "(\<And>s. sent (g s) = sent s) \<Longrightarrow> sends A (modify g)"
  by (simp add: sends_quiet)

lemma sends_send: "q \<in> A \<Longrightarrow> sends A (send net q)"
  by (simp add: sends_def)

lemma sends_mono: "sends A m \<Longrightarrow> A \<subseteq> B \<Longrightarrow> sends B m"
  unfolding sends_def by (meson subset_trans)

lemma sends_andthen_result:
  assumes "sends A m" and "\<And>s x t. m s = (Inr x, t) \<Longrightarrow> sends A (g x)"
  shows "sends A (andthen m g)"
  unfolding sends_def
proof
  fix s
  obtain r t where m: "m s = (r, t)" by (cases "m s")
  obtain qs where qs: "sent t = sent s @ qs" "set qs \<subseteq> A" by (rule sendsD [OF assms(1) m])
  show "\<exists>qs. sent (snd (andthen m g s)) = sent s @ qs \<and> set qs \<subseteq> A"
  proof (cases r)
    case (Inr x)
    obtain r' t' where g: "g x t = (r', t')" by (cases "g x t")
    obtain qs' where "sent t' = sent t @ qs'" "set qs' \<subseteq> A" by (rule sendsD [OF assms(2) g]) (use m Inr in simp)
    then show ?thesis using qs m g Inr by (intro exI [of _ "qs @ qs'"]) (simp add: andthen_def)
  qed (use qs m in \<open>auto simp: andthen_def\<close>)
qed

lemma sends_andthen: "sends A m \<Longrightarrow> (\<And>x. sends A (g x)) \<Longrightarrow> sends A (andthen m g)"
  by (rule sends_andthen_result)

lemma sends_catch:
  assumes "sends A m" and "\<And>e. sends A (h e)"
  shows "sends A (catch m h)"
  unfolding sends_def
proof
  fix s
  obtain r t where m: "m s = (r, t)" by (cases "m s")
  obtain qs where qs: "sent t = sent s @ qs" "set qs \<subseteq> A" by (rule sendsD [OF assms(1) m])
  show "\<exists>qs. sent (snd (catch m h s)) = sent s @ qs \<and> set qs \<subseteq> A"
  proof (cases r)
    case (Inl e)
    obtain r' t' where h: "h e t = (r', t')" by (cases "h e t")
    obtain qs' where "sent t' = sent t @ qs'" "set qs' \<subseteq> A" by (rule sendsD [OF assms(2) h])
    then show ?thesis using qs m h Inl by (intro exI [of _ "qs @ qs'"]) (simp add: catch_def)
  qed (use qs m in \<open>auto simp: catch_def\<close>)
qed

lemma sends_if: "sends A m \<Longrightarrow> sends A n \<Longrightarrow> sends A (if b then m else n)"
  by simp

lemma sends_option: "sends A m \<Longrightarrow> (\<And>x. sends A (n x)) \<Longrightarrow> sends A (case v of None \<Rightarrow> m | Some x \<Rightarrow> n x)"
  by (cases v) auto

lemma sends_prod: "(\<And>x y. sends A (n x y)) \<Longrightarrow> sends A (case p of (x, y) \<Rightarrow> n x y)"
  by (cases p) auto

lemmas sends_intros = sends_andthen sends_catch sends_if sends_option sends_prod sends_basic

text \<open>
  \<open>guards P A m\<close>: started where \<open>P\<close> holds of the state, \<open>m\<close> sends only requests of \<open>A\<close> and
  leaves \<open>P\<close> true. What a step read from the state is then known in what follows.
\<close>

definition guards ::
  "(('w, 'z) net_state_scheme \<Rightarrow> bool) \<Rightarrow> request set \<Rightarrow> (('w, 'z) net_state_scheme, 'a) prog \<Rightarrow> bool" where
  "guards P A m \<longleftrightarrow> (\<forall>s. P s \<longrightarrow> P (snd (m s)) \<and> (\<exists>qs. sent (snd (m s)) = sent s @ qs \<and> set qs \<subseteq> A))"

lemma guardsD:
  assumes "guards P A m" and "P s" and "m s = (r, t)"
  obtains qs where "sent t = sent s @ qs" and "set qs \<subseteq> A" and "P t"
  using assms unfolding guards_def by (metis snd_conv)

lemma guardsI: "sends A m \<Longrightarrow> stable P m \<Longrightarrow> guards P A m"
  by (simp add: guards_def sends_def stable_def)

lemma guards_basic [simp, intro]:
  "guards P A (ret x)" "guards P A (raise e)" "guards P A (asks g)" "guards P A (lift_res r)"
  by (simp_all add: guards_def)

lemma guards_andthen:
  assumes "guards P A m" and "\<And>x. guards P A (g x)"
  shows "guards P A (andthen m g)"
  unfolding guards_def
proof (intro allI impI)
  fix s assume s: "P s"
  obtain r t where m: "m s = (r, t)" by (cases "m s")
  obtain qs where qs: "sent t = sent s @ qs" "set qs \<subseteq> A" and t: "P t" by (rule guardsD [OF assms(1) s m])
  show "P (snd (andthen m g s)) \<and> (\<exists>qs. sent (snd (andthen m g s)) = sent s @ qs \<and> set qs \<subseteq> A)"
  proof (cases r)
    case (Inr x)
    obtain r' t' where g: "g x t = (r', t')" by (cases "g x t")
    obtain qs' where "sent t' = sent t @ qs'" "set qs' \<subseteq> A" and "P t'"
      by (rule guardsD [OF assms(2) t g])
    then show ?thesis using qs m g Inr by (intro conjI exI [of _ "qs @ qs'"]) (simp_all add: andthen_def)
  qed (use qs m t in \<open>auto simp: andthen_def\<close>)
qed

lemma guards_asks:
  assumes "\<And>s. P s \<Longrightarrow> guards P A (g (f s))"
  shows "guards P A (andthen (asks f) g)"
  using assms by (simp add: guards_def)

lemma guards_if: "(b \<Longrightarrow> guards P A m) \<Longrightarrow> (\<not> b \<Longrightarrow> guards P A n) \<Longrightarrow> guards P A (if b then m else n)"
  by simp

text \<open>\<open>calls P n m\<close>: \<open>m\<close> sends at most \<open>n\<close> requests of the kind \<open>P\<close>.\<close>

definition calls :: "(request \<Rightarrow> bool) \<Rightarrow> nat \<Rightarrow> (('w, 'z) net_state_scheme, 'a) prog \<Rightarrow> bool" where
  "calls P n m \<longleftrightarrow> (\<forall>s. \<exists>qs. sent (snd (m s)) = sent s @ qs \<and> length (filter P qs) \<le> n)"

lemma callsD:
  assumes "calls P n m" and "m s = (r, t)"
  obtains qs where "sent t = sent s @ qs" and "length (filter P qs) \<le> n"
  using assms unfolding calls_def by (metis snd_conv)

lemma calls_quiet: "(\<And>s. sent (snd (m s)) = sent s) \<Longrightarrow> calls P n m"
  by (simp add: calls_def exI [of _ "[]"])

lemma calls_basic [simp, intro]:
  "calls P n (ret x)" "calls P n (raise e)" "calls P n (asks g)" "calls P n (lift_res r)"
  by (simp_all add: calls_quiet)

lemma calls_send: "(P q \<longrightarrow> 0 < n) \<Longrightarrow> calls P n (send net q)"
  by (auto simp: calls_def)

lemma calls_mono: "calls P n m \<Longrightarrow> n \<le> k \<Longrightarrow> calls P k m"
  unfolding calls_def by (meson le_trans)

lemma calls_andthen:
  assumes "calls P a m" and "\<And>x. calls P b (g x)"
  shows "calls P (a + b) (andthen m g)"
  unfolding calls_def
proof
  fix s
  obtain r t where m: "m s = (r, t)" by (cases "m s")
  obtain qs where qs: "sent t = sent s @ qs" "length (filter P qs) \<le> a" by (rule callsD [OF assms(1) m])
  show "\<exists>qs. sent (snd (andthen m g s)) = sent s @ qs \<and> length (filter P qs) \<le> a + b"
  proof (cases r)
    case (Inr x)
    obtain r' t' where g: "g x t = (r', t')" by (cases "g x t")
    obtain qs' where "sent t' = sent t @ qs'" "length (filter P qs') \<le> b" by (rule callsD [OF assms(2) g])
    then show ?thesis using qs m g Inr by (intro exI [of _ "qs @ qs'"]) (simp add: andthen_def)
  qed (use qs m in \<open>auto simp: andthen_def\<close>)
qed

lemma calls_catch:
  assumes "calls P a m" and "\<And>e. calls P b (h e)"
  shows "calls P (a + b) (catch m h)"
  unfolding calls_def
proof
  fix s
  obtain r t where m: "m s = (r, t)" by (cases "m s")
  obtain qs where qs: "sent t = sent s @ qs" "length (filter P qs) \<le> a" by (rule callsD [OF assms(1) m])
  show "\<exists>qs. sent (snd (catch m h s)) = sent s @ qs \<and> length (filter P qs) \<le> a + b"
  proof (cases r)
    case (Inl e)
    obtain r' t' where h: "h e t = (r', t')" by (cases "h e t")
    obtain qs' where "sent t' = sent t @ qs'" "length (filter P qs') \<le> b" by (rule callsD [OF assms(2) h])
    then show ?thesis using qs m h Inl by (intro exI [of _ "qs @ qs'"]) (simp add: catch_def)
  qed (use qs m in \<open>auto simp: catch_def\<close>)
qed

lemma calls_if: "calls P n m \<Longrightarrow> calls P n k \<Longrightarrow> calls P n (if b then m else k)"
  by simp

lemma calls_option:
  "calls P n m \<Longrightarrow> (\<And>x. calls P n (k x)) \<Longrightarrow> calls P n (case v of None \<Rightarrow> m | Some x \<Rightarrow> k x)"
  by (cases v) auto

lemma calls_zero_andthen: "calls P 0 m \<Longrightarrow> (\<And>x. calls P n (g x)) \<Longrightarrow> calls P n (andthen m g)"
  using calls_andthen [of P 0 m n g] by simp

lemma calls_andthen_zero: "calls P n m \<Longrightarrow> (\<And>x. calls P 0 (g x)) \<Longrightarrow> calls P n (andthen m g)"
  using calls_andthen [of P n m 0 g] by simp

lemma calls_catch_zero: "calls P n m \<Longrightarrow> (\<And>e. calls P 0 (h e)) \<Longrightarrow> calls P n (catch m h)"
  using calls_catch [of P n m 0 h] by simp

end
