(* ===== verification/Jwt_Validation.thy ===== *)
theory Jwt_Validation
  imports Http
begin

text \<open>
  \<open>common/jwt_validation.py\<close>. PyJWT is third-party code: what the services call of it is the
  record below, with keys of an abstract type. \<open>jwt_decode\<close> takes the token, the key, the
  accepted algorithms, the audience, the issuer, the leeway and the current time.
\<close>

record 'k jwt_lib =
  jwt_header :: "string \<Rightarrow> exn + dict"
  jwt_from_jwk :: "dict \<Rightarrow> exn + 'k"
  jwt_decode :: "string \<Rightarrow> 'k \<Rightarrow> string list \<Rightarrow> string \<Rightarrow> string \<Rightarrow> int \<Rightarrow> real \<Rightarrow> exn + dict"
  jwt_encode_hs :: "dict \<Rightarrow> string \<Rightarrow> string"
  jwt_decode_hs :: "string \<Rightarrow> string \<Rightarrow> string list \<Rightarrow> real \<Rightarrow> exn + dict"
  jwt_decode_unverified :: "string \<Rightarrow> exn + dict"

definition ALLOWED_ALGORITHMS :: "string list" where
  "ALLOWED_ALGORITHMS = [''RS256'']"

definition DEFAULT_CLOCK_SKEW_SECONDS :: int where
  "DEFAULT_CLOCK_SKEW_SECONDS = 60"

definition resolve_leeway :: "environ \<Rightarrow> int" where
  "resolve_leeway E =
     (let raw = strip (getenv E ''JWT_CLOCK_SKEW_SECONDS'' '''')
      in if raw = [] then DEFAULT_CLOCK_SKEW_SECONDS
         else (case parse_int raw of
                 None \<Rightarrow> DEFAULT_CLOCK_SKEW_SECONDS
               | Some v \<Rightarrow> if v < 0 then 0 else v))"

text \<open>The loop over the JWKS entries. A key identifier is a string or absent.\<close>

fun find_key :: "(real \<Rightarrow> string) \<Rightarrow> 'k jwt_lib \<Rightarrow> json \<Rightarrow> json list \<Rightarrow> exn + 'k" where
  "find_key fr L kid [] = Inl (SigningKeyNotFound (''Signing key not found for kid='' @ py_str fr kid))"
| "find_key fr L kid (JObj e # es) =
     (if opt_json (dict_get e ''kid'') = kid then jwt_from_jwk L e else find_key fr L kid es)"
| "find_key fr L kid (_ # es) = Inl (AttributeError ''get'')"

definition select_signing_key ::
  "(real \<Rightarrow> string) \<Rightarrow> 'k jwt_lib \<Rightarrow> dict \<Rightarrow> string \<Rightarrow> exn + 'k" where
  "select_signing_key fr L jwks token =
     bind_res (jwt_header L token) (\<lambda>header.
       (let kid = opt_json (dict_get header ''kid'')
        in bind_res (py_list (get_or jwks ''keys'' (JList []))) (find_key fr L kid)))"

definition decode_rs256 ::
  "'k jwt_lib \<Rightarrow> int \<Rightarrow> real \<Rightarrow> string \<Rightarrow> 'k \<Rightarrow> string \<Rightarrow> string \<Rightarrow> int option \<Rightarrow> exn + dict" where
  "decode_rs256 L clock_skew now token key audience issuer leeway =
     jwt_decode L token key ALLOWED_ALGORITHMS audience issuer
       (case leeway of None \<Rightarrow> clock_skew | Some l \<Rightarrow> l) now"

definition token_issuer :: "string \<Rightarrow> string \<Rightarrow> string" where
  "token_issuer is_base_url tenant = is_base_url @ tenant @ ''/oauth2/token''"

definition jwks_url :: "string \<Rightarrow> string \<Rightarrow> string" where
  "jwks_url is_base_url tenant = is_base_url @ tenant @ ''/oauth2/jwks''"

lemma resolve_leeway_nonneg: "0 \<le> resolve_leeway E"
  by (auto simp: resolve_leeway_def DEFAULT_CLOCK_SKEW_SECONDS_def Let_def split: option.splits)

lemma find_key_Inr:
  "find_key fr L kid es = Inr k \<Longrightarrow>
   \<exists>e. JObj e \<in> set es \<and> opt_json (dict_get e ''kid'') = kid \<and> jwt_from_jwk L e = Inr k"
  by (induction fr L kid es rule: find_key.induct) (auto split: if_splits)

lemma select_signing_key_Inr:
  assumes "select_signing_key fr L jwks token = Inr k"
  shows "\<exists>h es e. jwt_header L token = Inr h \<and> py_list (get_or jwks ''keys'' (JList [])) = Inr es \<and>
    JObj e \<in> set es \<and> opt_json (dict_get e ''kid'') = opt_json (dict_get h ''kid'') \<and>
    jwt_from_jwk L e = Inr k"
  using assms by (auto simp: select_signing_key_def bind_res_Inr_conv Let_def dest!: find_key_Inr)

end
