(* ===== verification/Redaction.thy ===== *)
theory Redaction
  imports Json
begin

text \<open>
  \<open>common/fastapi_errors.py\<close> and \<open>common/safe_auth_logger.py\<close>: what the services write to
  their logs and error responses about request bodies, token responses and claims, with the
  secret parts masked. A logging call is the text of the line it writes; \<open>fr\<close> is the text of
  a float.
\<close>

subsection \<open>Request bodies\<close>

definition SENSITIVE_PARTS :: "string list" where
  "SENSITIVE_PARTS = [''secret'', ''key'', ''password'', ''token'']"

definition sensitive_key :: "string \<Rightarrow> bool" where
  "sensitive_key k \<longleftrightarrow> list_ex (\<lambda>s. contains (lower k) s) SENSITIVE_PARTS"

fun mask_dict :: "dict \<Rightarrow> dict" where
  "mask_dict [] = []"
| "mask_dict ((k, v) # d) =
     (k, (case v of
            JObj e \<Rightarrow> JObj (mask_dict e)
          | _ \<Rightarrow> if sensitive_key k then JStr ''[MASKED]'' else v)) # mask_dict d"

definition mask_request_body :: "(real \<Rightarrow> string) \<Rightarrow> (string \<Rightarrow> real) \<Rightarrow> string \<Rightarrow> string" where
  "mask_request_body fr fp body =
     (case (if body \<noteq> [] then loads fp body else Some (JObj [])) of
        None \<Rightarrow> ''<unreadable>''
      | Some (JObj d) \<Rightarrow> dumps fr (JObj (mask_dict d))
      | Some _ \<Rightarrow> ''<empty>'')"

text \<open>A response: its status and its JSON content. The log line is returned with it.\<close>

definition handle_validation_error ::
  "(real \<Rightarrow> string) \<Rightarrow> (string \<Rightarrow> real) \<Rightarrow> string \<Rightarrow> string \<Rightarrow> json \<Rightarrow> string \<Rightarrow> (int \<times> json) \<times> string" where
  "handle_validation_error fr fp app_name path errors body =
     (let masked_body = mask_request_body fr fp body
      in ((422, JObj [(''detail'', errors), (''body'', JStr masked_body)]),
          app_name @ '' Validation Error! Path: '' @ path @ '', Errors: '' @ py_str fr errors @
          '', Masked Body: '' @ masked_body))"

definition handle_global_error ::
  "(real \<Rightarrow> string) \<Rightarrow> (string \<Rightarrow> real) \<Rightarrow> string \<Rightarrow> string \<Rightarrow> dict \<Rightarrow> exn \<Rightarrow> string \<Rightarrow> string
     \<Rightarrow> exn + (int \<times> json) \<times> string" where
  "handle_global_error fr fp app_name path query exc exc_text body =
     (case exc of
        HttpError _ _ \<Rightarrow> Inl exc
      | RequestValidationError \<Rightarrow> Inl exc
      | _ \<Rightarrow>
          Inr ((500, JObj [(''detail'', JStr ''Internal Server Error'')]),
               ''Unhandled exception in '' @ app_name @ ''! Path: '' @ path @ '', Query: '' @
               py_str fr (JObj query) @ '', Masked Body: '' @ mask_request_body fr fp body @
               ''  Detail: '' @ exc_text))"

subsection \<open>Token responses\<close>

definition TOKEN_FIELD_NAMES :: "string list" where
  "TOKEN_FIELD_NAMES = [''access_token'', ''refresh_token'', ''id_token'', ''code'', ''client_secret'']"

abbreviation quote :: char where "quote \<equiv> CHR 0x22"

text \<open>
  One match of the pattern at the start of the text: a quoted field name, white space, a
  colon, white space, an opening quote, then everything up to the next quote. The result is
  the first group and the rest after the closing quote.
\<close>

definition match_name :: "string \<Rightarrow> string option" where
  "match_name s = find (\<lambda>n. startswith s ([quote] @ n @ [quote])) TOKEN_FIELD_NAMES"

definition match_field :: "string \<Rightarrow> (string \<times> string) option" where
  "match_field s =
     (case match_name s of
        None \<Rightarrow> None
      | Some n \<Rightarrow>
          (let head = [quote] @ n @ [quote];
               s1 = drop (length head) s;
               w1 = takeWhile is_space s1; s2 = dropWhile is_space s1
           in case s2 of
                [] \<Rightarrow> None
              | c # s3 \<Rightarrow>
                  if c \<noteq> CHR '':'' then None
                  else
                    (let w2 = takeWhile is_space s3; s4 = dropWhile is_space s3
                     in case s4 of
                          [] \<Rightarrow> None
                        | q # s5 \<Rightarrow>
                            if q \<noteq> quote then None
                            else
                              (case dropWhile (\<lambda>x. x \<noteq> quote) s5 of
                                 [] \<Rightarrow> None
                               | _ # rest \<Rightarrow> Some (head @ w1 @ [CHR '':''] @ w2 @ [quote], rest)))))"

lemma dropWhile_Cons_shorter: "dropWhile P xs = y # ys \<Longrightarrow> length ys < length xs"
  using length_dropWhile_le [of P xs] by simp

lemma match_field_shorter:
  assumes "match_field s = Some (p, rest)"
  shows "length rest < length s"
proof -
  obtain n where n: "match_name s = Some n"
    using assms by (auto simp: match_field_def split: option.splits)
  define s1 where "s1 = drop (length ([quote] @ n @ [quote])) s"
  obtain s3 s5 q where "dropWhile is_space s1 = CHR '':'' # s3"
    "dropWhile is_space s3 = quote # s5" "dropWhile (\<lambda>x. x \<noteq> quote) s5 = q # rest"
    using assms
    by (auto simp: match_field_def Let_def n s1_def split: list.splits if_splits)
  from this [THEN dropWhile_Cons_shorter] have "length rest < length s1" by simp
  also have "length s1 \<le> length s" by (simp add: s1_def)
  finally show ?thesis .
qed

function redact :: "string \<Rightarrow> string" where
  "redact s =
     (case match_field s of
        Some (p, rest) \<Rightarrow> p @ ''[REDACTED]'' @ [quote] @ redact rest
      | None \<Rightarrow> (case s of [] \<Rightarrow> [] | c # cs \<Rightarrow> c # redact cs))"
  by pat_completeness auto
termination
  by (relation "measure length") (auto dest: match_field_shorter)

declare redact.simps [simp del]

definition redact_token_json :: "string \<Rightarrow> string" where
  "redact_token_json t = (if t = [] then t else redact t)"

text \<open>
  What \<open>log_token_error\<close> is given: a response (its status and text), a parsed dict, or
  anything else (its type's name).
\<close>

datatype token_data = Response int string | Parsed dict | Unknown string

definition log_token_error ::
  "(real \<Rightarrow> string) \<Rightarrow> string \<Rightarrow> token_data \<Rightarrow> string option \<Rightarrow> string \<Rightarrow> string" where
  "log_token_error fr grant_type data thread_id pre =
     (let thread = (case thread_id of None \<Rightarrow> ''-'' | Some t \<Rightarrow> if t = [] then ''-'' else t)
      in case data of
           Response status txt \<Rightarrow>
             pre @ '' (grant='' @ grant_type @ '', http='' @ str_int status @ '', thread='' @ thread @
             ''): '' @ redact_token_json (take 500 txt)
         | Parsed d \<Rightarrow>
             (let has_token = list_ex (\<lambda>k. dict_get d k \<noteq> None) TOKEN_FIELD_NAMES;
                  error = or_else (opt_json (dict_get d ''error''))
                            (opt_json (dict_get d ''error_description''))
              in pre @ '' (grant='' @ grant_type @ '', has_token='' @ py_str fr (JBool has_token) @
                 '', keys='' @ py_repr fr (JList (map (JStr \<circ> fst) d)) @ '', error='' @
                 py_str fr error @ '', thread='' @ thread @ '')'')
         | Unknown ty \<Rightarrow>
             pre @ '' (grant='' @ grant_type @ '', thread='' @ thread @ '', data_type='' @ ty @ '')'')"

subsection \<open>Claim summaries\<close>

definition SUMMARISED_CLAIMS :: "string list" where
  "SUMMARISED_CLAIMS = [''sub'', ''org_id'', ''user_org'', ''email'', ''scope'', ''act'', ''aut'']"

definition mask_token :: "nat \<Rightarrow> string \<Rightarrow> string" where
  "mask_token visible token =
     (if token = [] \<or> length token \<le> visible then token
      else take visible token @ ''...'' @ drop (length token - 4) token)"

definition shorten_id :: "nat \<Rightarrow> string \<Rightarrow> string" where
  "shorten_id visible value =
     (if value = [] then ''-''
      else if length value \<le> visible then value
      else take visible value @ [CHR 0x85])"

definition mask_email :: "string \<Rightarrow> string" where
  "mask_email email =
     (if email = [] \<or> CHR ''@'' \<notin> set email then (if email = [] then ''-'' else ''***'')
      else
        (case partition_char (CHR ''@'') email of (loc, _, domain) \<Rightarrow>
           (case partition_char (CHR ''.'') domain of (domain_head, dot, tld) \<Rightarrow>
              (let masked_domain = (if domain_head \<noteq> [] then take 1 domain_head @ ''***'' else ''***'');
                   masked_domain = (if dot then masked_domain @ ''.'' @ tld else masked_domain)
               in take 1 loc @ ''***@'' @ masked_domain))))"

text \<open>
  \<open>scope.split() if isinstance(scope, str) else list(scope or [])\<close>, which both
  \<open>format_claims\<close> and \<open>verify_service_claims\<close> apply to the scope claim.
\<close>

definition scope_list :: "json \<Rightarrow> exn + json list" where
  "scope_list scope =
     (case scope of
        JStr s \<Rightarrow> Inr (map JStr (split_ws s))
      | _ \<Rightarrow> py_list (or_else scope (JList [])))"

text \<open>\<open>sep.join(xs)\<close>, which takes strings only.\<close>

definition as_strings :: "json list \<Rightarrow> exn + string list" where
  "as_strings xs =
     (if list_all is_str xs then Inr (map (\<lambda>v. case v of JStr s \<Rightarrow> s | _ \<Rightarrow> []) xs)
      else Inl (TypeError ''sequence item: expected str instance''))"

definition format_claims :: "(real \<Rightarrow> string) \<Rightarrow> json \<Rightarrow> exn + string" where
  "format_claims fr decoded =
     (case decoded of
        JObj d \<Rightarrow>
          (let org = or_else (or_else (get_or d ''org_id'' (JStr ''''))
                                      (get_or d ''user_org'' (JStr ''''))) (JStr ''-'')
           in bind_res (scope_list (get_or d ''scope'' (JStr ''''))) (\<lambda>scopes.
              (let act = or_else (opt_json (dict_get d ''act'')) (JObj []);
                   actor = (case act of JObj a \<Rightarrow> get_or a ''sub'' (JStr '''') | _ \<Rightarrow> JStr '''')
               in bind_res (as_strings scopes) (\<lambda>names.
                  (let parts =
                         [''sub='' @ shorten_id 8 (py_str fr (get_or d ''sub'' (JStr ''''))),
                          ''org='' @ py_str fr org,
                          ''aut='' @ py_str fr (get_or d ''aut'' (JStr ''-'')),
                          ''scope=['' @ join_str '','' names @ '']''];
                       parts = (if truthy actor
                                then parts @ [''act.sub='' @ shorten_id 8 (py_str fr actor)] else parts);
                       email = opt_json (dict_get d ''email'');
                       parts = (if truthy email
                                then parts @ [''email='' @ mask_email (py_str fr email)] else parts);
                       extra = length (filter (\<lambda>k. k \<notin> set SUMMARISED_CLAIMS) (map fst d));
                       parts = (if extra \<noteq> 0
                                then parts @ [''(+'' @ str_nat extra @ '' more claims)''] else parts)
                   in Inr (join_str '' '' parts))))))
      | _ \<Rightarrow> Inr ''<no claims>'')"

subsection \<open>Masked bodies\<close>

text \<open>The value a path of keys leads to through nested dicts.\<close>

fun json_at :: "json \<Rightarrow> string list \<Rightarrow> json option" where
  "json_at v [] = Some v"
| "json_at (JObj d) (k # ks) =
     (case dict_get d k of None \<Rightarrow> None | Some v \<Rightarrow> json_at v ks)"
| "json_at _ (k # ks) = None"

definition masked_at :: "string \<Rightarrow> json \<Rightarrow> json" where
  "masked_at k v =
     (case v of JObj e \<Rightarrow> JObj (mask_dict e)
      | _ \<Rightarrow> if sensitive_key k then JStr ''[MASKED]'' else v)"

lemma mask_dict_map: "mask_dict d = map (\<lambda>(k, v). (k, masked_at k v)) d"
  by (induction d) (auto simp: masked_at_def split: json.splits)

declare mask_dict.simps [simp del]

lemma dict_get_mask [simp]: "dict_get (mask_dict d) k = map_option (masked_at k) (dict_get d k)"
  by (induction d) (auto simp: mask_dict_map)

lemma mask_dict_keys: "map fst (mask_dict d) = map fst d"
  by (induction d) (auto simp: mask_dict_map)

lemma masked_at_idem [simp]: "masked_at k (masked_at k v) = masked_at k v"
  by (induction v arbitrary: k) (auto simp: masked_at_def mask_dict_map split: json.splits)

lemma json_at_masked:
  "json_at (masked_at k v) (ks @ [l]) = map_option (masked_at l) (json_at v (ks @ [l]))"
proof (induction ks arbitrary: k v)
  case Nil
  then show ?case by (cases v) (auto simp: masked_at_def split: option.splits)
next
  case (Cons a ks)
  then show ?case by (cases v) (auto simp: masked_at_def split: option.splits)
qed

subsection \<open>Redaction of token JSON\<close>

definition plain :: "string \<Rightarrow> bool" where
  "plain s \<longleftrightarrow> list_all (\<lambda>c. 32 \<le> ord c \<and> ord c \<le> 126 \<and> ord c \<noteq> 34 \<and> ord c \<noteq> 92) s"

lemma plain_no_quote: "plain s \<Longrightarrow> quote \<notin> set s"
  by (auto simp: plain_def list_all_iff)

lemma dump_str_plain: "plain s \<Longrightarrow> dump_str s = quote # s @ [quote]"
proof -
  have "plain s \<Longrightarrow> concat (map dump_char s) = s"
    by (induction s) (auto simp: plain_def dump_char_def Let_def)
  then show "plain s \<Longrightarrow> ?thesis" by (simp add: dump_str_def)
qed

lemma names_no_quote: "n \<in> set TOKEN_FIELD_NAMES \<Longrightarrow> quote \<notin> set n"
  by (auto simp: TOKEN_FIELD_NAMES_def)

lemma startswith_quoted:
  assumes "quote \<notin> set k" and "quote \<notin> set n"
  shows "startswith (quote # k @ quote # rest) ([quote] @ n @ [quote]) \<longleftrightarrow> n = k"
proof
  assume "startswith (quote # k @ quote # rest) ([quote] @ n @ [quote])"
  then have "prefix ([quote] @ n @ [quote]) (quote # k @ quote # rest)"
    by (simp only: startswith_iff_prefix)
  then obtain z where "quote # k @ quote # rest = ([quote] @ n @ [quote]) @ z" by (rule prefixE)
  then show "n = k" using append_sep_eq [OF assms, of rest z] by simp
qed (simp add: startswith_def)

lemma match_nameD:
  assumes "match_name s = Some n"
  shows "n \<in> set TOKEN_FIELD_NAMES \<and> startswith s ([quote] @ n @ [quote])"
  using assms find_SomeD [of "\<lambda>n. startswith s ([quote] @ n @ [quote])" TOKEN_FIELD_NAMES n]
  by (simp only: match_name_def)

lemma match_name_quoted:
  assumes "quote \<notin> set k"
  shows "match_name (quote # k @ quote # rest) = (if k \<in> set TOKEN_FIELD_NAMES then Some k else None)"
proof (cases "match_name (quote # k @ quote # rest)")
  case None
  then have "\<not> startswith (quote # k @ quote # rest) ([quote] @ n @ [quote])"
    if "n \<in> set TOKEN_FIELD_NAMES" for n
    using that by (auto simp: match_name_def find_None_iff)
  with startswith_quoted [OF assms] have "k \<notin> set TOKEN_FIELD_NAMES"
    using names_no_quote by blast
  then show ?thesis by (simp add: None)
next
  case (Some n)
  have n: "n \<in> set TOKEN_FIELD_NAMES \<and> startswith (quote # k @ quote # rest) ([quote] @ n @ [quote])"
    by (rule match_nameD [OF Some])
  then have "n = k"
    using startswith_quoted [OF assms, of n rest] names_no_quote [of n] by blast
  with n Some show ?thesis by (simp only: if_True)
qed

lemma match_name_no_quote: "c \<noteq> quote \<Longrightarrow> match_name (c # s) = None"
  by (auto simp: match_name_def find_None_iff startswith_def)

lemma match_name_sep: "c \<in> {CHR '':'', CHR '','', CHR ''}''} \<Longrightarrow> match_name (quote # c # s) = None"
  by (auto simp: match_name_def find_None_iff startswith_def TOKEN_FIELD_NAMES_def)

lemma redact_skip: "match_field (c # s) = None \<Longrightarrow> redact (c # s) = c # redact s"
  by (subst redact.simps) simp

lemma redact_Nil [simp]: "redact [] = []"
  by (subst redact.simps) (simp add: match_field_def match_name_def find_None_iff startswith_def
      TOKEN_FIELD_NAMES_def)

lemma redact_char: "c \<noteq> quote \<Longrightarrow> redact (c # s) = c # redact s"
  by (rule redact_skip) (simp add: match_field_def match_name_no_quote)

lemma redact_no_quote: "quote \<notin> set w \<Longrightarrow> redact (w @ s) = w @ redact s"
  by (induction w) (auto simp: redact_char)

lemma redact_sep:
  "c \<in> {CHR '':'', CHR '','', CHR ''}''} \<Longrightarrow> redact (quote # c # s) = quote # c # redact s"
  by (subst redact_skip) (auto simp: match_field_def match_name_sep redact_char)

lemma dropWhile_no_quote: "quote \<notin> set w \<Longrightarrow> dropWhile (\<lambda>x. x \<noteq> quote) w = []"
  by (induction w) auto

lemma redact_last_quote:
  assumes "quote \<notin> set w"
  shows "redact (quote # w) = quote # w"
proof -
  have "match_name (quote # w) = None"
  proof (cases "match_name (quote # w)")
    case (Some n)
    then have "prefix ([quote] @ n @ [quote]) (quote # w)"
      using match_nameD [OF Some] by (simp only: startswith_iff_prefix)
    then have "quote \<in> set w" by (auto simp: prefix_def)
    with assms show ?thesis by simp
  qed
  then show ?thesis
    using redact_no_quote [OF assms, of "[]"] by (simp add: redact_skip match_field_def)
qed

lemma redact_key:
  assumes "quote \<notin> set k" and "k \<notin> set TOKEN_FIELD_NAMES"
  shows "redact (quote # k @ quote # s) = quote # k @ redact (quote # s)"
  using assms by (simp add: redact_skip match_field_def match_name_quoted redact_no_quote)

lemma redact_value:
  assumes "quote \<notin> set v" and "c = CHR '','' \<or> c = CHR ''}''"
  shows "redact (quote # v @ quote # c # s) = quote # v @ quote # c # redact s"
proof -
  have "match_field (quote # v @ quote # c # s) = None"
    using assms by (auto simp: match_field_def Let_def match_name_quoted is_space_def)
  then show ?thesis using assms by (auto simp: redact_skip redact_no_quote redact_sep)
qed

lemma redact_field:
  assumes "k \<in> set TOKEN_FIELD_NAMES" and "quote \<notin> set v"
  shows "redact (quote # k @ quote # CHR '':'' # CHR '' '' # quote # v @ quote # s) =
     quote # k @ quote # CHR '':'' # CHR '' '' # quote # ''[REDACTED]'' @ quote # redact s"
proof -
  have "match_field (quote # k @ quote # CHR '':'' # CHR '' '' # quote # v @ quote # s) =
      Some (quote # k @ quote # CHR '':'' # CHR '' '' # [quote], s)"
    using assms names_no_quote [OF assms(1)] dropWhile_neq_append [OF assms(2)]
    by (simp add: match_field_def Let_def match_name_quoted is_space_def)
  then show ?thesis by (subst redact.simps) simp
qed

definition mask_field :: "string \<times> string \<Rightarrow> string \<times> json" where
  "mask_field p =
     (fst p, JStr (if fst p \<in> set TOKEN_FIELD_NAMES then ''[REDACTED]'' else snd p))"

definition field_text :: "(real \<Rightarrow> string) \<Rightarrow> string \<times> json \<Rightarrow> string" where
  "field_text fr = (\<lambda>(k, v). dump_str k @ '': '' @ dumps fr v)"

lemma redact_one:
  assumes "plain k" and "plain v" and "c = CHR '','' \<or> c = CHR ''}''"
  shows "redact (field_text fr (k, JStr v) @ c # s) = field_text fr (mask_field (k, v)) @ c # redact s"
proof (cases "k \<in> set TOKEN_FIELD_NAMES")
  case True
  have "plain ''[REDACTED]''" by (simp add: plain_def)
  with True show ?thesis
    using assms redact_field [OF True plain_no_quote [OF assms(2)], of "c # s"]
    by (auto simp: field_text_def dump_str_plain mask_field_def redact_char)
next
  case False
  then show ?thesis
    using assms redact_key [OF plain_no_quote [OF assms(1)] False]
      redact_value [OF plain_no_quote [OF assms(2)] assms(3)]
    by (auto simp: field_text_def dump_str_plain mask_field_def redact_sep redact_char)
qed

lemma redact_fields:
  assumes "\<forall>p \<in> set d. plain (fst p) \<and> plain (snd p)"
  shows "redact (join_str '', '' (map (field_text fr) (map (\<lambda>(k, v). (k, JStr v)) d)) @ ''}'') =
    join_str '', '' (map (field_text fr) (map mask_field d)) @ ''}''"
  using assms
proof (induction d)
  case (Cons p d)
  obtain k v where p: "p = (k, v)" by (cases p)
  have kv: "plain k" "plain v" using Cons.prems by (simp_all add: p)
  show ?case
  proof (cases d)
    case Nil
    then show ?thesis using redact_one [OF kv, where c = "CHR ''}''" and s = "[]"] by (simp add: p)
  next
    case (Cons q e)
    then show ?thesis
      using redact_one [OF kv, where c = "CHR '',''"] Cons.IH Cons.prems
      by (simp add: p redact_char)
  qed
qed (simp add: redact_char)

subsection \<open>Properties\<close>

text \<open>
  a token response in the form \<open>json.dumps\<close> writes is logged with every token field
  replaced and nothing else changed: \<open>redact_token_json\<close> of the text of a dict of strings is
  the text of that dict with the values of the token fields set to \<open>[REDACTED]\<close>. Keys and
  values are printable and free of quotes and backslashes, as tokens and codes are.
\<close>

theorem token_json_redacted:
  assumes "\<forall>p \<in> set d. plain (fst p) \<and> plain (snd p)"
  shows "redact_token_json (dumps fr (JObj (map (\<lambda>(k, v). (k, JStr v)) d))) =
    dumps fr (JObj (map (\<lambda>(k, v).
      (k, JStr (if k \<in> set TOKEN_FIELD_NAMES then ''[REDACTED]'' else v))) d))"
proof -
  have "(\<lambda>(k, v). (k, JStr (if k \<in> set TOKEN_FIELD_NAMES then ''[REDACTED]'' else v))) = mask_field"
    by (auto simp: mask_field_def)
  then show ?thesis
    using redact_fields [OF assms, of fr]
    by (simp only: redact_token_json_def dumps.simps field_text_def)
       (simp add: redact_char del: map_map)
qed

theorem token_json_redacted_witness:
  "redact_token_json (dumps (\<lambda>_. []) (JObj [(''access_token'', JStr ''eyJx''), (''scope'', JStr ''a b'')])) =
   dumps (\<lambda>_. []) (JObj [(''access_token'', JStr ''[REDACTED]''), (''scope'', JStr ''a b'')])"
  using token_json_redacted [where d = "[(''access_token'', ''eyJx''), (''scope'', ''a b'')]" and fr = "\<lambda>_. []"]
  by (simp add: plain_def TOKEN_FIELD_NAMES_def)

text \<open>
  masking a request body reaches every value at the end of a path of keys through nested
  dicts, at any depth: the value is replaced when its key looks secret, a nested dict is
  masked in turn, every other value and every key stays, and no path appears or disappears.
\<close>

theorem body_masked_at_every_depth:
  "json_at (JObj (mask_dict d)) (ks @ [k]) =
   map_option (\<lambda>v. case v of JObj e \<Rightarrow> JObj (mask_dict e)
     | _ \<Rightarrow> if sensitive_key k then JStr ''[MASKED]'' else v) (json_at (JObj d) (ks @ [k]))"
proof -
  have "masked_at [] (JObj d) = JObj (mask_dict d)" by (simp add: masked_at_def)
  then show ?thesis
    using json_at_masked [of "[]" "JObj d" ks k] by (simp add: masked_at_def [abs_def])
qed

text \<open>
  the log line of a token error cuts the response text to 500 characters before it redacts,
  so an access token whose closing quote lies beyond the cut is not recognised as a field:
  its first 482 characters are logged as they are.
\<close>

theorem long_token_is_logged:
  assumes "quote \<notin> set tok" and "482 \<le> length tok"
  shows "log_token_error fr ''authorization_code''
      (Response 400 (''{'' @ [quote] @ ''access_token'' @ [quote] @ '': '' @ [quote] @ tok @ [quote] @ ''}''))
      None ''Token endpoint error'' =
    ''Token endpoint error (grant=authorization_code, http=400, thread=-): {'' @ [quote] @
      ''access_token'' @ [quote] @ '': '' @ [quote] @ take 482 tok"
proof -
  let ?w = "take 482 tok"
  have status: "str_nat 400 = ''400''" by code_simp
  have q: "quote \<notin> set ?w" using assms(1) set_take_subset by fastforce
  have "match_field (quote # ''access_token'' @ quote # '': '' @ quote # ?w) = None"
    using match_name_quoted [of "''access_token''" "'': '' @ quote # ?w"]
    by (simp add: dropWhile_no_quote [OF q] match_field_def Let_def TOKEN_FIELD_NAMES_def is_space_def)
  then have "redact (quote # ''access_token'' @ quote # '': '' @ quote # ?w) =
      quote # redact (''access_token'' @ quote # '': '' @ quote # ?w)"
    by (rule redact_skip)
  also have "redact (''access_token'' @ quote # '': '' @ quote # ?w) =
      ''access_token'' @ quote # '': '' @ redact (quote # ?w)"
    by (simp add: redact_char redact_sep)
  also have "redact (quote # ?w) = quote # ?w" by (rule redact_last_quote [OF q])
  finally show ?thesis
    using assms(2) status
    by (simp add: log_token_error_def redact_token_json_def redact_char str_int_def)
qed

theorem long_token_is_logged_witness:
  "drop (length (log_token_error (\<lambda>_. '''') ''authorization_code''
      (Response 400 (''{'' @ [quote] @ ''access_token'' @ [quote] @ '': '' @ [quote] @
        replicate 600 (CHR ''A'') @ [quote] @ ''}'')) None ''Token endpoint error'') - 482)
      (log_token_error (\<lambda>_. '''') ''authorization_code''
      (Response 400 (''{'' @ [quote] @ ''access_token'' @ [quote] @ '': '' @ [quote] @
        replicate 600 (CHR ''A'') @ [quote] @ ''}'')) None ''Token endpoint error'') =
   replicate 482 (CHR ''A'')"
proof -
  have q: "quote \<notin> set (replicate 600 (CHR ''A''))" by simp
  have l: "482 \<le> length (replicate 600 (CHR ''A''))" by simp
  show ?thesis unfolding long_token_is_logged [OF q l] by simp
qed

text \<open>Dicts inside a list are not masked.\<close>

theorem list_items_not_masked:
  assumes "\<not> sensitive_key k"
  shows "mask_dict [(k, JList xs)] = [(k, JList xs)]"
  using assms by (simp add: mask_dict.simps)

end
