(* ===== verification/Timed_Cache.thy ===== *)
theory Timed_Cache
  imports Prelude
begin

text \<open>
  The contract of the caches with a lifetime: the service tokens of \<open>common/m2m_auth.py\<close>, the key sets
  of \<open>api/auth.py\<close> and \<open>agent/mcp_server.py\<close>, and the agent's configuration
  (\<open>agent/agent_config_cache.py\<close>). Each looks up by a key, and stores something that it serves for a
  while. The theories of the four interpret the locale on their own operations.
\<close>

text \<open>
  \<open>tick\<close> lets time pass. \<open>same\<close> says which keys share an entry; \<open>good\<close> which things to store leave an
  entry, with what it serves and for how long.
\<close>

locale timed_cache =
  fixes tick :: "real \<Rightarrow> 's \<Rightarrow> 's"
    and look :: "'k \<Rightarrow> 's \<Rightarrow> 'v option"
    and put :: "'k \<Rightarrow> 'p \<Rightarrow> 's \<Rightarrow> 's"
    and same :: "'k \<Rightarrow> 'k \<Rightarrow> bool"
    and good :: "'p \<Rightarrow> bool"
    and payload :: "'p \<Rightarrow> 'v"
    and life :: "'p \<Rightarrow> real"
  assumes served: "good p \<Longrightarrow> same k' k \<Longrightarrow> 0 \<le> dt \<Longrightarrow> dt < life p \<Longrightarrow> look k' (tick dt (put k p s)) = Some (payload p)"
    and expired: "good p \<Longrightarrow> same k' k \<Longrightarrow> life p \<le> dt \<Longrightarrow> look k' (tick dt (put k p s)) = None"
    and other: "good p \<Longrightarrow> \<not> same k' k \<Longrightarrow> look k' (put k p s) = None \<or> look k' (put k p s) = look k' s"
    and waiting: "0 \<le> dt \<Longrightarrow> look k (tick dt s) = None \<or> look k (tick dt s) = look k s"
    and own_key: "same k k"
begin

lemma lifetime: "good p \<Longrightarrow> 0 \<le> dt \<Longrightarrow> look k (tick dt (put k p s)) = (if dt < life p then Some (payload p) else None)"
  using served [OF _ own_key] expired [OF _ own_key] by (simp add: not_less)

text \<open>What is found was stored last under its key, or was there before.\<close>

lemma origin:
  assumes "good p" and "0 \<le> dt" and "look k' (tick dt (put k p s)) = Some v"
  shows "(same k' k \<and> v = payload p \<and> dt < life p) \<or> (\<not> same k' k \<and> look k' s = Some v)"
proof (cases "same k' k")
  case True
  then show ?thesis using served [OF assms(1) True assms(2), of s] expired [OF assms(1) True, of dt s] assms(3)
    by (cases "dt < life p") (auto simp: not_less)
next
  case False
  then show ?thesis using waiting [OF assms(2), of k' "put k p s"] other [OF assms(1) False, of s] assms(3) by auto
qed

text \<open>A history: things stored under keys, and the time that passed after each.\<close>

fun stored :: "('k \<times> 'p \<times> real) list \<Rightarrow> 's \<Rightarrow> 's" where
  "stored [] s = s"
| "stored ((k, p, dt) # h) s = stored h (tick dt (put k p s))"

lemma found_was_stored:
  assumes "\<forall>(k, p, dt) \<in> set h. good p \<and> 0 \<le> dt" and "look k' (stored h s) = Some v"
  shows "look k' s = Some v \<or> (\<exists>(k, p, dt) \<in> set h. same k' k \<and> v = payload p \<and> dt < life p)"
  using assms
proof (induction h arbitrary: s)
  case (Cons e h)
  obtain k p dt where e: "e = (k, p, dt)" by (metis prod_cases3)
  have now: "good p" "0 \<le> dt" using Cons.prems(1) e by auto
  from Cons have "look k' (tick dt (put k p s)) = Some v \<or>
      (\<exists>(k, p, dt) \<in> set h. same k' k \<and> v = payload p \<and> dt < life p)"
    using e by auto
  then show ?case using origin [OF now, of k' k s v] e by auto
qed simp

end

end
