(* ===== verification/M2M_Auth.thy ===== *)
theory M2M_Auth
  imports Jwt_Validation Redaction Timed_Cache
begin

text \<open>
  \<open>common/m2m_auth.py\<close>: client-credentials tokens between the services. The calling side is
  \<open>ServiceTokenClient\<close>, a cache of tokens over the token endpoint; the receiving side parses
  the header, verifies the token and requires the service scope. One handler runs at a time,
  so the cache lock is not modelled.
\<close>

definition SERVICE_SCOPE :: string where "SERVICE_SCOPE = ''teamspace_internal_service''"
definition SERVICE_AUTH_HEADER :: string where "SERVICE_AUTH_HEADER = ''X-Service-Authorization''"
definition EXPIRY_SKEW_SECONDS :: int where "EXPIRY_SKEW_SECONDS = 30"
definition DEFAULT_LIFETIME_SECONDS :: int where "DEFAULT_LIFETIME_SECONDS = 300"

record m2m_config =
  m_is_base_url :: string
  m_tenant_path :: string
  m_client_id :: string
  m_client_secret :: string
  m_scope :: string

definition token_url :: "m2m_config \<Rightarrow> string" where
  "token_url c = m_is_base_url c @ m_tenant_path c @ ''/oauth2/token''"

definition is_usable :: "m2m_config \<Rightarrow> bool" where
  "is_usable c \<longleftrightarrow> m_client_id c \<noteq> [] \<and> m_client_secret c \<noteq> [] \<and> m_is_base_url c \<noteq> []"

type_synonym cache_key = "string \<times> string \<times> string"

definition cache_key :: "m2m_config \<Rightarrow> cache_key" where
  "cache_key c = (token_url c, m_client_id c, m_scope c)"

record cached_token =
  tok_value :: json
  tok_expires_at :: real

subsection \<open>The calling side\<close>

record 'w m2m_state = "'w net_state" +
  tok_cache :: "cache_key \<Rightarrow> cached_token option"
  m2m_log :: "string list"

definition cached :: "m2m_config \<Rightarrow> ('w, 'z) m2m_state_scheme \<Rightarrow> json option" where
  "cached c s =
     (case tok_cache s (cache_key c) of
        Some e \<Rightarrow> if mono s < tok_expires_at e then Some (tok_value e) else None
      | None \<Rightarrow> None)"

text \<open>\<open>int(expires_in)\<close>, with the fallback for what it raises.\<close>

definition token_lifetime :: "json \<Rightarrow> int" where
  "token_lifetime expires_in =
     (case py_int expires_in of Inr n \<Rightarrow> n | Inl _ \<Rightarrow> DEFAULT_LIFETIME_SECONDS)"

definition token_ttl :: "json \<Rightarrow> int" where
  "token_ttl expires_in = max (token_lifetime expires_in - EXPIRY_SKEW_SECONDS) 1"

definition store_token :: "m2m_config \<Rightarrow> json \<Rightarrow> json \<Rightarrow> (('w, 'z) m2m_state_scheme, json) prog" where
  "store_token c token expires_in =
     andthen
       (modify (\<lambda>s. s\<lparr>tok_cache := (tok_cache s)(cache_key c \<mapsto>
          \<lparr>tok_value = token, tok_expires_at = mono s + of_int (token_ttl expires_in)\<rparr>)\<rparr>))
       (\<lambda>_. ret token)"

definition invalidate :: "('w, 'z) m2m_state_scheme \<Rightarrow> ('w, 'z) m2m_state_scheme" where
  "invalidate s = s\<lparr>tok_cache := Map.empty\<rparr>"

text \<open>The cache keeps the contract of \<open>timed_cache\<close>: a token under its key, for its lifetime less the skew.\<close>

interpretation service_tokens: timed_cache
  "\<lambda>dt (s :: ('w, 'z) m2m_state_scheme). s\<lparr>mono := mono s + dt\<rparr>" cached
  "\<lambda>c p s. snd (store_token c (fst p) (snd p) s)" "\<lambda>c' c. cache_key c' = cache_key c" "\<lambda>_. True" fst
  "\<lambda>p. real_of_int (token_ttl (snd p))"
  by unfold_locales (auto simp: cached_def store_token_def split: option.splits)

definition token_form :: "m2m_config \<Rightarrow> (string \<times> string) list" where
  "token_form c =
     [(''grant_type'', ''client_credentials''), (''client_id'', m_client_id c),
      (''client_secret'', m_client_secret c), (''scope'', m_scope c)]"

definition log_m2m :: "string \<Rightarrow> (('w, 'z) m2m_state_scheme, unit) prog" where
  "log_m2m line = modify (\<lambda>s. s\<lparr>m2m_log := m2m_log s @ [line]\<rparr>)"

definition handle_payload ::
  "(real \<Rightarrow> string) \<Rightarrow> string \<Rightarrow> m2m_config \<Rightarrow> json \<Rightarrow> (('w, 'z) m2m_state_scheme, json option) prog" where
  "handle_payload fr label c payload =
     (case payload of
        JObj d \<Rightarrow>
          (let token = opt_json (dict_get d ''access_token'')
           in if \<not> truthy token then
                andthen (log_m2m (log_token_error fr ''client_credentials'' (Parsed d) None
                  (label @ '' service-token error''))) (\<lambda>_. ret None)
              else
                (case or_else (opt_json (dict_get d ''scope'')) (JStr '''') of
                   JStr granted \<Rightarrow>
                     if m_scope c \<notin> set (split_ws granted) then
                       andthen (log_m2m (label @ '' obtained a service token WITHOUT the '' @
                         repr_str (m_scope c) @ '' scope (granted='' @ repr_str granted @ '')''))
                         (\<lambda>_. ret None)
                     else
                       andthen (store_token c token (opt_json (dict_get d ''expires_in'')))
                         (\<lambda>t. ret (Some t))
                 | _ \<Rightarrow> raise (AttributeError ''split'')))
      | _ \<Rightarrow> raise (AttributeError ''get''))"

text \<open>
  The end of \<open>get_token\<close> and \<open>aget_token\<close>: the status, then the payload. A body that is not
  JSON is a \<open>ValueError\<close>, which both catch.
\<close>

definition token_response ::
  "(real \<Rightarrow> string) \<Rightarrow> string \<Rightarrow> m2m_config \<Rightarrow> response \<Rightarrow> (('w, 'z) m2m_state_scheme, json option) prog" where
  "token_response fr label c resp =
     (if status resp \<noteq> 200 then
        andthen (log_m2m (log_token_error fr ''client_credentials'' (Response (status resp) (resp_text resp))
          None (label @ '' service-token error''))) (\<lambda>_. ret None)
      else
        catch (andthen (lift_res (json_of resp)) (handle_payload fr label c))
          (\<lambda>e. case e of
             ValueError _ \<Rightarrow>
               andthen (log_m2m (label @ '' service-token response was not JSON'')) (\<lambda>_. ret None)
           | _ \<Rightarrow> raise e))"

definition post_token ::
  "'w net \<Rightarrow> string \<Rightarrow> m2m_config \<Rightarrow> (('w, 'z) m2m_state_scheme, response option) prog" where
  "post_token net label c =
     catch (andthen (send net (post_form (token_url c) [] (token_form c))) (\<lambda>r. ret (Some r)))
       (\<lambda>e. if is_request_error e
             then andthen (log_m2m (label @ '' service-token request failed'')) (\<lambda>_. ret None)
             else raise e)"

definition get_token ::
  "'w net \<Rightarrow> (real \<Rightarrow> string) \<Rightarrow> string \<Rightarrow> m2m_config \<Rightarrow> bool
     \<Rightarrow> (('w, 'z) m2m_state_scheme, json option) prog" where
  "get_token net fr label c force_refresh =
     (if \<not> is_usable c then
        andthen (log_m2m (label @ '' cannot request a service token: CLIENT_ID/CLIENT_SECRET are not '' @
          ''configured, so M2M calls will be skipped'')) (\<lambda>_. ret None)
      else
        andthen (asks (\<lambda>s. if force_refresh then None else cached c s)) (\<lambda>hit.
        (case hit of
           Some v \<Rightarrow> ret (Some v)
         | None \<Rightarrow>
             andthen (post_token net label c) (\<lambda>resp.
             (case resp of None \<Rightarrow> ret None | Some r \<Rightarrow> token_response fr label c r)))))"

definition auth_headers ::
  "'w net \<Rightarrow> (real \<Rightarrow> string) \<Rightarrow> string \<Rightarrow> m2m_config \<Rightarrow> bool
     \<Rightarrow> (('w, 'z) m2m_state_scheme, (string \<times> string) list) prog" where
  "auth_headers net fr label c force_refresh =
     andthen (get_token net fr label c force_refresh) (\<lambda>token.
       ret (case token of
              Some v \<Rightarrow> if truthy v then [(SERVICE_AUTH_HEADER, ''Bearer '' @ py_str fr v)] else []
            | None \<Rightarrow> []))"

text \<open>
  The asynchronous twin \<open>aget_token\<close> differs in the HTTP client only: the same call is
  awaited instead of blocking.
\<close>

definition aget_token ::
  "'w net \<Rightarrow> (real \<Rightarrow> string) \<Rightarrow> string \<Rightarrow> m2m_config \<Rightarrow> bool
     \<Rightarrow> (('w, 'z) m2m_state_scheme, json option) prog" where
  "aget_token net fr label c force_refresh = get_token net fr label c force_refresh"

definition aauth_headers ::
  "'w net \<Rightarrow> (real \<Rightarrow> string) \<Rightarrow> string \<Rightarrow> m2m_config \<Rightarrow> bool
     \<Rightarrow> (('w, 'z) m2m_state_scheme, (string \<times> string) list) prog" where
  "aauth_headers net fr label c force_refresh =
     andthen (aget_token net fr label c force_refresh) (\<lambda>token.
       ret (case token of
              Some v \<Rightarrow> if truthy v then [(SERVICE_AUTH_HEADER, ''Bearer '' @ py_str fr v)] else []
            | None \<Rightarrow> []))"

subsection \<open>The receiving side\<close>

definition parse_bearer :: "string option \<Rightarrow> string option" where
  "parse_bearer header_value =
     (case header_value of
        None \<Rightarrow> None
      | Some h \<Rightarrow>
          if h = [] then None
          else
            (case split_ws1 (strip h) of
               [] \<Rightarrow> None
             | [w] \<Rightarrow> if lower w = ''bearer'' then None else Some w
             | w # t # _ \<Rightarrow>
                 if lower w = ''bearer'' then (if strip t \<noteq> [] then Some (strip t) else None)
                 else None))"

definition verify_service_claims :: "(real \<Rightarrow> string) \<Rightarrow> string \<Rightarrow> dict \<Rightarrow> exn + unit" where
  "verify_service_claims fr scope decoded =
     bind_res (scope_list (get_or decoded ''scope'' (JStr ''''))) (\<lambda>scopes.
       if JStr scope \<notin> set scopes then
         Inl (ServiceAuthError (''Service token is missing the required '' @ repr_str scope @ '' scope''))
       else
         (let auth_type = opt_json (dict_get decoded ''aut'')
          in if auth_type \<noteq> JNull \<and> auth_type \<noteq> JStr ''APPLICATION'' then
               Inl (ServiceAuthError (''Token has the '' @ repr_str scope @ '' scope but aut='' @
                 py_repr fr auth_type @ ''; expected an '' @
                 ''application-only (client-credentials) token''))
             else Inr ()))"

text \<open>
  The dependency \<open>make_service_auth_dependency\<close> builds. The JWKS getter is a step of its own:
  it may fetch and cache, and may raise.
\<close>

definition service_auth_error :: "exn \<Rightarrow> exn" where
  "service_auth_error e =
     (case e of
        SigningKeyNotFound _ \<Rightarrow> HttpError 401 ''Signing key not found''
      | JwtExpired \<Rightarrow> HttpError 401 ''Service token expired''
      | JwtInvalid m \<Rightarrow> HttpError 401 (''Invalid service token: '' @ m)
      | ServiceAuthError m \<Rightarrow> HttpError 403 m
      | _ \<Rightarrow> e)"

definition require_service_auth ::
  "(real \<Rightarrow> string) \<Rightarrow> 'k jwt_lib \<Rightarrow> int \<Rightarrow> (('w, 'z) net_state_scheme, dict) prog
     \<Rightarrow> string \<Rightarrow> string \<Rightarrow> string \<Rightarrow> string option \<Rightarrow> (('w, 'z) net_state_scheme, dict) prog" where
  "require_service_auth fr L skew jwks_getter audience issuer scope header =
     (case parse_bearer header of
        None \<Rightarrow> raise (HttpError 401 (''Missing '' @ SERVICE_AUTH_HEADER @ '' header with a service token''))
      | Some token \<Rightarrow>
          andthen
            (catch
              (andthen jwks_getter (\<lambda>jwks.
               andthen (lift_res (select_signing_key fr L jwks token)) (\<lambda>key.
               andthen (asks wall) (\<lambda>now.
               andthen (lift_res (decode_rs256 L skew now token key audience issuer None)) (\<lambda>decoded.
               andthen (lift_res (verify_service_claims fr scope decoded)) (\<lambda>_. ret decoded))))))
              (\<lambda>e. raise (service_auth_error e)))
            (\<lambda>decoded.
               andthen (lift_res (format_claims fr (JObj decoded))) (\<lambda>_. ret decoded)))"

subsection \<open>Lemmas\<close>



lemma handle_payload_Some:
  assumes "handle_payload fr label c payload s = (Inr (Some tok), s1)"
  obtains d granted where "payload = JObj d" "dict_get d ''access_token'' = Some tok" "truthy tok"
    "dict_get d ''scope'' = Some (JStr granted)" "m_scope c \<in> set (split_ws granted)"
    "s1 = s\<lparr>tok_cache := (tok_cache s)(cache_key c \<mapsto> \<lparr>tok_value = tok,
       tok_expires_at = mono s + of_int (token_ttl (opt_json (dict_get d ''expires_in'')))\<rparr>)\<rparr>"
proof -
  obtain d where d: "payload = JObj d"
    using assms by (cases payload) (auto simp: handle_payload_def)
  let ?tok = "opt_json (dict_get d ''access_token'')"
  have tr: "truthy ?tok"
    using assms by (auto simp: handle_payload_def d log_m2m_def Let_def split: if_splits)
  obtain granted where g: "or_else (opt_json (dict_get d ''scope'')) (JStr []) = JStr granted"
    using assms tr by (cases "or_else (opt_json (dict_get d ''scope'')) (JStr [])")
      (auto simp: handle_payload_def d Let_def)
  have sc: "m_scope c \<in> set (split_ws granted)"
    using assms tr g by (auto simp: handle_payload_def d log_m2m_def Let_def split: if_splits)
  have out: "tok = ?tok" "s1 = s\<lparr>tok_cache := (tok_cache s)(cache_key c \<mapsto> \<lparr>tok_value = ?tok,
       tok_expires_at = mono s + of_int (token_ttl (opt_json (dict_get d ''expires_in'')))\<rparr>)\<rparr>"
    using assms tr g sc
    by (auto simp: handle_payload_def d Let_def store_token_def andthen_def)
  have "dict_get d ''access_token'' = Some tok"
    using tr by (cases "dict_get d ''access_token''") (auto simp: out)
  moreover have "dict_get d ''scope'' = Some (JStr granted)"
    using g sc by (cases "dict_get d ''scope''") (auto simp: or_else_def split_ws_def split: if_splits)
  ultimately show ?thesis using that [OF d _ _ _ sc] tr out by simp
qed

lemma token_response_Some:
  assumes "token_response fr label c r s = (Inr (Some tok), s1)"
  obtains d granted where "status r = 200" "resp_json r = Some (JObj d)"
    "dict_get d ''access_token'' = Some tok" "truthy tok"
    "dict_get d ''scope'' = Some (JStr granted)" "m_scope c \<in> set (split_ws granted)"
    "s1 = s\<lparr>tok_cache := (tok_cache s)(cache_key c \<mapsto> \<lparr>tok_value = tok,
       tok_expires_at = mono s + of_int (token_ttl (opt_json (dict_get d ''expires_in'')))\<rparr>)\<rparr>"
proof -
  have 200: "status r = 200"
    using assms by (auto simp: token_response_def log_m2m_def split: if_splits)
  obtain j where j: "resp_json r = Some j"
    using assms 200 by (cases "resp_json r") (auto simp: token_response_def json_of_def log_m2m_def catch_def)
  have "handle_payload fr label c j s = (Inr (Some tok), s1)"
    using assms 200 j
    by (auto simp: token_response_def json_of_def catch_def log_m2m_def split: prod.splits sum.splits exn.splits)
  then show ?thesis
    by (rule handle_payload_Some) (use 200 j that in blast)
qed

lemma post_token_run:
  "post_token net label c s =
     (case send net (post_form (token_url c) [] (token_form c)) s of
        (Inr r, t) \<Rightarrow> (Inr (Some r), t)
      | (Inl e, t) \<Rightarrow>
          if is_request_error e then (Inr None, t\<lparr>m2m_log := m2m_log t @ [label @ '' service-token request failed'']\<rparr>)
          else (Inl e, t))"
  by (auto simp: post_token_def catch_def andthen_def log_m2m_def split: prod.splits sum.splits)

lemma get_token_hit:
  "is_usable c \<Longrightarrow> cached c s = Some v \<Longrightarrow> get_token net fr label c False s = (Inr (Some v), s)"
  by (simp add: get_token_def)

lemma get_token_miss:
  "cached c s = None \<Longrightarrow> get_token net fr label c False s = get_token net fr label c True s"
  by (simp add: get_token_def)

lemma get_token_fresh:
  assumes "get_token net fr label c True s = (Inr (Some tok), s1)"
  shows "\<exists>r d granted. is_usable c \<and>
    sent s1 = sent s @ [post_form (token_url c) [] (token_form c)] \<and>
    fst (net (post_form (token_url c) [] (token_form c)) (world s)) = Inr r \<and> status r = 200 \<and>
    resp_json r = Some (JObj d) \<and> dict_get d ''access_token'' = Some tok \<and>
    dict_get d ''scope'' = Some (JStr granted) \<and> m_scope c \<in> set (split_ws granted) \<and>
    tok_cache s1 (cache_key c) = Some \<lparr>tok_value = tok,
       tok_expires_at = mono s1 + of_int (token_ttl (opt_json (dict_get d ''expires_in'')))\<rparr>"
proof -
  let ?q = "post_form (token_url c) [] (token_form c)"
  have u: "is_usable c"
    using assms by (auto simp: get_token_def log_m2m_def split: if_splits)
  obtain r t where t: "send net ?q s = (Inr r, t)"
    and resp: "token_response fr label c r t = (Inr (Some tok), s1)"
    using assms u
    by (auto simp: get_token_def andthen_def post_token_run split: prod.splits sum.splits if_splits)
  have "sent t = sent s @ [?q]" using send_sent [of net ?q s] t by simp
  moreover have "fst (net ?q (world s)) = Inr r" using t by (auto simp: send_def split: prod.splits)
  ultimately show ?thesis
    using u by (rule_tac token_response_Some [OF resp]) auto
qed

lemma split_ws1_two:
  assumes "w \<noteq> []" and "\<forall>c \<in> set w. \<not> is_space c" and "is_space x" and "lstrip t \<noteq> []"
  shows "split_ws1 (w @ x # t) = [w, lstrip t]"
proof -
  have "lstrip (w @ x # t) = w @ x # t"
    using assms(1,2) by (cases w) (simp_all add: lstrip_def)
  moreover have "takeWhile (\<lambda>c. \<not> is_space c) (w @ x # t) = w"
    "dropWhile (\<lambda>c. \<not> is_space c) (w @ x # t) = x # t"
    using assms(2,3) by (simp_all add: takeWhile_append2 dropWhile_append2)
  ultimately show ?thesis
    using assms(1,3,4) by (simp add: split_ws1_def Let_def lstrip_def)
qed

subsection \<open>Properties\<close>

text \<open>
  C5: a service token comes from the token endpoint, with the required scope among the granted
  ones, and is then reused without a request exactly until 30 seconds before its lifetime ends
  (at least one second); after that the next call asks the token endpoint again. A response
  without a usable \<open>expires_in\<close> counts as 300 seconds.
\<close>

theorem service_token_reused_until_expiry:
  assumes "get_token net fr label c True s = (Inr (Some tok), s1)"
  shows "\<exists>r d granted.
    sent s1 = sent s @ [post_form (token_url c) [] (token_form c)] \<and>
    fst (net (post_form (token_url c) [] (token_form c)) (world s)) = Inr r \<and> status r = 200 \<and>
    resp_json r = Some (JObj d) \<and> dict_get d ''access_token'' = Some tok \<and>
    dict_get d ''scope'' = Some (JStr granted) \<and> m_scope c \<in> set (split_ws granted) \<and>
    (\<forall>s2. tok_cache s2 = tok_cache s1 \<longrightarrow>
       get_token net fr label c False s2 =
         (if mono s2 < mono s1 + of_int (max ((case py_int (opt_json (dict_get d ''expires_in'')) of
                                                 Inr n \<Rightarrow> n | Inl _ \<Rightarrow> 300) - 30) 1)
          then (Inr (Some tok), s2) else get_token net fr label c True s2))"
proof -
  obtain r d granted where u: "is_usable c"
    and *: "sent s1 = sent s @ [post_form (token_url c) [] (token_form c)]"
    "fst (net (post_form (token_url c) [] (token_form c)) (world s)) = Inr r" "status r = 200"
    "resp_json r = Some (JObj d)"
    "dict_get d ''access_token'' = Some tok" "dict_get d ''scope'' = Some (JStr granted)"
    "m_scope c \<in> set (split_ws granted)"
    and entry: "tok_cache s1 (cache_key c) = Some \<lparr>tok_value = tok,
       tok_expires_at = mono s1 + of_int (token_ttl (opt_json (dict_get d ''expires_in'')))\<rparr>"
    using get_token_fresh [OF assms] by blast
  have "get_token net fr label c False s2 =
      (if mono s2 < mono s1 + of_int (token_ttl (opt_json (dict_get d ''expires_in'')))
       then (Inr (Some tok), s2) else get_token net fr label c True s2)"
    if "tok_cache s2 = tok_cache s1" for s2
    using that u entry get_token_hit [of c s2 tok] get_token_miss [of c s2]
    by (simp add: cached_def)
  with * show ?thesis
    unfolding token_ttl_def token_lifetime_def DEFAULT_LIFETIME_SECONDS_def EXPIRY_SKEW_SECONDS_def
    by blast
qed

text \<open>
  C4: an inbound service call is accepted exactly when its header carries a token, the token's
  key is in the JWKS, the token decodes under RS256 with the pinned audience and issuer, its
  scope claim contains the service scope and its \<open>aut\<close> claim, when present, is
  \<open>APPLICATION\<close>; the claims returned are the decoded ones.
\<close>

theorem service_auth_accepts_iff:
  "require_service_auth fr L skew jwks_getter audience issuer scope header s = (Inr decoded, s1) \<longleftrightarrow>
   (\<exists>token jwks key scopes line.
      parse_bearer header = Some token \<and> jwks_getter s = (Inr jwks, s1) \<and>
      select_signing_key fr L jwks token = Inr key \<and>
      jwt_decode L token key [''RS256''] audience issuer skew (wall s1) = Inr decoded \<and>
      scope_list (get_or decoded ''scope'' (JStr '''')) = Inr scopes \<and> JStr scope \<in> set scopes \<and>
      dict_get decoded ''aut'' \<in> {None, Some JNull, Some (JStr ''APPLICATION'')} \<and>
      format_claims fr (JObj decoded) = Inr line)"
proof -
  have claims: "verify_service_claims fr scope d = Inr u \<longleftrightarrow>
      (\<exists>scopes. scope_list (get_or d ''scope'' (JStr [])) = Inr scopes \<and> JStr scope \<in> set scopes \<and>
        dict_get d ''aut'' \<in> {None, Some JNull, Some (JStr ''APPLICATION'')})" for d u
    by (cases "dict_get d ''aut''")
       (auto simp: verify_service_claims_def bind_res_Inr_conv Let_def split: if_splits)
  show ?thesis
    by (cases "parse_bearer header")
       (auto simp: require_service_auth_def andthen_Inr_conv catch_Inr_conv claims decode_rs256_def
          ALLOWED_ALGORITHMS_def)
qed

text \<open>
  the header value a caller builds from a token is parsed back to that token, whatever the
  case of the scheme; the scheme alone gives no token.
\<close>

theorem bearer_roundtrip:
  assumes "t \<noteq> []" and "\<forall>c \<in> set t. \<not> is_space c" and "lower w = ''bearer''"
  shows "parse_bearer (Some (w @ '' '' @ t)) = Some t \<and> parse_bearer (Some w) = None"
proof -
  have w: "w \<noteq> []" "\<forall>c \<in> set w. \<not> is_space c"
    using assms(3) lower_no_space [OF assms(3)] by (auto simp: lower_def is_space_def)
  have "strip (w @ '' '' @ t) = w @ '' '' @ t"
    using assms(1,2) w by (intro strip_id) (auto simp: hd_append)
  moreover have "lstrip t = t" using assms(1,2) by (cases t) (simp_all add: lstrip_def)
  ultimately show ?thesis
    using split_ws1_two [OF w, of "CHR '' ''" t] assms w strip_no_space [of t] strip_no_space [of w]
      split_ws1_single [OF w]
    by (simp add: parse_bearer_def)
qed

subsection \<open>Witnesses\<close>

definition token_answer :: response where
  "token_answer = \<lparr>status = 200, resp_text = '''', resp_json = Some (JObj
     [(''access_token'', JStr ''eyJ''), (''scope'', JStr ''teamspace_internal_service''),
      (''expires_in'', JInt 3600)]), resp_location = None\<rparr>"

definition token_net :: "unit net" where
  "token_net q w = (Inr token_answer, 1, w)"

definition demo_m2m :: m2m_config where
  "demo_m2m = \<lparr>m_is_base_url = ''https://is'', m_tenant_path = '''', m_client_id = ''c'',
     m_client_secret = ''s'', m_scope = SERVICE_SCOPE\<rparr>"

definition demo_m2m_state :: "unit m2m_state" where
  "demo_m2m_state = \<lparr>world = (), wall = 0, mono = 0, sent = [], tok_cache = Map.empty, m2m_log = []\<rparr>"

lemma demo_get_token:
  "get_token token_net (\<lambda>_. []) ''svc'' demo_m2m True demo_m2m_state =
    (Inr (Some (JStr ''eyJ'')),
     demo_m2m_state\<lparr>wall := 1, mono := 1, sent := [post_form (token_url demo_m2m) [] (token_form demo_m2m)],
       tok_cache := [cache_key demo_m2m \<mapsto> \<lparr>tok_value = JStr ''eyJ'', tok_expires_at = 3571\<rparr>]\<rparr>)"
  by (simp add: get_token_def demo_m2m_def is_usable_def post_token_run send_def token_net_def
      token_answer_def token_response_def json_of_def handle_payload_def or_else_def SERVICE_SCOPE_def
      split_ws_def is_space_def store_token_def token_ttl_def token_lifetime_def py_int_def
      EXPIRY_SKEW_SECONDS_def demo_m2m_state_def catch_def andthen_def cached_def Let_def)

theorem service_token_reused_until_expiry_witness:
  "\<exists>r d granted. fst (token_net (post_form (token_url demo_m2m) [] (token_form demo_m2m)) ()) = Inr r \<and>
     resp_json r = Some (JObj d) \<and> dict_get d ''access_token'' = Some (JStr ''eyJ'') \<and>
     dict_get d ''scope'' = Some (JStr granted) \<and> SERVICE_SCOPE \<in> set (split_ws granted)"
  using service_token_reused_until_expiry [OF demo_get_token]
  by (auto simp: demo_m2m_def demo_m2m_state_def)

theorem bearer_roundtrip_witness:
  "parse_bearer (Some ''Bearer eyJ'') = Some ''eyJ'' \<and> parse_bearer (Some ''Bearer'') = None"
  using bearer_roundtrip [of "''eyJ''" "''Bearer''"]
  by (simp add: is_space_def lower_def lower_char_def chr_code)

end
