(* ===== verification/Config.thy ===== *)
theory Config
  imports Py_Str
begin

text \<open>
  \<open>common/constants.py\<close>, \<open>common/config.py\<close>, \<open>common/logging_setup.py\<close> and the settings classes
  \<open>api/config.py\<close> and \<open>agent/config.py\<close>: how a process reads its configuration from the
  environment. The environment is an argument; so is the test whether a path names a file.
\<close>

subsection \<open>Constants\<close>

definition DEFAULT_PRIMARY_COLOR :: string where "DEFAULT_PRIMARY_COLOR = ''#4F46E5''"
definition DEFAULT_SECONDARY_COLOR :: string where "DEFAULT_SECONDARY_COLOR = ''#E0E7FF''"
definition DEFAULT_AGENT_NAME :: string where "DEFAULT_AGENT_NAME = ''Worklink Assistant''"
definition DEFAULT_PLAN :: string where "DEFAULT_PLAN = ''basic''"
definition OIDC_AUTHENTICATOR_ID :: string where
  "OIDC_AUTHENTICATOR_ID = ''T3BlbklEQ29ubmVjdEF1dGhlbnRpY2F0b3I''"
definition OIDC_AUTHENTICATOR_NAME :: string where
  "OIDC_AUTHENTICATOR_NAME = ''OpenIDConnectAuthenticator''"

text \<open>What \<open>verify=\<close> takes: a bool, or the path of a CA bundle.\<close>

datatype verify_tls = VBool bool | VPath string

record common_defaults =
  IS_BASE_URL :: string
  IS_VERIFY_TLS :: bool
  SERVICE_VERIFY_TLS :: bool
  FLASK_HOST :: string
  FLASK_PORT :: int
  BUSINESS_API_URL :: string
  AGENT_SERVICE_URL :: string
  AGENT_REDIRECT_URI :: string
  CDN_IMG_BASE_URL :: string
  DEFAULT_LOGO_URL :: string
  DEFAULT_FAVICON_URL :: string

definition cdn_img_base_url :: string where
  "cdn_img_base_url =
     ''https://cdn.jsdelivr.net/gh/vfraga/wso2-teamspace-demo@main/'' @ ''webapp/static/img''"

definition CommonDefaults :: common_defaults where
  "CommonDefaults = \<lparr>
     IS_BASE_URL = ''https://localhost:9443'',
     IS_VERIFY_TLS = False,
     SERVICE_VERIFY_TLS = False,
     FLASK_HOST = ''localhost'',
     FLASK_PORT = 5001,
     BUSINESS_API_URL = ''http://localhost:9091'',
     AGENT_SERVICE_URL = ''http://localhost:8000'',
     AGENT_REDIRECT_URI = ''http://localhost:8000/callback'',
     CDN_IMG_BASE_URL = cdn_img_base_url,
     DEFAULT_LOGO_URL = cdn_img_base_url @ ''/teamspace-logo.svg'',
     DEFAULT_FAVICON_URL = cdn_img_base_url @ ''/teamspace-favicon.svg''\<rparr>"

subsection \<open>TLS verification\<close>

text \<open>
  Log levels are Python's numbers. \<open>resolve_verify_tls\<close> returns the setting together with the
  level of the line it logs, if it logs one.
\<close>

abbreviation CRITICAL :: int where "CRITICAL \<equiv> 50"
abbreviation ERROR :: int where "ERROR \<equiv> 40"
abbreviation WARNING :: int where "WARNING \<equiv> 30"
abbreviation INFO :: int where "INFO \<equiv> 20"
abbreviation DEBUG :: int where "DEBUG \<equiv> 10"
abbreviation NOTSET :: int where "NOTSET \<equiv> 0"

definition TRUE_VALUES :: "string list" where
  "TRUE_VALUES = [''1'', ''true'', ''yes'', ''on'']"

definition FALSE_VALUES :: "string list" where
  "FALSE_VALUES = [''0'', ''false'', ''no'', ''off'']"

definition disabled_warning :: "bool \<Rightarrow> verify_tls \<times> int option" where
  "disabled_warning resolved = (VBool resolved, if resolved then None else Some WARNING)"

definition resolve_verify_tls ::
  "(string \<Rightarrow> bool) \<Rightarrow> string option \<Rightarrow> bool \<Rightarrow> verify_tls \<times> int option" where
  "resolve_verify_tls is_file raw dflt =
     (let value = strip (case raw of None \<Rightarrow> '''' | Some v \<Rightarrow> v)
      in if value \<noteq> [] then
           (let lowered = lower value
            in if lowered \<in> set TRUE_VALUES then (VBool True, None)
               else if lowered \<notin> set FALSE_VALUES then
                 (if \<not> is_file value then (VBool True, Some ERROR)
                  else (VPath value, Some INFO))
               else disabled_warning False)
         else disabled_warning dflt)"

definition verify_tls_from_env ::
  "(string \<Rightarrow> bool) \<Rightarrow> environ \<Rightarrow> string \<Rightarrow> bool \<Rightarrow> verify_tls \<times> int option" where
  "verify_tls_from_env is_file E name dflt = resolve_verify_tls is_file (E name) dflt"

text \<open>
  \<open>load_env\<close>: \<open>load_dotenv\<close> (a third-party function from environment to environment) runs at
  most once per process; the flag is \<open>_ENV_LOADED\<close>.
\<close>

definition load_env :: "(environ \<Rightarrow> environ) \<Rightarrow> bool \<times> environ \<Rightarrow> bool \<times> environ" where
  "load_env load_dotenv st =
     (case st of (loaded, E) \<Rightarrow> if \<not> loaded then (True, load_dotenv E) else (loaded, E))"

lemma load_env_idem [simp]: "load_env f (load_env f st) = load_env f st"
  by (cases st) (simp add: load_env_def)

lemma disabled_warning_False: "fst (disabled_warning b) = VBool False \<longleftrightarrow> \<not> b"
  by (simp add: disabled_warning_def)

subsection \<open>Logging levels\<close>

definition LEVEL_NAMES :: "(string \<times> int) list" where
  "LEVEL_NAMES = [(''CRITICAL'', CRITICAL), (''FATAL'', CRITICAL), (''ERROR'', ERROR),
     (''WARNING'', WARNING), (''WARN'', WARNING), (''INFO'', INFO), (''DEBUG'', DEBUG),
     (''NOTSET'', NOTSET)]"

definition LIBRARY_LEVELS :: "(string \<times> int) list" where
  "LIBRARY_LEVELS = [(''httpx'', WARNING), (''httpcore'', WARNING), (''urllib3'', WARNING),
     (''google'', INFO), (''authlib'', INFO), (''werkzeug'', INFO)]"

definition is_production :: "environ \<Rightarrow> bool" where
  "is_production E \<longleftrightarrow> lower (strip (getenv E ''FLASK_ENV'' '''')) = ''production''"

definition default_level :: "environ \<Rightarrow> int" where
  "default_level E = (if is_production E then INFO else DEBUG)"

definition resolve_level :: "environ \<Rightarrow> int" where
  "resolve_level E =
     (let raw = upper (strip (getenv E ''LOG_LEVEL'' ''''))
      in if raw \<noteq> [] then (case map_of LEVEL_NAMES raw of Some l \<Rightarrow> l | None \<Rightarrow> default_level E)
         else default_level E)"

text \<open>The levels of the root logger (the empty name) and of the named ones.\<close>

type_synonym loggers = "string \<Rightarrow> int option"

definition configure_logging :: "environ \<Rightarrow> loggers \<Rightarrow> int \<times> loggers" where
  "configure_logging E L =
     (let level = resolve_level E;
          L1 = L([] \<mapsto> level)
      in (level, foldl (\<lambda>m (n, fl). m(n \<mapsto> max fl level)) L1 LIBRARY_LEVELS))"

subsection \<open>The settings of the Business API and of the agent\<close>

definition tenant_path :: "string option \<Rightarrow> string \<Rightarrow> string" where
  "tenant_path override org_handle =
     (case override of
        Some v \<Rightarrow> v
      | None \<Rightarrow> if org_handle \<noteq> [] then ''/t/'' @ org_handle else '''')"

record api_settings =
  api_is_base_url :: string
  api_is_org_handle :: string
  api_client_id :: string
  api_tenant_override :: "string option"
  api_database_url :: string
  api_allowed_origins :: "string list"
  api_is_verify_tls :: verify_tls

definition Api_Settings :: "(string \<Rightarrow> bool) \<Rightarrow> environ \<Rightarrow> api_settings" where
  "Api_Settings is_file E = \<lparr>
     api_is_base_url = getenv E ''IS_BASE_URL'' (IS_BASE_URL CommonDefaults),
     api_is_org_handle = getenv E ''IS_ORG_HANDLE'' '''',
     api_client_id = getenv E ''CLIENT_ID'' '''',
     api_tenant_override = None,
     api_database_url = getenv E ''DATABASE_URL'' ''sqlite:///teamspace.db'',
     api_allowed_origins =
       split_char (CHR '','') (getenv E ''ALLOWED_ORIGINS'' ''http://localhost:5001''),
     api_is_verify_tls =
       fst (verify_tls_from_env is_file E ''IS_VERIFY_TLS'' (IS_VERIFY_TLS CommonDefaults))\<rparr>"

definition api_tenant_path :: "api_settings \<Rightarrow> string" where
  "api_tenant_path c = tenant_path (api_tenant_override c) (api_is_org_handle c)"

record agent_settings =
  ag_is_base_url :: string
  ag_is_org_handle :: string
  ag_tenant_override :: "string option"
  ag_client_id :: string
  ag_client_secret :: string
  ag_redirect_uri :: string
  ag_service_url :: string
  ag_business_api_url :: string
  ag_gemini_api_key :: string
  ag_allowed_origins :: "string list"
  ag_mock_llm :: bool
  ag_is_verify_tls :: verify_tls
  ag_service_verify_tls :: verify_tls
  ag_state_signing_secret :: string

definition Agent_Settings :: "(string \<Rightarrow> bool) \<Rightarrow> environ \<Rightarrow> agent_settings" where
  "Agent_Settings is_file E = \<lparr>
     ag_is_base_url = getenv E ''IS_BASE_URL'' (IS_BASE_URL CommonDefaults),
     ag_is_org_handle = getenv E ''IS_ORG_HANDLE'' '''',
     ag_tenant_override = None,
     ag_client_id = getenv E ''CLIENT_ID'' '''',
     ag_client_secret = getenv E ''CLIENT_SECRET'' '''',
     ag_redirect_uri = getenv E ''AGENT_REDIRECT_URI'' (AGENT_REDIRECT_URI CommonDefaults),
     ag_service_url = getenv E ''AGENT_SERVICE_URL'' (AGENT_SERVICE_URL CommonDefaults),
     ag_business_api_url = getenv E ''BUSINESS_API_URL'' (BUSINESS_API_URL CommonDefaults),
     ag_gemini_api_key = getenv E ''GEMINI_API_KEY'' '''',
     ag_allowed_origins =
       split_char (CHR '','') (getenv E ''ALLOWED_ORIGINS'' ''http://localhost:5001''),
     ag_mock_llm = (lower (getenv E ''MOCK_LLM'' ''false'') = ''true''),
     ag_is_verify_tls =
       fst (verify_tls_from_env is_file E ''IS_VERIFY_TLS'' (IS_VERIFY_TLS CommonDefaults)),
     ag_service_verify_tls =
       fst (verify_tls_from_env is_file E ''SERVICE_VERIFY_TLS'' (SERVICE_VERIFY_TLS CommonDefaults)),
     ag_state_signing_secret = getenv E ''AGENT_STATE_SIGNING_SECRET'' ''''\<rparr>"

definition ag_tenant_path :: "agent_settings \<Rightarrow> string" where
  "ag_tenant_path c = tenant_path (ag_tenant_override c) (ag_is_org_handle c)"

definition state_jwt_signing_secret :: "agent_settings \<Rightarrow> exn + string" where
  "state_jwt_signing_secret c =
     (if ag_state_signing_secret c \<noteq> [] then Inr (ag_state_signing_secret c)
      else if ag_client_secret c \<noteq> [] then Inr (ag_client_secret c)
      else Inl (ValueError (''Cannot sign or verify the OAuth state JWT: set AGENT_STATE_SIGNING_SECRET '' @
        ''(or CLIENT_SECRET). A generated fallback is intentionally not used '' @ [CHR 0x97] @ '' it '' @
        ''would only verify on the instance that signed it.'')))"

text \<open>The check at import time: a production agent that cannot sign state does not start.\<close>

definition agent_config_import :: "(string \<Rightarrow> bool) \<Rightarrow> environ \<Rightarrow> exn + agent_settings" where
  "agent_config_import is_file E =
     (let c = Agent_Settings is_file E
      in if is_production E then
           (case state_jwt_signing_secret c of
              Inl (ValueError m) \<Rightarrow>
                Inl (RuntimeError (''FLASK_ENV=production but the agent cannot sign OAuth state: '' @ m))
            | Inl e \<Rightarrow> Inl e
            | Inr _ \<Rightarrow> Inr c)
         else Inr c)"

subsection \<open>Lemmas\<close>

lemma signing_secret_Inr:
  "state_jwt_signing_secret c = Inr k \<Longrightarrow>
   k \<noteq> [] \<and> (k = ag_state_signing_secret c \<or> ag_state_signing_secret c = [] \<and> k = ag_client_secret c)"
  by (auto simp: state_jwt_signing_secret_def split: if_splits)

lemma resolve_verify_tls_disabled:
  "fst (resolve_verify_tls is_file raw dflt) = VBool False \<longleftrightarrow>
     (case raw of None \<Rightarrow> \<not> dflt
      | Some v \<Rightarrow> if strip v = [] then \<not> dflt else lower (strip v) \<in> set FALSE_VALUES)"
proof -
  have disj: "lower v \<in> set TRUE_VALUES \<Longrightarrow> lower v \<notin> set FALSE_VALUES" for v
    by (auto simp: TRUE_VALUES_def FALSE_VALUES_def)
  show ?thesis
    by (auto simp: resolve_verify_tls_def Let_def disabled_warning_def split: option.splits dest: disj)
qed

lemma resolve_verify_tls_path:
  "fst (resolve_verify_tls is_file raw dflt) = VPath p \<Longrightarrow> is_file p"
  by (auto simp: resolve_verify_tls_def Let_def disabled_warning_def split: option.splits if_splits)

lemma resolve_verify_tls_warns:
  "fst (resolve_verify_tls is_file raw dflt) = VBool False \<Longrightarrow>
   snd (resolve_verify_tls is_file raw dflt) = Some WARNING"
  by (auto simp: resolve_verify_tls_def Let_def disabled_warning_def split: option.splits if_splits)

lemma configure_logging_levels:
  "snd (configure_logging E L) n =
     (if n = [] then Some (resolve_level E)
      else case map_of LIBRARY_LEVELS n of
             Some fl \<Rightarrow> Some (max fl (resolve_level E)) | None \<Rightarrow> L n)"
  by (auto simp: configure_logging_def Let_def LIBRARY_LEVELS_def)

subsection \<open>Properties\<close>



text \<open>
  TLS verification is switched off only by an explicit false value, or by an unset
  variable with a false default, and always with a warning; a CA bundle is used only if the
  file exists; everything else, a missing bundle included, verifies.
\<close>

theorem tls_verification_fails_closed:
  "(case resolve_verify_tls is_file raw dflt of (v, line) \<Rightarrow>
      (v = VBool False \<longleftrightarrow>
         (case raw of None \<Rightarrow> \<not> dflt
          | Some r \<Rightarrow> if strip r = [] then \<not> dflt else lower (strip r) \<in> set FALSE_VALUES)) \<and>
      (if v = VBool False then line = Some WARNING else line \<noteq> Some WARNING) \<and>
      (case v of VPath p \<Rightarrow> is_file p | VBool _ \<Rightarrow> True))"
proof (cases "resolve_verify_tls is_file raw dflt")
  case (Pair v line)
  have "v \<noteq> VBool False \<Longrightarrow> line \<noteq> Some WARNING"
    using Pair by (auto simp: resolve_verify_tls_def Let_def disabled_warning_def split: option.splits if_splits)
  then show ?thesis
    using resolve_verify_tls_disabled [of is_file raw dflt] resolve_verify_tls_warns [of is_file raw dflt]
      resolve_verify_tls_path [of is_file raw dflt] Pair
    by (simp split: verify_tls.split)
qed

text \<open>
  A recognised \<open>LOG_LEVEL\<close> is the level of the root logger, otherwise production gets INFO
  and everything else DEBUG; no third-party logger ends up below its floor or more verbose
  than the root.
\<close>

theorem libraries_not_more_verbose:
  "case configure_logging E L of (level, L') \<Rightarrow>
     L' [] = Some level \<and> level = resolve_level E \<and>
     (if map_of LEVEL_NAMES (upper (strip (getenv E ''LOG_LEVEL'' ''''))) = None
      then level = (if is_production E then INFO else DEBUG)
      else Some level = map_of LEVEL_NAMES (upper (strip (getenv E ''LOG_LEVEL'' '''')))) \<and>
     list_all (\<lambda>(n, fl). \<exists>l. L' n = Some l \<and> level \<le> l \<and> fl \<le> l) LIBRARY_LEVELS"
proof -
  have "list_all (\<lambda>(n, fl). \<exists>l. snd (configure_logging E L) n = Some l \<and> resolve_level E \<le> l \<and> fl \<le> l)
      LIBRARY_LEVELS"
    by (simp add: configure_logging_levels LIBRARY_LEVELS_def)
  moreover have "fst (configure_logging E L) = resolve_level E"
    by (simp add: configure_logging_def Let_def)
  ultimately show ?thesis
    using configure_logging_levels [of E L "[]"]
    by (cases "configure_logging E L")
       (auto simp: resolve_level_def default_level_def Let_def LEVEL_NAMES_def)
qed

end
