(* ===== verification/Api_Auth.thy ===== *)
theory Api_Auth
  imports M2M_Auth Config
begin

text \<open>
  \<open>api/auth.py\<close>: how the Business API authenticates a request. The state of the API process
  extends the network state with the JWKS cache; the tables are added in \<open>Api_Tables\<close>.
\<close>

definition JWKS_TTL_SECONDS :: real where "JWKS_TTL_SECONDS = 300"

text \<open>The class attributes of \<open>JWKSCache\<close>: data, time and key.\<close>

record 'w jwks_state = "'w net_state" +
  jwks_data :: "dict option"
  jwks_time :: real
  jwks_key :: "(string \<times> string) option"

definition jwks_get :: "string \<times> string \<Rightarrow> ('w, 'z) jwks_state_scheme \<Rightarrow> dict option" where
  "jwks_get key s =
     (case jwks_data s of
        Some d \<Rightarrow> if jwks_key s = Some key \<and> mono s - jwks_time s < JWKS_TTL_SECONDS then Some d else None
      | None \<Rightarrow> None)"

definition jwks_set ::
  "string \<times> string \<Rightarrow> dict \<Rightarrow> ('w, 'z) jwks_state_scheme \<Rightarrow> ('w, 'z) jwks_state_scheme" where
  "jwks_set key d s = s\<lparr>jwks_data := Some d, jwks_time := mono s, jwks_key := Some key\<rparr>"

text \<open>One slot: a key set for another server or tenant takes the place of the one before.\<close>

interpretation api_keys: timed_cache
  "\<lambda>dt (s :: ('w, 'z) jwks_state_scheme). s\<lparr>mono := mono s + dt\<rparr>" jwks_get jwks_set "(=)" "\<lambda>_. True" "\<lambda>d. d"
  "\<lambda>_. JWKS_TTL_SECONDS"
  by unfold_locales (auto simp: jwks_get_def jwks_set_def split: option.splits)

text \<open>
  \<open>get_jwks\<close>. A body that is not JSON is a \<open>ValueError\<close>, which the handler of HTTP errors does
  not catch; neither does it catch the \<open>AttributeError\<close> of a body that is not an object.
\<close>

definition get_jwks ::
  "'w net \<Rightarrow> string \<Rightarrow> string \<Rightarrow> (('w, 'z) jwks_state_scheme, dict) prog" where
  "get_jwks net is_base_url tenant =
     andthen (asks (jwks_get (is_base_url, tenant))) (\<lambda>hit.
     (case hit of
        Some d \<Rightarrow> ret d
      | None \<Rightarrow>
          andthen
            (catch
              (andthen (send net (get (jwks_url is_base_url tenant) [] [])) (\<lambda>resp.
               andthen (lift_res (httpx_raise_for_status resp)) (\<lambda>_. lift_res (json_of resp))))
              (\<lambda>e. if is_http_error e then raise (HttpError 503 ''JWKS unavailable'') else raise e))
            (\<lambda>data.
               andthen (lift_res (as_obj data)) (\<lambda>d.
               andthen (lift_res (py_len (get_or d ''keys'' (JList [])))) (\<lambda>_.
               andthen (modify (jwks_set (is_base_url, tenant) d)) (\<lambda>_. ret d))))))"

subsection \<open>Users\<close>

record user_info =
  user_id :: json
  org :: json
  email :: json
  scopes :: "string list"
  groups :: json
  actor_user_id :: json
  auth_type :: json

text \<open>\<open>UserInfo(decoded)\<close>: a scope that is not a string and an \<open>act\<close> that is not an object raise.\<close>

definition UserInfo :: "dict \<Rightarrow> exn + user_info" where
  "UserInfo decoded =
     (case get_or decoded ''scope'' (JStr '''') of
        JStr sc \<Rightarrow>
          (case get_or decoded ''act'' (JObj []) of
             JObj act \<Rightarrow>
               Inr \<lparr>user_id = get_or decoded ''sub'' (JStr ''''),
                 org = or_else (get_or decoded ''org_id'' (JStr '''')) (get_or decoded ''user_org'' (JStr '''')),
                 email = get_or decoded ''email'' (JStr ''''),
                 scopes = split_ws sc,
                 groups = get_or decoded ''groups'' (JList []),
                 actor_user_id = get_or act ''sub'' (JStr ''''),
                 auth_type = get_or decoded ''aut'' (JStr ''APPLICATION_USER'')\<rparr>
           | _ \<Rightarrow> Inl (AttributeError ''get''))
      | _ \<Rightarrow> Inl (AttributeError ''split''))"

definition user_auth_error :: "exn \<Rightarrow> exn" where
  "user_auth_error e =
     (case e of
        SigningKeyNotFound _ \<Rightarrow> HttpError 401 ''Signing key not found''
      | JwtExpired \<Rightarrow> HttpError 401 ''Token expired''
      | JwtInvalid m \<Rightarrow> HttpError 401 (''Invalid token: '' @ m)
      | _ \<Rightarrow> e)"

text \<open>The credentials are the token of an \<open>Authorization: Bearer\<close> header, if there is one.\<close>

definition get_current_user ::
  "'w net \<Rightarrow> (real \<Rightarrow> string) \<Rightarrow> 'k jwt_lib \<Rightarrow> int \<Rightarrow> api_settings \<Rightarrow> string option
     \<Rightarrow> (('w, 'z) jwks_state_scheme, user_info option) prog" where
  "get_current_user net fr L skew cfg credentials =
     (case credentials of
        None \<Rightarrow> ret None
      | Some token \<Rightarrow>
          catch
            (andthen (get_jwks net (api_is_base_url cfg) (api_tenant_path cfg)) (\<lambda>jwks.
             andthen (lift_res (select_signing_key fr L jwks token)) (\<lambda>key.
             andthen (asks wall) (\<lambda>now.
             andthen (lift_res (decode_rs256 L skew now token key (api_client_id cfg)
               (token_issuer (api_is_base_url cfg) (api_tenant_path cfg)) None)) (\<lambda>decoded.
             andthen (lift_res (UserInfo decoded)) (\<lambda>user.
             andthen (lift_res (format_claims fr (JObj decoded))) (\<lambda>_. ret (Some user))))))))
            (\<lambda>e. raise (user_auth_error e)))"

definition require_current_user :: "user_info option \<Rightarrow> exn + user_info" where
  "require_current_user user =
     (case user of
        None \<Rightarrow> Inl (HttpError 401 ''Authentication required: provide Authorization Bearer token'')
      | Some u \<Rightarrow> Inr u)"

text \<open>
  \<open>require_scope(scope)\<close>. Without credentials the user is \<open>None\<close> and reading its scopes is an
  \<open>AttributeError\<close>.
\<close>

definition require_scope :: "string \<Rightarrow> user_info option \<Rightarrow> exn + user_info" where
  "require_scope scope user =
     (case user of
        None \<Rightarrow> Inl (AttributeError ''scopes'')
      | Some u \<Rightarrow>
          (let agent_scope = scope @ ''_agent''
           in if scope \<notin> set (scopes u) \<and> agent_scope \<notin> set (scopes u) then
                Inl (HttpError 403 (''Missing required scope: '' @ scope @ '' or '' @ agent_scope))
              else Inr u))"

definition api_require_service_auth ::
  "'w net \<Rightarrow> (real \<Rightarrow> string) \<Rightarrow> 'k jwt_lib \<Rightarrow> int \<Rightarrow> api_settings \<Rightarrow> string option
     \<Rightarrow> (('w, 'z) jwks_state_scheme, dict) prog" where
  "api_require_service_auth net fr L skew cfg header =
     require_service_auth fr L skew (get_jwks net (api_is_base_url cfg) (api_tenant_path cfg))
       (api_client_id cfg) (token_issuer (api_is_base_url cfg) (api_tenant_path cfg)) SERVICE_SCOPE header"

subsection \<open>Lemmas\<close>

lemma require_scope_Inr:
  "require_scope sc user = Inr u \<longleftrightarrow>
     user = Some u \<and> (sc \<in> set (scopes u) \<or> sc @ ''_agent'' \<in> set (scopes u))"
  by (cases user) (auto simp: require_scope_def Let_def)

lemma get_jwks_cases:
  assumes "get_jwks net b t s = (Inr d, s1)"
  shows "(jwks_get (b, t) s = Some d \<and> s1 = s) \<or>
    (jwks_get (b, t) s = None \<and> sent s1 = sent s @ [get (jwks_url b t) [] []] \<and>
     jwks_data s1 = Some d \<and> jwks_key s1 = Some (b, t) \<and> jwks_time s1 = mono s1)"
proof (cases "jwks_get (b, t) s")
  case (Some x)
  then show ?thesis using assms by (simp add: get_jwks_def)
next
  case None
  obtain s2 where "sent s2 = sent s @ [get (jwks_url b t) [] []]" and "s1 = jwks_set (b, t) d s2"
  proof -
    from assms None obtain s2 resp where
      s2: "send net (get (jwks_url b t) [] []) s = (Inr resp, s2)" and s1: "s1 = jwks_set (b, t) d s2"
      by (auto simp: get_jwks_def andthen_Inr_conv catch_Inr_conv split: if_splits)
    then show ?thesis using that [of s2] send_sent [of net "get (jwks_url b t) [] []" s] by simp
  qed
  then show ?thesis using None by (simp add: jwks_set_def)
qed

end
