(* ===== verification/Api_Schemas.thy ===== *)
theory Api_Schemas
  imports Json
begin

text \<open>
  \<open>api/schemas.py\<close>: the request bodies of the Business API. A schema turns a JSON object into
  a record or into the list of the fields that fail, the way pydantic collects errors: a
  \<open>str\<close> field takes a string, an optional one also null or nothing, unknown fields are
  ignored. Pydantic's own coercion to \<open>int\<close> and the set of time zones are parameters.
\<close>

subsection \<open>Anchored patterns\<close>

text \<open>In Python \<open>$\<close> matches at the end and also before a newline at the end.\<close>

definition before_end :: "(string \<Rightarrow> bool) \<Rightarrow> string \<Rightarrow> bool" where
  "before_end P v \<longleftrightarrow> P v \<or> (v \<noteq> [] \<and> last v = CHR 0x0A \<and> P (butlast v))"

definition iso_date_shape :: "string \<Rightarrow> bool" where
  "iso_date_shape v \<longleftrightarrow>
     (case v of
        [a, b, c, d, h, m, n, i, e, f] \<Rightarrow>
          list_all is_digit [a, b, c, d, m, n, e, f] \<and> h = CHR ''-'' \<and> i = CHR ''-''
      | _ \<Rightarrow> False)"

definition iso_time_shape :: "string \<Rightarrow> bool" where
  "iso_time_shape v \<longleftrightarrow>
     (case v of
        [a, b, s, c, d] \<Rightarrow>
          ((a = CHR ''0'' \<or> a = CHR ''1'') \<and> is_digit b \<or>
           a = CHR ''2'' \<and> is_digit b \<and> digit_val b \<le> 3) \<and>
          s = CHR '':'' \<and> is_digit c \<and> digit_val c \<le> 5 \<and> is_digit d
      | _ \<Rightarrow> False)"

subsection \<open>Calendar dates\<close>

definition leap_year :: "nat \<Rightarrow> bool" where
  "leap_year y \<longleftrightarrow> y mod 4 = 0 \<and> (y mod 100 \<noteq> 0 \<or> y mod 400 = 0)"

definition days_in_month :: "nat \<Rightarrow> nat \<Rightarrow> nat" where
  "days_in_month y m =
     (if m = 2 then (if leap_year y then 29 else 28)
      else if m \<in> {4, 6, 9, 11} then 30 else 31)"

definition valid_date :: "nat \<Rightarrow> nat \<Rightarrow> nat \<Rightarrow> bool" where
  "valid_date y m d \<longleftrightarrow>
     1 \<le> y \<and> y \<le> 9999 \<and> 1 \<le> m \<and> m \<le> 12 \<and> 1 \<le> d \<and> d \<le> days_in_month y m"

definition num2 :: "char \<Rightarrow> char \<Rightarrow> nat" where
  "num2 a b = digit_val a * 10 + digit_val b"

text \<open>\<open>date.fromisoformat\<close> on the texts that have passed the pattern.\<close>

definition fromisoformat :: "string \<Rightarrow> exn + nat \<times> nat \<times> nat" where
  "fromisoformat v =
     (case v of
        [a, b, c, d, h, m, n, i, e, f] \<Rightarrow>
          (let y = num2 a b * 100 + num2 c d; mo = num2 m n; da = num2 e f
           in if iso_date_shape v \<and> valid_date y mo da then Inr (y, mo, da)
              else Inl (ValueError ''Invalid isoformat string''))
      | _ \<Rightarrow> Inl (ValueError ''Invalid isoformat string''))"

subsection \<open>Field validators\<close>

definition FORBIDDEN_TOPIC_CHARS :: "char set" where
  "FORBIDDEN_TOPIC_CHARS = {CHR ''<'', CHR ''>'', CHR ''&'', CHR 0x22}"

definition topic_safe :: "string \<Rightarrow> exn + string" where
  "topic_safe v =
     (let bad = sort_key ord (filter (\<lambda>c. c \<in> FORBIDDEN_TOPIC_CHARS \<or> c = CHR 0x27) v)
      in if bad \<noteq> [] then
           Inl (ValueError (''topic contains forbidden characters: '' @
             py_repr (\<lambda>_. '''') (JList (map (\<lambda>c. JStr [c]) bad))))
         else Inr v)"

definition date_iso :: "string \<Rightarrow> exn + string" where
  "date_iso v =
     (if \<not> before_end iso_date_shape v then Inl (ValueError ''date must be ISO format YYYY-MM-DD'')
      else
        (case fromisoformat v of
           Inl (ValueError e) \<Rightarrow> Inl (ValueError (''date is not a valid calendar date: '' @ e))
         | Inl e \<Rightarrow> Inl e
         | Inr _ \<Rightarrow> Inr v))"

definition start_time_hhmm :: "string \<Rightarrow> exn + string" where
  "start_time_hhmm v =
     (if \<not> before_end iso_time_shape v then Inl (ValueError ''start_time must be HH:MM (24-hour)'')
      else Inr v)"

definition time_zone_known :: "string set \<Rightarrow> string \<Rightarrow> exn + string" where
  "time_zone_known zones v =
     (if v \<notin> zones then Inl (ValueError (''unknown IANA time zone: '' @ v)) else Inr v)"

definition duration_coerce :: "json \<Rightarrow> exn + json" where
  "duration_coerce v =
     (case v of
        JStr s \<Rightarrow>
          (case parse_int s of
             Some i \<Rightarrow> Inr (JInt i)
           | None \<Rightarrow> Inl (ValueError ''duration must be an integer number of minutes''))
      | _ \<Rightarrow> Inr v)"

subsection \<open>Bodies\<close>

definition req_str :: "dict \<Rightarrow> string \<Rightarrow> string option" where
  "req_str d k = (case dict_get d k of Some (JStr s) \<Rightarrow> Some s | _ \<Rightarrow> None)"

definition opt_str :: "dict \<Rightarrow> string \<Rightarrow> string option option" where
  "opt_str d k =
     (case dict_get d k of
        None \<Rightarrow> Some None | Some JNull \<Rightarrow> Some None | Some (JStr s) \<Rightarrow> Some (Some s) | _ \<Rightarrow> None)"

definition right_of :: "exn + 'a \<Rightarrow> 'a option" where
  "right_of r = (case r of Inl _ \<Rightarrow> None | Inr x \<Rightarrow> Some x)"

record meeting_create =
  mc_topic :: string
  mc_date :: string
  mc_start_time :: string
  mc_duration :: int
  mc_time_zone :: string

definition topic_field :: "dict \<Rightarrow> string option" where
  "topic_field d =
     Option.bind (req_str d ''topic'') (\<lambda>v. if length v \<le> 500 then right_of (topic_safe v) else None)"

definition duration_field :: "(json \<Rightarrow> int option) \<Rightarrow> dict \<Rightarrow> int option" where
  "duration_field coerce_int d =
     Option.bind (dict_get d ''duration'') (\<lambda>v.
     Option.bind (right_of (duration_coerce v)) (\<lambda>w.
     Option.bind (coerce_int w) (\<lambda>i. if 1 \<le> i \<and> i \<le> 480 then Some i else None)))"

definition missing :: "string \<Rightarrow> 'a option \<Rightarrow> string list" where
  "missing name v = (case v of None \<Rightarrow> [name] | Some _ \<Rightarrow> [])"

definition MeetingCreate ::
  "(json \<Rightarrow> int option) \<Rightarrow> string set \<Rightarrow> json \<Rightarrow> string list + meeting_create" where
  "MeetingCreate coerce_int zones b =
     (case b of
        JObj d \<Rightarrow>
          (let topic = topic_field d;
               date = Option.bind (req_str d ''date'') (\<lambda>v. right_of (date_iso v));
               start_time = Option.bind (req_str d ''start_time'') (\<lambda>v. right_of (start_time_hhmm v));
               duration = duration_field coerce_int d;
               time_zone = Option.bind (req_str d ''time_zone'') (\<lambda>v. right_of (time_zone_known zones v))
           in case (topic, date, start_time, duration, time_zone) of
                (Some t, Some dt, Some st, Some du, Some tz) \<Rightarrow>
                  Inr \<lparr>mc_topic = t, mc_date = dt, mc_start_time = st, mc_duration = du, mc_time_zone = tz\<rparr>
              | _ \<Rightarrow> Inl (missing ''topic'' topic @ missing ''date'' date @ missing ''start_time'' start_time @
                  missing ''duration'' duration @ missing ''time_zone'' time_zone))
      | _ \<Rightarrow> Inl [''body''])"

record agent_config_create =
  ac_org :: string
  ac_agent_id :: string
  ac_agent_secret :: string
  ac_display_name :: string
  ac_description :: "string option"
  ac_gemini_api_key :: "string option"
  ac_org_client_id :: "string option"
  ac_org_client_secret :: "string option"
  ac_custom_prompt :: "string option"

definition AgentConfigCreate :: "json \<Rightarrow> string list + agent_config_create" where
  "AgentConfigCreate b =
     (case b of
        JObj d \<Rightarrow>
          (case (req_str d ''org'', req_str d ''agent_id'', req_str d ''agent_secret'',
                 req_str d ''display_name'', opt_str d ''description'', opt_str d ''gemini_api_key'',
                 opt_str d ''org_client_id'', opt_str d ''org_client_secret'', opt_str d ''custom_prompt'') of
             (Some og, Some ai, Some asec, Some dn, Some de, Some gk, Some oi, Some os, Some cp) \<Rightarrow>
               Inr \<lparr>ac_org = og, ac_agent_id = ai, ac_agent_secret = asec, ac_display_name = dn,
                 ac_description = de, ac_gemini_api_key = gk, ac_org_client_id = oi,
                 ac_org_client_secret = os, ac_custom_prompt = cp\<rparr>
           | (og, ai, asec, dn, de, gk, oi, os, cp) \<Rightarrow>
               Inl (missing ''org'' og @ missing ''agent_id'' ai @ missing ''agent_secret'' asec @
                 missing ''display_name'' dn @ missing ''description'' de @ missing ''gemini_api_key'' gk @
                 missing ''org_client_id'' oi @ missing ''org_client_secret'' os @ missing ''custom_prompt'' cp))
      | _ \<Rightarrow> Inl [''body''])"

record personalization_upsert =
  pu_org :: string
  pu_logo_url :: "string option"
  pu_logo_alt_text :: "string option"
  pu_favicon_url :: "string option"
  pu_primary_color :: "string option"
  pu_secondary_color :: "string option"

definition PersonalizationUpsert :: "json \<Rightarrow> string list + personalization_upsert" where
  "PersonalizationUpsert b =
     (case b of
        JObj d \<Rightarrow>
          (case (req_str d ''org'', opt_str d ''logo_url'', opt_str d ''logo_alt_text'',
                 opt_str d ''favicon_url'', opt_str d ''primary_color'', opt_str d ''secondary_color'') of
             (Some og, Some lu, Some la, Some fu, Some pc, Some sc) \<Rightarrow>
               Inr \<lparr>pu_org = og, pu_logo_url = lu, pu_logo_alt_text = la, pu_favicon_url = fu,
                 pu_primary_color = pc, pu_secondary_color = sc\<rparr>
           | (og, lu, la, fu, pc, sc) \<Rightarrow>
               Inl (missing ''org'' og @ missing ''logo_url'' lu @ missing ''logo_alt_text'' la @
                 missing ''favicon_url'' fu @ missing ''primary_color'' pc @ missing ''secondary_color'' sc))
      | _ \<Rightarrow> Inl [''body''])"

record plan_upsert =
  pl_org :: string
  pl_plan :: string

definition OrganizationPlanUpsert :: "json \<Rightarrow> string list + plan_upsert" where
  "OrganizationPlanUpsert b =
     (case b of
        JObj d \<Rightarrow>
          (case (req_str d ''org'', req_str d ''plan'') of
             (Some og, Some p) \<Rightarrow> Inr \<lparr>pl_org = og, pl_plan = p\<rparr>
           | (og, p) \<Rightarrow> Inl (missing ''org'' og @ missing ''plan'' p))
      | _ \<Rightarrow> Inl [''body''])"

subsection \<open>Dates and times as text\<close>

definition pad2 :: "nat \<Rightarrow> string" where
  "pad2 n = [digit_char (n div 10), digit_char (n mod 10)]"

definition iso_text :: "nat \<Rightarrow> nat \<Rightarrow> nat \<Rightarrow> string" where
  "iso_text y m d = pad2 (y div 100) @ pad2 (y mod 100) @ ''-'' @ pad2 m @ ''-'' @ pad2 d"

definition time_text :: "nat \<Rightarrow> nat \<Rightarrow> string" where
  "time_text h m = pad2 h @ '':'' @ pad2 m"

lemma digit_of_val: "is_digit c \<Longrightarrow> digit_char (digit_val c) = c \<and> digit_val c < 10"
  by (auto simp: is_digit_def digit_val_def digit_char_def)

lemma num2_pad2: "n < 100 \<Longrightarrow> pad2 n = [a, b] \<Longrightarrow> num2 a b = n"
  by (auto simp: pad2_def num2_def)

lemma pad2_num2: "is_digit a \<Longrightarrow> is_digit b \<Longrightarrow> pad2 (num2 a b) = [a, b] \<and> num2 a b < 100"
  using digit_of_val [of a] digit_of_val [of b] by (auto simp: pad2_def num2_def)

lemma pad2_digits: "n < 100 \<Longrightarrow> \<exists>a b. pad2 n = [a, b] \<and> is_digit a \<and> is_digit b"
  by (auto simp: pad2_def)

lemma days_in_month_le: "days_in_month y m \<le> 31"
  by (simp add: days_in_month_def)

lemma fromisoformat_iff:
  "fromisoformat v = Inr (y, m, d) \<longleftrightarrow> valid_date y m d \<and> v = iso_text y m d"
proof
  assume "fromisoformat v = Inr (y, m, d)"
  then obtain a b c e h p q i r t where v: "v = [a, b, c, e, h, p, q, i, r, t]"
    and sh: "iso_date_shape v" and ok: "valid_date y m d"
    and eq: "y = num2 a b * 100 + num2 c e" "m = num2 p q" "d = num2 r t"
    by (auto simp: fromisoformat_def Let_def split: list.splits if_splits)
  have dg: "is_digit a" "is_digit b" "is_digit c" "is_digit e" "is_digit p" "is_digit q"
    "is_digit r" "is_digit t" "h = CHR ''-''" "i = CHR ''-''"
    using sh by (simp_all add: v iso_date_shape_def)
  have "y div 100 = num2 a b" "y mod 100 = num2 c e"
    using pad2_num2 [OF dg(3,4)] by (simp_all add: eq)
  then show "valid_date y m d \<and> v = iso_text y m d"
    using ok pad2_num2 [OF dg(1,2)] pad2_num2 [OF dg(3,4)] pad2_num2 [OF dg(5,6)]
      pad2_num2 [OF dg(7,8)] dg(9,10)
    by (simp add: v iso_text_def eq(2,3))
next
  assume *: "valid_date y m d \<and> v = iso_text y m d"
  then have lt: "y div 100 < 100" "y mod 100 < 100" "m < 100" "d < 100"
    using days_in_month_le [of y m] by (auto simp: valid_date_def)
  obtain a b c e p q r t where pads: "pad2 (y div 100) = [a, b]" "pad2 (y mod 100) = [c, e]"
    "pad2 m = [p, q]" "pad2 d = [r, t]"
    and dg: "list_all is_digit [a, b, c, e, p, q, r, t]"
    using pad2_digits [OF lt(1)] pad2_digits [OF lt(2)] pad2_digits [OF lt(3)] pad2_digits [OF lt(4)]
    by auto
  have "num2 a b * 100 + num2 c e = y" "num2 p q = m" "num2 r t = d"
    using num2_pad2 [OF lt(1) pads(1)] num2_pad2 [OF lt(2) pads(2)] num2_pad2 [OF lt(3) pads(3)]
      num2_pad2 [OF lt(4) pads(4)] by simp_all
  then show "fromisoformat v = Inr (y, m, d)"
    using * dg by (simp add: fromisoformat_def iso_text_def pads iso_date_shape_def Let_def)
qed

lemma iso_text_shape: "valid_date y m d \<Longrightarrow> iso_date_shape (iso_text y m d)"
proof -
  assume *: "valid_date y m d"
  then have "fromisoformat (iso_text y m d) = Inr (y, m, d)" by (simp add: fromisoformat_iff)
  then show ?thesis by (auto simp: fromisoformat_def Let_def split: list.splits if_splits)
qed

lemma date_iso_iff:
  "date_iso v = Inr w \<longleftrightarrow> w = v \<and> (\<exists>y m d. valid_date y m d \<and> v = iso_text y m d)"
proof (cases "fromisoformat v")
  case (Inl e)
  then have "\<exists>t. e = ValueError t"
    by (auto simp: fromisoformat_def Let_def split: list.splits if_splits)
  then have "date_iso v \<noteq> Inr w" using Inl by (auto simp: date_iso_def)
  moreover have "\<not> (valid_date y m d \<and> v = iso_text y m d)" for y m d
    using Inl fromisoformat_iff [of v y m d] by auto
  ultimately show ?thesis by blast
next
  case (Inr r)
  obtain y m d where r: "r = (y, m, d)" by (cases r)
  then have *: "valid_date y m d" "v = iso_text y m d"
    using Inr by (simp_all add: fromisoformat_iff)
  then have "before_end iso_date_shape v" by (simp add: before_end_def iso_text_shape)
  then have "date_iso v = Inr v" by (simp add: date_iso_def Inr)
  with * show ?thesis by auto
qed

lemma sort_key_Nil_iff [simp]: "sort_key f xs = [] \<longleftrightarrow> xs = []"
  using length_sort [of f xs] by (metis length_0_conv)

lemma time_shape_iff: "iso_time_shape v \<longleftrightarrow> (\<exists>h m. h < 24 \<and> m < 60 \<and> v = time_text h m)"
proof
  assume "iso_time_shape v"
  then obtain a b c d where v: "v = [a, b, CHR '':'', c, d]"
    and dg: "is_digit b" "is_digit c" "is_digit d" and c: "digit_val c \<le> 5"
    and a: "(a = CHR ''0'' \<or> a = CHR ''1'') \<or> a = CHR ''2'' \<and> digit_val b \<le> 3"
    by (auto simp: iso_time_shape_def split: list.splits)
  have da: "is_digit a" using a by (auto simp: is_digit_def)
  have "num2 a b < 24" using a digit_of_val [OF dg(1)] by (auto simp: num2_def digit_val_def)
  moreover have "num2 c d < 60" using c digit_of_val [OF dg(3)] by (auto simp: num2_def)
  moreover have "v = time_text (num2 a b) (num2 c d)"
    using pad2_num2 [OF da dg(1)] pad2_num2 [OF dg(2,3)] by (simp add: v time_text_def)
  ultimately show "\<exists>h m. h < 24 \<and> m < 60 \<and> v = time_text h m" by blast
next
  assume "\<exists>h m. h < 24 \<and> m < 60 \<and> v = time_text h m"
  then obtain h m where *: "h < 24" "m < 60" "v = time_text h m" by blast
  have "h div 10 = 2 \<Longrightarrow> h mod 10 \<le> 3"
    using *(1) div_mult_mod_eq [of h 10] by linarith
  moreover have "h div 10 \<in> {0, 1, 2}" "m div 10 \<le> 5"
    using *(1,2) by auto
  moreover have "digit_char 0 = CHR ''0''" "digit_char 1 = CHR ''1''" "digit_char 2 = CHR ''2''"
    by (simp_all add: digit_char_def chr_code)
  ultimately show "iso_time_shape v"
    using * by (auto simp: time_text_def pad2_def iso_time_shape_def)
qed

subsection \<open>Properties\<close>

text \<open>
  a meeting date is accepted exactly when it is the ISO text of a day of the calendar: a
  year from 1 to 9999, a month and a day of that month, leap years included, with nothing
  before or after.
\<close>

theorem meeting_date_accepted_iff:
  "date_iso v = Inr w \<longleftrightarrow> w = v \<and> (\<exists>y m d. valid_date y m d \<and> v = iso_text y m d)"
  by (rule date_iso_iff)

text \<open>
  a start time is accepted exactly when it is the text HH:MM of a time of day, or that
  text followed by one newline, which the pattern's \<open>$\<close> lets through.
\<close>

theorem start_time_accepted_iff:
  "start_time_hhmm v = Inr w \<longleftrightarrow>
     w = v \<and> (\<exists>h m. h < 24 \<and> m < 60 \<and> (v = time_text h m \<or> v = time_text h m @ [CHR 0x0A]))"
proof -
  have "(v \<noteq> [] \<and> last v = x \<and> butlast v = u) \<longleftrightarrow> v = u @ [x]" for x and u :: string
    by (metis append_butlast_last_id butlast_snoc last_snoc snoc_eq_iff_butlast)
  then have "before_end iso_time_shape v \<longleftrightarrow>
      (\<exists>h m. h < 24 \<and> m < 60 \<and> (v = time_text h m \<or> v = time_text h m @ [CHR 0x0A]))"
    unfolding before_end_def time_shape_iff by blast
  then show ?thesis by (auto simp: start_time_hhmm_def)
qed

text \<open>
  a meeting body is accepted exactly when each field is, and the record carries the
  fields as they were sent; the duration is between one minute and eight hours, the topic has
  at most 500 characters and none that is special in HTML.
\<close>

theorem meeting_create_accepted:
  "MeetingCreate coerce_int zones (JObj d) = Inr m \<longleftrightarrow>
     dict_get d ''topic'' = Some (JStr (mc_topic m)) \<and> length (mc_topic m) \<le> 500 \<and>
     set (mc_topic m) \<inter> {CHR ''<'', CHR ''>'', CHR ''&'', CHR 0x22, CHR 0x27} = {} \<and>
     dict_get d ''date'' = Some (JStr (mc_date m)) \<and> (\<exists>y mo da. valid_date y mo da \<and> mc_date m = iso_text y mo da) \<and>
     dict_get d ''start_time'' = Some (JStr (mc_start_time m)) \<and>
     start_time_hhmm (mc_start_time m) = Inr (mc_start_time m) \<and>
     dict_get d ''time_zone'' = Some (JStr (mc_time_zone m)) \<and> mc_time_zone m \<in> zones \<and>
     1 \<le> mc_duration m \<and> mc_duration m \<le> 480 \<and>
     (\<exists>v w. dict_get d ''duration'' = Some v \<and> duration_coerce v = Inr w \<and> coerce_int w = Some (mc_duration m))"
proof -
  have rs: "req_str d k = Some s \<longleftrightarrow> dict_get d k = Some (JStr s)" for k s
    by (auto simp: req_str_def split: option.splits json.splits)
  have ro: "right_of r = Some x \<longleftrightarrow> r = Inr x" for r :: "exn + 'x" and x
    by (cases r) (simp_all add: right_of_def)
  have ts: "topic_safe t = Inr u \<longleftrightarrow>
      u = t \<and> set t \<inter> {CHR ''<'', CHR ''>'', CHR ''&'', CHR 0x22, CHR 0x27} = {}" for t u
    by (auto simp: topic_safe_def FORBIDDEN_TOPIC_CHARS_def Let_def filter_empty_conv)
  have tz: "time_zone_known zones t = Inr u \<longleftrightarrow> u = t \<and> t \<in> zones" for t u
    by (auto simp: time_zone_known_def)
  have "MeetingCreate coerce_int zones (JObj d) = Inr m \<longleftrightarrow>
      topic_field d = Some (mc_topic m) \<and>
      Option.bind (req_str d ''date'') (\<lambda>v. right_of (date_iso v)) = Some (mc_date m) \<and>
      Option.bind (req_str d ''start_time'') (\<lambda>v. right_of (start_time_hhmm v)) = Some (mc_start_time m) \<and>
      duration_field coerce_int d = Some (mc_duration m) \<and>
      Option.bind (req_str d ''time_zone'') (\<lambda>v. right_of (time_zone_known zones v)) = Some (mc_time_zone m)"
    by (cases m) (auto simp: MeetingCreate_def Let_def split: option.splits)
  also have "topic_field d = Some (mc_topic m) \<longleftrightarrow>
      dict_get d ''topic'' = Some (JStr (mc_topic m)) \<and> length (mc_topic m) \<le> 500 \<and>
      set (mc_topic m) \<inter> {CHR ''<'', CHR ''>'', CHR ''&'', CHR 0x22, CHR 0x27} = {}"
    by (auto simp: topic_field_def Option.bind_eq_Some_conv rs ro ts split: if_splits)
  finally show ?thesis
    by (auto simp: Option.bind_eq_Some_conv rs ro tz date_iso_iff duration_field_def
        start_time_hhmm_def split: if_splits)
qed

end
