(* ===== verification/Api_Routers.thy ===== *)
theory Api_Routers
  imports Api_Auth Api_Schemas
begin

text \<open>
  \<open>api/models.py\<close> and \<open>api/routers/*.py\<close>: the tables of the Business API and its endpoints. The
  meetings table is the list of its rows in insertion order, the three tables keyed by
  organization are maps. Storing and comparing follow SQLite, the default database: column
  lengths are not enforced, a null in a column that does not take one and a repeated primary
  key are integrity errors, and an exception leaves the tables as they were. FastAPI resolves
  the user before it validates the body.
\<close>

subsection \<open>Tables\<close>

record meeting =
  mt_id :: string
  mt_org :: string
  mt_created_at :: real
  mt_updated_at :: real
  mt_topic :: string
  mt_date :: string
  mt_start_time :: string
  mt_duration :: string
  mt_time_zone :: string
  mt_user_id :: string
  mt_email_address :: "string option"
  mt_actor_user_id :: "string option"

record agent_config = agent_config_create +
  ac_created_at :: real
  ac_updated_at :: real

record personalization = personalization_upsert +
  pu_updated_at :: real

record organization_plan = plan_upsert +
  pl_updated_at :: real

record 'w api_state = "'w jwks_state" +
  meetings :: "meeting list"
  agent_configs :: "string \<Rightarrow> agent_config option"
  personalizations :: "string \<Rightarrow> personalization option"
  plans :: "string \<Rightarrow> organization_plan option"
  ids_used :: nat

text \<open>
  What the process runs with: the network, the text of floats, PyJWT, the clock skew, the
  settings, the source of UUIDs, pydantic's coercion to \<open>int\<close> and the known time zones.
\<close>

record ('w, 'k) api_env =
  ae_net :: "'w net"
  ae_fr :: "real \<Rightarrow> string"
  ae_jwt :: "'k jwt_lib"
  ae_skew :: int
  ae_cfg :: api_settings
  ae_uuid :: "nat \<Rightarrow> string"
  ae_int :: "json \<Rightarrow> int option"
  ae_zones :: "string set"

text \<open>A value bound to a text column or compared with one: null is \<open>None\<close>.\<close>

definition db_text :: "(real \<Rightarrow> string) \<Rightarrow> json \<Rightarrow> exn + string option" where
  "db_text fr v =
     (case v of
        JStr s \<Rightarrow> Inr (Some s)
      | JNull \<Rightarrow> Inr None
      | JInt i \<Rightarrow> Inr (Some (str_int i))
      | JBool b \<Rightarrow> Inr (Some (if b then ''1'' else ''0''))
      | JFloat r \<Rightarrow> Inr (Some (fr r))
      | _ \<Rightarrow> Inl (OtherError ''InterfaceError''))"

definition not_null :: "string option \<Rightarrow> exn + string" where
  "not_null v = (case v of None \<Rightarrow> Inl (OtherError ''IntegrityError'') | Some s \<Rightarrow> Inr s)"

definition validated :: "string list + 'a \<Rightarrow> exn + 'a" where
  "validated r = (case r of Inl _ \<Rightarrow> Inl RequestValidationError | Inr x \<Rightarrow> Inr x)"

subsection \<open>Dependencies\<close>

definition current_user ::
  "('w, 'k) api_env \<Rightarrow> string option \<Rightarrow> (('w, 'z) jwks_state_scheme, user_info option) prog" where
  "current_user V cred = get_current_user (ae_net V) (ae_fr V) (ae_jwt V) (ae_skew V) (ae_cfg V) cred"

definition scoped_user ::
  "('w, 'k) api_env \<Rightarrow> string \<Rightarrow> string option \<Rightarrow> (('w, 'z) jwks_state_scheme, user_info) prog" where
  "scoped_user V scope cred = andthen (current_user V cred) (\<lambda>u. lift_res (require_scope scope u))"

definition org_text :: "('w, 'k) api_env \<Rightarrow> user_info \<Rightarrow> exn + string option" where
  "org_text V u = db_text (ae_fr V) (org u)"

subsection \<open>\<open>api/routers/meetings.py\<close>\<close>

definition list_meetings ::
  "('w, 'k) api_env \<Rightarrow> string option \<Rightarrow> ('w api_state, meeting list) prog" where
  "list_meetings V cred =
     andthen (scoped_user V ''list_meetings'' cred) (\<lambda>user.
     andthen (lift_res (org_text V user)) (\<lambda>o'.
       asks (\<lambda>s. filter (\<lambda>m. Some (mt_org m) = o') (meetings s))))"

definition insert_meeting :: "meeting \<Rightarrow> ('w api_state, meeting) prog" where
  "insert_meeting m s =
     (if mt_id m \<in> mt_id ` set (meetings s) then (Inl (OtherError ''IntegrityError''), s)
      else (Inr m, s\<lparr>meetings := meetings s @ [m]\<rparr>))"

definition create_meeting ::
  "('w, 'k) api_env \<Rightarrow> string option \<Rightarrow> json \<Rightarrow> ('w api_state, meeting) prog" where
  "create_meeting V cred b =
     andthen (scoped_user V ''create_meeting'' cred) (\<lambda>user.
     andthen (lift_res (validated (MeetingCreate (ae_int V) (ae_zones V) b))) (\<lambda>data.
     andthen (lift_res (bind_res (org_text V user) not_null)) (\<lambda>o'.
     andthen (lift_res (bind_res (db_text (ae_fr V) (user_id user)) not_null)) (\<lambda>uid.
     andthen (lift_res (db_text (ae_fr V) (email user))) (\<lambda>mail.
     andthen (lift_res (db_text (ae_fr V) (or_else (actor_user_id user) JNull))) (\<lambda>actor.
     andthen (asks (\<lambda>s. (ae_uuid V (ids_used s), wall s))) (\<lambda>(new_id, now).
     andthen (modify (\<lambda>s. s\<lparr>ids_used := Suc (ids_used s)\<rparr>)) (\<lambda>_.
       insert_meeting
         \<lparr>mt_id = new_id, mt_org = o', mt_created_at = now, mt_updated_at = now,
          mt_topic = mc_topic data, mt_date = mc_date data, mt_start_time = mc_start_time data,
          mt_duration = str_int (mc_duration data), mt_time_zone = mc_time_zone data,
          mt_user_id = uid, mt_email_address = mail, mt_actor_user_id = actor\<rparr>))))))))"

text \<open>\<open>query(Meeting).filter(Meeting.id == meeting_id, Meeting.org == user.org).first()\<close>.\<close>

definition find_meeting :: "string \<Rightarrow> string option \<Rightarrow> 'w api_state \<Rightarrow> meeting option" where
  "find_meeting i o' s = find (\<lambda>m. mt_id m = i \<and> Some (mt_org m) = o') (meetings s)"

definition found :: "meeting option \<Rightarrow> exn + meeting" where
  "found m = (case m of None \<Rightarrow> Inl (HttpError 404 ''Meeting not found'') | Some x \<Rightarrow> Inr x)"

definition get_meeting ::
  "('w, 'k) api_env \<Rightarrow> string option \<Rightarrow> string \<Rightarrow> ('w api_state, meeting) prog" where
  "get_meeting V cred meeting_id =
     andthen (scoped_user V ''view_meeting'' cred) (\<lambda>user.
     andthen (lift_res (org_text V user)) (\<lambda>o'.
     andthen (asks (find_meeting meeting_id o')) (\<lambda>m. lift_res (found m))))"

definition update_row :: "meeting \<Rightarrow> 'w api_state \<Rightarrow> 'w api_state" where
  "update_row m s = s\<lparr>meetings := map (\<lambda>x. if mt_id x = mt_id m then m else x) (meetings s)\<rparr>"

text \<open>The stored duration is text and the new one an int, so an update always writes the row.\<close>

definition update_meeting ::
  "('w, 'k) api_env \<Rightarrow> string option \<Rightarrow> string \<Rightarrow> json \<Rightarrow> ('w api_state, meeting) prog" where
  "update_meeting V cred meeting_id b =
     andthen (scoped_user V ''update_meeting'' cred) (\<lambda>user.
     andthen (lift_res (validated (MeetingCreate (ae_int V) (ae_zones V) b))) (\<lambda>data.
     andthen (lift_res (org_text V user)) (\<lambda>o'.
     andthen (asks (find_meeting meeting_id o')) (\<lambda>m.
     andthen (lift_res (found m)) (\<lambda>m.
     andthen (asks wall) (\<lambda>now.
       (let m' = m\<lparr>mt_topic := mc_topic data, mt_date := mc_date data,
                  mt_start_time := mc_start_time data, mt_duration := str_int (mc_duration data),
                  mt_time_zone := mc_time_zone data, mt_updated_at := now\<rparr>
        in andthen (modify (update_row m')) (\<lambda>_. ret m'))))))))"

definition delete_meeting ::
  "('w, 'k) api_env \<Rightarrow> string option \<Rightarrow> string \<Rightarrow> ('w api_state, unit) prog" where
  "delete_meeting V cred meeting_id =
     andthen (scoped_user V ''delete_meeting'' cred) (\<lambda>user.
     andthen (lift_res (org_text V user)) (\<lambda>o'.
     andthen (asks (find_meeting meeting_id o')) (\<lambda>m.
     andthen (lift_res (found m)) (\<lambda>m.
       modify (\<lambda>s. s\<lparr>meetings := filter (\<lambda>x. mt_id x \<noteq> mt_id m) (meetings s)\<rparr>)))))"

text \<open>The router: every request to the meetings endpoints, and the rows it answers with.\<close>

datatype meeting_request =
    ListMeetings | CreateMeeting json | GetMeeting string | UpdateMeeting string json | DeleteMeeting string

fun meetings_router ::
  "('w, 'k) api_env \<Rightarrow> string option \<Rightarrow> meeting_request \<Rightarrow> ('w api_state, meeting list) prog" where
  "meetings_router V cred ListMeetings = list_meetings V cred"
| "meetings_router V cred (CreateMeeting b) = andthen (create_meeting V cred b) (\<lambda>m. ret [m])"
| "meetings_router V cred (GetMeeting i) = andthen (get_meeting V cred i) (\<lambda>m. ret [m])"
| "meetings_router V cred (UpdateMeeting i b) = andthen (update_meeting V cred i b) (\<lambda>m. ret [m])"
| "meetings_router V cred (DeleteMeeting i) = andthen (delete_meeting V cred i) (\<lambda>_. ret [])"

fun meeting_scope :: "meeting_request \<Rightarrow> string" where
  "meeting_scope ListMeetings = ''list_meetings''"
| "meeting_scope (CreateMeeting _) = ''create_meeting''"
| "meeting_scope (GetMeeting _) = ''view_meeting''"
| "meeting_scope (UpdateMeeting _ _) = ''update_meeting''"
| "meeting_scope (DeleteMeeting _) = ''delete_meeting''"

subsection \<open>\<open>api/routers/agent_configs.py\<close>\<close>

definition org_mismatch :: exn where
  "org_mismatch = HttpError 403 ''Forbidden: organization mismatch''"

definition agent_config_gate ::
  "('w, 'k) api_env \<Rightarrow> string \<Rightarrow> user_info option \<Rightarrow> string option \<Rightarrow> (('w, 'z) jwks_state_scheme, unit) prog" where
  "agent_config_gate V org_id user service_authorization =
     (case service_authorization of
        Some h \<Rightarrow>
          andthen (api_require_service_auth (ae_net V) (ae_fr V) (ae_jwt V) (ae_skew V) (ae_cfg V) (Some h))
            (\<lambda>_. ret ())
      | None \<Rightarrow>
          (case user of
             Some u \<Rightarrow>
               if ''view_agent_config'' \<notin> set (scopes u) \<and> ''view_agent_config_agent'' \<notin> set (scopes u) then
                 raise (HttpError 403
                   ''Missing required scope: view_agent_config or view_agent_config_agent'')
               else if JStr org_id \<noteq> org u then raise org_mismatch
               else ret ()
           | None \<Rightarrow>
               raise (HttpError 401 (''Authentication required: provide an X-Service-Authorization service '' @
                 ''token or a user JWT with the view_agent_config scope''))))"

definition get_agent_config ::
  "('w, 'k) api_env \<Rightarrow> string option \<Rightarrow> string option \<Rightarrow> string \<Rightarrow> ('w api_state, agent_config) prog" where
  "get_agent_config V cred service_authorization org_id =
     andthen (current_user V cred) (\<lambda>user.
     andthen (agent_config_gate V org_id user service_authorization) (\<lambda>_.
     andthen (asks (\<lambda>s. agent_configs s org_id)) (\<lambda>row.
       (case row of
          None \<Rightarrow> raise (HttpError 404 ''No agent config found'')
        | Some c \<Rightarrow> ret c))))"

text \<open>
  An update that changes nothing issues no statement, so it leaves \<open>updated_at\<close> alone.
\<close>

definition upsert_agent_config_row :: "real \<Rightarrow> agent_config_create \<Rightarrow> agent_config option \<Rightarrow> agent_config" where
  "upsert_agent_config_row now data existing =
     (case existing of
        None \<Rightarrow> agent_config_create.extend data \<lparr>ac_created_at = now, ac_updated_at = now\<rparr>
      | Some c \<Rightarrow>
          agent_config_create.extend data
            \<lparr>ac_created_at = ac_created_at c,
             ac_updated_at = (if agent_config_create.truncate c = data then ac_updated_at c else now)\<rparr>)"

definition create_agent_config ::
  "('w, 'k) api_env \<Rightarrow> string option \<Rightarrow> json \<Rightarrow> ('w api_state, agent_config) prog" where
  "create_agent_config V cred b =
     andthen (scoped_user V ''manage_agent_config'' cred) (\<lambda>user.
     andthen (lift_res (validated (AgentConfigCreate b))) (\<lambda>data.
       if JStr (ac_org data) \<noteq> org user then raise org_mismatch
       else
         andthen (asks (\<lambda>s. upsert_agent_config_row (wall s) data (agent_configs s (ac_org data)))) (\<lambda>row.
         andthen (modify (\<lambda>s. s\<lparr>agent_configs := (agent_configs s)(ac_org data \<mapsto> row)\<rparr>)) (\<lambda>_.
           ret row))))"

definition delete_agent_config ::
  "('w, 'k) api_env \<Rightarrow> string option \<Rightarrow> string \<Rightarrow> ('w api_state, unit) prog" where
  "delete_agent_config V cred org_id =
     andthen (scoped_user V ''manage_agent_config'' cred) (\<lambda>user.
       if JStr org_id \<noteq> org user then raise org_mismatch
       else modify (\<lambda>s. s\<lparr>agent_configs := (agent_configs s)(org_id := None)\<rparr>))"

subsection \<open>\<open>api/routers/personalization.py\<close>\<close>

definition get_personalization ::
  "('w, 'k) api_env \<Rightarrow> string option \<Rightarrow> string \<Rightarrow> ('w api_state, personalization) prog" where
  "get_personalization V cred org_id =
     andthen (current_user V cred) (\<lambda>u.
     andthen (lift_res (require_current_user u)) (\<lambda>user.
       if JStr org_id \<noteq> org user then raise org_mismatch
       else
         andthen (asks (\<lambda>s. personalizations s org_id)) (\<lambda>row.
           (case row of
              None \<Rightarrow> raise (HttpError 404 ''No personalization found'')
            | Some p \<Rightarrow> ret p))))"

definition upsert_personalization_row ::
  "real \<Rightarrow> personalization_upsert \<Rightarrow> personalization option \<Rightarrow> personalization" where
  "upsert_personalization_row now data existing =
     (case existing of
        None \<Rightarrow> personalization_upsert.extend data \<lparr>pu_updated_at = now\<rparr>
      | Some p \<Rightarrow>
          personalization_upsert.extend data
            \<lparr>pu_updated_at = (if personalization_upsert.truncate p = data then pu_updated_at p else now)\<rparr>)"

definition upsert_personalization ::
  "('w, 'k) api_env \<Rightarrow> string option \<Rightarrow> json \<Rightarrow> ('w api_state, personalization) prog" where
  "upsert_personalization V cred b =
     andthen (scoped_user V ''create_basic_branding'' cred) (\<lambda>user.
     andthen (lift_res (validated (PersonalizationUpsert b))) (\<lambda>data.
       if JStr (pu_org data) \<noteq> org user then raise org_mismatch
       else
         andthen (asks (\<lambda>s. upsert_personalization_row (wall s) data (personalizations s (pu_org data)))) (\<lambda>row.
         andthen (modify (\<lambda>s. s\<lparr>personalizations := (personalizations s)(pu_org data \<mapsto> row)\<rparr>)) (\<lambda>_.
           ret row))))"

definition delete_personalization_by_org ::
  "('w, 'k) api_env \<Rightarrow> string option \<Rightarrow> string \<Rightarrow> ('w api_state, unit) prog" where
  "delete_personalization_by_org V cred org_id =
     andthen (scoped_user V ''delete_branding'' cred) (\<lambda>user.
       if JStr org_id \<noteq> org user then raise org_mismatch
       else modify (\<lambda>s. s\<lparr>personalizations := (personalizations s)(org_id := None)\<rparr>))"

subsection \<open>\<open>api/routers/plans.py\<close>\<close>

definition get_plan :: "string \<Rightarrow> ('w api_state, organization_plan) prog" where
  "get_plan org_id =
     andthen (asks (\<lambda>s. plans s org_id)) (\<lambda>row.
       (case row of None \<Rightarrow> raise (HttpError 404 ''No plan found'') | Some p \<Rightarrow> ret p))"

definition upsert_plan_row :: "real \<Rightarrow> plan_upsert \<Rightarrow> organization_plan option \<Rightarrow> organization_plan" where
  "upsert_plan_row now data existing =
     (case existing of
        None \<Rightarrow> plan_upsert.extend data \<lparr>pl_updated_at = now\<rparr>
      | Some p \<Rightarrow>
          p\<lparr>pl_plan := pl_plan data,
            pl_updated_at := (if pl_plan p = pl_plan data then pl_updated_at p else now)\<rparr>)"

definition upsert_plan ::
  "('w, 'k) api_env \<Rightarrow> string option \<Rightarrow> json \<Rightarrow> ('w api_state, organization_plan) prog" where
  "upsert_plan V cred b =
     andthen (current_user V cred) (\<lambda>u.
     andthen (lift_res (validated (OrganizationPlanUpsert b))) (\<lambda>data.
       (case u of
          None \<Rightarrow> raise (AttributeError ''org'')
        | Some user \<Rightarrow>
            if JStr (pl_org data) \<noteq> org user then raise org_mismatch
            else
              andthen (asks (\<lambda>s. upsert_plan_row (wall s) data (plans s (pl_org data)))) (\<lambda>row.
              andthen (modify (\<lambda>s. s\<lparr>plans := (plans s)(pl_org data \<mapsto> row)\<rparr>)) (\<lambda>_.
                ret row)))))"

subsection \<open>Authentication leaves the tables alone\<close>

lemma keeps_send_jwks: "keeps jwks_state.more (send net q)"
proof (rule keepsI)
  show "jwks_state.more (snd (send net q s)) = jwks_state.more s" for s
    by (cases s) (simp add: send_def split: prod.splits)
qed

lemma keeps_jwks_set: "keeps jwks_state.more (modify (jwks_set k d))"
  by (rule keeps_modify) (simp add: jwks_set_def)

lemma keeps_option_case:
  "keeps f m \<Longrightarrow> (\<And>x. keeps f (n x)) \<Longrightarrow> keeps f (case v of None \<Rightarrow> m | Some x \<Rightarrow> n x)"
  by (cases v) auto

lemma keeps_get_jwks: "keeps jwks_state.more (get_jwks net b t)"
  unfolding get_jwks_def
  by (intro keeps_andthen keeps_catch keeps_option_case keeps_send_jwks keeps_jwks_set keeps_basic
      keeps_if)

lemma keeps_current_user: "keeps jwks_state.more (current_user V cred)"
  unfolding current_user_def get_current_user_def
  by (intro keeps_andthen keeps_catch keeps_option_case keeps_get_jwks keeps_basic)

lemma keeps_service_auth: "keeps jwks_state.more (api_require_service_auth net fr L skew cfg h)"
  unfolding api_require_service_auth_def require_service_auth_def
  by (intro keeps_andthen keeps_catch keeps_option_case keeps_get_jwks keeps_basic)

lemma keeps_scoped_user: "keeps jwks_state.more (scoped_user V sc cred)"
  unfolding scoped_user_def by (intro keeps_andthen keeps_current_user keeps_basic)

lemma keeps_agent_config_gate: "keeps jwks_state.more (agent_config_gate V i u h)"
  unfolding agent_config_gate_def
  by (intro keeps_andthen keeps_option_case keeps_service_auth keeps_basic keeps_if)

definition tables ::
  "'w api_state \<Rightarrow> meeting list \<times> (string \<Rightarrow> agent_config option) \<times>
     (string \<Rightarrow> personalization option) \<times> (string \<Rightarrow> organization_plan option) \<times> nat" where
  "tables s = (meetings s, agent_configs s, personalizations s, plans s, ids_used s)"

lemma tables_more:
  assumes "keeps jwks_state.more m" and "m s = (r, t)"
  shows "tables t = tables s"
proof -
  have "jwks_state.more t = jwks_state.more s" using keepsD [OF assms(1), of s] assms(2) by simp
  then show ?thesis by (cases s; cases t) (simp add: tables_def)
qed

lemma tablesD:
  assumes "tables t = tables s"
  shows "meetings t = meetings s" "agent_configs t = agent_configs s"
    "personalizations t = personalizations s" "plans t = plans s" "ids_used t = ids_used s"
  using assms by (simp_all add: tables_def)

lemma scoped_user_Inr:
  assumes "scoped_user V sc cred s = (Inr u, t)"
  shows "current_user V cred s = (Inr (Some u), t)"
    and "sc \<in> set (scopes u) \<or> sc @ ''_agent'' \<in> set (scopes u)"
    and "tables t = tables s"
  using assms tables_more [OF keeps_scoped_user assms]
  by (auto simp: scoped_user_def andthen_Inr_conv require_scope_Inr)

lemma scoped_user_tables: "scoped_user V sc cred s = (r, t) \<Longrightarrow> tables t = tables s"
  by (rule tables_more [OF keeps_scoped_user])

subsection \<open>Meetings\<close>

definition unique_ids :: "'w api_state \<Rightarrow> bool" where
  "unique_ids s \<longleftrightarrow> distinct (map mt_id (meetings s))"

lemma find_meeting_Some:
  "find_meeting i o' s = Some m \<Longrightarrow> m \<in> set (meetings s) \<and> mt_id m = i \<and> Some (mt_org m) = o'"
  unfolding find_meeting_def by (drule find_SomeD) simp

lemma found_Inr [simp]: "found v = Inr m \<longleftrightarrow> v = Some m"
  by (cases v) (auto simp: found_def)

lemma unique_idD:
  "unique_ids s \<Longrightarrow> m \<in> set (meetings s) \<Longrightarrow> x \<in> set (meetings s) \<Longrightarrow> mt_id x = mt_id m \<Longrightarrow> x = m"
  by (auto simp: unique_ids_def distinct_map dest: inj_onD)

lemma filter_map_same:
  "(\<And>x. x \<in> set xs \<Longrightarrow> f x = x \<or> (\<not> P x \<and> \<not> P (f x))) \<Longrightarrow> filter P (map f xs) = filter P xs"
proof (induction xs)
  case (Cons a xs)
  then have "f a = a \<or> (\<not> P a \<and> \<not> P (f a))" and "filter P (map f xs) = filter P xs" by simp_all
  then show ?case by auto
qed simp

lemma update_row_others:
  assumes "unique_ids s" and "m \<in> set (meetings s)" and "mt_id m' = mt_id m"
    and "mt_org m' = mt_org m" and "Some (mt_org m) = o'"
  shows "filter (\<lambda>x. Some (mt_org x) \<noteq> o') (meetings (update_row m' s)) =
    filter (\<lambda>x. Some (mt_org x) \<noteq> o') (meetings s)"
  unfolding update_row_def
  using assms unique_idD [OF assms(1,2)] by (simp, intro filter_map_same) auto

lemma update_row_unique: "unique_ids s \<Longrightarrow> unique_ids (update_row m s)"
proof -
  have "map mt_id (map (\<lambda>x. if mt_id x = mt_id m then m else x) xs) = map mt_id xs" for xs
    by (induction xs) auto
  then show "unique_ids s \<Longrightarrow> ?thesis" by (simp add: unique_ids_def update_row_def del: map_map)
qed

definition others :: "string option \<Rightarrow> 'w api_state \<Rightarrow> meeting list" where
  "others o' s = filter (\<lambda>m. Some (mt_org m) \<noteq> o') (meetings s)"

text \<open>What a step owes the other tenants when it ran for the organization \<open>o'\<close>.\<close>

definition isolated :: "string option \<Rightarrow> 'w api_state \<Rightarrow> meeting list \<Rightarrow> 'w api_state \<Rightarrow> bool" where
  "isolated o' s rows t \<longleftrightarrow>
     list_all (\<lambda>m. Some (mt_org m) = o') rows \<and> others o' t = others o' s"

lemma list_meetings_run:
  assumes "list_meetings V cred s = (Inr rows, t)"
  obtains u o' where "current_user V cred s = (Inr (Some u), t)" "meetings t = meetings s"
    "''list_meetings'' \<in> set (scopes u) \<or> ''list_meetings'' @ ''_agent'' \<in> set (scopes u)"
    "org_text V u = Inr o'" "rows = filter (\<lambda>m. Some (mt_org m) = o') (meetings s)"
proof -
  from assms obtain u t' where u: "scoped_user V ''list_meetings'' cred s = (Inr u, t')"
    by (auto simp: list_meetings_def andthen_Inr_conv)
  have ms: "meetings t' = meetings s" using scoped_user_Inr(3) [OF u] by (rule tablesD)
  from assms u obtain o' where "org_text V u = Inr o'" "t = t'"
    "rows = filter (\<lambda>m. Some (mt_org m) = o') (meetings t')"
    by (auto simp: list_meetings_def andthen_Inr_conv)
  then show ?thesis
    using that [of u o'] scoped_user_Inr(1,2) [OF u] ms by simp
qed

lemma create_meeting_run:
  assumes "create_meeting V cred b s = (Inr m, t)"
  obtains u t' where "current_user V cred s = (Inr (Some u), t')" "meetings t' = meetings s"
    "''create_meeting'' \<in> set (scopes u) \<or> ''create_meeting'' @ ''_agent'' \<in> set (scopes u)"
    "org_text V u = Inr (Some (mt_org m))" "mt_id m \<notin> mt_id ` set (meetings s)"
    "meetings t = meetings s @ [m]"
proof -
  from assms obtain u t' where u: "scoped_user V ''create_meeting'' cred s = (Inr u, t')"
    by (auto simp: create_meeting_def andthen_Inr_conv)
  have "meetings t' = meetings s" using scoped_user_Inr(3) [OF u] by (rule tablesD)
  moreover have "org_text V u = Inr (Some (mt_org m))"
    using assms u
    by (auto simp: create_meeting_def andthen_Inr_conv insert_meeting_def bind_res_Inr_conv not_null_def
        split: if_splits option.splits)
  moreover have "mt_id m \<notin> mt_id ` set (meetings t')" "meetings t = meetings t' @ [m]"
    using assms u
    by (auto simp: create_meeting_def andthen_Inr_conv insert_meeting_def split: if_splits)
  ultimately show ?thesis using that scoped_user_Inr(1,2) [OF u] by metis
qed

lemma get_meeting_run:
  assumes "get_meeting V cred i s = (Inr m, t)"
  obtains u o' where "current_user V cred s = (Inr (Some u), t)" "meetings t = meetings s"
    "''view_meeting'' \<in> set (scopes u) \<or> ''view_meeting'' @ ''_agent'' \<in> set (scopes u)"
    "org_text V u = Inr o'" "find_meeting i o' s = Some m"
proof -
  from assms obtain u t' where u: "scoped_user V ''view_meeting'' cred s = (Inr u, t')"
    by (auto simp: get_meeting_def andthen_Inr_conv)
  have ms: "meetings t' = meetings s" using scoped_user_Inr(3) [OF u] by (rule tablesD)
  from assms u obtain o' where "org_text V u = Inr o'" "find_meeting i o' t' = Some m" "t = t'"
    by (auto simp: get_meeting_def andthen_Inr_conv)
  then show ?thesis
    using that [of u o'] scoped_user_Inr(1,2) [OF u] ms by (simp add: find_meeting_def)
qed

lemma update_meeting_run:
  assumes "update_meeting V cred i b s = (Inr m', t)"
  obtains u t' m where "current_user V cred s = (Inr (Some u), t')" "meetings t' = meetings s"
    "''update_meeting'' \<in> set (scopes u) \<or> ''update_meeting'' @ ''_agent'' \<in> set (scopes u)"
    "org_text V u = Inr (Some (mt_org m))" "m \<in> set (meetings s)" "mt_id m = i"
    "mt_id m' = i" "mt_org m' = mt_org m" "t = update_row m' t'"
proof -
  from assms obtain u t' where u: "scoped_user V ''update_meeting'' cred s = (Inr u, t')"
    by (auto simp: update_meeting_def andthen_Inr_conv)
  have ms: "meetings t' = meetings s" using scoped_user_Inr(3) [OF u] by (rule tablesD)
  from assms u obtain o' m where o': "org_text V u = Inr o'" and m: "find_meeting i o' t' = Some m"
    and m': "mt_id m' = mt_id m" "mt_org m' = mt_org m" "t = update_row m' t'"
    by (auto simp: update_meeting_def andthen_Inr_conv Let_def)
  from find_meeting_Some [OF m] show ?thesis
    using that [of u t' m] scoped_user_Inr(1,2) [OF u] ms o' m' by simp
qed

lemma delete_meeting_run:
  assumes "delete_meeting V cred i s = (Inr x, t)"
  obtains u t' m where "current_user V cred s = (Inr (Some u), t')" "meetings t' = meetings s"
    "''delete_meeting'' \<in> set (scopes u) \<or> ''delete_meeting'' @ ''_agent'' \<in> set (scopes u)"
    "org_text V u = Inr (Some (mt_org m))" "m \<in> set (meetings s)" "mt_id m = i"
    "meetings t = filter (\<lambda>x. mt_id x \<noteq> i) (meetings s)"
proof -
  from assms obtain u t' where u: "scoped_user V ''delete_meeting'' cred s = (Inr u, t')"
    by (auto simp: delete_meeting_def andthen_Inr_conv)
  have ms: "meetings t' = meetings s" using scoped_user_Inr(3) [OF u] by (rule tablesD)
  from assms u obtain o' m where o': "org_text V u = Inr o'" and m: "find_meeting i o' t' = Some m"
    and t: "meetings t = filter (\<lambda>x. mt_id x \<noteq> mt_id m) (meetings t')"
    by (auto simp: delete_meeting_def andthen_Inr_conv)
  from find_meeting_Some [OF m] show ?thesis
    using that [of u t' m] scoped_user_Inr(1,2) [OF u] ms o' t by simp
qed

text \<open>A step that can no longer fail once it has changed the rows.\<close>

lemma scoped_error:
  fixes s :: "'w api_state"
  assumes "\<And>u t' e t. scoped_user V sc cred s = (Inr u, t') \<Longrightarrow> f u t' = (Inl e, t) \<Longrightarrow> meetings t = meetings t'"
    and "andthen (scoped_user V sc cred) f s = (Inl e, t)"
  shows "meetings t = meetings s"
proof (cases "scoped_user V sc cred s")
  case (Pair r t')
  have "meetings t' = meetings s" using scoped_user_tables [OF Pair] by (rule tablesD)
  show ?thesis
  proof (cases r)
    case (Inl e')
    then have "t = t'" using assms(2) Pair by (simp add: andthen_def)
    then show ?thesis by (simp add: \<open>meetings t' = meetings s\<close>)
  next
    case (Inr u)
    then have "f u t' = (Inl e, t)" using assms(2) Pair by (simp add: andthen_def)
    then have "meetings t = meetings t'" using assms(1) Pair Inr by blast
    then show ?thesis by (simp add: \<open>meetings t' = meetings s\<close>)
  qed
qed

lemma meetings_error:
  assumes "meetings_router V cred req s = (Inl e, t)"
  shows "meetings t = meetings s"
proof (cases req)
  case ListMeetings
  with assms have "list_meetings V cred s = (Inl e, t)" by simp
  then show ?thesis unfolding list_meetings_def
    by (rule scoped_error [rotated]) (auto simp: andthen_Inl_conv)
next
  case (CreateMeeting b)
  with assms have "create_meeting V cred b s = (Inl e, t)" by (simp add: andthen_Inl_conv)
  then show ?thesis unfolding create_meeting_def
    by (rule scoped_error [rotated]) (auto simp: andthen_Inl_conv insert_meeting_def split: if_splits)
next
  case (GetMeeting i)
  with assms have "get_meeting V cred i s = (Inl e, t)" by (simp add: andthen_Inl_conv)
  then show ?thesis unfolding get_meeting_def
    by (rule scoped_error [rotated]) (auto simp: andthen_Inl_conv)
next
  case (UpdateMeeting i b)
  with assms have "update_meeting V cred i b s = (Inl e, t)" by (simp add: andthen_Inl_conv)
  then show ?thesis unfolding update_meeting_def
    by (rule scoped_error [rotated]) (auto simp: andthen_Inl_conv Let_def)
next
  case (DeleteMeeting i)
  with assms have "delete_meeting V cred i s = (Inl e, t)" by (simp add: andthen_Inl_conv)
  then show ?thesis unfolding delete_meeting_def
    by (rule scoped_error [rotated]) (auto simp: andthen_Inl_conv)
qed

lemma meetings_step:
  assumes uniq: "unique_ids s" and run: "meetings_router V cred req s = (Inr rows, t)"
  obtains u t' o' where "current_user V cred s = (Inr (Some u), t')"
    "meeting_scope req \<in> set (scopes u) \<or> meeting_scope req @ ''_agent'' \<in> set (scopes u)"
    "org_text V u = Inr o'" "isolated o' s rows t" "unique_ids t"
proof (cases req)
  case ListMeetings
  then have run: "list_meetings V cred s = (Inr rows, t)" using run by simp
  obtain u o' where *:
    "current_user V cred s = (Inr (Some u), t)" "meetings t = meetings s"
    "''list_meetings'' \<in> set (scopes u) \<or> ''list_meetings'' @ ''_agent'' \<in> set (scopes u)"
    "org_text V u = Inr o'" "rows = filter (\<lambda>m. Some (mt_org m) = o') (meetings s)"
    by (rule list_meetings_run [OF run])
  have "isolated o' s rows t" "unique_ids t"
    using uniq * by (simp_all add: isolated_def others_def list_all_iff unique_ids_def)
  then show ?thesis using that * by (simp add: ListMeetings)
next
  case (CreateMeeting b)
  then obtain m where m: "create_meeting V cred b s = (Inr m, t)" and rows: "rows = [m]"
    using run by (auto simp: andthen_Inr_conv)
  obtain u t' where *:
    "current_user V cred s = (Inr (Some u), t')" "meetings t' = meetings s"
    "''create_meeting'' \<in> set (scopes u) \<or> ''create_meeting'' @ ''_agent'' \<in> set (scopes u)"
    "org_text V u = Inr (Some (mt_org m))" "mt_id m \<notin> mt_id ` set (meetings s)"
    "meetings t = meetings s @ [m]"
    by (rule create_meeting_run [OF m])
  have "isolated (Some (mt_org m)) s rows t" "unique_ids t"
    using uniq * by (simp_all add: isolated_def others_def rows unique_ids_def)
  then show ?thesis using that * by (simp add: CreateMeeting)
next
  case (GetMeeting i)
  then obtain m where m: "get_meeting V cred i s = (Inr m, t)" and rows: "rows = [m]"
    using run by (auto simp: andthen_Inr_conv)
  obtain u o' where *:
    "current_user V cred s = (Inr (Some u), t)" "meetings t = meetings s"
    "''view_meeting'' \<in> set (scopes u) \<or> ''view_meeting'' @ ''_agent'' \<in> set (scopes u)"
    "org_text V u = Inr o'" "find_meeting i o' s = Some m"
    by (rule get_meeting_run [OF m])
  have "isolated o' s rows t" "unique_ids t"
    using uniq * find_meeting_Some [OF *(5)]
    by (simp_all add: isolated_def others_def rows unique_ids_def)
  then show ?thesis using that * by (simp add: GetMeeting)
next
  case (UpdateMeeting i b)
  then obtain m where m: "update_meeting V cred i b s = (Inr m, t)" and rows: "rows = [m]"
    using run by (auto simp: andthen_Inr_conv)
  obtain u t' old where *:
    "current_user V cred s = (Inr (Some u), t')" "meetings t' = meetings s"
    "''update_meeting'' \<in> set (scopes u) \<or> ''update_meeting'' @ ''_agent'' \<in> set (scopes u)"
    "org_text V u = Inr (Some (mt_org old))" "old \<in> set (meetings s)" "mt_id old = i"
    "mt_id m = i" "mt_org m = mt_org old" "t = update_row m t'"
    by (rule update_meeting_run [OF m])
  have "unique_ids t'" using uniq *(2) by (simp add: unique_ids_def)
  with * have "isolated (Some (mt_org old)) s rows t" "unique_ids t"
    using update_row_others [of t' old m "Some (mt_org old)"]
    by (simp_all add: isolated_def others_def rows update_row_unique)
  then show ?thesis using that * by (simp add: UpdateMeeting)
next
  case (DeleteMeeting i)
  then obtain x where m: "delete_meeting V cred i s = (Inr x, t)" and rows: "rows = []"
    using run by (auto simp: andthen_Inr_conv)
  obtain u t' old where *:
    "current_user V cred s = (Inr (Some u), t')" "meetings t' = meetings s"
    "''delete_meeting'' \<in> set (scopes u) \<or> ''delete_meeting'' @ ''_agent'' \<in> set (scopes u)"
    "org_text V u = Inr (Some (mt_org old))" "old \<in> set (meetings s)" "mt_id old = i"
    "meetings t = filter (\<lambda>x. mt_id x \<noteq> i) (meetings s)"
    by (rule delete_meeting_run [OF m])
  have "x = old" if "x \<in> set (meetings s)" "mt_id x = i" for x
    using unique_idD [OF uniq *(5) that(1)] that(2) *(6) by simp
  then have "isolated (Some (mt_org old)) s rows t"
    using *(7) by (auto simp: isolated_def others_def rows intro!: filter_cong)
  moreover have "unique_ids t" using uniq *(7) by (simp add: unique_ids_def distinct_map_filter)
  ultimately show ?thesis using that * by (simp add: DeleteMeeting)
qed

lemma find_unique:
  assumes "unique_ids s" and "m \<in> set (meetings s)" and "Some (mt_org m) = o'"
  shows "find_meeting (mt_id m) o' s = Some m"
proof (cases "find_meeting (mt_id m) o' s")
  case None
  then have "\<not> (mt_id m = mt_id m \<and> Some (mt_org m) = o')"
    using assms(2) unfolding find_meeting_def by (auto simp: find_None_iff)
  with assms(3) show ?thesis by simp
next
  case (Some x)
  then show ?thesis using find_meeting_Some [OF Some] unique_idD [OF assms(1,2)] by simp
qed

subsection \<open>Properties of the meetings endpoints\<close>

text \<open>
  C1: the organization of the token is a tenant boundary. Every request to the meetings
  endpoints that succeeds was made with a token that verifies and carries the endpoint's scope
  or its agent variant; every row it answers with belongs to the organization of that token,
  and the rows of all other organizations are the same before and after. A request that fails
  changes no row. Identifiers stay unique.
\<close>

theorem meetings_tenant_isolation:
  assumes "unique_ids s"
  shows "case meetings_router V cred req s of
    (Inl e, t) \<Rightarrow> meetings t = meetings s
  | (Inr rows, t) \<Rightarrow>
      unique_ids t \<and>
      (\<exists>u t' o'. current_user V cred s = (Inr (Some u), t') \<and>
        (meeting_scope req \<in> set (scopes u) \<or> meeting_scope req @ ''_agent'' \<in> set (scopes u)) \<and>
        db_text (ae_fr V) (org u) = Inr o' \<and>
        list_all (\<lambda>m. Some (mt_org m) = o') rows \<and>
        filter (\<lambda>m. Some (mt_org m) \<noteq> o') (meetings t) = filter (\<lambda>m. Some (mt_org m) \<noteq> o') (meetings s))"
proof (cases "meetings_router V cred req s")
  case (Pair r t)
  show ?thesis
  proof (cases r)
    case (Inl e)
    then show ?thesis using Pair meetings_error by simp
  next
    case (Inr rows)
    with Pair have run: "meetings_router V cred req s = (Inr rows, t)" by simp
    show ?thesis
      by (rule meetings_step [OF assms run])
         (auto simp: Pair Inr isolated_def others_def org_text_def)
  qed
qed

text \<open>
  a meeting that was created is found: whoever has the view scope in the organization it
  was created for gets exactly that row under its identifier, after any steps in between that
  leave the meetings table alone, and nobody of another organization gets it.
\<close>

theorem created_meeting_is_found:
  assumes "unique_ids s" and "create_meeting V cred b s = (Inr m, t)"
    and "meetings s2 = meetings t"
    and "scoped_user V ''view_meeting'' cred2 s2 = (Inr u, s3)"
  shows "get_meeting V cred2 (mt_id m) s2 =
    (case org_text V u of
       Inl e \<Rightarrow> (Inl e, s3)
     | Inr o' \<Rightarrow> (if o' = Some (mt_org m) then Inr m else Inl (HttpError 404 ''Meeting not found''), s3))"
proof -
  have t: "meetings t = meetings s @ [m]" "mt_id m \<notin> mt_id ` set (meetings s)"
    using create_meeting_run [OF assms(2)] by metis+
  have s3: "meetings s3 = meetings s @ [m]"
    using scoped_user_Inr(3) [OF assms(4), THEN tablesD(1)] assms(3) t(1) by simp
  then have uniq: "unique_ids s3" using assms(1) t(2) by (auto simp: unique_ids_def)
  have fresh: "mt_id x \<noteq> mt_id m" if "x \<in> set (meetings s)" for x
    using t(2) that by (metis imageI)
  have only: "find_meeting (mt_id m) o' s3 = None" if "o' \<noteq> Some (mt_org m)" for o'
    using that fresh unfolding find_meeting_def s3 by (auto simp: find_None_iff)
  show ?thesis
    using find_unique [OF uniq, of m] only assms(4) s3
    by (cases "org_text V u") (auto simp: get_meeting_def andthen_def found_def split: option.splits)
qed

subsection \<open>The tables keyed by organization\<close>

text \<open>The writing endpoints of the three routers.\<close>

datatype org_write =
    PostAgentConfig json | DeleteAgentConfig string
  | PostPersonalization json | DeletePersonalization string
  | PostPlan json

fun org_router ::
  "('w, 'k) api_env \<Rightarrow> string option \<Rightarrow> org_write \<Rightarrow> ('w api_state, unit) prog" where
  "org_router V cred (PostAgentConfig b) = andthen (create_agent_config V cred b) (\<lambda>_. ret ())"
| "org_router V cred (DeleteAgentConfig i) = delete_agent_config V cred i"
| "org_router V cred (PostPersonalization b) = andthen (upsert_personalization V cred b) (\<lambda>_. ret ())"
| "org_router V cred (DeletePersonalization i) = delete_personalization_by_org V cred i"
| "org_router V cred (PostPlan b) = andthen (upsert_plan V cred b) (\<lambda>_. ret ())"

fun write_scope :: "org_write \<Rightarrow> string option" where
  "write_scope (PostAgentConfig _) = Some ''manage_agent_config''"
| "write_scope (DeleteAgentConfig _) = Some ''manage_agent_config''"
| "write_scope (PostPersonalization _) = Some ''create_basic_branding''"
| "write_scope (DeletePersonalization _) = Some ''delete_branding''"
| "write_scope (PostPlan _) = None"

definition org_tables ::
  "'w api_state \<Rightarrow> string \<Rightarrow> agent_config option \<times> personalization option \<times> organization_plan option" where
  "org_tables s i = (agent_configs s i, personalizations s i, plans s i)"

lemma org_tables_same: "tables t = tables s \<Longrightarrow> org_tables t = org_tables s"
  by (auto simp: tables_def org_tables_def)

text \<open>What a write that went through looks like: whose it was, and what it left alone.\<close>

definition own_write ::
  "('w, 'k) api_env \<Rightarrow> string option \<Rightarrow> string option \<Rightarrow> 'w api_state \<Rightarrow> 'w api_state \<Rightarrow> bool" where
  "own_write V cred scope s t \<longleftrightarrow>
     (\<exists>u t' i. current_user V cred s = (Inr (Some u), t') \<and> org u = JStr i \<and>
        (case scope of None \<Rightarrow> True | Some sc \<Rightarrow> sc \<in> set (scopes u) \<or> sc @ ''_agent'' \<in> set (scopes u)) \<and>
        meetings t = meetings s \<and> (\<forall>j. j \<noteq> i \<longrightarrow> org_tables t j = org_tables s j))"

lemma org_tables_upd:
  "(\<forall>j. j \<noteq> i \<longrightarrow> org_tables t j = org_tables s j) \<longleftrightarrow>
     agent_configs t = (agent_configs s)(i := agent_configs t i) \<and>
     personalizations t = (personalizations s)(i := personalizations t i) \<and>
     plans t = (plans s)(i := plans t i)"
  by (auto simp: org_tables_def fun_eq_iff)

lemma own_writeI:
  assumes "current_user V cred s = (Inr (Some u), t')" and "org u = JStr i"
    and "case scope of None \<Rightarrow> True | Some sc \<Rightarrow> sc \<in> set (scopes u) \<or> sc @ ''_agent'' \<in> set (scopes u)"
    and "tables t' = tables s" and "meetings t = meetings t'"
    and "\<And>j. j \<noteq> i \<Longrightarrow> org_tables t j = org_tables t' j"
  shows "own_write V cred scope s t"
  using assms(1-3,5,6) tablesD(1) [OF assms(4)] org_tables_same [OF assms(4)]
  unfolding own_write_def by (metis (no_types, lifting))

lemma create_agent_config_run:
  assumes "create_agent_config V cred b s = (r, t)"
  shows "tables t = tables s \<and> (\<exists>e. r = Inl e) \<or>
    (\<exists>u t' data. scoped_user V ''manage_agent_config'' cred s = (Inr u, t') \<and> org u = JStr (ac_org data) \<and>
       AgentConfigCreate b = Inr data \<and>
       r = Inr (upsert_agent_config_row (wall t') data (agent_configs t' (ac_org data))) \<and>
       t = t'\<lparr>agent_configs := (agent_configs t')(ac_org data \<mapsto>
         upsert_agent_config_row (wall t') data (agent_configs t' (ac_org data)))\<rparr>)"
proof (cases "scoped_user V ''manage_agent_config'' cred s")
  case (Pair x t')
  then show ?thesis
    using assms scoped_user_tables [OF Pair]
    by (cases x; cases "AgentConfigCreate b")
       (auto simp: create_agent_config_def andthen_def validated_def split: if_splits)
qed

lemma upsert_personalization_run:
  assumes "upsert_personalization V cred b s = (r, t)"
  shows "tables t = tables s \<and> (\<exists>e. r = Inl e) \<or>
    (\<exists>u t' data row. scoped_user V ''create_basic_branding'' cred s = (Inr u, t') \<and> org u = JStr (pu_org data) \<and>
       PersonalizationUpsert b = Inr data \<and> r = Inr row \<and>
       row = upsert_personalization_row (wall t') data (personalizations t' (pu_org data)) \<and>
       t = t'\<lparr>personalizations := (personalizations t')(pu_org data \<mapsto> row)\<rparr>)"
proof (cases "scoped_user V ''create_basic_branding'' cred s")
  case (Pair x t')
  then show ?thesis
    using assms scoped_user_tables [OF Pair]
    by (cases x; cases "PersonalizationUpsert b")
       (auto simp: upsert_personalization_def andthen_def validated_def split: if_splits)
qed

lemma upsert_plan_run:
  assumes "upsert_plan V cred b s = (r, t)"
  shows "tables t = tables s \<and> (\<exists>e. r = Inl e) \<or>
    (\<exists>u t' data row. current_user V cred s = (Inr (Some u), t') \<and> org u = JStr (pl_org data) \<and>
       OrganizationPlanUpsert b = Inr data \<and> r = Inr row \<and>
       row = upsert_plan_row (wall t') data (plans t' (pl_org data)) \<and>
       t = t'\<lparr>plans := (plans t')(pl_org data \<mapsto> row)\<rparr>)"
proof (cases "current_user V cred s")
  case (Pair x t')
  have "tables t' = tables s" by (rule tables_more [OF keeps_current_user Pair])
  then show ?thesis
    using assms Pair
    by (cases x; cases "OrganizationPlanUpsert b")
       (auto simp: upsert_plan_def andthen_def validated_def split: if_splits option.splits)
qed

lemma delete_agent_config_run:
  assumes "delete_agent_config V cred i s = (r, t)"
  shows "tables t = tables s \<or>
    (\<exists>u t'. scoped_user V ''manage_agent_config'' cred s = (Inr u, t') \<and> org u = JStr i \<and>
       t = t'\<lparr>agent_configs := (agent_configs t')(i := None)\<rparr>)"
proof (cases "scoped_user V ''manage_agent_config'' cred s")
  case (Pair x t')
  then show ?thesis
    using assms scoped_user_tables [OF Pair]
    by (cases x) (auto simp: delete_agent_config_def andthen_def split: if_splits)
qed

lemma delete_personalization_run:
  assumes "delete_personalization_by_org V cred i s = (r, t)"
  shows "tables t = tables s \<or>
    (\<exists>u t'. scoped_user V ''delete_branding'' cred s = (Inr u, t') \<and> org u = JStr i \<and>
       t = t'\<lparr>personalizations := (personalizations t')(i := None)\<rparr>)"
proof (cases "scoped_user V ''delete_branding'' cred s")
  case (Pair x t')
  then show ?thesis
    using assms scoped_user_tables [OF Pair]
    by (cases x) (auto simp: delete_personalization_by_org_def andthen_def split: if_splits)
qed

lemma org_router_step:
  assumes "org_router V cred req s = (r, t)"
  shows "tables t = tables s \<or> own_write V cred (write_scope req) s t"
proof (cases req)
  case (PostAgentConfig b)
  then obtain r' where "create_agent_config V cred b s = (r', t)"
    using assms by (auto simp: andthen_def split: prod.splits sum.splits)
  from create_agent_config_run [OF this] show ?thesis
    by (auto simp: PostAgentConfig org_tables_def dest: scoped_user_Inr intro!: own_writeI)
next
  case (DeleteAgentConfig i)
  then have "delete_agent_config V cred i s = (r, t)" using assms by simp
  from delete_agent_config_run [OF this] show ?thesis
    by (auto simp: DeleteAgentConfig org_tables_def dest: scoped_user_Inr intro!: own_writeI)
next
  case (PostPersonalization b)
  then obtain r' where "upsert_personalization V cred b s = (r', t)"
    using assms by (auto simp: andthen_def split: prod.splits sum.splits)
  from upsert_personalization_run [OF this] show ?thesis
    by (auto simp: PostPersonalization org_tables_def dest: scoped_user_Inr intro!: own_writeI)
next
  case (DeletePersonalization i)
  then have "delete_personalization_by_org V cred i s = (r, t)" using assms by simp
  from delete_personalization_run [OF this] show ?thesis
    by (auto simp: DeletePersonalization org_tables_def dest: scoped_user_Inr intro!: own_writeI)
next
  case (PostPlan b)
  then obtain r' where "upsert_plan V cred b s = (r', t)"
    using assms by (auto simp: andthen_def split: prod.splits sum.splits)
  from upsert_plan_run [OF this] show ?thesis
    using tables_more [OF keeps_current_user]
    by (auto simp: PostPlan org_tables_def intro!: own_writeI)
qed

subsection \<open>Properties of the organization tables\<close>


text \<open>
  C2: an agent configuration, with its secrets, is served exactly to a caller whose service
  token is accepted, or, without a service header, to a user whose token carries the view
  scope and belongs to that organization; what is served is the stored row.
\<close>

theorem agent_config_disclosure:
  "get_agent_config V cred service_authorization org_id s = (Inr c, t) \<longleftrightarrow>
     agent_configs s org_id = Some c \<and>
     (\<exists>user s'. current_user V cred s = (Inr user, s') \<and>
        (case service_authorization of
           Some h \<Rightarrow>
             \<exists>claims. api_require_service_auth (ae_net V) (ae_fr V) (ae_jwt V) (ae_skew V) (ae_cfg V) (Some h) s'
               = (Inr claims, t)
         | None \<Rightarrow>
             t = s' \<and> (\<exists>u. user = Some u \<and> org u = JStr org_id \<and>
               (''view_agent_config'' \<in> set (scopes u) \<or> ''view_agent_config_agent'' \<in> set (scopes u)))))"
proof (cases "current_user V cred s")
  case (Pair x s')
  have s': "agent_configs s' = agent_configs s"
    by (rule tablesD(2) [OF tables_more [OF keeps_current_user Pair]])
  have svc: "agent_configs t' = agent_configs s'"
    if "api_require_service_auth (ae_net V) (ae_fr V) (ae_jwt V) (ae_skew V) (ae_cfg V) h s' = (r, t')" for h r t'
    by (rule tablesD(2) [OF tables_more [OF keeps_service_auth that]])
  show ?thesis
  proof (cases service_authorization)
    case None
    show ?thesis
      using Pair s'
      by (cases x) (auto simp: get_agent_config_def andthen_def agent_config_gate_def None org_mismatch_def
          split: option.splits)
  next
    case (Some h)
    have gate: "agent_config_gate V org_id u (Some h) s' = (Inr (), t') \<longleftrightarrow>
        (\<exists>claims. api_require_service_auth (ae_net V) (ae_fr V) (ae_jwt V) (ae_skew V) (ae_cfg V) (Some h) s'
           = (Inr claims, t'))" for u t'
      by (auto simp: agent_config_gate_def andthen_Inr_conv)
    have "get_agent_config V cred (Some h) org_id s = (Inr c, t) \<longleftrightarrow>
        (\<exists>user. x = Inr user) \<and> (\<exists>claims. api_require_service_auth (ae_net V) (ae_fr V) (ae_jwt V) (ae_skew V)
           (ae_cfg V) (Some h) s' = (Inr claims, t)) \<and> agent_configs t org_id = Some c"
      using Pair gate
      by (cases x) (auto simp: get_agent_config_def andthen_Inr_conv split: option.splits)
    then show ?thesis using Pair s' svc by (auto simp: Some)
  qed
qed

text \<open>
  posting an agent configuration stores exactly the posted fields under the
  organization, creating the row or replacing all of its fields; the creation time of an
  existing row is kept. A request that fails leaves the table as it was.
\<close>

theorem agent_config_upsert:
  "case create_agent_config V cred b s of
     (Inl e, t) \<Rightarrow> agent_configs t = agent_configs s
   | (Inr row, t) \<Rightarrow>
       AgentConfigCreate b = Inr (agent_config_create.truncate row) \<and>
       agent_configs t = (agent_configs s)(ac_org row \<mapsto> row) \<and>
       (case agent_configs s (ac_org row) of
          None \<Rightarrow> ac_created_at row = ac_updated_at row
        | Some old \<Rightarrow> ac_created_at row = ac_created_at old)"
proof (cases "create_agent_config V cred b s")
  case (Pair r t)
  have trunc: "agent_config_create.truncate (upsert_agent_config_row now data old) = data"
    "ac_org (upsert_agent_config_row now data old) = ac_org data" for now data old
    by (cases data; simp add: upsert_agent_config_row_def agent_config_create.defs split: option.split)+
  from create_agent_config_run [OF Pair] show ?thesis
  proof
    assume "tables t = tables s \<and> (\<exists>e. r = Inl e)"
    then show ?thesis using Pair tablesD(2) [of t s] by auto
  next
    assume "\<exists>u t' data. scoped_user V ''manage_agent_config'' cred s = (Inr u, t') \<and> org u = JStr (ac_org data) \<and>
       AgentConfigCreate b = Inr data \<and>
       r = Inr (upsert_agent_config_row (wall t') data (agent_configs t' (ac_org data))) \<and>
       t = t'\<lparr>agent_configs := (agent_configs t')(ac_org data \<mapsto>
         upsert_agent_config_row (wall t') data (agent_configs t' (ac_org data)))\<rparr>"
    then obtain u t' data where u: "scoped_user V ''manage_agent_config'' cred s = (Inr u, t')"
      and *: "AgentConfigCreate b = Inr data"
        "r = Inr (upsert_agent_config_row (wall t') data (agent_configs t' (ac_org data)))"
        "agent_configs t = (agent_configs t')(ac_org data \<mapsto>
         upsert_agent_config_row (wall t') data (agent_configs t' (ac_org data)))"
      by auto
    have "agent_configs t' = agent_configs s" by (rule tablesD(2) [OF scoped_user_Inr(3) [OF u]])
    then show ?thesis
      using * Pair trunc
      by (cases "agent_configs s (ac_org data)")
         (auto simp: upsert_agent_config_row_def agent_config_create.defs)
  qed
qed

subsection \<open>Witnesses\<close>

text \<open>
  A process with a cached key set and a token library that knows two tokens, one per
  organization.
\<close>

definition demo_claims :: "string \<Rightarrow> dict" where
  "demo_claims o' = [(''sub'', JStr ''u1''), (''org_id'', JStr o'),
     (''scope'', JStr ''create_meeting view_meeting list_meetings''), (''email'', JStr ''a@b.c'')]"

definition demo_jwt :: "unit jwt_lib" where
  "demo_jwt = \<lparr>
     jwt_header = (\<lambda>_. Inr [(''kid'', JStr ''k'')]),
     jwt_from_jwk = (\<lambda>_. Inr ()),
     jwt_decode = (\<lambda>tok _ _ _ _ _ _. if tok = ''tA'' then Inr (demo_claims ''A'')
        else if tok = ''tB'' then Inr (demo_claims ''B'') else Inl JwtExpired),
     jwt_encode_hs = (\<lambda>_ _. ''''), jwt_decode_hs = (\<lambda>_ _ _ _. Inl JwtExpired),
     jwt_decode_unverified = (\<lambda>_. Inl JwtExpired)\<rparr>"

definition demo_env :: "(unit, unit) api_env" where
  "demo_env = \<lparr>ae_net = (\<lambda>q w. (Inl (Transport ''down''), 1, w)), ae_fr = (\<lambda>_. ''''), ae_jwt = demo_jwt,
     ae_skew = 60,
     ae_cfg = \<lparr>api_is_base_url = ''https://is'', api_is_org_handle = '''', api_client_id = ''c'',
       api_tenant_override = None, api_database_url = '''', api_allowed_origins = [],
       api_is_verify_tls = VBool True\<rparr>,
     ae_uuid = (\<lambda>n. replicate n (CHR ''x'') @ ''id''),
     ae_int = (\<lambda>v. case v of JInt i \<Rightarrow> Some i | _ \<Rightarrow> None), ae_zones = {''UTC''}\<rparr>"

definition demo_meeting :: "string \<Rightarrow> string \<Rightarrow> meeting" where
  "demo_meeting i o' = \<lparr>mt_id = i, mt_org = o', mt_created_at = 5, mt_updated_at = 5, mt_topic = ''Plan'',
     mt_date = ''2024-02-29'', mt_start_time = ''09:30'', mt_duration = ''30'', mt_time_zone = ''UTC'',
     mt_user_id = ''u1'', mt_email_address = Some ''a@b.c'', mt_actor_user_id = None\<rparr>"

definition demo_state :: "unit api_state" where
  "demo_state = \<lparr>world = (), wall = 5, mono = 5, sent = [],
     jwks_data = Some [(''keys'', JList [JObj [(''kid'', JStr ''k'')]])], jwks_time = 0,
     jwks_key = Some (''https://is'', ''''),
     meetings = [demo_meeting ''1'' ''A'', demo_meeting ''2'' ''B''],
     agent_configs = Map.empty, personalizations = Map.empty, plans = Map.empty, ids_used = 0\<rparr>"

definition demo_user :: "string \<Rightarrow> user_info" where
  "demo_user o' = \<lparr>user_id = JStr ''u1'', org = JStr o', email = JStr ''a@b.c'',
     scopes = [''create_meeting'', ''view_meeting'', ''list_meetings''], groups = JList [],
     actor_user_id = JStr '''', auth_type = JStr ''APPLICATION_USER''\<rparr>"

lemma demo_format: "o' \<in> {''A'', ''B''} \<Longrightarrow> \<exists>l. format_claims (\<lambda>_. '''') (JObj (demo_claims o')) = Inr l"
  by (auto simp: demo_claims_def format_claims_def scope_list_def as_strings_def or_else_def get_or_def Let_def
      list_all_iff)

lemma demo_current_user:
  assumes "(tok, o') \<in> {(''tA'', ''A''), (''tB'', ''B'')}"
    and "jwks_state.truncate s = jwks_state.truncate demo_state"
  shows "current_user demo_env (Some tok) s = (Inr (Some (demo_user o')), s)"
proof -
  obtain l where l: "format_claims (\<lambda>_. []) (JObj (demo_claims o')) = Inr l"
    using demo_format [of o'] assms(1) by auto
  have "jwks_get (''https://is'', '''') s = Some [(''keys'', JList [JObj [(''kid'', JStr ''k'')]])]"
    using assms(2) by (cases s) (simp add: jwks_get_def demo_state_def jwks_state.defs JWKS_TTL_SECONDS_def)
  moreover have "UserInfo (demo_claims o') = Inr (demo_user o')"
    by (simp add: UserInfo_def demo_claims_def demo_user_def get_or_def or_else_def split_ws_def is_space_def)
  moreover have "jwt_decode demo_jwt tok () a b c d now = Inr (demo_claims o')" for a b c d now
    using assms(1) by (auto simp: demo_jwt_def)
  ultimately show ?thesis
    using l
    by (simp add: current_user_def get_current_user_def demo_env_def get_jwks_def api_tenant_path_def
        tenant_path_def andthen_def catch_def select_signing_key_def decode_rs256_def get_or_def py_list_def)
       (simp add: demo_jwt_def)
qed

theorem meetings_tenant_isolation_witness:
  "meetings_router demo_env (Some ''tA'') ListMeetings demo_state = (Inr [demo_meeting ''1'' ''A''], demo_state) \<and>
   list_all (\<lambda>m. mt_org m = ''A'') [demo_meeting ''1'' ''A'']"
proof -
  have "unique_ids demo_state" by (simp add: unique_ids_def demo_state_def demo_meeting_def)
  moreover have "current_user demo_env (Some ''tA'') demo_state = (Inr (Some (demo_user ''A'')), demo_state)"
    by (rule demo_current_user) simp_all
  moreover have "meetings_router demo_env (Some ''tA'') ListMeetings demo_state =
      (Inr [demo_meeting ''1'' ''A''], demo_state)"
    by (simp add: list_meetings_def scoped_user_def andthen_def demo_current_user [of _ "''A''"] require_scope_def
        demo_user_def org_text_def db_text_def Let_def)
       (simp add: demo_state_def demo_meeting_def)
  ultimately show ?thesis
    using meetings_tenant_isolation [of demo_state demo_env "Some ''tA''" ListMeetings]
    by (auto simp: demo_user_def db_text_def)
qed

definition demo_body :: json where
  "demo_body = JObj [(''topic'', JStr ''Plan''), (''date'', JStr ''2024-02-29''),
     (''start_time'', JStr ''09:30''), (''duration'', JInt 30), (''time_zone'', JStr ''UTC'')]"

lemma demo_body_valid:
  "MeetingCreate (\<lambda>v. case v of JInt i \<Rightarrow> Some i | _ \<Rightarrow> None) {''UTC''} demo_body =
   Inr \<lparr>mc_topic = ''Plan'', mc_date = ''2024-02-29'', mc_start_time = ''09:30'', mc_duration = 30,
     mc_time_zone = ''UTC''\<rparr>"
  by code_simp

lemma demo_create:
  "create_meeting demo_env (Some ''tA'') demo_body demo_state =
   (Inr (demo_meeting ''id'' ''A''),
    demo_state\<lparr>ids_used := 1, meetings := meetings demo_state @ [demo_meeting ''id'' ''A'']\<rparr>)"
proof -
  have "str_int 30 = ''30''" by code_simp
  moreover have "MeetingCreate (ae_int demo_env) (ae_zones demo_env) demo_body =
      Inr \<lparr>mc_topic = ''Plan'', mc_date = ''2024-02-29'', mc_start_time = ''09:30'', mc_duration = 30,
        mc_time_zone = ''UTC''\<rparr>"
    using demo_body_valid by (simp add: demo_env_def)
  moreover have "ae_uuid demo_env 0 = ''id''" by (simp add: demo_env_def)
  ultimately show ?thesis
    by (simp add: create_meeting_def scoped_user_def andthen_def demo_current_user [of _ "''A''"] require_scope_def
        demo_user_def org_text_def db_text_def Let_def validated_def not_null_def or_else_def)
       (simp add: demo_state_def demo_meeting_def insert_meeting_def)
qed

theorem created_meeting_is_found_witness:
  "\<exists>m t. create_meeting demo_env (Some ''tA'') demo_body demo_state = (Inr m, t) \<and>
     get_meeting demo_env (Some ''tA'') (mt_id m) t = (Inr m, t) \<and>
     get_meeting demo_env (Some ''tB'') (mt_id m) t = (Inl (HttpError 404 ''Meeting not found''), t)"
proof -
  let ?t = "demo_state\<lparr>ids_used := 1, meetings := meetings demo_state @ [demo_meeting ''id'' ''A'']\<rparr>"
  have u: "unique_ids demo_state" by (simp add: unique_ids_def demo_state_def demo_meeting_def)
  have s: "scoped_user demo_env ''view_meeting'' (Some tok) ?t = (Inr (demo_user o'), ?t)"
    if "(tok, o') \<in> {(''tA'', ''A''), (''tB'', ''B'')}" for tok o'
    using demo_current_user [OF that, of ?t]
    by (simp add: scoped_user_def andthen_def require_scope_def demo_user_def demo_state_def jwks_state.defs)
  show ?thesis
    using demo_create created_meeting_is_found [OF u demo_create refl s [of "''tA''" "''A''"]]
      created_meeting_is_found [OF u demo_create refl s [of "''tB''" "''B''"]]
    by (simp add: org_text_def db_text_def demo_user_def demo_meeting_def)
qed

end
