(* ===== verification/Api_Main.thy ===== *)
theory Api_Main
  imports Api_Routers
begin

text \<open>
  \<open>api/database.py\<close> and \<open>api/main.py\<close>: the lazily built engine and session factory, the
  session dependency, schema creation at startup and the health check. SQLAlchemy's engines,
  sessions and metadata are abstract.
\<close>

subsection \<open>The engine\<close>

definition is_sqlite :: "string \<Rightarrow> bool" where
  "is_sqlite u \<longleftrightarrow> startswith u ''sqlite''"

definition is_sqlite_connection :: "string option \<Rightarrow> bool" where
  "is_sqlite_connection driver_module \<longleftrightarrow>
     contains (case driver_module of None \<Rightarrow> '''' | Some m \<Rightarrow> m) ''sqlite''"

text \<open>The statements a new connection runs; an exception of the driver is logged and swallowed.\<close>

definition set_sqlite_pragmas :: "(string \<Rightarrow> exn + unit) \<Rightarrow> string option \<Rightarrow> string list" where
  "set_sqlite_pragmas execute driver_module =
     (if \<not> is_sqlite_connection driver_module then []
      else
        (case execute ''PRAGMA journal_mode=WAL'' of
           Inl _ \<Rightarrow> [''PRAGMA journal_mode=WAL'']
         | Inr _ \<Rightarrow> [''PRAGMA journal_mode=WAL'', ''PRAGMA busy_timeout=5000'']))"

record engine_args =
  eng_url :: string
  eng_check_same_thread :: "bool option"
  eng_pool_pre_ping :: bool

text \<open>The class attributes of \<open>Database\<close>, and every engine created so far.\<close>

record database =
  db_engine :: "engine_args option"
  db_session_bind :: "engine_args option"
  engines_created :: "engine_args list"

definition engine_for :: "string \<Rightarrow> engine_args" where
  "engine_for u = \<lparr>eng_url = u, eng_check_same_thread = (if is_sqlite u then Some False else None),
     eng_pool_pre_ping = (\<not> is_sqlite u)\<rparr>"

definition Database_engine :: "api_settings \<Rightarrow> (database, engine_args) prog" where
  "Database_engine cfg d =
     (case db_engine d of
        Some e \<Rightarrow> (Inr e, d)
      | None \<Rightarrow>
          (let e = engine_for (api_database_url cfg)
           in (Inr e, d\<lparr>db_engine := Some e, engines_created := engines_created d @ [e]\<rparr>)))"

definition Database_sessionmaker :: "api_settings \<Rightarrow> (database, engine_args) prog" where
  "Database_sessionmaker cfg d =
     (case db_session_bind d of
        Some e \<Rightarrow> (Inr e, d)
      | None \<Rightarrow>
          andthen (Database_engine cfg) (\<lambda>e.
          andthen (modify (\<lambda>d. d\<lparr>db_session_bind := Some e\<rparr>)) (\<lambda>_. ret e)) d)"

definition no_database :: database where
  "no_database = \<lparr>db_engine = None, db_session_bind = None, engines_created = []\<rparr>"

text \<open>PEP 562 \<open>__getattr__\<close> of the module.\<close>

definition database_getattr :: "api_settings \<Rightarrow> string \<Rightarrow> (database, engine_args) prog" where
  "database_getattr cfg name =
     (if name = ''engine'' then Database_engine cfg
      else if name = ''SessionLocal'' then Database_sessionmaker cfg
      else raise (AttributeError (''module 'api.database' has no attribute '' @ repr_str name)))"

subsection \<open>The session dependency\<close>

datatype session_event = Opened | RolledBack | Closed

text \<open>\<open>get_db\<close> around a handler: what happens to the session, in order.\<close>

definition get_db :: "(exn + 'a) \<Rightarrow> (exn + 'a) \<times> session_event list" where
  "get_db outcome =
     (case outcome of
        Inl e \<Rightarrow> (Inl e, [Opened, RolledBack, Closed])
      | Inr x \<Rightarrow> (Inr x, [Opened, Closed]))"

subsection \<open>Startup and health\<close>

definition auto_create_enabled :: "environ \<Rightarrow> bool" where
  "auto_create_enabled E \<longleftrightarrow>
     (let raw = lower (strip (getenv E ''DB_AUTO_CREATE'' ''''))
      in if raw \<noteq> [] then raw \<notin> {''0'', ''false'', ''no''} else \<not> is_production E)"

text \<open>\<open>OperationalError\<close> with its text is \<open>OtherError\<close> here; every other exception passes.\<close>

definition ensure_schema :: "(exn + unit) \<Rightarrow> exn + unit" where
  "ensure_schema create_all =
     (case create_all of
        Inl (OtherError m) \<Rightarrow> if \<not> contains (lower m) ''already exists'' then Inl (OtherError m) else Inr ()
      | r \<Rightarrow> r)"

definition lifespan :: "environ \<Rightarrow> (exn + unit) \<Rightarrow> exn + unit" where
  "lifespan E create_all = (if auto_create_enabled E then ensure_schema create_all else Inr ())"

definition api_health :: "(exn + unit) \<Rightarrow> exn + json" where
  "api_health connect =
     (case connect of
        Inr _ \<Rightarrow> Inr (JObj [(''status'', JStr ''healthy'')])
      | Inl _ \<Rightarrow> Inl (HttpError 503 ''Database unreachable''))"

subsection \<open>One engine per process\<close>

definition one_engine :: "database \<Rightarrow> bool" where
  "one_engine d \<longleftrightarrow>
     engines_created d = (case db_engine d of None \<Rightarrow> [] | Some e \<Rightarrow> [e]) \<and>
     (case db_session_bind d of None \<Rightarrow> True | Some e \<Rightarrow> db_engine d = Some e)"

lemma Database_engine_one:
  "one_engine d \<Longrightarrow> Database_engine cfg d = (r, d') \<Longrightarrow> one_engine d' \<and> (\<exists>e. r = Inr e \<and> db_engine d' = Some e)"
  by (auto simp: Database_engine_def one_engine_def Let_def split: option.splits)

lemma Database_sessionmaker_one:
  assumes "one_engine d" and "Database_sessionmaker cfg d = (r, d')"
  shows "one_engine d' \<and> (\<exists>e. r = Inr e \<and> db_engine d' = Some e)"
proof (cases "db_session_bind d")
  case None
  obtain e d1 where e: "Database_engine cfg d = (Inr e, d1)"
    using Database_engine_one [OF assms(1), of cfg] by (cases "Database_engine cfg d") auto
  have "one_engine d1 \<and> db_engine d1 = Some e" using Database_engine_one [OF assms(1) e] by simp
  then show ?thesis
    using assms(2) None e by (auto simp: Database_sessionmaker_def andthen_def one_engine_def)
next
  case (Some e)
  then show ?thesis using assms by (auto simp: Database_sessionmaker_def one_engine_def)
qed

text \<open>A sequence of attribute accesses and calls from anywhere in the process.\<close>

fun accesses :: "api_settings \<Rightarrow> string list \<Rightarrow> database \<Rightarrow> database" where
  "accesses cfg [] d = d"
| "accesses cfg (n # ns) d = accesses cfg ns (snd (database_getattr cfg n d))"

lemma database_getattr_one: "one_engine d \<Longrightarrow> one_engine (snd (database_getattr cfg n d))"
  using Database_engine_one [of d cfg "fst (Database_engine cfg d)" "snd (Database_engine cfg d)"]
    Database_sessionmaker_one [of d cfg "fst (Database_sessionmaker cfg d)" "snd (Database_sessionmaker cfg d)"]
  by (simp add: database_getattr_def)

lemma accesses_one: "one_engine d \<Longrightarrow> one_engine (accesses cfg ns d)"
  by (induction ns arbitrary: d) (simp_all add: database_getattr_one)

text \<open>
  Whatever is accessed and in whatever order, a process creates at most one engine, and the
  session factory is bound to that engine.
\<close>

theorem single_engine:
  "case accesses cfg names no_database of d \<Rightarrow>
     length (engines_created d) \<le> 1 \<and>
     (case db_session_bind d of None \<Rightarrow> True | Some e \<Rightarrow> engines_created d = [e])"
proof -
  have "one_engine (accesses cfg names no_database)"
    by (rule accesses_one) (simp add: one_engine_def no_database_def)
  then show ?thesis by (auto simp: one_engine_def Let_def split: option.splits)
qed

end
