(* ===== verification/Kv_Store.thy ===== *)
theory Kv_Store
  imports Json_Codec Config
begin

text \<open>
  \<open>agent/store.py\<close>: the key-value store behind the agent's managers. The protocol is a record
  of operations over an abstract store state; its promises are the locale \<open>kv_store\<close>. The
  in-process store satisfies them outright, the Redis store over any server that behaves as
  documented. \<open>None\<close> is \<open>JNull\<close>. Every operation gets the monotonic time it runs at; the locks
  are not modelled.
\<close>

definition DEFAULT_TTL_SECONDS :: nat where "DEFAULT_TTL_SECONDS = 24 * 60 * 60"

record 'd kv_ops =
  kv_get :: "real \<Rightarrow> string \<Rightarrow> string \<Rightarrow> 'd \<Rightarrow> json \<times> 'd"
  kv_set :: "real \<Rightarrow> string \<Rightarrow> string \<Rightarrow> json \<Rightarrow> nat \<Rightarrow> 'd \<Rightarrow> 'd"
  kv_delete :: "real \<Rightarrow> string \<Rightarrow> string \<Rightarrow> 'd \<Rightarrow> 'd"
  kv_clear :: "real \<Rightarrow> string option \<Rightarrow> 'd \<Rightarrow> 'd"

subsection \<open>Keys\<close>

definition agent_prefix :: string where "agent_prefix = ''teamspace:agent:''"

definition compose :: "string \<Rightarrow> string \<Rightarrow> string" where
  "compose namespace key = agent_prefix @ namespace @ '':'' @ key"

text \<open>The namespaces in use are words of small letters and underscores.\<close>

definition wf_ns :: "string \<Rightarrow> bool" where
  "wf_ns ns \<longleftrightarrow> ns \<noteq> [] \<and> list_all (\<lambda>c. (97 \<le> ord c \<and> ord c \<le> 122) \<or> c = CHR ''_'') ns"

lemma wf_ns_colon: "wf_ns ns \<Longrightarrow> CHR '':'' \<notin> set ns"
  by (auto simp: wf_ns_def list_all_iff)

lemma compose_eq [simp]:
  assumes "wf_ns ns" and "wf_ns ns'"
  shows "compose ns' k' = compose ns k \<longleftrightarrow> ns' = ns \<and> k' = k"
  using append_sep_eq [of "CHR '':''" ns' ns k' k] assms [THEN wf_ns_colon] by (auto simp: compose_def)

lemma startswith_compose [simp]:
  assumes "wf_ns ns" and "wf_ns ns'"
  shows "startswith (compose ns' k) (compose ns []) \<longleftrightarrow> ns' = ns"
proof
  assume "startswith (compose ns' k) (compose ns [])"
  then have "prefix (compose ns []) (compose ns' k)" by (simp only: startswith_iff_prefix)
  then obtain z where "compose ns' k = compose ns [] @ z" by (rule prefixE)
  then have "compose ns' k = compose ns z" by (simp add: compose_def)
  then show "ns' = ns" using assms by simp
qed (simp add: compose_def startswith_iff_prefix)

lemma startswith_prefixed:
  "startswith (p @ xs) (p @ ys) \<longleftrightarrow> startswith xs ys"
  by (simp only: startswith_iff_prefix same_prefix_prefix)

subsection \<open>The contract\<close>

text \<open>
  \<open>view d now ns k\<close> is what a read at that time returns. A value is visible strictly before its
  expiry and gone strictly after it; a read may drop expired entries but changes no later read.
\<close>

locale kv_store =
  fixes K :: "'d kv_ops"
    and view :: "'d \<Rightarrow> real \<Rightarrow> string \<Rightarrow> string \<Rightarrow> json"
    and storable :: "json \<Rightarrow> bool"
  assumes get_value: "fst (kv_get K now ns k d) = view d now ns k"
    and get_keeps: "now \<le> now' \<Longrightarrow> view (snd (kv_get K now ns k d)) now' ns' k' = view d now' ns' k'"
    and set_same: "wf_ns ns \<Longrightarrow> storable v \<Longrightarrow> 0 \<le> now \<Longrightarrow> now \<le> now' \<Longrightarrow> ttl = 0 \<or> now' < now + real ttl
      \<Longrightarrow> view (kv_set K now ns k v ttl d) now' ns k = v"
    and set_expired: "wf_ns ns \<Longrightarrow> storable v \<Longrightarrow> 0 \<le> now \<Longrightarrow> 0 < ttl \<Longrightarrow> now + real ttl < now'
      \<Longrightarrow> view (kv_set K now ns k v ttl d) now' ns k = JNull"
    and set_other: "wf_ns ns \<Longrightarrow> wf_ns ns' \<Longrightarrow> ns' \<noteq> ns \<or> k' \<noteq> k
      \<Longrightarrow> view (kv_set K now ns k v ttl d) now' ns' k' = view d now' ns' k'"
    and delete_view: "wf_ns ns \<Longrightarrow> wf_ns ns' \<Longrightarrow> now \<le> now' \<Longrightarrow>
      view (kv_delete K now ns k d) now' ns' k' = (if ns' = ns \<and> k' = k then JNull else view d now' ns' k')"
    and clear_namespace: "wf_ns ns \<Longrightarrow> wf_ns ns' \<Longrightarrow> now \<le> now' \<Longrightarrow>
      view (kv_clear K now (Some ns) d) now' ns' k' = (if ns' = ns then JNull else view d now' ns' k')"
    and clear_all: "wf_ns ns' \<Longrightarrow> now \<le> now' \<Longrightarrow> view (kv_clear K now None d) now' ns' k' = JNull"
    and view_expires: "now \<le> now' \<Longrightarrow> view d now' ns k \<noteq> JNull \<Longrightarrow> view d now' ns k = view d now ns k"
begin

lemma set_view:
  "wf_ns ns \<Longrightarrow> wf_ns ns' \<Longrightarrow> storable v \<Longrightarrow> 0 \<le> now \<Longrightarrow> 0 < ttl \<Longrightarrow>
   view (kv_set K now ns k v ttl d) now ns' k' = (if ns' = ns \<and> k' = k then v else view d now ns' k')"
  using set_same [of ns v now now ttl k d] set_other [of ns ns' k' k now v ttl d now] by auto

text \<open>A value once set is only ever seen as itself or as nothing, until it is set again.\<close>

lemma set_then_get:
  "wf_ns ns \<Longrightarrow> storable v \<Longrightarrow> 0 \<le> now \<Longrightarrow> 0 < ttl \<Longrightarrow> now \<le> now' \<Longrightarrow>
   fst (kv_get K now' ns k (kv_set K now ns k v ttl d)) \<in> {v, JNull}"
  using set_same [of ns v now now ttl k d] view_expires [of now now' "kv_set K now ns k v ttl d" ns k]
  by (auto simp: get_value)

end

subsection \<open>\<open>InMemoryStore\<close>\<close>

type_synonym mem_store = "string \<Rightarrow> (json \<times> real) option"

definition mem_get :: "real \<Rightarrow> string \<Rightarrow> string \<Rightarrow> mem_store \<Rightarrow> json \<times> mem_store" where
  "mem_get now namespace key d =
     (let composed = compose namespace key
      in case d composed of
           None \<Rightarrow> (JNull, d)
         | Some (value, expires_at) \<Rightarrow>
             if expires_at \<noteq> 0 \<and> expires_at < now then (JNull, d(composed := None))
             else (value, d))"

definition mem_set :: "real \<Rightarrow> string \<Rightarrow> string \<Rightarrow> json \<Rightarrow> nat \<Rightarrow> mem_store \<Rightarrow> mem_store" where
  "mem_set now namespace key value ttl d =
     (let expires_at = (if ttl \<noteq> 0 then now + real ttl else 0)
      in d(compose namespace key \<mapsto> (value, expires_at)))"

definition mem_delete :: "real \<Rightarrow> string \<Rightarrow> string \<Rightarrow> mem_store \<Rightarrow> mem_store" where
  "mem_delete now namespace key d = d(compose namespace key := None)"

definition mem_clear :: "real \<Rightarrow> string option \<Rightarrow> mem_store \<Rightarrow> mem_store" where
  "mem_clear now namespace d =
     (case namespace of
        None \<Rightarrow> Map.empty
      | Some ns \<Rightarrow> (\<lambda>key. if startswith key (compose ns '''') then None else d key))"

definition mem_ops :: "mem_store kv_ops" where
  "mem_ops = \<lparr>kv_get = mem_get, kv_set = mem_set, kv_delete = mem_delete, kv_clear = mem_clear\<rparr>"

definition mem_view :: "mem_store \<Rightarrow> real \<Rightarrow> string \<Rightarrow> string \<Rightarrow> json" where
  "mem_view d now ns k = fst (mem_get now ns k d)"

lemma mem_get_keeps:
  "now \<le> now' \<Longrightarrow> mem_view (snd (mem_get now ns k d)) now' ns' k' = mem_view d now' ns' k'"
  by (auto simp: mem_view_def mem_get_def Let_def split: option.splits)

interpretation mem: kv_store mem_ops mem_view "\<lambda>_. True"
  by unfold_locales
     (auto simp: mem_ops_def mem_get_keeps mem_view_def mem_get_def mem_set_def mem_delete_def mem_clear_def Let_def
       split: option.splits if_splits)

subsection \<open>\<open>RedisStore\<close>\<close>

text \<open>
  The \<open>redis\<close> package over a server of abstract state: every call may fail. \<open>redis_scan\<close> is
  what \<open>scan_iter\<close> yields for a pattern.
\<close>

record 'r redis_lib =
  redis_get :: "real \<Rightarrow> string \<Rightarrow> 'r \<Rightarrow> (exn + string option) \<times> 'r"
  redis_set :: "real \<Rightarrow> string \<Rightarrow> string \<Rightarrow> nat option \<Rightarrow> 'r \<Rightarrow> (exn + unit) \<times> 'r"
  redis_del :: "real \<Rightarrow> string list \<Rightarrow> 'r \<Rightarrow> (exn + unit) \<times> 'r"
  redis_scan :: "real \<Rightarrow> string \<Rightarrow> 'r \<Rightarrow> (exn + string list) \<times> 'r"

definition rs_key :: "string \<Rightarrow> string \<Rightarrow> string \<Rightarrow> string" where
  "rs_key pre namespace key = pre @ compose namespace key"

definition rs_get ::
  "'r redis_lib \<Rightarrow> (string \<Rightarrow> real) \<Rightarrow> string \<Rightarrow> real \<Rightarrow> string \<Rightarrow> string \<Rightarrow> 'r \<Rightarrow> json \<times> 'r" where
  "rs_get R fp pre now namespace key r =
     (case redis_get R now (rs_key pre namespace key) r of
        (Inl _, r') \<Rightarrow> (JNull, r')
      | (Inr None, r') \<Rightarrow> (JNull, r')
      | (Inr (Some raw), r') \<Rightarrow> (case loads fp raw of Some v \<Rightarrow> (v, r') | None \<Rightarrow> (JNull, r')))"

definition rs_set ::
  "'r redis_lib \<Rightarrow> (real \<Rightarrow> string) \<Rightarrow> string \<Rightarrow> real \<Rightarrow> string \<Rightarrow> string \<Rightarrow> json \<Rightarrow> nat \<Rightarrow> 'r \<Rightarrow> 'r" where
  "rs_set R fr pre now namespace key value ttl r =
     snd (redis_set R now (rs_key pre namespace key) (dumps fr value) (if ttl = 0 then None else Some ttl) r)"

definition rs_delete :: "'r redis_lib \<Rightarrow> string \<Rightarrow> real \<Rightarrow> string \<Rightarrow> string \<Rightarrow> 'r \<Rightarrow> 'r" where
  "rs_delete R pre now namespace key r = snd (redis_del R now [rs_key pre namespace key] r)"

text \<open>\<open>_batched\<close>: the loop keeps the current batch and yields it when it is full.\<close>

fun batched_go :: "nat \<Rightarrow> 'a list \<Rightarrow> 'a list \<Rightarrow> 'a list list" where
  "batched_go n batch [] = (if batch \<noteq> [] then [batch] else [])"
| "batched_go n batch (x # xs) =
     (let b = batch @ [x]
      in if n \<le> length b then b # batched_go n [] xs else batched_go n b xs)"

definition batched :: "nat \<Rightarrow> 'a list \<Rightarrow> 'a list list" where
  "batched n xs = batched_go n [] xs"

text \<open>The deletions stop at the first failure.\<close>

fun delete_chunks :: "'r redis_lib \<Rightarrow> real \<Rightarrow> string list list \<Rightarrow> 'r \<Rightarrow> 'r" where
  "delete_chunks R now [] r = r"
| "delete_chunks R now (c # cs) r =
     (if c = [] then delete_chunks R now cs r
      else (case redis_del R now c r of (Inl _, r') \<Rightarrow> r' | (Inr _, r') \<Rightarrow> delete_chunks R now cs r'))"

definition rs_clear :: "'r redis_lib \<Rightarrow> string \<Rightarrow> real \<Rightarrow> string option \<Rightarrow> 'r \<Rightarrow> 'r" where
  "rs_clear R pre now namespace r =
     (let scope = (case namespace of Some ns \<Rightarrow> if ns \<noteq> [] then ns @ '':'' else '''' | None \<Rightarrow> '''');
          pattern = pre @ agent_prefix @ scope @ ''*''
      in case redis_scan R now pattern r of
           (Inl _, r') \<Rightarrow> r'
         | (Inr ks, r') \<Rightarrow> delete_chunks R now (batched 500 ks) r')"

definition redis_ops ::
  "'r redis_lib \<Rightarrow> (real \<Rightarrow> string) \<Rightarrow> (string \<Rightarrow> real) \<Rightarrow> string \<Rightarrow> 'r kv_ops" where
  "redis_ops R fr fp pre = \<lparr>kv_get = rs_get R fp pre, kv_set = rs_set R fr pre,
     kv_delete = rs_delete R pre, kv_clear = rs_clear R pre\<rparr>"

text \<open>
  What the Redis documentation promises of a server that answers: \<open>server r now key\<close> is the text
  stored and not expired. \<open>SCAN\<close> with a prefix and a star yields the stored keys with that
  prefix, where the prefix has none of the characters that are special in a pattern.
\<close>

definition glob_free :: "string \<Rightarrow> bool" where
  "glob_free p \<longleftrightarrow> set p \<inter> {CHR ''*'', CHR ''?'', CHR ''['', CHR '']'', CHR 0x5C, CHR ''^''} = {}"

definition redis_get_ok :: "'r redis_lib \<Rightarrow> ('r \<Rightarrow> real \<Rightarrow> string \<Rightarrow> string option) \<Rightarrow> bool" where
  "redis_get_ok R server \<longleftrightarrow>
     (\<forall>now k r. fst (redis_get R now k r) = Inr (server r now k) \<and>
        (\<forall>now'\<ge>now. server (snd (redis_get R now k r)) now' = server r now'))"

definition redis_set_ok :: "'r redis_lib \<Rightarrow> ('r \<Rightarrow> real \<Rightarrow> string \<Rightarrow> string option) \<Rightarrow> bool" where
  "redis_set_ok R server \<longleftrightarrow>
     (\<forall>now k p ex r. fst (redis_set R now k p ex r) = Inr () \<and>
        (\<forall>now' k'. server (snd (redis_set R now k p ex r)) now' k' =
           (if k' = k then (case ex of None \<Rightarrow> Some p
              | Some t \<Rightarrow> if now' < now + real t then Some p else None)
            else server r now' k')))"

definition redis_del_ok :: "'r redis_lib \<Rightarrow> ('r \<Rightarrow> real \<Rightarrow> string \<Rightarrow> string option) \<Rightarrow> bool" where
  "redis_del_ok R server \<longleftrightarrow>
     (\<forall>now ks r. fst (redis_del R now ks r) = Inr () \<and>
        (\<forall>now'\<ge>now. \<forall>k'. server (snd (redis_del R now ks r)) now' k' =
           (if k' \<in> set ks then None else server r now' k')))"

definition redis_scan_ok :: "'r redis_lib \<Rightarrow> ('r \<Rightarrow> real \<Rightarrow> string \<Rightarrow> string option) \<Rightarrow> bool" where
  "redis_scan_ok R server \<longleftrightarrow>
     (\<forall>now p r. glob_free p \<longrightarrow>
        (\<exists>ks. fst (redis_scan R now (p @ ''*'') r) = Inr ks \<and>
           set ks = {k. server r now k \<noteq> None \<and> startswith k p}) \<and>
        (\<forall>now'\<ge>now. server (snd (redis_scan R now (p @ ''*'') r)) now' = server r now'))"

definition redis_documented :: "'r redis_lib \<Rightarrow> ('r \<Rightarrow> real \<Rightarrow> string \<Rightarrow> string option) \<Rightarrow> bool" where
  "redis_documented R server \<longleftrightarrow>
     redis_get_ok R server \<and> redis_set_ok R server \<and> redis_del_ok R server \<and> redis_scan_ok R server \<and>
     (\<forall>now now' r k. now \<le> now' \<longrightarrow> server r now' k \<noteq> None \<longrightarrow> server r now' k = server r now k)"

definition redis_view ::
  "(string \<Rightarrow> real) \<Rightarrow> string \<Rightarrow> ('r \<Rightarrow> real \<Rightarrow> string \<Rightarrow> string option) \<Rightarrow> 'r \<Rightarrow> real \<Rightarrow> string \<Rightarrow> string \<Rightarrow> json"
where
  "redis_view fp pre server r now ns k =
     (case server r now (rs_key pre ns k) of
        None \<Rightarrow> JNull | Some raw \<Rightarrow> (case loads fp raw of Some v \<Rightarrow> v | None \<Rightarrow> JNull))"

subsection \<open>Choosing the store\<close>

datatype store_choice = UseMemory | UseRedis string string

text \<open>
  \<open>build_store\<close>: \<open>connect\<close> is what importing the package, building the client for the URL and
  the ping come to. A failure of any kind falls back to memory.
\<close>

definition build_store :: "environ \<Rightarrow> (string \<Rightarrow> exn + unit) \<Rightarrow> store_choice" where
  "build_store E connect =
     (let url = strip (getenv E ''REDIS_URL'' '''')
      in if url = [] then UseMemory
         else
           (case connect url of
              Inl (ImportError _) \<Rightarrow> UseMemory
            | Inl _ \<Rightarrow> UseMemory
            | Inr _ \<Rightarrow> UseRedis url (getenv E ''REDIS_KEY_PREFIX'' '''')))"

definition get_store :: "environ \<Rightarrow> (string \<Rightarrow> exn + unit) \<Rightarrow> store_choice option \<Rightarrow> store_choice \<times> store_choice option" where
  "get_store E connect current =
     (case current of
        None \<Rightarrow> (build_store E connect, Some (build_store E connect))
      | Some c \<Rightarrow> (c, Some c))"

definition set_store :: "store_choice option \<Rightarrow> store_choice option \<Rightarrow> store_choice option" where
  "set_store new current = new"

subsection \<open>Batches\<close>

lemma batched_go_concat: "concat (batched_go n b xs) = b @ xs"
  by (induction n b xs rule: batched_go.induct) (auto simp: Let_def)

lemma batched_concat: "concat (batched n xs) = xs"
  by (simp add: batched_def batched_go_concat)

lemma batched_go_sizes:
  "0 < n \<Longrightarrow> length b < n \<Longrightarrow> c \<in> set (batched_go n b xs) \<Longrightarrow> c \<noteq> [] \<and> length c \<le> n"
  by (induction n b xs rule: batched_go.induct) (auto simp: Let_def split: if_splits)

lemma batched_sizes: "0 < n \<Longrightarrow> c \<in> set (batched n xs) \<Longrightarrow> c \<noteq> [] \<and> length c \<le> n"
  unfolding batched_def by (rule batched_go_sizes) auto

subsection \<open>The Redis store keeps the contract\<close>

lemma redis_documentedD:
  assumes "redis_documented R server"
  shows "fst (redis_get R now k r) = Inr (server r now k)"
    and "now \<le> now' \<Longrightarrow> server (snd (redis_get R now k r)) now' = server r now'"
    and "server (snd (redis_set R now k p ex r)) now' k' =
           (if k' = k then (case ex of None \<Rightarrow> Some p | Some t \<Rightarrow> if now' < now + real t then Some p else None)
            else server r now' k')"
    and "fst (redis_del R now ks r) = Inr ()"
    and "now \<le> now' \<Longrightarrow> server (snd (redis_del R now ks r)) now' k' = (if k' \<in> set ks then None else server r now' k')"
    and "now \<le> now' \<Longrightarrow> server r now' k \<noteq> None \<Longrightarrow> server r now' k = server r now k"
proof -
  have ok: "redis_get_ok R server" "redis_set_ok R server" "redis_del_ok R server"
    and ex: "\<forall>now now' r k. now \<le> now' \<longrightarrow> server r now' k \<noteq> None \<longrightarrow> server r now' k = server r now k"
    using assms unfolding redis_documented_def by blast+
  show "fst (redis_get R now k r) = Inr (server r now k)"
    and "now \<le> now' \<Longrightarrow> server (snd (redis_get R now k r)) now' = server r now'"
    using ok(1) by (simp_all add: redis_get_ok_def)
  show "server (snd (redis_set R now k p ex r)) now' k' =
      (if k' = k then (case ex of None \<Rightarrow> Some p | Some t \<Rightarrow> if now' < now + real t then Some p else None)
       else server r now' k')"
    using ok(2) unfolding redis_set_ok_def by blast
  show "fst (redis_del R now ks r) = Inr ()"
    and "now \<le> now' \<Longrightarrow> server (snd (redis_del R now ks r)) now' k' = (if k' \<in> set ks then None else server r now' k')"
    using ok(3) by (simp_all add: redis_del_ok_def)
  show "now \<le> now' \<Longrightarrow> server r now' k \<noteq> None \<Longrightarrow> server r now' k = server r now k"
    using ex by blast
qed

lemma redis_scanD:
  assumes "redis_documented R server" and "glob_free p"
  shows "\<exists>ks r'. redis_scan R now (p @ ''*'') r = (Inr ks, r') \<and>
    set ks = {k. server r now k \<noteq> None \<and> startswith k p} \<and>
    (\<forall>now'\<ge>now. server r' now' = server r now')"
proof -
  have "redis_scan_ok R server" using assms(1) by (simp only: redis_documented_def)
  then have *: "(\<exists>ks. fst (redis_scan R now (p @ ''*'') r) = Inr ks \<and>
      set ks = {k. server r now k \<noteq> None \<and> startswith k p}) \<and>
    (\<forall>now'\<ge>now. server (snd (redis_scan R now (p @ ''*'') r)) now' = server r now')"
    using assms(2) unfolding redis_scan_ok_def by blast
  then show ?thesis by (cases "redis_scan R now (p @ ''*'') r") auto
qed

lemma delete_chunks_server:
  assumes "redis_documented R server" and "now \<le> now'"
  shows "server (delete_chunks R now cs r) now' k = (if k \<in> set (concat cs) then None else server r now' k)"
proof (induction cs arbitrary: r)
  case (Cons c cs)
  define r' where "r' = snd (redis_del R now c r)"
  then have r': "redis_del R now c r = (Inr (), r')"
    by (simp add: prod_eq_iff redis_documentedD(4) [OF assms(1)])
  have *: "server r' now' k = (if k \<in> set c then None else server r now' k)"
    using redis_documentedD(5) [OF assms, of c r k] by (simp add: r')
  show ?case
  proof (cases "c = []")
    case True
    then show ?thesis using Cons.IH [of r] by simp
  next
    case False
    then have "delete_chunks R now (c # cs) r = delete_chunks R now cs r'" by (simp add: r')
    then show ?thesis using Cons.IH [of r'] * by simp
  qed
qed simp

lemma rs_key_eq: "wf_ns ns \<Longrightarrow> wf_ns ns' \<Longrightarrow> rs_key pre ns' k' = rs_key pre ns k \<longleftrightarrow> ns' = ns \<and> k' = k"
  by (simp add: rs_key_def)

definition storable_text :: "(real \<Rightarrow> string) \<Rightarrow> (string \<Rightarrow> real) \<Rightarrow> json \<Rightarrow> bool" where
  "storable_text fr fp v \<longleftrightarrow> wf_json v \<and> (\<forall>x \<in> floats v. float_text fr fp x)"

lemma rs_clear_server:
  assumes "redis_documented R server" and "glob_free pre" and "now \<le> now'"
    and "case ns of None \<Rightarrow> True | Some n \<Rightarrow> wf_ns n"
  shows "server (rs_clear R pre now ns r) now' k =
    (if startswith k (pre @ (case ns of None \<Rightarrow> agent_prefix | Some n \<Rightarrow> compose n ''''))
     then None else server r now' k)"
proof -
  define p where "p = pre @ (case ns of None \<Rightarrow> agent_prefix | Some n \<Rightarrow> compose n '''')"
  have pat: "pre @ agent_prefix @ (case ns of Some ns \<Rightarrow> if ns \<noteq> [] then ns @ '':'' else '''' | None \<Rightarrow> '''') @ ''*''
      = p @ ''*''"
    using assms(4) by (auto simp: p_def compose_def wf_ns_def split: option.splits)
  have "glob_free p"
    using assms(2,4) by (auto simp: p_def compose_def glob_free_def wf_ns_def agent_prefix_def list_all_iff split: option.splits)
  from redis_scanD [OF assms(1) this, of now r] assms(3) obtain ks r' where
    r': "redis_scan R now (p @ ''*'') r = (Inr ks, r')" "server r' now' = server r now'"
    and ks: "set ks = {k. server r now k \<noteq> None \<and> startswith k p}" by blast
  have "server (rs_clear R pre now ns r) now' k = (if k \<in> set ks then None else server r now' k)"
    using delete_chunks_server [OF assms(1,3), of "batched 500 ks" r' k] r'
    by (simp only: rs_clear_def Let_def pat batched_concat) (simp add: batched_concat)
  moreover have "server r now' k = None" if "server r now k = None"
    using redis_documentedD(6) [OF assms(1,3), of r k] that by (cases "server r now' k") auto
  ultimately show ?thesis unfolding p_def [symmetric] ks by auto
qed

lemma redis_contract:
  assumes doc: "redis_documented R server" and pre: "glob_free pre"
  shows "kv_store (redis_ops R fr fp pre) (redis_view fp pre server) (storable_text fr fp)"
proof
  show "fst (kv_get (redis_ops R fr fp pre) now ns k d) = redis_view fp pre server d now ns k" for now ns k d
    using redis_documentedD(1) [OF doc, of now "rs_key pre ns k" d]
    by (auto simp: redis_ops_def rs_get_def redis_view_def split: prod.splits option.splits sum.splits)
  show "now \<le> now' \<Longrightarrow> redis_view fp pre server (snd (kv_get (redis_ops R fr fp pre) now ns k d)) now' ns' k' =
      redis_view fp pre server d now' ns' k'" for now now' ns k d ns' k'
    using redis_documentedD(2) [OF doc, of now now' "rs_key pre ns k" d]
    by (auto simp: redis_ops_def rs_get_def redis_view_def split: prod.splits option.splits sum.splits)
  show "redis_view fp pre server (kv_set (redis_ops R fr fp pre) now ns k v ttl d) now' ns k = v"
    if "storable_text fr fp v" "ttl = 0 \<or> now' < now + real ttl" for ns v now now' ttl k d
    using that loads_dumps [of v fr fp]
    by (auto simp: redis_ops_def rs_set_def redis_view_def redis_documentedD(3) [OF doc] storable_text_def)
  show "redis_view fp pre server (kv_set (redis_ops R fr fp pre) now ns k v ttl d) now' ns k = JNull"
    if "0 < ttl" "now + real ttl < now'" for ns v now now' ttl k d
    using that by (auto simp: redis_ops_def rs_set_def redis_view_def redis_documentedD(3) [OF doc])
  show "redis_view fp pre server (kv_set (redis_ops R fr fp pre) now ns k v ttl d) now' ns' k' =
      redis_view fp pre server d now' ns' k'"
    if "wf_ns ns" "wf_ns ns'" "ns' \<noteq> ns \<or> k' \<noteq> k" for ns ns' v now now' ttl k k' d
    using that by (auto simp: redis_ops_def rs_set_def redis_view_def redis_documentedD(3) [OF doc] rs_key_eq)
  show "redis_view fp pre server (kv_delete (redis_ops R fr fp pre) now ns k d) now' ns' k' =
      (if ns' = ns \<and> k' = k then JNull else redis_view fp pre server d now' ns' k')"
    if "wf_ns ns" "wf_ns ns'" "now \<le> now'" for ns ns' now now' k k' d
    using that by (simp add: redis_ops_def rs_delete_def redis_view_def redis_documentedD(5) [OF doc that(3)] rs_key_eq)
  show "redis_view fp pre server (kv_clear (redis_ops R fr fp pre) now (Some ns) d) now' ns' k' =
      (if ns' = ns then JNull else redis_view fp pre server d now' ns' k')"
    if "wf_ns ns" "wf_ns ns'" "now \<le> now'" for ns ns' now now' k' d
    using that rs_clear_server [OF doc pre that(3), of "Some ns" d "rs_key pre ns' k'"]
    by (simp add: redis_ops_def redis_view_def rs_key_def startswith_prefixed)
  show "redis_view fp pre server (kv_clear (redis_ops R fr fp pre) now None d) now' ns' k' = JNull"
    if "wf_ns ns'" "now \<le> now'" for ns' now now' k' d
    using rs_clear_server [OF doc pre that(2), of None d "rs_key pre ns' k'"]
    by (simp add: redis_ops_def redis_view_def rs_key_def startswith_prefixed compose_def)
  show "now \<le> now' \<Longrightarrow> redis_view fp pre server d now' ns k \<noteq> JNull \<Longrightarrow>
      redis_view fp pre server d now' ns k = redis_view fp pre server d now ns k" for now now' d ns k
    using redis_documentedD(6) [OF doc, of now now' d "rs_key pre ns k"]
    by (cases "server d now' (rs_key pre ns k)") (auto simp: redis_view_def)
qed

subsection \<open>Properties\<close>

text \<open>
  the in-process store keeps the contract of the key-value store for every value: a read
  returns what was last set under that namespace and key until its time to live has passed and
  nothing afterwards, deleting and clearing a namespace remove exactly what they name, and
  reads change nothing.
\<close>

theorem in_memory_store_contract: "kv_store mem_ops mem_view (\<lambda>_. True)"
  by (rule mem.kv_store_axioms)

text \<open>
  C9: over a Redis server that behaves as documented, the Redis store keeps the same contract
  for every JSON value, under any key prefix without pattern characters.
\<close>

theorem redis_store_contract:
  assumes "redis_documented R server" and "glob_free pre"
  shows "kv_store (redis_ops R fr fp pre) (redis_view fp pre server) (storable_text fr fp)"
  by (rule redis_contract [OF assms])

text \<open>A server that is an association list of texts and expiry times.\<close>

type_synonym list_server = "(string \<times> string \<times> real option) list"

definition list_lookup :: "list_server \<Rightarrow> real \<Rightarrow> string \<Rightarrow> string option" where
  "list_lookup r now k =
     (case map_of r k of
        None \<Rightarrow> None
      | Some (v, None) \<Rightarrow> Some v
      | Some (v, Some t) \<Rightarrow> if now < t then Some v else None)"

definition list_redis :: "list_server redis_lib" where
  "list_redis = \<lparr>
     redis_get = (\<lambda>now k r. (Inr (list_lookup r now k), r)),
     redis_set = (\<lambda>now k p ex r. (Inr (), (k, p, map_option (\<lambda>t. now + real t) ex) # r)),
     redis_del = (\<lambda>now ks r. (Inr (), filter (\<lambda>e. fst e \<notin> set ks) r)),
     redis_scan = (\<lambda>now p r. (Inr (filter (\<lambda>k. list_lookup r now k \<noteq> None \<and> startswith k (butlast p)) (map fst r)), r))\<rparr>"

lemma map_of_filter_keys: "map_of (filter (\<lambda>e. fst e \<notin> A) r) k = (if k \<in> A then None else map_of r k)"
  by (induction r) auto

lemma list_redis_documented: "redis_documented list_redis list_lookup"
proof -
  have "redis_get_ok list_redis list_lookup" by (simp add: redis_get_ok_def list_redis_def)
  moreover have "redis_set_ok list_redis list_lookup"
    by (auto simp: redis_set_ok_def list_redis_def list_lookup_def split: option.splits)
  moreover have "redis_del_ok list_redis list_lookup"
    by (auto simp: redis_del_ok_def list_redis_def list_lookup_def map_of_filter_keys)
  moreover have in_dom: "list_lookup r now k = Some y \<Longrightarrow> k \<in> fst ` set r" for r now k y
    using map_of_eq_None_iff [of r k] by (auto simp: list_lookup_def split: option.splits)
  have "redis_scan_ok list_redis list_lookup"
    by (auto simp: redis_scan_ok_def list_redis_def dest: in_dom)
  moreover have "now \<le> now' \<Longrightarrow> list_lookup r now' k \<noteq> None \<Longrightarrow> list_lookup r now' k = list_lookup r now k"
    for now now' r k
    by (auto simp: list_lookup_def split: option.splits if_splits)
  ultimately show ?thesis unfolding redis_documented_def by blast
qed

theorem redis_store_contract_witness:
  "kv_store (redis_ops list_redis (\<lambda>_. '''') (\<lambda>_. 0) ''demo/'') (redis_view (\<lambda>_. 0) ''demo/'' list_lookup)
     (storable_text (\<lambda>_. '''') (\<lambda>_. 0))"
  by (rule redis_store_contract [OF list_redis_documented]) (simp add: glob_free_def)

end
