(* ===== verification/Agent_State.thy ===== *)
theory Agent_State
  imports Kv_Store M2M_Auth
begin

text \<open>
  \<open>agent/state_manager.py\<close> and \<open>agent/chat_history.py\<close>: the flow state, the pending meeting and
  the names of a chat thread, and its transcript, kept in the key-value store. The operations
  are steps on the state of the agent process, which extends the state of its service-token
  client with the store; the store's operations are a parameter, and what the managers promise
  is proved once from its contract.
\<close>

record ('w, 'd) store_state = "'w m2m_state" +
  store :: 'd

text \<open>The store operations at the current time.\<close>

definition fetch_kv :: "'d kv_ops \<Rightarrow> string \<Rightarrow> string \<Rightarrow> (('w, 'd, 'z) store_state_scheme, json) prog" where
  "fetch_kv K ns k s = (case kv_get K (mono s) ns k (store s) of (v, d) \<Rightarrow> (Inr v, s\<lparr>store := d\<rparr>))"

definition put_kv ::
  "'d kv_ops \<Rightarrow> string \<Rightarrow> string \<Rightarrow> json \<Rightarrow> nat \<Rightarrow> (('w, 'd, 'z) store_state_scheme, unit) prog" where
  "put_kv K ns k v ttl = modify (\<lambda>s. s\<lparr>store := kv_set K (mono s) ns k v ttl (store s)\<rparr>)"

definition delete_kv :: "'d kv_ops \<Rightarrow> string \<Rightarrow> string \<Rightarrow> (('w, 'd, 'z) store_state_scheme, unit) prog" where
  "delete_kv K ns k = modify (\<lambda>s. s\<lparr>store := kv_delete K (mono s) ns k (store s)\<rparr>)"

definition clear_kv :: "'d kv_ops \<Rightarrow> string \<Rightarrow> (('w, 'd, 'z) store_state_scheme, unit) prog" where
  "clear_kv K ns = modify (\<lambda>s. s\<lparr>store := kv_clear K (mono s) (Some ns) (store s)\<rparr>)"

subsection \<open>Flow and frontend states\<close>

datatype flow_state =
    INITIAL
  | BOOKING_PREVIEW_INITIATED | BOOKING_AUTHORIZED
  | LIST_PREVIEW_INITIATED | LIST_AUTHORIZED
  | UPDATE_PREVIEW_INITIATED | UPDATE_AUTHORIZED
  | DELETE_PREVIEW_INITIATED | DELETE_AUTHORIZED

datatype frontend_state = IDLE | AWAITING_AUTHORIZATION | BOOKING_COMPLETE

text \<open>The enum's \<open>value\<close>, and \<open>FlowState(raw)\<close>, which raises for anything else.\<close>

fun flow_value :: "flow_state \<Rightarrow> string" where
  "flow_value INITIAL = ''INITIAL''"
| "flow_value BOOKING_PREVIEW_INITIATED = ''BOOKING_PREVIEW_INITIATED''"
| "flow_value BOOKING_AUTHORIZED = ''BOOKING_AUTHORIZED''"
| "flow_value LIST_PREVIEW_INITIATED = ''LIST_PREVIEW_INITIATED''"
| "flow_value LIST_AUTHORIZED = ''LIST_AUTHORIZED''"
| "flow_value UPDATE_PREVIEW_INITIATED = ''UPDATE_PREVIEW_INITIATED''"
| "flow_value UPDATE_AUTHORIZED = ''UPDATE_AUTHORIZED''"
| "flow_value DELETE_PREVIEW_INITIATED = ''DELETE_PREVIEW_INITIATED''"
| "flow_value DELETE_AUTHORIZED = ''DELETE_AUTHORIZED''"

definition all_flow_states :: "flow_state list" where
  "all_flow_states = [INITIAL, BOOKING_PREVIEW_INITIATED, BOOKING_AUTHORIZED, LIST_PREVIEW_INITIATED,
     LIST_AUTHORIZED, UPDATE_PREVIEW_INITIATED, UPDATE_AUTHORIZED, DELETE_PREVIEW_INITIATED,
     DELETE_AUTHORIZED]"

definition FlowState :: "json \<Rightarrow> exn + flow_state" where
  "FlowState raw =
     (case find (\<lambda>f. JStr (flow_value f) = raw) all_flow_states of
        Some f \<Rightarrow> Inr f
      | None \<Rightarrow> Inl (ValueError ''is not a valid FlowState''))"

fun frontend_of :: "flow_state \<Rightarrow> frontend_state" where
  "frontend_of BOOKING_PREVIEW_INITIATED = AWAITING_AUTHORIZATION"
| "frontend_of LIST_PREVIEW_INITIATED = AWAITING_AUTHORIZATION"
| "frontend_of UPDATE_PREVIEW_INITIATED = AWAITING_AUTHORIZATION"
| "frontend_of DELETE_PREVIEW_INITIATED = AWAITING_AUTHORIZATION"
| "frontend_of BOOKING_AUTHORIZED = BOOKING_COMPLETE"
| "frontend_of LIST_AUTHORIZED = BOOKING_COMPLETE"
| "frontend_of UPDATE_AUTHORIZED = BOOKING_COMPLETE"
| "frontend_of DELETE_AUTHORIZED = BOOKING_COMPLETE"
| "frontend_of INITIAL = IDLE"

fun frontend_value :: "frontend_state \<Rightarrow> string" where
  "frontend_value IDLE = ''IDLE''"
| "frontend_value AWAITING_AUTHORIZATION = ''AWAITING_AUTHORIZATION''"
| "frontend_value BOOKING_COMPLETE = ''BOOKING_COMPLETE''"

subsection \<open>\<open>StateManager\<close>\<close>

definition NS_STATE :: string where "NS_STATE = ''flow_state''"
definition NS_PENDING :: string where "NS_PENDING = ''pending_meeting''"
definition NS_AUTH_URL :: string where "NS_AUTH_URL = ''auth_url''"
definition NS_CREDS :: string where "NS_CREDS = ''agent_credentials''"
definition NS_AGENT_NAME :: string where "NS_AGENT_NAME = ''agent_name''"
definition NS_ORG_NAME :: string where "NS_ORG_NAME = ''org_name''"
definition NS_HISTORY :: string where "NS_HISTORY = ''chat_history''"

definition ALL_NAMESPACES :: "string list" where
  "ALL_NAMESPACES = [NS_STATE, NS_PENDING, NS_AUTH_URL, NS_CREDS, NS_AGENT_NAME, NS_ORG_NAME]"

fun for_each :: "('a \<Rightarrow> ('s, unit) prog) \<Rightarrow> 'a list \<Rightarrow> ('s, unit) prog" where
  "for_each f [] = ret ()"
| "for_each f (x # xs) = andthen (f x) (\<lambda>_. for_each f xs)"

definition sm_reset :: "'d kv_ops \<Rightarrow> (('w, 'd, 'z) store_state_scheme, unit) prog" where
  "sm_reset K = for_each (clear_kv K) ALL_NAMESPACES"

definition sm_put :: "'d kv_ops \<Rightarrow> string \<Rightarrow> string \<Rightarrow> json \<Rightarrow> (('w, 'd, 'z) store_state_scheme, unit) prog" where
  "sm_put K ns thread_id v = put_kv K ns thread_id v DEFAULT_TTL_SECONDS"

definition sm_fetch ::
  "'d kv_ops \<Rightarrow> string \<Rightarrow> string \<Rightarrow> json \<Rightarrow> (('w, 'd, 'z) store_state_scheme, json) prog" where
  "sm_fetch K ns thread_id dflt =
     andthen (fetch_kv K ns thread_id) (\<lambda>v. ret (if v = JNull then dflt else v))"

definition get_state :: "'d kv_ops \<Rightarrow> string \<Rightarrow> (('w, 'd, 'z) store_state_scheme, flow_state) prog" where
  "get_state K thread_id =
     andthen (sm_fetch K NS_STATE thread_id JNull) (\<lambda>raw.
       if raw = JNull then ret INITIAL
       else ret (case FlowState raw of Inr f \<Rightarrow> f | Inl _ \<Rightarrow> INITIAL))"

definition set_state ::
  "'d kv_ops \<Rightarrow> string \<Rightarrow> flow_state \<Rightarrow> (('w, 'd, 'z) store_state_scheme, unit) prog" where
  "set_state K thread_id st = sm_put K NS_STATE thread_id (JStr (flow_value st))"

definition get_frontend_state ::
  "'d kv_ops \<Rightarrow> string \<Rightarrow> (('w, 'd, 'z) store_state_scheme, frontend_state) prog" where
  "get_frontend_state K thread_id = andthen (get_state K thread_id) (\<lambda>f. ret (frontend_of f))"

definition set_pending_meeting ::
  "'d kv_ops \<Rightarrow> string \<Rightarrow> dict \<Rightarrow> (('w, 'd, 'z) store_state_scheme, unit) prog" where
  "set_pending_meeting K thread_id m = sm_put K NS_PENDING thread_id (JObj m)"

definition get_pending_meeting :: "'d kv_ops \<Rightarrow> string \<Rightarrow> (('w, 'd, 'z) store_state_scheme, json) prog" where
  "get_pending_meeting K thread_id = sm_fetch K NS_PENDING thread_id JNull"

definition clear_pending_meeting :: "'d kv_ops \<Rightarrow> string \<Rightarrow> (('w, 'd, 'z) store_state_scheme, unit) prog" where
  "clear_pending_meeting K thread_id = delete_kv K NS_PENDING thread_id"

definition set_auth_url ::
  "'d kv_ops \<Rightarrow> string \<Rightarrow> string \<Rightarrow> (('w, 'd, 'z) store_state_scheme, unit) prog" where
  "set_auth_url K thread_id u = sm_put K NS_AUTH_URL thread_id (JStr u)"

definition get_auth_url :: "'d kv_ops \<Rightarrow> string \<Rightarrow> (('w, 'd, 'z) store_state_scheme, json) prog" where
  "get_auth_url K thread_id = sm_fetch K NS_AUTH_URL thread_id JNull"

definition set_agent_credentials ::
  "'d kv_ops \<Rightarrow> string \<Rightarrow> json \<Rightarrow> json \<Rightarrow> (('w, 'd, 'z) store_state_scheme, unit) prog" where
  "set_agent_credentials K thread_id agent_id agent_secret =
     sm_put K NS_CREDS thread_id (JList [agent_id, agent_secret])"

definition get_agent_credentials ::
  "'d kv_ops \<Rightarrow> string \<Rightarrow> (('w, 'd, 'z) store_state_scheme, json \<times> json) prog" where
  "get_agent_credentials K thread_id =
     andthen (sm_fetch K NS_CREDS thread_id JNull) (\<lambda>stored.
       if \<not> truthy stored then ret (JStr '''', JStr '''')
       else
         (case stored of
            JList (a # b # _) \<Rightarrow> ret (a, b)
          | JList _ \<Rightarrow> raise (IndexError ''list index out of range'')
          | JStr (a # b # _) \<Rightarrow> ret (JStr [a], JStr [b])
          | JStr _ \<Rightarrow> raise (IndexError ''string index out of range'')
          | JObj _ \<Rightarrow> raise (KeyError ''0'')
          | _ \<Rightarrow> raise (TypeError ''object is not subscriptable'')))"

definition set_org_name ::
  "'d kv_ops \<Rightarrow> string \<Rightarrow> string \<Rightarrow> (('w, 'd, 'z) store_state_scheme, unit) prog" where
  "set_org_name K thread_id n = sm_put K NS_ORG_NAME thread_id (JStr n)"

definition get_org_name :: "'d kv_ops \<Rightarrow> string \<Rightarrow> (('w, 'd, 'z) store_state_scheme, json) prog" where
  "get_org_name K thread_id = sm_fetch K NS_ORG_NAME thread_id (JStr '''')"

definition set_agent_name ::
  "'d kv_ops \<Rightarrow> string \<Rightarrow> string \<Rightarrow> (('w, 'd, 'z) store_state_scheme, unit) prog" where
  "set_agent_name K thread_id n = sm_put K NS_AGENT_NAME thread_id (JStr n)"

definition get_agent_name :: "'d kv_ops \<Rightarrow> string \<Rightarrow> (('w, 'd, 'z) store_state_scheme, json) prog" where
  "get_agent_name K thread_id = sm_fetch K NS_AGENT_NAME thread_id (JStr DEFAULT_AGENT_NAME)"

definition clear_state :: "'d kv_ops \<Rightarrow> string \<Rightarrow> (('w, 'd, 'z) store_state_scheme, unit) prog" where
  "clear_state K thread_id = for_each (\<lambda>ns. delete_kv K ns thread_id) ALL_NAMESPACES"

subsection \<open>\<open>ChatHistoryManager\<close>\<close>

text \<open>\<open>list(stored) if stored else []\<close>; what is stored is always a list of messages.\<close>

definition get_history :: "'d kv_ops \<Rightarrow> string \<Rightarrow> (('w, 'd, 'z) store_state_scheme, json list) prog" where
  "get_history K thread_id =
     andthen (fetch_kv K NS_HISTORY thread_id) (\<lambda>stored.
       if truthy stored then lift_res (py_list stored) else ret [])"

definition chat_message :: "string \<Rightarrow> string \<Rightarrow> json" where
  "chat_message role content = JObj [(''role'', JStr role), (''content'', JStr content)]"

definition trim_history :: "nat \<Rightarrow> json list \<Rightarrow> json list" where
  "trim_history max_messages history =
     (if max_messages < length history
      then (if max_messages = 0 then history else drop (length history - max_messages) history)
      else history)"

definition add_message ::
  "'d kv_ops \<Rightarrow> nat \<Rightarrow> string \<Rightarrow> string \<Rightarrow> string \<Rightarrow> (('w, 'd, 'z) store_state_scheme, unit) prog" where
  "add_message K max_messages thread_id role content =
     andthen (get_history K thread_id) (\<lambda>history.
       put_kv K NS_HISTORY thread_id
         (JList (trim_history max_messages (history @ [chat_message role content]))) DEFAULT_TTL_SECONDS)"

definition clear_history :: "'d kv_ops \<Rightarrow> string \<Rightarrow> (('w, 'd, 'z) store_state_scheme, unit) prog" where
  "clear_history K thread_id = delete_kv K NS_HISTORY thread_id"

definition reset_history :: "'d kv_ops \<Rightarrow> (('w, 'd, 'z) store_state_scheme, unit) prog" where
  "reset_history K = clear_kv K NS_HISTORY"

subsection \<open>The managers send no requests\<close>

lemma kv_sent [simp]:
  "sent (snd (fetch_kv K ns k s)) = sent s" "sent (snd (put_kv K ns k v ttl s)) = sent s"
  "sent (snd (delete_kv K ns k s)) = sent s" "sent (snd (clear_kv K ns s)) = sent s"
  by (simp_all add: fetch_kv_def put_kv_def delete_kv_def clear_kv_def split: prod.splits)

lemma kv_sends [simp, intro]:
  "sends A (fetch_kv K ns k)" "sends A (put_kv K ns k v ttl)" "sends A (delete_kv K ns k)" "sends A (clear_kv K ns)"
  by (simp_all add: sends_quiet)

lemma for_each_sends: "(\<And>x. sends A (f x)) \<Longrightarrow> sends A (for_each f xs)"
  by (induction xs) (simp_all add: sends_andthen)

lemma state_sends [simp, intro]:
  "sends A (sm_put K ns k v)" "sends A (sm_fetch K ns k d)" "sends A (get_state K k)" "sends A (set_state K k f)"
  "sends A (get_frontend_state K k)" "sends A (set_pending_meeting K k m)" "sends A (get_pending_meeting K k)"
  "sends A (clear_pending_meeting K k)" "sends A (set_auth_url K k u)" "sends A (get_auth_url K k)"
  "sends A (set_agent_credentials K k i p)" "sends A (set_org_name K k n)" "sends A (get_org_name K k)"
  "sends A (set_agent_name K k n)" "sends A (get_agent_name K k)" "sends A (clear_state K k)"
  unfolding sm_put_def sm_fetch_def get_state_def set_state_def get_frontend_state_def set_pending_meeting_def
    get_pending_meeting_def clear_pending_meeting_def set_auth_url_def get_auth_url_def set_agent_credentials_def
    set_org_name_def get_org_name_def set_agent_name_def get_agent_name_def clear_state_def
  by (intro sends_intros kv_sends for_each_sends)+

lemma get_agent_credentials_sends [simp, intro]: "sends A (get_agent_credentials K k)"
proof -
  have "sends A (case v of JList (a # b # _) \<Rightarrow> ret (a, b)
          | JList _ \<Rightarrow> raise (IndexError ''list index out of range'')
          | JStr (a # b # _) \<Rightarrow> ret (JStr [a], JStr [b])
          | JStr _ \<Rightarrow> raise (IndexError ''string index out of range'')
          | JObj _ \<Rightarrow> raise (KeyError ''0'')
          | _ \<Rightarrow> raise (TypeError ''object is not subscriptable''))" for v
    by (simp split: json.split list.split)
  then show ?thesis unfolding get_agent_credentials_def by (intro sends_intros state_sends)
qed

lemma history_sends [simp, intro]:
  "sends A (get_history K k)" "sends A (add_message K n k r c)" "sends A (clear_history K k)"
  unfolding add_message_def get_history_def clear_history_def by (intro sends_intros kv_sends)+

subsection \<open>What the managers promise\<close>

lemma FlowState_value [simp]: "FlowState (JStr (flow_value f)) = Inr f"
  by (cases f) (simp_all add: FlowState_def all_flow_states_def)

lemma wf_namespaces [simp]:
  "wf_ns NS_STATE" "wf_ns NS_PENDING" "wf_ns NS_AUTH_URL" "wf_ns NS_CREDS" "wf_ns NS_AGENT_NAME"
  "wf_ns NS_ORG_NAME" "wf_ns NS_HISTORY"
  by (simp_all add: wf_ns_def NS_STATE_def NS_PENDING_def NS_AUTH_URL_def NS_CREDS_def NS_AGENT_NAME_def
      NS_ORG_NAME_def NS_HISTORY_def)

lemma wf_all_namespaces: "ns \<in> set ALL_NAMESPACES \<Longrightarrow> wf_ns ns"
  by (auto simp: ALL_NAMESPACES_def)

lemma DEFAULT_TTL_pos [simp]: "0 < DEFAULT_TTL_SECONDS"
  by (simp add: DEFAULT_TTL_SECONDS_def)

text \<open>A store that also takes every value without floats and with one item per key.\<close>

locale json_store = kv_store +
  assumes storable_plain: "wf_json v \<Longrightarrow> floats v = {} \<Longrightarrow> storable v"

interpretation mem_json: json_store mem_ops mem_view "\<lambda>_. True"
  by unfold_locales simp

lemma redis_json_store:
  assumes "redis_documented R server" and "glob_free pre"
  shows "json_store (redis_ops R fr fp pre) (redis_view fp pre server) (storable_text fr fp)"
  using redis_contract [OF assms, of fr fp]
  by (auto simp: json_store_def json_store_axioms_def storable_text_def)

text \<open>What a step sees of the store now; what a thread's flow state is.\<close>

definition seen ::
  "('d \<Rightarrow> real \<Rightarrow> string \<Rightarrow> string \<Rightarrow> json) \<Rightarrow> ('w, 'd, 'z) store_state_scheme \<Rightarrow> string \<Rightarrow> string \<Rightarrow> json" where
  "seen view s ns k = view (store s) (mono s) ns k"

definition flow_of :: "json \<Rightarrow> flow_state" where
  "flow_of raw = (if raw = JNull then INITIAL else case FlowState raw of Inr f \<Rightarrow> f | Inl _ \<Rightarrow> INITIAL)"

lemma flow_of_simps [simp]: "flow_of JNull = INITIAL" "flow_of (JStr (flow_value f)) = f"
  by (simp_all add: flow_of_def)

text \<open>
  \<open>t\<close> is \<open>s\<close> after reads: everything else is the same and no later read can tell. \<open>t\<close> is \<open>s\<close>
  after a write: everything else is the same and the store shows \<open>f\<close> now.
\<close>

definition after_reads ::
  "('d \<Rightarrow> real \<Rightarrow> string \<Rightarrow> string \<Rightarrow> json) \<Rightarrow> ('w, 'd, 'z) store_state_scheme \<Rightarrow>
     ('w, 'd, 'z) store_state_scheme \<Rightarrow> bool" where
  "after_reads view s t \<longleftrightarrow>
     (\<exists>d. t = s\<lparr>store := d\<rparr> \<and> (\<forall>now ns k. mono s \<le> now \<longrightarrow> view d now ns k = view (store s) now ns k))"

lemma after_readsD:
  assumes "after_reads view s t"
  shows "mono t = mono s" and "mono s \<le> now \<Longrightarrow> view (store t) now ns k = view (store s) now ns k"
    and "seen view t = seen view s"
  using assms by (auto simp: after_reads_def seen_def fun_eq_iff)

lemma after_reads_refl [simp]: "after_reads view s s"
  by (auto simp: after_reads_def intro!: exI [of _ "store s"])

lemma after_reads_trans: "after_reads view s t \<Longrightarrow> after_reads view t u \<Longrightarrow> after_reads view s u"
  by (auto simp: after_reads_def)

text \<open>A read step returns \<open>f s\<close> and leaves what is seen as it was.\<close>

definition reads ::
  "('d \<Rightarrow> real \<Rightarrow> string \<Rightarrow> string \<Rightarrow> json) \<Rightarrow> (('w, 'd, 'z) store_state_scheme, 'a) prog \<Rightarrow>
     (('w, 'd, 'z) store_state_scheme \<Rightarrow> 'a) \<Rightarrow> bool" where
  "reads view m f \<longleftrightarrow> (\<forall>s. \<exists>t. m s = (Inr (f s), t) \<and> after_reads view s t)"

lemma readsE:
  assumes "reads view m f"
  obtains t where "m s = (Inr (f s), t)" "after_reads view s t"
  using assms by (auto simp: reads_def)

lemma reads_andthen_ret: "reads view m f \<Longrightarrow> reads view (andthen m (\<lambda>v. ret (g v))) (\<lambda>s. g (f s))"
proof -
  assume m: "reads view m f"
  show ?thesis
    unfolding reads_def
  proof
    fix s
    obtain t where "m s = (Inr (f s), t)" "after_reads view s t" by (rule readsE [OF m])
    then show "\<exists>t. andthen m (\<lambda>v. ret (g v)) s = (Inr (g (f s)), t) \<and> after_reads view s t"
      by (simp add: andthen_def)
  qed
qed

context kv_store
begin

lemma reads_fetch: "reads view (fetch_kv K ns k) (\<lambda>s. seen view s ns k)"
  unfolding reads_def
proof
  fix s :: "('w, 'd, 'z) store_state_scheme"
  obtain v d where g: "kv_get K (mono s) ns k (store s) = (v, d)"
    by (cases "kv_get K (mono s) ns k (store s)")
  have "v = seen view s ns k" using get_value [of "mono s" ns k "store s"] by (simp add: g seen_def)
  moreover have "after_reads view s (s\<lparr>store := d\<rparr>)"
    using get_keeps [of "mono s" _ ns k "store s"] by (auto simp: after_reads_def g)
  ultimately show "\<exists>t. fetch_kv K ns k s = (Inr (seen view s ns k), t) \<and> after_reads view s t"
    by (simp add: fetch_kv_def g)
qed

lemma reads_sm_fetch:
  "reads view (sm_fetch K ns k d) (\<lambda>s. if seen view s ns k = JNull then d else seen view s ns k)"
  unfolding sm_fetch_def by (rule reads_andthen_ret [OF reads_fetch])

lemma reads_get_state: "reads view (get_state K k) (\<lambda>s. flow_of (seen view s NS_STATE k))"
proof -
  have eq: "get_state K k = andthen (sm_fetch K NS_STATE k JNull) (\<lambda>raw. ret (flow_of raw))"
    unfolding get_state_def flow_of_def by (rule arg_cong [where f = "andthen _"]) (auto simp: fun_eq_iff)
  have "reads view (andthen (sm_fetch K NS_STATE k JNull) (\<lambda>raw. ret (flow_of raw)))
      (\<lambda>s. flow_of (if seen view s NS_STATE k = JNull then JNull else seen view s NS_STATE k))"
    by (rule reads_andthen_ret [OF reads_sm_fetch])
  then show ?thesis unfolding eq by (simp cong: if_cong)
qed

lemma reads_frontend: "reads view (get_frontend_state K k) (\<lambda>s. frontend_of (flow_of (seen view s NS_STATE k)))"
  unfolding get_frontend_state_def by (rule reads_andthen_ret [OF reads_get_state])

lemma seen_put:
  assumes "wf_ns ns" "wf_ns ns'" "storable v" "0 \<le> mono s" "0 < ttl"
  shows "seen view (snd (put_kv K ns k v ttl s)) ns' k' = (if ns' = ns \<and> k' = k then v else seen view s ns' k')"
  using set_view [OF assms] by (simp add: seen_def put_kv_def)

lemma seen_delete:
  assumes "wf_ns ns" "wf_ns ns'"
  shows "seen view (snd (delete_kv K ns k s)) ns' k' = (if ns' = ns \<and> k' = k then JNull else seen view s ns' k')"
  using delete_view [OF assms, of "mono s" "mono s"] by (simp add: seen_def delete_kv_def)

lemma seen_clear:
  assumes "wf_ns ns" "wf_ns ns'"
  shows "seen view (snd (clear_kv K ns s)) ns' k' = (if ns' = ns then JNull else seen view s ns' k')"
  using clear_namespace [OF assms, of "mono s" "mono s"] by (simp add: seen_def clear_kv_def)

lemma clear_state_seen:
  assumes "wf_ns ns'"
  shows "seen view (snd (clear_state K k s)) ns' k' =
    (if ns' \<in> set ALL_NAMESPACES \<and> k' = k then JNull else seen view s ns' k')"
proof -
  have "seen view (snd (for_each (\<lambda>ns. delete_kv K ns k) nss s)) ns' k' =
      (if ns' \<in> set nss \<and> k' = k then JNull else seen view s ns' k')"
    if "\<forall>ns \<in> set nss. wf_ns ns" for nss
    using that
  proof (induction nss arbitrary: s)
    case (Cons ns nss)
    have "for_each (\<lambda>ns. delete_kv K ns k) (ns # nss) s =
        for_each (\<lambda>ns. delete_kv K ns k) nss (snd (delete_kv K ns k s))"
      by (simp add: delete_kv_def)
    then show ?case
      using Cons seen_delete [of ns ns' k s k'] assms by auto
  qed simp
  then show ?thesis by (simp add: clear_state_def wf_all_namespaces)
qed

lemma sm_reset_seen:
  assumes "wf_ns ns'"
  shows "seen view (snd (sm_reset K s)) ns' k' =
    (if ns' \<in> set ALL_NAMESPACES then JNull else seen view s ns' k')"
proof -
  have "seen view (snd (for_each (clear_kv K) nss s)) ns' k' =
      (if ns' \<in> set nss then JNull else seen view s ns' k')"
    if "\<forall>ns \<in> set nss. wf_ns ns" for nss
    using that
  proof (induction nss arbitrary: s)
    case (Cons ns nss)
    have "for_each (clear_kv K) (ns # nss) s = for_each (clear_kv K) nss (snd (clear_kv K ns s))"
      by (simp add: clear_kv_def)
    then show ?case
      using Cons seen_clear [of ns ns' s k'] assms by auto
  qed simp
  then show ?thesis by (simp add: sm_reset_def wf_all_namespaces)
qed

end

context json_store
begin

lemma storable_str [simp]: "storable (JStr s)"
  by (rule storable_plain) simp_all

lemma set_state_later:
  assumes "0 \<le> mono s" and "mono s \<le> now"
  shows "view (store (snd (set_state K k f s))) now NS_STATE k \<in> {JStr (flow_value f), JNull}"
    and "now < mono s + real DEFAULT_TTL_SECONDS \<Longrightarrow>
      view (store (snd (set_state K k f s))) now NS_STATE k = JStr (flow_value f)"
    and "mono s + real DEFAULT_TTL_SECONDS < now \<Longrightarrow>
      view (store (snd (set_state K k f s))) now NS_STATE k = JNull"
    and "wf_ns ns \<Longrightarrow> ns \<noteq> NS_STATE \<or> k' \<noteq> k \<Longrightarrow>
      view (store (snd (set_state K k f s))) now ns k' = view (store s) now ns k'"
proof -
  have run: "store (snd (set_state K k f s)) =
      kv_set K (mono s) NS_STATE k (JStr (flow_value f)) DEFAULT_TTL_SECONDS (store s)"
    by (simp add: set_state_def sm_put_def put_kv_def)
  show "view (store (snd (set_state K k f s))) now NS_STATE k \<in> {JStr (flow_value f), JNull}"
    using set_then_get [of NS_STATE "JStr (flow_value f)" "mono s" DEFAULT_TTL_SECONDS now k "store s"] assms
    by (simp add: run get_value)
  show "now < mono s + real DEFAULT_TTL_SECONDS \<Longrightarrow>
      view (store (snd (set_state K k f s))) now NS_STATE k = JStr (flow_value f)"
    using assms by (simp add: run set_same)
  show "mono s + real DEFAULT_TTL_SECONDS < now \<Longrightarrow>
      view (store (snd (set_state K k f s))) now NS_STATE k = JNull"
    using assms by (simp add: run set_expired)
  show "wf_ns ns \<Longrightarrow> ns \<noteq> NS_STATE \<or> k' \<noteq> k \<Longrightarrow>
      view (store (snd (set_state K k f s))) now ns k' = view (store s) now ns k'"
    by (simp add: run set_other)
qed

end

subsection \<open>Chat history\<close>

text \<open>The transcript as the list of the messages added, oldest first.\<close>

fun add_messages ::
  "'d kv_ops \<Rightarrow> nat \<Rightarrow> string \<Rightarrow> (string \<times> string) list \<Rightarrow> (('w, 'd, 'z) store_state_scheme, unit) prog" where
  "add_messages K n k [] = ret ()"
| "add_messages K n k ((role, content) # ms) =
     andthen (add_message K n k role content) (\<lambda>_. add_messages K n k ms)"

definition last_n :: "nat \<Rightarrow> 'a list \<Rightarrow> 'a list" where
  "last_n n xs = drop (length xs - n) xs"

lemma last_n_append: "last_n n (last_n n xs @ ys) = last_n n (xs @ ys)"
  by (cases "n \<le> length xs") (simp_all add: last_n_def add.commute)

lemma trim_history_last_n: "0 < n \<Longrightarrow> trim_history n h = last_n n h"
  by (simp add: trim_history_def last_n_def)

definition history_of :: "json \<Rightarrow> json list" where
  "history_of v = (case v of JList xs \<Rightarrow> xs | _ \<Rightarrow> [])"

context json_store
begin

lemma get_history_run:
  assumes "seen view s NS_HISTORY k \<in> {JNull, JList h}" and "seen view s NS_HISTORY k = JNull \<longrightarrow> h = []"
  obtains t where "get_history K k s = (Inr h, t)" "after_reads view s t"
proof -
  obtain t where t: "fetch_kv K NS_HISTORY k s = (Inr (seen view s NS_HISTORY k), t)" "after_reads view s t"
    by (rule readsE [OF reads_fetch])
  have "get_history K k s = (Inr h, t)"
    using assms t(1) by (auto simp: get_history_def andthen_def py_list_def)
  then show ?thesis using that t(2) by blast
qed

lemma messages_storable: "\<forall>m \<in> set h. \<exists>r c. m = chat_message r c \<Longrightarrow> storable (JList h)"
  by (rule storable_plain) (auto simp: list_all_iff chat_message_def)

lemma add_message_run:
  assumes "seen view s NS_HISTORY k \<in> {JNull, JList h}" and "seen view s NS_HISTORY k = JNull \<longrightarrow> h = []"
    and "\<forall>m \<in> set h. \<exists>r c. m = chat_message r c" and "0 \<le> mono s"
  shows "\<exists>t. add_message K n k role content s = (Inr (), t) \<and> mono t = mono s \<and>
    seen view t NS_HISTORY k = JList (trim_history n (h @ [chat_message role content])) \<and>
    (\<forall>ns k'. wf_ns ns \<and> (ns \<noteq> NS_HISTORY \<or> k' \<noteq> k) \<longrightarrow> seen view t ns k' = seen view s ns k')"
proof -
  obtain u where u: "get_history K k s = (Inr h, u)" "after_reads view s u"
    by (rule get_history_run [OF assms(1,2)])
  let ?v = "JList (trim_history n (h @ [chat_message role content]))"
  have ok: "storable ?v"
    using assms(3) by (intro messages_storable) (auto simp: trim_history_def dest: in_set_dropD)
  have m: "mono u = mono s" "seen view u = seen view s" using after_readsD [OF u(2)] by simp_all
  have "add_message K n k role content s = put_kv K NS_HISTORY k ?v DEFAULT_TTL_SECONDS u"
    by (simp add: add_message_def andthen_def u)
  moreover have "put_kv K NS_HISTORY k ?v DEFAULT_TTL_SECONDS u =
      (Inr (), snd (put_kv K NS_HISTORY k ?v DEFAULT_TTL_SECONDS u))"
    by (simp add: put_kv_def)
  moreover have "mono (snd (put_kv K NS_HISTORY k ?v DEFAULT_TTL_SECONDS u)) = mono s"
    by (simp add: put_kv_def m)
  ultimately show ?thesis
    using seen_put [of NS_HISTORY _ ?v u DEFAULT_TTL_SECONDS k] ok assms(4) m by auto
qed

lemma add_messages_run:
  assumes "0 < n" and "seen view s NS_HISTORY k \<in> {JNull, JList (last_n n h)}"
    and "seen view s NS_HISTORY k = JNull \<longrightarrow> h = []"
    and "\<forall>m \<in> set h. \<exists>r c. m = chat_message r c" and "0 \<le> mono s"
  shows "\<exists>t. add_messages K n k ms s = (Inr (), t) \<and>
    (\<exists>u. get_history K k t = (Inr (last_n n (h @ map (\<lambda>(r, c). chat_message r c) ms)), u)) \<and>
    (\<forall>ns k'. wf_ns ns \<and> (ns \<noteq> NS_HISTORY \<or> k' \<noteq> k) \<longrightarrow> seen view t ns k' = seen view s ns k')"
  using assms(2-)
proof (induction ms arbitrary: s h)
  case Nil
  have "seen view s NS_HISTORY k = JNull \<longrightarrow> last_n n h = []" using Nil.prems(2) by (simp add: last_n_def)
  then obtain u where "get_history K k s = (Inr (last_n n h), u)"
    by (rule get_history_run [OF Nil.prems(1)])
  then show ?case by simp
next
  case (Cons m ms)
  obtain r c where m: "m = (r, c)" by (cases m)
  have "seen view s NS_HISTORY k = JNull \<longrightarrow> last_n n h = []" using Cons.prems(2) by (simp add: last_n_def)
  moreover have "\<forall>m \<in> set (last_n n h). \<exists>r c. m = chat_message r c"
    using Cons.prems(3) by (auto simp: last_n_def dest: in_set_dropD)
  ultimately obtain t where t: "add_message K n k r c s = (Inr (), t)" "mono t = mono s"
    "seen view t NS_HISTORY k = JList (trim_history n (last_n n h @ [chat_message r c]))"
    "\<forall>ns k'. wf_ns ns \<and> (ns \<noteq> NS_HISTORY \<or> k' \<noteq> k) \<longrightarrow> seen view t ns k' = seen view s ns k'"
    using add_message_run [OF Cons.prems(1), of n r c] Cons.prems(4) by blast
  have "seen view t NS_HISTORY k = JList (last_n n (h @ [chat_message r c]))"
    using t(3) assms(1) by (simp add: trim_history_last_n last_n_append)
  then have "\<exists>t'. add_messages K n k ms t = (Inr (), t') \<and>
      (\<exists>u. get_history K k t' = (Inr (last_n n ((h @ [chat_message r c]) @ map (\<lambda>(r, c). chat_message r c) ms)), u)) \<and>
      (\<forall>ns k'. wf_ns ns \<and> (ns \<noteq> NS_HISTORY \<or> k' \<noteq> k) \<longrightarrow> seen view t' ns k' = seen view t ns k')"
    using Cons.prems(3,4) t(2) by (intro Cons.IH) auto
  then show ?case using t by (auto simp: m andthen_def)
qed

end

subsection \<open>Time passing\<close>

definition later :: "real \<Rightarrow> ('w, 'd, 'z) store_state_scheme \<Rightarrow> ('w, 'd, 'z) store_state_scheme" where
  "later dt s = s\<lparr>mono := mono s + dt\<rparr>"

lemma later_fields [simp]: "store (later dt s) = store s" "mono (later dt s) = mono s + dt"
  by (simp_all add: later_def)

context json_store
begin

lemma get_state_later: "fst (get_state K k s) = Inr (flow_of (view (store s) (mono s) NS_STATE k))"
proof -
  obtain u where "get_state K k s = (Inr (flow_of (seen view s NS_STATE k)), u)"
    by (rule readsE [OF reads_get_state])
  then show ?thesis by (simp add: seen_def)
qed

lemma flow_state_spec:
  assumes "0 \<le> mono s" and "0 \<le> dt" and t: "set_state K k f s = (r, t)"
  shows "r = Inr () \<and>
    (dt < 86400 \<longrightarrow> fst (get_state K k (later dt t)) = Inr f) \<and>
    (86400 < dt \<longrightarrow> fst (get_state K k (later dt t)) = Inr INITIAL) \<and>
    (\<forall>k'. k' \<noteq> k \<longrightarrow> fst (get_state K k' (later dt t)) = fst (get_state K k' (later dt s))) \<and>
    (\<forall>ns k'. wf_ns ns \<and> ns \<noteq> NS_STATE \<longrightarrow> seen view (later dt t) ns k' = seen view (later dt s) ns k')"
proof -
  have m: "mono t = mono s" "r = Inr ()" "t = snd (set_state K k f s)"
    using t by (auto simp: set_state_def sm_put_def put_kv_def)
  have le: "mono s \<le> mono s + dt" using assms(2) by simp
  note L = set_state_later [OF assms(1) le, where k = k and f = f, folded m(3)]
  show ?thesis
    using L(2,3) L(4) m by (auto simp: get_state_later seen_def DEFAULT_TTL_SECONDS_def)
qed

lemma clear_state_spec:
  assumes "clear_state K k s = (r, t)"
  shows "r = Inr () \<and> fst (get_state K k t) = Inr INITIAL \<and>
    fst (get_frontend_state K k t) = Inr IDLE \<and> fst (get_pending_meeting K k t) = Inr JNull \<and>
    fst (get_auth_url K k t) = Inr JNull \<and> fst (get_agent_credentials K k t) = Inr (JStr [], JStr []) \<and>
    (\<forall>ns k'. wf_ns ns \<and> (ns \<notin> set ALL_NAMESPACES \<or> k' \<noteq> k) \<longrightarrow> seen view t ns k' = seen view s ns k')"
proof -
  have "fst (for_each (\<lambda>ns. delete_kv K ns k) nss u) = Inr ()" for nss u
    by (induction nss arbitrary: u) (simp_all add: delete_kv_def)
  from this [of ALL_NAMESPACES s] have rt: "r = Inr ()" "t = snd (clear_state K k s)"
    using assms by (simp_all add: clear_state_def)
  have cleared: "seen view t ns k = JNull" if "ns \<in> set ALL_NAMESPACES" for ns
    using that clear_state_seen [OF wf_all_namespaces [OF that], of k s k] by (simp add: rt)
  have ns: "NS_STATE \<in> set ALL_NAMESPACES" "NS_PENDING \<in> set ALL_NAMESPACES"
    "NS_AUTH_URL \<in> set ALL_NAMESPACES" "NS_CREDS \<in> set ALL_NAMESPACES"
    by (simp_all add: ALL_NAMESPACES_def)
  obtain u1 where 1: "get_state K k t = (Inr (flow_of (seen view t NS_STATE k)), u1)"
    by (rule readsE [OF reads_get_state])
  obtain u2 where 2: "get_frontend_state K k t = (Inr (frontend_of (flow_of (seen view t NS_STATE k))), u2)"
    by (rule readsE [OF reads_frontend])
  have fetch: "fst (sm_fetch K ns k JNull t) = Inr JNull" if "ns \<in> set ALL_NAMESPACES" for ns
  proof -
    obtain u where "sm_fetch K ns k JNull t =
        (Inr (if seen view t ns k = JNull then JNull else seen view t ns k), u)"
      by (rule readsE [OF reads_sm_fetch])
    then show ?thesis using cleared [OF that] by simp
  qed
  have "fst (get_agent_credentials K k t) = Inr (JStr [], JStr [])"
    using fetch [OF ns(4)] by (cases "sm_fetch K NS_CREDS k JNull t")
      (simp add: get_agent_credentials_def andthen_def)
  then show ?thesis
    using 1 2 rt cleared [OF ns(1)] fetch [OF ns(2)] fetch [OF ns(3)] clear_state_seen [of _ k s]
    by (auto simp: get_pending_meeting_def get_auth_url_def)
qed

end

subsection \<open>Properties\<close>

text \<open>
  over any store that keeps the contract, the flow state set for a thread is the one read
  back for a day and \<open>INITIAL\<close> afterwards; the flow states of other threads, and everything
  else in the store (pending meetings, tokens, transcripts), are as before.
\<close>

theorem flow_state_kept_for_a_day:
  assumes "json_store K view storable" and "0 \<le> mono s" and "0 \<le> dt"
    and "set_state K k f s = (r, t)"
  shows "r = Inr () \<and>
    (dt < 86400 \<longrightarrow> fst (get_state K k (later dt t)) = Inr f) \<and>
    (86400 < dt \<longrightarrow> fst (get_state K k (later dt t)) = Inr INITIAL) \<and>
    (\<forall>k'. k' \<noteq> k \<longrightarrow> fst (get_state K k' (later dt t)) = fst (get_state K k' (later dt s))) \<and>
    (\<forall>ns k'. wf_ns ns \<and> ns \<noteq> NS_STATE \<longrightarrow> seen view (later dt t) ns k' = seen view (later dt s) ns k')"
  by (rule json_store.flow_state_spec [OF assms])

text \<open>
  \<open>clear_state\<close> forgets exactly one thread's flow: afterwards its flow state is \<open>INITIAL\<close>,
  its frontend state \<open>IDLE\<close>, and there is no pending meeting, authorization URL or agent
  credential for it, while other threads' entries and the namespaces of the other managers
  (tokens, transcripts) read as before.
\<close>

theorem clear_state_forgets_one_thread:
  assumes "json_store K view storable" and "clear_state K k s = (r, t)"
  shows "r = Inr () \<and> fst (get_state K k t) = Inr INITIAL \<and>
    fst (get_frontend_state K k t) = Inr IDLE \<and> fst (get_pending_meeting K k t) = Inr JNull \<and>
    fst (get_auth_url K k t) = Inr JNull \<and> fst (get_agent_credentials K k t) = Inr (JStr [], JStr []) \<and>
    (\<forall>ns k'. wf_ns ns \<and> (ns \<notin> set ALL_NAMESPACES \<or> k' \<noteq> k) \<longrightarrow> seen view t ns k' = seen view s ns k')"
  by (rule json_store.clear_state_spec [OF assms])

text \<open>
  a transcript that starts empty holds, after any sequence of messages, exactly the last
  \<open>n\<close> of them in order, for a positive limit \<open>n\<close>, and adding messages changes nothing else
  that the store shows.
\<close>

theorem history_keeps_the_last_messages:
  assumes "json_store K view storable" and "0 < n" and "0 \<le> mono s"
    and "seen view s NS_HISTORY k = JNull"
  shows "\<exists>t u. add_messages K n k ms s = (Inr (), t) \<and>
    get_history K k t =
      (Inr (drop (length ms - n) (map (\<lambda>(r, c). JObj [(''role'', JStr r), (''content'', JStr c)]) ms)), u) \<and>
    (\<forall>ns k'. wf_ns ns \<and> (ns \<noteq> NS_HISTORY \<or> k' \<noteq> k) \<longrightarrow> seen view t ns k' = seen view s ns k')"
  using json_store.add_messages_run [OF assms(1,2), of s k "[]" ms] assms(3,4)
  by (auto simp: last_n_def chat_message_def)

subsection \<open>Witnesses\<close>

definition empty_agent :: "(unit, mem_store) store_state" where
  "empty_agent = \<lparr>world = (), wall = 0, mono = 0, sent = [], tok_cache = Map.empty, m2m_log = [],
     store = Map.empty\<rparr>"

theorem flow_state_kept_for_a_day_witness:
  "fst (get_state mem_ops ''t1'' (later 3600 (snd (set_state mem_ops ''t1'' BOOKING_AUTHORIZED empty_agent)))) =
     Inr BOOKING_AUTHORIZED \<and>
   fst (get_state mem_ops ''t1'' (later 90000 (snd (set_state mem_ops ''t1'' BOOKING_AUTHORIZED empty_agent)))) =
     Inr INITIAL"
  using flow_state_kept_for_a_day [OF mem_json.json_store_axioms, where s = empty_agent and dt = 3600
      and k = "''t1''" and f = BOOKING_AUTHORIZED, OF _ _ surjective_pairing]
    flow_state_kept_for_a_day [OF mem_json.json_store_axioms, where s = empty_agent and dt = 90000
      and k = "''t1''" and f = BOOKING_AUTHORIZED, OF _ _ surjective_pairing]
  by (simp add: empty_agent_def)

theorem clear_state_forgets_one_thread_witness:
  "fst (get_state mem_ops ''t1'' (snd (clear_state mem_ops ''t1''
     (snd (set_state mem_ops ''t1'' BOOKING_AUTHORIZED empty_agent))))) = Inr INITIAL"
  using clear_state_forgets_one_thread [OF mem_json.json_store_axioms surjective_pairing, where k = "''t1''"
      and s = "snd (set_state mem_ops ''t1'' BOOKING_AUTHORIZED empty_agent)"]
  by simp

theorem history_keeps_the_last_messages_witness:
  "\<exists>t u. add_messages mem_ops 2 ''t1'' [(''user'', ''a''), (''model'', ''b''), (''user'', ''c'')] empty_agent = (Inr (), t) \<and>
     get_history mem_ops ''t1'' t = (Inr [JObj [(''role'', JStr ''model''), (''content'', JStr ''b'')],
       JObj [(''role'', JStr ''user''), (''content'', JStr ''c'')]], u)"
  using history_keeps_the_last_messages [OF mem_json.json_store_axioms, where n = 2 and s = empty_agent
      and k = "''t1''" and ms = "[(''user'', ''a''), (''model'', ''b''), (''user'', ''c'')]"]
  by (auto simp: empty_agent_def seen_def mem_view_def mem_get_def Let_def)

end
