(* ===== verification/Auth_Manager.thy ===== *)
theory Auth_Manager
  imports Agent_State
begin

text \<open>
  \<open>agent/auth_manager.py\<close>: the agent's own token, the on-behalf-of (OBO) tokens of the chat
  threads and the PKCE verifier of a consent in flight. Random strings
  (\<open>secrets.token_urlsafe\<close>) come from a numbered source and the S256 challenge of a verifier is
  a parameter; the network is one.
\<close>

definition NS_AGENT_TOKEN :: string where "NS_AGENT_TOKEN = ''agent_token''"
definition NS_OBO_TOKEN :: string where "NS_OBO_TOKEN = ''obo_token''"
definition NS_PKCE :: string where "NS_PKCE = ''pkce_verifier''"

definition PKCE_TTL_SECONDS :: nat where "PKCE_TTL_SECONDS = 600"
definition TOKEN_TTL_SECONDS :: nat where "TOKEN_TTL_SECONDS = DEFAULT_TTL_SECONDS"

record ('w, 'd) auth_state = "('w, 'd) store_state" +
  rand_used :: nat
  auth_log :: "string list"

text \<open>
  What the agent process runs with. \<open>ag_err\<close> is the text of an exception that a library raises
  with a text of its own.
\<close>

record ('w, 'd, 'k) agent_env =
  ag_net :: "'w net"
  ag_kv :: "'d kv_ops"
  ag_fr :: "real \<Rightarrow> string"
  ag_fp :: "string \<Rightarrow> real"
  ag_jwt :: "'k jwt_lib"
  ag_skew :: int
  ag_cfg :: agent_settings
  ag_rand :: "nat \<Rightarrow> string"
  ag_s256 :: "string \<Rightarrow> string"
  ag_err :: "exn \<Rightarrow> string"

definition token_urlsafe ::
  "('w, 'd, 'k) agent_env \<Rightarrow> (('w, 'd, 'z) auth_state_scheme, string) prog" where
  "token_urlsafe V s = (Inr (ag_rand V (rand_used s)), s\<lparr>rand_used := Suc (rand_used s)\<rparr>)"

definition log_auth :: "string \<Rightarrow> (('w, 'd, 'z) auth_state_scheme, unit) prog" where
  "log_auth line = modify (\<lambda>s. s\<lparr>auth_log := auth_log s @ [line]\<rparr>)"

subsection \<open>Numbers, indexing and membership\<close>

definition num_of :: "json \<Rightarrow> exn + real" where
  "num_of v =
     (case v of
        JInt i \<Rightarrow> Inr (of_int i)
      | JFloat r \<Rightarrow> Inr r
      | JBool b \<Rightarrow> Inr (if b then 1 else 0)
      | _ \<Rightarrow> Inl (TypeError ''unsupported operand type''))"

fun type_name :: "json \<Rightarrow> string" where
  "type_name JNull = ''NoneType''"
| "type_name (JBool _) = ''bool''"
| "type_name (JInt _) = ''int''"
| "type_name (JFloat _) = ''float''"
| "type_name (JStr _) = ''str''"
| "type_name (JList _) = ''list''"
| "type_name (JObj _) = ''dict''"

definition token_data_of :: "json \<Rightarrow> token_data" where
  "token_data_of v = (case v of JObj d \<Rightarrow> Parsed d | _ \<Rightarrow> Unknown (type_name v))"

subsection \<open>Stored tokens\<close>

definition am_reset :: "'d kv_ops \<Rightarrow> (('w, 'd, 'z) store_state_scheme, unit) prog" where
  "am_reset K = for_each (clear_kv K) [NS_AGENT_TOKEN, NS_OBO_TOKEN, NS_PKCE]"

definition token_entry :: "real \<Rightarrow> json \<Rightarrow> json \<Rightarrow> exn + json" where
  "token_entry now token expires_in =
     bind_res (num_of expires_in) (\<lambda>n.
       Inr (JObj [(''token'', token), (''expires_at'', JFloat (now + n - 60))]))"

definition live_entry :: "real \<Rightarrow> json \<Rightarrow> exn + json" where
  "live_entry now entry =
     (if \<not> truthy entry then Inr JNull
      else bind_res (as_obj entry) (\<lambda>d.
           bind_res (num_of (get_or d ''expires_at'' (JInt 0))) (\<lambda>e.
             Inr (if e < now then JNull else opt_json (dict_get d ''token'')))))"

definition live_token :: "'d kv_ops \<Rightarrow> string \<Rightarrow> string \<Rightarrow> (('w, 'd, 'z) store_state_scheme, json) prog" where
  "live_token K ns key =
     andthen (fetch_kv K ns key) (\<lambda>entry.
     andthen (asks wall) (\<lambda>now. lift_res (live_entry now entry)))"

definition oauth_base :: "('w, 'd, 'k) agent_env \<Rightarrow> string" where
  "oauth_base V = ag_is_base_url (ag_cfg V) @ ag_tenant_path (ag_cfg V)"

subsection \<open>The agent's own token\<close>

text \<open>\<open>_http_post\<close> and the decoding of its answer.\<close>

definition http_post_json ::
  "('w, 'd, 'k) agent_env \<Rightarrow> request \<Rightarrow> (('w, 'd, 'z) auth_state_scheme, json) prog" where
  "http_post_json V q = andthen (send (ag_net V) q) (\<lambda>r. lift_res (json_of r))"

text \<open>The loop that picks the authenticator, with its \<open>break\<close>.\<close>

fun pick_authenticator :: "json list \<Rightarrow> exn + json" where
  "pick_authenticator [] = Inr (JStr '''')"
| "pick_authenticator (a # as) =
     bind_res (as_obj a) (\<lambda>d.
       if dict_get d ''authenticator'' = Some (JStr ''Username & Password'')
       then item a ''authenticatorId'' else pick_authenticator as)"

definition choose_authenticator :: "json list \<Rightarrow> exn + json" where
  "choose_authenticator auths =
     bind_res (pick_authenticator auths) (\<lambda>i.
       if \<not> truthy i \<and> auths \<noteq> [] then item (hd auths) ''authenticatorId'' else Inr i)"

definition init_agent_auth_flow ::
  "('w, 'd, 'k) agent_env \<Rightarrow> string \<Rightarrow> (('w, 'd, 'z) auth_state_scheme, json \<times> json) prog" where
  "init_agent_auth_flow V code_challenge =
     andthen (http_post_json V (post_form (oauth_base V @ ''/oauth2/authorize'') []
        [(''client_id'', ag_client_id (ag_cfg V)), (''client_secret'', ag_client_secret (ag_cfg V)),
         (''response_type'', ''code''), (''redirect_uri'', ag_redirect_uri (ag_cfg V)),
         (''scope'', ''openid create_meeting_agent list_meetings_agent update_meeting_agent delete_meeting_agent''),
         (''response_mode'', ''direct''), (''code_challenge'', code_challenge),
         (''code_challenge_method'', ''S256'')])) (\<lambda>flow_data.
     andthen (lift_res (as_obj flow_data)) (\<lambda>d.
       (let flow_id = opt_json (dict_get d ''flowId'')
        in if \<not> truthy flow_id then
             andthen (log_auth (''No flowId in authorize response: '' @ py_str (ag_fr V) flow_data)) (\<lambda>_.
               raise (ValueError (''Agent auth failed at authorize step: '' @ py_str (ag_fr V) flow_data)))
           else
             andthen (lift_res (as_obj (get_or d ''nextStep'' (JObj [])))) (\<lambda>next_step.
             andthen (lift_res (py_list (get_or next_step ''authenticators'' (JList [])))) (\<lambda>auths.
             andthen (lift_res (choose_authenticator auths)) (\<lambda>i. ret (flow_id, i)))))))"

definition submit_agent_credentials ::
  "('w, 'd, 'k) agent_env \<Rightarrow> json \<Rightarrow> json \<Rightarrow> json \<Rightarrow> json \<Rightarrow> (('w, 'd, 'z) auth_state_scheme, json) prog" where
  "submit_agent_credentials V flow_id authenticator_id agent_id agent_secret =
     andthen (http_post_json V (with_json ''POST'' (oauth_base V @ ''/oauth2/authn'') []
        (JObj [(''flowId'', flow_id),
               (''selectedAuthenticator'', JObj
                  [(''authenticatorId'', authenticator_id),
                   (''params'', JObj [(''username'', agent_id), (''password'', agent_secret)])])]))) (\<lambda>authn_data.
     andthen (lift_res (as_obj authn_data)) (\<lambda>d.
     andthen (lift_res (as_obj (get_or d ''authData'' (JObj [])))) (\<lambda>auth_data.
       (let code = or_else (or_else (get_or auth_data ''code'' (JStr '''')) (get_or d ''code'' (JStr '''')))
                     (get_or d ''authorizationCode'' (JStr ''''))
        in if \<not> truthy code then
             andthen (log_auth (''No authorization code in authn response: '' @ py_str (ag_fr V) authn_data)) (\<lambda>_.
               raise (ValueError (''Agent auth failed at authn step: '' @ py_str (ag_fr V) authn_data)))
           else ret code))))"

text \<open>
  The end of both token exchanges: the access token and its lifetime, or the logged error and
  the exception.
\<close>

definition token_answer_of ::
  "('w, 'd, 'k) agent_env \<Rightarrow> string \<Rightarrow> string option \<Rightarrow> string \<Rightarrow> string \<Rightarrow> json
     \<Rightarrow> (('w, 'd, 'z) auth_state_scheme, json \<times> json) prog" where
  "token_answer_of V grant thread_id pre err token_data =
     andthen (lift_res (key_in ''access_token'' token_data)) (\<lambda>present.
       if \<not> present then
         andthen (log_auth (log_token_error (ag_fr V) grant (token_data_of token_data) thread_id pre)) (\<lambda>_.
           raise (ValueError (err @ py_str (ag_fr V) token_data)))
       else
         andthen (lift_res (item token_data ''access_token'')) (\<lambda>tok.
         andthen (lift_res (as_obj token_data)) (\<lambda>d. ret (tok, get_or d ''expires_in'' (JInt 3600)))))"

definition exchange_code_for_agent_token ::
  "('w, 'd, 'k) agent_env \<Rightarrow> json \<Rightarrow> string \<Rightarrow> (('w, 'd, 'z) auth_state_scheme, json \<times> json) prog" where
  "exchange_code_for_agent_token V code code_verifier =
     andthen (http_post_json V (post_form (oauth_base V @ ''/oauth2/token'') []
        [(''grant_type'', ''authorization_code''), (''client_id'', ag_client_id (ag_cfg V)),
         (''client_secret'', ag_client_secret (ag_cfg V)), (''code'', py_str (ag_fr V) code),
         (''code_verifier'', code_verifier), (''redirect_uri'', ag_redirect_uri (ag_cfg V))]))
       (token_answer_of V ''authorization_code'' None ''Agent token exchange failed''
          ''Agent auth failed at token exchange: '')"

definition store_entry ::
  "('w, 'd, 'k) agent_env \<Rightarrow> string \<Rightarrow> string \<Rightarrow> json \<Rightarrow> json \<Rightarrow> (('w, 'd, 'z) auth_state_scheme, unit) prog" where
  "store_entry V ns key token expires_in =
     andthen (asks wall) (\<lambda>now.
     andthen (lift_res (token_entry now token expires_in)) (\<lambda>entry.
       put_kv (ag_kv V) ns key entry TOKEN_TTL_SECONDS))"

definition store_agent_token ::
  "('w, 'd, 'k) agent_env \<Rightarrow> json \<Rightarrow> json \<Rightarrow> string \<Rightarrow> (('w, 'd, 'z) auth_state_scheme, unit) prog" where
  "store_agent_token V token expires_in thread_id =
     store_entry V NS_AGENT_TOKEN (if thread_id \<noteq> [] then thread_id else ''_default'') token expires_in"

definition fetch_agent_token ::
  "('w, 'd, 'k) agent_env \<Rightarrow> json \<Rightarrow> json \<Rightarrow> string \<Rightarrow> (('w, 'd, 'z) auth_state_scheme, json) prog" where
  "fetch_agent_token V agent_id agent_secret thread_id =
     (if \<not> truthy agent_id then raise (ValueError ''agent_id is required'')
      else if \<not> truthy agent_secret then raise (ValueError ''agent_secret is required'')
      else
        andthen (token_urlsafe V) (\<lambda>code_verifier.
        andthen (init_agent_auth_flow V (ag_s256 V code_verifier)) (\<lambda>(flow_id, authenticator_id).
        andthen (submit_agent_credentials V flow_id authenticator_id agent_id agent_secret) (\<lambda>code.
        andthen (exchange_code_for_agent_token V code code_verifier) (\<lambda>(token, expires_in).
        andthen (store_agent_token V token expires_in thread_id) (\<lambda>_. ret token))))))"

subsection \<open>The OBO token\<close>

definition clear_obo_tokens :: "'d kv_ops \<Rightarrow> string \<Rightarrow> (('w, 'd, 'z) store_state_scheme, unit) prog" where
  "clear_obo_tokens K thread_id =
     andthen (delete_kv K NS_OBO_TOKEN thread_id) (\<lambda>_. delete_kv K NS_AGENT_TOKEN thread_id)"

definition get_obo_authorization_url :: "('w, 'd, 'k) agent_env \<Rightarrow> string \<Rightarrow> string \<Rightarrow> string" where
  "get_obo_authorization_url V thread_id action =
     ag_service_url (ag_cfg V) @ ''/authorize?thread_id='' @ thread_id @ ''&action='' @ action"

definition authorize_params ::
  "('w, 'd, 'k) agent_env \<Rightarrow> string list \<Rightarrow> string \<Rightarrow> string \<Rightarrow> string \<Rightarrow> (string \<times> string) list" where
  "authorize_params V scope_names code_challenge state_token agent_id =
     [(''client_id'', ag_client_id (ag_cfg V)), (''response_type'', ''code''),
      (''redirect_uri'', ag_redirect_uri (ag_cfg V)), (''scope'', join_str '' '' scope_names),
      (''code_challenge'', code_challenge), (''code_challenge_method'', ''S256''),
      (''state'', state_token), (''requested_actor'', agent_id)]"

definition get_real_wso2_authorization_url ::
  "('w, 'd, 'k) agent_env \<Rightarrow> string \<Rightarrow> string list \<Rightarrow> string \<Rightarrow> json
     \<Rightarrow> (('w, 'd, 'z) auth_state_scheme, string) prog" where
  "get_real_wso2_authorization_url V thread_id scope_names state_token agent_id =
     (if \<not> truthy agent_id then raise (ValueError ''agent_id is required'')
      else
        andthen (clear_obo_tokens (ag_kv V) thread_id) (\<lambda>_.
        andthen (token_urlsafe V) (\<lambda>code_verifier.
        andthen (put_kv (ag_kv V) NS_PKCE thread_id (JStr code_verifier) PKCE_TTL_SECONDS) (\<lambda>_.
          ret (oauth_base V @ ''/oauth2/authorize?'' @
            urlencode (authorize_params V scope_names (ag_s256 V code_verifier) state_token
              (py_str (ag_fr V) agent_id)))))))"

definition obo_form ::
  "('w, 'd, 'k) agent_env \<Rightarrow> string \<Rightarrow> json \<Rightarrow> json \<Rightarrow> (string \<times> string) list" where
  "obo_form V code code_verifier agent_token =
     [(''grant_type'', ''authorization_code''), (''client_id'', ag_client_id (ag_cfg V)),
      (''client_secret'', ag_client_secret (ag_cfg V)), (''code'', code),
      (''code_verifier'', py_str (ag_fr V) code_verifier), (''redirect_uri'', ag_redirect_uri (ag_cfg V)),
      (''actor_token'', py_str (ag_fr V) agent_token),
      (''actor_token_type'', ''urn:ietf:params:oauth:token-type:jwt'')]"

text \<open>The request with the code and the verifier, and what is done with its answer.\<close>

definition obo_request ::
  "('w, 'd, 'k) agent_env \<Rightarrow> string \<Rightarrow> json \<Rightarrow> json \<Rightarrow> request" where
  "obo_request V code code_verifier agent_token =
     post_form (oauth_base V @ ''/oauth2/token'') [] (obo_form V code (or_else code_verifier (JStr [])) agent_token)"

definition note_verifier :: "string \<Rightarrow> json \<Rightarrow> (('w, 'd, 'z) auth_state_scheme, unit) prog" where
  "note_verifier thread_id code_verifier =
     (if truthy code_verifier then ret ()
      else log_auth (''No PKCE code_verifier found for thread='' @ thread_id))"

definition store_obo_answer ::
  "('w, 'd, 'k) agent_env \<Rightarrow> string \<Rightarrow> json \<Rightarrow> (('w, 'd, 'z) auth_state_scheme, json) prog" where
  "store_obo_answer V thread_id token_data =
     andthen (token_answer_of V ''urn:ietf:params:oauth:grant-type:token-exchange'' (Some thread_id)
       ''OBO token exchange failed'' ''OBO token exchange failed: '' token_data) (\<lambda>(token, expires_in).
     andthen (store_entry V NS_OBO_TOKEN thread_id token expires_in) (\<lambda>_. ret token))"

definition exchange_obo_code ::
  "('w, 'd, 'k) agent_env \<Rightarrow> string \<Rightarrow> string \<Rightarrow> json \<Rightarrow> json \<Rightarrow> (('w, 'd, 'z) auth_state_scheme, json) prog" where
  "exchange_obo_code V thread_id code agent_id agent_secret =
     andthen (fetch_agent_token V agent_id agent_secret thread_id) (\<lambda>agent_token.
     andthen (fetch_kv (ag_kv V) NS_PKCE thread_id) (\<lambda>v.
     andthen (delete_kv (ag_kv V) NS_PKCE thread_id) (\<lambda>_.
     andthen (note_verifier thread_id v) (\<lambda>_.
     andthen (http_post_json V (obo_request V code v agent_token)) (store_obo_answer V thread_id)))))"

definition get_agent_jwt_raw :: "'d kv_ops \<Rightarrow> string \<Rightarrow> (('w, 'd, 'z) store_state_scheme, json) prog" where
  "get_agent_jwt_raw K thread_id =
     andthen (live_token K NS_AGENT_TOKEN (if thread_id \<noteq> [] then thread_id else ''_default'')) (\<lambda>token.
       if token = JNull \<and> thread_id \<noteq> [] then live_token K NS_AGENT_TOKEN ''_default'' else ret token)"

definition get_obo_token :: "'d kv_ops \<Rightarrow> string \<Rightarrow> (('w, 'd, 'z) store_state_scheme, json) prog" where
  "get_obo_token K thread_id = live_token K NS_OBO_TOKEN thread_id"

definition get_obo_jwt_raw :: "'d kv_ops \<Rightarrow> string \<Rightarrow> (('w, 'd, 'z) store_state_scheme, json) prog" where
  "get_obo_jwt_raw K thread_id = live_token K NS_OBO_TOKEN thread_id"

subsection \<open>What the steps leave alone\<close>

lemma wf_auth_namespaces [simp]: "wf_ns NS_AGENT_TOKEN" "wf_ns NS_OBO_TOKEN" "wf_ns NS_PKCE"
  by (simp_all add: wf_ns_def NS_AGENT_TOKEN_def NS_OBO_TOKEN_def NS_PKCE_def)

lemma ns_other:
  "NS_PENDING \<noteq> NS_STATE" "NS_STATE \<noteq> NS_PENDING" "NS_PENDING \<noteq> NS_OBO_TOKEN" "NS_OBO_TOKEN \<noteq> NS_PENDING"
  "NS_PENDING \<noteq> NS_AGENT_TOKEN" "NS_AGENT_TOKEN \<noteq> NS_PENDING"
  by (simp_all add: NS_PENDING_def NS_STATE_def NS_OBO_TOKEN_def NS_AGENT_TOKEN_def)

lemma ns_distinct [simp]:
  "NS_AGENT_TOKEN \<noteq> NS_PKCE" "NS_OBO_TOKEN \<noteq> NS_PKCE" "NS_PKCE \<noteq> NS_AGENT_TOKEN" "NS_PKCE \<noteq> NS_OBO_TOKEN"
  "NS_AGENT_TOKEN \<noteq> NS_OBO_TOKEN" "NS_OBO_TOKEN \<noteq> NS_AGENT_TOKEN"
  "NS_STATE \<noteq> NS_PKCE" "NS_STATE \<noteq> NS_OBO_TOKEN" "NS_STATE \<noteq> NS_AGENT_TOKEN"
  "NS_PKCE \<noteq> NS_STATE" "NS_OBO_TOKEN \<noteq> NS_STATE" "NS_AGENT_TOKEN \<noteq> NS_STATE"
  by (simp_all add: NS_AGENT_TOKEN_def NS_OBO_TOKEN_def NS_PKCE_def NS_STATE_def)

lemma send_store: "store (snd (send net q s)) = store s"
  by (simp add: send_def split: prod.splits)

text \<open>
  At the times of \<open>T\<close> from now on a read of this entry finds \<open>v\<close>; time passing and writes
  elsewhere keep that. \<open>gone\<close>: a read never finds anything again.
\<close>

definition held ::
  "('d \<Rightarrow> real \<Rightarrow> string \<Rightarrow> string \<Rightarrow> json) \<Rightarrow> string \<Rightarrow> string \<Rightarrow> json \<Rightarrow> real set
     \<Rightarrow> ('w, 'd, 'z) store_state_scheme \<Rightarrow> bool" where
  "held view ns k v T s \<longleftrightarrow> (\<forall>now \<in> T. mono s \<le> now \<longrightarrow> view (store s) now ns k = v)"

abbreviation gone ::
  "('d \<Rightarrow> real \<Rightarrow> string \<Rightarrow> string \<Rightarrow> json) \<Rightarrow> string \<Rightarrow> string \<Rightarrow> ('w, 'd, 'z) store_state_scheme \<Rightarrow> bool" where
  "gone view ns k \<equiv> held view ns k JNull UNIV"

lemma held_send: "net_causal net \<Longrightarrow> stable (held view ns k v T) (send net q)"
  by (rule stableI) (auto simp: held_def send_store intro: order_trans [OF send_mono])

lemma held_log: "stable (held view ns k v T) (log_auth line)"
  unfolding log_auth_def by (rule stable_modify) (simp add: held_def)

lemma held_random: "stable (held view ns k v T) (token_urlsafe V)"
  by (rule stableI) (simp add: token_urlsafe_def held_def)

lemma held_post: "net_causal (ag_net V) \<Longrightarrow> stable (held view ns k v T) (http_post_json V q)"
  unfolding http_post_json_def by (intro stable_andthen held_send stable_basic)

lemma held_token_answer: "stable (held view ns k v T) (token_answer_of V g i p e j)"
  unfolding token_answer_of_def by (intro stable_andthen stable_if held_log stable_basic)

lemma held_after_reads: "after_reads view s t \<Longrightarrow> held view ns k v T s \<Longrightarrow> held view ns k v T t"
  using after_readsD(1,2) [of view s t] by (auto simp: held_def)

context kv_store
begin

lemma held_put:
  "wf_ns ns \<Longrightarrow> wf_ns ns' \<Longrightarrow> ns' \<noteq> ns \<or> k' \<noteq> k \<Longrightarrow>
   stable (held view ns' k' w T) (put_kv K ns k v ttl)"
  unfolding put_kv_def by (rule stable_modify) (auto simp: held_def set_other)

lemma held_delete:
  "wf_ns ns \<Longrightarrow> wf_ns ns' \<Longrightarrow> ns' \<noteq> ns \<or> k' \<noteq> k \<Longrightarrow> stable (held view ns' k' w T) (delete_kv K ns k)"
  unfolding delete_kv_def by (rule stable_modify) (auto simp: held_def delete_view)

lemma held_fetch: "stable (held view ns' k' w T) (fetch_kv K ns k)"
proof (rule stableI)
  fix s
  assume h: "held view ns' k' w T s"
  obtain t where "fetch_kv K ns k s = (Inr (seen view s ns k), t)" "after_reads view s t"
    by (rule readsE [OF reads_fetch])
  then show "held view ns' k' w T (snd (fetch_kv K ns k s))" using held_after_reads h by auto
qed

lemma gone_after_delete: "wf_ns ns \<Longrightarrow> gone view ns k (snd (delete_kv K ns k s))"
  by (simp add: held_def delete_kv_def delete_view)

lemma held_seen: "held view ns k v T s \<Longrightarrow> mono s \<in> T \<Longrightarrow> seen view s ns k = v"
  by (simp add: held_def seen_def)

lemma held_put_same:
  "wf_ns ns \<Longrightarrow> storable v \<Longrightarrow> 0 \<le> mono s \<Longrightarrow>
   held view ns k v {..< mono s + real ttl} (snd (put_kv K ns k v ttl s))"
  by (auto simp: held_def put_kv_def set_same)

end

lemma held_store_entry:
  "kv_store (ag_kv V) view storable \<Longrightarrow> wf_ns ns \<Longrightarrow> wf_ns ns' \<Longrightarrow> ns' \<noteq> ns \<Longrightarrow>
   stable (held view ns' k' v T) (store_entry V ns k tok ex)"
  unfolding store_entry_def
  by (intro stable_andthen stable_basic) (rule kv_store.held_put, auto)

lemma held_fetch_agent_token:
  assumes "kv_store (ag_kv V) view storable" and "net_causal (ag_net V)" and "wf_ns ns" and "ns \<noteq> NS_AGENT_TOKEN"
  shows "stable (held view ns k v T) (fetch_agent_token V aid sec th)"
  unfolding fetch_agent_token_def init_agent_auth_flow_def submit_agent_credentials_def
    exchange_code_for_agent_token_def store_agent_token_def Let_def
  using assms
  by (intro stable_andthen stable_if stable_prod stable_basic held_log held_post held_random
      held_token_answer held_store_entry) simp_all

text \<open>
  The exchange of an OBO code: the agent token first, then the verifier is read and removed,
  whatever happens after.
\<close>

definition after_verifier ::
  "('w, 'd, 'k) agent_env \<Rightarrow> string \<Rightarrow> string \<Rightarrow> json \<Rightarrow> json \<Rightarrow> (('w, 'd, 'z) auth_state_scheme, json) prog" where
  "after_verifier V thread_id code agent_token v =
     andthen (note_verifier thread_id v) (\<lambda>_.
     andthen (http_post_json V (obo_request V code v agent_token)) (store_obo_answer V thread_id))"

lemma exchange_obo_code_steps:
  "exchange_obo_code V thread_id code agent_id agent_secret =
     andthen (fetch_agent_token V agent_id agent_secret thread_id) (\<lambda>agent_token.
     andthen (fetch_kv (ag_kv V) NS_PKCE thread_id) (\<lambda>v.
     andthen (delete_kv (ag_kv V) NS_PKCE thread_id) (\<lambda>_. after_verifier V thread_id code agent_token v)))"
  unfolding exchange_obo_code_def after_verifier_def ..

lemma gone_after_verifier:
  "kv_store (ag_kv V) view storable \<Longrightarrow> net_causal (ag_net V) \<Longrightarrow>
   stable (held view NS_PKCE k' w T) (after_verifier V k code tok v)"
  unfolding after_verifier_def note_verifier_def store_obo_answer_def
  by (intro stable_andthen stable_if stable_prod stable_basic held_log held_post held_token_answer
      held_store_entry) simp_all

text \<open>One request leaves in this part: the one to the token endpoint.\<close>

lemma stable_token_answer_sent: "stable (\<lambda>s. sent s = qs) (token_answer_of V g i p e j)"
  unfolding token_answer_of_def log_auth_def
  by (intro stable_andthen stable_if stable_basic stable_modify) simp_all

lemma stable_store_entry_sent: "stable (\<lambda>s. sent s = qs) (store_entry V ns k tok ex)"
  unfolding store_entry_def put_kv_def by (intro stable_andthen stable_basic stable_modify) simp_all

lemma stable_store_answer_sent: "stable (\<lambda>s. sent s = qs) (store_obo_answer V k j)"
  unfolding store_obo_answer_def
  by (intro stable_andthen stable_prod stable_basic stable_token_answer_sent stable_store_entry_sent)

lemma post_json_sent: "sent (snd (http_post_json V q s)) = sent s @ [q]"
proof -
  obtain a s1 where s1: "send (ag_net V) q s = (a, s1)" by (cases "send (ag_net V) q s")
  have "sent s1 = sent s @ [q]" using send_sent [of "ag_net V" q s] s1 by simp
  then show ?thesis by (cases a) (simp_all add: http_post_json_def andthen_def s1 lift_res_def)
qed

lemma note_verifier_run:
  obtains s1 where "note_verifier k v s = (Inr (), s1)" and "s1 = s \<or> (\<exists>l. s1 = s\<lparr>auth_log := l\<rparr>)"
  by (cases "truthy v") (auto simp: note_verifier_def log_auth_def)

lemma after_verifier_sent:
  assumes run: "after_verifier V k code tok v s = (r, t)"
  shows "sent t = sent s @ [obo_request V code v tok]"
proof -
  obtain s1 where s1: "note_verifier k v s = (Inr (), s1)" "s1 = s \<or> (\<exists>l. s1 = s\<lparr>auth_log := l\<rparr>)"
    by (rule note_verifier_run)
  obtain a s2 where s2: "http_post_json V (obo_request V code v tok) s1 = (a, s2)"
    by (cases "http_post_json V (obo_request V code v tok) s1")
  have "sent s2 = sent s @ [obo_request V code v tok]"
    using post_json_sent [of V "obo_request V code v tok" s1] s1(2) s2 by auto
  moreover have "(r, t) = (case a of Inl e \<Rightarrow> (Inl e, s2) | Inr j \<Rightarrow> store_obo_answer V k j s2)"
    using run by (simp add: after_verifier_def andthen_def s1(1) s2)
  ultimately show ?thesis
  proof (cases a)
    case (Inr j)
    then have "store_obo_answer V k j s2 = (r, t)"
      using \<open>(r, t) = (case a of Inl e \<Rightarrow> (Inl e, s2) | Inr j \<Rightarrow> store_obo_answer V k j s2)\<close> by simp
    then show ?thesis
      by (rule stableD [OF stable_store_answer_sent, rotated]) (rule \<open>sent s2 = _\<close>)
  qed simp
qed

lemma exchange_consumes_verifier:
  assumes K: "kv_store (ag_kv V) view storable" and net: "net_causal (ag_net V)"
    and run: "exchange_obo_code V k code aid sec s = (r, t)"
    and agent: "fetch_agent_token V aid sec k s = (Inr tok, s1)"
  shows "gone view NS_PKCE k t"
    and "\<exists>s2. after_verifier V k code tok (seen view s1 NS_PKCE k) s2 = (r, t) \<and> sent s2 = sent s1 \<and>
      world s2 = world s1 \<and> wall s2 = wall s1 \<and> mono s2 = mono s1"
proof -
  obtain s2 where s2: "fetch_kv (ag_kv V) NS_PKCE k s1 = (Inr (seen view s1 NS_PKCE k), s2)"
    "after_reads view s1 s2"
    by (rule readsE [OF kv_store.reads_fetch [OF K]])
  obtain s3 where s3: "delete_kv (ag_kv V) NS_PKCE k s2 = (Inr (), s3)"
    by (simp add: delete_kv_def)
  have "gone view NS_PKCE k s3"
    using kv_store.gone_after_delete [OF K, of NS_PKCE k s2] s3 by simp
  moreover have rest: "after_verifier V k code tok (seen view s1 NS_PKCE k) s3 = (r, t)"
    using run by (simp add: exchange_obo_code_steps andthen_def agent s2 s3)
  ultimately show "gone view NS_PKCE k t"
    using stableD [OF gone_after_verifier [OF K net]] by blast
  have "sent s3 = sent s1 \<and> world s3 = world s1 \<and> wall s3 = wall s1 \<and> mono s3 = mono s1"
    using s2(2) s3 by (auto simp: after_reads_def delete_kv_def)
  then show "\<exists>s2. after_verifier V k code tok (seen view s1 NS_PKCE k) s2 = (r, t) \<and> sent s2 = sent s1 \<and>
      world s2 = world s1 \<and> wall s2 = wall s1 \<and> mono s2 = mono s1"
    using rest by blast
qed

subsection \<open>The verifier of a consent\<close>

lemma clear_obo_tokens_run:
  obtains t where "clear_obo_tokens K k s = (Inr (), t)" "mono t = mono s" "wall t = wall s"
    "rand_used t = rand_used (s :: ('w, 'd, 'z) auth_state_scheme)" "sent t = sent s"
  by (simp add: clear_obo_tokens_def delete_kv_def)

lemma authorization_url_run:
  assumes "get_real_wso2_authorization_url V k scopes st (JStr aid) s = (r, t)" and "aid \<noteq> []"
  shows "r = Inr (oauth_base V @ ''/oauth2/authorize?'' @
      urlencode (authorize_params V scopes (ag_s256 V (ag_rand V (rand_used s))) st aid)) \<and>
    (\<exists>u. mono u = mono s \<and> mono t = mono s \<and> sent t = sent s \<and>
      t = snd (put_kv (ag_kv V) NS_PKCE k (JStr (ag_rand V (rand_used s))) PKCE_TTL_SECONDS u))"
proof -
  obtain u where u: "clear_obo_tokens (ag_kv V) k s = (Inr (), u)" "mono u = mono s" "wall u = wall s"
    "rand_used u = rand_used s" "sent u = sent s"
    by (rule clear_obo_tokens_run)
  show ?thesis
    using assms u
    by (auto simp: get_real_wso2_authorization_url_def andthen_def token_urlsafe_def put_kv_def
        intro!: exI [of _ "u\<lparr>rand_used := Suc (rand_used u)\<rparr>"])
qed

text \<open>
  C7: a consent sends the verifier it was started with, once. The URL that \<open>/authorize\<close> hands
  to the browser carries the S256 challenge of a fresh random verifier; if the agent's own token
  is obtained within 600 seconds, the one further request of the code exchange is the form with
  that verifier, the code and the agent token as actor; and whatever the answer, the verifier
  is never found in the store again.
\<close>

theorem pkce_verifier_bound_and_single_use:
  assumes "json_store (ag_kv V) view storable" and "net_causal (ag_net V)" and "0 \<le> mono s"
    and "aid \<noteq> []" and "get_real_wso2_authorization_url V k scopes st (JStr aid) s = (u, s1)"
    and "fetch_agent_token V cid sec k s1 = (Inr tok, s2)" and "mono s2 < mono s1 + 600"
    and "exchange_obo_code V k code cid sec s1 = (r, t)"
  shows "u = Inr (oauth_base V @ ''/oauth2/authorize?'' @
      urlencode (authorize_params V scopes (ag_s256 V (ag_rand V (rand_used s))) st aid)) \<and>
    sent t = sent s2 @ [obo_request V code (JStr (ag_rand V (rand_used s))) tok] \<and>
    (\<forall>now \<ge> mono t. view (store t) now NS_PKCE k = JNull)"
proof -
  have K: "kv_store (ag_kv V) view storable"
    using assms(1) by (simp add: json_store_def)
  let ?v = "JStr (ag_rand V (rand_used s))"
  obtain w where w: "mono w = mono s" "mono s1 = mono s"
    "s1 = snd (put_kv (ag_kv V) NS_PKCE k ?v PKCE_TTL_SECONDS w)"
    using authorization_url_run [OF assms(5,4)] by blast
  have "held view NS_PKCE k ?v {..< mono w + real PKCE_TTL_SECONDS} s1"
    unfolding w(3) using w(1) assms(3)
    by (intro kv_store.held_put_same [OF K] json_store.storable_str [OF assms(1)]) simp_all
  then have "held view NS_PKCE k ?v {..< mono w + real PKCE_TTL_SECONDS} s2"
    by (rule stableD [OF held_fetch_agent_token [OF K assms(2)], rotated 2, OF _ assms(6)]) simp_all
  then have seen: "seen view s2 NS_PKCE k = ?v"
    using assms(7) w by (intro kv_store.held_seen [OF K]) (auto simp: PKCE_TTL_SECONDS_def)
  obtain s3 where s3: "after_verifier V k code tok ?v s3 = (r, t)" "sent s3 = sent s2"
    using exchange_consumes_verifier(2) [OF K assms(2,8,6)] seen by metis
  have "gone view NS_PKCE k t"
    by (rule exchange_consumes_verifier(1) [OF K assms(2,8,6)])
  then show ?thesis
    using authorization_url_run [OF assms(5,4)] after_verifier_sent [OF s3(1)] s3(2)
    by (auto simp: held_def)
qed

subsection \<open>How long a stored token is handed out\<close>

text \<open>The two clocks of the process moved on.\<close>

definition at_clock :: "real \<Rightarrow> real \<Rightarrow> ('w, 'd, 'z) store_state_scheme \<Rightarrow> ('w, 'd, 'z) store_state_scheme" where
  "at_clock w m s = s\<lparr>wall := w, mono := m\<rparr>"

lemma at_clock_fields [simp]:
  "store (at_clock w m s) = store s" "mono (at_clock w m s) = m" "wall (at_clock w m s) = w"
  by (simp_all add: at_clock_def)

definition entry_of :: "json \<Rightarrow> real \<Rightarrow> json" where
  "entry_of tok e = JObj [(''token'', tok), (''expires_at'', JFloat e)]"

lemma token_entry_run: "num_of ex = Inr n \<Longrightarrow> token_entry now tok ex = Inr (entry_of tok (now + n - 60))"
  by (simp add: token_entry_def entry_of_def)

lemma live_entry_run: "live_entry now (entry_of tok e) = Inr (if e < now then JNull else tok)"
  by (simp add: live_entry_def entry_of_def as_obj_def num_of_def get_or_def opt_json_def)

context kv_store
begin

lemma live_token_run:
  assumes "seen view s ns k = entry_of tok e"
  shows "fst (live_token K ns k s) = Inr (if e < wall s then JNull else tok)"
proof -
  obtain t where t: "fetch_kv K ns k s = (Inr (seen view s ns k), t)" "after_reads view s t"
    by (rule readsE [OF reads_fetch])
  have "wall t = wall s" using t(2) by (auto simp: after_reads_def)
  then show ?thesis using assms t(1) by (simp add: live_token_def andthen_def live_entry_run)
qed

lemma live_token_exec:
  obtains t where "live_token K ns k s = (live_entry (wall s) (seen view s ns k), t)" "after_reads view s t"
proof -
  obtain t where t: "fetch_kv K ns k s = (Inr (seen view s ns k), t)" "after_reads view s t"
    by (rule readsE [OF reads_fetch])
  have "wall t = wall s" using t(2) by (auto simp: after_reads_def)
  then show ?thesis using t that by (simp add: live_token_def andthen_def)
qed

lemma live_token_none:
  assumes "seen view s ns k = JNull"
  shows "fst (live_token K ns k s) = Inr JNull"
proof -
  obtain t where t: "fetch_kv K ns k s = (Inr (seen view s ns k), t)" "after_reads view s t"
    by (rule readsE [OF reads_fetch])
  show ?thesis using assms t(1) by (simp add: live_token_def andthen_def live_entry_def)
qed

lemma stored_token_spec:
  assumes "wf_ns ns" and "0 \<le> mono s" and "mono s \<le> m" and "m < mono s + 86400"
    and "storable (entry_of tok e)"
    and "t = snd (put_kv K ns k (entry_of tok e) TOKEN_TTL_SECONDS s)"
  shows "fst (live_token K ns k (at_clock w m t)) = Inr (if e < w then JNull else tok)"
proof -
  have "view (store t) m ns k = entry_of tok e"
    using assms by (simp add: put_kv_def set_same TOKEN_TTL_SECONDS_def DEFAULT_TTL_SECONDS_def)
  then show ?thesis
    using live_token_run [of "at_clock w m t" ns k tok e] by (simp add: seen_def)
qed

end

text \<open>
  C8: a successful code exchange. When the token endpoint answers the last request with an
  access token, the exchange returns that token, and from then on, for the store's day, the
  thread's OBO token is that token until 60 seconds before the lifetime the endpoint gave it
  (an hour when it gave none), and nothing after that; \<open>get_obo_jwt_raw\<close> agrees.
\<close>

theorem obo_token_lives_as_long_as_granted:
  assumes "kv_store (ag_kv V) view storable" and "net_causal (ag_net V)" and "0 \<le> mono s1"
    and "fetch_agent_token V aid sec k s = (Inr agent_token, s1)"
    and "ag_net V (obo_request V code (seen view s1 NS_PKCE k) agent_token) (world s1) = (Inr answer, dt, wd)"
    and "resp_json answer = Some (JObj d)" and "dict_get d ''access_token'' = Some tok"
    and "num_of (get_or d ''expires_in'' (JInt 3600)) = Inr n"
    and "storable (JObj [(''token'', tok), (''expires_at'', JFloat (wall s1 + dt + n - 60))])"
    and "exchange_obo_code V k code aid sec s = (r, t)"
    and "mono t \<le> m" and "m < mono t + 86400"
  shows "r = Inr tok \<and> wall t = wall s1 + dt \<and>
    fst (get_obo_token (ag_kv V) k (at_clock w m t)) = Inr (if wall t + n - 60 < w then JNull else tok) \<and>
    fst (get_obo_jwt_raw (ag_kv V) k (at_clock w m t)) = fst (get_obo_token (ag_kv V) k (at_clock w m t))"
proof -
  let ?q = "obo_request V code (seen view s1 NS_PKCE k) agent_token"
  obtain s2 where s2: "after_verifier V k code agent_token (seen view s1 NS_PKCE k) s2 = (r, t)"
    "world s2 = world s1" "wall s2 = wall s1" "mono s2 = mono s1"
    using exchange_consumes_verifier(2) [OF assms(1,2,10,4)] by blast
  obtain s3 where s3: "note_verifier k (seen view s1 NS_PKCE k) s2 = (Inr (), s3)"
    "s3 = s2 \<or> (\<exists>l. s3 = s2\<lparr>auth_log := l\<rparr>)"
    by (rule note_verifier_run)
  have w3: "world s3 = world s1" "wall s3 = wall s1" "mono s3 = mono s1" using s3(2) s2 by auto
  obtain s4 where s4: "http_post_json V ?q s3 = (Inr (JObj d), s4)" "wall s4 = wall s1 + dt"
    "mono s4 = mono s1 + dt"
    using assms(5,6) w3 by (simp add: http_post_json_def andthen_def send_def json_of_def)
  have answer: "token_answer_of V g i p e (JObj d) s4 =
      (Inr (tok, get_or d ''expires_in'' (JInt 3600)), s4)" for g i p e
    using assms(7) by (simp add: token_answer_of_def key_in_def item_def as_obj_def)
  have e: "token_entry (wall s4) tok (get_or d ''expires_in'' (JInt 3600)) =
      Inr (entry_of tok (wall s1 + dt + n - 60))"
    using token_entry_run [OF assms(8), of "wall s4" tok] by (simp add: s4(2))
  let ?put = "put_kv (ag_kv V) NS_OBO_TOKEN k (entry_of tok (wall s1 + dt + n - 60)) TOKEN_TTL_SECONDS s4"
  have run: "r = Inr tok \<and> t = snd ?put"
    using s2(1) s3(1) s4(1) answer e
    by (simp add: after_verifier_def andthen_def store_obo_answer_def store_entry_def put_kv_def)
  have clocks: "wall t = wall s1 + dt" "mono t = mono s4" using run s4 by (simp_all add: put_kv_def)
  have "0 \<le> dt" using assms(2,5) unfolding net_causal_def by (metis fst_conv snd_conv)
  then have "fst (live_token (ag_kv V) NS_OBO_TOKEN k (at_clock w m t)) =
      Inr (if wall s1 + dt + n - 60 < w then JNull else tok)"
    using run assms(3,9,11,12) clocks s4(3)
    by (intro kv_store.stored_token_spec [OF assms(1)]) (auto simp: entry_of_def)
  then show ?thesis
    using run clocks by (simp add: get_obo_token_def get_obo_jwt_raw_def)
qed


subsection \<open>Witnesses\<close>

text \<open>An identity server that answers every step, a second after it was asked.\<close>

definition demo_answer :: dict where
  "demo_answer = [(''flowId'', JStr ''f''), (''code'', JStr ''c''), (''access_token'', JStr ''a''),
     (''expires_in'', JInt 300)]"

definition demo_agent_net :: "unit net" where
  "demo_agent_net q w =
     (Inr \<lparr>status = 200, resp_text = [], resp_json = Some (JObj demo_answer), resp_location = None\<rparr>, 1, ())"

definition demo_agent_settings :: agent_settings where
  "demo_agent_settings = \<lparr>ag_is_base_url = ''i'', ag_is_org_handle = ''o'', ag_tenant_override = None,
     ag_client_id = ''id'', ag_client_secret = ''cs'', ag_redirect_uri = ''r'', ag_service_url = ''s'',
     ag_business_api_url = ''b'', ag_gemini_api_key = ''k'', ag_allowed_origins = [''w''], ag_mock_llm = True,
     ag_is_verify_tls = VBool True, ag_service_verify_tls = VBool True, ag_state_signing_secret = ''x''\<rparr>"

definition demo_jwt_lib :: "unit jwt_lib" where
  "demo_jwt_lib = \<lparr>jwt_header = (\<lambda>t. Inr [(''kid'', JStr ''1'')]), jwt_from_jwk = (\<lambda>d. Inr ()),
     jwt_decode = (\<lambda>t k a au i l now. Inr []), jwt_encode_hs = (\<lambda>d k. ''e''),
     jwt_decode_hs = (\<lambda>t k a now. Inr []), jwt_decode_unverified = (\<lambda>t. Inr [])\<rparr>"

definition demo_agent :: "(unit, mem_store, unit) agent_env" where
  "demo_agent = \<lparr>ag_net = demo_agent_net, ag_kv = mem_ops, ag_fr = (\<lambda>_. ''0.0''), ag_fp = (\<lambda>_. 0),
     ag_jwt = demo_jwt_lib, ag_skew = 30, ag_cfg = demo_agent_settings, ag_rand = (\<lambda>n. replicate (n + 1) CHR ''v''),
     ag_s256 = rev, ag_err = (\<lambda>_. [])\<rparr>"

definition demo_auth :: "(unit, mem_store) auth_state" where
  "demo_auth = \<lparr>world = (), wall = 0, mono = 0, sent = [], tok_cache = Map.empty, m2m_log = [],
     store = Map.empty, rand_used = 0, auth_log = []\<rparr>"

lemma demo_agent_net_causal: "net_causal (ag_net demo_agent)"
  by (simp add: net_causal_def demo_agent_def demo_agent_net_def)

lemma demo_answer_get [simp]:
  "dict_get demo_answer ''flowId'' = Some (JStr ''f'')" "dict_get demo_answer ''code'' = Some (JStr ''c'')"
  "dict_get demo_answer ''access_token'' = Some (JStr ''a'')"
  "dict_get demo_answer ''expires_in'' = Some (JInt 300)"
  "dict_get demo_answer ''nextStep'' = None" "dict_get demo_answer ''authData'' = None"
  by (simp_all add: demo_answer_def)

lemma demo_post:
  "http_post_json demo_agent q s = (Inr (JObj demo_answer),
     s\<lparr>wall := wall s + 1, mono := mono s + 1, sent := sent s @ [q]\<rparr>)"
  by (cases s) (simp add: http_post_json_def andthen_def send_def demo_agent_def demo_agent_net_def json_of_def)

lemma demo_kv [simp]: "ag_kv demo_agent = mem_ops" by (simp add: demo_agent_def)

lemma demo_runs:
  assumes "th \<noteq> []"
  shows "\<exists>t. fetch_agent_token demo_agent (JStr ''ag'') (JStr ''se'') th s = (Inr (JStr ''a''), t) \<and>
     world t = world s \<and> wall t = wall s + 3 \<and> mono t = mono s + 3 \<and>
     store t = kv_set mem_ops (3 + mono s) NS_AGENT_TOKEN th
       (entry_of (JStr ''a'') (wall s + 3 + 300 - 60)) TOKEN_TTL_SECONDS (store s)"
  using assms
  by (simp add: fetch_agent_token_def andthen_def token_urlsafe_def init_agent_auth_flow_def submit_agent_credentials_def
   exchange_code_for_agent_token_def demo_post as_obj_def get_or_def opt_json_def py_list_def choose_authenticator_def or_else_def
   token_answer_of_def key_in_def item_def store_agent_token_def store_entry_def token_entry_def num_of_def entry_of_def put_kv_def)

theorem pkce_verifier_bound_and_single_use_witness:
  "\<exists>s1 s2 r t. get_real_wso2_authorization_url demo_agent ''t'' [''openid''] ''st'' (JStr ''ag'') demo_auth =
      (Inr (oauth_base demo_agent @ ''/oauth2/authorize?'' @
         urlencode (authorize_params demo_agent [''openid''] ''v'' ''st'' ''ag'')), s1) \<and>
    fetch_agent_token demo_agent (JStr ''ag'') (JStr ''se'') ''t'' s1 = (Inr (JStr ''a''), s2) \<and>
    exchange_obo_code demo_agent ''t'' ''c'' (JStr ''ag'') (JStr ''se'') s1 = (r, t) \<and>
    sent t = sent s2 @ [obo_request demo_agent ''c'' (JStr ''v'') (JStr ''a'')]"
proof -
  obtain u s1 where 1: "get_real_wso2_authorization_url demo_agent ''t'' [''openid''] ''st'' (JStr ''ag'') demo_auth = (u, s1)"
    by fastforce
  obtain s2 where 2: "fetch_agent_token demo_agent (JStr ''ag'') (JStr ''se'') ''t'' s1 = (Inr (JStr ''a''), s2)"
    "mono s2 < mono s1 + 600"
    using demo_runs [of "''t''" s1] by auto
  obtain r t where 3: "exchange_obo_code demo_agent ''t'' ''c'' (JStr ''ag'') (JStr ''se'') s1 = (r, t)"
    by fastforce
  have "json_store (ag_kv demo_agent) mem_view (\<lambda>_. True)" by (simp add: mem_json.json_store_axioms)
  note C = pkce_verifier_bound_and_single_use [OF this demo_agent_net_causal _ _ 1 2 3]
  have "ag_rand demo_agent (rand_used demo_auth) = ''v''" "ag_s256 demo_agent ''v'' = ''v''"
    by (simp_all add: demo_agent_def demo_auth_def)
  then show ?thesis using C 1 2(1) 3 by (auto simp: demo_auth_def)
qed

theorem obo_token_lives_as_long_as_granted_witness:
  "\<exists>t. exchange_obo_code demo_agent ''t'' ''c'' (JStr ''ag'') (JStr ''se'') demo_auth = (Inr (JStr ''a''), t) \<and>
    fst (get_obo_token mem_ops ''t'' (at_clock (wall t + 240) (mono t + 240) t)) = Inr (JStr ''a'') \<and>
    fst (get_obo_token mem_ops ''t'' (at_clock (wall t + 241) (mono t + 241) t)) = Inr JNull"
proof -
  obtain s1 where 1: "fetch_agent_token demo_agent (JStr ''ag'') (JStr ''se'') ''t'' demo_auth = (Inr (JStr ''a''), s1)"
    "0 \<le> mono s1"
    using demo_runs [of "''t''" demo_auth] by (auto simp: demo_auth_def)
  obtain r t where 2: "exchange_obo_code demo_agent ''t'' ''c'' (JStr ''ag'') (JStr ''se'') demo_auth = (r, t)"
    by fastforce
  have net: "ag_net demo_agent q w = (Inr \<lparr>status = 200, resp_text = [], resp_json = Some (JObj demo_answer),
      resp_location = None\<rparr>, 1, ())" for q w
    by (simp add: demo_agent_def demo_agent_net_def)
  have K: "kv_store (ag_kv demo_agent) mem_view (\<lambda>_. True)" by (simp add: mem.kv_store_axioms)
  have n: "num_of (get_or demo_answer ''expires_in'' (JInt 3600)) = Inr 300" by (simp add: get_or_def num_of_def)
  note C = obo_token_lives_as_long_as_granted [OF K demo_agent_net_causal 1(2,1) net response.select_convs(3) _ n _ 2]
  show ?thesis
    using C [of "JStr ''a''" "mono t + 240" "wall t + 240"] C [of "JStr ''a''" "mono t + 241" "wall t + 241"] 2
    by auto
qed

end
