(* ===== verification/Agent_Config_Cache.thy ===== *)
theory Agent_Config_Cache
  imports Auth_Manager
begin

text \<open>
  \<open>agent/agent_config_cache.py\<close>: the agent's own configuration, fetched from the Business API
  over the service-token channel and cached per organization.
\<close>

definition AGENT_CONFIG_TTL_SECONDS :: real where "AGENT_CONFIG_TTL_SECONDS = 300"

record ('w, 'd) cfg_state = "('w, 'd) auth_state" +
  cfg_cache :: "string \<Rightarrow> (real \<times> json) option"

text \<open>The client of the service token: the agent's own credentials, read per call.\<close>

definition agent_m2m_config :: "('w, 'd, 'k) agent_env \<Rightarrow> m2m_config" where
  "agent_m2m_config V = \<lparr>m_is_base_url = ag_is_base_url (ag_cfg V), m_tenant_path = ag_tenant_path (ag_cfg V),
     m_client_id = ag_client_id (ag_cfg V), m_client_secret = ag_client_secret (ag_cfg V),
     m_scope = SERVICE_SCOPE\<rparr>"

definition agent_service_headers ::
  "('w, 'd, 'k) agent_env \<Rightarrow> bool \<Rightarrow> (('w, 'd, 'z) cfg_state_scheme, (string \<times> string) list) prog" where
  "agent_service_headers V force_refresh =
     aauth_headers (ag_net V) (ag_fr V) ''AI Agent'' (agent_m2m_config V) force_refresh"

definition cfg_cache_key :: "string \<Rightarrow> string" where "cfg_cache_key org_id = org_id"

definition is_fresh :: "real \<Rightarrow> real \<times> json \<Rightarrow> bool" where
  "is_fresh now entry \<longleftrightarrow> now - fst entry < AGENT_CONFIG_TTL_SECONDS"

definition invalidate_agent_config_cache :: "string \<Rightarrow> (('w, 'd, 'z) cfg_state_scheme, unit) prog" where
  "invalidate_agent_config_cache org_id =
     modify (\<lambda>s. s\<lparr>cfg_cache := (cfg_cache s)(cfg_cache_key org_id := None)\<rparr>)"

text \<open>What the cache serves: a fresh entry that is not \<open>None\<close>.\<close>

definition cfg_hit :: "bool \<Rightarrow> string \<Rightarrow> ('w, 'd, 'z) cfg_state_scheme \<Rightarrow> json option" where
  "cfg_hit force_refresh org_id s =
     (if force_refresh then None
      else case cfg_cache s (cfg_cache_key org_id) of
             None \<Rightarrow> None
           | Some entry \<Rightarrow> if is_fresh (mono s) entry \<and> snd entry \<noteq> JNull then Some (snd entry) else None)"

definition agent_config_url :: "('w, 'd, 'k) agent_env \<Rightarrow> string \<Rightarrow> string" where
  "agent_config_url V org_id =
     rstrip_char (CHR ''/'') (ag_business_api_url (ag_cfg V)) @ ''/agent-config/org/'' @ org_id"

text \<open>The inner \<open>_get\<close>.\<close>

definition get_agent_config_once ::
  "('w, 'd, 'k) agent_env \<Rightarrow> string \<Rightarrow> (string \<times> string) list
     \<Rightarrow> (('w, 'd, 'z) cfg_state_scheme, response option) prog" where
  "get_agent_config_once V org_id hs =
     catch (andthen (send (ag_net V) (get (agent_config_url V org_id) [] hs)) (\<lambda>r. ret (Some r)))
       (\<lambda>e. if is_request_error e then ret None else raise e)"

text \<open>The status, the body, the cache: the end of the function.\<close>

definition accept_agent_config ::
  "string \<Rightarrow> response \<Rightarrow> (('w, 'd, 'z) cfg_state_scheme, json) prog" where
  "accept_agent_config org_id resp =
     (if status resp \<noteq> 200 then ret JNull
      else case resp_json resp of
             None \<Rightarrow> ret JNull
           | Some data \<Rightarrow>
               andthen (modify (\<lambda>s. s\<lparr>cfg_cache := (cfg_cache s)(cfg_cache_key org_id \<mapsto> (mono s, data))\<rparr>))
                 (\<lambda>_. ret data))"

text \<open>An answer with a configuration is served for its time, whatever other organizations ask meanwhile.\<close>

interpretation agent_configs: timed_cache
  "\<lambda>dt (s :: ('w, 'd, 'z) cfg_state_scheme). s\<lparr>mono := mono s + dt\<rparr>" "cfg_hit False"
  "\<lambda>org_id resp s. snd (accept_agent_config org_id resp s)" "(=)"
  "\<lambda>resp. status resp = 200 \<and> (\<exists>v. resp_json resp = Some v \<and> v \<noteq> JNull)" "\<lambda>resp. the (resp_json resp)"
  "\<lambda>_. AGENT_CONFIG_TTL_SECONDS"
  by unfold_locales
    (auto simp: cfg_hit_def accept_agent_config_def is_fresh_def cfg_cache_key_def AGENT_CONFIG_TTL_SECONDS_def split: option.splits)

text \<open>A 401 means that the cached service token was refused: one more try with a fresh one.\<close>

definition retry_agent_config ::
  "('w, 'd, 'k) agent_env \<Rightarrow> string \<Rightarrow> (('w, 'd, 'z) cfg_state_scheme, response option) prog" where
  "retry_agent_config V org_id =
     andthen (modify invalidate) (\<lambda>_.
     andthen (agent_service_headers V True) (\<lambda>retry_headers.
       if retry_headers = [] then ret None else get_agent_config_once V org_id retry_headers))"

definition fetch_and_cache_agent_config ::
  "('w, 'd, 'k) agent_env \<Rightarrow> string \<Rightarrow> bool \<Rightarrow> (('w, 'd, 'z) cfg_state_scheme, json) prog" where
  "fetch_and_cache_agent_config V org_id force_refresh =
     andthen (asks (cfg_hit force_refresh org_id)) (\<lambda>hit.
     (case hit of
        Some data \<Rightarrow> ret data
      | None \<Rightarrow>
          andthen (agent_service_headers V False) (\<lambda>headers.
            if headers = [] then ret JNull
            else
              andthen (get_agent_config_once V org_id headers) (\<lambda>first.
              (case first of
                 None \<Rightarrow> ret JNull
               | Some resp \<Rightarrow>
                   if status resp = 401 then
                     andthen (retry_agent_config V org_id) (\<lambda>second.
                     (case second of None \<Rightarrow> ret JNull | Some resp2 \<Rightarrow> accept_agent_config org_id resp2))
                   else accept_agent_config org_id resp)))))"

subsection \<open>Lemmas\<close>

lemma log_m2m_sent [simp]: "sent (snd (log_m2m l s)) = sent s"
  by (simp add: log_m2m_def)

lemma log_m2m_calls [simp]: "calls P n (log_m2m l)"
  by (rule calls_quiet) simp

lemma store_token_calls [simp]: "calls P n (store_token c tok e)"
  by (rule calls_quiet) (simp add: store_token_def andthen_def)

lemma handle_payload_sent: "sent (snd (handle_payload fr label c v s)) = sent s"
  by (simp add: handle_payload_def log_m2m_def store_token_def andthen_def Let_def split: json.splits)

lemma token_response_calls: "calls P n (token_response fr label c resp)"
  unfolding token_response_def
  by (intro calls_if calls_zero_andthen calls_catch_zero calls_basic log_m2m_calls)
     (auto intro: calls_quiet handle_payload_sent split: exn.splits simp: log_m2m_def)

lemma post_token_calls:
  assumes "P (post_form (token_url c) [] (token_form c)) \<longrightarrow> 0 < n"
  shows "calls P n (post_token net label c)"
proof -
  have "calls P 0 (if is_request_error e then andthen (log_m2m l) (\<lambda>_. ret None) else raise e)" for e l
    by (auto intro: calls_zero_andthen)
  then show ?thesis
    unfolding post_token_def by (intro calls_catch_zero calls_andthen_zero calls_basic calls_send assms)
qed

lemma agent_service_headers_calls:
  assumes "P (post_form (token_url (agent_m2m_config V)) [] (token_form (agent_m2m_config V))) \<longrightarrow> 0 < n"
  shows "calls P n (agent_service_headers V b)"
proof -
  have post: "calls P n (post_token (ag_net V) l (agent_m2m_config V))" for l
    by (rule post_token_calls) (rule assms)
  show ?thesis
    unfolding agent_service_headers_def aauth_headers_def aget_token_def get_token_def
    apply (rule calls_andthen_zero)
     apply (rule calls_if)
      apply (rule calls_andthen_zero [OF log_m2m_calls calls_basic(1)])
     apply (rule calls_zero_andthen [OF calls_basic(3)])
     apply (rule calls_option)
      apply (rule calls_andthen_zero [OF post])
      apply (intro calls_option calls_basic token_response_calls)+
    done
qed

text \<open>Neither kind of request is both: the token post and the read of the configuration.\<close>

definition is_config_get :: "('w, 'd, 'k) agent_env \<Rightarrow> string \<Rightarrow> request \<Rightarrow> bool" where
  "is_config_get V org_id q \<longleftrightarrow> meth q = ''GET'' \<and> url q = agent_config_url V org_id"

definition is_token_post :: "('w, 'd, 'k) agent_env \<Rightarrow> request \<Rightarrow> bool" where
  "is_token_post V q \<longleftrightarrow>
     q = post_form (token_url (agent_m2m_config V)) [] (token_form (agent_m2m_config V))"

lemma headers_config_gets: "calls (is_config_get V org_id) 0 (agent_service_headers V b)"
  by (rule agent_service_headers_calls) (simp add: is_config_get_def post_form_def)

lemma headers_token_posts: "calls (is_token_post V) 1 (agent_service_headers V b)"
  by (rule agent_service_headers_calls) simp

lemma get_once_calls:
  assumes "\<And>hs. P (get (agent_config_url V org_id) [] hs) \<longrightarrow> 0 < n"
  shows "calls P n (get_agent_config_once V org_id hs)"
  unfolding get_agent_config_once_def
  by (intro calls_catch_zero calls_andthen_zero calls_if calls_basic calls_send) (rule assms)

lemma get_once_config_gets: "calls (is_config_get V org_id) 1 (get_agent_config_once V org_id hs)"
  by (rule get_once_calls) simp

lemma get_once_token_posts: "calls (is_token_post V) 0 (get_agent_config_once V org_id hs)"
  by (rule get_once_calls) (simp add: is_token_post_def get_def post_form_def)

lemma accept_calls: "calls P n (accept_agent_config org_id resp)"
  by (rule calls_quiet) (simp add: accept_agent_config_def split: option.splits)

lemma retry_calls:
  assumes "calls P a (agent_service_headers V True :: (('w, 'd, 'z) cfg_state_scheme, _) prog)"
    and "\<And>hs. calls P b (get_agent_config_once V org_id hs :: (('w, 'd, 'z) cfg_state_scheme, _) prog)"
  shows "calls P (a + b) (retry_agent_config V org_id :: (('w, 'd, 'z) cfg_state_scheme, _) prog)"
  unfolding retry_agent_config_def
  by (intro calls_zero_andthen [where m = "modify _"] calls_andthen assms calls_if calls_basic)
     (simp add: calls_quiet invalidate_def)

lemma fetch_calls:
  assumes h: "\<And>b. calls P a (agent_service_headers V b :: (('w, 'd, 'z) cfg_state_scheme, _) prog)"
    and g: "\<And>hs. calls P b (get_agent_config_once V org_id hs :: (('w, 'd, 'z) cfg_state_scheme, _) prog)"
  shows "calls P (a + b + (a + b)) (fetch_and_cache_agent_config V org_id fr :: (('w, 'd, 'z) cfg_state_scheme, _) prog)"
proof -
  have "calls P (a + (b + (a + b))) (fetch_and_cache_agent_config V org_id fr :: (('w, 'd, 'z) cfg_state_scheme, _) prog)"
    unfolding fetch_and_cache_agent_config_def
    by (intro calls_zero_andthen [where m = "asks _"] calls_option calls_andthen [where m = "agent_service_headers _ _"]
        calls_andthen [where m = "get_agent_config_once _ _ _"] calls_andthen_zero [where m = "retry_agent_config _ _"]
        calls_if calls_basic accept_calls h g retry_calls)
  then show ?thesis by (simp add: ac_simps)
qed

lemma get_once_run:
  obtains t where "get_agent_config_once V org_id hs s = (Inr None, t)"
  | t r where "get_agent_config_once V org_id hs s = (Inr (Some r), t)"
  | t e where "get_agent_config_once V org_id hs s = (Inl e, t)"
  by (metis old.prod.exhaust option.exhaust sum.exhaust)

lemma accept_run:
  assumes "accept_agent_config org_id resp s = (Inr v, t)" and "v \<noteq> JNull"
  shows "status resp = 200 \<and> resp_json resp = Some v \<and>
    t = s\<lparr>cfg_cache := (cfg_cache s)(org_id \<mapsto> (mono s, v))\<rparr>"
  using assms by (auto simp: accept_agent_config_def cfg_cache_key_def split: if_splits option.splits)

text \<open>A configuration that was fetched is in the cache with the time it arrived.\<close>

lemma fetch_fills_cache:
  assumes run: "fetch_and_cache_agent_config V org_id b s = (Inr v, t)" and v: "v \<noteq> JNull"
    and miss: "cfg_hit b org_id s = None"
  shows "cfg_cache t org_id = Some (mono t, v)"
proof -
  obtain resp u where "accept_agent_config org_id resp u = (Inr v, t)"
    using run miss v
    by (auto simp: fetch_and_cache_agent_config_def andthen_Inr_conv split: if_splits option.splits)
  from accept_run [OF this v] show ?thesis by auto
qed

subsection \<open>Properties\<close>

text \<open>
  one call reads the configuration from the Business API at most twice and asks the token
  endpoint for at most two service tokens, and it sends nothing at all when the cache holds a
  fresh configuration and no refresh is forced.
\<close>

theorem agent_config_asks_at_most_twice:
  assumes "fetch_and_cache_agent_config V org_id b s = (r, t)"
  shows "\<exists>qs. sent t = sent s @ qs \<and> length (filter (is_config_get V org_id) qs) \<le> 2 \<and>
    length (filter (is_token_post V) qs) \<le> 2 \<and> (cfg_hit b org_id s \<noteq> None \<longrightarrow> qs = [])"
proof -
  obtain qs where 1: "sent t = sent s @ qs" "length (filter (is_config_get V org_id) qs) \<le> 0 + 1 + (0 + 1)"
    by (rule callsD [OF fetch_calls [OF headers_config_gets get_once_config_gets] assms])
  obtain qs' where 2: "sent t = sent s @ qs'" "length (filter (is_token_post V) qs') \<le> 1 + 0 + (1 + 0)"
    by (rule callsD [OF fetch_calls [OF headers_token_posts get_once_token_posts] assms])
  have "t = s" if "cfg_hit b org_id s = Some v" for v
    using assms that by (simp add: fetch_and_cache_agent_config_def)
  then show ?thesis using 1 2 by (intro exI [of _ qs]) auto
qed

text \<open>
  a configuration that was fetched is served from the cache for 300 seconds: within them a
  further call returns it and changes nothing, however often; from then on, and at once after an
  invalidation, the cache has nothing for the organization.
\<close>

theorem agent_config_served_for_five_minutes:
  assumes "fetch_and_cache_agent_config V org_id b s = (Inr v, t)" and "v \<noteq> JNull"
    and "cfg_hit b org_id s = None" and "0 \<le> dt"
  shows "(if dt < 300 then fetch_and_cache_agent_config V org_id False (later dt t) = (Inr v, later dt t)
          else cfg_hit False org_id (later dt t) = None) \<and>
    cfg_hit False org_id (snd (invalidate_agent_config_cache org_id t)) = None"
proof -
  have c: "cfg_cache t org_id = Some (mono t, v)" by (rule fetch_fills_cache [OF assms(1-3)])
  have "cfg_cache (later dt t) = cfg_cache t" by (simp add: later_def)
  then have hit: "cfg_hit False org_id (later dt t) = (if dt < 300 then Some v else None)"
    using assms(2) c by (simp add: cfg_hit_def cfg_cache_key_def is_fresh_def AGENT_CONFIG_TTL_SECONDS_def)
  have "cfg_hit False org_id (snd (invalidate_agent_config_cache org_id t)) = None"
    by (simp add: cfg_hit_def invalidate_agent_config_cache_def)
  then show ?thesis using hit by (simp add: fetch_and_cache_agent_config_def)
qed

subsection \<open>Witnesses\<close>

text \<open>A network whose one answer is both a token and a configuration.\<close>

definition demo_cfg_answer :: dict where
  "demo_cfg_answer = [(''access_token'', JStr ''T''), (''scope'', JStr SERVICE_SCOPE), (''agent_id'', JStr ''ag'')]"

definition demo_cfg_env :: "(unit, mem_store, unit) agent_env" where
  "demo_cfg_env = demo_agent\<lparr>ag_net := \<lambda>q w.
     (Inr \<lparr>status = 200, resp_text = [], resp_json = Some (JObj demo_cfg_answer), resp_location = None\<rparr>, 1, ())\<rparr>"

definition demo_cfg :: "(unit, mem_store) cfg_state" where
  "demo_cfg = \<lparr>world = (), wall = 0, mono = 0, sent = [], tok_cache = Map.empty, m2m_log = [],
     store = Map.empty, rand_used = 0, auth_log = [], cfg_cache = Map.empty\<rparr>"

lemma demo_cfg_answer_get [simp]:
  "dict_get demo_cfg_answer ''access_token'' = Some (JStr ''T'')"
  "dict_get demo_cfg_answer ''scope'' = Some (JStr SERVICE_SCOPE)"
  "dict_get demo_cfg_answer ''expires_in'' = None"
  by (simp_all add: demo_cfg_answer_def)

lemma service_scope_words: "SERVICE_SCOPE \<in> set (split_ws SERVICE_SCOPE)" "SERVICE_SCOPE \<noteq> []"
  by (simp_all add: SERVICE_SCOPE_def split_ws_def is_space_def)

lemma demo_headers:
  "\<exists>t. agent_service_headers demo_cfg_env b demo_cfg = (Inr [(SERVICE_AUTH_HEADER, ''Bearer T'')], t) \<and>
     mono t = 1 \<and> cfg_cache t = Map.empty"
  by (simp add: service_scope_words agent_service_headers_def aauth_headers_def aget_token_def get_token_def is_usable_def
      agent_m2m_config_def demo_cfg_env_def demo_agent_def demo_agent_settings_def post_token_def send_def
      catch_def andthen_def token_response_def json_of_def handle_payload_def or_else_def store_token_def
      cached_def demo_cfg_def Let_def)

lemma demo_fetch:
  "\<exists>t. fetch_and_cache_agent_config demo_cfg_env ''o'' False demo_cfg = (Inr (JObj demo_cfg_answer), t)"
proof -
  obtain u where u: "agent_service_headers demo_cfg_env False demo_cfg =
      (Inr [(SERVICE_AUTH_HEADER, ''Bearer T'')], u)"
    using demo_headers by blast
  obtain resp u' where g: "get_agent_config_once demo_cfg_env ''o'' [(SERVICE_AUTH_HEADER, ''Bearer T'')] u =
      (Inr (Some resp), u')" "status resp = 200" "resp_json resp = Some (JObj demo_cfg_answer)"
    by (simp add: get_agent_config_once_def catch_def andthen_def send_def demo_cfg_env_def)
  have "cfg_hit False ''o'' demo_cfg = None" by (simp add: cfg_hit_def demo_cfg_def)
  then show ?thesis
    by (simp add: fetch_and_cache_agent_config_def andthen_def u g accept_agent_config_def)
qed

theorem agent_config_asks_at_most_twice_witness:
  "\<exists>r t qs. fetch_and_cache_agent_config demo_cfg_env ''o'' False demo_cfg = (r, t) \<and>
     sent t = sent demo_cfg @ qs \<and> length (filter (is_config_get demo_cfg_env ''o'') qs) \<le> 2"
  using agent_config_asks_at_most_twice [OF surjective_pairing, of demo_cfg_env "''o''" False demo_cfg]
  by (metis surjective_pairing)

theorem agent_config_served_for_five_minutes_witness:
  "\<exists>t. fetch_and_cache_agent_config demo_cfg_env ''o'' False demo_cfg = (Inr (JObj demo_cfg_answer), t) \<and>
     fetch_and_cache_agent_config demo_cfg_env ''o'' False (later 299 t) = (Inr (JObj demo_cfg_answer), later 299 t) \<and>
     cfg_hit False ''o'' (later 300 t) = None"
proof -
  obtain t where t: "fetch_and_cache_agent_config demo_cfg_env ''o'' False demo_cfg = (Inr (JObj demo_cfg_answer), t)"
    using demo_fetch by blast
  have miss: "cfg_hit False ''o'' demo_cfg = None" by (simp add: cfg_hit_def demo_cfg_def)
  have v: "JObj demo_cfg_answer \<noteq> JNull" by simp
  show ?thesis
    using t agent_config_served_for_five_minutes [OF t v miss, of 299]
      agent_config_served_for_five_minutes [OF t v miss, of 300] by simp
qed

end
