(* ===== verification/Tool_Schemas.thy ===== *)
theory Tool_Schemas
  imports Json
begin

text \<open>
  \<open>agent/tool_schemas.py\<close>: the JSON schemas of the meeting tools' arguments, as the MCP server
  publishes them and as they are declared to Gemini.
\<close>

definition MEETING_PROPERTY_KEYS :: "string list" where
  "MEETING_PROPERTY_KEYS = [''topic'', ''date'', ''start_time'', ''duration'', ''time_zone'']"

definition MEETING_BASE_ARGS :: dict where
  "MEETING_BASE_ARGS =
     [(''topic'', JStr ''Test Meeting''), (''date'', JStr ''2026-05-22''), (''start_time'', JStr ''14:00''),
      (''duration'', JStr ''60''), (''time_zone'', JStr ''America/Sao_Paulo'')]"

text \<open>One property of a schema, with and without a description.\<close>

definition described :: "string \<Rightarrow> json" where
  "described d = JObj [(''type'', JStr ''string''), (''description'', JStr d)]"

definition plain :: json where
  "plain = JObj [(''type'', JStr ''string'')]"

definition MCP_SCHEDULE_PREVIEW_PROPS :: dict where
  "MCP_SCHEDULE_PREVIEW_PROPS =
     [(''topic'', described ''Meeting topic''),
      (''date'', described ''Date in YYYY-MM-DD format''),
      (''start_time'', described ''Start time in HH:MM format''),
      (''duration'', described ''Duration in minutes''),
      (''time_zone'', described ''IANA timezone'')]"

definition MCP_NO_DESCRIPTION_PROPS :: dict where
  "MCP_NO_DESCRIPTION_PROPS =
     [(''topic'', plain), (''date'', plain), (''start_time'', plain), (''duration'', plain),
      (''time_zone'', plain)]"

definition GENAI_SCHEDULE_PREVIEW_PROPS :: dict where
  "GENAI_SCHEDULE_PREVIEW_PROPS =
     [(''topic'', described ''Meeting topic''),
      (''date'', described ''Date in YYYY-MM-DD format''),
      (''start_time'', described ''Start time in HH:MM 24h format''),
      (''duration'', described ''Duration in minutes''),
      (''time_zone'', described ''IANA timezone'')]"

definition GENAI_UPDATE_PREVIEW_PROPS :: dict where
  "GENAI_UPDATE_PREVIEW_PROPS =
     [(''topic'', described ''Meeting topic''),
      (''date'', described ''Date in YYYY-MM-DD format''),
      (''start_time'', described ''Start time in HH:MM 24h format''),
      (''duration'', described ''Duration in minutes''),
      (''time_zone'', described ''IANA timezone'')]"

definition GENAI_NO_DESCRIPTION_PROPS :: dict where
  "GENAI_NO_DESCRIPTION_PROPS =
     [(''topic'', plain), (''date'', plain), (''start_time'', plain), (''duration'', plain),
      (''time_zone'', plain)]"

definition VARIANT_BASES_RICH :: "(string \<times> dict) list" where
  "VARIANT_BASES_RICH =
     [(''mcp_schedule_preview'', MCP_SCHEDULE_PREVIEW_PROPS),
      (''genai_schedule_preview'', GENAI_SCHEDULE_PREVIEW_PROPS),
      (''genai_update_preview'', GENAI_UPDATE_PREVIEW_PROPS)]"

definition VARIANT_BASES_BRIEF :: "(string \<times> dict) list" where
  "VARIANT_BASES_BRIEF =
     [(''mcp_schedule_preview'', MCP_NO_DESCRIPTION_PROPS),
      (''genai_schedule_preview'', GENAI_NO_DESCRIPTION_PROPS),
      (''genai_update_preview'', GENAI_NO_DESCRIPTION_PROPS)]"

subsection \<open>Building a schema\<close>

definition meeting_id_schema :: "bool \<Rightarrow> string \<Rightarrow> json" where
  "meeting_id_schema brief variant =
     (if brief then plain
      else if startswith variant ''genai_'' then described ''ID of the meeting to update''
      else plain)"

text \<open>The loop over the keys, which fills \<open>properties\<close> and \<open>required\<close>.\<close>

fun add_base_keys :: "dict \<Rightarrow> string list \<Rightarrow> dict \<times> string list \<Rightarrow> exn + dict \<times> string list" where
  "add_base_keys base [] acc = Inr acc"
| "add_base_keys base (k # ks) (properties, required) =
     (case dict_get base k of
        None \<Rightarrow> Inl (KeyError k)
      | Some v \<Rightarrow> add_base_keys base ks (dict_set properties k v, required @ [k]))"

definition make_meeting_schema :: "bool \<Rightarrow> bool \<Rightarrow> bool \<Rightarrow> string \<Rightarrow> exn + json" where
  "make_meeting_schema brief with_thread_id with_meeting_id variant =
     (case map_of (if brief then VARIANT_BASES_BRIEF else VARIANT_BASES_RICH) variant of
        None \<Rightarrow> Inl (ValueError (''Unknown schema variant: '' @ repr_str variant))
      | Some base \<Rightarrow>
          bind_res
            (add_base_keys base MEETING_PROPERTY_KEYS
              (if with_meeting_id then ([(''meeting_id'', meeting_id_schema brief variant)], [''meeting_id''])
               else ([], [])))
            (\<lambda>(properties, required).
              (let (properties, required) =
                     (if with_thread_id
                      then (dict_set properties ''thread_id''
                              (if brief then plain else described ''Active session thread ID''),
                            required @ [''thread_id''])
                      else (properties, required))
               in Inr (JObj [(''type'', JStr ''object''), (''properties'', JObj properties),
                             (''required'', JList (map JStr required))]))))"

subsection \<open>What the schemas are\<close>

definition schema_variants :: "string list" where
  "schema_variants = [''mcp_schedule_preview'', ''genai_schedule_preview'', ''genai_update_preview'']"

lemma variant_bases:
  "map_of (if brief then VARIANT_BASES_BRIEF else VARIANT_BASES_RICH) v = None \<longleftrightarrow> v \<notin> set schema_variants"
  by (simp add: VARIANT_BASES_BRIEF_def VARIANT_BASES_RICH_def schema_variants_def)

lemma base_keys:
  assumes "map_of (if brief then VARIANT_BASES_BRIEF else VARIANT_BASES_RICH) v = Some base"
  shows "map fst base = MEETING_PROPERTY_KEYS"
proof -
  have "base \<in> snd ` set (if brief then VARIANT_BASES_BRIEF else VARIANT_BASES_RICH)"
    using map_of_SomeD [OF assms] by force
  then have "base \<in> {MCP_SCHEDULE_PREVIEW_PROPS, MCP_NO_DESCRIPTION_PROPS, GENAI_SCHEDULE_PREVIEW_PROPS,
      GENAI_UPDATE_PREVIEW_PROPS, GENAI_NO_DESCRIPTION_PROPS}"
    by (cases brief) (auto simp: VARIANT_BASES_BRIEF_def VARIANT_BASES_RICH_def)
  then show ?thesis
    unfolding MCP_SCHEDULE_PREVIEW_PROPS_def MCP_NO_DESCRIPTION_PROPS_def GENAI_SCHEDULE_PREVIEW_PROPS_def
      GENAI_UPDATE_PREVIEW_PROPS_def GENAI_NO_DESCRIPTION_PROPS_def MEETING_PROPERTY_KEYS_def
    by (elim insertE emptyE) simp_all
qed

lemma dict_set_new: "k \<notin> fst ` set d \<Longrightarrow> dict_set d k v = d @ [(k, v)]"
  by (induction d) auto

lemma add_base_keys_run:
  assumes "set ks \<subseteq> fst ` set base" and "distinct (map fst ps @ ks)"
  shows "\<exists>ps'. add_base_keys base ks (ps, rs) = Inr (ps', rs @ ks) \<and> map fst ps' = map fst ps @ ks"
  using assms
proof (induction ks arbitrary: ps rs)
  case (Cons k ks)
  have "k \<in> fst ` set base" using Cons.prems(1) by simp
  then obtain v where v: "dict_get base k = Some v"
    by (cases "dict_get base k") (simp_all add: map_of_eq_None_iff)
  have new: "dict_set ps k v = ps @ [(k, v)]" using Cons.prems(2) by (intro dict_set_new) auto
  have "\<exists>ps'. add_base_keys base ks (ps @ [(k, v)], rs @ [k]) = Inr (ps', (rs @ [k]) @ ks) \<and>
      map fst ps' = map fst (ps @ [(k, v)]) @ ks"
    by (rule Cons.IH) (use Cons.prems in auto)
  then show ?case by (simp add: v new)
qed simp

definition schema_keys :: "bool \<Rightarrow> bool \<Rightarrow> string list" where
  "schema_keys with_thread_id with_meeting_id =
     (if with_meeting_id then [''meeting_id''] else []) @ MEETING_PROPERTY_KEYS @
     (if with_thread_id then [''thread_id''] else [])"

lemma schema_keys_distinct: "distinct (schema_keys a b)"
  by (cases a; cases b) (simp_all add: schema_keys_def MEETING_PROPERTY_KEYS_def)


end
