(* ===== verification/Mcp_Server.thy ===== *)
theory Mcp_Server
  imports Agent_Config_Cache Tool_Schemas
begin

text \<open>
  \<open>agent/mcp_server.py\<close>: the tools an MCP client can call. A call is accepted with a bearer
  token that the identity server signed; what it may do depends on the token's scopes, on the
  flow state of the chat thread and on the thread's OBO token.
\<close>

definition MCP_JWKS_TTL_SECONDS :: real where "MCP_JWKS_TTL_SECONDS = 300"

text \<open>The class attributes of \<open>JWKSCache\<close>; no data is \<open>JNull\<close>, Python's \<open>None\<close>.\<close>

record ('w, 'd) mcp_state = "('w, 'd) cfg_state" +
  mcp_jwks :: json
  mcp_jwks_time :: real

definition jwks_get_fresh :: "('w, 'd, 'z) mcp_state_scheme \<Rightarrow> json" where
  "jwks_get_fresh s =
     (if mcp_jwks s \<noteq> JNull \<and> wall s - mcp_jwks_time s < MCP_JWKS_TTL_SECONDS then mcp_jwks s else JNull)"

definition jwks_get_stale_snapshot :: "('w, 'd, 'z) mcp_state_scheme \<Rightarrow> json \<times> real" where
  "jwks_get_stale_snapshot s = (mcp_jwks s, mcp_jwks_time s)"

definition jwks_cache_set :: "json \<Rightarrow> ('w, 'd, 'z) mcp_state_scheme \<Rightarrow> ('w, 'd, 'z) mcp_state_scheme" where
  "jwks_cache_set data s = s\<lparr>mcp_jwks := data, mcp_jwks_time := wall s\<rparr>"

text \<open>\<open>str(e)\<close>: the message of the exceptions the code raises itself, the library's for others.\<close>

definition exn_str :: "('w, 'd, 'k) agent_env \<Rightarrow> exn \<Rightarrow> string" where
  "exn_str V e =
     (case e of
        ValueError m \<Rightarrow> m
      | RuntimeError m \<Rightarrow> m
      | AttributeError m \<Rightarrow> m
      | TypeError m \<Rightarrow> m
      | JwtInvalid m \<Rightarrow> m
      | KeyError k \<Rightarrow> repr_str k
      | _ \<Rightarrow> ag_err V e)"

text \<open>The cache has one key, and tells nothing by \<open>JNull\<close>; it goes by the wall clock.\<close>

definition fresh_keys :: "unit \<Rightarrow> ('w, 'd, 'z) mcp_state_scheme \<Rightarrow> json option" where
  "fresh_keys u s = (if jwks_get_fresh s = JNull then None else Some (jwks_get_fresh s))"

interpretation mcp_keys: timed_cache
  "\<lambda>dt (s :: ('w, 'd, 'z) mcp_state_scheme). s\<lparr>wall := wall s + dt\<rparr>" fresh_keys "\<lambda>_. jwks_cache_set" "(=)"
  "\<lambda>v. v \<noteq> JNull" "\<lambda>v. v" "\<lambda>_. MCP_JWKS_TTL_SECONDS"
  by unfold_locales (auto simp: fresh_keys_def jwks_get_fresh_def jwks_cache_set_def)

definition fetch_jwks :: "('w, 'd, 'k) agent_env \<Rightarrow> (('w, 'd, 'z) mcp_state_scheme, json) prog" where
  "fetch_jwks V =
     andthen (send (ag_net V) (get (jwks_url (ag_is_base_url (ag_cfg V)) (ag_tenant_path (ag_cfg V))) [] [])) (\<lambda>resp.
     andthen (lift_res (httpx_raise_for_status resp)) (\<lambda>_. lift_res (json_of resp)))"

text \<open>What a failed fetch returns: the stale copy, if there is one.\<close>

definition stale_jwks :: "('w, 'd, 'k) agent_env \<Rightarrow> exn \<Rightarrow> (('w, 'd, 'z) mcp_state_scheme, json) prog" where
  "stale_jwks V e =
     andthen (asks jwks_get_stale_snapshot) (\<lambda>(stale, stale_time).
       if stale \<noteq> JNull then ret stale
       else raise (RuntimeError (''Unable to fetch JWKS and no cached copy available: '' @ exn_str V e)))"

definition is_value_error :: "exn \<Rightarrow> bool" where
  "is_value_error e = (case e of ValueError _ \<Rightarrow> True | _ \<Rightarrow> False)"

text \<open>
  The outcome of the \<open>try\<close>: \<open>Inl\<close> a stale copy, which is returned at once, or \<open>Inr\<close> new data,
  which is cached before its keys are counted.
\<close>

definition mcp_get_jwks :: "('w, 'd, 'k) agent_env \<Rightarrow> (('w, 'd, 'z) mcp_state_scheme, json) prog" where
  "mcp_get_jwks V =
     andthen (asks jwks_get_fresh) (\<lambda>fresh.
       if fresh \<noteq> JNull then ret fresh
       else
         andthen
           (catch (andthen (fetch_jwks V) (\<lambda>data. ret (Inr data)))
             (\<lambda>e. if is_http_error e \<or> is_value_error e
                   then andthen (stale_jwks V e) (\<lambda>stale. ret (Inl stale)) else raise e))
           (\<lambda>outcome.
             (case outcome of
                Inl stale \<Rightarrow> ret stale
              | Inr data \<Rightarrow>
                  andthen (modify (jwks_cache_set data)) (\<lambda>_.
                  andthen (lift_res (as_obj data)) (\<lambda>d.
                  andthen (lift_res (py_len (get_or d ''keys'' (JList [])))) (\<lambda>_. ret data))))))"

subsection \<open>Tokens and scopes\<close>

fun mcp_find_key :: "'k jwt_lib \<Rightarrow> dict \<Rightarrow> json list \<Rightarrow> exn + 'k option" where
  "mcp_find_key L header [] = Inr None"
| "mcp_find_key L header (k # ks) =
     bind_res (item k ''kid'') (\<lambda>a.
     bind_res (item (JObj header) ''kid'') (\<lambda>b.
       if a = b then bind_res (as_obj k) (\<lambda>d. bind_res (jwt_from_jwk L d) (\<lambda>key. Inr (Some key)))
       else mcp_find_key L header ks))"

text \<open>PyJWT refuses a token that is not text.\<close>

definition token_text :: "json \<Rightarrow> exn + string" where
  "token_text token =
     (case token of JStr t \<Rightarrow> Inr t | _ \<Rightarrow> Inl (JwtInvalid ''Invalid token type''))"

definition validate_mcp_token :: "('w, 'd, 'k) agent_env \<Rightarrow> json \<Rightarrow> (('w, 'd, 'z) mcp_state_scheme, dict) prog" where
  "validate_mcp_token V token =
     andthen (mcp_get_jwks V) (\<lambda>jwks.
     andthen (lift_res (token_text token)) (\<lambda>t.
     andthen (lift_res (jwt_header (ag_jwt V) t)) (\<lambda>header.
     andthen (lift_res (as_obj jwks)) (\<lambda>d.
     andthen (lift_res (py_list (get_or d ''keys'' (JList [])))) (\<lambda>entries.
     andthen (lift_res (mcp_find_key (ag_jwt V) header entries)) (\<lambda>found.
     (case found of
        None \<Rightarrow> raise (ValueError (''Signing key not found for kid='' @
                  py_str (ag_fr V) (opt_json (dict_get header ''kid''))))
      | Some key \<Rightarrow>
          andthen (asks wall) (\<lambda>now.
            lift_res (jwt_decode (ag_jwt V) t key [''RS256''] (ag_client_id (ag_cfg V))
              (token_issuer (ag_is_base_url (ag_cfg V)) (ag_tenant_path (ag_cfg V))) (ag_skew V) now)))))))))"

definition mcp_require_scope :: "string list \<Rightarrow> string \<Rightarrow> bool" where
  "mcp_require_scope scopes base_scope \<longleftrightarrow> base_scope \<in> set scopes \<or> base_scope @ ''_agent'' \<in> set scopes"

definition require_agent_scope :: "string list \<Rightarrow> string \<Rightarrow> bool" where
  "require_agent_scope scopes base_scope \<longleftrightarrow> base_scope @ ''_agent'' \<in> set scopes"

definition decoded_scopes :: "dict \<Rightarrow> exn + string list" where
  "decoded_scopes decoded =
     (case get_or decoded ''scope'' (JStr '''') of
        JStr sc \<Rightarrow> Inr (split_ws sc)
      | _ \<Rightarrow> Inl (AttributeError ''split''))"

subsection \<open>Calling the Business API\<close>

definition api_request ::
  "('w, 'd, 'k) agent_env \<Rightarrow> string \<Rightarrow> string \<Rightarrow> json \<Rightarrow> json option \<Rightarrow> request" where
  "api_request V m path token json_body =
     \<lparr>meth = m, url = ag_business_api_url (ag_cfg V) @ path, query = [],
      headers = [(''Authorization'', ''Bearer '' @ py_str (ag_fr V) token)],
      body = (case json_body of None \<Rightarrow> NoBody | Some j \<Rightarrow> JsonBody j),
      follow_redirects = True\<rparr>"

definition call_business_api ::
  "('w, 'd, 'k) agent_env \<Rightarrow> string \<Rightarrow> string \<Rightarrow> json \<Rightarrow> json option
     \<Rightarrow> (('w, 'd, 'z) mcp_state_scheme, response) prog" where
  "call_business_api V m path token json_body =
     (if upper m = ''GET'' \<or> upper m = ''DELETE'' then send (ag_net V) (api_request V (upper m) path token None)
      else if upper m = ''POST'' \<or> upper m = ''PUT''
        then send (ag_net V) (api_request V (upper m) path token json_body)
      else raise (ValueError (''Unsupported HTTP method: '' @ m)))"

definition finalize_action :: "'d kv_ops \<Rightarrow> string \<Rightarrow> (('w, 'd, 'z) store_state_scheme, unit) prog" where
  "finalize_action K thread_id =
     andthen (set_state K thread_id INITIAL) (\<lambda>_.
     andthen (clear_pending_meeting K thread_id) (\<lambda>_. clear_obo_tokens K thread_id))"

text \<open>A result is the list of the texts of its \<open>TextContent\<close> items.\<close>

definition text_result :: "('w, 'd, 'k) agent_env \<Rightarrow> dict \<Rightarrow> string list" where
  "text_result V payload = [dumps (ag_fr V) (JObj payload)]"

definition error_result :: "string \<Rightarrow> string list" where
  "error_result message = [message]"

definition api_error :: "response \<Rightarrow> string list" where
  "api_error resp = error_result (''Error: '' @ str_int (status resp) @ '' '' @ [CHR 0x97] @ '' '' @ resp_text resp)"

subsection \<open>The published tools\<close>

record tool =
  tool_name :: string
  tool_description :: string
  tool_schema :: json

definition object_schema :: "dict \<Rightarrow> string list \<Rightarrow> json" where
  "object_schema props required =
     JObj [(''type'', JStr ''object''), (''properties'', JObj props), (''required'', JList (map JStr required))]"

definition tool_of :: "string \<Rightarrow> string \<Rightarrow> exn + json \<Rightarrow> exn + tool" where
  "tool_of n d schema =
     bind_res schema (\<lambda>sch. Inr \<lparr>tool_name = n, tool_description = d, tool_schema = sch\<rparr>)"

fun collect :: "(exn + 'a) list \<Rightarrow> exn + 'a list" where
  "collect [] = Inr []"
| "collect (r # rs) = bind_res r (\<lambda>x. bind_res (collect rs) (\<lambda>xs. Inr (x # xs)))"

definition list_tools :: "exn + tool list" where
  "list_tools = collect
     [tool_of ''list_meetings'' ''List scheduled meetings for the B2B organization.''
        (Inr (object_schema [(''thread_id'', described ''Active session thread ID'')] [''thread_id''])),
      tool_of ''schedule_meeting_preview'' ''Show a meeting preview to the user and request OBO authorization.''
        (make_meeting_schema False True False ''mcp_schedule_preview''),
      tool_of ''schedule_meeting'' ''Finalize and create a scheduled meeting after delegation consent.''
        (make_meeting_schema True True False ''mcp_schedule_preview''),
      tool_of ''update_meeting_preview'' ''Preview meeting modifications and request delegation authorization.''
        (make_meeting_schema True True True ''mcp_schedule_preview''),
      tool_of ''update_meeting'' ''Finalize and update an existing meeting after delegation consent.''
        (make_meeting_schema True True True ''mcp_schedule_preview''),
      tool_of ''delete_meeting_preview'' ''Preview meeting deletion and request authorization.''
        (Inr (object_schema [(''meeting_id'', plain), (''topic'', plain), (''thread_id'', plain)]
          [''meeting_id'', ''topic'', ''thread_id''])),
      tool_of ''delete_meeting'' ''Finalize and delete a meeting after delegation consent.''
        (Inr (object_schema [(''meeting_id'', plain), (''thread_id'', plain)] [''meeting_id'', ''thread_id'']))]"

subsection \<open>The handlers\<close>

text \<open>
  Every handler gets the token, the arguments, the token's scopes, the thread and the agent's
  name. \<open>agent_id, _ = state_mgr.get_agent_credentials(...)\<close> is read although the URL does not
  use it.
\<close>

type_synonym ('w, 'd, 'z) tool_run = "(('w, 'd, 'z) mcp_state_scheme, string list) prog"

definition handle_list_meetings ::
  "('w, 'd, 'k) agent_env \<Rightarrow> json \<Rightarrow> dict \<Rightarrow> string list \<Rightarrow> string \<Rightarrow> json \<Rightarrow> ('w, 'd, 'z) tool_run" where
  "handle_list_meetings V token arguments scopes thread_id agent_name =
     (if \<not> mcp_require_scope scopes ''list_meetings'' then
        ret (error_result ''Error: Forbidden. Missing scope: list_meetings_agent'')
      else
        andthen (get_obo_token (ag_kv V) thread_id) (\<lambda>obo_token.
          if \<not> truthy obo_token \<or> token \<noteq> obo_token then
            andthen (clear_obo_tokens (ag_kv V) thread_id) (\<lambda>_.
            andthen (get_agent_credentials (ag_kv V) thread_id) (\<lambda>_.
              (let auth_url = get_obo_authorization_url V thread_id ''list'' in
               andthen (set_state (ag_kv V) thread_id LIST_PREVIEW_INITIATED) (\<lambda>_.
               andthen (set_auth_url (ag_kv V) thread_id auth_url) (\<lambda>_.
                 ret (text_result V
                   [(''status'', JStr ''preview_ready''), (''authorization_url'', JStr auth_url),
                    (''message'', JStr (''Please authorize '' @ py_str (ag_fr V) agent_name @
                      '' to view your meetings.''))]))))))
          else
            andthen (call_business_api V ''GET'' ''/meetings/'' token None) (\<lambda>resp.
              if status resp = 200 then
                andthen (get_state (ag_kv V) thread_id) (\<lambda>current_state.
                andthen
                  (if current_state = LIST_AUTHORIZED \<or> current_state = LIST_PREVIEW_INITIATED
                   then andthen (set_state (ag_kv V) thread_id INITIAL) (\<lambda>_.
                        clear_obo_tokens (ag_kv V) thread_id)
                   else ret ()) (\<lambda>_.
                andthen (lift_res (json_of resp)) (\<lambda>j.
                  ret (text_result V [(''status'', JStr ''success''), (''meetings'', j)]))))
              else
                andthen (clear_obo_tokens (ag_kv V) thread_id) (\<lambda>_.
                andthen (get_agent_credentials (ag_kv V) thread_id) (\<lambda>_.
                  (let auth_url = get_obo_authorization_url V thread_id ''list'' in
                   andthen (set_state (ag_kv V) thread_id LIST_PREVIEW_INITIATED) (\<lambda>_.
                   andthen (set_auth_url (ag_kv V) thread_id auth_url) (\<lambda>_.
                     ret (text_result V
                       [(''status'', JStr ''preview_ready''), (''authorization_url'', JStr auth_url),
                        (''message'', JStr (''Session expired or unauthorized. Please re-authorize '' @
                          py_str (ag_fr V) agent_name @ '' to view your meetings.''))])))))))))"

text \<open>
  The three previews do the same to the state: the flow state, the pending meeting (the
  arguments but the thread), the authorization URL.
\<close>

definition record_preview ::
  "('w, 'd, 'k) agent_env \<Rightarrow> string \<Rightarrow> flow_state \<Rightarrow> dict \<Rightarrow> string \<Rightarrow> (('w, 'd, 'z) mcp_state_scheme, unit) prog" where
  "record_preview V thread_id f pending auth_url =
     andthen (set_state (ag_kv V) thread_id f) (\<lambda>_.
     andthen (set_pending_meeting (ag_kv V) thread_id pending) (\<lambda>_.
       set_auth_url (ag_kv V) thread_id auth_url))"

definition handle_schedule_meeting_preview ::
  "('w, 'd, 'k) agent_env \<Rightarrow> json \<Rightarrow> dict \<Rightarrow> string list \<Rightarrow> string \<Rightarrow> json \<Rightarrow> ('w, 'd, 'z) tool_run" where
  "handle_schedule_meeting_preview V token arguments scopes thread_id agent_name =
     (if \<not> mcp_require_scope scopes ''create_meeting'' then
        ret (error_result ''Error: Forbidden. Missing required scope: create_meeting_agent'')
      else
        andthen (get_agent_credentials (ag_kv V) thread_id) (\<lambda>_.
          (let auth_url = get_obo_authorization_url V thread_id ''book'';
               pending_meeting = dict_without arguments ''thread_id'' in
           andthen (record_preview V thread_id BOOKING_PREVIEW_INITIATED pending_meeting auth_url) (\<lambda>_.
             ret (text_result V
               [(''status'', JStr ''preview_ready''), (''meeting'', JObj pending_meeting),
                (''authorization_url'', JStr auth_url),
                (''message'', JStr (''Please authorize '' @ py_str (ag_fr V) agent_name @
                  '' to book this meeting on your behalf.''))])))))"

definition handle_delete_meeting_preview ::
  "('w, 'd, 'k) agent_env \<Rightarrow> json \<Rightarrow> dict \<Rightarrow> string list \<Rightarrow> string \<Rightarrow> json \<Rightarrow> ('w, 'd, 'z) tool_run" where
  "handle_delete_meeting_preview V token arguments scopes thread_id agent_name =
     (if \<not> mcp_require_scope scopes ''delete_meeting'' then
        ret (error_result ''Error: Forbidden. Missing scope: delete_meeting_agent'')
      else
        andthen (get_agent_credentials (ag_kv V) thread_id) (\<lambda>_.
          (let auth_url = get_obo_authorization_url V thread_id ''delete'';
               pending = dict_without arguments ''thread_id'';
               topic = opt_json (dict_get arguments ''topic'') in
           andthen (record_preview V thread_id DELETE_PREVIEW_INITIATED pending auth_url) (\<lambda>_.
             ret (text_result V
               [(''status'', JStr ''preview_ready''),
                (''meeting_id'', opt_json (dict_get arguments ''meeting_id'')), (''topic'', topic),
                (''authorization_url'', JStr auth_url),
                (''message'', JStr (''Please authorize '' @ py_str (ag_fr V) agent_name @
                  '' to delete the meeting '' @ [CHR 0x27] @ py_str (ag_fr V) topic @ [CHR 0x27] @ ''.''))])))))"

definition handle_update_meeting_preview ::
  "('w, 'd, 'k) agent_env \<Rightarrow> json \<Rightarrow> dict \<Rightarrow> string list \<Rightarrow> string \<Rightarrow> json \<Rightarrow> ('w, 'd, 'z) tool_run" where
  "handle_update_meeting_preview V token arguments scopes thread_id agent_name =
     (if \<not> mcp_require_scope scopes ''update_meeting'' then
        ret (error_result ''Error: Forbidden. Missing scope: update_meeting_agent'')
      else
        andthen (get_agent_credentials (ag_kv V) thread_id) (\<lambda>_.
          (let auth_url = get_obo_authorization_url V thread_id ''update'';
               pending = dict_without arguments ''thread_id'';
               topic = opt_json (dict_get arguments ''topic'') in
           andthen (record_preview V thread_id UPDATE_PREVIEW_INITIATED pending auth_url) (\<lambda>_.
             ret (text_result V
               [(''status'', JStr ''preview_ready''), (''meeting'', JObj pending),
                (''authorization_url'', JStr auth_url),
                (''message'', JStr (''Please authorize '' @ py_str (ag_fr V) agent_name @
                  '' to update the meeting '' @ [CHR 0x27] @ py_str (ag_fr V) topic @ [CHR 0x27] @
                  '' on your behalf.''))])))))"

text \<open>The check that the three actions share.\<close>

definition waiting :: "('w, 'd, 'k) agent_env \<Rightarrow> string list" where
  "waiting V = text_result V [(''status'', JStr ''waiting_for_authorization'')]"

definition if_authorized ::
  "('w, 'd, 'k) agent_env \<Rightarrow> flow_state \<Rightarrow> json \<Rightarrow> string \<Rightarrow> ('w, 'd, 'z) tool_run \<Rightarrow> ('w, 'd, 'z) tool_run" where
  "if_authorized V required token thread_id act =
     andthen (get_state (ag_kv V) thread_id) (\<lambda>state.
     andthen (get_obo_token (ag_kv V) thread_id) (\<lambda>obo_token.
       if state \<noteq> required \<or> \<not> truthy obo_token \<or> token \<noteq> obo_token then ret (waiting V) else act))"

definition handle_schedule_meeting ::
  "('w, 'd, 'k) agent_env \<Rightarrow> json \<Rightarrow> dict \<Rightarrow> string list \<Rightarrow> string \<Rightarrow> json \<Rightarrow> ('w, 'd, 'z) tool_run" where
  "handle_schedule_meeting V token arguments scopes thread_id agent_name =
     (if \<not> require_agent_scope scopes ''create_meeting'' then
        ret (error_result ''Error: Forbidden. Missing scope: create_meeting_agent'')
      else
        if_authorized V BOOKING_AUTHORIZED token thread_id
          (andthen (call_business_api V ''POST'' ''/meetings/'' token
              (Some (JObj (dict_without arguments ''thread_id'')))) (\<lambda>resp.
            if status resp = 201 then
              andthen (finalize_action (ag_kv V) thread_id) (\<lambda>_.
              andthen (lift_res (json_of resp)) (\<lambda>j.
                ret (text_result V [(''status'', JStr ''booked''), (''meeting'', j)])))
            else ret (api_error resp))))"

definition meeting_path :: "('w, 'd, 'k) agent_env \<Rightarrow> json \<Rightarrow> string" where
  "meeting_path V meeting_id = ''/meetings/'' @ py_str (ag_fr V) meeting_id"

definition handle_delete_meeting ::
  "('w, 'd, 'k) agent_env \<Rightarrow> json \<Rightarrow> dict \<Rightarrow> string list \<Rightarrow> string \<Rightarrow> json \<Rightarrow> ('w, 'd, 'z) tool_run" where
  "handle_delete_meeting V token arguments scopes thread_id agent_name =
     (if \<not> require_agent_scope scopes ''delete_meeting'' then
        ret (error_result ''Error: Forbidden. Missing scope: delete_meeting_agent'')
      else
        if_authorized V DELETE_AUTHORIZED token thread_id
          (let meeting_id = opt_json (dict_get arguments ''meeting_id'') in
           andthen (call_business_api V ''DELETE'' (meeting_path V meeting_id) token None) (\<lambda>resp.
             if status resp = 204 then
               andthen (finalize_action (ag_kv V) thread_id) (\<lambda>_.
                 ret (text_result V [(''status'', JStr ''deleted''), (''meeting_id'', meeting_id)]))
             else ret (api_error resp))))"

definition meeting_data :: "dict \<Rightarrow> dict" where
  "meeting_data arguments =
     map (\<lambda>k. (k, opt_json (dict_get arguments k))) [''topic'', ''date'', ''start_time'', ''duration'', ''time_zone'']"

definition handle_update_meeting ::
  "('w, 'd, 'k) agent_env \<Rightarrow> json \<Rightarrow> dict \<Rightarrow> string list \<Rightarrow> string \<Rightarrow> json \<Rightarrow> ('w, 'd, 'z) tool_run" where
  "handle_update_meeting V token arguments scopes thread_id agent_name =
     (if \<not> require_agent_scope scopes ''update_meeting'' then
        ret (error_result ''Error: Forbidden. Missing scope: update_meeting_agent'')
      else
        if_authorized V UPDATE_AUTHORIZED token thread_id
          (let meeting_id = opt_json (dict_get arguments ''meeting_id'') in
           andthen (call_business_api V ''PUT'' (meeting_path V meeting_id) token
               (Some (JObj (meeting_data arguments)))) (\<lambda>resp.
             if status resp = 200 then
               andthen (finalize_action (ag_kv V) thread_id) (\<lambda>_.
               andthen (lift_res (json_of resp)) (\<lambda>j.
                 ret (text_result V [(''status'', JStr ''updated''), (''meeting'', j)])))
             else ret (api_error resp))))"

definition tool_handlers ::
  "('w, 'd, 'k) agent_env \<Rightarrow>
     (string \<times> (json \<Rightarrow> dict \<Rightarrow> string list \<Rightarrow> string \<Rightarrow> json \<Rightarrow> ('w, 'd, 'z) tool_run)) list" where
  "tool_handlers V =
     [(''list_meetings'', handle_list_meetings V),
      (''schedule_meeting_preview'', handle_schedule_meeting_preview V),
      (''schedule_meeting'', handle_schedule_meeting V),
      (''delete_meeting_preview'', handle_delete_meeting_preview V),
      (''delete_meeting'', handle_delete_meeting V),
      (''update_meeting_preview'', handle_update_meeting_preview V),
      (''update_meeting'', handle_update_meeting V)]"

definition check_mcp_token ::
  "('w, 'd, 'k) agent_env \<Rightarrow> json \<Rightarrow> (('w, 'd, 'z) mcp_state_scheme, string + string list) prog" where
  "check_mcp_token V token =
     catch (andthen (validate_mcp_token V token) (\<lambda>decoded.
            andthen (lift_res (decoded_scopes decoded)) (\<lambda>scopes. ret (Inr scopes))))
       (\<lambda>e. ret (Inl (''Error: Unauthorized. Invalid token: '' @ exn_str V e)))"

text \<open>A call with the token of the context variable, \<open>JNull\<close> when it has none.\<close>

definition call_tool ::
  "('w, 'd, 'k) agent_env \<Rightarrow> json \<Rightarrow> string \<Rightarrow> dict \<Rightarrow> ('w, 'd, 'z) tool_run" where
  "call_tool V token n arguments =
     (if \<not> truthy token then ret (error_result ''Error: Unauthorized. Missing bearer token.'')
      else
        andthen (check_mcp_token V token) (\<lambda>checked.
        (case checked of
           Inl message \<Rightarrow> ret (error_result message)
         | Inr scopes \<Rightarrow>
             (let thread_id = py_str (ag_fr V) (get_or arguments ''thread_id'' (JStr '''')) in
              andthen (get_agent_name (ag_kv V) thread_id) (\<lambda>agent_name.
              (case map_of (tool_handlers V) n of
                 None \<Rightarrow> ret (error_result (''Error: Unknown tool: '' @ n))
               | Some handler \<Rightarrow> handler token arguments scopes thread_id agent_name))))))"

subsection \<open>What the steps send\<close>

lemma token_reads_send [simp, intro]:
  "sends A (live_token K ns k)" "sends A (get_obo_token K k)" "sends A (get_obo_jwt_raw K k)"
  "sends A (get_agent_jwt_raw K k)" "sends A (clear_obo_tokens K k)" "sends A (finalize_action K k)"
  unfolding live_token_def get_obo_token_def get_obo_jwt_raw_def get_agent_jwt_raw_def clear_obo_tokens_def
    finalize_action_def
  by (intro sends_intros kv_sends state_sends)+

lemma record_preview_sends [simp, intro]: "sends A (record_preview V k f m u)"
  unfolding record_preview_def by (intro sends_intros state_sends)

definition jwks_request :: "('w, 'd, 'k) agent_env \<Rightarrow> request" where
  "jwks_request V = get (jwks_url (ag_is_base_url (ag_cfg V)) (ag_tenant_path (ag_cfg V))) [] []"

lemma mcp_get_jwks_sends: "jwks_request V \<in> A \<Longrightarrow> sends A (mcp_get_jwks V)"
  unfolding mcp_get_jwks_def fetch_jwks_def stale_jwks_def jwks_cache_set_def
  by (intro sends_intros sends_send sends_modify) (auto simp: jwks_request_def split: sum.splits
      intro!: sends_intros sends_modify)

lemma validate_mcp_token_sends: "jwks_request V \<in> A \<Longrightarrow> sends A (validate_mcp_token V token)"
  unfolding validate_mcp_token_def by (intro sends_intros mcp_get_jwks_sends)

lemma check_mcp_token_sends: "jwks_request V \<in> A \<Longrightarrow> sends A (check_mcp_token V token)"
  unfolding check_mcp_token_def by (intro sends_intros validate_mcp_token_sends)

abbreviation gets :: "request set" where "gets \<equiv> {q. meth q = ''GET''}"

lemma jwks_request_get [simp]: "meth (jwks_request V) = ''GET''"
  by (simp add: jwks_request_def get_def)

lemma upper_methods [simp]:
  "upper ''GET'' = ''GET''" "upper ''POST'' = ''POST''" "upper ''PUT'' = ''PUT''" "upper ''DELETE'' = ''DELETE''"
  by (simp_all add: upper_def upper_char_def)

lemma call_get_sends: "sends gets (call_business_api V ''GET'' p token b)"
  unfolding call_business_api_def by (intro sends_intros sends_send) (simp_all add: api_request_def)

text \<open>The list handler and the previews change nothing at the Business API.\<close>

lemma list_and_previews_send:
  "sends gets (handle_list_meetings V token args scopes k nm)"
  "sends gets (handle_schedule_meeting_preview V token args scopes k nm)"
  "sends gets (handle_delete_meeting_preview V token args scopes k nm)"
  "sends gets (handle_update_meeting_preview V token args scopes k nm)"
  unfolding handle_list_meetings_def handle_schedule_meeting_preview_def handle_delete_meeting_preview_def
    handle_update_meeting_preview_def Let_def
  by (intro sends_intros state_sends get_agent_credentials_sends token_reads_send record_preview_sends
      call_get_sends)+

subsection \<open>When an action reaches the Business API\<close>

lemma after_reads_fields:
  assumes "after_reads view s t"
  shows "wall t = wall s" "mono t = mono s" "sent t = sent s" "world t = world s" "seen view t = seen view s"
  using assms after_readsD(3) [OF assms] by (auto simp: after_reads_def)

lemma if_authorized_cases:
  assumes K: "kv_store (ag_kv V) view storable" and run: "if_authorized V f token k act s = (r, t)"
  obtains "after_reads view s t" "r = Inr (waiting V) \<or> (\<exists>e. r = Inl e)"
  | u where "after_reads view s u" "act u = (r, t)" "flow_of (seen view s NS_STATE k) = f" "truthy token"
      "live_entry (wall s) (seen view s NS_OBO_TOKEN k) = Inr token"
proof -
  obtain u1 where 1: "get_state (ag_kv V) k s = (Inr (flow_of (seen view s NS_STATE k)), u1)" "after_reads view s u1"
    by (rule readsE [OF kv_store.reads_get_state [OF K]])
  obtain u2 where 2: "live_token (ag_kv V) NS_OBO_TOKEN k u1 =
      (live_entry (wall u1) (seen view u1 NS_OBO_TOKEN k), u2)" "after_reads view u1 u2"
    by (rule kv_store.live_token_exec [OF K])
  have u2: "after_reads view s u2" by (rule after_reads_trans [OF 1(2) 2(2)])
  have e: "live_entry (wall u1) (seen view u1 NS_OBO_TOKEN k) = live_entry (wall s) (seen view s NS_OBO_TOKEN k)"
    using after_reads_fields [OF 1(2)] by simp
  show ?thesis
  proof (cases "live_entry (wall s) (seen view s NS_OBO_TOKEN k)")
    case (Inl x)
    then show ?thesis using run 1 2 e u2 by (intro that(1)) (auto simp: if_authorized_def andthen_def get_obo_token_def)
  next
    case (Inr obo)
    then have go: "(if flow_of (seen view s NS_STATE k) \<noteq> f \<or> \<not> truthy obo \<or> token \<noteq> obo
        then ret (waiting V) else act) u2 = (r, t)"
      using run 1 2 e by (simp add: if_authorized_def andthen_def get_obo_token_def)
    show ?thesis
    proof (cases "flow_of (seen view s NS_STATE k) \<noteq> f \<or> \<not> truthy obo \<or> token \<noteq> obo")
      case True
      then have "ret (waiting V) u2 = (r, t)" using go by (simp only: if_True)
      then show ?thesis using u2 by (intro that(1)) simp_all
    next
      case False
      then have "act u2 = (r, t)" using go by (simp only: if_False)
      then show ?thesis using False u2 Inr by (intro that(2) [of u2]) simp_all
    qed
  qed
qed

lemma call_then_sends:
  assumes "andthen (call_business_api V m p token b) rest s = (r, t)" and "m \<in> {''POST'', ''PUT'', ''DELETE''}"
    and "\<And>x. sends {} (rest x)"
  obtains b' where "sent t = sent s @ [api_request V m p token b']"
proof -
  have um: "upper m = m" "m \<noteq> ''GET''" using assms(2) by auto
  define b' where "b' = (if m = ''DELETE'' then None else b)"
  have c: "call_business_api V m p token b = send (ag_net V) (api_request V m p token b')"
    using assms(2) um by (auto simp: call_business_api_def b'_def fun_eq_iff)
  obtain a u where u: "send (ag_net V) (api_request V m p token b') s = (a, u)"
    by (cases "send (ag_net V) (api_request V m p token b') s")
  then have su: "sent u = sent s @ [api_request V m p token b']"
    using send_sent [of "ag_net V" "api_request V m p token b'" s] by simp
  have "sent t = sent u"
  proof (cases a)
    case (Inr x)
    then have "rest x u = (r, t)" using assms(1) by (simp add: c andthen_def u)
    from sendsD [OF assms(3) this] show ?thesis by auto
  qed (use assms(1) in \<open>simp add: c andthen_def u\<close>)
  then show ?thesis using that su by simp
qed

text \<open>What an action needs, and the one request it sends then.\<close>

definition delegated ::
  "('d \<Rightarrow> real \<Rightarrow> string \<Rightarrow> string \<Rightarrow> json) \<Rightarrow> json \<Rightarrow> string \<Rightarrow> string list \<Rightarrow> string \<Rightarrow> flow_state
     \<Rightarrow> ('w, 'd, 'z) mcp_state_scheme \<Rightarrow> bool" where
  "delegated view token k scopes base_scope f s \<longleftrightarrow>
     base_scope @ ''_agent'' \<in> set scopes \<and> flow_of (seen view s NS_STATE k) = f \<and> truthy token \<and>
     live_entry (wall s) (seen view s NS_OBO_TOKEN k) = Inr token"

lemma action_run:
  assumes K: "kv_store (ag_kv V) view storable"
    and run: "(if \<not> require_agent_scope scopes sc then ret e
      else if_authorized V f token k (andthen (call_business_api V m p token b) rest)) s = (r, t)"
    and m: "m \<in> {''POST'', ''PUT'', ''DELETE''}" and rest: "\<And>x. sends {} (rest x)"
  shows "sent t = sent s \<or> delegated view token k scopes sc f s \<and> (\<exists>b'. sent t = sent s @ [api_request V m p token b'])"
proof (cases "require_agent_scope scopes sc")
  case True
  then have run': "if_authorized V f token k (andthen (call_business_api V m p token b) rest) s = (r, t)"
    using run by simp
  show ?thesis
  proof (rule if_authorized_cases [OF K run'])
    assume "after_reads view s t" then show ?thesis by (simp add: after_reads_fields)
  next
    fix u
    assume u: "after_reads view s u" "andthen (call_business_api V m p token b) rest u = (r, t)"
      "flow_of (seen view s NS_STATE k) = f" "truthy token"
      "live_entry (wall s) (seen view s NS_OBO_TOKEN k) = Inr token"
    obtain b' where "sent t = sent u @ [api_request V m p token b']"
      by (rule call_then_sends [OF u(2) m rest])
    then show ?thesis
      using True u after_reads_fields [OF u(1)] by (auto simp: delegated_def require_agent_scope_def)
  qed
qed (use run in simp)

lemma schedule_run:
  assumes "kv_store (ag_kv V) view storable" and "handle_schedule_meeting V token args scopes k nm s = (r, t)"
  shows "sent t = sent s \<or> delegated view token k scopes ''create_meeting'' BOOKING_AUTHORIZED s \<and>
    (\<exists>b. sent t = sent s @ [api_request V ''POST'' ''/meetings/'' token b])"
  by (rule action_run [OF assms(1) assms(2) [unfolded handle_schedule_meeting_def]])
     (simp_all add: sends_intros token_reads_send)

lemma delete_run:
  assumes "kv_store (ag_kv V) view storable" and "handle_delete_meeting V token args scopes k nm s = (r, t)"
  shows "sent t = sent s \<or> delegated view token k scopes ''delete_meeting'' DELETE_AUTHORIZED s \<and>
    (\<exists>b. sent t = sent s @ [api_request V ''DELETE'' (meeting_path V (opt_json (dict_get args ''meeting_id''))) token b])"
  by (rule action_run [OF assms(1) assms(2) [unfolded handle_delete_meeting_def Let_def]])
     (simp_all add: sends_intros token_reads_send)

lemma update_run:
  assumes "kv_store (ag_kv V) view storable" and "handle_update_meeting V token args scopes k nm s = (r, t)"
  shows "sent t = sent s \<or> delegated view token k scopes ''update_meeting'' UPDATE_AUTHORIZED s \<and>
    (\<exists>b. sent t = sent s @ [api_request V ''PUT'' (meeting_path V (opt_json (dict_get args ''meeting_id''))) token b])"
  by (rule action_run [OF assms(1) assms(2) [unfolded handle_update_meeting_def Let_def]])
     (simp_all add: sends_intros token_reads_send)

text \<open>The tools that change meetings: the scope, the flow state and the method each is for.\<close>

definition mcp_actions :: "(string \<times> string \<times> flow_state \<times> string) list" where
  "mcp_actions =
     [(''schedule_meeting'', ''create_meeting'', BOOKING_AUTHORIZED, ''POST''),
      (''delete_meeting'', ''delete_meeting'', DELETE_AUTHORIZED, ''DELETE''),
      (''update_meeting'', ''update_meeting'', UPDATE_AUTHORIZED, ''PUT'')]"

lemma handler_run:
  assumes K: "kv_store (ag_kv V) view storable" and h: "map_of (tool_handlers V) n = Some h"
    and run: "h token args scopes k nm s = (r, t)"
  shows "(\<exists>qs. sent t = sent s @ qs \<and> set qs \<subseteq> gets) \<or>
    (\<exists>sc f m p b. (n, sc, f, m) \<in> set mcp_actions \<and> delegated view token k scopes sc f s \<and>
       sent t = sent s @ [api_request V m p token b])"
proof -
  have quiet: "\<exists>qs. sent t = sent s @ qs \<and> set qs \<subseteq> gets" if "sends gets (h token args scopes k nm)"
    by (rule sendsD [OF that run]) blast
  have act: ?thesis if "(n, sc, f, m) \<in> set mcp_actions" and "sent t = sent s \<or>
      delegated view token k scopes sc f s \<and> (\<exists>b. sent t = sent s @ [api_request V m p token b])" for sc f m p
  proof (cases "sent t = sent s")
    case False
    then show ?thesis using that by blast
  qed simp
  have acts: "(''schedule_meeting'', ''create_meeting'', BOOKING_AUTHORIZED, ''POST'') \<in> set mcp_actions"
    "(''delete_meeting'', ''delete_meeting'', DELETE_AUTHORIZED, ''DELETE'') \<in> set mcp_actions"
    "(''update_meeting'', ''update_meeting'', UPDATE_AUTHORIZED, ''PUT'') \<in> set mcp_actions"
    unfolding mcp_actions_def by (simp_all only: list.set insert_iff simp_thms)
  from map_of_SomeD [OF h] show ?thesis
    unfolding tool_handlers_def list.set insert_iff empty_iff prod.inject
  proof (elim disjE conjE FalseE)
    assume n: "n = ''schedule_meeting''" and "h = handle_schedule_meeting V"
    then have run': "handle_schedule_meeting V token args scopes k nm s = (r, t)" using run by (simp only:)
    have "(n, ''create_meeting'', BOOKING_AUTHORIZED, ''POST'') \<in> set mcp_actions" unfolding n by (rule acts(1))
    from act [OF this schedule_run [OF K run']] show ?thesis .
  next
    assume n: "n = ''delete_meeting''" and "h = handle_delete_meeting V"
    then have run': "handle_delete_meeting V token args scopes k nm s = (r, t)" using run by (simp only:)
    have "(n, ''delete_meeting'', DELETE_AUTHORIZED, ''DELETE'') \<in> set mcp_actions" unfolding n by (rule acts(2))
    from act [OF this delete_run [OF K run']] show ?thesis .
  next
    assume n: "n = ''update_meeting''" and "h = handle_update_meeting V"
    then have run': "handle_update_meeting V token args scopes k nm s = (r, t)" using run by (simp only:)
    have "(n, ''update_meeting'', UPDATE_AUTHORIZED, ''PUT'') \<in> set mcp_actions" unfolding n by (rule acts(3))
    from act [OF this update_run [OF K run']] show ?thesis .
  qed (simp_all only: quiet list_and_previews_send simp_thms)
qed

lemma check_mcp_token_Inr:
  assumes "check_mcp_token V token s = (Inr (Inr scopes), u)"
  obtains decoded where "validate_mcp_token V token s = (Inr decoded, u)" "decoded_scopes decoded = Inr scopes"
  using assms that by (auto simp: check_mcp_token_def catch_Inr_conv andthen_Inr_conv)

lemma validate_mcp_token_Inr:
  assumes "validate_mcp_token V token s = (Inr decoded, u)"
  shows "\<exists>tok key. token = JStr tok \<and> jwt_decode (ag_jwt V) tok key [''RS256''] (ag_client_id (ag_cfg V))
    (token_issuer (ag_is_base_url (ag_cfg V)) (ag_tenant_path (ag_cfg V))) (ag_skew V) (wall u) = Inr decoded"
  using assms
  by (auto simp: validate_mcp_token_def andthen_Inr_conv token_text_def split: option.splits json.splits)

lemma call_tool_cases:
  fixes V :: "('w, 'd, 'k) agent_env" and s :: "('w, 'd, 'z) mcp_state_scheme"
  assumes K: "kv_store (ag_kv V) view storable" and run: "call_tool V token n args s = (r, t)"
  obtains "\<exists>qs. sent t = sent s @ qs \<and> set qs \<subseteq> {jwks_request V}"
  | scopes u w nm h where "check_mcp_token V token s = (Inr (Inr scopes), u)" "after_reads view u w"
      "map_of (tool_handlers V) n = Some h"
      "h token args scopes (py_str (ag_fr V) (get_or args ''thread_id'' (JStr ''''))) nm w = (r, t)"
proof (cases "truthy token")
  case False
  then show ?thesis using run by (intro that(1)) (simp add: call_tool_def)
next
  case True
  let ?k = "py_str (ag_fr V) (get_or args ''thread_id'' (JStr ''''))"
  obtain c u where c: "check_mcp_token V token s = (c, u)" by (cases "check_mcp_token V token s")
  obtain qs where qs: "sent u = sent s @ qs" "set qs \<subseteq> {jwks_request V}"
    by (rule sendsD [OF check_mcp_token_sends [OF singletonI] c])
  obtain w where w: "get_agent_name (ag_kv V) ?k u = (Inr (if seen view u NS_AGENT_NAME ?k = JNull
      then JStr DEFAULT_AGENT_NAME else seen view u NS_AGENT_NAME ?k), w)" "after_reads view u w"
    unfolding get_agent_name_def by (rule readsE [OF kv_store.reads_sm_fetch [OF K]])
  have quiet: "\<exists>qs. sent t = sent s @ qs \<and> set qs \<subseteq> {jwks_request V}" if "sent t = sent u"
    using qs that by auto
  show ?thesis
  proof (cases c)
    case (Inl e)
    then have "t = u" using run True by (simp add: call_tool_def andthen_def c)
    then show ?thesis using quiet that(1) by simp
  next
    case (Inr x)
    show ?thesis
    proof (cases x)
      case (Inl m)
      then have "t = u" using run True \<open>c = Inr x\<close> by (simp add: call_tool_def andthen_def c)
      then show ?thesis using quiet that(1) by simp
    next
      case (Inr scopes)
      show ?thesis
      proof (cases "map_of (tool_handlers V) n ::
          (json \<Rightarrow> dict \<Rightarrow> string list \<Rightarrow> string \<Rightarrow> json \<Rightarrow> ('w, 'd, 'z) tool_run) option")
        case None
        then have "t = w"
          using run True \<open>c = Inr x\<close> Inr by (simp add: call_tool_def andthen_def c w(1) Let_def)
        then show ?thesis using quiet that(1) after_reads_fields(3) [OF w(2)] by simp
      next
        case (Some h)
        have ci: "check_mcp_token V token s = (Inr (Inr scopes), u)" using c \<open>c = Inr x\<close> Inr by simp
        show ?thesis
          by (rule that(2) [OF ci w(2) Some]) (use run True in \<open>simp add: call_tool_def andthen_def ci w(1) Some Let_def\<close>)
      qed
    qed
  qed
qed

subsection \<open>After an action\<close>

lemma finalize_run:
  assumes "json_store K view storable" and "0 \<le> mono s"
  obtains t where "finalize_action K k s = (Inr (), t)" "flow_of (seen view t NS_STATE k) = INITIAL"
    "seen view t NS_PENDING k = JNull" "gone view NS_OBO_TOKEN k t" "mono t = mono s" "sent t = sent s"
proof -
  have K: "kv_store K view storable" using assms(1) by (simp add: json_store_def)
  let ?s1 = "snd (set_state K k INITIAL s)"
  let ?s2 = "snd (delete_kv K NS_PENDING k ?s1)"
  let ?s3 = "snd (delete_kv K NS_OBO_TOKEN k ?s2)"
  let ?t = "snd (delete_kv K NS_AGENT_TOKEN k ?s3)"
  have run: "finalize_action K k s = (Inr (), ?t)"
    by (simp add: finalize_action_def set_state_def sm_put_def put_kv_def clear_pending_meeting_def
        clear_obo_tokens_def delete_kv_def andthen_def)
  have mono: "mono ?t = mono s" by (simp add: set_state_def sm_put_def put_kv_def delete_kv_def)
  have "seen view ?s1 NS_STATE k = JStr (flow_value INITIAL)"
    unfolding set_state_def sm_put_def
    using kv_store.seen_put [OF K, of NS_STATE NS_STATE "JStr (flow_value INITIAL)" s DEFAULT_TTL_SECONDS k k]
      json_store.storable_str [OF assms(1)] assms(2) by (simp del: flow_value.simps)
  then have "flow_of (seen view ?t NS_STATE k) = INITIAL"
    by (simp add: kv_store.seen_delete [OF K] ns_other del: flow_value.simps)
  moreover have "seen view ?t NS_PENDING k = JNull"
    by (simp add: kv_store.seen_delete [OF K] ns_other)
  moreover have "gone view NS_OBO_TOKEN k ?s3"
    by (rule kv_store.gone_after_delete [OF K]) simp
  then have "gone view NS_OBO_TOKEN k ?t"
    by (rule kv_store.held_delete [OF K, unfolded stable_def, rule_format, rotated 3]) simp_all
  moreover have "sent ?t = sent s" by (simp add: set_state_def sm_put_def)
  ultimately show ?thesis using that run mono by blast
qed

text \<open>Without a live OBO token an action does nothing.\<close>

lemma action_without_token:
  assumes K: "kv_store (ag_kv V) view storable" and gone: "seen view s NS_OBO_TOKEN k = JNull"
  shows "sent (snd (if_authorized V f token k act s)) = sent s"
proof -
  obtain r t where run: "if_authorized V f token k act s = (r, t)" by (cases "if_authorized V f token k act s")
  show ?thesis
  proof (rule if_authorized_cases [OF K run])
    assume "after_reads view s t" then show ?thesis by (simp add: run after_reads_fields)
  next
    fix u assume "truthy token" "live_entry (wall s) (seen view s NS_OBO_TOKEN k) = Inr token"
    then show ?thesis using gone by (auto simp: live_entry_def)
  qed
qed

text \<open>The three actions with the request each sends and the status that means it was done.\<close>

definition action_table ::
  "('w, 'd, 'k) agent_env \<Rightarrow> json \<Rightarrow> dict \<Rightarrow>
     ((json \<Rightarrow> dict \<Rightarrow> string list \<Rightarrow> string \<Rightarrow> json \<Rightarrow> ('w, 'd, 'z) tool_run) \<times> request \<times> int) list" where
  "action_table V token args =
     (let path = meeting_path V (opt_json (dict_get args ''meeting_id'')) in
      [(handle_schedule_meeting V,
          api_request V ''POST'' ''/meetings/'' token (Some (JObj (dict_without args ''thread_id''))), 201),
       (handle_delete_meeting V, api_request V ''DELETE'' path token None, 204),
       (handle_update_meeting V, api_request V ''PUT'' path token (Some (JObj (meeting_data args))), 200)])"

lemma call_api_send:
  "call_business_api V ''POST'' p token b = send (ag_net V) (api_request V ''POST'' p token b)"
  "call_business_api V ''PUT'' p token b = send (ag_net V) (api_request V ''PUT'' p token b)"
  "call_business_api V ''DELETE'' p token b = send (ag_net V) (api_request V ''DELETE'' p token None)"
  by (simp_all add: call_business_api_def)

text \<open>What is left of a thread after an action was done.\<close>

definition spent ::
  "('d \<Rightarrow> real \<Rightarrow> string \<Rightarrow> string \<Rightarrow> json) \<Rightarrow> string \<Rightarrow> ('w, 'd, 'z) store_state_scheme \<Rightarrow> bool" where
  "spent view k s \<longleftrightarrow> flow_of (seen view s NS_STATE k) = INITIAL \<and> seen view s NS_PENDING k = JNull \<and>
     gone view NS_OBO_TOKEN k s"

lemma authorized_success:
  assumes S: "json_store (ag_kv V) view storable" and net: "net_causal (ag_net V)" and pos: "0 \<le> mono s"
    and run: "if_authorized V f token k (andthen (send (ag_net V) q) rest) s = (r, t)"
    and did: "sent t \<noteq> sent s" and ans: "fst (ag_net V q (world s)) = Inr resp"
    and rest: "rest resp = andthen (finalize_action (ag_kv V) k) (\<lambda>_. g)" and g: "\<And>u. snd (g u) = u"
  shows "spent view k t"
proof -
  have K: "kv_store (ag_kv V) view storable" using S by (simp add: json_store_def)
  show ?thesis
  proof (rule if_authorized_cases [OF K run])
    assume "after_reads view s t" then show ?thesis using did by (simp add: after_reads_fields)
  next
    fix u assume u: "after_reads view s u" "andthen (send (ag_net V) q) rest u = (r, t)"
    obtain v where v: "send (ag_net V) q u = (Inr resp, v)" "mono u \<le> mono v"
      using ans after_reads_fields(4) [OF u(1)] send_mono [OF net, of u q]
      by (auto simp: send_def split: prod.splits)
    have "0 \<le> mono v" using v(2) pos after_reads_fields(2) [OF u(1)] by simp
    from finalize_run [OF S this] obtain w where w: "finalize_action (ag_kv V) k v = (Inr (), w)"
      "flow_of (seen view w NS_STATE k) = INITIAL" "seen view w NS_PENDING k = JNull" "gone view NS_OBO_TOKEN k w"
      by blast
    have "g w = (r, t)" using u(2) by (simp add: andthen_def v(1) rest w(1))
    then have "t = w" using g [of w] by simp
    then show ?thesis using w by (simp add: spent_def)
  qed
qed

lemma tail_quiet: "snd (andthen (lift_res x) (\<lambda>j. ret (f j)) u) = u"
  by (cases x) simp_all

lemma if_run:
  assumes "(if b then ret e else act) s = (r, t)" and "sent t \<noteq> sent s"
  shows "act s = (r, t)"
  using assms by (auto split: if_splits)

lemma action_success:
  assumes S: "json_store (ag_kv V) view storable" and net: "net_causal (ag_net V)" and pos: "0 \<le> mono s"
    and h: "(h, q, n) \<in> set (action_table V token args)" and run: "h token args scopes k nm s = (r, t)"
    and did: "sent t \<noteq> sent s" and ans: "fst (ag_net V q (world s)) = Inr resp" and st: "status resp = n"
  shows "spent view k t"
  using h unfolding action_table_def Let_def list.set insert_iff empty_iff prod.inject
proof (elim disjE conjE FalseE)
  assume c: "h = handle_schedule_meeting V"
    "q = api_request V ''POST'' ''/meetings/'' token (Some (JObj (dict_without args ''thread_id'')))" "n = 201"
  show ?thesis
    by (rule authorized_success [OF S net pos
          if_run [OF run [unfolded c handle_schedule_meeting_def call_api_send] did] did ans [unfolded c]])
       (simp add: st c, simp add: tail_quiet)
next
  assume c: "h = handle_delete_meeting V"
    "q = api_request V ''DELETE'' (meeting_path V (opt_json (dict_get args ''meeting_id''))) token None" "n = 204"
  show ?thesis
    by (rule authorized_success [OF S net pos
          if_run [OF run [unfolded c handle_delete_meeting_def call_api_send Let_def] did] did ans [unfolded c]])
       (simp add: st c, simp)
next
  assume c: "h = handle_update_meeting V"
    "q = api_request V ''PUT'' (meeting_path V (opt_json (dict_get args ''meeting_id''))) token
       (Some (JObj (meeting_data args)))" "n = 200"
  show ?thesis
    by (rule authorized_success [OF S net pos
          if_run [OF run [unfolded c handle_update_meeting_def call_api_send Let_def] did] did ans [unfolded c]])
       (simp add: st c, simp add: tail_quiet)
qed

lemma action_quiet_when_gone:
  assumes K: "kv_store (ag_kv V) view storable" and gone: "seen view s NS_OBO_TOKEN k = JNull"
    and h: "(h, q, n) \<in> set (action_table V token args)"
  shows "sent (snd (h token' args' scopes k nm s)) = sent s"
  using h unfolding action_table_def Let_def list.set insert_iff empty_iff prod.inject
  by (elim disjE conjE FalseE)
     (simp_all add: handle_schedule_meeting_def handle_delete_meeting_def handle_update_meeting_def Let_def
       action_without_token [OF K gone])

lemma seen_later: "seen view (later dt s) ns k = view (store s) (mono s + dt) ns k"
  by (simp add: seen_def)

subsection \<open>Properties\<close>

text \<open>
  C11: a tool call sends a request other than a GET only as the one request of an action, with
  the bearer token itself, after the token was verified for this application (RS256, audience,
  issuer) and carries the action's \<open>_agent\<close> scope, when the user has consented to that very
  kind of action in this chat thread (its flow state) and the token is the live OBO token the
  consent gave the thread. All it may send before is the request for the signing keys.
\<close>

theorem mcp_changes_need_delegated_consent:
  fixes V :: "('w, 'd, 'k) agent_env" and s :: "('w, 'd, 'z) mcp_state_scheme"
  assumes "kv_store (ag_kv V) view storable" and "call_tool V token n args s = (r, t)"
    and "sent t = sent s @ qs" and "q \<in> set qs" and "meth q \<noteq> ''GET''"
    and "k = py_str (ag_fr V) (get_or args ''thread_id'' (JStr ''''))"
  shows "\<exists>tok key decoded scopes u sc f m p b pre.
    token = JStr tok \<and> tok \<noteq> [] \<and> validate_mcp_token V token s = (Inr decoded, u) \<and>
    jwt_decode (ag_jwt V) tok key [''RS256''] (ag_client_id (ag_cfg V))
      (token_issuer (ag_is_base_url (ag_cfg V)) (ag_tenant_path (ag_cfg V))) (ag_skew V) (wall u) = Inr decoded \<and>
    decoded_scopes decoded = Inr scopes \<and> (n, sc, f, m) \<in> set mcp_actions \<and> sc @ ''_agent'' \<in> set scopes \<and>
    flow_of (seen view u NS_STATE k) = f \<and> fst (get_obo_token (ag_kv V) k u) = Inr token \<and>
    q = api_request V m p token b \<and> qs = pre @ [q] \<and> set pre \<subseteq> {jwks_request V}"
proof (rule call_tool_cases [OF assms(1,2)])
  assume "\<exists>qs. sent t = sent s @ qs \<and> set qs \<subseteq> {jwks_request V}"
  then show ?thesis using assms(3-5) by auto
next
  fix scopes u w nm and h :: "json \<Rightarrow> dict \<Rightarrow> string list \<Rightarrow> string \<Rightarrow> json \<Rightarrow> ('w, 'd, 'z) tool_run"
  assume c: "check_mcp_token V token s = (Inr (Inr scopes), u)" and w: "after_reads view u w"
    and h: "map_of (tool_handlers V) n = Some h"
    and run: "h token args scopes (py_str (ag_fr V) (get_or args ''thread_id'' (JStr ''''))) nm w = (r, t)"
  obtain pre where pre: "sent u = sent s @ pre" "set pre \<subseteq> {jwks_request V}"
    by (rule sendsD [OF check_mcp_token_sends [OF singletonI] c])
  obtain decoded where d: "validate_mcp_token V token s = (Inr decoded, u)" "decoded_scopes decoded = Inr scopes"
    by (rule check_mcp_token_Inr [OF c])
  from validate_mcp_token_Inr [OF d(1)] obtain tok key where j: "token = JStr tok"
    "jwt_decode (ag_jwt V) tok key [''RS256''] (ag_client_id (ag_cfg V))
      (token_issuer (ag_is_base_url (ag_cfg V)) (ag_tenant_path (ag_cfg V))) (ag_skew V) (wall u) = Inr decoded"
    by blast
  note W = after_reads_fields [OF w]
  from handler_run [OF assms(1) h run [folded assms(6)]] show ?thesis
  proof (elim disjE exE conjE)
    fix qs' assume "sent t = sent w @ qs'" "set qs' \<subseteq> gets"
    then show ?thesis using pre assms(3-5) W(3) by auto
  next
    fix sc f m p b
    assume a: "(n, sc, f, m) \<in> set mcp_actions" "delegated view token k scopes sc f w"
      "sent t = sent w @ [api_request V m p token b]"
    have qs: "qs = pre @ [api_request V m p token b]" using a(3) assms(3) pre(1) W(3) by simp
    then have q: "q = api_request V m p token b" using assms(4,5) pre(2) by auto
    have del: "sc @ ''_agent'' \<in> set scopes" "flow_of (seen view u NS_STATE k) = f" "truthy token"
      "live_entry (wall u) (seen view u NS_OBO_TOKEN k) = Inr token"
      using a(2) W by (simp_all add: delegated_def)
    obtain x where "live_token (ag_kv V) NS_OBO_TOKEN k u = (live_entry (wall u) (seen view u NS_OBO_TOKEN k), x)"
      by (rule kv_store.live_token_exec [OF assms(1)])
    then have "fst (get_obo_token (ag_kv V) k u) = Inr token" using del(4) by (simp add: get_obo_token_def)
    moreover have "tok \<noteq> []" using del(3) j(1) by simp
    ultimately show ?thesis using j d a(1) del(1,2) q qs pre(2) by blast
  qed
qed

text \<open>
  C12: a consent is good for one action. When the Business API confirms an action, the thread's
  flow state is \<open>INITIAL\<close> again, nothing is pending and the OBO token is gone for good; whichever
  action is then called for the thread, at whatever later time, with whatever token, arguments
  and scopes, it sends nothing.
\<close>

theorem mcp_consent_is_spent_by_one_action:
  assumes "json_store (ag_kv V) view storable" and "net_causal (ag_net V)" and "0 \<le> mono s"
    and "(h, q, n) \<in> set (action_table V token args)" and "h token args scopes k nm s = (r, t)"
    and "sent t \<noteq> sent s" and "fst (ag_net V q (world s)) = Inr resp" and "status resp = n"
    and "(h', q', n') \<in> set (action_table V token' args')" and "0 \<le> dt"
  shows "fst (get_state (ag_kv V) k t) = Inr INITIAL \<and> fst (get_pending_meeting (ag_kv V) k t) = Inr JNull \<and>
    fst (get_obo_token (ag_kv V) k (later dt t)) = Inr JNull \<and>
    sent (snd (h' token' args' scopes' k nm' (later dt t))) = sent t"
proof -
  have K: "kv_store (ag_kv V) view storable" using assms(1) by (simp add: json_store_def)
  have sp: "spent view k t" by (rule action_success [OF assms(1-8)])
  have gone: "seen view (later dt t) NS_OBO_TOKEN k = JNull"
    using sp assms(10) by (simp add: spent_def held_def seen_later)
  have "fst (get_state (ag_kv V) k t) = Inr INITIAL"
    using json_store.get_state_later [OF assms(1), of k t] sp by (simp add: spent_def seen_def)
  moreover obtain u where "get_pending_meeting (ag_kv V) k t = (Inr (if seen view t NS_PENDING k = JNull
      then JNull else seen view t NS_PENDING k), u)"
    unfolding get_pending_meeting_def by (rule readsE [OF kv_store.reads_sm_fetch [OF K]])
  moreover have "fst (get_obo_token (ag_kv V) k (later dt t)) = Inr JNull"
    using kv_store.live_token_none [OF K gone] by (simp add: get_obo_token_def)
  moreover have "sent (snd (h' token' args' scopes' k nm' (later dt t))) = sent t"
    using action_quiet_when_gone [OF K gone assms(9)] by (simp add: later_def)
  ultimately show ?thesis using sp by (simp add: spent_def)
qed

text \<open>
  the signing keys survive an outage of the identity server. Keys fetched less than 300
  seconds ago are returned with nothing sent. Otherwise they are fetched: new data replace the
  cache, and a failed fetch (transport, status or a body that is not JSON) leaves the cache as it
  was and returns the old keys, or raises a \<open>RuntimeError\<close> when there are none.
\<close>

theorem mcp_jwks_survives_outages:
  "case mcp_get_jwks V s of (r, t) \<Rightarrow>
     (if jwks_get_fresh s \<noteq> JNull then r = Inr (mcp_jwks s) \<and> t = s
      else case fetch_jwks V s of
        (Inr data, u) \<Rightarrow> t = u\<lparr>mcp_jwks := data, mcp_jwks_time := wall u\<rparr> \<and>
          (case data of JObj d \<Rightarrow> (case py_len (get_or d ''keys'' (JList [])) of
             Inr _ \<Rightarrow> r = Inr data | Inl e \<Rightarrow> r = Inl e) | _ \<Rightarrow> r = Inl (AttributeError ''get''))
      | (Inl e, u) \<Rightarrow> t = u \<and> mcp_jwks u = mcp_jwks s \<and> mcp_jwks_time u = mcp_jwks_time s \<and>
          r = (if is_http_error e \<or> is_value_error e
               then if mcp_jwks s \<noteq> JNull then Inr (mcp_jwks s)
                    else Inl (RuntimeError (''Unable to fetch JWKS and no cached copy available: '' @ exn_str V e))
               else Inl e))"
proof -
  obtain r u where f: "fetch_jwks V s = (r, u)" by (cases "fetch_jwks V s")
  have kept: "mcp_jwks u = mcp_jwks s \<and> mcp_jwks_time u = mcp_jwks_time s"
    using f by (auto simp: fetch_jwks_def andthen_def send_def lift_res_def split: prod.splits sum.splits)
  show ?thesis
  proof (cases "jwks_get_fresh s = JNull")
    case True
    show ?thesis
    proof (cases r)
      case (Inl e)
      then show ?thesis
        using True f kept
        by (simp add: mcp_get_jwks_def andthen_def catch_def stale_jwks_def jwks_get_stale_snapshot_def)
    next
      case (Inr data)
      show ?thesis
      proof (cases data)
        case (JObj d)
        then show ?thesis
          using True f kept Inr
          by (cases "py_len (get_or d ''keys'' (JList []))")
            (simp_all add: mcp_get_jwks_def andthen_def catch_def jwks_cache_set_def)
      qed (use True f Inr in \<open>simp_all add: mcp_get_jwks_def andthen_def catch_def jwks_cache_set_def as_obj_def\<close>)
    qed
  qed (simp add: mcp_get_jwks_def jwks_get_fresh_def split: if_splits)
qed

text \<open>
  whatever goes wrong with a token becomes a text result, never an exception, and leaves the
  agent's store alone: no token, a token that does not verify (for any reason the library or the
  key cache gives), and a token whose scope claim is not text.
\<close>

theorem mcp_refuses_bad_tokens:
  "if \<not> truthy token then call_tool V token n args s = (Inr [''Error: Unauthorized. Missing bearer token.''], s)
   else case validate_mcp_token V token s of
     (Inl e, u) \<Rightarrow> store u = store s \<and>
        call_tool V token n args s = (Inr [''Error: Unauthorized. Invalid token: '' @ exn_str V e], u)
   | (Inr decoded, u) \<Rightarrow> store u = store s \<and>
        (case decoded_scopes decoded of
           Inl e \<Rightarrow> call_tool V token n args s = (Inr [''Error: Unauthorized. Invalid token: '' @ exn_str V e], u)
         | Inr _ \<Rightarrow> True)"
proof -
  have send: "keeps store (send (ag_net V) q)" for q
    by (rule keepsI) (rule send_store)
  have get: "keeps store (mcp_get_jwks V)"
    unfolding mcp_get_jwks_def fetch_jwks_def stale_jwks_def jwks_cache_set_def
    by (intro keeps_andthen keeps_catch keeps_if keeps_basic keeps_modify send)
       (auto split: sum.splits prod.splits intro!: keeps_andthen keeps_if keeps_basic keeps_modify)
  have "keeps store (validate_mcp_token V token)"
    unfolding validate_mcp_token_def
    by (intro keeps_andthen get keeps_basic) (auto split: option.splits intro!: keeps_andthen)
  from keepsD [OF this, of s] have "store u = store s" if "validate_mcp_token V token s = (r, u)" for r u
    using that by simp
  then show ?thesis
    by (auto simp: call_tool_def error_result_def andthen_def check_mcp_token_def catch_def
        split: prod.splits sum.splits)
qed

subsection \<open>An authorized action is done\<close>

lemma if_authorized_go:
  assumes K: "kv_store (ag_kv V) view storable" and "flow_of (seen view s NS_STATE k) = f" and "truthy token"
    and "live_entry (wall s) (seen view s NS_OBO_TOKEN k) = Inr token"
  obtains u where "after_reads view s u" "if_authorized V f token k act s = act u"
proof -
  obtain u1 where 1: "get_state (ag_kv V) k s = (Inr (flow_of (seen view s NS_STATE k)), u1)" "after_reads view s u1"
    by (rule readsE [OF kv_store.reads_get_state [OF K]])
  obtain u2 where 2: "live_token (ag_kv V) NS_OBO_TOKEN k u1 =
      (live_entry (wall u1) (seen view u1 NS_OBO_TOKEN k), u2)" "after_reads view u1 u2"
    by (rule kv_store.live_token_exec [OF K])
  have "live_entry (wall u1) (seen view u1 NS_OBO_TOKEN k) = Inr token"
    using after_reads_fields [OF 1(2)] assms(4) by simp
  then have "if_authorized V f token k act s = act u2"
    using 1 2 assms(2,3) by (simp add: if_authorized_def andthen_def get_obo_token_def)
  then show ?thesis using that after_reads_trans [OF 1(2) 2(2)] by blast
qed

lemma call_first_sent:
  assumes "\<And>x. sends {} (rest x)"
  shows "sent (snd (andthen (send net q) rest s)) = sent s @ [q]"
proof -
  obtain a u where u: "send net q s = (a, u)" by (cases "send net q s")
  then have su: "sent u = sent s @ [q]" using send_sent [of net q s] by simp
  show ?thesis
  proof (cases a)
    case (Inr x)
    obtain r t where "rest x u = (r, t)" by (cases "rest x u")
    from sendsD [OF assms this] this show ?thesis using su Inr by (auto simp: andthen_def u)
  qed (simp add: andthen_def u su)
qed

lemma authorized_sends:
  assumes K: "kv_store (ag_kv V) view storable" and a: "flow_of (seen view s NS_STATE k) = f" "truthy token"
    "live_entry (wall s) (seen view s NS_OBO_TOKEN k) = Inr token" and rest: "\<And>x. sends {} (rest x)"
  shows "sent (snd (if_authorized V f token k (andthen (send (ag_net V) q) rest) s)) = sent s @ [q]"
proof -
  obtain u where u: "after_reads view s u"
    "if_authorized V f token k (andthen (send (ag_net V) q) rest) s = andthen (send (ag_net V) q) rest u"
    by (rule if_authorized_go [OF K a])
  show ?thesis unfolding u(2) using after_reads_fields(3) [OF u(1)] by (simp add: call_first_sent rest)
qed

lemma schedule_sends:
  assumes "kv_store (ag_kv V) view storable" and "delegated view token k scopes ''create_meeting'' BOOKING_AUTHORIZED s"
  shows "sent (snd (handle_schedule_meeting V token args scopes k nm s)) = sent s @
    [api_request V ''POST'' ''/meetings/'' token (Some (JObj (dict_without args ''thread_id'')))]"
  using assms(2) unfolding handle_schedule_meeting_def call_api_send delegated_def Let_def
  by (simp add: require_agent_scope_def authorized_sends [OF assms(1)] sends_intros token_reads_send)

lemma delete_sends:
  assumes "kv_store (ag_kv V) view storable" and "delegated view token k scopes ''delete_meeting'' DELETE_AUTHORIZED s"
  shows "sent (snd (handle_delete_meeting V token args scopes k nm s)) = sent s @
    [api_request V ''DELETE'' (meeting_path V (opt_json (dict_get args ''meeting_id''))) token None]"
  using assms(2) unfolding handle_delete_meeting_def call_api_send delegated_def Let_def
  by (simp add: require_agent_scope_def authorized_sends [OF assms(1)] sends_intros token_reads_send)

lemma update_sends:
  assumes "kv_store (ag_kv V) view storable" and "delegated view token k scopes ''update_meeting'' UPDATE_AUTHORIZED s"
  shows "sent (snd (handle_update_meeting V token args scopes k nm s)) = sent s @
    [api_request V ''PUT'' (meeting_path V (opt_json (dict_get args ''meeting_id''))) token
      (Some (JObj (meeting_data args)))]"
  using assms(2) unfolding handle_update_meeting_def call_api_send delegated_def Let_def
  by (simp add: require_agent_scope_def authorized_sends [OF assms(1)] sends_intros token_reads_send)

text \<open>
  C13: the guard is exact. With the action's \<open>_agent\<close> scope, the thread's flow state at
  \<open>AUTHORIZED\<close> for it and the live OBO token, each of the three actions does send its request,
  once: the meeting to book with the given arguments, the meeting to delete, or the five fields
  of the update, under the given meeting id.
\<close>

theorem mcp_authorized_action_is_sent:
  assumes "kv_store (ag_kv V) view storable"
  shows "(delegated view token k scopes ''create_meeting'' BOOKING_AUTHORIZED s \<longrightarrow>
      sent (snd (handle_schedule_meeting V token args scopes k nm s)) = sent s @
        [api_request V ''POST'' ''/meetings/'' token (Some (JObj (dict_without args ''thread_id'')))]) \<and>
    (delegated view token k scopes ''delete_meeting'' DELETE_AUTHORIZED s \<longrightarrow>
      sent (snd (handle_delete_meeting V token args scopes k nm s)) = sent s @
        [api_request V ''DELETE'' (meeting_path V (opt_json (dict_get args ''meeting_id''))) token None]) \<and>
    (delegated view token k scopes ''update_meeting'' UPDATE_AUTHORIZED s \<longrightarrow>
      sent (snd (handle_update_meeting V token args scopes k nm s)) = sent s @
        [api_request V ''PUT'' (meeting_path V (opt_json (dict_get args ''meeting_id''))) token
          (Some (JObj (meeting_data args)))])"
  by (intro conjI impI) (erule schedule_sends [OF assms] delete_sends [OF assms] update_sends [OF assms])+

subsection \<open>Witnesses\<close>

text \<open>
  A thread whose user has consented to a booking: the flow state and the OBO token \<open>a\<close> are in
  the in-memory store, the signing keys in the cache; the Business API answers 201.
\<close>

definition demo_jwks :: json where
  "demo_jwks = JObj [(''keys'', JList [JObj [(''kid'', JStr ''1'')]])]"

definition demo_mcp_env :: "(unit, mem_store, unit) agent_env" where
  "demo_mcp_env = demo_agent\<lparr>
     ag_net := \<lambda>q w. (Inr \<lparr>status = 201, resp_text = [], resp_json = Some JNull, resp_location = None\<rparr>, 1, ()),
     ag_jwt := demo_jwt_lib\<lparr>jwt_decode := \<lambda>t k a au i l now. Inr [(''scope'', JStr ''create_meeting_agent'')]\<rparr>\<rparr>"

definition demo_mcp :: "(unit, mem_store) mcp_state" where
  "demo_mcp = \<lparr>world = (), wall = 0, mono = 0, sent = [], tok_cache = Map.empty, m2m_log = [],
     store = kv_set mem_ops 0 NS_OBO_TOKEN ''t'' (entry_of (JStr ''a'') 240) TOKEN_TTL_SECONDS
       (kv_set mem_ops 0 NS_STATE ''t'' (JStr (flow_value BOOKING_AUTHORIZED)) DEFAULT_TTL_SECONDS Map.empty),
     rand_used = 0, auth_log = [], cfg_cache = Map.empty, mcp_jwks = demo_jwks, mcp_jwks_time = 0\<rparr>"

definition demo_args :: dict where
  "demo_args = [(''thread_id'', JStr ''t''), (''topic'', JStr ''Standup'')]"

lemma demo_mcp_net: "ag_net demo_mcp_env q w =
    (Inr \<lparr>status = 201, resp_text = [], resp_json = Some JNull, resp_location = None\<rparr>, 1, ())"
  "net_causal (ag_net demo_mcp_env)" "ag_kv demo_mcp_env = mem_ops" "ag_fr demo_mcp_env = ag_fr demo_agent"
  by (simp_all add: demo_mcp_env_def demo_agent_def net_causal_def)

lemma demo_mcp_kv: "kv_store (ag_kv demo_mcp_env) mem_view (\<lambda>_. True)"
  "json_store (ag_kv demo_mcp_env) mem_view (\<lambda>_. True)"
  by (simp_all add: demo_mcp_net mem.kv_store_axioms mem_json.json_store_axioms)

lemma demo_mcp_seen:
  "seen mem_view demo_mcp NS_STATE ''t'' = JStr (flow_value BOOKING_AUTHORIZED)"
  "seen mem_view demo_mcp NS_OBO_TOKEN ''t'' = entry_of (JStr ''a'') 240"
  by (simp_all add: seen_def demo_mcp_def mem.set_view TOKEN_TTL_SECONDS_def DEFAULT_TTL_SECONDS_def
      del: flow_value.simps)

lemma demo_delegated: "delegated mem_view (JStr ''a'') ''t'' [''create_meeting_agent''] ''create_meeting'' BOOKING_AUTHORIZED demo_mcp"
proof -
  have "wall demo_mcp = 0" by (simp add: demo_mcp_def)
  then show ?thesis by (simp add: delegated_def demo_mcp_seen live_entry_run del: flow_value.simps)
qed

lemma demo_check: "check_mcp_token demo_mcp_env (JStr ''a'') demo_mcp = (Inr (Inr [''create_meeting_agent'']), demo_mcp)"
proof -
  have "jwks_get_fresh demo_mcp = demo_jwks"
    by (simp add: jwks_get_fresh_def demo_mcp_def demo_jwks_def MCP_JWKS_TTL_SECONDS_def)
  then have get: "mcp_get_jwks demo_mcp_env demo_mcp = (Inr demo_jwks, demo_mcp)"
    by (simp add: mcp_get_jwks_def demo_jwks_def)
  have find: "mcp_find_key (ag_jwt demo_mcp_env) [(''kid'', JStr ''1'')] [JObj [(''kid'', JStr ''1'')]] = Inr (Some ())"
    by (simp add: item_def demo_mcp_env_def demo_jwt_lib_def)
  have "validate_mcp_token demo_mcp_env (JStr ''a'') demo_mcp = (Inr [(''scope'', JStr ''create_meeting_agent'')], demo_mcp)"
    unfolding validate_mcp_token_def
    by (simp add: andthen_def get token_text_def find) (simp add: demo_jwks_def get_or_def py_list_def item_def
        demo_mcp_env_def demo_jwt_lib_def)
  moreover have "decoded_scopes [(''scope'', JStr ''create_meeting_agent'')] = Inr [''create_meeting_agent'']"
    by (simp add: decoded_scopes_def get_or_def split_ws_def is_space_def)
  ultimately show ?thesis by (simp add: check_mcp_token_def catch_def andthen_def)
qed

lemma demo_handler: "map_of (tool_handlers V) ''schedule_meeting'' = Some (handle_schedule_meeting V)"
  by (simp add: tool_handlers_def)

definition demo_post :: request where
  "demo_post = api_request demo_mcp_env ''POST'' ''/meetings/'' (JStr ''a'') (Some (JObj [(''topic'', JStr ''Standup'')]))"

lemma demo_call: "\<exists>r t. call_tool demo_mcp_env (JStr ''a'') ''schedule_meeting'' demo_args demo_mcp = (r, t) \<and>
    sent t = sent demo_mcp @ [demo_post]"
proof -
  obtain w where w: "get_agent_name (ag_kv demo_mcp_env) ''t'' demo_mcp =
      (Inr (if seen mem_view demo_mcp NS_AGENT_NAME ''t'' = JNull
      then JStr DEFAULT_AGENT_NAME else seen mem_view demo_mcp NS_AGENT_NAME ''t''), w)" "after_reads mem_view demo_mcp w"
    unfolding get_agent_name_def by (rule readsE [OF kv_store.reads_sm_fetch [OF demo_mcp_kv(1)]])
  have k: "py_str (ag_fr demo_mcp_env) (get_or demo_args ''thread_id'' (JStr [])) = ''t''"
    by (simp add: demo_args_def get_or_def)
  have "delegated mem_view (JStr ''a'') ''t'' [''create_meeting_agent''] ''create_meeting'' BOOKING_AUTHORIZED w"
    using demo_delegated after_reads_fields [OF w(2)] by (simp add: delegated_def)
  from schedule_sends [OF demo_mcp_kv(1) this]
  have "sent (snd (handle_schedule_meeting demo_mcp_env (JStr ''a'') demo_args [''create_meeting_agent''] ''t'' nm w)) =
      sent w @ [demo_post]" for nm
    by (simp add: demo_post_def demo_args_def dict_without_def)
  moreover have "call_tool demo_mcp_env (JStr ''a'') ''schedule_meeting'' demo_args demo_mcp =
      handle_schedule_meeting demo_mcp_env (JStr ''a'') demo_args [''create_meeting_agent''] ''t''
        (if seen mem_view demo_mcp NS_AGENT_NAME ''t'' = JNull
         then JStr DEFAULT_AGENT_NAME else seen mem_view demo_mcp NS_AGENT_NAME ''t'') w"
    by (simp add: call_tool_def andthen_def demo_check k w(1) demo_handler Let_def)
  ultimately show ?thesis using after_reads_fields(3) [OF w(2)] by (metis prod.collapse)
qed

theorem mcp_changes_need_delegated_consent_witness:
  "\<exists>r t. call_tool demo_mcp_env (JStr ''a'') ''schedule_meeting'' demo_args demo_mcp = (r, t) \<and>
     sent t = sent demo_mcp @ [demo_post] \<and>
     (\<exists>decoded u. validate_mcp_token demo_mcp_env (JStr ''a'') demo_mcp = (Inr decoded, u) \<and>
        fst (get_obo_token mem_ops ''t'' u) = Inr (JStr ''a''))"
proof -
  obtain r t where c: "call_tool demo_mcp_env (JStr ''a'') ''schedule_meeting'' demo_args demo_mcp = (r, t)"
    "sent t = sent demo_mcp @ [demo_post]"
    using demo_call by blast
  have q: "demo_post \<in> set [demo_post]" "meth demo_post \<noteq> ''GET''"
    by (simp_all add: demo_post_def api_request_def)
  have k: "''t'' = py_str (ag_fr demo_mcp_env) (get_or demo_args ''thread_id'' (JStr []))"
    by (simp add: demo_args_def get_or_def)
  from mcp_changes_need_delegated_consent [OF demo_mcp_kv(1) c q k]
  show ?thesis using c by (auto simp: demo_mcp_net)
qed

theorem mcp_authorized_action_is_sent_witness:
  "sent (snd (handle_schedule_meeting demo_mcp_env (JStr ''a'') demo_args [''create_meeting_agent''] ''t'' JNull demo_mcp)) =
     sent demo_mcp @ [demo_post]"
  using mcp_authorized_action_is_sent [OF demo_mcp_kv(1), of "JStr ''a''" "''t''" "[''create_meeting_agent'']" demo_mcp
      demo_args JNull] demo_delegated
  by (simp add: demo_post_def demo_args_def dict_without_def)

theorem mcp_consent_is_spent_by_one_action_witness:
  "\<exists>r t. handle_schedule_meeting demo_mcp_env (JStr ''a'') demo_args [''create_meeting_agent''] ''t'' JNull demo_mcp = (r, t) \<and>
     fst (get_state mem_ops ''t'' t) = Inr INITIAL \<and>
     sent (snd (handle_schedule_meeting demo_mcp_env (JStr ''a'') demo_args [''create_meeting_agent''] ''t'' JNull (later 5 t))) =
       sent t"
proof -
  obtain r t where run: "handle_schedule_meeting demo_mcp_env (JStr ''a'') demo_args [''create_meeting_agent''] ''t''
      JNull demo_mcp = (r, t)" by fastforce
  have did: "sent t \<noteq> sent demo_mcp"
    using schedule_sends [OF demo_mcp_kv(1) demo_delegated, of demo_args JNull] run by simp
  let ?q = "api_request demo_mcp_env ''POST'' ''/meetings/'' (JStr ''a'') (Some (JObj (dict_without demo_args ''thread_id'')))"
  have h: "(handle_schedule_meeting demo_mcp_env, ?q, 201) \<in> set (action_table demo_mcp_env (JStr ''a'') demo_args)"
    by (simp add: action_table_def Let_def)
  have ans: "fst (ag_net demo_mcp_env ?q (world demo_mcp)) =
      Inr \<lparr>status = 201, resp_text = [], resp_json = Some JNull, resp_location = None\<rparr>"
    by (simp add: demo_mcp_net)
  have pos: "0 \<le> mono demo_mcp" by (simp add: demo_mcp_def)
  show ?thesis
    using mcp_consent_is_spent_by_one_action [OF demo_mcp_kv(2) demo_mcp_net(2) pos h run did ans _ h, of 5] run
    by (auto simp: demo_mcp_net)
qed

end
