(* ===== verification/Agent_Tools.thy ===== *)
theory Agent_Tools
  imports Mcp_Server
begin

text \<open>
  \<open>agent/tools.py\<close>: the tools declared to Gemini and the dispatcher, which finds a token for the
  thread and calls the MCP server in the same process.
\<close>

definition function_decl :: "string \<Rightarrow> string \<Rightarrow> exn + json \<Rightarrow> exn + tool" where
  "function_decl n d params = tool_of n d params"

definition TOOL_DEFINITIONS :: "exn + tool list" where
  "TOOL_DEFINITIONS = collect
     [function_decl ''schedule_meeting_preview''
        ''Show a meeting preview to the user and request authorization to book on their behalf''
        (make_meeting_schema False False False ''genai_schedule_preview''),
      function_decl ''schedule_meeting'' ''Finalize and create the meeting after user has authorized''
        (make_meeting_schema True False False ''genai_schedule_preview''),
      function_decl ''list_meetings''
        ''List all scheduled meetings for the organization. If not authorized, this will initiate authorization.''
        (Inr (JObj [(''type'', JStr ''object''), (''properties'', JObj [])])),
      function_decl ''delete_meeting_preview''
        ''Show a preview of the meeting deletion and request authorization to delete it on their behalf''
        (Inr (object_schema
          [(''meeting_id'', described ''ID of the meeting to delete''),
           (''topic'', described ''Topic of the meeting being deleted (for confirmation)'')]
          [''meeting_id'', ''topic''])),
      function_decl ''delete_meeting'' ''Finalize and delete the meeting after user has authorized''
        (Inr (object_schema [(''meeting_id'', plain)] [''meeting_id''])),
      function_decl ''update_meeting_preview''
        ''Show a preview of the meeting changes and request authorization to update the meeting on their behalf''
        (make_meeting_schema False False True ''genai_update_preview''),
      function_decl ''update_meeting'' ''Finalize and update the meeting after user has authorized''
        (make_meeting_schema True False True ''genai_update_preview'')]"

subsection \<open>Finding a token\<close>

text \<open>
  The agent's credentials of the thread; when one is missing, those of the organization's agent
  configuration, which are then kept for the thread.
\<close>

definition fill_agent_credentials ::
  "('w, 'd, 'k) agent_env \<Rightarrow> string \<Rightarrow> json \<times> json \<Rightarrow> (('w, 'd, 'z) mcp_state_scheme, json \<times> json) prog" where
  "fill_agent_credentials V thread_id creds =
     andthen (get_org_name (ag_kv V) thread_id) (\<lambda>org_name.
       if \<not> truthy org_name then ret creds
       else
         andthen (fetch_and_cache_agent_config V (py_str (ag_fr V) org_name) False) (\<lambda>found.
           if \<not> truthy found then ret creds
           else
             andthen (lift_res (as_obj found)) (\<lambda>d.
               (let new_id = get_or d ''agent_id'' (JStr ''''); new_secret = get_or d ''agent_secret'' (JStr '''')
                in if truthy new_id \<and> truthy new_secret then
                     andthen (set_agent_credentials (ag_kv V) thread_id new_id new_secret) (\<lambda>_.
                       ret (new_id, new_secret))
                   else ret creds))))"

definition thread_agent_credentials ::
  "('w, 'd, 'k) agent_env \<Rightarrow> string \<Rightarrow> (('w, 'd, 'z) mcp_state_scheme, json \<times> json) prog" where
  "thread_agent_credentials V thread_id =
     andthen (get_agent_credentials (ag_kv V) thread_id) (\<lambda>creds.
       if truthy (fst creds) \<and> truthy (snd creds) then ret creds else fill_agent_credentials V thread_id creds)"

definition dispatch_token ::
  "('w, 'd, 'k) agent_env \<Rightarrow> string \<Rightarrow> (('w, 'd, 'z) mcp_state_scheme, json) prog" where
  "dispatch_token V thread_id =
     andthen (get_obo_token (ag_kv V) thread_id) (\<lambda>token.
       if truthy token then ret token
       else
         andthen (thread_agent_credentials V thread_id) (\<lambda>(agent_id, agent_secret).
           catch (fetch_agent_token V agent_id agent_secret thread_id) (\<lambda>_. ret token)))"

subsection \<open>The answer of a tool\<close>

text \<open>
  \<open>json.loads\<close> raises on text that is not JSON; that is reported. A text that starts like an
  object and is JSON is an object.
\<close>

definition tool_error :: "string \<Rightarrow> json" where
  "tool_error message = JObj [(''status'', JStr ''error''), (''message'', JStr message)]"

definition tool_success :: "string \<Rightarrow> json" where
  "tool_success message = JObj [(''status'', JStr ''success''), (''message'', JStr message)]"

definition parse_tool_text :: "('w, 'd, 'k) agent_env \<Rightarrow> string \<Rightarrow> json" where
  "parse_tool_text V text_data =
     (if startswith (strip text_data) ''{'' then
        (case loads (ag_fp V) text_data of
           Some j \<Rightarrow> j
         | None \<Rightarrow> tool_error (''Failed to parse response: '' @ ag_err V (ValueError text_data)))
      else if startswith text_data ''Error:'' then tool_error text_data
      else tool_success text_data)"

definition parse_tool_answer :: "('w, 'd, 'k) agent_env \<Rightarrow> string list \<Rightarrow> json" where
  "parse_tool_answer V content =
     (case content of [] \<Rightarrow> tool_success ''No content returned'' | text_data # _ \<Rightarrow> parse_tool_text V text_data)"

definition dispatch_tool ::
  "('w, 'd, 'k) agent_env \<Rightarrow> string \<Rightarrow> dict \<Rightarrow> string \<Rightarrow> (('w, 'd, 'z) mcp_state_scheme, json) prog" where
  "dispatch_tool V n args thread_id =
     andthen (dispatch_token V thread_id) (\<lambda>token.
       if \<not> truthy token then ret (tool_error ''Agent authentication failed'')
       else
         andthen (call_tool V token n (dict_set args ''thread_id'' (JStr thread_id))) (\<lambda>content.
           ret (parse_tool_answer V content)))"

subsection \<open>What finding a token sends\<close>

text \<open>The identity server's endpoints that the agent posts to, and every GET.\<close>

definition identity_requests :: "('w, 'd, 'k) agent_env \<Rightarrow> request set" where
  "identity_requests V = gets \<union> {q. meth q = ''POST'' \<and> url q \<in>
     {token_url (agent_m2m_config V), oauth_base V @ ''/oauth2/authorize'', oauth_base V @ ''/oauth2/authn'',
      oauth_base V @ ''/oauth2/token''}}"

lemma gets_identity [simp]: "meth q = ''GET'' \<Longrightarrow> q \<in> identity_requests V"
  by (simp add: identity_requests_def)

lemma log_sends [simp, intro]: "sends A (log_m2m l)" "sends A (log_auth l)"
  by (simp_all add: sends_quiet log_auth_def)

lemma handle_payload_sends: "sends A (handle_payload fr label c v)"
  by (rule sends_quiet) (rule handle_payload_sent)

lemma token_response_sends: "sends A (token_response fr label c resp)"
proof -
  have "sends A (case e of ValueError _ \<Rightarrow> andthen (log_m2m l) (\<lambda>_. ret None) | _ \<Rightarrow> raise e)" for e l
    by (simp split: exn.split add: sends_intros)
  then show ?thesis unfolding token_response_def by (intro sends_intros handle_payload_sends log_sends)
qed

lemma service_headers_send: "sends (identity_requests V) (agent_service_headers V b)"
proof -
  have "post_form (token_url (agent_m2m_config V)) [] (token_form (agent_m2m_config V)) \<in> identity_requests V"
    by (simp add: identity_requests_def post_form_def)
  then show ?thesis
    unfolding agent_service_headers_def aauth_headers_def aget_token_def get_token_def post_token_def
    by (intro sends_intros log_sends token_response_sends sends_send)
qed

lemma get_config_once_send: "sends (identity_requests V) (get_agent_config_once V org_id hs)"
  unfolding get_agent_config_once_def by (intro sends_intros sends_send gets_identity) (simp add: get_def)

lemma accept_send: "sends A (accept_agent_config org_id resp)"
  unfolding accept_agent_config_def by (intro sends_intros sends_modify) simp

lemma fetch_config_send: "sends (identity_requests V) (fetch_and_cache_agent_config V org_id b)"
  unfolding fetch_and_cache_agent_config_def retry_agent_config_def
  by (intro sends_intros service_headers_send get_config_once_send accept_send sends_modify) (simp add: invalidate_def)

lemma post_json_sends: "q \<in> A \<Longrightarrow> sends A (http_post_json V q)"
  unfolding http_post_json_def by (intro sends_intros sends_send)

lemma token_answer_sends: "sends A (token_answer_of V g i p e j)"
  unfolding token_answer_of_def by (intro sends_intros log_sends)

lemma store_entry_sends: "sends A (store_entry V ns k tok ex)"
  unfolding store_entry_def by (intro sends_intros kv_sends)

lemma token_urlsafe_sends: "sends A (token_urlsafe V)"
  by (rule sends_quiet) (simp add: token_urlsafe_def)

lemma fetch_agent_token_sends: "sends (identity_requests V) (fetch_agent_token V aid sec k)"
  unfolding fetch_agent_token_def init_agent_auth_flow_def submit_agent_credentials_def
    exchange_code_for_agent_token_def store_agent_token_def Let_def
  by (intro sends_intros log_sends post_json_sends token_answer_sends store_entry_sends token_urlsafe_sends)
     (simp_all add: identity_requests_def post_form_def with_json_def)

lemma dispatch_token_sends: "sends (identity_requests V) (dispatch_token V k)"
  unfolding dispatch_token_def thread_agent_credentials_def fill_agent_credentials_def Let_def
  by (intro sends_intros token_reads_send state_sends get_agent_credentials_sends fetch_config_send
      fetch_agent_token_sends)

subsection \<open>What finding a token leaves alone\<close>

lemma held_log_m2m: "stable (held view ns k v T) (log_m2m l)"
  unfolding log_m2m_def by (rule stable_modify) (simp add: held_def)

lemma held_store_token: "stable (held view ns k v T) (store_token c tok e)"
  unfolding store_token_def by (intro stable_andthen stable_modify stable_basic) (simp add: held_def)

lemma held_handle_payload: "stable (held view ns k v T) (handle_payload fr label c p)"
  unfolding handle_payload_def Let_def
  by (auto split: json.splits intro!: stable_andthen held_log_m2m held_store_token stable_basic)

lemma held_token_response: "stable (held view ns k v T) (token_response fr label c resp)"
proof -
  have "stable (held view ns k v T) (case e of ValueError _ \<Rightarrow> andthen (log_m2m l) (\<lambda>_. ret None) | _ \<Rightarrow> raise e)" for e l
    by (auto split: exn.split intro!: stable_andthen held_log_m2m)
  then show ?thesis unfolding token_response_def
    by (intro stable_if stable_andthen stable_catch stable_basic held_log_m2m held_handle_payload)
qed

lemma held_service_headers:
  "net_causal (ag_net V) \<Longrightarrow> stable (held view ns k v T) (agent_service_headers V b)"
  unfolding agent_service_headers_def aauth_headers_def aget_token_def get_token_def post_token_def
  by (intro stable_andthen stable_if stable_option stable_catch stable_basic held_log_m2m held_token_response held_send)

lemma held_fetch_config:
  "net_causal (ag_net V) \<Longrightarrow> stable (held view ns k v T) (fetch_and_cache_agent_config V org_id b)"
  unfolding fetch_and_cache_agent_config_def retry_agent_config_def get_agent_config_once_def accept_agent_config_def
  by (intro stable_andthen stable_if stable_option stable_catch stable_basic held_service_headers held_send stable_modify)
     (simp_all add: held_def invalidate_def)

context kv_store
begin

lemma held_sm_fetch: "stable (held view ns' k' w T) (sm_fetch K ns k d)"
  unfolding sm_fetch_def by (intro stable_andthen held_fetch stable_basic)

lemma held_live_token: "stable (held view ns' k' w T) (live_token K ns k)"
  unfolding live_token_def by (intro stable_andthen held_fetch stable_basic)

lemma held_credentials: "stable (held view ns' k' w T) (get_agent_credentials K k)"
proof -
  have "stable (held view ns' k' w T) (case v of JList (a # b # _) \<Rightarrow> ret (a, b)
          | JList _ \<Rightarrow> raise (IndexError ''list index out of range'')
          | JStr (a # b # _) \<Rightarrow> ret (JStr [a], JStr [b])
          | JStr _ \<Rightarrow> raise (IndexError ''string index out of range'')
          | JObj _ \<Rightarrow> raise (KeyError ''0'')
          | _ \<Rightarrow> raise (TypeError ''object is not subscriptable''))" for v
    by (simp split: json.split list.split)
  then show ?thesis
    unfolding get_agent_credentials_def by (intro stable_andthen stable_if stable_basic held_sm_fetch)
qed

end

lemma creds_not_obo: "NS_CREDS \<noteq> NS_OBO_TOKEN" "NS_OBO_TOKEN \<noteq> NS_CREDS"
  by (simp_all add: NS_CREDS_def NS_OBO_TOKEN_def)

lemma held_dispatch_token:
  assumes K: "kv_store (ag_kv V) view storable" and net: "net_causal (ag_net V)"
  shows "stable (held view NS_OBO_TOKEN k v T) (dispatch_token V k')"
  unfolding dispatch_token_def thread_agent_credentials_def fill_agent_credentials_def Let_def get_obo_token_def
    get_org_name_def set_agent_credentials_def sm_put_def
  by (intro stable_andthen stable_if stable_prod stable_catch stable_basic kv_store.held_live_token [OF K]
      kv_store.held_credentials [OF K] kv_store.held_sm_fetch [OF K] held_fetch_config [OF net]
      held_fetch_agent_token [OF K net] kv_store.held_put [OF K])
     (simp_all add: creds_not_obo)

text \<open>A call of a thread whose OBO token is gone changes nothing.\<close>

lemma call_tool_without_token:
  assumes K: "kv_store (ag_kv V) view storable" and net: "net_causal (ag_net V)"
    and gone: "gone view NS_OBO_TOKEN k s" and run: "call_tool V token n args s = (r, t)"
    and k: "k = py_str (ag_fr V) (get_or args ''thread_id'' (JStr ''''))"
  obtains qs where "sent t = sent s @ qs" "set qs \<subseteq> gets"
proof (rule call_tool_cases [OF K run])
  assume "\<exists>qs. sent t = sent s @ qs \<and> set qs \<subseteq> {jwks_request V}"
  then obtain qs where qs: "sent t = sent s @ qs" "set qs \<subseteq> {jwks_request V}" by blast
  have "set qs \<subseteq> gets" using qs(2) by auto
  with qs(1) show ?thesis by (rule that)
next
  fix scopes u w nm h
  assume c: "check_mcp_token V token s = (Inr (Inr scopes), u)" and w: "after_reads view u w"
    and h: "map_of (tool_handlers V) n = Some h"
    and run': "h token args scopes (py_str (ag_fr V) (get_or args ''thread_id'' (JStr ''''))) nm w = (r, t)"
  obtain pre where pre: "sent u = sent s @ pre" "set pre \<subseteq> {jwks_request V}"
    by (rule sendsD [OF check_mcp_token_sends [OF singletonI] c])
  have "stable (held view NS_OBO_TOKEN k JNull UNIV) (check_mcp_token V token)"
    unfolding check_mcp_token_def validate_mcp_token_def mcp_get_jwks_def fetch_jwks_def stale_jwks_def
      jwks_cache_set_def
    by (intro stable_andthen stable_if stable_prod stable_option stable_catch stable_basic held_send [OF net])
       (auto split: sum.splits intro!: stable_andthen stable_basic stable_modify simp: held_def)
  from stableD [OF this gone c] have "gone view NS_OBO_TOKEN k w" by (rule held_after_reads [OF w])
  then have "seen view w NS_OBO_TOKEN k = JNull" by (simp add: held_def seen_def)
  then have no: "\<not> delegated view token k scopes sc f w" for sc f
    by (auto simp: delegated_def live_entry_def)
  from handler_run [OF K h run' [folded k]] no
  obtain qs where "sent t = sent w @ qs" "set qs \<subseteq> gets" by blast
  then show ?thesis
    using pre after_reads_fields(3) [OF w] by (intro that [of "pre @ qs"]) auto
qed

lemma strip_hd: "\<not> is_space c \<Longrightarrow> \<exists>r. strip (c # s) = c # r"
  by (simp add: strip_def rstrip_def lstrip_def dropWhile_append3)

subsection \<open>Properties\<close>


text \<open>
  what a handler puts into its text is what the caller of the tool gets: the object a
  handler encodes, with floats that \<open>repr\<close> prints readably, is read back unchanged, an error
  text becomes an error result, and no text of a handler is lost on the way.
\<close>

theorem tool_answer_roundtrip:
  assumes "wf_json (JObj payload)" and "\<forall>x \<in> floats (JObj payload). float_text (ag_fr V) (ag_fp V) x"
  shows "parse_tool_answer V (text_result V payload) = JObj payload \<and>
    parse_tool_answer V (error_result (''Error:'' @ m)) =
      JObj [(''status'', JStr ''error''), (''message'', JStr (''Error:'' @ m))]"
proof -
  obtain rest where d: "dumps (ag_fr V) (JObj payload) = CHR ''{'' # rest" by (cases payload) auto
  have "startswith (strip (CHR ''{'' # rest)) ''{''"
    using strip_hd [of "CHR ''{''" rest] by (simp add: startswith_def is_space_def) force
  moreover have "loads (ag_fp V) (dumps (ag_fr V) (JObj payload)) = Some (JObj payload)"
    by (rule loads_dumps [OF assms])
  ultimately have "parse_tool_answer V (text_result V payload) = JObj payload"
    by (simp add: parse_tool_answer_def parse_tool_text_def text_result_def d del: dumps.simps)
  moreover have "\<not> startswith (strip (''Error:'' @ m)) ''{''"
    using strip_hd [of "CHR ''E''" "''rror:'' @ m"] by (simp add: startswith_def is_space_def) force
  moreover have "startswith (''Error:'' @ m) ''Error:''" by (rule startswith_append)
  ultimately show ?thesis
    by (simp add: parse_tool_answer_def parse_tool_text_def error_result_def tool_error_def del: append.simps)
qed

subsection \<open>Witnesses\<close>


theorem tool_answer_roundtrip_witness:
  "parse_tool_answer demo_mcp_env (text_result demo_mcp_env [(''status'', JStr ''booked'')]) =
     JObj [(''status'', JStr ''booked'')]"
  using tool_answer_roundtrip [of "[(''status'', JStr ''booked'')]" demo_mcp_env] by simp

end
