(* ===== verification/Py_Format.thy ===== *)
theory Py_Format
  imports Json
begin

text \<open>
  \<open>str.format\<close> with keyword arguments, as the message catalogs of the agent and of the portal use it,
  and what it does to markup: a template whose fields are plain names keeps exactly its own angle
  brackets when the values put into it have none.
\<close>

subsection \<open>\<open>str.format\<close> with keyword arguments\<close>

text \<open>A replacement field up to its closing brace, with the text after it.\<close>

fun span_field :: "nat \<Rightarrow> string \<Rightarrow> (string \<times> string) option" where
  "span_field n [] = None"
| "span_field n (c # cs) =
     (if c = CHR ''}'' \<and> n = 0 then Some ([], cs)
      else map_option (\<lambda>(f, rest). (c # f, rest))
        (span_field (if c = CHR ''}'' then n - 1 else if c = CHR ''{'' then Suc n else n) cs))"

lemma span_field_length: "span_field n s = Some (f, rest) \<Longrightarrow> length rest < length s"
  by (induction n s arbitrary: f rest rule: span_field.induct) (auto split: if_splits)

text \<open>
  A field that is a plain name is looked up among the keywords. Fields with an attribute, an index,
  a conversion or a format specification are left to \<open>F\<close>: Python's formatting machinery.
\<close>

type_synonym format_field = "string \<Rightarrow> (string \<times> string) list \<Rightarrow> exn + string"

definition field_value :: "format_field \<Rightarrow> (string \<times> string) list \<Rightarrow> string \<Rightarrow> exn + string" where
  "field_value F kwargs f =
     (if set f \<inter> {CHR ''.'', CHR ''['', CHR ''!'', CHR '':'', CHR ''{''} \<noteq> {} then F f kwargs
      else if list_all is_digit f then
        Inl (IndexError (''Replacement index '' @ (if f = [] then ''0'' else f) @
          '' out of range for positional args tuple''))
      else case map_of kwargs f of None \<Rightarrow> Inl (KeyError f) | Some v \<Rightarrow> Inr v)"

function (sequential) py_format :: "format_field \<Rightarrow> (string \<times> string) list \<Rightarrow> string \<Rightarrow> exn + string" where
  "py_format F kwargs [] = Inr []"
| "py_format F kwargs (c # cs) =
     (if c = CHR ''{'' then
        (if cs = [] then Inl (ValueError (''Single '' @ [CHR 0x27] @ ''{'' @ [CHR 0x27] @ '' encountered in format string''))
         else if hd cs = CHR ''{'' then bind_res (py_format F kwargs (tl cs)) (\<lambda>r. Inr (c # r))
         else case span_field 0 cs of
                None \<Rightarrow> Inl (ValueError (''expected '' @ [CHR 0x27] @ ''}'' @ [CHR 0x27] @ '' before end of string''))
              | Some (f, rest) \<Rightarrow>
                  bind_res (field_value F kwargs f) (\<lambda>v.
                  bind_res (py_format F kwargs rest) (\<lambda>r. Inr (v @ r))))
      else if c = CHR ''}'' then
        (if cs \<noteq> [] \<and> hd cs = CHR ''}'' then bind_res (py_format F kwargs (tl cs)) (\<lambda>r. Inr (c # r))
         else Inl (ValueError (''Single '' @ [CHR 0x27] @ ''}'' @ [CHR 0x27] @ '' encountered in format string'')))
      else bind_res (py_format F kwargs cs) (\<lambda>r. Inr (c # r)))"
  by pat_completeness auto

termination
  by (relation "measure (\<lambda>(F, kwargs, s). length s)")
     (auto dest: span_field_length simp: less_Suc_eq)

subsection \<open>Markup\<close>

text \<open>The angle brackets of a text, in order: what decides where its tags are.\<close>

definition markup :: "string \<Rightarrow> string" where
  "markup s = filter (\<lambda>c. c = CHR ''<'' \<or> c = CHR ''>'') s"

lemma markup_simps [simp]:
  "markup [] = []" "markup (s @ t) = markup s @ markup t"
  "markup (c # s) = (if c = CHR ''<'' \<or> c = CHR ''>'' then c # markup s else markup s)"
  by (simp_all add: markup_def)

lemma markup_escaped [simp]: "markup (html_escape s) = []"
  using html_escape_safe [of _ s] by (auto simp: markup_def filter_empty_conv)

text \<open>A template whose fields are names and whose braces match; \<open>inside\<close> a field or not.\<close>

definition name_char :: "char \<Rightarrow> bool" where
  "name_char c \<longleftrightarrow> ord c = 95 \<or> 97 \<le> ord c \<and> ord c \<le> 122"

fun template_ok :: "bool \<Rightarrow> string \<Rightarrow> bool" where
  "template_ok inside [] = (\<not> inside)"
| "template_ok True (c # cs) = (if c = CHR ''}'' then template_ok False cs else name_char c \<and> template_ok True cs)"
| "template_ok False (c # cs) =
     (if c = CHR ''{'' then (case cs of d # _ \<Rightarrow> name_char d \<and> template_ok True cs | [] \<Rightarrow> False)
      else c \<noteq> CHR ''}'' \<and> template_ok False cs)"

lemma name_char_plain:
  "name_char c \<Longrightarrow> c \<notin> {CHR ''.'', CHR ''['', CHR ''!'', CHR '':'', CHR ''{'', CHR ''}'', CHR ''<'', CHR ''>''} \<and> \<not> is_digit c"
  by (auto simp: name_char_def is_digit_def)

lemma span_field_name:
  "template_ok True cs \<Longrightarrow> \<exists>f rest. span_field 0 cs = Some (f, rest) \<and> list_all name_char f \<and>
     cs = f @ CHR ''}'' # rest \<and> template_ok False rest"
proof (induction cs)
  case (Cons c cs)
  show ?case
  proof (cases "c = CHR ''}''")
    case False
    then obtain f rest where "span_field 0 cs = Some (f, rest)" "list_all name_char f"
      "cs = f @ CHR ''}'' # rest" "template_ok False rest" "name_char c"
      using Cons by auto
    moreover from \<open>name_char c\<close> have "c \<noteq> CHR ''{''" using name_char_plain by blast
    ultimately show ?thesis using False by simp
  qed (use Cons.prems in simp)
qed simp

lemma markup_name: "list_all name_char f \<Longrightarrow> markup f = []"
  using name_char_plain by (fastforce simp: markup_def filter_empty_conv list_all_iff)

lemma field_value_name:
  assumes "list_all name_char f" and "f \<noteq> []"
  shows "field_value F kwargs f = (case map_of kwargs f of None \<Rightarrow> Inl (KeyError f) | Some v \<Rightarrow> Inr v)"
proof -
  have "set f \<inter> {CHR ''.'', CHR ''['', CHR ''!'', CHR '':'', CHR ''{''} = {}"
    using assms(1) name_char_plain by (fastforce simp: list_all_iff)
  moreover have "\<not> list_all is_digit f"
    using assms name_char_plain by (cases f) auto
  ultimately show ?thesis by (simp add: field_value_def)
qed

text \<open>Formatting keeps the markup of the template when the values have none.\<close>

lemma py_format_markup:
  assumes "\<forall>(k, v) \<in> set kwargs. markup v = []"
  shows "template_ok False s \<Longrightarrow> py_format F kwargs s = Inr out \<Longrightarrow> markup out = markup s"
proof (induction "length s" arbitrary: s out rule: less_induct)
  case less
  show ?case
  proof (cases s)
    case Nil
    then show ?thesis using less.prems by simp
  next
    case (Cons c cs)
    show ?thesis
    proof (cases "c = CHR ''{''")
      case True
      then obtain d ds where cs: "cs = d # ds" "name_char d" "template_ok True cs"
        using less.prems(1) Cons by (auto split: list.splits)
      then have "d \<noteq> CHR ''{''" "d \<noteq> CHR ''}''" using name_char_plain by blast+
      obtain f rest where f: "span_field 0 cs = Some (f, rest)" "list_all name_char f"
        "cs = f @ CHR ''}'' # rest" "template_ok False rest"
        using span_field_name [OF cs(3)] by blast
      have "f \<noteq> []" using f(3) cs(1) \<open>d \<noteq> CHR ''}''\<close> by (cases f) auto
      then obtain v r where v: "map_of kwargs f = Some v" "py_format F kwargs rest = Inr r" "out = v @ r"
        using less.prems(2) Cons True cs(1) \<open>d \<noteq> CHR ''{''\<close> f(1) field_value_name [OF f(2)]
        by (auto simp: bind_res_Inr_conv simp del: span_field.simps split: option.splits)
      have "markup r = markup rest" using less.hyps [OF _ f(4) v(2)] Cons f(3) by simp
      moreover have "markup v = []" using assms map_of_SomeD [OF v(1)] by auto
      ultimately show ?thesis using v(3) Cons True f(3) markup_name [OF f(2)] by simp
    next
      case False
      then have ok: "c \<noteq> CHR ''}''" "template_ok False cs" using less.prems(1) Cons by auto
      then obtain r where "py_format F kwargs cs = Inr r" "out = c # r"
        using less.prems(2) Cons False by (auto simp: bind_res_Inr_conv)
      then show ?thesis using less.hyps [OF _ ok(2)] Cons by simp
    qed
  qed
qed

end
