(* ===== verification/Agent_Messages.thy ===== *)
theory Agent_Messages
  imports Py_Format
begin

text \<open>
  The texts of \<open>agent/gemini_agent.py\<close>: the bilingual catalog, and the escaping of what is put into
  its templates. Text is Latin-1; the few characters beyond it that the
  texts use keep their Windows-1252 code.
\<close>

subsection \<open>The catalog\<close>

definition msg_greeting :: "(string \<times> string) list" where
  "msg_greeting =
     [(''pt'', ''<p>Ol'' @ [CHR 0xE1] @ ''! Sou o Assistente de Reuni'' @ [CHR 0xF5] @
             ''es do Teamspace. Experimente dizer <em>'' @ [CHR 0x27] @ ''Agendar uma reuni'' @
             [CHR 0xE3] @ ''o para amanh'' @ [CHR 0xE3] @ '' '' @ [CHR 0xE0] @ ''s 15h'' @
             [CHR 0x27] @ ''</em>.</p>''),
      (''en'', ''<p>Hi there! I am the Teamspace Meeting Assistant. Try saying <em>'' @ [CHR 0x27] @
             ''Schedule a meeting for tomorrow at 2 PM'' @ [CHR 0x27] @ ''</em>.</p>'')]"

definition msg_no_meetings :: "(string \<times> string) list" where
  "msg_no_meetings =
     [(''pt'', ''<p>Voc'' @ [CHR 0xEA] @ '' n'' @ [CHR 0xE3] @ ''o possui reuni'' @ [CHR 0xF5] @
             ''es agendadas.</p>''),
      (''en'', ''<p>You have no scheduled meetings.</p>'')]"

definition msg_not_authorized_prompt :: "(string \<times> string) list" where
  "msg_not_authorized_prompt =
     [(''pt'', ''<p>N'' @ [CHR 0xE3] @ ''o encontrei sua autoriza'' @ [CHR 0xE7, CHR 0xE3] @
             ''o. Por favor, autorize-me pelo link primeiro.</p>''),
      (''en'', ''<p>I couldn'' @ [CHR 0x27] @
             ''t find your authorization. Please authorize me using the link first.</p>'')]"

definition msg_deleted_ok :: "(string \<times> string) list" where
  "msg_deleted_ok =
     [(''pt'', ''<p>O agendamento foi deletado com sucesso.</p>''),
      (''en'', ''<p>I have successfully deleted the meeting.</p>'')]"

definition msg_delete_failed :: "(string \<times> string) list" where
  "msg_delete_failed =
     [(''pt'', ''<p>Falha ao deletar: {message}</p>''),
      (''en'', ''<p>Deletion failed: {message}</p>'')]"

definition msg_update_ok :: "(string \<times> string) list" where
  "msg_update_ok =
     [(''pt'', ''<p>Agendamento atualizado com sucesso! T'' @ [CHR 0xF3] @
             ''pico: <strong>{topic}</strong>.</p>''),
      (''en'', ''<p>I have updated the meeting successfully! Topic: <strong>{topic}</strong>.</p>'')]"

definition msg_update_failed :: "(string \<times> string) list" where
  "msg_update_failed =
     [(''pt'', ''<p>Falha na atualiza'' @ [CHR 0xE7, CHR 0xE3] @ ''o: {message}</p>''),
      (''en'', ''<p>Update failed: {message}</p>'')]"

definition msg_delete_preview_failed :: "(string \<times> string) list" where
  "msg_delete_preview_failed =
     [(''pt'', ''<p>Desculpe, falha ao preparar a pr'' @ [CHR 0xE9] @ ''via de exclus'' @ [CHR 0xE3] @
             ''o: {message}</p>''),
      (''en'', ''<p>Sorry, I failed to prepare the deletion preview: {message}</p>'')]"

definition msg_update_preview_failed :: "(string \<times> string) list" where
  "msg_update_preview_failed =
     [(''pt'', ''<p>Desculpe, falha ao preparar a pr'' @ [CHR 0xE9] @ ''via de atualiza'' @
             [CHR 0xE7, CHR 0xE3] @ ''o: {message}</p>''),
      (''en'', ''<p>Sorry, I failed to prepare the update preview: {message}</p>'')]"

definition msg_schedule_preview_failed :: "(string \<times> string) list" where
  "msg_schedule_preview_failed =
     [(''pt'', ''<p>Desculpe, falha ao preparar a pr'' @ [CHR 0xE9] @
             ''via de agendamento: {message}</p>''),
      (''en'', ''<p>Sorry, I failed to prepare the meeting preview: {message}</p>'')]"

definition msg_auth_list_intro :: "(string \<times> string) list" where
  "msg_auth_list_intro =
     [(''pt'', ''<p>Por favor, autorize {agent_name} a visualizar suas reuni'' @ [CHR 0xF5] @
             ''es clicando no link abaixo:</p>''),
      (''en'', ''<p>Please authorize {agent_name} to view your meetings by clicking the '' @
             ''link below:</p>'')]"

definition msg_auth_list_header :: "(string \<times> string) list" where
  "msg_auth_list_header =
     [(''pt'', ''<p>Autorizado com sucesso! Aqui est'' @ [CHR 0xE3] @ ''o suas reuni'' @ [CHR 0xF5] @
             ''es agendadas:</p>''),
      (''en'', ''<p>I have authorized successfully! Here are your scheduled meetings:</p>'')]"

definition msg_auth_list_header_no_auth :: "(string \<times> string) list" where
  "msg_auth_list_header_no_auth =
     [(''pt'', ''<p>Aqui est'' @ [CHR 0xE3] @ ''o suas reuni'' @ [CHR 0xF5] @ ''es agendadas:</p>''),
      (''en'', ''<p>Here are your scheduled meetings:</p>'')]"

definition msg_delete_intro :: "(string \<times> string) list" where
  "msg_delete_intro =
     [(''pt'', ''<p>Preparei uma pr'' @ [CHR 0xE9] @ ''via para deletar sua reuni'' @ [CHR 0xE3] @
             ''o:</p><p>ID da Reuni'' @ [CHR 0xE3] @
             ''o: <code>{meeting_id}</code></p><p>Para confirmar esta exclus'' @ [CHR 0xE3] @
             ''o, por favor autorize {agent_name} clicando no link abaixo:</p>''),
      (''en'', ''<p>I have prepared a preview to delete your meeting:</p><p>Meeting ID: '' @
             ''<code>{meeting_id}</code></p><p>To finalize this deletion, please authorize '' @
             ''{agent_name} by clicking the link below:</p>'')]"

definition msg_update_intro :: "(string \<times> string) list" where
  "msg_update_intro =
     [(''pt'', ''<p>Preparei uma pr'' @ [CHR 0xE9] @ ''via para atualizar sua reuni'' @ [CHR 0xE3] @
             ''o:</p><ul><li>ID da Reuni'' @ [CHR 0xE3] @
             ''o: <code>{meeting_id}</code></li><li>Novo T'' @ [CHR 0xF3] @
             ''pico: <strong>{topic}</strong></li><li>Novo Hor'' @ [CHR 0xE1] @
             ''rio: <strong>{start_time}</strong></li></ul><p>Para confirmar esta atualiza'' @
             [CHR 0xE7, CHR 0xE3] @
             ''o, por favor autorize {agent_name} clicando no link abaixo:</p>''),
      (''en'', ''<p>I have prepared a preview to update your meeting:</p><ul><li>Meeting '' @
             ''ID: <code>{meeting_id}</code></li><li>New Topic: <strong>{topic}</strong></li><li>New '' @
             ''Time: <strong>{start_time}</strong></li></ul><p>To finalize this update, '' @
             ''please authorize {agent_name} by clicking the link below:</p>'')]"

definition msg_schedule_intro :: "(string \<times> string) list" where
  "msg_schedule_intro =
     [(''pt'', ''<p>Preparei uma pr'' @ [CHR 0xE9] @ ''via para sua reuni'' @ [CHR 0xE3] @
             ''o:</p><ul><li>T'' @ [CHR 0xF3] @
             ''pico: <strong>{topic}</strong></li><li>Data: {date}</li><li>Hor'' @ [CHR 0xE1] @
             ''rio: {start_time}</li><li>Dura'' @ [CHR 0xE7, CHR 0xE3] @
             ''o: {duration} minutos</li></ul><p>Para confirmar e agendar esta reuni'' @ [CHR 0xE3] @
             ''o, por favor autorize {agent_name} clicando no link abaixo:</p>''),
      (''en'', ''<p>I have prepared a preview for your meeting:</p><ul><li>Topic: <strong>{topic}</strong></li><li>Date: '' @
             ''{date}</li><li>Time: {start_time}</li><li>Duration: {duration} minutes</li></ul><p>To '' @
             ''finalize and book this meeting, please authorize {agent_name} by clicking '' @
             ''the link below:</p>'')]"

definition msg_booking_ok :: "(string \<times> string) list" where
  "msg_booking_ok =
     [(''pt'', ''<p>Agendamento realizado com sucesso! T'' @ [CHR 0xF3] @
             ''pico: <strong>{topic}</strong>.</p>''),
      (''en'', ''<p>I have booked the meeting successfully! Topic: <strong>{topic}</strong>.</p>'')]"

definition msg_booking_ok_with_id :: "(string \<times> string) list" where
  "msg_booking_ok_with_id =
     [(''pt'', ''<p>Agendamento realizado com sucesso! T'' @ [CHR 0xF3] @
             ''pico: <strong>{topic}</strong> (ID: <code>{meeting_id}</code>).</p>''),
      (''en'', ''<p>I have booked the meeting successfully! Topic: <strong>{topic}</strong> '' @
             ''(ID: <code>{meeting_id}</code>).</p>'')]"

definition msg_booking_failed :: "(string \<times> string) list" where
  "msg_booking_failed =
     [(''pt'', ''<p>Falha no agendamento: {message}</p>''),
      (''en'', ''<p>Booking failed: {message}</p>'')]"

definition msg_meeting_list_item :: "(string \<times> string) list" where
  "msg_meeting_list_item =
     [(''pt'', ''<li><strong>{topic}</strong> ({date} '' @ [CHR 0xE0] @
             ''s {start_time}, ID: <code>{id}</code>)</li>''),
      (''en'', ''<li><strong>{topic}</strong> ({date} at {start_time}, ID: <code>{id}</code>)</li>'')]"

definition MESSAGES :: "(string \<times> (string \<times> string) list) list" where
  "MESSAGES =
     [(''greeting'', msg_greeting),
      (''no_meetings'', msg_no_meetings),
      (''not_authorized_prompt'', msg_not_authorized_prompt),
      (''deleted_ok'', msg_deleted_ok),
      (''delete_failed'', msg_delete_failed),
      (''update_ok'', msg_update_ok),
      (''update_failed'', msg_update_failed),
      (''delete_preview_failed'', msg_delete_preview_failed),
      (''update_preview_failed'', msg_update_preview_failed),
      (''schedule_preview_failed'', msg_schedule_preview_failed),
      (''auth_list_intro'', msg_auth_list_intro),
      (''auth_list_header'', msg_auth_list_header),
      (''auth_list_header_no_auth'', msg_auth_list_header_no_auth),
      (''delete_intro'', msg_delete_intro),
      (''update_intro'', msg_update_intro),
      (''schedule_intro'', msg_schedule_intro),
      (''booking_ok'', msg_booking_ok),
      (''booking_ok_with_id'', msg_booking_ok_with_id),
      (''booking_failed'', msg_booking_failed),
      (''meeting_list_item'', msg_meeting_list_item)]"

definition AUTH_BUTTON_LABELS :: "(string \<times> (string \<times> string) list) list" where
  "AUTH_BUTTON_LABELS =
     [(''list'', [(''pt'', ''Autorizar Lista''), (''en'', ''Authorize List'')]),
      (''delete'', [(''pt'', ''Autorizar Exclus'' @ [CHR 0xE3] @ ''o''), (''en'', ''Authorize Delete'')]),
      (''update'', [(''pt'', ''Autorizar Atualiza'' @ [CHR 0xE7, CHR 0xE3] @ ''o''), (''en'', ''Authorize Update'')]),
      (''schedule'', [(''pt'', ''Autorizar Reuni'' @ [CHR 0xE3] @ ''o''), (''en'', ''Authorize Meeting'')])]"

definition SYSTEM_PROMPT :: string where
  "SYSTEM_PROMPT =
      ''You are the AI Agent {agent_name} for {org_name}.'' @ [CHR 0x0A] @
      ''You help users manage scheduled video conference meetings, including scheduling '' @
      ''new ones, listing existing ones, updating meeting details, and deleting '' @
      ''meetings.'' @ [CHR 0x0A, CHR 0x0A] @
      ''Today is {current_date} ({current_weekday}).'' @ [CHR 0x0A, CHR 0x0A] @
      ''IMPORTANT: You must format your responses in clean, semantic HTML. Use '' @
      ''<p> for paragraphs, <strong> for bold text, <ul>/<li> for lists, <code> '' @
      ''for inline code, <pre><code> for code blocks, and <a> with target='' @ [CHR 0x22] @
      ''_blank'' @ [CHR 0x22] @
      '' for links. Do NOT use markdown. Return raw HTML directly.'' @ [CHR 0x0A, CHR 0x0A] @
      ''When a user wants to schedule a meeting, you need to collect:'' @ [CHR 0x0A] @
      ''- topic: What the meeting is about'' @ [CHR 0x0A] @
      ''- date: The date (YYYY-MM-DD format)'' @ [CHR 0x0A] @
      ''- start_time: Start time (HH:MM format, 24-hour)'' @ [CHR 0x0A] @
      ''- duration: Duration in minutes (default 60)'' @ [CHR 0x0A] @
      ''- time_zone: Timezone (default to America/Sao_Paulo)'' @ [CHR 0x0A, CHR 0x0A] @
      ''Once you have all the details, use the schedule_meeting_preview tool to '' @
      ''show a'' @ [CHR 0x0A] @
      ''preview and request user authorization. After the user authorizes, use '' @ ''the'' @
      [CHR 0x0A] @ ''schedule_meeting tool to finalize the booking.'' @ [CHR 0x0A, CHR 0x0A] @
      ''If a user wants to view, check, or list their meetings, use the list_meetings '' @
      ''tool. If not authorized, it will request authorization. Once authorized, '' @
      ''list the meetings clearly.'' @ [CHR 0x0A, CHR 0x0A] @
      ''If a user wants to delete a meeting:'' @ [CHR 0x0A] @
      ''1. First, call list_meetings to find the correct meeting and its ID if '' @
      ''you don'' @ [CHR 0x27] @ ''t already have it in context.'' @ [CHR 0x0A] @
      ''2. Call delete_meeting_preview with the meeting'' @ [CHR 0x27] @ ''s ID and topic.'' @
      [CHR 0x0A] @
      ''3. After the user authorizes, call delete_meeting to finalize the deletion.'' @
      [CHR 0x0A, CHR 0x0A] @
      ''If a user wants to update or modify a meeting (such as rescheduling time, '' @
      ''changing topic, duration, etc.):'' @ [CHR 0x0A] @
      ''1. First, call list_meetings to find the correct meeting and its ID if '' @
      ''you don'' @ [CHR 0x27] @ ''t already have it in context.'' @ [CHR 0x0A] @
      ''2. Formulate the update by merging the changes with the existing fields.'' @
      [CHR 0x0A] @
      ''3. Call update_meeting_preview with the meeting ID and the updated/complete '' @
      ''values for all fields (topic, date, start_time, duration, time_zone).'' @ [CHR 0x0A] @
      ''4. After the user authorizes, call update_meeting with the meeting ID '' @
      ''and all updated/complete values to finalize the update. This prevents '' @
      ''duplicate meetings from being created!'' @ [CHR 0x0A, CHR 0x0A] @
      ''Be conversational and helpful. If the user is vague about dates, ask for'' @
      [CHR 0x0A] @ ''clarification. If they say '' @ [CHR 0x22] @ ''tomorrow'' @ [CHR 0x22] @
      '', calculate the actual date.'' @ [CHR 0x0A]"

subsection \<open>Messages\<close>

text \<open>The entry of a language, English when it has none.\<close>

definition in_language :: "(string \<times> string) list \<Rightarrow> string \<Rightarrow> string \<Rightarrow> string" where
  "in_language entry language dflt =
     (case map_of entry language of
        Some t \<Rightarrow> t
      | None \<Rightarrow> (case map_of entry ''en'' of Some t \<Rightarrow> t | None \<Rightarrow> dflt))"

definition msg :: "(real \<Rightarrow> string) \<Rightarrow> format_field \<Rightarrow> string \<Rightarrow> string \<Rightarrow> (string \<times> json) list \<Rightarrow> exn + string" where
  "msg fr F language key kwargs =
     (case map_of MESSAGES key of
        None \<Rightarrow> Inr []
      | Some entry \<Rightarrow>
          py_format F (map (\<lambda>(k, v). (k, html_escape (py_str fr v))) kwargs) (in_language entry language []))"

definition button_label :: "string \<Rightarrow> string \<Rightarrow> string" where
  "button_label action language =
     (case map_of AUTH_BUTTON_LABELS action of
        None \<Rightarrow> ''Authorize''
      | Some entry \<Rightarrow> in_language entry language ''Authorize'')"

text \<open>\<open>html.escape(v)\<close> of a value that must be text.\<close>

definition escape_value :: "json \<Rightarrow> exn + string" where
  "escape_value v = (case v of JStr s \<Rightarrow> Inr (html_escape s) | _ \<Rightarrow> Inl (AttributeError ''replace''))"

definition auth_button :: "json \<Rightarrow> string \<Rightarrow> exn + string" where
  "auth_button u label =
     bind_res (escape_value u) (\<lambda>href.
       Inr (''<div style='' @ [CHR 0x22] @ ''margin-top: 10px;'' @ [CHR 0x22] @ ''><a href='' @ [CHR 0x22] @ href @
         [CHR 0x22] @ '' target='' @ [CHR 0x22] @ ''_blank'' @ [CHR 0x22] @ '' class='' @ [CHR 0x22] @
         ''btn btn-primary'' @ [CHR 0x22] @ ''>'' @ html_escape label @ ''</a></div>''))"

definition escape_item :: "json \<Rightarrow> string \<Rightarrow> exn + string" where
  "escape_item m k =
     (case m of
        JObj d \<Rightarrow> (case dict_get d k of Some v \<Rightarrow> escape_value v | None \<Rightarrow> Inl (KeyError k))
      | _ \<Rightarrow> Inl (TypeError ''indices must be integers''))"

definition meeting_list_item :: "format_field \<Rightarrow> string \<Rightarrow> json \<Rightarrow> exn + string" where
  "meeting_list_item F language meeting =
     (let template = in_language msg_meeting_list_item language [] in
      if template = [] then Inr []
      else
        bind_res (escape_item meeting ''topic'') (\<lambda>topic.
        bind_res (escape_item meeting ''date'') (\<lambda>date.
        bind_res (escape_item meeting ''start_time'') (\<lambda>start_time.
        bind_res (escape_item meeting ''id'') (\<lambda>i.
          py_format F [(''topic'', topic), (''date'', date), (''start_time'', start_time), (''id'', i)] template)))))"

fun meeting_list_html :: "format_field \<Rightarrow> json list \<Rightarrow> string \<Rightarrow> exn + string" where
  "meeting_list_html F [] language = Inr []"
| "meeting_list_html F (m # ms) language =
     bind_res (meeting_list_item F language m) (\<lambda>x.
     bind_res (meeting_list_html F ms language) (\<lambda>xs. Inr (x @ xs)))"

subsection \<open>Markup\<close>

lemma catalog_ok: "list_all (\<lambda>(k, e). list_all (\<lambda>(l, t). template_ok False t) e) MESSAGES"
  by code_simp

lemma template_ok_of:
  assumes "map_of MESSAGES key = Some entry"
  shows "template_ok False (in_language entry language [])"
proof -
  have "list_all (\<lambda>(l, t). template_ok False t) entry"
    using catalog_ok map_of_SomeD [OF assms] by (auto simp: list_all_iff)
  then have "map_of entry l = Some t \<Longrightarrow> template_ok False t" for l t
    by (auto simp: list_all_iff dest!: map_of_SomeD)
  then show ?thesis by (simp add: in_language_def split: option.splits)
qed

lemma escaped_item: "escape_item m k = Inr v \<Longrightarrow> markup v = []"
  by (auto simp: escape_item_def escape_value_def split: json.splits option.splits)

lemma meeting_list_item_entry: "map_of MESSAGES ''meeting_list_item'' = Some msg_meeting_list_item"
  by (simp add: MESSAGES_def)

lemma meeting_list_item_markup:
  assumes "meeting_list_item F language m = Inr out"
  shows "markup out = markup (in_language msg_meeting_list_item language [])"
proof (cases "in_language msg_meeting_list_item language [] = []")
  case False
  then obtain topic date start i where v: "escape_item m ''topic'' = Inr topic" "escape_item m ''date'' = Inr date"
    "escape_item m ''start_time'' = Inr start" "escape_item m ''id'' = Inr i"
    and out: "py_format F [(''topic'', topic), (''date'', date), (''start_time'', start), (''id'', i)]
      (in_language msg_meeting_list_item language []) = Inr out"
    using assms by (auto simp: meeting_list_item_def Let_def bind_res_Inr_conv simp del: py_format.simps)
  show ?thesis
    by (rule py_format_markup [OF _ template_ok_of [OF meeting_list_item_entry] out])
       (simp add: escaped_item [OF v(1)] escaped_item [OF v(2)] escaped_item [OF v(3)] escaped_item [OF v(4)])
qed (use assms in \<open>simp add: meeting_list_item_def Let_def\<close>)

lemma meeting_list_html_markup:
  "meeting_list_html F ms language = Inr out \<Longrightarrow>
   markup out = concat (replicate (length ms) (markup (in_language msg_meeting_list_item language [])))"
  by (induction ms arbitrary: out) (auto simp: bind_res_Inr_conv dest: meeting_list_item_markup)

text \<open>
  C15: no value can add markup to a reply. In every language, the angle brackets of a message of
  the catalog are those of its template, whatever is put into its fields; a list of meetings has
  those of its item template once per meeting, whatever the meetings' texts are; and the label
  and target of an authorization button add none to the button's own tags, nor a quote to its
  \<open>href\<close>.
\<close>

theorem values_add_no_markup:
  "(case msg fr F language key kwargs of
      Inl _ \<Rightarrow> True
    | Inr out \<Rightarrow> (case map_of MESSAGES key of
          None \<Rightarrow> out = []
        | Some entry \<Rightarrow> markup out = markup (in_language entry language []))) \<and>
   (case meeting_list_html F ms language of
      Inl _ \<Rightarrow> True
    | Inr out \<Rightarrow> markup out =
        concat (replicate (length ms) (markup (in_language msg_meeting_list_item language [])))) \<and>
   (case auth_button (JStr u) label of
      Inl _ \<Rightarrow> False
    | Inr out \<Rightarrow> markup out = ''<><><><>'' \<and> CHR 0x22 \<notin> set (html_escape u))"
proof (intro conjI)
  show "case msg fr F language key kwargs of
      Inl _ \<Rightarrow> True
    | Inr out \<Rightarrow> (case map_of MESSAGES key of
          None \<Rightarrow> out = []
        | Some entry \<Rightarrow> markup out = markup (in_language entry language []))"
  proof (cases "map_of MESSAGES key")
    case (Some entry)
    have "markup out = markup (in_language entry language [])" if "msg fr F language key kwargs = Inr out" for out
      by (rule py_format_markup [OF _ template_ok_of [OF Some], of _ F])
        (use that in \<open>auto simp: msg_def Some\<close>)
    then show ?thesis by (auto simp: Some split: sum.splits)
  qed (simp add: msg_def)
  show "case meeting_list_html F ms language of
      Inl _ \<Rightarrow> True
    | Inr out \<Rightarrow> markup out =
        concat (replicate (length ms) (markup (in_language msg_meeting_list_item language [])))"
    by (auto split: sum.splits dest: meeting_list_html_markup)
  show "case auth_button (JStr u) label of
      Inl _ \<Rightarrow> False
    | Inr out \<Rightarrow> markup out = ''<><><><>'' \<and> CHR 0x22 \<notin> set (html_escape u)"
    using html_escape_safe [of "CHR 0x22" u] by (auto simp: auth_button_def escape_value_def)
qed

end
