(* ===== verification/Gemini_Agent.thy ===== *)
theory Gemini_Agent
  imports Agent_Tools Agent_Messages
begin

text \<open>
  \<open>agent/gemini_agent.py\<close>: how a chat message becomes a reply. A message that reports an
  authorization resumes the thread's pending action; otherwise the scripted replies or Gemini
  answer, and may call tools through \<open>dispatch_tool\<close>. The google-genai client is third-party:
  it answers a list of contents under a system instruction, as one response or as a stream that
  may break off.
\<close>

subsection \<open>Contents and the client\<close>

record gpart =
  p_text :: string
  p_call :: "(string \<times> dict) option"
  p_response :: "(string \<times> json) option"

definition text_part :: "string \<Rightarrow> gpart" where
  "text_part t = \<lparr>p_text = t, p_call = None, p_response = None\<rparr>"

record content =
  c_role :: string
  c_parts :: "gpart list"

text \<open>
  A response, or one chunk of a stream: the parts of each candidate, if it has content. Reading
  the parts of a candidate without content raises.
\<close>

type_synonym gresponse = "gpart list option list"

definition first_parts :: "gresponse \<Rightarrow> exn + gpart list" where
  "first_parts response =
     (case response of
        [] \<Rightarrow> Inr []
      | None # _ \<Rightarrow> Inl (AttributeError ''NoneType object has no attribute parts'')
      | Some parts # _ \<Rightarrow> Inr parts)"

record ('w, 'd, 'k) gem_env =
  g_agent :: "('w, 'd, 'k) agent_env"
  g_generate :: "string \<Rightarrow> string \<Rightarrow> content list \<Rightarrow> 'w \<Rightarrow> (exn + gresponse) \<times> real \<times> 'w"
  g_stream :: "string \<Rightarrow> string \<Rightarrow> content list \<Rightarrow> 'w \<Rightarrow> (exn + gresponse list \<times> exn option) \<times> real \<times> 'w"
  g_date :: "real \<Rightarrow> string"
  g_weekday :: "real \<Rightarrow> string"
  g_field :: format_field

record ('w, 'd) llm_state = "('w, 'd) mcp_state" +
  gem_client :: "string option"
  llm_asked :: nat

text \<open>\<open>GeminiClientFactory\<close>: one client per process, known by its API key.\<close>

definition get_default_client ::
  "('w, 'd, 'k) gem_env \<Rightarrow> (('w, 'd, 'z) llm_state_scheme, string option) prog" where
  "get_default_client G =
     andthen
       (modify (\<lambda>s. if gem_client s = None \<and> ag_gemini_api_key (ag_cfg (g_agent G)) \<noteq> []
                    then s\<lparr>gem_client := Some (ag_gemini_api_key (ag_cfg (g_agent G)))\<rparr> else s))
       (\<lambda>_. asks gem_client)"

definition select_gemini_client ::
  "('w, 'd, 'k) gem_env \<Rightarrow> string \<Rightarrow> (('w, 'd, 'z) llm_state_scheme, string option) prog" where
  "select_gemini_client G gemini_api_key =
     (if gemini_api_key \<noteq> [] then ret (Some gemini_api_key) else get_default_client G)"

definition passed :: "real \<Rightarrow> 'w \<Rightarrow> ('w, 'd, 'z) llm_state_scheme \<Rightarrow> ('w, 'd, 'z) llm_state_scheme" where
  "passed dt w s = s\<lparr>world := w, wall := wall s + dt, mono := mono s + dt, llm_asked := Suc (llm_asked s)\<rparr>"

definition generate_content ::
  "('w, 'd, 'k) gem_env \<Rightarrow> string \<Rightarrow> string \<Rightarrow> content list \<Rightarrow> (('w, 'd, 'z) llm_state_scheme, gresponse) prog" where
  "generate_content G client system_instruction contents s =
     (case g_generate G client system_instruction contents (world s) of (r, dt, w) \<Rightarrow> (r, passed dt w s))"

definition generate_content_stream ::
  "('w, 'd, 'k) gem_env \<Rightarrow> string \<Rightarrow> string \<Rightarrow> content list
     \<Rightarrow> (('w, 'd, 'z) llm_state_scheme, gresponse list \<times> exn option) prog" where
  "generate_content_stream G client system_instruction contents s =
     (case g_stream G client system_instruction contents (world s) of (r, dt, w) \<Rightarrow> (r, passed dt w s))"

subsection \<open>Prompt and history\<close>

definition build_system_instruction ::
  "('w, 'd, 'k) gem_env \<Rightarrow> real \<Rightarrow> string \<Rightarrow> string \<Rightarrow> string \<Rightarrow> string \<Rightarrow> exn + string" where
  "build_system_instruction G now custom_prompt org_name agent_name language =
     bind_res
       (py_format (g_field G)
         [(''org_name'', html_escape org_name), (''agent_name'', html_escape agent_name),
          (''current_date'', g_date G now), (''current_weekday'', g_weekday G now)]
         (if custom_prompt \<noteq> [] then custom_prompt else SYSTEM_PROMPT))
       (\<lambda>system_instruction.
         Inr (system_instruction @ [CHR 0x0A, CHR 0x0A] @
           (if language = ''pt'' then ''You must respond in Portuguese (Brazil).''
            else ''You must respond in English.'')))"

fun contents_of :: "json list \<Rightarrow> exn + content list" where
  "contents_of [] = Inr []"
| "contents_of (m # ms) =
     bind_res (item m ''role'') (\<lambda>role.
     bind_res (item m ''content'') (\<lambda>text.
       (case text of
          JStr t \<Rightarrow>
            bind_res (contents_of ms) (\<lambda>cs.
              Inr (\<lparr>c_role = (if role = JStr ''user'' then ''user'' else ''model''), c_parts = [text_part t]\<rparr> # cs))
        | _ \<Rightarrow> Inl (TypeError ''text must be a string''))))"

definition history_to_contents :: "json list \<Rightarrow> string \<Rightarrow> exn + content list" where
  "history_to_contents history message =
     bind_res (contents_of history) (\<lambda>cs. Inr (cs @ [\<lparr>c_role = ''user'', c_parts = [text_part message]\<rparr>]))"

subsection \<open>Reading a message\<close>

definition default_meeting_args :: dict where
  "default_meeting_args =
     [(''date'', JStr ''2026-05-22''), (''start_time'', JStr ''14:00''), (''duration'', JStr ''60''),
      (''time_zone'', JStr ''America/Sao_Paulo'')]"

definition extract_meeting_id :: "string \<Rightarrow> string" where
  "extract_meeting_id message =
     (case find (\<lambda>w. 10 < length w \<and> contains w ''-'') (split_ws message) of
        Some w \<Rightarrow> w
      | None \<Rightarrow> ''test-meeting-id'')"

definition topic_after :: "string \<Rightarrow> string \<Rightarrow> string option" where
  "topic_after message mark =
     (if contains message mark then
        (case split_str mark message of
           _ # p # _ \<Rightarrow> Some (rstrip_char (CHR ''.'') (strip p))
         | _ \<Rightarrow> None)
      else None)"

definition extract_topic :: "string \<Rightarrow> string \<Rightarrow> string" where
  "extract_topic message dflt =
     (case topic_after message ''Topic:'' of
        Some t \<Rightarrow> t
      | None \<Rightarrow> (case topic_after (lower message) ''topic:'' of Some t \<Rightarrow> t | None \<Rightarrow> dflt))"

definition any_in :: "string list \<Rightarrow> string \<Rightarrow> bool" where
  "any_in keywords text \<longleftrightarrow> list_ex (contains text) keywords"

definition reports_authorization :: "string \<Rightarrow> bool" where
  "reports_authorization message \<longleftrightarrow>
     any_in [''authorized'', ''check'', ''autorizado'', ''verifique''] (lower message)"

subsection \<open>Scripted replies\<close>

definition say ::
  "('w, 'd, 'k) gem_env \<Rightarrow> string \<Rightarrow> string \<Rightarrow> (string \<times> json) list \<Rightarrow> exn + string" where
  "say G language key kwargs = msg (ag_fr (g_agent G)) (g_field G) language key kwargs"

text \<open>An introduction followed by the button to authorize: \<open>_msg(...) + _auth_button(...)\<close>.\<close>

definition with_button ::
  "('w, 'd, 'k) gem_env \<Rightarrow> string \<Rightarrow> string \<Rightarrow> (string \<times> json) list \<Rightarrow> json \<Rightarrow> string \<Rightarrow> exn + string" where
  "with_button G language key kwargs res action =
     bind_res (say G language key kwargs) (\<lambda>intro.
     bind_res (item res ''authorization_url'') (\<lambda>u.
     bind_res (auth_button u (button_label action language)) (\<lambda>button. Inr (intro @ button))))"

text \<open>\<open>res.get("message", default)\<close>.\<close>

definition message_of :: "json \<Rightarrow> string \<Rightarrow> exn + json" where
  "message_of res dflt = bind_res (as_obj res) (\<lambda>d. Inr (get_or d ''message'' (JStr dflt)))"

definition status_of :: "json \<Rightarrow> exn + json" where
  "status_of res = bind_res (as_obj res) (\<lambda>d. Inr (opt_json (dict_get d ''status'')))"

definition meetings_html ::
  "('w, 'd, 'k) gem_env \<Rightarrow> string \<Rightarrow> string \<Rightarrow> json \<Rightarrow> exn + string" where
  "meetings_html G language header_key meetings =
     bind_res (say G language header_key []) (\<lambda>header.
     bind_res (py_list meetings) (\<lambda>ms.
     bind_res (meeting_list_html (g_field G) ms language) (\<lambda>items.
       Inr (header @ ''<ul>'' @ items @ ''</ul>''))))"

definition list_reply :: "('w, 'd, 'k) gem_env \<Rightarrow> string \<Rightarrow> string \<Rightarrow> json \<Rightarrow> exn + string" where
  "list_reply G agent_name language res =
     bind_res (status_of res) (\<lambda>st.
       if st = JStr ''preview_ready'' then
         with_button G language ''auth_list_intro'' [(''agent_name'', JStr agent_name)] res ''list''
       else
         bind_res (as_obj res) (\<lambda>d.
           (let meetings = get_or d ''meetings'' (JList []) in
            if \<not> truthy meetings then say G language ''no_meetings'' []
            else meetings_html G language
              (if st = JStr ''success'' then ''auth_list_header_no_auth'' else ''auth_list_header'') meetings)))"

definition mock_list_response ::
  "('w, 'd, 'k) gem_env \<Rightarrow> string \<Rightarrow> string \<Rightarrow> string \<Rightarrow> string \<Rightarrow> (('w, 'd, 'z) llm_state_scheme, string) prog" where
  "mock_list_response G message thread_id agent_name language =
     andthen (dispatch_tool (g_agent G) ''list_meetings'' [] thread_id) (\<lambda>res.
       lift_res (list_reply G agent_name language res))"

text \<open>What the three previews do with the answer: the failure message, or the introduction.\<close>

definition preview_reply ::
  "('w, 'd, 'k) gem_env \<Rightarrow> string \<Rightarrow> string \<Rightarrow> string \<Rightarrow> (string \<times> json) list \<Rightarrow> string \<Rightarrow> json \<Rightarrow> exn + string" where
  "preview_reply G language failed_key intro_key kwargs action res =
     bind_res (key_in ''authorization_url'' res) (\<lambda>present.
       if \<not> present then
         bind_res (message_of res ''Unknown error'') (\<lambda>m. say G language failed_key [(''message'', m)])
       else with_button G language intro_key kwargs res action)"

definition mock_delete_response ::
  "('w, 'd, 'k) gem_env \<Rightarrow> string \<Rightarrow> string \<Rightarrow> string \<Rightarrow> string \<Rightarrow> (('w, 'd, 'z) llm_state_scheme, string) prog" where
  "mock_delete_response G message thread_id agent_name language =
     (let meeting_id = extract_meeting_id message in
      andthen (dispatch_tool (g_agent G) ''delete_meeting_preview''
        [(''meeting_id'', JStr meeting_id), (''topic'', JStr ''Test E2E Meeting''), (''action'', JStr ''delete'')]
        thread_id) (\<lambda>res.
      lift_res (preview_reply G language ''delete_preview_failed'' ''delete_intro''
        [(''meeting_id'', JStr meeting_id), (''agent_name'', JStr agent_name)] ''delete'' res)))"

definition mock_update_response ::
  "('w, 'd, 'k) gem_env \<Rightarrow> string \<Rightarrow> string \<Rightarrow> string \<Rightarrow> string \<Rightarrow> (('w, 'd, 'z) llm_state_scheme, string) prog" where
  "mock_update_response G message thread_id agent_name language =
     (let meeting_id = extract_meeting_id message; topic = extract_topic message ''Updated E2E Meeting'' in
      andthen (dispatch_tool (g_agent G) ''update_meeting_preview''
        (dict_set ([(''meeting_id'', JStr meeting_id), (''topic'', JStr topic)] @ default_meeting_args)
          ''start_time'' (JStr ''15:00'')) thread_id) (\<lambda>res.
      lift_res (preview_reply G language ''update_preview_failed'' ''update_intro''
        [(''meeting_id'', JStr meeting_id), (''topic'', JStr topic), (''start_time'', JStr ''15:00''),
         (''agent_name'', JStr agent_name)] ''update'' res)))"

definition mock_schedule_response ::
  "('w, 'd, 'k) gem_env \<Rightarrow> string \<Rightarrow> string \<Rightarrow> string \<Rightarrow> string \<Rightarrow> (('w, 'd, 'z) llm_state_scheme, string) prog" where
  "mock_schedule_response G message thread_id agent_name language =
     (let topic = extract_topic message ''Test E2E Meeting'' in
      andthen (dispatch_tool (g_agent G) ''schedule_meeting_preview''
        ((''topic'', JStr topic) # default_meeting_args) thread_id) (\<lambda>res.
      lift_res (preview_reply G language ''schedule_preview_failed'' ''schedule_intro''
        [(''topic'', JStr topic), (''date'', JStr ''2026-05-22''), (''start_time'', JStr ''14:00''),
         (''duration'', JStr ''60''), (''agent_name'', JStr agent_name)] ''schedule'' res)))"

definition mock_intent_handlers ::
  "('w, 'd, 'k) gem_env \<Rightarrow> (string list \<times>
     (string \<Rightarrow> string \<Rightarrow> string \<Rightarrow> string \<Rightarrow> (('w, 'd, 'z) llm_state_scheme, string) prog)) list" where
  "mock_intent_handlers G =
     [([''list'', ''show'', ''listar'', ''reuni'', ''mostrar''], mock_list_response G),
      ([''delete'', ''remove'', ''deletar'', ''excluir''], mock_delete_response G),
      ([''update'', ''change'', ''reschedule'', ''alterar'', ''atualizar''], mock_update_response G),
      ([''schedule'', ''meeting'', ''agendar'', ''marcar''], mock_schedule_response G)]"

definition dispatch_mock_intent ::
  "('w, 'd, 'k) gem_env \<Rightarrow> string \<Rightarrow> string \<Rightarrow> string \<Rightarrow> string \<Rightarrow> string
     \<Rightarrow> (('w, 'd, 'z) llm_state_scheme, string option) prog" where
  "dispatch_mock_intent G message lowered thread_id agent_name language =
     (case find (\<lambda>(keywords, _). any_in keywords lowered) (mock_intent_handlers G) of
        None \<Rightarrow> ret None
      | Some (_, handler) \<Rightarrow> andthen (handler message thread_id agent_name language) (\<lambda>r. ret (Some r)))"

definition mock_response ::
  "('w, 'd, 'k) gem_env \<Rightarrow> string \<Rightarrow> string \<Rightarrow> string \<Rightarrow> string \<Rightarrow> (('w, 'd, 'z) llm_state_scheme, string) prog" where
  "mock_response G message thread_id agent_name language =
     (if reports_authorization message then ret ''''
      else
        andthen (dispatch_mock_intent G message (lower message) thread_id agent_name language) (\<lambda>r.
        (case r of Some reply \<Rightarrow> ret reply | None \<Rightarrow> lift_res (say G language ''greeting'' []))))"

subsection \<open>Resuming after an authorization\<close>

definition handle_delete_authorized ::
  "('w, 'd, 'k) gem_env \<Rightarrow> string \<Rightarrow> json \<Rightarrow> string \<Rightarrow> (('w, 'd, 'z) llm_state_scheme, string) prog" where
  "handle_delete_authorized G thread_id pending language =
     andthen (lift_res (item pending ''meeting_id'')) (\<lambda>i.
     andthen (dispatch_tool (g_agent G) ''delete_meeting'' [(''meeting_id'', i)] thread_id) (\<lambda>res.
       lift_res (bind_res (status_of res) (\<lambda>st.
         if st = JStr ''deleted'' then say G language ''deleted_ok'' []
         else bind_res (message_of res ''Unknown error'') (\<lambda>m.
              say G language ''delete_failed'' [(''message'', m)])))))"

definition handle_update_authorized ::
  "('w, 'd, 'k) gem_env \<Rightarrow> string \<Rightarrow> json \<Rightarrow> string \<Rightarrow> (('w, 'd, 'z) llm_state_scheme, string) prog" where
  "handle_update_authorized G thread_id pending language =
     andthen (lift_res (as_obj pending)) (\<lambda>args.
     andthen (dispatch_tool (g_agent G) ''update_meeting'' args thread_id) (\<lambda>res.
       lift_res (bind_res (status_of res) (\<lambda>st.
         if st = JStr ''updated'' then
           bind_res (item res ''meeting'') (\<lambda>meeting.
           bind_res (item meeting ''topic'') (\<lambda>topic. say G language ''update_ok'' [(''topic'', topic)]))
         else bind_res (message_of res ''Unknown error'') (\<lambda>m.
              say G language ''update_failed'' [(''message'', m)])))))"

definition handle_booking_authorized ::
  "('w, 'd, 'k) gem_env \<Rightarrow> string \<Rightarrow> json \<Rightarrow> string \<Rightarrow> (('w, 'd, 'z) llm_state_scheme, string) prog" where
  "handle_booking_authorized G thread_id pending language =
     andthen (lift_res (as_obj pending)) (\<lambda>args.
     andthen (dispatch_tool (g_agent G) ''schedule_meeting'' args thread_id) (\<lambda>res.
       lift_res (bind_res (status_of res) (\<lambda>st.
         if st = JStr ''booked'' then
           bind_res (as_obj res) (\<lambda>d.
           bind_res (as_obj (get_or d ''meeting'' (JObj []))) (\<lambda>meeting.
             (let meeting_id = get_or meeting ''id'' (JStr '''') in
              bind_res (item pending ''topic'') (\<lambda>topic.
                if truthy meeting_id
                then say G language ''booking_ok_with_id'' [(''topic'', topic), (''meeting_id'', meeting_id)]
                else say G language ''booking_ok'' [(''topic'', topic)]))))
         else bind_res (message_of res (if language = ''en'' then ''Unknown error'' else ''Erro desconhecido'')) (\<lambda>m.
              say G language ''booking_failed'' [(''message'', m)])))))"

definition handle_list_authorized ::
  "('w, 'd, 'k) gem_env \<Rightarrow> string \<Rightarrow> json \<Rightarrow> string \<Rightarrow> (('w, 'd, 'z) llm_state_scheme, string) prog" where
  "handle_list_authorized G thread_id pending language =
     andthen (dispatch_tool (g_agent G) ''list_meetings'' [] thread_id) (\<lambda>res.
       lift_res (bind_res (status_of res) (\<lambda>st.
         if st = JStr ''success'' then
           bind_res (as_obj res) (\<lambda>d.
             (let meetings = get_or d ''meetings'' (JList []) in
              if \<not> truthy meetings then say G language ''no_meetings'' []
              else meetings_html G language ''auth_list_header'' meetings))
         else say G language ''not_authorized_prompt'' [])))"

text \<open>
  \<open>_AUTHORIZED_STATE_DISPATCH\<close>: the handler of an authorized state, if its guard lets the pending
  meeting through. A guard reads the pending meeting only when there is one.
\<close>

definition pending_guard :: "flow_state \<Rightarrow> json \<Rightarrow> exn + bool" where
  "pending_guard state pending =
     (case state of
        DELETE_AUTHORIZED \<Rightarrow>
          if \<not> truthy pending then Inr False
          else bind_res (as_obj pending) (\<lambda>p. Inr (truthy (opt_json (dict_get p ''meeting_id''))))
      | UPDATE_AUTHORIZED \<Rightarrow> if \<not> truthy pending then Inr False else key_in ''meeting_id'' pending
      | BOOKING_AUTHORIZED \<Rightarrow> if \<not> truthy pending then Inr False else key_in ''topic'' pending
      | LIST_AUTHORIZED \<Rightarrow> Inr True
      | _ \<Rightarrow> Inr False)"

definition dispatch_authorized_state ::
  "('w, 'd, 'k) gem_env \<Rightarrow> flow_state \<Rightarrow> string \<Rightarrow> json \<Rightarrow> string
     \<Rightarrow> (('w, 'd, 'z) llm_state_scheme, string option) prog" where
  "dispatch_authorized_state G state thread_id pending language =
     andthen (lift_res (pending_guard state pending)) (\<lambda>go.
       if \<not> go then ret None
       else
         andthen
           (case state of
              DELETE_AUTHORIZED \<Rightarrow> handle_delete_authorized G thread_id pending language
            | UPDATE_AUTHORIZED \<Rightarrow> handle_update_authorized G thread_id pending language
            | BOOKING_AUTHORIZED \<Rightarrow> handle_booking_authorized G thread_id pending language
            | _ \<Rightarrow> handle_list_authorized G thread_id pending language)
           (\<lambda>r. ret (Some r)))"

text \<open>The reply that intercepts a message, if it reports an authorization.\<close>

definition handle_authorization_callback ::
  "('w, 'd, 'k) gem_env \<Rightarrow> string \<Rightarrow> string \<Rightarrow> string \<Rightarrow> (('w, 'd, 'z) llm_state_scheme, string option) prog" where
  "handle_authorization_callback G message thread_id language =
     andthen (get_state (ag_kv (g_agent G)) thread_id) (\<lambda>state.
       if \<not> reports_authorization message then ret None
       else
         andthen
           (if state \<in> {BOOKING_AUTHORIZED, LIST_AUTHORIZED, UPDATE_AUTHORIZED, DELETE_AUTHORIZED} then
              andthen (get_pending_meeting (ag_kv (g_agent G)) thread_id) (\<lambda>pending.
                dispatch_authorized_state G state thread_id pending language)
            else ret None)
           (\<lambda>dispatched.
              (case dispatched of
                 Some reply \<Rightarrow> ret (Some reply)
               | None \<Rightarrow> andthen (lift_res (say G language ''not_authorized_prompt'' [])) (\<lambda>r. ret (Some r)))))"

subsection \<open>Answering with tools\<close>

definition append_tool_call_messages :: "content list \<Rightarrow> gpart \<Rightarrow> string \<Rightarrow> json \<Rightarrow> content list" where
  "append_tool_call_messages messages fn_call_part name tool_result =
     messages @
       [\<lparr>c_role = ''model'', c_parts = [fn_call_part]\<rparr>,
        \<lparr>c_role = ''user'', c_parts =
           [\<lparr>p_text = '''', p_call = None, p_response = Some (name, JObj [(''result'', tool_result)])\<rparr>]\<rparr>]"

definition APOLOGY :: string where
  "APOLOGY = ''I couldn't process that request. Could you try again?''"

definition NO_KEY :: string where
  "NO_KEY = ''No Gemini API key configured for this organization. Ask an admin to register an AI Agent with an API key.''"

text \<open>
  The rounds of \<open>_run_gemini_tool_loop\<close> that are left, the last response and the contents so far.
  The list of contents is changed in place, so it is part of the result.
\<close>

fun gemini_tool_loop ::
  "('w, 'd, 'k) gem_env \<Rightarrow> string \<Rightarrow> string \<Rightarrow> string \<Rightarrow> nat \<Rightarrow> gresponse \<Rightarrow> content list
     \<Rightarrow> (('w, 'd, 'z) llm_state_scheme, string \<times> content list) prog" where
  "gemini_tool_loop G client system_instruction thread_id 0 response messages = ret (APOLOGY, messages)"
| "gemini_tool_loop G client system_instruction thread_id (Suc n) response messages =
     andthen (lift_res (first_parts response)) (\<lambda>parts.
       (case parts of
          [] \<Rightarrow> ret (APOLOGY, messages)
        | part # _ \<Rightarrow>
            (case p_call part of
               Some (name, args) \<Rightarrow>
                 andthen (dispatch_tool (g_agent G) name args thread_id) (\<lambda>tool_result.
                   (let messages' = append_tool_call_messages messages part name tool_result in
                    andthen (generate_content G client system_instruction messages') (\<lambda>response'.
                      gemini_tool_loop G client system_instruction thread_id n response' messages')))
             | None \<Rightarrow> ret (if p_text part \<noteq> [] then p_text part else APOLOGY, messages))))"

definition MAX_ITERATIONS :: nat where
  "MAX_ITERATIONS = 5"

definition run_gemini_tool_loop ::
  "('w, 'd, 'k) gem_env \<Rightarrow> string \<Rightarrow> content list \<Rightarrow> string \<Rightarrow> string
     \<Rightarrow> (('w, 'd, 'z) llm_state_scheme, string \<times> content list) prog" where
  "run_gemini_tool_loop G client messages system_instruction thread_id =
     andthen (generate_content G client system_instruction messages) (\<lambda>response.
       gemini_tool_loop G client system_instruction thread_id MAX_ITERATIONS response messages)"

text \<open>\<open>re.sub(r'<[^>]*>', '', text)\<close>: a bracket that is never closed stays.\<close>

function strip_tags :: "string \<Rightarrow> string" where
  "strip_tags [] = []"
| "strip_tags (c # cs) =
     (if c = CHR ''<'' \<and> CHR ''>'' \<in> set cs
      then strip_tags (tl (dropWhile (\<lambda>x. x \<noteq> CHR ''>'') cs))
      else c # strip_tags cs)"
  by pat_completeness auto

termination strip_tags
proof (relation "measure length")
  fix cs :: string
  have "length (tl (dropWhile (\<lambda>x. x \<noteq> CHR ''>'') cs)) \<le> length cs"
    using length_dropWhile_le [of "\<lambda>x. x \<noteq> CHR ''>''" cs] by simp
  then show "(tl (dropWhile (\<lambda>x. x \<noteq> CHR ''>'') cs), c # cs) \<in> measure length" for c by simp
qed simp_all

definition run_agent ::
  "('w, 'd, 'k) gem_env \<Rightarrow> string \<Rightarrow> string \<Rightarrow> string \<Rightarrow> json list \<Rightarrow> string \<Rightarrow> string \<Rightarrow> string \<Rightarrow> string
     \<Rightarrow> (('w, 'd, 'z) llm_state_scheme, string) prog" where
  "run_agent G message thread_id org_name history gemini_api_key custom_prompt language agent_name =
     andthen (handle_authorization_callback G message thread_id language) (\<lambda>intercepted.
       (case intercepted of
          Some response_text \<Rightarrow> ret (strip_tags response_text)
        | None \<Rightarrow>
            if ag_mock_llm (ag_cfg (g_agent G)) then mock_response G message thread_id agent_name language
            else
              andthen (select_gemini_client G gemini_api_key) (\<lambda>client.
                (case client of
                   None \<Rightarrow> ret NO_KEY
                 | Some gemini_client \<Rightarrow>
                     andthen (asks wall) (\<lambda>now.
                     andthen (lift_res (build_system_instruction G now custom_prompt org_name agent_name language)) (\<lambda>si.
                     andthen (lift_res (history_to_contents history message)) (\<lambda>messages.
                     andthen (run_gemini_tool_loop G gemini_client messages si thread_id) (\<lambda>(reply, _).
                       ret reply))))))))"

subsection \<open>Streaming\<close>

text \<open>
  A generator is what it yields and the exception it ends with, if any. The pauses between the
  pieces of a text only pace the stream and are not modelled.
\<close>

type_synonym 's gen = "'s \<Rightarrow> (string list \<times> exn option) \<times> 's"

definition yields :: "string list \<Rightarrow> 's gen" where
  "yields chunks s = ((chunks, None), s)"

definition awaiting :: "('s, 'a) prog \<Rightarrow> ('a \<Rightarrow> 's gen) \<Rightarrow> 's gen" where
  "awaiting m f s = (case m s of (Inl e, t) \<Rightarrow> (([], Some e), t) | (Inr x, t) \<Rightarrow> f x t)"

definition yielding :: "string list \<Rightarrow> 's gen \<Rightarrow> 's gen" where
  "yielding chunks g s = (case g s of ((rest, e), t) \<Rightarrow> ((chunks @ rest, e), t))"

function stream_text_in_chunks :: "string \<Rightarrow> string list" where
  "stream_text_in_chunks text = (if text = [] then [] else take 5 text # stream_text_in_chunks (drop 5 text))"
  by pat_completeness auto

termination stream_text_in_chunks
  by (relation "measure length") simp_all

declare stream_text_in_chunks.simps [simp del]

fun consume_parts :: "gpart list \<Rightarrow> string list \<times> gpart option" where
  "consume_parts [] = ([], None)"
| "consume_parts (part # parts) =
     (if p_call part \<noteq> None then ([], Some part)
      else (case consume_parts parts of (texts, call) \<Rightarrow>
        (if p_text part \<noteq> [] then p_text part # texts else texts, call)))"

text \<open>The texts up to the first function call, then that call, or how the stream ended.\<close>

fun consume_stream :: "gresponse list \<Rightarrow> exn option \<Rightarrow> string list \<times> (exn + gpart option)" where
  "consume_stream [] broken = ([], case broken of None \<Rightarrow> Inr None | Some e \<Rightarrow> Inl e)"
| "consume_stream (chunk # chunks) broken =
     (case first_parts chunk of
        Inl e \<Rightarrow> ([], Inl e)
      | Inr parts \<Rightarrow>
          (case consume_parts parts of
             (texts, Some call) \<Rightarrow> (texts, Inr (Some call))
           | (texts, None) \<Rightarrow>
               (case consume_stream chunks broken of (rest, r) \<Rightarrow> (texts @ rest, r))))"

fun stream_loop ::
  "('w, 'd, 'k) gem_env \<Rightarrow> string \<Rightarrow> string \<Rightarrow> string \<Rightarrow> nat \<Rightarrow> content list \<Rightarrow> ('w, 'd, 'z) llm_state_scheme gen" where
  "stream_loop G client system_instruction thread_id 0 messages = yields []"
| "stream_loop G client system_instruction thread_id (Suc n) messages =
     awaiting (generate_content_stream G client system_instruction messages) (\<lambda>(chunks, broken).
       (case consume_stream chunks broken of
          (texts, Inl e) \<Rightarrow> (\<lambda>s. ((texts, Some e), s))
        | (texts, Inr None) \<Rightarrow> yields texts
        | (texts, Inr (Some part)) \<Rightarrow>
            (case p_call part of
               None \<Rightarrow> yields texts
             | Some (name, args) \<Rightarrow>
                 yielding texts
                   (awaiting (dispatch_tool (g_agent G) name args thread_id) (\<lambda>tool_result.
                      stream_loop G client system_instruction thread_id n
                        (append_tool_call_messages messages part name tool_result))))))"

definition run_agent_stream ::
  "('w, 'd, 'k) gem_env \<Rightarrow> string \<Rightarrow> string \<Rightarrow> string \<Rightarrow> json list \<Rightarrow> string \<Rightarrow> string \<Rightarrow> string \<Rightarrow> string
     \<Rightarrow> ('w, 'd, 'z) llm_state_scheme gen" where
  "run_agent_stream G message thread_id org_name history gemini_api_key custom_prompt language agent_name =
     awaiting (handle_authorization_callback G message thread_id language) (\<lambda>intercepted.
       (case intercepted of
          Some response_text \<Rightarrow> yields (stream_text_in_chunks response_text)
        | None \<Rightarrow>
            if ag_mock_llm (ag_cfg (g_agent G)) then
              awaiting (mock_response G message thread_id agent_name language) (\<lambda>response_text.
                yields (stream_text_in_chunks response_text))
            else
              awaiting (select_gemini_client G gemini_api_key) (\<lambda>client.
                (case client of
                   None \<Rightarrow> yields [''<p>'' @ NO_KEY @ ''</p>'']
                 | Some gemini_client \<Rightarrow>
                     awaiting (asks wall) (\<lambda>now.
                     awaiting (lift_res (build_system_instruction G now custom_prompt org_name agent_name language)) (\<lambda>si.
                     awaiting (lift_res (history_to_contents history message)) (\<lambda>messages.
                       stream_loop G gemini_client si thread_id MAX_ITERATIONS messages)))))))"

subsection \<open>What the loops and the callback do\<close>

text \<open>One tool call as the contents record it: the call and its result.\<close>

definition exchange :: "gpart \<times> json \<Rightarrow> content list" where
  "exchange c = append_tool_call_messages [] (fst c) (fst (the (p_call (fst c)))) (snd c)"

definition dispatched :: "('w, 'd, 'k) gem_env \<Rightarrow> string \<Rightarrow> ('w, 'd, 'z) llm_state_scheme itself \<Rightarrow> gpart \<times> json \<Rightarrow> bool" where
  "dispatched G thread_id S c \<longleftrightarrow>
     (\<exists>name args u v. p_call (fst c) = Some (name, args) \<and>
        dispatch_tool (g_agent G) name args thread_id (u :: ('w, 'd, 'z) llm_state_scheme) = (Inr (snd c), v))"

lemma append_exchange:
  "p_call part = Some (name, args) \<Longrightarrow>
     append_tool_call_messages messages part name res = messages @ exchange (part, res)"
  by (simp add: append_tool_call_messages_def exchange_def)

lemma APOLOGY_nonempty [simp]: "APOLOGY \<noteq> []" by (simp add: APOLOGY_def)

lemma tool_loop_calls:
  fixes s :: "('w, 'd, 'z) llm_state_scheme"
  assumes "gemini_tool_loop G client si k n response messages s = (Inr (reply, messages'), t)"
  shows "\<exists>calls. messages' = messages @ concat (map exchange calls) \<and> length calls \<le> n \<and>
    list_all (dispatched G k TYPE(('w, 'd, 'z) llm_state_scheme)) calls \<and> reply \<noteq> [] \<and>
    (length calls = n \<longrightarrow> reply = APOLOGY)"
  using assms
proof (induction n arbitrary: response messages s)
  case 0
  then show ?case by (intro exI [of _ "[]"]) simp
next
  case (Suc n)
  from Suc.prems obtain parts where parts: "first_parts response = Inr parts"
    by (cases "first_parts response") simp_all
  show ?case
  proof (cases "\<exists>part more_parts name args. parts = part # more_parts \<and> p_call part = Some (name, args)")
    case False
    then show ?thesis using Suc.prems parts
      by (intro exI [of _ "[]"]) (auto split: list.splits option.splits if_splits)
  next
    case True
    then obtain part ps name args where part: "parts = part # ps" "p_call part = Some (name, args)" by blast
    obtain d u where d: "dispatch_tool (g_agent G) name args k s = (d, u)" by fastforce
    obtain res where res: "d = Inr res" using Suc.prems parts part d by (cases d) (auto simp: andthen_def)
    obtain g w where g: "generate_content G client si (messages @ exchange (part, res)) u = (g, w)" by fastforce
    obtain response' where r: "g = Inr response'"
      using Suc.prems parts part d res g by (cases g) (auto simp: andthen_def append_exchange Let_def)
    have "gemini_tool_loop G client si k n response' (messages @ exchange (part, res)) w =
        (Inr (reply, messages'), t)"
      using Suc.prems parts part d res g r by (simp add: andthen_def append_exchange Let_def)
    from Suc.IH [OF this] obtain calls where calls:
      "messages' = (messages @ exchange (part, res)) @ concat (map exchange calls)" "length calls \<le> n"
      "list_all (dispatched G k TYPE(('w, 'd, 'z) llm_state_scheme)) calls" "reply \<noteq> []"
      "length calls = n \<longrightarrow> reply = APOLOGY"
      by blast
    moreover have "dispatched G k TYPE(('w, 'd, 'z) llm_state_scheme) (part, res)"
      using part d res unfolding dispatched_def by auto
    ultimately show ?thesis by (intro exI [of _ "(part, res) # calls"]) simp
  qed
qed

text \<open>\<open>re.sub\<close> leaves no bracket that is closed later.\<close>

lemma in_set_tl: "x \<in> set (tl xs) \<Longrightarrow> x \<in> set xs"
  by (cases xs) auto

lemma strip_tags_set: "set (strip_tags cs) \<subseteq> set cs"
proof (induction cs rule: strip_tags.induct)
  case (2 c cs)
  have "set (tl (dropWhile P cs)) \<subseteq> set cs" for P
    using set_dropWhileD [of _ P cs] by (auto dest!: in_set_tl)
  with 2 show ?case by (cases "c = CHR ''<'' \<and> CHR ''>'' \<in> set cs") (force, simp only: strip_tags.simps if_False list.set, blast)
qed simp

definition closed_tag :: "string \<Rightarrow> bool" where
  "closed_tag s \<longleftrightarrow> (\<exists>a b c. s = a @ CHR ''<'' # b @ CHR ''>'' # c)"

lemma closed_tag_Cons: "closed_tag (x # s) \<longleftrightarrow> x = CHR ''<'' \<and> CHR ''>'' \<in> set s \<or> closed_tag s"
proof
  assume "closed_tag (x # s)"
  then obtain a b c where "x # s = a @ CHR ''<'' # b @ CHR ''>'' # c" unfolding closed_tag_def by blast
  then show "x = CHR ''<'' \<and> CHR ''>'' \<in> set s \<or> closed_tag s"
    by (cases a) (auto simp: closed_tag_def)
next
  assume "x = CHR ''<'' \<and> CHR ''>'' \<in> set s \<or> closed_tag s"
  then show "closed_tag (x # s)"
  proof
    assume "x = CHR ''<'' \<and> CHR ''>'' \<in> set s"
    moreover from this obtain b c where "s = b @ CHR ''>'' # c" by (meson split_list)
    ultimately show ?thesis unfolding closed_tag_def by (metis append_Nil)
  next
    assume "closed_tag s"
    then show ?thesis unfolding closed_tag_def by (metis append_Cons)
  qed
qed

lemma strip_tags_closed: "\<not> closed_tag (strip_tags cs)"
proof (induction cs rule: strip_tags.induct)
  case 1
  then show ?case by (simp add: closed_tag_def)
next
  case (2 c cs)
  then show ?case using strip_tags_set [of cs] by (auto simp: closed_tag_Cons)
qed

lemma concat_chunks: "concat (stream_text_in_chunks cs) = cs"
  by (induction cs rule: stream_text_in_chunks.induct) (subst stream_text_in_chunks.simps, auto)

lemma chunk_lengths: "chunk \<in> set (stream_text_in_chunks cs) \<Longrightarrow> chunk \<noteq> [] \<and> length chunk \<le> 5"
proof (induction cs rule: stream_text_in_chunks.induct)
  case (1 cs)
  then show ?case by (subst (asm) (2) stream_text_in_chunks.simps) (auto split: if_splits)
qed

text \<open>A message is intercepted exactly when it reports an authorization.\<close>

lemma intercepted_iff:
  "handle_authorization_callback G message k language s = (Inr r, t) \<Longrightarrow> r \<noteq> None \<longleftrightarrow> reports_authorization message"
  unfolding handle_authorization_callback_def
  by (auto simp: andthen_Inr_conv split: if_splits option.splits)


text \<open>
  a scripted or intercepted reply is streamed as it is answered: both run the same steps and
  fail alike, the chunks are at most five characters each and make up the text, and the answer is
  that text, without any closed tag when the message reports an authorization.
\<close>

theorem stream_is_the_reply:
  assumes "reports_authorization message \<or> ag_mock_llm (ag_cfg (g_agent G))"
  shows "case run_agent G message k org history key prompt language name s of
      (Inl e, t) \<Rightarrow> run_agent_stream G message k org history key prompt language name s = (([], Some e), t)
    | (Inr reply, t) \<Rightarrow> \<exists>chunks.
        run_agent_stream G message k org history key prompt language name s = ((chunks, None), t) \<and>
        list_all (\<lambda>chunk. chunk \<noteq> [] \<and> length chunk \<le> 5) chunks \<and>
        (if reports_authorization message
         then reply = strip_tags (concat chunks) \<and> \<not> closed_tag reply else reply = concat chunks)"
proof (cases "handle_authorization_callback G message k language s")
  case (Pair r t)
  show ?thesis
  proof (cases "\<exists>out. r = Inr (Some out)")
    case True
    then obtain out where out: "r = Inr (Some out)" by blast
    with Pair have "reports_authorization message" using intercepted_iff by blast
    then show ?thesis unfolding run_agent_def run_agent_stream_def
      by (simp add: andthen_def awaiting_def Pair out yields_def concat_chunks strip_tags_closed list_all_iff
          chunk_lengths)
  next
    case False
    show ?thesis
    proof (cases r)
      case (Inl e)
      then show ?thesis by (simp add: run_agent_def run_agent_stream_def andthen_def awaiting_def Pair)
    next
      case (Inr x)
      with False have none: "r = Inr None" by (cases x) auto
      with Pair have no: "\<not> reports_authorization message" using intercepted_iff by blast
      with assms have mock: "ag_mock_llm (ag_cfg (g_agent G))" by simp
      obtain a u where a: "mock_response G message k name language t = (a, u)" by fastforce
      show ?thesis unfolding run_agent_def run_agent_stream_def
        using no mock by (cases a) (auto simp: andthen_def awaiting_def Pair none a yields_def concat_chunks
          list_all_iff chunk_lengths)
    qed
  qed
qed

lemma guard_false:
  assumes "pending_guard state pending = Inr False"
  shows "dispatch_authorized_state G state k pending language s = (Inr None, s)"
  using assms by (simp add: dispatch_authorized_state_def)

definition AUTHORIZED_STATES :: "flow_state set" where
  "AUTHORIZED_STATES = {BOOKING_AUTHORIZED, LIST_AUTHORIZED, UPDATE_AUTHORIZED, DELETE_AUTHORIZED}"

lemma callback_refused:
  fixes s :: "('w, 'd, 'z) llm_state_scheme"
  assumes K: "kv_store (ag_kv (g_agent G)) view storable"
    and "reports_authorization message"
    and state: "flow_of (seen view s NS_STATE k) \<notin> AUTHORIZED_STATES \<or>
      pending_guard (flow_of (seen view s NS_STATE k)) (seen view s NS_PENDING k) = Inr False"
    and run: "handle_authorization_callback G message k language s = (r, t)"
  shows "after_reads view s t \<and> r = bind_res (say G language ''not_authorized_prompt'' []) (\<lambda>x. Inr (Some x))"
proof -
  let ?K = "ag_kv (g_agent G)" and ?f = "flow_of (seen view s NS_STATE k)"
  obtain u where u: "get_state ?K k s = (Inr ?f, u)" "after_reads view s u"
    by (rule readsE [OF kv_store.reads_get_state [OF K]])
  obtain w where w: "get_pending_meeting ?K k u = (Inr (seen view u NS_PENDING k), w)" "after_reads view u w"
    using readsE [OF kv_store.reads_sm_fetch [OF K, of NS_PENDING k JNull], of u]
    unfolding get_pending_meeting_def by (metis (full_types))
  have same: "seen view u NS_PENDING k = seen view s NS_PENDING k"
    using after_readsD(3) [OF u(2)] by simp
  have "\<exists>v. after_reads view s v \<and>
      (if ?f \<in> AUTHORIZED_STATES then
         andthen (get_pending_meeting ?K k) (\<lambda>pending. dispatch_authorized_state G ?f k pending language)
       else ret None) u = (Inr None, v)"
  proof (cases "?f \<in> AUTHORIZED_STATES")
    case True
    with state have "pending_guard ?f (seen view s NS_PENDING k) = Inr False" by simp
    then have "dispatch_authorized_state G ?f k (seen view s NS_PENDING k) language w = (Inr None, w)"
      by (rule guard_false)
    with True w same after_reads_trans [OF u(2) w(2)] show ?thesis by (simp add: andthen_def)
  qed (use u(2) in simp)
  then obtain v where v: "after_reads view s v"
    "(if ?f \<in> AUTHORIZED_STATES then
         andthen (get_pending_meeting ?K k) (\<lambda>pending. dispatch_authorized_state G ?f k pending language)
       else ret None) u = (Inr None, v)" by blast
  have "handle_authorization_callback G message k language s =
      andthen (lift_res (say G language ''not_authorized_prompt'' [])) (\<lambda>x. ret (Some x)) v"
    using assms(2) v(2) unfolding handle_authorization_callback_def AUTHORIZED_STATES_def
    by (simp add: andthen_def u(1))
  then show ?thesis using run v(1) by (cases "say G language ''not_authorized_prompt'' []") auto
qed

text \<open>
  C17: saying "authorized" authorizes nothing: unless the thread's flow state records that the user
  consented, and the pending meeting names what was consented to, such a message sends no request,
  asks Gemini nothing, changes no state the store shows, and is answered with the prompt to
  authorize first.
\<close>

theorem resume_needs_recorded_consent:
  fixes s :: "('w, 'd, 'z) llm_state_scheme"
  assumes "kv_store (ag_kv (g_agent G)) view storable" and "reports_authorization message"
    and "flow_of (seen view s NS_STATE k) \<notin> AUTHORIZED_STATES \<or>
      pending_guard (flow_of (seen view s NS_STATE k)) (seen view s NS_PENDING k) = Inr False"
    and "run_agent G message k org history key prompt language name s = (r, t)"
  shows "after_reads view s t \<and> sent t = sent s \<and> llm_asked t = llm_asked s \<and>
    r = bind_res (say G language ''not_authorized_prompt'' []) (\<lambda>x. Inr (strip_tags x))"
proof -
  obtain a u where a: "handle_authorization_callback G message k language s = (a, u)" by fastforce
  have u: "after_reads view s u" "a = bind_res (say G language ''not_authorized_prompt'' []) (\<lambda>x. Inr (Some x))"
    using callback_refused [OF assms(1-3) a] by blast+
  have "t = u \<and> r = bind_res (say G language ''not_authorized_prompt'' []) (\<lambda>x. Inr (strip_tags x))"
  proof (cases "say G language ''not_authorized_prompt'' []")
    case (Inl e)
    with u(2) have "a = Inl e" by simp
    with assms(4) a have "r = Inl e" "t = u" by (simp_all add: run_agent_def andthen_def)
    with Inl show ?thesis by simp
  next
    case (Inr x)
    with u(2) have "a = Inr (Some x)" by simp
    with assms(4) a have "r = Inr (strip_tags x)" "t = u" by (simp_all add: run_agent_def andthen_def)
    with Inr show ?thesis by simp
  qed
  moreover have "sent u = sent s \<and> llm_asked u = llm_asked s" using u(1) by (auto simp: after_reads_def)
  ultimately show ?thesis using u(1) by simp
qed

subsection \<open>Witnesses\<close>

definition demo_gem :: "(unit, mem_store, unit) gem_env" where
  "demo_gem = \<lparr>g_agent = demo_agent, g_generate = (\<lambda>c si ms w. (Inr [Some [text_part ''hi'']], 1, ())),
     g_stream = (\<lambda>c si ms w. (Inr ([[Some [text_part ''hi'']]], None), 1, ())), g_date = (\<lambda>_. ''2026-05-22''),
     g_weekday = (\<lambda>_. ''Friday''), g_field = (\<lambda>_ _. Inl (KeyError ''field''))\<rparr>"

definition demo_llm :: "(unit, mem_store) llm_state" where
  "demo_llm = \<lparr>world = (), wall = 0, mono = 0, sent = [], tok_cache = Map.empty, m2m_log = [],
     store = Map.empty, rand_used = 0, auth_log = [], cfg_cache = Map.empty, mcp_jwks = JNull, mcp_jwks_time = 0,
     gem_client = None, llm_asked = 0\<rparr>"

lemma demo_gem_kv: "kv_store (ag_kv (g_agent demo_gem)) mem_view (\<lambda>_. True)"
  by (simp add: demo_gem_def mem.kv_store_axioms)

lemma demo_authorized: "reports_authorization ''authorized''"
  by code_simp


theorem stream_is_the_reply_witness:
  "case run_agent demo_gem ''authorized'' ''t'' ''o'' [] [] [] ''en'' ''n'' demo_llm of
      (Inl e, t) \<Rightarrow> run_agent_stream demo_gem ''authorized'' ''t'' ''o'' [] [] [] ''en'' ''n'' demo_llm = (([], Some e), t)
    | (Inr reply, t) \<Rightarrow> \<not> closed_tag reply"
  using stream_is_the_reply [of "''authorized''" demo_gem "''t''" "''o''" "[]" "[]" "[]" "''en''" "''n''" demo_llm]
  by (auto simp: demo_authorized split: prod.splits sum.splits)

theorem resume_needs_recorded_consent_witness:
  "\<exists>r t. run_agent demo_gem ''authorized'' ''t'' ''o'' [] [] [] ''en'' ''n'' demo_llm = (r, t) \<and>
     sent t = [] \<and> llm_asked t = 0"
proof -
  obtain r t where run: "run_agent demo_gem ''authorized'' ''t'' ''o'' [] [] [] ''en'' ''n'' demo_llm = (r, t)"
    by fastforce
  have none: "seen mem_view demo_llm NS_STATE ''t'' = JNull"
    by (simp add: seen_def demo_llm_def mem_view_def mem_get_def)
  have "flow_of (seen mem_view demo_llm NS_STATE ''t'') \<notin> AUTHORIZED_STATES"
    by (simp add: none AUTHORIZED_STATES_def)
  moreover have "sent demo_llm = [] \<and> llm_asked demo_llm = 0" by (simp add: demo_llm_def)
  ultimately show ?thesis
    using resume_needs_recorded_consent [OF demo_gem_kv demo_authorized _ run] run by auto
qed

end
