(* ===== verification/Rate_Limit.thy ===== *)
theory Rate_Limit
  imports Config
begin

text \<open>
  \<open>common/rate_limit.py\<close>: the limiter registry and the dependency that enforces one of the
  module's limits per client. The \<open>limits\<close> package is third-party code: its parser of limit
  strings, its storages and its fixed-window strategy are the record below, over an abstract
  parsed limit \<open>'i\<close> and an abstract limiter state \<open>'m\<close>.
\<close>

record ('i, 'm) limits_lib =
  parse_limit :: "string \<Rightarrow> exn + 'i"
  new_limiter :: "string \<Rightarrow> 'm"
  hit_limiter :: "'m \<Rightarrow> 'i \<Rightarrow> string \<Rightarrow> bool \<times> 'm"

subsection \<open>Configuration\<close>

text \<open>The module-level constants: limit strings by name, and the switch.\<close>

record rate_config =
  limit_specs :: "string \<Rightarrow> string option"
  rl_enabled :: bool

definition rate_config_of :: "environ \<Rightarrow> rate_config" where
  "rate_config_of E = \<lparr>
     limit_specs =
       [''CHAT_LIMIT'' \<mapsto> getenv E ''RATE_LIMIT_CHAT'' ''60/minute'',
        ''AUTH_LIMIT'' \<mapsto> getenv E ''RATE_LIMIT_AUTH'' ''120/minute'',
        ''DEFAULT_LIMIT'' \<mapsto> getenv E ''RATE_LIMIT_DEFAULT'' ''600/minute''],
     rl_enabled =
       (lower (strip (getenv E ''RATE_LIMIT_ENABLED'' ''true'')) \<notin> {''0'', ''false'', ''no''})\<rparr>"

definition MEMORY_URI :: string where "MEMORY_URI = ''memory://''"

definition storage_uri :: "environ \<Rightarrow> string" where
  "storage_uri E =
     (let redis_url = strip (getenv E ''REDIS_URL'' '''')
      in if redis_url \<noteq> [] then redis_url else ''memory://'')"

definition describe :: "environ \<Rightarrow> rate_config \<Rightarrow> string" where
  "describe E c =
     (let backend = (if storage_uri E \<noteq> ''memory://'' then ''redis'' else ''in-memory (per-process)'');
          spec = (\<lambda>n. case limit_specs c n of Some v \<Rightarrow> v | None \<Rightarrow> [])
      in if \<not> rl_enabled c then ''rate limiting disabled (RATE_LIMIT_ENABLED=false)''
         else ''rate limiting active, storage='' @ backend @ '', chat='' @ spec ''CHAT_LIMIT'' @ '', '' @
           ''auth='' @ spec ''AUTH_LIMIT'' @ '', default='' @
           (if spec ''DEFAULT_LIMIT'' \<noteq> [] then spec ''DEFAULT_LIMIT'' else ''none''))"

subsection \<open>The registry\<close>

text \<open>The limiter with the URI it was built for, and the parsed limits by their text.\<close>

record ('i, 'm) registry =
  limiter :: "(string \<times> 'm) option"
  items :: "string \<Rightarrow> 'i option"

definition fresh_registry :: "('i, 'm) registry" where
  "fresh_registry = \<lparr>limiter = None, items = Map.empty\<rparr>"

definition ensure_limiter ::
  "('i, 'm) limits_lib \<Rightarrow> environ \<Rightarrow> (('i, 'm) registry, 'm) prog" where
  "ensure_limiter lib E r =
     (let uri = storage_uri E
      in case limiter r of
           Some (u, m) \<Rightarrow>
             if u = uri then (Inr m, r)
             else (Inr (new_limiter lib uri), r\<lparr>limiter := Some (uri, new_limiter lib uri)\<rparr>)
         | None \<Rightarrow> (Inr (new_limiter lib uri), r\<lparr>limiter := Some (uri, new_limiter lib uri)\<rparr>))"

definition rate_item :: "('i, 'm) limits_lib \<Rightarrow> string \<Rightarrow> (('i, 'm) registry, 'i) prog" where
  "rate_item lib spec r =
     (case items r spec of
        Some i \<Rightarrow> (Inr i, r)
      | None \<Rightarrow>
          (case parse_limit lib spec of
             Inl e \<Rightarrow> (Inl e, r)
           | Inr i \<Rightarrow> (Inr i, r\<lparr>items := (items r)(spec \<mapsto> i)\<rparr>)))"

definition registry_hit ::
  "('i, 'm) limits_lib \<Rightarrow> environ \<Rightarrow> string \<Rightarrow> string \<Rightarrow> (('i, 'm) registry, bool) prog" where
  "registry_hit lib E spec identity =
     andthen (ensure_limiter lib E) (\<lambda>m.
     andthen (rate_item lib spec) (\<lambda>i.
       (case hit_limiter lib m i identity of (ok, m') \<Rightarrow>
          andthen (modify (\<lambda>r. r\<lparr>limiter := Some (storage_uri E, m')\<rparr>)) (\<lambda>_. ret ok))))"

definition registry_reset :: "('i, 'm) registry \<Rightarrow> ('i, 'm) registry" where
  "registry_reset r = fresh_registry"

subsection \<open>The dependency\<close>

text \<open>What \<open>client_identity\<close> reads of a request: the forwarding header and the peer.\<close>

record client_info =
  forwarded_for :: "string option"
  peer_host :: "string option"
  req_path :: string

definition client_identity :: "environ \<Rightarrow> client_info \<Rightarrow> string" where
  "client_identity E q =
     (let peer = (case peer_host q of Some h \<Rightarrow> if h \<noteq> [] then h else ''unknown'' | None \<Rightarrow> ''unknown'')
      in if lower (strip (getenv E ''RATE_LIMIT_TRUST_FORWARDED_FOR'' '''')) \<in> {''1'', ''true'', ''yes''} then
           (case forwarded_for q of
              Some f \<Rightarrow> if f \<noteq> [] then strip (hd (split_char (CHR '','') f)) else peer
            | None \<Rightarrow> peer)
         else peer)"

definition limit_identity :: "environ \<Rightarrow> string \<Rightarrow> client_info \<Rightarrow> string" where
  "limit_identity E spec_name q = spec_name @ '':'' @ client_identity E q"

definition rate_limit_check ::
  "('i, 'm) limits_lib \<Rightarrow> environ \<Rightarrow> rate_config \<Rightarrow> string \<Rightarrow> client_info
     \<Rightarrow> (('i, 'm) registry, unit) prog" where
  "rate_limit_check lib E c spec_name q =
     (if \<not> rl_enabled c then ret ()
      else
        (let spec = (case limit_specs c spec_name of Some v \<Rightarrow> v | None \<Rightarrow> [])
         in if spec = [] then ret ()
            else
              andthen (registry_hit lib E spec (limit_identity E spec_name q)) (\<lambda>ok.
                if \<not> ok then raise (HttpError 429 (''Rate limit exceeded: '' @ spec)) else ret ())))"

subsection \<open>A sequence of requests\<close>

fun check_all ::
  "('i, 'm) limits_lib \<Rightarrow> environ \<Rightarrow> rate_config \<Rightarrow> string \<Rightarrow> client_info list
     \<Rightarrow> ('i, 'm) registry \<Rightarrow> (exn + unit) list" where
  "check_all lib E c spec_name [] r = []"
| "check_all lib E c spec_name (q # qs) r =
     (case rate_limit_check lib E c spec_name q r of
        (out, r') \<Rightarrow> out # check_all lib E c spec_name qs r')"

text \<open>
  What the documentation of \<open>limits\<close> says of the fixed-window strategy within one window: per
  limit and key it counts the hits it let through, and lets one through while the count is
  below the limit. A new storage has counted nothing.
\<close>

definition fixed_window ::
  "('i, 'm) limits_lib \<Rightarrow> ('m \<Rightarrow> 'i \<Rightarrow> string \<Rightarrow> nat) \<Rightarrow> ('i \<Rightarrow> nat) \<Rightarrow> bool" where
  "fixed_window lib used allowed \<longleftrightarrow>
     (\<forall>uri i k. used (new_limiter lib uri) i k = 0) \<and>
     (\<forall>m i k. fst (hit_limiter lib m i k) = (used m i k < allowed i)) \<and>
     (\<forall>m i k j l. used (snd (hit_limiter lib m i k)) j l =
        (if j = i \<and> l = k \<and> used m i k < allowed i then Suc (used m i k) else used m j l))"

lemma fixed_windowD:
  assumes "fixed_window lib used allowed"
  shows "used (new_limiter lib uri) i k = 0"
    and "fst (hit_limiter lib m i k) = (used m i k < allowed i)"
    and "used (snd (hit_limiter lib m i k)) j l =
      (if j = i \<and> l = k \<and> used m i k < allowed i then Suc (used m i k) else used m j l)"
  using assms by (simp_all add: fixed_window_def)

text \<open>The hits counted for a key in a registry whose limiter may not exist yet.\<close>

definition used_in :: "('m \<Rightarrow> 'i \<Rightarrow> string \<Rightarrow> nat) \<Rightarrow> environ \<Rightarrow> ('i, 'm) registry \<Rightarrow> 'i \<Rightarrow> string \<Rightarrow> nat" where
  "used_in used E r i k =
     (case limiter r of Some (u, m) \<Rightarrow> if u = storage_uri E then used m i k else 0 | None \<Rightarrow> 0)"

lemma registry_hit_counts:
  assumes fw: "fixed_window lib used allowed"
    and parse: "parse_limit lib spec = Inr i"
    and items: "items r spec \<in> {None, Some i}"
  shows "\<exists>r'. registry_hit lib E spec k r = (Inr (used_in used E r i k < allowed i), r') \<and>
    items r' spec = Some i \<and>
    (\<forall>l. used_in used E r' i l =
       (if l = k \<and> used_in used E r i k < allowed i then Suc (used_in used E r i k)
        else used_in used E r i l))"
proof -
  define m where "m = (case limiter r of Some (u, m) \<Rightarrow> if u = storage_uri E then m else new_limiter lib (storage_uri E)
      | None \<Rightarrow> new_limiter lib (storage_uri E))"
  have m: "used m i l = used_in used E r i l" for l
    using fixed_windowD(1) [OF fw]
    by (auto simp: m_def used_in_def split: option.splits)
  define r1 where "r1 = snd (ensure_limiter lib E r)"
  have r1: "ensure_limiter lib E r = (Inr m, r1)" "items r1 = items r"
    by (cases "limiter r"; auto simp: r1_def ensure_limiter_def m_def Let_def)+
  obtain r2 where r2: "rate_item lib spec r1 = (Inr i, r2)" "items r2 spec = Some i"
    using items parse r1(2) by (auto simp: rate_item_def split: option.splits)
  obtain ok m' where hit: "hit_limiter lib m i k = (ok, m')" by (cases "hit_limiter lib m i k")
  have "registry_hit lib E spec k r = (Inr ok, r2\<lparr>limiter := Some (storage_uri E, m')\<rparr>)"
    by (simp add: registry_hit_def andthen_def r1 r2 hit)
  moreover have "ok = (used_in used E r i k < allowed i)"
    using fixed_windowD(2) [OF fw, of m i k] by (simp add: hit m)
  moreover have "used m' i l = (if l = k \<and> used_in used E r i k < allowed i
      then Suc (used_in used E r i k) else used_in used E r i l)" for l
    using fixed_windowD(3) [OF fw, of m i k i l] by (simp add: hit m)
  ultimately show ?thesis using r2(2) by (simp add: used_in_def)
qed

lemma check_all_counts:
  assumes fw: "fixed_window lib used allowed"
    and parse: "parse_limit lib spec = Inr i"
    and cfg: "rl_enabled c" "limit_specs c spec_name = Some spec" "spec \<noteq> []"
    and "items r spec \<in> {None, Some i}" and "j < length qs"
  shows "check_all lib E c spec_name qs r ! j =
    (if used_in used E r i (limit_identity E spec_name (qs ! j)) +
        length (filter (\<lambda>q. limit_identity E spec_name q = limit_identity E spec_name (qs ! j)) (take j qs))
        < allowed i
     then Inr () else Inl (HttpError 429 (''Rate limit exceeded: '' @ spec)))"
  using assms(6,7)
proof (induction qs arbitrary: r j)
  case (Cons q qs)
  let ?id = "limit_identity E spec_name"
  obtain r' where hit: "registry_hit lib E spec (?id q) r =
      (Inr (used_in used E r i (?id q) < allowed i), r')" and items: "items r' spec = Some i"
    and used: "\<And>l. used_in used E r' i l =
       (if l = ?id q \<and> used_in used E r i (?id q) < allowed i then Suc (used_in used E r i (?id q))
        else used_in used E r i l)"
    using registry_hit_counts [OF fw parse Cons.prems(1)] by blast
  have check: "rate_limit_check lib E c spec_name q r =
      (if used_in used E r i (?id q) < allowed i then Inr ()
       else Inl (HttpError 429 (''Rate limit exceeded: '' @ spec)), r')"
    by (simp add: rate_limit_check_def cfg andthen_def hit)
  show ?case
  proof (cases j)
    case 0
    then show ?thesis by (simp add: check)
  next
    case (Suc n)
    then have "n < length qs" using Cons.prems(2) by simp
    from Cons.IH [OF _ this, of r'] show ?thesis
      by (auto simp: check items used Suc)
  qed
qed simp

subsection \<open>Properties\<close>

text \<open>
  C6: within one window every client gets its own allowance: in any sequence of requests
  against a fresh registry, a request is refused with 429 exactly when as many earlier
  requests with the same identity as the limit allows have come before it; requests of other
  clients, and the ones refused, do not count.
\<close>

theorem rate_limit_per_client:
  assumes "fixed_window lib used allowed" and "parse_limit lib spec = Inr i"
    and "rl_enabled c" and "limit_specs c spec_name = Some spec" and "spec \<noteq> []"
    and "j < length qs"
  shows "check_all lib E c spec_name qs fresh_registry ! j =
    (if length (filter (\<lambda>q. limit_identity E spec_name q = limit_identity E spec_name (qs ! j)) (take j qs))
        < allowed i
     then Inr () else Inl (HttpError 429 (''Rate limit exceeded: '' @ spec)))"
  using check_all_counts [OF assms(1-5), of fresh_registry j qs E] assms(6)
  by (simp add: fresh_registry_def used_in_def)

text \<open>A limiter that counts, for one parsed limit per number.\<close>

definition counting_lib :: "(nat, nat \<Rightarrow> string \<Rightarrow> nat) limits_lib" where
  "counting_lib = \<lparr>
     parse_limit = (\<lambda>s. case digits_val False 0 (takeWhile is_digit s) of Some n \<Rightarrow> Inr n
       | None \<Rightarrow> Inl (ValueError ''limit'')),
     new_limiter = (\<lambda>_ _ _. 0),
     hit_limiter = (\<lambda>m i k. if m i k < i then (True, m(i := (m i)(k := Suc (m i k)))) else (False, m))\<rparr>"

theorem rate_limit_per_client_witness:
  "check_all counting_lib Map.empty \<lparr>limit_specs = [''CHAT_LIMIT'' \<mapsto> ''2/minute''], rl_enabled = True\<rparr>
     ''CHAT_LIMIT''
     (map (\<lambda>h. \<lparr>forwarded_for = None, peer_host = Some h, req_path = ''/chat''\<rparr>) [''a'', ''a'', ''b'', ''a''])
     fresh_registry ! 3 =
   Inl (HttpError 429 ''Rate limit exceeded: 2/minute'')"
proof -
  have "fixed_window counting_lib (\<lambda>m. m) (\<lambda>i. i)"
    by (simp add: fixed_window_def counting_lib_def)
  moreover have "parse_limit counting_lib ''2/minute'' = Inr 2"
    by (simp add: counting_lib_def is_digit_def digit_val_def)
  ultimately show ?thesis
    by (subst rate_limit_per_client [where i = 2 and spec = "''2/minute''" and used = "\<lambda>m. m" and allowed = "\<lambda>i. i"])
       (simp_all add: limit_identity_def client_identity_def lower_def)
qed

end
