(* ===== verification/Agent_Main.thy ===== *)
theory Agent_Main
  imports Gemini_Agent Rate_Limit
begin

text \<open>
  \<open>agent/main.py\<close> and \<open>agent/schemas.py\<close>: the endpoints of the agent service. Chat requests come
  from the portal with a service token; \<open>/authorize\<close> and \<open>/callback\<close> come from the user's browser
  and are tied together by a signed state and a cookie; MCP streams are counted. FastAPI runs the
  dependencies of an endpoint in order before its handler, and turns what a handler raises into
  an error response.
\<close>

subsection \<open>Request and response models\<close>

record chat_request =
  cr_thread_id :: string
  cr_message :: string
  cr_org_name :: string
  cr_agent_id :: "string option"
  cr_agent_secret :: "string option"
  cr_gemini_api_key :: "string option"
  cr_custom_prompt :: "string option"
  cr_language :: "string option"
  cr_agent_name :: "string option"

definition str_field :: "dict \<Rightarrow> string \<Rightarrow> string option \<Rightarrow> exn + string" where
  "str_field d k dflt =
     (case dict_get d k of
        Some (JStr s) \<Rightarrow> Inr s
      | Some _ \<Rightarrow> Inl RequestValidationError
      | None \<Rightarrow> (case dflt of Some s \<Rightarrow> Inr s | None \<Rightarrow> Inl RequestValidationError))"

definition opt_str_field :: "dict \<Rightarrow> string \<Rightarrow> string option \<Rightarrow> exn + string option" where
  "opt_str_field d k dflt =
     (case dict_get d k of
        Some (JStr s) \<Rightarrow> Inr (Some s)
      | Some JNull \<Rightarrow> Inr None
      | Some _ \<Rightarrow> Inl RequestValidationError
      | None \<Rightarrow> Inr dflt)"

definition ChatRequest :: "dict \<Rightarrow> exn + chat_request" where
  "ChatRequest d =
     bind_res (str_field d ''thread_id'' None) (\<lambda>thread_id.
     bind_res (str_field d ''message'' None) (\<lambda>message.
     bind_res (str_field d ''org_name'' (Some '''')) (\<lambda>org_name.
     bind_res (opt_str_field d ''agent_id'' None) (\<lambda>agent_id.
     bind_res (opt_str_field d ''agent_secret'' None) (\<lambda>agent_secret.
     bind_res (opt_str_field d ''gemini_api_key'' None) (\<lambda>gemini_api_key.
     bind_res (opt_str_field d ''custom_prompt'' None) (\<lambda>custom_prompt.
     bind_res (opt_str_field d ''language'' (Some ''en'')) (\<lambda>language.
     bind_res (opt_str_field d ''agent_name'' (Some DEFAULT_AGENT_NAME)) (\<lambda>agent_name.
       Inr \<lparr>cr_thread_id = thread_id, cr_message = message, cr_org_name = org_name, cr_agent_id = agent_id,
         cr_agent_secret = agent_secret, cr_gemini_api_key = gemini_api_key, cr_custom_prompt = custom_prompt,
         cr_language = language, cr_agent_name = agent_name\<rparr>)))))))))"

record chat_response =
  ch_message :: string
  ch_state :: string
  ch_authorization_url :: "string option"
  ch_obo_jwt :: "string option"
  ch_agent_jwt :: "string option"

definition optional_str :: "json \<Rightarrow> exn + string option" where
  "optional_str v =
     (case v of JNull \<Rightarrow> Inr None | JStr s \<Rightarrow> Inr (Some s) | _ \<Rightarrow> Inl (ValueError ''Input should be a valid string''))"

definition ChatResponse :: "string \<Rightarrow> string \<Rightarrow> json \<Rightarrow> json \<Rightarrow> json \<Rightarrow> exn + chat_response" where
  "ChatResponse message state authorization_url obo_jwt agent_jwt =
     bind_res (optional_str authorization_url) (\<lambda>u.
     bind_res (optional_str obo_jwt) (\<lambda>obo.
     bind_res (optional_str agent_jwt) (\<lambda>agent.
       Inr \<lparr>ch_message = message, ch_state = state, ch_authorization_url = u, ch_obo_jwt = obo,
         ch_agent_jwt = agent\<rparr>)))"

text \<open>\<open>v or default\<close> for an optional text.\<close>

definition text_or :: "string option \<Rightarrow> string \<Rightarrow> string" where
  "text_or v dflt = (case v of Some s \<Rightarrow> if s \<noteq> [] then s else dflt | None \<Rightarrow> dflt)"

subsection \<open>The process\<close>

record ('w, 'd, 'k, 'i, 'm) main_env =
  m_gem :: "('w, 'd, 'k) gem_env"
  m_lib :: "('i, 'm) limits_lib"
  m_environ :: environ
  m_rates :: rate_config

abbreviation agent_of :: "('w, 'd, 'k, 'i, 'm) main_env \<Rightarrow> ('w, 'd, 'k) agent_env" where
  "agent_of M \<equiv> g_agent (m_gem M)"

abbreviation kv_of :: "('w, 'd, 'k, 'i, 'm) main_env \<Rightarrow> 'd kv_ops" where
  "kv_of M \<equiv> ag_kv (g_agent (m_gem M))"

record ('w, 'd, 'i, 'm) main_state = "('w, 'd) llm_state" +
  rate_registry :: "('i, 'm) registry"

definition OAUTH_STATE_TTL_SECONDS :: int where
  "OAUTH_STATE_TTL_SECONDS = 300"

definition MAX_MESSAGES :: nat where
  "MAX_MESSAGES = 50"

definition max_mcp_sse_streams :: "environ \<Rightarrow> exn + int" where
  "max_mcp_sse_streams E =
     (case parse_int (getenv E ''MAX_MCP_SSE_STREAMS'' ''32'') of
        Some n \<Rightarrow> Inr n
      | None \<Rightarrow> Inl (ValueError ''invalid literal for int() with base 10''))"

subsection \<open>Dependencies of the endpoints\<close>

definition limited ::
  "('w, 'd, 'k, 'i, 'm) main_env \<Rightarrow> string \<Rightarrow> client_info
     \<Rightarrow> (('w, 'd, 'i, 'm, 'z) main_state_scheme, unit) prog" where
  "limited M limit_name client s =
     (case rate_limit_check (m_lib M) (m_environ M) (m_rates M) limit_name client (rate_registry s) of
        (r, reg) \<Rightarrow> (r, s\<lparr>rate_registry := reg\<rparr>))"

definition agent_jwks ::
  "('w, 'd, 'k, 'i, 'm) main_env \<Rightarrow> (('w, 'd, 'z) mcp_state_scheme, dict) prog" where
  "agent_jwks M = andthen (mcp_get_jwks (agent_of M)) (\<lambda>jwks. lift_res (as_obj jwks))"

definition agent_require_service_auth ::
  "('w, 'd, 'k, 'i, 'm) main_env \<Rightarrow> string option \<Rightarrow> (('w, 'd, 'z) mcp_state_scheme, dict) prog" where
  "agent_require_service_auth M header =
     require_service_auth (ag_fr (agent_of M)) (ag_jwt (agent_of M)) (ag_skew (agent_of M)) (agent_jwks M)
       (ag_client_id (ag_cfg (agent_of M)))
       (token_issuer (ag_is_base_url (ag_cfg (agent_of M))) (ag_tenant_path (ag_cfg (agent_of M))))
       SERVICE_SCOPE header"

definition guarded ::
  "('w, 'd, 'k, 'i, 'm) main_env \<Rightarrow> string \<Rightarrow> client_info \<Rightarrow> string option
     \<Rightarrow> (('w, 'd, 'i, 'm, 'z) main_state_scheme, 'a) prog \<Rightarrow> (('w, 'd, 'i, 'm, 'z) main_state_scheme, 'a) prog" where
  "guarded M limit_name client header handler =
     andthen (limited M limit_name client) (\<lambda>_.
     andthen (agent_require_service_auth M header) (\<lambda>_. handler))"

subsection \<open>Chat\<close>

definition remember_request ::
  "('w, 'd, 'k, 'i, 'm) main_env \<Rightarrow> chat_request \<Rightarrow> (('w, 'd, 'z) store_state_scheme, unit) prog" where
  "remember_request M req =
     andthen (if cr_org_name req \<noteq> [] then set_org_name (kv_of M) (cr_thread_id req) (cr_org_name req) else ret ()) (\<lambda>_.
     andthen
       (if text_or (cr_agent_id req) '''' \<noteq> [] then
          set_agent_credentials (kv_of M) (cr_thread_id req) (JStr (text_or (cr_agent_id req) ''''))
            (JStr (text_or (cr_agent_secret req) ''''))
        else ret ()) (\<lambda>_.
       if text_or (cr_agent_name req) '''' \<noteq> [] then
         set_agent_name (kv_of M) (cr_thread_id req) (text_or (cr_agent_name req) '''')
       else ret ()))"

definition prefetch_agent_token ::
  "('w, 'd, 'k, 'i, 'm) main_env \<Rightarrow> string \<Rightarrow> json \<Rightarrow> (('w, 'd, 'z) auth_state_scheme, json) prog" where
  "prefetch_agent_token M thread_id initial_agent_jwt =
     (if truthy initial_agent_jwt then ret initial_agent_jwt
      else
        andthen (get_agent_credentials (kv_of M) thread_id) (\<lambda>(agent_id, agent_secret).
          if truthy agent_id \<and> truthy agent_secret then
            catch (fetch_agent_token (agent_of M) agent_id agent_secret thread_id) (\<lambda>_. ret initial_agent_jwt)
          else ret initial_agent_jwt))"

text \<open>The token snapshots and the history before this message.\<close>

definition prepare_chat ::
  "('w, 'd, 'k, 'i, 'm) main_env \<Rightarrow> chat_request \<Rightarrow> (('w, 'd, 'z) auth_state_scheme, json \<times> json \<times> json list) prog" where
  "prepare_chat M req =
     andthen (remember_request M req) (\<lambda>_.
     andthen (get_obo_jwt_raw (kv_of M) (cr_thread_id req)) (\<lambda>initial_obo_jwt.
     andthen (get_agent_jwt_raw (kv_of M) (cr_thread_id req)) (\<lambda>agent_jwt.
     andthen (prefetch_agent_token M (cr_thread_id req) agent_jwt) (\<lambda>initial_agent_jwt.
     andthen (get_history (kv_of M) (cr_thread_id req)) (\<lambda>history.
     andthen (add_message (kv_of M) MAX_MESSAGES (cr_thread_id req) ''user'' (cr_message req)) (\<lambda>_.
       ret (initial_obo_jwt, initial_agent_jwt, history)))))))"

record chat_metadata =
  md_state :: string
  md_authorization_url :: json
  md_obo_jwt :: json
  md_agent_jwt :: json

definition collect_response_metadata ::
  "('w, 'd, 'k, 'i, 'm) main_env \<Rightarrow> string \<Rightarrow> json \<Rightarrow> json \<Rightarrow> (('w, 'd, 'z) store_state_scheme, chat_metadata) prog" where
  "collect_response_metadata M thread_id initial_obo_jwt initial_agent_jwt =
     andthen (get_frontend_state (kv_of M) thread_id) (\<lambda>frontend_state.
     andthen (if frontend_state = AWAITING_AUTHORIZATION then get_auth_url (kv_of M) thread_id else ret JNull) (\<lambda>auth_url.
     andthen (get_obo_jwt_raw (kv_of M) thread_id) (\<lambda>obo_jwt.
     andthen (get_agent_jwt_raw (kv_of M) thread_id) (\<lambda>agent_jwt.
       ret \<lparr>md_state = frontend_value frontend_state, md_authorization_url = auth_url,
         md_obo_jwt = or_else obo_jwt initial_obo_jwt, md_agent_jwt = or_else agent_jwt initial_agent_jwt\<rparr>))))"

definition AI_API_ERROR_MESSAGES :: "(int \<times> string) list" where
  "AI_API_ERROR_MESSAGES =
     [(503, ''I'm sorry, the AI service is currently experiencing very high demand and is '' @
        ''temporarily unavailable. Please try again in a few moments.''),
      (429, ''I'm sorry, the rate limit for the AI service has been exceeded. Please try again in a few moments.''),
      (400, ''I'm sorry, the request sent to the AI service was invalid. This could be due to a '' @
        ''configuration issue or an incorrect API key.'')]"

definition api_error_message :: "int option \<Rightarrow> string" where
  "api_error_message code =
     (case code of
        Some c \<Rightarrow>
          (case map_of AI_API_ERROR_MESSAGES c of
             Some m \<Rightarrow> m
           | None \<Rightarrow> ''I'm sorry, the AI service encountered an error (Code '' @
               (if c = 0 then ''unknown'' else str_int c) @ ''). Please try again.'')
      | None \<Rightarrow> ''I'm sorry, the AI service encountered an error (Code unknown). Please try again.'')"

definition map_exception_to_user_message :: "exn \<Rightarrow> string" where
  "map_exception_to_user_message e =
     (case e of
        Timeout _ \<Rightarrow> ''I'm sorry, the request to the AI service timed out. Please try again.''
      | Transport _ \<Rightarrow> ''I'm sorry, I failed to communicate with the AI service. Please verify your connection and try again.''
      | HttpStatus _ \<Rightarrow> ''I'm sorry, I failed to communicate with the AI service. Please verify your connection and try again.''
      | ApiError code \<Rightarrow> api_error_message code
      | _ \<Rightarrow> ''I'm sorry, I encountered an unexpected error while processing your request. Please try again.'')"

definition answer_request ::
  "('w, 'd, 'k, 'i, 'm) main_env \<Rightarrow> chat_request \<Rightarrow> json list \<Rightarrow> (('w, 'd, 'z) llm_state_scheme, string) prog" where
  "answer_request M req history =
     run_agent (m_gem M) (cr_message req) (cr_thread_id req) (cr_org_name req) history
       (text_or (cr_gemini_api_key req) '''') (text_or (cr_custom_prompt req) '''') (text_or (cr_language req) ''en'')
       (text_or (cr_agent_name req) DEFAULT_AGENT_NAME)"

definition chat ::
  "('w, 'd, 'k, 'i, 'm) main_env \<Rightarrow> chat_request \<Rightarrow> (('w, 'd, 'z) llm_state_scheme, chat_response) prog" where
  "chat M req =
     andthen (prepare_chat M req) (\<lambda>(initial_obo_jwt, initial_agent_jwt, history).
     andthen (catch (answer_request M req history) (\<lambda>e. ret (map_exception_to_user_message e))) (\<lambda>response_text.
     andthen (add_message (kv_of M) MAX_MESSAGES (cr_thread_id req) ''assistant'' response_text) (\<lambda>_.
     andthen (collect_response_metadata M (cr_thread_id req) initial_obo_jwt initial_agent_jwt) (\<lambda>metadata.
       lift_res (ChatResponse response_text (md_state metadata) (md_authorization_url metadata)
         (md_obo_jwt metadata) (md_agent_jwt metadata))))))"

definition metadata_json :: "chat_metadata \<Rightarrow> json" where
  "metadata_json md =
     JObj [(''state'', JStr (md_state md)), (''authorization_url'', md_authorization_url md),
           (''obo_jwt'', md_obo_jwt md), (''agent_jwt'', md_agent_jwt md)]"

definition STREAM_ERROR :: string where
  "STREAM_ERROR = '' [Error: Connection to Gemini lost. Please try again.]''"

text \<open>
  The body of the streamed response: the chunks, then the metadata; a broken answer ends in an
  error text and is not remembered.
\<close>

definition stream_generator ::
  "('w, 'd, 'k, 'i, 'm) main_env \<Rightarrow> chat_request \<Rightarrow> json \<Rightarrow> json \<Rightarrow> json list \<Rightarrow> ('w, 'd, 'z) llm_state_scheme gen" where
  "stream_generator M req initial_obo_jwt initial_agent_jwt history s =
     (case run_agent_stream (m_gem M) (cr_message req) (cr_thread_id req) (cr_org_name req) history
         (text_or (cr_gemini_api_key req) '''') (text_or (cr_custom_prompt req) '''')
         (text_or (cr_language req) ''en'') (text_or (cr_agent_name req) DEFAULT_AGENT_NAME) s of
        ((chunks, Some e), t) \<Rightarrow> ((chunks @ [STREAM_ERROR], None), t)
      | ((chunks, None), t) \<Rightarrow>
          yielding chunks
            (awaiting (add_message (kv_of M) MAX_MESSAGES (cr_thread_id req) ''assistant'' (concat chunks)) (\<lambda>_.
             awaiting (collect_response_metadata M (cr_thread_id req) initial_obo_jwt initial_agent_jwt) (\<lambda>metadata.
               yields [''__METADATA_START__'' @ dumps (ag_fr (agent_of M)) (metadata_json metadata)]))) t)"

definition chat_stream ::
  "('w, 'd, 'k, 'i, 'm) main_env \<Rightarrow> chat_request \<Rightarrow> (('w, 'd, 'z) llm_state_scheme, string list \<times> exn option) prog" where
  "chat_stream M req =
     andthen (prepare_chat M req) (\<lambda>(initial_obo_jwt, initial_agent_jwt, history) s.
       (case stream_generator M req initial_obo_jwt initial_agent_jwt history s of (out, t) \<Rightarrow> (Inr out, t)))"

text \<open>The endpoints: the limit, the service token, the body, the handler.\<close>

definition chat_endpoint ::
  "('w, 'd, 'k, 'i, 'm) main_env \<Rightarrow> client_info \<Rightarrow> string option \<Rightarrow> dict
     \<Rightarrow> (('w, 'd, 'i, 'm, 'z) main_state_scheme, chat_response) prog" where
  "chat_endpoint M client header payload =
     guarded M ''CHAT_LIMIT'' client header (andthen (lift_res (ChatRequest payload)) (chat M))"

definition chat_stream_endpoint ::
  "('w, 'd, 'k, 'i, 'm) main_env \<Rightarrow> client_info \<Rightarrow> string option \<Rightarrow> dict
     \<Rightarrow> (('w, 'd, 'i, 'm, 'z) main_state_scheme, string list \<times> exn option) prog" where
  "chat_stream_endpoint M client header payload =
     guarded M ''CHAT_LIMIT'' client header (andthen (lift_res (ChatRequest payload)) (chat_stream M))"

subsection \<open>Consent: \<open>/authorize\<close> and \<open>/callback\<close>\<close>

datatype oauth_error =
  CSRF_MISMATCH | INVALID_STATE | INVALID_SESSION | AUTH_FAILED | MISCONFIGURED | EXPIRED | NO_AGENT

text \<open>What happens to the \<open>oauth_session\<close> cookie; a cookie that is set is \<open>Secure\<close> or not.\<close>

datatype cookie_change = KeepCookie | SetCookie string bool | DeleteCookie

datatype answer = Page int string cookie_change | RedirectTo string cookie_change

definition error_text :: "oauth_error \<Rightarrow> string" where
  "error_text kind =
     (case kind of
        CSRF_MISMATCH \<Rightarrow> ''CSRF verification failed. Please close this window and try again.''
      | INVALID_STATE \<Rightarrow> ''Invalid OAuth state. Please close this window and try again.''
      | INVALID_SESSION \<Rightarrow> ''Invalid OAuth session. Please close this window and try again.''
      | AUTH_FAILED \<Rightarrow> ''Authorization failed. Please close this window and try again.''
      | MISCONFIGURED \<Rightarrow> ''The agent service is not configured to sign OAuth state. Please contact your administrator.''
      | EXPIRED \<Rightarrow> ''This authorization request has expired. Please close this window and try again.''
      | NO_AGENT \<Rightarrow> ''This conversation has no AI agent associated with it. Please close this window and start a new chat.'')"

definition oauth_error_response :: "oauth_error \<Rightarrow> int \<Rightarrow> answer" where
  "oauth_error_response kind status_code =
     Page status_code (''<html><body><p>'' @ error_text kind @ ''</p></body></html>'') KeepCookie"

text \<open>The signing key, or the page that says why there is none.\<close>

definition resolve_state_secret :: "('w, 'd, 'k, 'i, 'm) main_env \<Rightarrow> answer + string" where
  "resolve_state_secret M =
     (case state_jwt_signing_secret (ag_cfg (agent_of M)) of
        Inr secret \<Rightarrow> Inr secret
      | Inl _ \<Rightarrow> Inl (oauth_error_response MISCONFIGURED 500))"

definition consent_scopes :: "string \<Rightarrow> string list option" where
  "consent_scopes action =
     (if action = ''list'' then Some [''list_meetings_agent'']
      else if action = ''update'' then Some [''list_meetings_agent'', ''update_meeting_agent'']
      else if action = ''delete'' then Some [''list_meetings_agent'', ''delete_meeting_agent'']
      else if action = ''book'' then Some [''create_meeting_agent'']
      else None)"

text \<open>The payload of the signed state, and of the cookie: both carry the same claims.\<close>

definition state_payload :: "string \<Rightarrow> string \<Rightarrow> string \<Rightarrow> int \<Rightarrow> dict" where
  "state_payload thread_id action csrf_token now =
     [(''thread_id'', JStr thread_id), (''action'', JStr action), (''state'', JStr csrf_token),
      (''iat'', JInt now), (''exp'', JInt (now + OAUTH_STATE_TTL_SECONDS))]"

definition initiate_oauth ::
  "('w, 'd, 'k, 'i, 'm) main_env \<Rightarrow> bool \<Rightarrow> string \<Rightarrow> string \<Rightarrow> (('w, 'd, 'z) auth_state_scheme, answer) prog" where
  "initiate_oauth M is_https thread_id action =
     andthen (get_agent_credentials (kv_of M) thread_id) (\<lambda>(agent_id, _).
       if \<not> truthy agent_id then ret (oauth_error_response NO_AGENT 400)
       else
         andthen (token_urlsafe (agent_of M)) (\<lambda>csrf_token.
           (case consent_scopes action of
              None \<Rightarrow> raise (HttpError 400 (''Unknown action: '' @ repr_str action))
            | Some scope_names \<Rightarrow>
                andthen (asks wall) (\<lambda>time.
                  (let now = \<lfloor>time\<rfloor>; payload = state_payload thread_id action csrf_token now in
                   (case resolve_state_secret M of
                      Inl secret_error \<Rightarrow> ret secret_error
                    | Inr secret \<Rightarrow>
                        (let signed_state = jwt_encode_hs (ag_jwt (agent_of M)) payload secret in
                         andthen (get_real_wso2_authorization_url (agent_of M) thread_id scope_names signed_state agent_id)
                           (\<lambda>auth_url.
                            ret (RedirectTo auth_url
                              (SetCookie (jwt_encode_hs (ag_jwt (agent_of M)) payload secret) is_https))))))))))"

text \<open>The claims of the signed state, and whether it has expired.\<close>

definition decode_signed_state :: "'k jwt_lib \<Rightarrow> real \<Rightarrow> string \<Rightarrow> string \<Rightarrow> json \<times> json \<times> json \<times> bool" where
  "decode_signed_state L now signed secret =
     (case jwt_decode_hs L signed secret [''HS256''] now of
        Inr payload \<Rightarrow>
          (opt_json (dict_get payload ''thread_id''), opt_json (dict_get payload ''action''),
           opt_json (dict_get payload ''state''), False)
      | Inl JwtExpired \<Rightarrow> (JNull, JNull, JNull, True)
      | Inl _ \<Rightarrow> (JNull, JNull, JNull, False))"

definition verify_oauth_cookie ::
  "'k jwt_lib \<Rightarrow> real \<Rightarrow> string option \<Rightarrow> json \<Rightarrow> string \<Rightarrow> answer option" where
  "verify_oauth_cookie L now cookie_val csrf_state secret =
     (if text_or cookie_val '''' = [] then Some (oauth_error_response INVALID_SESSION 400)
      else
        (case jwt_decode_hs L (text_or cookie_val '''') secret [''HS256''] now of
           Inl JwtExpired \<Rightarrow> Some (oauth_error_response EXPIRED 400)
         | Inl _ \<Rightarrow> Some (oauth_error_response INVALID_SESSION 400)
         | Inr cookie_payload \<Rightarrow>
             if \<not> truthy csrf_state then Some (oauth_error_response INVALID_STATE 400)
             else if opt_json (dict_get cookie_payload ''state'') \<noteq> csrf_state
             then Some (oauth_error_response CSRF_MISMATCH 400)
             else None))"

definition fallback_parse_state :: "string \<Rightarrow> string \<times> string" where
  "fallback_parse_state signed =
     (case partition_char (CHR '':'') signed of
        (thread_id, found, rest) \<Rightarrow> (thread_id, if found then rest else ''book''))"

text \<open>\<open>dict.get\<close> refuses a value that cannot be hashed.\<close>

definition action_to_flow_state :: "json \<Rightarrow> exn + flow_state" where
  "action_to_flow_state action =
     (case action of JList _ \<Rightarrow> Inl (TypeError ''unhashable type'') | JObj _ \<Rightarrow> Inl (TypeError ''unhashable type'')
      | _ \<Rightarrow>
      if action = JStr ''list'' then Inr LIST_AUTHORIZED
      else if action = JStr ''update'' then Inr UPDATE_AUTHORIZED
      else if action = JStr ''delete'' then Inr DELETE_AUTHORIZED
      else Inr BOOKING_AUTHORIZED)"

definition complete_obo_authorization ::
  "('w, 'd, 'k, 'i, 'm) main_env \<Rightarrow> string \<Rightarrow> string \<Rightarrow> (('w, 'd, 'z) auth_state_scheme, answer option) prog" where
  "complete_obo_authorization M thread_id code =
     andthen (get_agent_credentials (kv_of M) thread_id) (\<lambda>(agent_id, agent_secret).
       catch
         (andthen (exchange_obo_code (agent_of M) thread_id code agent_id agent_secret) (\<lambda>_. ret None))
         (\<lambda>e. (case e of ValueError _ \<Rightarrow> ret (Some (oauth_error_response AUTH_FAILED 400)) | _ \<Rightarrow> raise e)))"

definition AUTHORIZED_PAGE :: string where
  "AUTHORIZED_PAGE =
     [CHR 0x0A] @ ''    <html><body>'' @ [CHR 0x0A] @ ''    <script>'' @ [CHR 0x0A] @
     ''        window.opener && window.opener.postMessage('' @ [CHR 0x27] @ ''authorized'' @ [CHR 0x27] @ '', '' @
     [CHR 0x27] @ ''*'' @ [CHR 0x27] @ '');'' @ [CHR 0x0A] @ ''        window.close();'' @ [CHR 0x0A] @
     ''    </script>'' @ [CHR 0x0A] @
     ''    <p>Authorization successful. This window will close automatically.</p>'' @ [CHR 0x0A] @
     ''    </body></html>'' @ [CHR 0x0A] @ ''    ''"

definition complete_callback ::
  "('w, 'd, 'k, 'i, 'm) main_env \<Rightarrow> string \<Rightarrow> json \<Rightarrow> string \<Rightarrow> (('w, 'd, 'z) auth_state_scheme, answer) prog" where
  "complete_callback M thread_id action code =
     andthen (complete_obo_authorization M thread_id code) (\<lambda>auth_error.
       (case auth_error of
          Some err \<Rightarrow> ret err
        | None \<Rightarrow>
            andthen (lift_res (action_to_flow_state (or_else action (JStr '''')))) (\<lambda>flow_state.
            andthen (set_state (kv_of M) thread_id flow_state) (\<lambda>_.
              ret (Page 200 AUTHORIZED_PAGE DeleteCookie)))))"

text \<open>The checks of \<open>/callback\<close>: the thread and action it may go on with, or the refusal.\<close>

definition check_callback ::
  "('w, 'd, 'k, 'i, 'm) main_env \<Rightarrow> real \<Rightarrow> string option \<Rightarrow> string \<Rightarrow> answer + string \<times> json" where
  "check_callback M now cookie_val signed =
     (case resolve_state_secret M of
        Inl secret_error \<Rightarrow> Inl secret_error
      | Inr secret \<Rightarrow>
          (case decode_signed_state (ag_jwt (agent_of M)) now signed secret of
             (thread_id, action, csrf_state, expired) \<Rightarrow>
               if expired then Inl (oauth_error_response EXPIRED 400)
               else if truthy thread_id then
                 (case verify_oauth_cookie (ag_jwt (agent_of M)) now cookie_val csrf_state secret of
                    Some cookie_error \<Rightarrow> Inl cookie_error
                  | None \<Rightarrow> Inr (py_str (ag_fr (agent_of M)) thread_id, action))
               else if \<not> ag_mock_llm (ag_cfg (agent_of M)) then Inl (oauth_error_response INVALID_STATE 400)
               else (case fallback_parse_state signed of (t, a) \<Rightarrow> Inr (t, JStr a))))"

definition oauth_callback ::
  "('w, 'd, 'k, 'i, 'm) main_env \<Rightarrow> string option \<Rightarrow> string \<Rightarrow> string \<Rightarrow> (('w, 'd, 'z) auth_state_scheme, answer) prog" where
  "oauth_callback M cookie_val code signed =
     andthen (asks wall) (\<lambda>now.
       (case check_callback M now cookie_val signed of
          Inl refusal \<Rightarrow> ret refusal
        | Inr (thread_id, action) \<Rightarrow> complete_callback M thread_id action code))"

subsection \<open>Thread state and tokens\<close>

definition thread_state ::
  "('w, 'd, 'k, 'i, 'm) main_env \<Rightarrow> string \<Rightarrow> (('w, 'd, 'z) store_state_scheme, dict) prog" where
  "thread_state M thread_id =
     andthen (get_frontend_state (kv_of M) thread_id) (\<lambda>f.
       if is_production (m_environ M) then
         ret [(''state'', JStr (frontend_value f)), (''obo_jwt'', JNull), (''agent_jwt'', JNull),
              (''tokens_withheld'', JBool True)]
       else
         andthen (get_obo_jwt_raw (kv_of M) thread_id) (\<lambda>obo.
         andthen (get_agent_jwt_raw (kv_of M) thread_id) (\<lambda>agent.
           ret [(''state'', JStr (frontend_value f)), (''obo_jwt'', obo), (''agent_jwt'', agent)])))"

definition create_agent_token ::
  "('w, 'd, 'k, 'i, 'm) main_env \<Rightarrow> (('w, 'd, 'z) auth_state_scheme, dict) prog" where
  "create_agent_token M =
     andthen (fetch_agent_token (agent_of M) (JStr '''') (JStr '''') '''') (\<lambda>token. ret [(''access_token'', token)])"

definition clear_thread ::
  "('w, 'd, 'k, 'i, 'm) main_env \<Rightarrow> string \<Rightarrow> (('w, 'd, 'z) store_state_scheme, dict) prog" where
  "clear_thread M thread_id =
     andthen (clear_obo_tokens (kv_of M) thread_id) (\<lambda>_.
     andthen (clear_history (kv_of M) thread_id) (\<lambda>_.
     andthen (clear_state (kv_of M) thread_id) (\<lambda>_. ret [(''status'', JStr ''cleared'')])))"

definition agent_health :: dict where
  "agent_health = [(''status'', JStr ''ok'')]"

subsection \<open>MCP streams\<close>

text \<open>The token of an MCP request: its bearer header, or a query parameter.\<close>

definition mcp_request_token :: "string option \<Rightarrow> string option \<Rightarrow> string option \<Rightarrow> string" where
  "mcp_request_token auth_header token access_token =
     (let h = (case auth_header of Some h \<Rightarrow> h | None \<Rightarrow> '''') in
      if startswith h ''Bearer '' then drop 7 h else text_or token (text_or access_token ''''))"

text \<open>Entering and leaving \<open>_mcp_sse_slot\<close>.\<close>

definition sse_enter :: "int \<Rightarrow> int \<Rightarrow> exn + int" where
  "sse_enter max_streams streams =
     (if max_streams \<le> streams then Inl (HttpError 503 ''Too many open MCP streams'') else Inr (streams + 1))"

definition sse_exit :: "int \<Rightarrow> int" where
  "sse_exit streams = streams - 1"

text \<open>
  A stream request takes a slot, runs the stream, whose errors are swallowed, and gives the slot
  back. Other requests are served while a stream runs, so the count is kept by a step relation:
  the counter and the requests that are inside the block.
\<close>

inductive sse_step :: "int \<Rightarrow> int \<times> string list \<Rightarrow> int \<times> string list \<Rightarrow> bool" for max_streams where
  Connect: "sse_enter max_streams n = Inr n' \<Longrightarrow> sse_step max_streams (n, open_streams) (n', token # open_streams)"
| Refuse: "sse_enter max_streams n = Inl e \<Longrightarrow> sse_step max_streams (n, open_streams) (n, open_streams)"
| Finish: "sse_step max_streams (n, before @ token # after) (sse_exit n, before @ after)"

definition sse_reachable :: "int \<Rightarrow> int \<times> string list \<Rightarrow> bool" where
  "sse_reachable max_streams = (sse_step max_streams)\<^sup>*\<^sup>* (0, [])"

subsection \<open>The remaining endpoints\<close>

definition authorize_endpoint ::
  "('w, 'd, 'k, 'i, 'm) main_env \<Rightarrow> client_info \<Rightarrow> bool \<Rightarrow> string \<Rightarrow> string
     \<Rightarrow> (('w, 'd, 'i, 'm, 'z) main_state_scheme, answer) prog" where
  "authorize_endpoint M client is_https thread_id action =
     andthen (limited M ''AUTH_LIMIT'' client) (\<lambda>_. initiate_oauth M is_https thread_id action)"

definition callback_endpoint ::
  "('w, 'd, 'k, 'i, 'm) main_env \<Rightarrow> client_info \<Rightarrow> string option \<Rightarrow> string \<Rightarrow> string
     \<Rightarrow> (('w, 'd, 'i, 'm, 'z) main_state_scheme, answer) prog" where
  "callback_endpoint M client cookie_val code signed =
     andthen (limited M ''AUTH_LIMIT'' client) (\<lambda>_. oauth_callback M cookie_val code signed)"

definition thread_state_endpoint ::
  "('w, 'd, 'k, 'i, 'm) main_env \<Rightarrow> client_info \<Rightarrow> string option \<Rightarrow> string
     \<Rightarrow> (('w, 'd, 'i, 'm, 'z) main_state_scheme, dict) prog" where
  "thread_state_endpoint M client header thread_id =
     guarded M ''DEFAULT_LIMIT'' client header (thread_state M thread_id)"

definition agent_token_endpoint ::
  "('w, 'd, 'k, 'i, 'm) main_env \<Rightarrow> client_info \<Rightarrow> string option
     \<Rightarrow> (('w, 'd, 'i, 'm, 'z) main_state_scheme, dict) prog" where
  "agent_token_endpoint M client header = guarded M ''DEFAULT_LIMIT'' client header (create_agent_token M)"

definition clear_endpoint ::
  "('w, 'd, 'k, 'i, 'm) main_env \<Rightarrow> client_info \<Rightarrow> string option \<Rightarrow> string
     \<Rightarrow> (('w, 'd, 'i, 'm, 'z) main_state_scheme, dict) prog" where
  "clear_endpoint M client header thread_id =
     guarded M ''DEFAULT_LIMIT'' client header (clear_thread M thread_id)"

subsection \<open>Consent: what the checks require\<close>

context kv_store
begin

lemma held_exchange:
  assumes "ag_kv V = K" and "net_causal (ag_net V)" and "wf_ns ns"
    and "ns \<noteq> NS_AGENT_TOKEN" and "ns \<noteq> NS_OBO_TOKEN" and "ns \<noteq> NS_PKCE"
  shows "stable (held view ns k v T) (exchange_obo_code V th code aid sec)"
proof -
  have K: "kv_store (ag_kv V) view storable" using kv_store_axioms assms(1) by simp
  have after: "stable (held view ns k v T) (after_verifier V th code tok w)" for tok w
    unfolding after_verifier_def note_verifier_def store_obo_answer_def
    using assms
    by (intro stable_andthen stable_if stable_prod stable_basic held_log held_post held_token_answer
      held_store_entry [OF K]) simp_all
  show ?thesis
    unfolding exchange_obo_code_steps
    using assms
    by (intro stable_andthen held_fetch_agent_token [OF K] after)
       (simp_all add: held_fetch held_delete)
qed

end

lemma held_complete_obo:
  assumes K: "kv_store (kv_of M) view storable" and net: "net_causal (ag_net (agent_of M))"
  shows "stable (held view NS_STATE k v T) (complete_obo_authorization M thread_id code)"
proof -
  have "stable (held view NS_STATE k v T)
      (case e of ValueError _ \<Rightarrow> ret (Some (oauth_error_response AUTH_FAILED 400)) | _ \<Rightarrow> raise e)" for e
    by (auto split: exn.split)
  then show ?thesis
    unfolding complete_obo_authorization_def
    by (intro stable_andthen stable_prod stable_catch stable_basic kv_store.held_credentials [OF K]
        kv_store.held_exchange [OF K refl net]) simp_all
qed

lemma complete_obo_None:
  assumes "complete_obo_authorization M thread_id code s = (Inr None, t)"
  shows "\<exists>aid sec u token. exchange_obo_code (agent_of M) thread_id code aid sec u = (Inr token, t)"
proof -
  have no: "(case e of ValueError _ \<Rightarrow> ret (Some p) | _ \<Rightarrow> raise e) u \<noteq> (Inr None, t)"
    for e and p :: answer and u
    by (cases e) simp_all
  show ?thesis using assms no unfolding complete_obo_authorization_def
    by (auto simp: andthen_Inr_conv catch_Inr_conv)
qed

text \<open>A callback that passes the checks outside the demo mode carries both factors.\<close>

definition consented ::
  "('w, 'd, 'k, 'i, 'm) main_env \<Rightarrow> real \<Rightarrow> string option \<Rightarrow> string \<Rightarrow> string \<Rightarrow> json \<Rightarrow> bool" where
  "consented M now cookie_val signed thread_id action \<longleftrightarrow>
     (\<exists>secret payload cookie cookie_payload csrf tid.
        state_jwt_signing_secret (ag_cfg (agent_of M)) = Inr secret \<and>
        jwt_decode_hs (ag_jwt (agent_of M)) signed secret [''HS256''] now = Inr payload \<and>
        dict_get payload ''thread_id'' = Some tid \<and> truthy tid \<and> thread_id = py_str (ag_fr (agent_of M)) tid \<and>
        action = opt_json (dict_get payload ''action'') \<and>
        cookie_val = Some cookie \<and> cookie \<noteq> [] \<and>
        jwt_decode_hs (ag_jwt (agent_of M)) cookie secret [''HS256''] now = Inr cookie_payload \<and>
        dict_get payload ''state'' = Some csrf \<and> dict_get cookie_payload ''state'' = Some csrf \<and> truthy csrf)"

lemma verify_cookie_None:
  assumes "verify_oauth_cookie L now cookie_val csrf secret = None"
  obtains cookie p where "cookie_val = Some cookie" "cookie \<noteq> []"
    "jwt_decode_hs L cookie secret [''HS256''] now = Inr p" "opt_json (dict_get p ''state'') = csrf" "truthy csrf"
  using assms by (auto simp: verify_oauth_cookie_def text_or_def split: option.splits if_splits sum.splits exn.splits)

lemma opt_json_truthy: "truthy (opt_json v) \<Longrightarrow> v = Some (opt_json v)"
  by (cases v) (simp_all add: opt_json_def)

lemma check_callback_Inr:
  assumes "\<not> ag_mock_llm (ag_cfg (agent_of M))" and "check_callback M now cookie_val signed = Inr (thread_id, action)"
  shows "consented M now cookie_val signed thread_id action"
proof -
  let ?L = "ag_jwt (agent_of M)"
  obtain secret where secret: "state_jwt_signing_secret (ag_cfg (agent_of M)) = Inr secret"
    using assms(2) by (auto simp: check_callback_def resolve_state_secret_def split: sum.splits)
  obtain tid act csrf ex where d: "decode_signed_state ?L now signed secret = (tid, act, csrf, ex)"
    by (cases "decode_signed_state ?L now signed secret")
  have ok: "\<not> ex" "truthy tid" "verify_oauth_cookie ?L now cookie_val csrf secret = None"
    "thread_id = py_str (ag_fr (agent_of M)) tid" "action = act"
    using assms by (auto simp: check_callback_def resolve_state_secret_def secret d split: if_splits option.splits)
  obtain payload where p: "jwt_decode_hs ?L signed secret [''HS256''] now = Inr payload"
    "tid = opt_json (dict_get payload ''thread_id'')" "act = opt_json (dict_get payload ''action'')"
    "csrf = opt_json (dict_get payload ''state'')"
    using d ok(1,2) by (auto simp: decode_signed_state_def split: sum.splits exn.splits)
  obtain cookie cp where c: "cookie_val = Some cookie" "cookie \<noteq> []"
    "jwt_decode_hs ?L cookie secret [''HS256''] now = Inr cp" "opt_json (dict_get cp ''state'') = csrf" "truthy csrf"
    by (rule verify_cookie_None [OF ok(3)])
  have "dict_get payload ''thread_id'' = Some tid" "dict_get payload ''state'' = Some csrf"
    "dict_get cp ''state'' = Some csrf"
    using opt_json_truthy [of "dict_get payload ''thread_id''"] opt_json_truthy [of "dict_get payload ''state''"]
      opt_json_truthy [of "dict_get cp ''state''"] p(2,4) c(4,5) ok(2) by simp_all
  with secret p c ok show ?thesis unfolding consented_def by blast
qed

text \<open>Where a flow state can change, and to what.\<close>

lemma callback_changes:
  fixes s :: "('w, 'd, 'z) auth_state_scheme"
  assumes K: "kv_store (kv_of M) view storable" and net: "net_causal (ag_net (agent_of M))"
    and run: "complete_callback M thread_id action code s = (r, t)"
    and late: "mono t \<le> now" and change: "view (store t) now NS_STATE k \<noteq> view (store s) now NS_STATE k"
  shows "k = thread_id \<and> r = Inr (Page 200 AUTHORIZED_PAGE DeleteCookie) \<and>
    (\<exists>aid sec u token v f. exchange_obo_code (agent_of M) thread_id code aid sec (u :: ('w, 'd, 'z) auth_state_scheme) =
       (Inr token, v) \<and> action_to_flow_state (or_else action (JStr [])) = Inr f \<and>
       set_state (kv_of M) thread_id f v = (Inr (), t))"
proof -
  let ?v = "view (store s) now NS_STATE k"
  have start: "held view NS_STATE k ?v {now} s" by (simp add: held_def)
  obtain a u where a: "complete_obo_authorization M thread_id code s = (a, u)" by fastforce
  have at_u: "held view NS_STATE k ?v {now} u" by (rule stableD [OF held_complete_obo [OF K net] start a])
  have not_kept: "\<not> held view NS_STATE k ?v {now} t" using late change by (simp add: held_def)
  have "a = Inr None"
  proof (rule ccontr)
    assume "a \<noteq> Inr None"
    then have "t = u" using run a by (cases a) (auto simp: complete_callback_def andthen_def split: option.splits)
    with at_u not_kept show False by simp
  qed
  with a obtain aid sec w token where ex:
    "exchange_obo_code (agent_of M) thread_id code aid sec (w :: ('w, 'd, 'z) auth_state_scheme) = (Inr token, u)"
    using complete_obo_None by blast
  have "(r, t) = andthen (lift_res (action_to_flow_state (or_else action (JStr [])))) (\<lambda>f.
      andthen (set_state (kv_of M) thread_id f) (\<lambda>_. ret (Page 200 AUTHORIZED_PAGE DeleteCookie))) u"
    using run a \<open>a = Inr None\<close> by (simp add: complete_callback_def andthen_def)
  moreover have "action_to_flow_state (or_else action (JStr [])) \<noteq> Inl e" for e
    using calculation at_u not_kept by auto
  ultimately obtain f where f: "action_to_flow_state (or_else action (JStr [])) = Inr f"
    "set_state (kv_of M) thread_id f u = (Inr (), t)" "r = Inr (Page 200 AUTHORIZED_PAGE DeleteCookie)"
    by (cases "action_to_flow_state (or_else action (JStr []))")
       (auto simp: andthen_def set_state_def sm_put_def put_kv_def)
  moreover have "k = thread_id"
  proof (rule ccontr)
    assume "k \<noteq> thread_id"
    then have "stable (held view NS_STATE k ?v {now}) (set_state (kv_of M) thread_id f)"
      unfolding set_state_def sm_put_def by (intro kv_store.held_put [OF K]) simp_all
    from stableD [OF this at_u f(2)] not_kept show False by simp
  qed
  ultimately show ?thesis using ex by blast
qed

text \<open>
  C18: consent is recorded only by a verified callback: outside the demo mode, \<open>/callback\<close> changes
  the flow state of a thread only if the request carries an unexpired signed state that names the
  thread, and the cookie of the same consent, and the identity server exchanged the code for a
  delegated token. The new state is the one of the signed action, and no other thread's flow state
  changes.
\<close>

theorem callback_needs_state_cookie_and_token:
  fixes s :: "('w, 'd, 'z) auth_state_scheme"
  assumes "kv_store (kv_of M) view storable" and "net_causal (ag_net (agent_of M))"
    and "\<not> ag_mock_llm (ag_cfg (agent_of M))"
    and "oauth_callback M cookie_val code signed s = (r, t)"
    and "mono t \<le> now" and "view (store t) now NS_STATE k \<noteq> view (store s) now NS_STATE k"
  shows "\<exists>action f. consented M (wall s) cookie_val signed k action \<and>
    r = Inr (Page 200 AUTHORIZED_PAGE DeleteCookie) \<and>
    action_to_flow_state (or_else action (JStr [])) = Inr f \<and>
    (\<exists>aid sec u token v. exchange_obo_code (agent_of M) k code aid sec (u :: ('w, 'd, 'z) auth_state_scheme) =
       (Inr token, v) \<and> set_state (kv_of M) k f v = (Inr (), t))"
proof (cases "check_callback M (wall s) cookie_val signed")
  case (Inl refusal)
  with assms(4) have "t = s" by (simp add: oauth_callback_def)
  with assms(6) show ?thesis by simp
next
  case (Inr p)
  obtain thread_id action where p: "p = (thread_id, action)" by (cases p)
  with Inr assms(4) have "complete_callback M thread_id action code s = (r, t)" by (simp add: oauth_callback_def)
  from callback_changes [OF assms(1,2) this assms(5,6)] check_callback_Inr [OF assms(3)] Inr p
  show ?thesis by blast
qed

text \<open>
  What PyJWT documents of HS256 tokens whose claims are plain JSON with an \<open>iat\<close> and an \<open>exp\<close>:
  they decode to the claims until they expire at \<open>exp\<close>.
\<close>

definition hs_documented :: "'k jwt_lib \<Rightarrow> bool" where
  "hs_documented L \<longleftrightarrow>
     (\<forall>p key now i e. wf_json (JObj p) \<longrightarrow> floats (JObj p) = {} \<longrightarrow> dict_get p ''iat'' = Some (JInt i) \<longrightarrow> dict_get p ''exp'' = Some (JInt e) \<longrightarrow>
        real_of_int i \<le> now \<longrightarrow>
        jwt_encode_hs L p key \<noteq> [] \<and>
        jwt_decode_hs L (jwt_encode_hs L p key) key [''HS256''] now =
          (if real_of_int e \<le> now then Inl JwtExpired else Inr p))"

lemma state_payload_get:
  "dict_get (state_payload k a c n) ''thread_id'' = Some (JStr k)"
  "dict_get (state_payload k a c n) ''action'' = Some (JStr a)"
  "dict_get (state_payload k a c n) ''state'' = Some (JStr c)"
  "dict_get (state_payload k a c n) ''iat'' = Some (JInt n)"
  "dict_get (state_payload k a c n) ''exp'' = Some (JInt (n + 300))"
  by (simp_all add: state_payload_def OAUTH_STATE_TTL_SECONDS_def)

lemma state_payload_wf: "wf_json (JObj (state_payload k a c n))" "floats (JObj (state_payload k a c n)) = {}"
  by (simp_all add: state_payload_def)

lemma state_decodes:
  assumes "hs_documented L" and "real_of_int n \<le> now"
  shows "jwt_decode_hs L (jwt_encode_hs L (state_payload k a c n) key) key [''HS256''] now =
      (if real_of_int (n + 300) \<le> now then Inl JwtExpired else Inr (state_payload k a c n))"
    and "jwt_encode_hs L (state_payload k a c n) key \<noteq> []"
  using assms(1) [unfolded hs_documented_def, rule_format, OF state_payload_wf state_payload_get(4,5) assms(2)]
  by blast+

text \<open>What \<open>/authorize\<close> answers when it redirects.\<close>

lemma wall_credentials: "stable (\<lambda>s. wall s = c) (get_agent_credentials K k)"
proof -
  have fetch: "stable (\<lambda>s. wall s = c) (fetch_kv K ns k)" for ns
    by (rule stableI) (simp add: fetch_kv_def split: prod.splits)
  have "stable (\<lambda>s. wall s = c) (case v of JList (a # b # _) \<Rightarrow> ret (a, b)
          | JList _ \<Rightarrow> raise (IndexError ''list index out of range'')
          | JStr (a # b # _) \<Rightarrow> ret (JStr [a], JStr [b])
          | JStr _ \<Rightarrow> raise (IndexError ''string index out of range'')
          | JObj _ \<Rightarrow> raise (KeyError ''0'')
          | _ \<Rightarrow> raise (TypeError ''object is not subscriptable''))" for v
    by (simp split: json.split list.split)
  then show ?thesis unfolding get_agent_credentials_def sm_fetch_def
    by (intro stable_andthen stable_if stable_basic fetch)
qed

lemma authorization_url_Inr:
  "get_real_wso2_authorization_url V k sc st aid s = (Inr u, t) \<Longrightarrow>
    \<exists>verifier. u = oauth_base V @ ''/oauth2/authorize?'' @
      urlencode (authorize_params V sc (ag_s256 V verifier) st (py_str (ag_fr V) aid))"
  by (auto simp: get_real_wso2_authorization_url_def andthen_Inr_conv split: if_splits)

lemma initiate_redirects:
  assumes "initiate_oauth M is_https k a s = (Inr (RedirectTo u (SetCookie cookie sec)), t)"
  shows "\<exists>secret csrf scopes aid verifier. state_jwt_signing_secret (ag_cfg (agent_of M)) = Inr secret \<and>
    csrf \<in> range (ag_rand (agent_of M)) \<and> consent_scopes a = Some scopes \<and> sec = is_https \<and>
    cookie = jwt_encode_hs (ag_jwt (agent_of M)) (state_payload k a csrf \<lfloor>wall s\<rfloor>) secret \<and>
    u = oauth_base (agent_of M) @ ''/oauth2/authorize?'' @
      urlencode (authorize_params (agent_of M) scopes (ag_s256 (agent_of M) verifier) cookie aid)"
proof -
  obtain aid aid_secret w where w: "get_agent_credentials (kv_of M) k s = (Inr (aid, aid_secret), w)"
    using assms by (auto simp: initiate_oauth_def andthen_Inr_conv)
  then have wall: "wall w = wall s" using stableD [OF wall_credentials refl] by blast
  have some: "truthy aid"
    using assms by (cases "truthy aid") (simp_all add: initiate_oauth_def andthen_def w oauth_error_response_def)
  obtain csrf v where v: "token_urlsafe (agent_of M) w = (Inr csrf, v)" "csrf \<in> range (ag_rand (agent_of M))"
    "wall v = wall s"
    using wall by (simp add: token_urlsafe_def)
  obtain scopes where sc: "consent_scopes a = Some scopes"
    using assms some by (cases "consent_scopes a") (simp_all add: initiate_oauth_def andthen_def w v(1))
  obtain secret where secret: "state_jwt_signing_secret (ag_cfg (agent_of M)) = Inr secret"
    using assms some sc by (cases "state_jwt_signing_secret (ag_cfg (agent_of M))")
      (simp_all add: initiate_oauth_def andthen_def w v(1) resolve_state_secret_def oauth_error_response_def)
  let ?c = "jwt_encode_hs (ag_jwt (agent_of M)) (state_payload k a csrf \<lfloor>wall v\<rfloor>) secret"
  have "andthen (get_real_wso2_authorization_url (agent_of M) k scopes ?c aid)
      (\<lambda>auth_url. ret (RedirectTo auth_url (SetCookie ?c is_https))) v =
      (Inr (RedirectTo u (SetCookie cookie sec)), t)"
    using assms some by (simp add: initiate_oauth_def andthen_def w v(1) sc resolve_state_secret_def secret Let_def)
  then have "cookie = ?c" "sec = is_https"
    "get_real_wso2_authorization_url (agent_of M) k scopes ?c aid v = (Inr u, t)"
    by (auto simp: andthen_Inr_conv)
  with secret v(2,3) sc authorization_url_Inr show ?thesis by (metis (no_types, lifting))
qed


subsection \<open>Streams and threads\<close>

lemma sse_counter:
  assumes "sse_reachable m s" and "0 \<le> m"
  shows "fst s = int (length (snd s)) \<and> int (length (snd s)) \<le> m"
  using assms(1) unfolding sse_reachable_def
proof (induction rule: rtranclp_induct)
  case (step s t)
  from step.hyps(2) step.IH show ?case
    by cases (auto simp: sse_enter_def sse_exit_def split: if_splits)
qed (use assms(2) in simp)

text \<open>
  C20: whatever streams come, fail and go, the counter is the number of open MCP streams, never
  more than the cap; a new stream is refused with a 503 exactly when the cap is reached.
\<close>

theorem sse_streams_capped:
  assumes "sse_reachable m (n, open_streams)" and "0 \<le> m"
  shows "n = int (length open_streams) \<and> int (length open_streams) \<le> m \<and>
    sse_enter m n = (if int (length open_streams) = m then Inl (HttpError 503 ''Too many open MCP streams'')
      else Inr (int (length (token # open_streams))))"
  using sse_counter [OF assms] by (auto simp: sse_enter_def)

lemma delete_kv_Inr: "delete_kv K ns k s = (Inr (), snd (delete_kv K ns k s))"
  by (simp add: delete_kv_def)

lemma for_each_delete: "for_each (\<lambda>ns. delete_kv K ns k) nss s = (Inr (), snd (for_each (\<lambda>ns. delete_kv K ns k) nss s)) \<and>
    sent (snd (for_each (\<lambda>ns. delete_kv K ns k) nss s)) = sent s"
  by (induction nss arbitrary: s) (simp_all add: delete_kv_def)

lemma nested_if:
  "(if a \<and> p then x else if b \<and> p then x else if c \<and> p then x else if d \<and> p then x else y) =
     (if p \<and> (a \<or> d \<or> c \<or> b) then x else y)"
  by (cases p) simp_all

text \<open>
  clearing a thread forgets it: its flow state, pending meeting, consent URL, agent
  credentials and names, its transcript, and its own and delegated tokens read as absent, and no
  request is sent; a PKCE verifier in flight, other threads and everything else stored read as
  before.
\<close>

theorem clear_thread_forgets_the_thread:
  assumes "kv_store (kv_of M) view storable" and "clear_thread M k s = (r, t)" and "wf_ns ns"
  shows "r = Inr [(''status'', JStr ''cleared'')] \<and> sent t = sent s \<and>
    seen view t ns k' =
      (if k' = k \<and> ns \<in> set ALL_NAMESPACES \<union> {NS_OBO_TOKEN, NS_AGENT_TOKEN, NS_HISTORY} then JNull
       else seen view s ns k')"
proof -
  let ?K = "kv_of M"
  define s1 where "s1 = snd (delete_kv ?K NS_OBO_TOKEN k s)"
  define s2 where "s2 = snd (delete_kv ?K NS_AGENT_TOKEN k s1)"
  define s3 where "s3 = snd (delete_kv ?K NS_HISTORY k s2)"
  have steps: "delete_kv ?K NS_OBO_TOKEN k s = (Inr (), s1)" "delete_kv ?K NS_AGENT_TOKEN k s1 = (Inr (), s2)"
    "delete_kv ?K NS_HISTORY k s2 = (Inr (), s3)"
    unfolding s1_def s2_def s3_def by (rule delete_kv_Inr)+
  obtain u where clear: "clear_state ?K k s3 = (Inr (), u)" "sent u = sent s3"
    unfolding clear_state_def using for_each_delete [of ?K k ALL_NAMESPACES s3] by blast
  have "clear_thread M k s = (Inr [(''status'', JStr ''cleared'')], u)"
    by (simp add: clear_thread_def clear_obo_tokens_def clear_history_def andthen_def steps clear(1))
  then have rt: "r = Inr [(''status'', JStr ''cleared'')]" "t = u" using assms(2) by simp_all
  have sent: "sent t = sent s" using clear(2) by (simp add: rt s1_def s2_def s3_def)
  note D = kv_store.seen_delete [OF assms(1) _ assms(3)]
  have "seen view t ns k' = (if ns \<in> set ALL_NAMESPACES \<and> k' = k then JNull else seen view s3 ns k')"
    using kv_store.clear_state_seen [OF assms(1,3), of k s3 k'] by (simp add: rt clear(1))
  also have "seen view s3 ns k' = (if ns = NS_HISTORY \<and> k' = k then JNull else seen view s2 ns k')"
    unfolding s3_def by (rule D) simp
  also have "seen view s2 ns k' = (if ns = NS_AGENT_TOKEN \<and> k' = k then JNull else seen view s1 ns k')"
    unfolding s2_def by (rule D) simp
  also have "seen view s1 ns k' = (if ns = NS_OBO_TOKEN \<and> k' = k then JNull else seen view s ns k')"
    unfolding s1_def by (rule D) simp
  finally have S: "seen view t ns k' = (if ns \<in> set ALL_NAMESPACES \<and> k' = k then JNull else
    if ns = NS_HISTORY \<and> k' = k then JNull else if ns = NS_AGENT_TOKEN \<and> k' = k then JNull else
    if ns = NS_OBO_TOKEN \<and> k' = k then JNull else seen view s ns k')" .
  show ?thesis by (simp only: S rt(1) sent nested_if Un_iff insert_iff empty_iff simp_thms)
qed

subsection \<open>Witnesses\<close>

text \<open>Tokens that are the JSON text of their claims, expiring as documented.\<close>

definition demo_hs :: "unit jwt_lib" where
  "demo_hs = demo_jwt_lib\<lparr>
     jwt_encode_hs := \<lambda>p key. dumps (\<lambda>_. ''0.0'') (JObj p),
     jwt_decode_hs := \<lambda>token key algs now.
       (case loads (\<lambda>_. 0) token of
          Some (JObj p) \<Rightarrow>
            (case dict_get p ''exp'' of
               Some (JInt e) \<Rightarrow> if real_of_int e \<le> now then Inl JwtExpired else Inr p
             | _ \<Rightarrow> Inl (JwtInvalid ''exp''))
        | _ \<Rightarrow> Inl (JwtInvalid ''segments''))\<rparr>"

lemma demo_hs_documented: "hs_documented demo_hs"
proof -
  have "loads (\<lambda>_. 0) (dumps (\<lambda>_. ''0.0'') (JObj p)) = Some (JObj p)"
    if "wf_json (JObj p)" "floats (JObj p) = {}" for p
    by (rule loads_dumps) (use that in auto)
  moreover have "dumps (\<lambda>_. ''0.0'') (JObj p) \<noteq> []" for p by (cases p) auto
  ultimately show ?thesis
    unfolding hs_documented_def by (simp add: demo_hs_def del: wf_json.simps floats.simps dumps.simps)
qed

definition demo_consent :: "(unit, mem_store, unit) agent_env" where
  "demo_consent = demo_agent\<lparr>ag_jwt := demo_hs, ag_cfg := demo_agent_settings\<lparr>ag_mock_llm := False\<rparr>\<rparr>"

definition demo_main :: "(unit, mem_store, unit, nat, nat) main_env" where
  "demo_main = \<lparr>m_gem = demo_gem\<lparr>g_agent := demo_consent\<rparr>,
     m_lib = \<lparr>parse_limit = (\<lambda>_. Inr 0), new_limiter = (\<lambda>_. 0), hit_limiter = (\<lambda>m i k. (True, m))\<rparr>,
     m_environ = Map.empty, m_rates = rate_config_of Map.empty\<rparr>"

text \<open>The thread \<open>t\<close> has agent credentials.\<close>

definition demo_thread :: "(unit, mem_store) auth_state" where
  "demo_thread = demo_auth\<lparr>store :=
     kv_set mem_ops 0 NS_CREDS ''t'' (JList [JStr ''ag'', JStr ''se'']) DEFAULT_TTL_SECONDS Map.empty\<rparr>"

definition demo_payload :: dict where
  "demo_payload = state_payload ''t'' ''list'' ''v'' 0"

definition demo_state :: string where
  "demo_state = jwt_encode_hs demo_hs demo_payload ''x''"

lemma demo_main_simps:
  "agent_of demo_main = demo_consent" "kv_of demo_main = mem_ops" "ag_jwt demo_consent = demo_hs"
  "ag_kv demo_consent = mem_ops" "ag_net demo_consent = demo_agent_net" "ag_rand demo_consent = ag_rand demo_agent"
  "state_jwt_signing_secret (ag_cfg demo_consent) = Inr ''x''" "\<not> ag_mock_llm (ag_cfg demo_consent)"
  "ag_fr demo_consent = (\<lambda>_. ''0.0'')" "net_causal demo_agent_net"
  by (simp_all add: demo_main_def demo_consent_def demo_agent_def state_jwt_signing_secret_def demo_agent_settings_def
      net_causal_def demo_agent_net_def)

lemma demo_credentials:
  assumes "seen mem_view s NS_CREDS k = JList [JStr ''ag'', JStr ''se'']"
  obtains u where "get_agent_credentials mem_ops k s = (Inr (JStr ''ag'', JStr ''se''), u)" "after_reads mem_view s u"
proof -
  obtain u where u: "sm_fetch mem_ops NS_CREDS k JNull s =
      (Inr (if seen mem_view s NS_CREDS k = JNull then JNull else seen mem_view s NS_CREDS k), u)" "after_reads mem_view s u"
    by (rule readsE [OF mem.reads_sm_fetch])
  with assms have "get_agent_credentials mem_ops k s = (Inr (JStr ''ag'', JStr ''se''), u)"
    by (simp add: get_agent_credentials_def andthen_def)
  with u(2) that show ?thesis by blast
qed

lemma demo_thread_seen: "seen mem_view demo_thread NS_CREDS ''t'' = JList [JStr ''ag'', JStr ''se'']"
  "wall demo_thread = 0" "mono demo_thread = 0" "rand_used demo_thread = 0"
  by (simp_all add: seen_def demo_thread_def demo_auth_def mem.set_view DEFAULT_TTL_SECONDS_def)

lemma consent_post:
  "http_post_json demo_consent q s = (Inr (JObj demo_answer),
     s\<lparr>wall := wall s + 1, mono := mono s + 1, sent := sent s @ [q]\<rparr>)"
  by (cases s) (simp add: http_post_json_def andthen_def send_def demo_main_simps demo_agent_net_def json_of_def)

lemma consent_agent_token:
  assumes "th \<noteq> []"
  shows "\<exists>t. fetch_agent_token demo_consent (JStr ''ag'') (JStr ''se'') th s = (Inr (JStr ''a''), t) \<and> mono t = mono s + 3"
  using assms
  by (simp add: fetch_agent_token_def andthen_def token_urlsafe_def init_agent_auth_flow_def submit_agent_credentials_def
   exchange_code_for_agent_token_def consent_post as_obj_def get_or_def opt_json_def py_list_def choose_authenticator_def or_else_def
   token_answer_of_def key_in_def item_def store_agent_token_def store_entry_def token_entry_def num_of_def entry_of_def put_kv_def)

lemma fetch_kv_run: "\<exists>v d. fetch_kv K ns k s = (Inr v, s\<lparr>store := d\<rparr>)"
  by (cases "kv_get K (mono s) ns k (store s)") (auto simp: fetch_kv_def)

lemma consent_exchange:
  assumes "th \<noteq> []"
  shows "\<exists>t. exchange_obo_code demo_consent th code (JStr ''ag'') (JStr ''se'') s = (Inr (JStr ''a''), t) \<and> mono t = mono s + 4"
proof -
  obtain u where u: "fetch_agent_token demo_consent (JStr ''ag'') (JStr ''se'') th s = (Inr (JStr ''a''), u)"
    "mono u = mono s + 3"
    using consent_agent_token [OF assms] by blast
  obtain v d where v: "fetch_kv (ag_kv demo_consent) NS_PKCE th u = (Inr v, u\<lparr>store := d\<rparr>)"
    using fetch_kv_run [of "ag_kv demo_consent" NS_PKCE th u] by blast
  let ?w = "u\<lparr>store := kv_delete (ag_kv demo_consent) (mono u) NS_PKCE th d\<rparr>"
  obtain w where w: "note_verifier th v ?w = (Inr (), w)" "w = ?w \<or> (\<exists>l. w = ?w\<lparr>auth_log := l\<rparr>)"
    by (rule note_verifier_run)
  from w(2) have "mono w = mono s + 3" using u(2) by auto
  then show ?thesis
    by (simp add: exchange_obo_code_def andthen_def u(1) v delete_kv_def w(1) consent_post store_obo_answer_def token_answer_of_def
      key_in_def item_def as_obj_def get_or_def store_entry_def token_entry_def num_of_def put_kv_def)
qed

lemma demo_state_ok: "demo_state \<noteq> []"
  "now < 300 \<Longrightarrow> jwt_decode_hs demo_hs demo_state ''x'' [''HS256''] now = Inr demo_payload" if "0 \<le> now" for now
  using state_decodes [OF demo_hs_documented, of 0 now] that by (simp_all add: demo_state_def demo_payload_def)

lemma demo_callback:
  "\<exists>t. oauth_callback demo_main (Some demo_state) ''c'' demo_state demo_thread =
      (Inr (Page 200 AUTHORIZED_PAGE DeleteCookie), t) \<and> 0 \<le> mono t \<and>
     view_state t = JStr (flow_value LIST_AUTHORIZED)"
  if "view_state = (\<lambda>t. view (store t) (mono t) NS_STATE ''t'')" and "view = mem_view" for view_state view
proof -
  have check: "check_callback demo_main 0 (Some demo_state) demo_state = Inr (''t'', JStr ''list'')"
    using demo_state_ok [of 0]
    by (simp add: check_callback_def resolve_state_secret_def demo_main_simps decode_signed_state_def
      verify_oauth_cookie_def text_or_def demo_payload_def state_payload_get opt_json_def)
  obtain u where u: "get_agent_credentials mem_ops ''t'' demo_thread = (Inr (JStr ''ag'', JStr ''se''), u)"
    "after_reads mem_view demo_thread u"
    by (rule demo_credentials [OF demo_thread_seen(1)])
  obtain w where w: "exchange_obo_code demo_consent ''t'' ''c'' (JStr ''ag'') (JStr ''se'') u = (Inr (JStr ''a''), w)"
    "mono w = mono u + 4"
    using consent_exchange [of "''t''" "''c''" u] by auto
  have "0 \<le> mono w" using w(2) after_readsD(1) [OF u(2)] by (simp add: demo_thread_seen)
  then show ?thesis
    by (simp add: oauth_callback_def demo_thread_seen check complete_callback_def complete_obo_authorization_def
        demo_main_simps andthen_def u(1) catch_def w(1) action_to_flow_state_def or_else_def set_state_def sm_put_def
        put_kv_def that mem.set_view DEFAULT_TTL_SECONDS_def del: flow_value.simps)
qed

theorem callback_needs_state_cookie_and_token_witness:
  "\<exists>t. oauth_callback demo_main (Some demo_state) ''c'' demo_state demo_thread =
      (Inr (Page 200 AUTHORIZED_PAGE DeleteCookie), t) \<and>
     (\<exists>action. consented demo_main 0 (Some demo_state) demo_state ''t'' action)"
proof -
  obtain t where t: "oauth_callback demo_main (Some demo_state) ''c'' demo_state demo_thread =
      (Inr (Page 200 AUTHORIZED_PAGE DeleteCookie), t)" "0 \<le> mono t"
    "mem_view (store t) (mono t) NS_STATE ''t'' = JStr (flow_value LIST_AUTHORIZED)"
    using demo_callback [OF refl refl] by blast
  have before: "mem_view (store demo_thread) (mono t) NS_STATE ''t'' = JNull"
  proof -
    have "NS_STATE \<noteq> NS_CREDS" by (simp add: NS_STATE_def NS_CREDS_def)
    then show ?thesis using t(2) by (simp add: demo_thread_def mem.set_other) (simp add: mem_view_def mem_get_def)
  qed
  have K: "kv_store (kv_of demo_main) mem_view (\<lambda>_. True)" by (simp add: demo_main_simps mem.kv_store_axioms)
  from callback_needs_state_cookie_and_token [OF K _ _ t(1) order_refl, of "''t''"] t before
  show ?thesis by (auto simp: demo_main_simps demo_thread_seen)
qed

lemma demo_initiate:
  "\<exists>u t. initiate_oauth demo_main True ''t'' ''list'' demo_thread = (Inr (RedirectTo u (SetCookie demo_state True)), t)"
proof -
  obtain u where u: "get_agent_credentials mem_ops ''t'' demo_thread = (Inr (JStr ''ag'', JStr ''se''), u)"
    "after_reads mem_view demo_thread u"
    by (rule demo_credentials [OF demo_thread_seen(1)])
  have "wall u = 0" "rand_used u = 0" using u(2) by (auto simp: after_reads_def demo_thread_seen)
  moreover have "ag_rand demo_agent 0 = ''v''" by (simp add: demo_agent_def)
  ultimately show ?thesis
    by (simp add: initiate_oauth_def demo_main_simps andthen_def u(1) token_urlsafe_def consent_scopes_def
        resolve_state_secret_def Let_def get_real_wso2_authorization_url_def clear_obo_tokens_def delete_kv_def put_kv_def
        demo_state_def demo_payload_def)
qed


theorem sse_streams_capped_witness:
  "sse_enter 1 1 = Inl (HttpError 503 ''Too many open MCP streams'')"
proof -
  have "sse_step 1 (0, []) (1, [''token''])" by (rule sse_step.Connect) (simp add: sse_enter_def)
  then have "sse_reachable 1 (1, [''token''])" unfolding sse_reachable_def by (rule r_into_rtranclp)
  from sse_streams_capped [OF this] show ?thesis by simp
qed

theorem clear_thread_forgets_the_thread_witness:
  "\<exists>t. clear_thread demo_main ''t'' demo_thread = (Inr [(''status'', JStr ''cleared'')], t) \<and>
     seen mem_view t NS_CREDS ''t'' = JNull"
proof -
  obtain r t where run: "clear_thread demo_main ''t'' demo_thread = (r, t)" by fastforce
  have K: "kv_store (kv_of demo_main) mem_view (\<lambda>_. True)" by (simp add: demo_main_simps mem.kv_store_axioms)
  have "NS_CREDS \<in> set ALL_NAMESPACES" "wf_ns NS_CREDS" by (simp_all add: ALL_NAMESPACES_def)
  with clear_thread_forgets_the_thread [OF K run, of NS_CREDS "''t''"] run show ?thesis by auto
qed

end
