(* ===== verification/Portal_Api.thy ===== *)
theory Portal_Api
  imports M2M_Auth Config
begin

text \<open>
  The web portal's ways out: its settings (\<open>webapp/config.py\<close>, the part of \<open>webapp/app.py\<close> that
  completes them), its service-token client (\<open>webapp/service_auth.py\<close>), its calls of the Business
  API (\<open>webapp/api_proxy.py\<close>) and of WSO2 IS (\<open>webapp/is_client.py\<close>), and the tokens it
  requests for itself (\<open>webapp/auth.py\<close>). Flask keeps a session per browser: a dict that a
  request reads and changes, together with the messages flashed for the next page.
\<close>

subsection \<open>Settings\<close>

record portal_settings =
  po_is_base_url :: string
  po_is_org_handle :: string
  po_tenant_path :: string
  po_client_id :: string
  po_client_secret :: string
  po_app_id :: string
  po_app_name :: string
  po_portal_url :: string
  po_business_api_url :: string
  po_agent_service_url :: string
  po_is_verify_tls :: verify_tls
  po_service_verify_tls :: verify_tls
  po_cookie_secure :: bool
  po_oidc_redirect_uri :: string
  po_oidc_post_logout_uri :: string

definition Portal_Config :: "(string \<Rightarrow> bool) \<Rightarrow> environ \<Rightarrow> exn + portal_settings" where
  "Portal_Config is_file E =
     (case parse_int (getenv E ''FLASK_PORT'' (str_int (FLASK_PORT CommonDefaults))) of
        None \<Rightarrow> Inl (ValueError ''invalid literal for int() with base 10'')
      | Some port \<Rightarrow>
          Inr \<lparr>
            po_is_base_url = getenv E ''IS_BASE_URL'' (IS_BASE_URL CommonDefaults),
            po_is_org_handle = getenv E ''IS_ORG_HANDLE'' '''',
            po_tenant_path = '''',
            po_client_id = getenv E ''CLIENT_ID'' '''',
            po_client_secret = getenv E ''CLIENT_SECRET'' '''',
            po_app_id = getenv E ''APP_ID'' '''',
            po_app_name = getenv E ''APP_NAME'' ''Teamspace'',
            po_portal_url = rstrip_char (CHR ''/'') (getenv E ''PORTAL_URL''
              (''http://'' @ getenv E ''FLASK_HOST'' (FLASK_HOST CommonDefaults) @ '':'' @ str_int port)),
            po_business_api_url = getenv E ''BUSINESS_API_URL'' (BUSINESS_API_URL CommonDefaults),
            po_agent_service_url = getenv E ''AGENT_SERVICE_URL'' (AGENT_SERVICE_URL CommonDefaults),
            po_is_verify_tls = fst (verify_tls_from_env is_file E ''IS_VERIFY_TLS'' (IS_VERIFY_TLS CommonDefaults)),
            po_service_verify_tls =
              fst (verify_tls_from_env is_file E ''SERVICE_VERIFY_TLS'' (SERVICE_VERIFY_TLS CommonDefaults)),
            po_cookie_secure = (E ''FLASK_ENV'' = Some ''production''),
            po_oidc_redirect_uri = '''',
            po_oidc_post_logout_uri = ''''\<rparr>)"

text \<open>What \<open>create_app\<close> computes from the settings.\<close>

definition complete_settings :: "portal_settings \<Rightarrow> portal_settings" where
  "complete_settings c = c\<lparr>
     po_tenant_path := (if po_is_org_handle c \<noteq> [] then ''/t/'' @ po_is_org_handle c else ''''),
     po_oidc_redirect_uri := po_portal_url c @ ''/callback'',
     po_oidc_post_logout_uri := po_portal_url c\<rparr>"

record ('w, 'k) portal_env =
  pe_net :: "'w net"
  pe_fr :: "real \<Rightarrow> string"
  pe_jwt :: "'k jwt_lib"
  pe_cfg :: portal_settings
  pe_environ :: environ

record 'w portal_state = "'w m2m_state" +
  session :: dict
  flashed :: "json list"

text \<open>\<open>flash(message, category)\<close>; \<open>flash(dict)\<close> has the category \<open>message\<close>.\<close>

definition flash :: "json \<Rightarrow> string \<Rightarrow> (('w, 'z) portal_state_scheme, unit) prog" where
  "flash message category =
     modify (\<lambda>s. s\<lparr>flashed := flashed s @ [JList [JStr category, message]]\<rparr>)"

definition session_set :: "string \<Rightarrow> json \<Rightarrow> (('w, 'z) portal_state_scheme, unit) prog" where
  "session_set k v = modify (\<lambda>s. s\<lparr>session := dict_set (session s) k v\<rparr>)"

definition session_pop :: "string \<Rightarrow> (('w, 'z) portal_state_scheme, unit) prog" where
  "session_pop k = modify (\<lambda>s. s\<lparr>session := dict_without (session s) k\<rparr>)"

definition session_get :: "string \<Rightarrow> json \<Rightarrow> (('w, 'z) portal_state_scheme, json) prog" where
  "session_get k dflt = asks (\<lambda>s. get_or (session s) k dflt)"

text \<open>\<open>session.get("user", {}).get(field, "")\<close>.\<close>

definition user_field :: "string \<Rightarrow> (('w, 'z) portal_state_scheme, json) prog" where
  "user_field field =
     andthen (session_get ''user'' (JObj [])) (\<lambda>user.
       lift_res (bind_res (as_obj user) (\<lambda>d. Inr (get_or d field (JStr [])))))"

subsection \<open>The service token\<close>

definition portal_m2m_config :: "('w, 'k) portal_env \<Rightarrow> m2m_config" where
  "portal_m2m_config V = \<lparr>m_is_base_url = po_is_base_url (pe_cfg V), m_tenant_path = po_tenant_path (pe_cfg V),
     m_client_id = po_client_id (pe_cfg V), m_client_secret = po_client_secret (pe_cfg V),
     m_scope = SERVICE_SCOPE\<rparr>"

definition service_auth_headers ::
  "('w, 'k) portal_env \<Rightarrow> bool \<Rightarrow> (('w, 'z) portal_state_scheme, (string \<times> string) list) prog" where
  "service_auth_headers V force_refresh =
     auth_headers (pe_net V) (pe_fr V) ''Web Portal'' (portal_m2m_config V) force_refresh"

subsection \<open>The Business API\<close>

text \<open>A dict of headers: \<open>d[k] = v\<close> and \<open>d.setdefault(k, v)\<close>.\<close>

fun header_set :: "(string \<times> string) list \<Rightarrow> string \<Rightarrow> string \<Rightarrow> (string \<times> string) list" where
  "header_set [] k v = [(k, v)]"
| "header_set ((a, x) # hs) k v = (if a = k then (a, v) # hs else (a, x) # header_set hs k v)"

definition header_default :: "(string \<times> string) list \<Rightarrow> string \<Rightarrow> string \<Rightarrow> (string \<times> string) list" where
  "header_default hs k v = (if map_of hs k = None then hs @ [(k, v)] else hs)"

text \<open>The response that stands for an unreachable Business API.\<close>

definition OFFLINE :: response where
  "OFFLINE = \<lparr>status = 503,
     resp_text = ''{'' @ [CHR 0x22] @ ''detail'' @ [CHR 0x22] @ '': '' @ [CHR 0x22] @ ''Business API offline'' @
       [CHR 0x22] @ ''}'',
     resp_json = Some (JObj [(''detail'', JStr ''Business API offline'')]), resp_location = None\<rparr>"

definition proxy_headers ::
  "('w, 'k) portal_env \<Rightarrow> json \<Rightarrow> (string \<times> string) list \<Rightarrow> (string \<times> string) list" where
  "proxy_headers V token hs =
     header_default
       (if truthy token then header_set hs ''Authorization'' (''Bearer '' @ py_str (pe_fr V) token) else hs)
       ''Content-Type'' ''application/json''"

definition proxy_request ::
  "('w, 'k) portal_env \<Rightarrow> string \<Rightarrow> string \<Rightarrow> json \<Rightarrow> (string \<times> string) list \<Rightarrow> body \<Rightarrow> request" where
  "proxy_request V m path token hs b =
     \<lparr>meth = m, url = po_business_api_url (pe_cfg V) @ path, query = [], headers = proxy_headers V token hs,
      body = b, follow_redirects = True\<rparr>"

text \<open>\<open>api_request\<close>: the token of the session unless one is given.\<close>

definition proxy_call ::
  "('w, 'k) portal_env \<Rightarrow> string \<Rightarrow> string \<Rightarrow> string \<Rightarrow> (string \<times> string) list \<Rightarrow> body
     \<Rightarrow> (('w, 'z) portal_state_scheme, response) prog" where
  "proxy_call V m path token hs b =
     andthen (if token \<noteq> [] then ret (JStr token) else session_get ''access_token'' (JStr [])) (\<lambda>tok.
       catch (send (pe_net V) (proxy_request V m path tok hs b))
         (\<lambda>e. if is_request_error e then ret OFFLINE else raise e))"

record api_result =
  ar_status :: int
  ar_data :: json

definition parse_response :: "response \<Rightarrow> api_result" where
  "parse_response resp =
     \<lparr>ar_status = status resp,
      ar_data = (case resp_json resp of Some j \<Rightarrow> j | None \<Rightarrow> JStr (resp_text resp))\<rparr>"

definition proxy_result ::
  "('w, 'k) portal_env \<Rightarrow> string \<Rightarrow> string \<Rightarrow> string \<Rightarrow> body \<Rightarrow> (('w, 'z) portal_state_scheme, api_result) prog" where
  "proxy_result V m path token b =
     andthen (proxy_call V m path token [] b) (\<lambda>resp. ret (parse_response resp))"

text \<open>\<open>resp.json()\<close> of a 200, something else otherwise.\<close>

definition proxy_read ::
  "('w, 'k) portal_env \<Rightarrow> string \<Rightarrow> json \<Rightarrow> (('w, 'z) portal_state_scheme, json) prog" where
  "proxy_read V path dflt =
     andthen (proxy_call V ''GET'' path [] [] NoBody) (\<lambda>resp.
       if status resp = 200 then lift_res (json_of resp) else ret dflt)"

definition portal_get_meetings :: "('w, 'k) portal_env \<Rightarrow> (('w, 'z) portal_state_scheme, json) prog" where
  "portal_get_meetings V = proxy_read V ''/meetings'' (JList [])"

definition portal_create_meeting ::
  "('w, 'k) portal_env \<Rightarrow> json \<Rightarrow> (('w, 'z) portal_state_scheme, api_result) prog" where
  "portal_create_meeting V data = proxy_result V ''POST'' ''/meetings'' [] (JsonBody data)"

definition portal_update_meeting ::
  "('w, 'k) portal_env \<Rightarrow> string \<Rightarrow> json \<Rightarrow> (('w, 'z) portal_state_scheme, api_result) prog" where
  "portal_update_meeting V meeting_id data = proxy_result V ''PUT'' (''/meetings/'' @ meeting_id) [] (JsonBody data)"

definition portal_delete_meeting ::
  "('w, 'k) portal_env \<Rightarrow> string \<Rightarrow> (('w, 'z) portal_state_scheme, api_result) prog" where
  "portal_delete_meeting V meeting_id = proxy_result V ''DELETE'' (''/meetings/'' @ meeting_id) [] NoBody"

definition portal_get_personalization ::
  "('w, 'k) portal_env \<Rightarrow> string \<Rightarrow> (('w, 'z) portal_state_scheme, json) prog" where
  "portal_get_personalization V org_id = proxy_read V (''/personalization/org/'' @ org_id) JNull"

definition portal_upsert_personalization ::
  "('w, 'k) portal_env \<Rightarrow> json \<Rightarrow> (('w, 'z) portal_state_scheme, api_result) prog" where
  "portal_upsert_personalization V data = proxy_result V ''POST'' ''/personalization'' [] (JsonBody data)"

definition portal_delete_personalization ::
  "('w, 'k) portal_env \<Rightarrow> string \<Rightarrow> (('w, 'z) portal_state_scheme, api_result) prog" where
  "portal_delete_personalization V org_id =
     proxy_result V ''DELETE'' (''/personalization/org/'' @ org_id) [] NoBody"

definition portal_get_agent_config ::
  "('w, 'k) portal_env \<Rightarrow> string \<Rightarrow> (('w, 'z) portal_state_scheme, json) prog" where
  "portal_get_agent_config V org_id = proxy_read V (''/agent-config/org/'' @ org_id) JNull"

definition agent_config_answer :: "response \<Rightarrow> exn + json" where
  "agent_config_answer resp = (if status resp = 200 then json_of resp else Inr JNull)"

definition get_agent_config_via_service_token ::
  "('w, 'k) portal_env \<Rightarrow> string \<Rightarrow> (('w, 'z) portal_state_scheme, json) prog" where
  "get_agent_config_via_service_token V org_id =
     andthen (service_auth_headers V False) (\<lambda>headers.
       if headers = [] then ret JNull
       else
         andthen (proxy_call V ''GET'' (''/agent-config/org/'' @ org_id) [] headers NoBody) (\<lambda>resp.
           if status resp = 401 then
             andthen (service_auth_headers V True) (\<lambda>retry_headers.
               if retry_headers = [] then ret JNull
               else
                 andthen (proxy_call V ''GET'' (''/agent-config/org/'' @ org_id) [] retry_headers NoBody) (\<lambda>resp'.
                   lift_res (agent_config_answer resp')))
           else lift_res (agent_config_answer resp)))"

definition portal_save_agent_config ::
  "('w, 'k) portal_env \<Rightarrow> json \<Rightarrow> (('w, 'z) portal_state_scheme, api_result) prog" where
  "portal_save_agent_config V data = proxy_result V ''POST'' ''/agent-config'' [] (JsonBody data)"

definition portal_delete_agent_config ::
  "('w, 'k) portal_env \<Rightarrow> string \<Rightarrow> (('w, 'z) portal_state_scheme, api_result) prog" where
  "portal_delete_agent_config V org_id = proxy_result V ''DELETE'' (''/agent-config/org/'' @ org_id) [] NoBody"

subsection \<open>Plans\<close>

definition get_organization_plan ::
  "('w, 'k) portal_env \<Rightarrow> string \<Rightarrow> (('w, 'z) portal_state_scheme, json) prog" where
  "get_organization_plan V org_id =
     andthen (proxy_call V ''GET'' (''/plans/org/'' @ org_id) [] [] NoBody) (\<lambda>resp.
       if status resp = 200 then lift_res (json_of resp)
       else ret (JObj [(''org'', JStr org_id), (''plan'', JStr DEFAULT_PLAN)]))"

text \<open>What an answer says of the plan: \<open>JNull\<close> when it cannot be told.\<close>

definition plan_answer :: "response \<Rightarrow> exn + json" where
  "plan_answer resp =
     (if status resp = 200 then
        (case resp_json resp of
           None \<Rightarrow> Inr JNull
         | Some j \<Rightarrow> bind_res (as_obj j) (\<lambda>d. Inr (or_else (opt_json (dict_get d ''plan'')) (JStr DEFAULT_PLAN))))
      else if status resp = 404 then Inr (JStr DEFAULT_PLAN)
      else Inr JNull)"

definition resolve_plan_for_gating ::
  "('w, 'k) portal_env \<Rightarrow> string \<Rightarrow> (('w, 'z) portal_state_scheme, json) prog" where
  "resolve_plan_for_gating V org_id =
     (if org_id = [] then ret JNull
      else andthen (proxy_call V ''GET'' (''/plans/org/'' @ org_id) [] [] NoBody) (\<lambda>resp. lift_res (plan_answer resp)))"

definition save_organization_plan ::
  "('w, 'k) portal_env \<Rightarrow> json \<Rightarrow> string \<Rightarrow> string \<Rightarrow> (('w, 'z) portal_state_scheme, api_result) prog" where
  "save_organization_plan V org_id plan_id token =
     proxy_result V ''POST'' ''/plans'' token (JsonBody (JObj [(''org'', org_id), (''plan'', JStr plan_id)]))"

subsection \<open>WSO2 IS\<close>

text \<open>\<open>str.encode()\<close> of Latin-1 text, and \<open>base64.b64encode\<close>.\<close>

definition utf8 :: "string \<Rightarrow> nat list" where
  "utf8 s = concat (map (\<lambda>c. let n = ord c in if n < 128 then [n] else [192 + n div 64, 128 + n mod 64]) s)"

definition b64_char :: "nat \<Rightarrow> char" where
  "b64_char n = chr (if n < 26 then 65 + n else if n < 52 then 71 + n else if n < 62 then n - 4
     else if n = 62 then 43 else 47)"

fun b64 :: "nat list \<Rightarrow> string" where
  "b64 [] = []"
| "b64 [a] = [b64_char (a div 4), b64_char (a mod 4 * 16), CHR ''='', CHR ''='']"
| "b64 [a, b] = [b64_char (a div 4), b64_char (a mod 4 * 16 + b div 16), b64_char (b mod 16 * 4), CHR ''='']"
| "b64 (a # b # c # bs) =
     b64_char (a div 4) # b64_char (a mod 4 * 16 + b div 16) # b64_char (b mod 16 * 4 + c div 64) #
     b64_char (c mod 64) # b64 bs"

text \<open>
  \<open>ISClient.call\<close>: the status, the body and what the pages show of the call, in which the
  authorization is cut to its first 20 characters. Transport errors are not caught here.
\<close>

record is_result =
  ir_status :: int
  ir_data :: json
  ir_debug :: json

definition shown_headers :: "(string \<times> string) list \<Rightarrow> (string \<times> string) list" where
  "shown_headers hs = map (\<lambda>(k, v). (k, if k = ''Authorization'' then take 20 v @ ''...'' else v)) hs"

text \<open>\<open>json.dumps(v, indent=2)\<close>, from a given depth.\<close>

definition new_line :: "nat \<Rightarrow> string" where
  "new_line n = CHR 0x0A # replicate n (CHR '' '')"

fun dumps_indent :: "(real \<Rightarrow> string) \<Rightarrow> nat \<Rightarrow> json \<Rightarrow> string" where
  "dumps_indent fr n (JList xs) =
     (if xs = [] then ''[]''
      else ''['' @ new_line (n + 2) @ join_str ('','' @ new_line (n + 2)) (map (dumps_indent fr (n + 2)) xs) @
        new_line n @ '']'')"
| "dumps_indent fr n (JObj d) =
     (if d = [] then ''{}''
      else ''{'' @ new_line (n + 2) @
        join_str ('','' @ new_line (n + 2))
          (map (\<lambda>(k, v). dumps fr (JStr k) @ '': '' @ dumps_indent fr (n + 2) v) d) @
        new_line n @ ''}'')"
| "dumps_indent fr n v = dumps fr v"

definition to_curl :: "(real \<Rightarrow> string) \<Rightarrow> string \<Rightarrow> string \<Rightarrow> (string \<times> string) list \<Rightarrow> json \<Rightarrow> string" where
  "to_curl fr m u hs b =
     join_str ('' '' @ [CHR 0x5C, CHR 0x0A] @ ''  '')
       ([''curl -X '' @ upper m @ '' '' @ [CHR 0x27] @ u @ [CHR 0x27]] @
        map (\<lambda>(k, v). ''-H '' @ [CHR 0x27] @ k @ '': '' @ v @ [CHR 0x27]) (shown_headers hs) @
        (if truthy b then [''-d '' @ [CHR 0x27] @ dumps_indent fr 0 b @ [CHR 0x27]] else []))"

definition is_url :: "('w, 'k) portal_env \<Rightarrow> string \<Rightarrow> string" where
  "is_url V path =
     (if startswith path ''http://'' \<or> startswith path ''https://'' then path else po_is_base_url (pe_cfg V) @ path)"

definition update_headers :: "(string \<times> string) list \<Rightarrow> (string \<times> string) list \<Rightarrow> (string \<times> string) list" where
  "update_headers hs extra = foldl (\<lambda>h (k, v). header_set h k v) hs extra"

definition is_headers :: "string \<Rightarrow> (string \<times> string) list \<Rightarrow> (string \<times> string) list" where
  "is_headers token extra =
     update_headers
       ([(''Content-Type'', ''application/json'')] @
        (if token \<noteq> [] then [(''Authorization'', ''Bearer '' @ token)] else []))
       extra"

definition is_request ::
  "('w, 'k) portal_env \<Rightarrow> string \<Rightarrow> string \<Rightarrow> string \<Rightarrow> (string \<times> string) list \<Rightarrow> json option \<Rightarrow> request" where
  "is_request V m path token extra payload =
     \<lparr>meth = m, url = is_url V path, query = [], headers = is_headers token extra,
      body = (case payload of None \<Rightarrow> NoBody | Some j \<Rightarrow> JsonBody j), follow_redirects = True\<rparr>"

text \<open>The body of a response, if there is one: its JSON, or its text.\<close>

definition body_data :: "response \<Rightarrow> json" where
  "body_data resp =
     (if resp_text resp = [] then JNull
      else case resp_json resp of Some j \<Rightarrow> j | None \<Rightarrow> JStr (resp_text resp))"

definition is_debug :: "('w, 'k) portal_env \<Rightarrow> request \<Rightarrow> json option \<Rightarrow> response \<Rightarrow> json" where
  "is_debug V q payload resp =
     JObj [(''method'', JStr (upper (meth q))), (''url'', JStr (url q)),
       (''request_headers'', JObj (map (\<lambda>(k, v). (k, JStr v)) (shown_headers (headers q)))),
       (''request_body'', opt_json payload), (''status_code'', JInt (status resp)),
       (''response_body'', body_data resp),
       (''curl'', JStr (to_curl (pe_fr V) (meth q) (url q) (headers q) (opt_json payload)))]"

definition is_call ::
  "('w, 'k) portal_env \<Rightarrow> string \<Rightarrow> string \<Rightarrow> string \<Rightarrow> (string \<times> string) list \<Rightarrow> json option
     \<Rightarrow> (('w, 'z) portal_state_scheme, is_result) prog" where
  "is_call V m path token extra payload =
     (let q = is_request V m path token extra payload in
      andthen (send (pe_net V) q) (\<lambda>resp.
        ret \<lparr>ir_status = status resp, ir_data = body_data resp, ir_debug = is_debug V q payload resp\<rparr>))"

subsection \<open>Tokens the portal requests for itself\<close>

definition portal_token_form :: "('w, 'k) portal_env \<Rightarrow> string \<Rightarrow> string \<Rightarrow> (string \<times> string) list \<Rightarrow> (string \<times> string) list" where
  "portal_token_form V grant_type scope extra =
     update_headers
       [(''grant_type'', grant_type), (''client_id'', po_client_id (pe_cfg V)),
        (''client_secret'', po_client_secret (pe_cfg V)), (''scope'', scope)] extra"

definition portal_token_request ::
  "('w, 'k) portal_env \<Rightarrow> string \<Rightarrow> string \<Rightarrow> (string \<times> string) list \<Rightarrow> request" where
  "portal_token_request V grant_type scope extra =
     (post_form (po_is_base_url (pe_cfg V) @ po_tenant_path (pe_cfg V) @ ''/oauth2/token'') []
       (portal_token_form V grant_type scope extra))\<lparr>follow_redirects := True\<rparr>"

text \<open>The token of an answer; every failure is logged and gives none. A token is a string.\<close>

definition token_of_answer ::
  "('w, 'k) portal_env \<Rightarrow> string \<Rightarrow> response \<Rightarrow> (('w, 'z) portal_state_scheme, json) prog" where
  "token_of_answer V grant_type resp =
     (if status resp \<notin> {200, 201} then
        andthen (log_m2m (log_token_error (pe_fr V) grant_type (Response (status resp) (resp_text resp)) None
          ''Failed to get token'')) (\<lambda>_. ret (JStr []))
      else
        (case resp_json resp of
           None \<Rightarrow>
             andthen (log_m2m (log_token_error (pe_fr V) grant_type (Response (status resp) (resp_text resp)) None
               ''Failed to parse token response'')) (\<lambda>_. ret (JStr []))
         | Some data \<Rightarrow>
             andthen (lift_res (as_obj data)) (\<lambda>d.
               if truthy (opt_json (dict_get d ''access_token'')) then ret (opt_json (dict_get d ''access_token''))
               else
                 andthen (log_m2m (log_token_error (pe_fr V) grant_type (Parsed d) None
                   ''Token response missing access_token'')) (\<lambda>_. ret (JStr [])))))"

definition request_token ::
  "('w, 'k) portal_env \<Rightarrow> string \<Rightarrow> string \<Rightarrow> (string \<times> string) list \<Rightarrow> (('w, 'z) portal_state_scheme, string) prog" where
  "request_token V grant_type scope extra =
     andthen
       (catch (andthen (send (pe_net V) (portal_token_request V grant_type scope extra)) (\<lambda>r. ret (Some r)))
          (\<lambda>e. if is_request_error e then ret None else raise e))
       (\<lambda>resp.
         (case resp of
            None \<Rightarrow> ret []
          | Some r \<Rightarrow> andthen (token_of_answer V grant_type r) (\<lambda>token. ret (py_str (pe_fr V) token))))"

definition get_client_credentials_token :: "('w, 'k) portal_env \<Rightarrow> (('w, 'z) portal_state_scheme, string) prog" where
  "get_client_credentials_token V =
     request_token V ''client_credentials''
       (''internal_organization_create internal_organization_view '' @ ''internal_shared_application_create'') []"

definition get_root_role_management_token :: "('w, 'k) portal_env \<Rightarrow> (('w, 'z) portal_state_scheme, string) prog" where
  "get_root_role_management_token V =
     request_token V ''client_credentials''
       (''internal_org_role_mgt_view internal_org_role_mgt_update '' @
        ''internal_role_mgt_view internal_role_mgt_update'') []"

definition get_agent_management_token :: "('w, 'k) portal_env \<Rightarrow> (('w, 'z) portal_state_scheme, string) prog" where
  "get_agent_management_token V =
     request_token V ''client_credentials''
       (''internal_agent_mgt_create internal_agent_mgt_list '' @
        ''internal_agent_mgt_view internal_agent_mgt_delete'') []"

definition switch_org_token ::
  "('w, 'k) portal_env \<Rightarrow> string \<Rightarrow> string \<Rightarrow> (('w, 'z) portal_state_scheme, string) prog" where
  "switch_org_token V org_id token =
     request_token V ''organization_switch''
       (''internal_org_user_mgt_create internal_org_user_mgt_list internal_org_user_mgt_view '' @
        ''internal_org_role_mgt_create internal_org_role_mgt_view internal_org_role_mgt_update'')
       [(''token'', token), (''switching_organization'', org_id)]"

subsection \<open>What the calls send\<close>

lemma portal_quiet [simp, intro]:
  "sends A (session_set k v)" "sends A (session_pop k)" "sends A (flash m c)" "sends A (session_get k d)"
  "sends A (user_field f)"
  by (simp_all add: session_set_def session_pop_def flash_def session_get_def user_field_def sends_quiet
      sends_andthen)

lemma proxy_call_sends:
  assumes "\<And>tok. proxy_request V m path tok hs b \<in> A"
  shows "sends A (proxy_call V m path token hs b)"
  unfolding proxy_call_def by (intro sends_intros sends_send assms portal_quiet)

lemma proxy_result_sends:
  "(\<And>tok. proxy_request V m path tok [] b \<in> A) \<Longrightarrow> sends A (proxy_result V m path token b)"
  unfolding proxy_result_def by (intro sends_intros proxy_call_sends)

lemma is_call_sends: "is_request V m path token extra payload \<in> A \<Longrightarrow> sends A (is_call V m path token extra payload)"
  unfolding is_call_def Let_def by (intro sends_intros sends_send)

lemma token_of_answer_sends: "sends A (token_of_answer V g resp)"
proof -
  have log: "sends A (log_m2m l)" for l by (simp add: log_m2m_def sends_modify)
  show ?thesis unfolding token_of_answer_def by (intro sends_intros log)
qed

lemma request_token_sends:
  "portal_token_request V g scope extra \<in> A \<Longrightarrow> sends A (request_token V g scope extra)"
  unfolding request_token_def by (intro sends_intros sends_send token_of_answer_sends)

subsection \<open>What the calls leave alone, and how many there are\<close>

lemma send_session [simp]: "session (snd (send net q s)) = session s"
  by (auto simp: send_def split: prod.splits)

lemma keeps_send_session [simp, intro]: "keeps session (send net q)"
  by (simp add: keeps_def)

lemma log_m2m_session [simp, intro]: "keeps session (log_m2m l)"
  by (simp add: log_m2m_def keeps_def)

lemma log_m2m_quiet [simp, intro]: "sends A (log_m2m l)" "calls P n (log_m2m l)"
  by (simp_all add: log_m2m_def sends_modify calls_quiet)

lemma proxy_keeps_session [simp, intro]:
  "keeps session (proxy_call V m path token hs b)" "keeps session (proxy_result V m path token b)"
  "keeps session (proxy_read V path dflt)"
proof -
  show call: "keeps session (proxy_call V m path token hs b)" for m path token hs b
    unfolding proxy_call_def session_get_def by (intro keeps_andthen keeps_catch keeps_if keeps_basic keeps_send_session)
  show "keeps session (proxy_result V m path token b)"
    unfolding proxy_result_def by (intro keeps_andthen call keeps_basic)
  show "keeps session (proxy_read V path dflt)"
    unfolding proxy_read_def by (intro keeps_andthen call keeps_if keeps_basic)
qed

lemma is_call_keeps_session [simp, intro]: "keeps session (is_call V m path token extra payload)"
  unfolding is_call_def Let_def by (intro keeps_andthen keeps_send_session keeps_basic)

lemma keeps_option: "keeps f m \<Longrightarrow> (\<And>x. keeps f (n x)) \<Longrightarrow> keeps f (case v of None \<Rightarrow> m | Some x \<Rightarrow> n x)"
  by (cases v) auto

lemma request_token_keeps_session [simp, intro]: "keeps session (request_token V g scope extra)"
proof -
  have "keeps session (token_of_answer V g r)" for r
    unfolding token_of_answer_def
    by (intro keeps_andthen keeps_if keeps_option keeps_basic log_m2m_session)
  then show ?thesis
    unfolding request_token_def
    by (intro keeps_andthen keeps_catch keeps_if keeps_option keeps_basic keeps_send_session)
qed

lemma own_tokens_keep_session [simp, intro]:
  "keeps session (get_client_credentials_token V)" "keeps session (get_root_role_management_token V)"
  "keeps session (get_agent_management_token V)" "keeps session (switch_org_token V org_id token)"
  by (simp_all add: get_client_credentials_token_def get_root_role_management_token_def
      get_agent_management_token_def switch_org_token_def)

lemma keeps_stable: "keeps f m \<Longrightarrow> stable (\<lambda>s. Q (f s)) m"
  by (simp add: keeps_def stable_def)

lemma send_once: "calls P 1 (send net q)"
  by (rule calls_send) simp

lemma proxy_call_once: "calls P 1 (proxy_call V m path token hs b)"
proof -
  have "calls P 0 (session_get k d)" for k d by (simp add: session_get_def)
  then show ?thesis
    unfolding proxy_call_def
    by (intro calls_zero_andthen calls_catch_zero calls_if calls_basic send_once)
qed

lemma proxy_result_once: "calls P 1 (proxy_result V m path token b)"
  unfolding proxy_result_def by (intro calls_andthen_zero proxy_call_once calls_basic)

lemma is_call_once: "calls P 1 (is_call V m path token extra payload)"
  unfolding is_call_def Let_def by (intro calls_andthen_zero send_once calls_basic)

lemma request_token_once: "calls P 1 (request_token V g scope extra)"
proof -
  have "calls P 0 (token_of_answer V g r)" for r
    unfolding token_of_answer_def
    by (intro calls_zero_andthen calls_if calls_option calls_basic log_m2m_quiet)
  then show ?thesis
    unfolding request_token_def
    by (intro calls_andthen_zero calls_catch_zero calls_option calls_if calls_zero_andthen calls_basic send_once)
qed

lemma own_tokens_once:
  "calls P 1 (get_client_credentials_token V)" "calls P 1 (get_root_role_management_token V)"
  "calls P 1 (get_agent_management_token V)" "calls P 1 (switch_org_token V org_id token)"
  by (simp_all only: get_client_credentials_token_def get_root_role_management_token_def
      get_agent_management_token_def switch_org_token_def request_token_once)

subsection \<open>One call, one request\<close>

lemma send_runs: "send net q s = (r, t) \<Longrightarrow> sent t = sent s @ [q]"
  using send_sent [of net q s] by simp

lemma is_call_runs:
  assumes "is_call V m path token extra payload s = (r, t)"
  shows "sent t = sent s @ [is_request V m path token extra payload]"
  using assms unfolding is_call_def Let_def
  by (auto simp: andthen_def dest!: send_runs split: prod.splits sum.splits)

lemma proxy_call_runs:
  assumes "proxy_call V m path token hs b s = (r, t)"
  shows "sent t = sent s @ [proxy_request V m path
           (if token \<noteq> [] then JStr token else get_or (session s) ''access_token'' (JStr [])) hs b]"
  using assms unfolding proxy_call_def session_get_def
  by (auto simp: andthen_def catch_def dest!: send_runs split: prod.splits sum.splits if_splits)

lemma proxy_result_runs:
  assumes "proxy_result V m path token b s = (r, t)"
  shows "sent t = sent s @ [proxy_request V m path
           (if token \<noteq> [] then JStr token else get_or (session s) ''access_token'' (JStr [])) [] b]"
  using assms unfolding proxy_result_def
  by (auto simp: andthen_def dest!: proxy_call_runs split: prod.splits sum.splits)

subsection \<open>A portal and its surroundings, for concrete runs\<close>

definition demo_portal_settings :: portal_settings where
  "demo_portal_settings = \<lparr>po_is_base_url = ''i'', po_is_org_handle = [], po_tenant_path = [], po_client_id = ''c'',
     po_client_secret = ''k'', po_app_id = ''a'', po_app_name = ''n'', po_portal_url = ''p'',
     po_business_api_url = ''b'', po_agent_service_url = ''g'', po_is_verify_tls = VBool False, po_service_verify_tls = VBool False,
     po_cookie_secure = False, po_oidc_redirect_uri = ''r'', po_oidc_post_logout_uri = ''l''\<rparr>"

text \<open>Everything is answered with one status and one body.\<close>

definition demo_portal :: "int \<Rightarrow> dict \<Rightarrow> (unit, unit) portal_env" where
  "demo_portal st d = \<lparr>pe_net = (\<lambda>q w. (Inr \<lparr>status = st, resp_text = ''x'', resp_json = Some (JObj d),
       resp_location = None\<rparr>, 1, ())),
     pe_fr = (\<lambda>r. []), pe_jwt = \<lparr>jwt_header = (\<lambda>t. Inr [(''kid'', JStr ''1'')]), jwt_from_jwk = (\<lambda>k. Inr ()),
       jwt_decode = (\<lambda>t k alg aud iss leeway now. Inr d), jwt_encode_hs = (\<lambda>k t. []),
       jwt_decode_hs = (\<lambda>t k alg now. Inr []), jwt_decode_unverified = (\<lambda>t. Inr d)\<rparr>,
     pe_cfg = demo_portal_settings, pe_environ = Map.empty\<rparr>"

definition demo_visit :: "dict \<Rightarrow> unit portal_state" where
  "demo_visit sess = \<lparr>world = (), wall = 0, mono = 0, sent = [], tok_cache = Map.empty, m2m_log = [],
     session = sess, flashed = []\<rparr>"

end
