(* ===== verification/Portal_Ops.thy ===== *)
theory Portal_Ops
  imports Portal_Api
begin

text \<open>
  \<open>webapp/is_operations.py\<close>: what the portal does at WSO2 IS. Role sharing there is
  asynchronous, so an assignment polls for the role first; branding is kept twice, in the
  Business API and in WSO2 IS, and written in that order.
\<close>

subsection \<open>Credentials\<close>

definition root_admin_credentials :: "('w, 'k) portal_env \<Rightarrow> string \<times> string" where
  "root_admin_credentials V =
     (let E = pe_environ V; org_handle = po_is_org_handle (pe_cfg V);
          own = getenv E ''IS_ADMIN_USERNAME'' '''';
          tenant_admin = getenv E ''IS_TENANT_ADMIN_USERNAME'' ''teamspaceadmin'';
          username = (if own \<noteq> [] then own
                      else if org_handle \<noteq> [] then tenant_admin @ ''@'' @ org_handle else tenant_admin);
          own_password = getenv E ''IS_ADMIN_PASSWORD'' ''''
      in (username, if own_password \<noteq> [] then own_password else getenv E ''IS_TENANT_ADMIN_PASSWORD'' ''''))"

text \<open>The bearer token and the extra headers of a call below \<open>/o\<close>, or as the root tenant's admin.\<close>

definition get_auth_params ::
  "('w, 'k) portal_env \<Rightarrow> string \<Rightarrow> bool \<Rightarrow> string \<times> (string \<times> string) list" where
  "get_auth_params V token use_org_endpoint =
     (if use_org_endpoint then (token, [])
      else (case root_admin_credentials V of (admin_user, admin_pass) \<Rightarrow>
        if admin_pass = [] then ([], [])
        else ([], [(''Authorization'', ''Basic '' @ b64 (utf8 (admin_user @ '':'' @ admin_pass)))])))"

subsection \<open>Roles\<close>

definition sleep :: "real \<Rightarrow> (('w, 'z) net_state_scheme, unit) prog" where
  "sleep dt = modify (\<lambda>s. s\<lparr>wall := wall s + dt, mono := mono s + dt\<rparr>)"

definition segment :: "bool \<Rightarrow> string" where
  "segment use_org_endpoint = (if use_org_endpoint then ''/o'' else '''')"

definition role_filter :: "('w, 'k) portal_env \<Rightarrow> string \<Rightarrow> bool \<Rightarrow> string" where
  "role_filter V role_name use_org_endpoint =
     ''displayName+eq+'' @ role_name @
     (if \<not> use_org_endpoint \<and> po_app_id (pe_cfg V) \<noteq> []
      then ''+and+audience.value+eq+'' @ po_app_id (pe_cfg V) else '''')"

definition poll_path :: "('w, 'k) portal_env \<Rightarrow> string \<Rightarrow> string \<Rightarrow> bool \<Rightarrow> string" where
  "poll_path V tenant role_name use_org_endpoint =
     tenant @ segment use_org_endpoint @ ''/scim2/v2/Roles?filter='' @ role_filter V role_name use_org_endpoint"

text \<open>The attempts that are left.\<close>

fun poll_attempts ::
  "('w, 'k) portal_env \<Rightarrow> string \<Rightarrow> string \<Rightarrow> string \<Rightarrow> bool \<Rightarrow> nat \<Rightarrow> (('w, 'z) portal_state_scheme, json) prog" where
  "poll_attempts V token tenant role_name use_org 0 = ret JNull"
| "poll_attempts V token tenant role_name use_org (Suc n) =
     andthen (is_call V ''GET'' (poll_path V tenant role_name use_org)
        (fst (get_auth_params V token use_org)) (snd (get_auth_params V token use_org)) None) (\<lambda>result.
       (let resources = (case ir_data result of JObj d \<Rightarrow> get_or d ''Resources'' (JList []) | _ \<Rightarrow> JList []) in
        if truthy resources then
          lift_res (bind_res (first_item resources) (\<lambda>role. item role ''id''))
        else
          andthen (sleep 2) (\<lambda>_. poll_attempts V token tenant role_name use_org n)))"

definition poll_for_role_id ::
  "('w, 'k) portal_env \<Rightarrow> string \<Rightarrow> string \<Rightarrow> string \<Rightarrow> bool \<Rightarrow> (('w, 'z) portal_state_scheme, json) prog" where
  "poll_for_role_id V token tenant role_name use_org = poll_attempts V token tenant role_name use_org 5"

definition assignment :: "json \<Rightarrow> json" where
  "assignment user_id =
     JObj [(''Operations'', JList [JObj [(''op'', JStr ''add''), (''path'', JStr ''users''),
        (''value'', JList [JObj [(''value'', user_id)]])]])]"

text \<open>The calls shown on the page are collected in a list that the caller passes.\<close>

fun assign_roles_to_user ::
  "('w, 'k) portal_env \<Rightarrow> string \<Rightarrow> string \<Rightarrow> json \<Rightarrow> string list \<Rightarrow> json list \<Rightarrow> bool
     \<Rightarrow> (('w, 'z) portal_state_scheme, json list) prog" where
  "assign_roles_to_user V token tenant user_id [] debug_list use_org = ret debug_list"
| "assign_roles_to_user V token tenant user_id (role_name # role_names) debug_list use_org =
     andthen (poll_for_role_id V token tenant role_name use_org) (\<lambda>role_id.
       if \<not> truthy role_id then assign_roles_to_user V token tenant user_id role_names debug_list use_org
       else
         andthen (is_call V ''PATCH''
            (tenant @ segment use_org @ ''/scim2/v2/Roles/'' @ py_str (pe_fr V) role_id)
            (fst (get_auth_params V token use_org)) (snd (get_auth_params V token use_org))
            (Some (assignment user_id))) (\<lambda>result.
           assign_roles_to_user V token tenant user_id role_names (debug_list @ [ir_debug result]) use_org))"

definition share_body :: "('w, 'k) portal_env \<Rightarrow> string \<Rightarrow> string list \<Rightarrow> json" where
  "share_body V org_id role_names =
     JObj [(''applicationId'', JStr (po_app_id (pe_cfg V))),
       (''Operations'', JList [JObj [(''op'', JStr ''add''),
          (''path'', JStr (''organizations[orgId eq '' @ [CHR 0x22] @ org_id @ [CHR 0x22] @ ''].roles'')),
          (''value'', JList (map (\<lambda>role. JObj [(''displayName'', JStr role),
             (''audience'', JObj [(''display'', JStr (po_app_name (pe_cfg V))), (''type'', JStr ''application'')])])
            role_names))]])]"

definition share_roles_with_org ::
  "('w, 'k) portal_env \<Rightarrow> string \<Rightarrow> string \<Rightarrow> string \<Rightarrow> string list \<Rightarrow> json list
     \<Rightarrow> (('w, 'z) portal_state_scheme, json list) prog" where
  "share_roles_with_org V root_token tenant org_id role_names debug_list =
     (if role_names = [] then ret debug_list
      else
        andthen (is_call V ''PATCH'' (tenant @ ''/api/server/v1/applications/share'') root_token []
            (Some (share_body V org_id role_names))) (\<lambda>result. ret (debug_list @ [ir_debug result])))"

subsection \<open>Organizations\<close>

fun find_org :: "string \<Rightarrow> json list \<Rightarrow> exn + json" where
  "find_org handle [] = Inr JNull"
| "find_org handle (org # orgs) =
     bind_res (as_obj org) (\<lambda>d.
       if dict_get d ''orgHandle'' = Some (JStr handle) then item org ''id'' else find_org handle orgs)"

definition resolve_org_id ::
  "('w, 'k) portal_env \<Rightarrow> string \<Rightarrow> (('w, 'z) portal_state_scheme, json) prog" where
  "resolve_org_id V handle =
     andthen (get_client_credentials_token V) (\<lambda>root_token.
       if root_token = [] then ret JNull
       else
         andthen (is_call V ''GET''
            (po_tenant_path (pe_cfg V) @ ''/api/server/v1/organizations?limit=100&recursive=false'')
            root_token [] None) (\<lambda>result.
           if ir_status result = 200 \<and> truthy (ir_data result) then
             lift_res (bind_res (as_obj (ir_data result)) (\<lambda>d.
               bind_res (py_list (get_or d ''organizations'' (JList []))) (find_org handle)))
           else ret JNull))"

subsection \<open>Branding\<close>

record dual_write_result =
  db_success :: bool
  is_success :: bool
  db_status :: int
  is_status :: int
  error_message :: string
  api_debug :: json

definition build_is_branding_payload :: "dict \<Rightarrow> string \<Rightarrow> json" where
  "build_is_branding_payload data org_name =
     (let primary = get_or data ''primary_color'' (JStr DEFAULT_PRIMARY_COLOR);
          secondary = get_or data ''secondary_color'' (JStr DEFAULT_SECONDARY_COLOR);
          logo_url = get_or data ''logo_url'' (JStr '''');
          logo_alt = get_or data ''logo_alt_text'' (JStr '''');
          favicon_url = get_or data ''favicon_url'' (JStr '''')
      in JObj
      [(''type'', JStr ''ORG''),
       (''locale'', JStr ''en-US''),
       (''preference'', JObj
        [(''configs'', JObj [(''isBrandingEnabled'', JBool True), (''removeDefaultBranding'', JBool True)]),
         (''layout'', JObj [(''activeLayout'', JStr ''centered'')]),
         (''organizationDetails'', JObj [(''displayName'', JStr org_name), (''supportEmail'', JStr '''')]),
         (''theme'', JObj
          [(''activeTheme'', JStr ''LIGHT''),
           (''LIGHT'', JObj
            [(''buttons'', JObj
              [(''externalConnection'', JObj
                [(''base'', JObj
                  [(''background'', JObj [(''backgroundColor'', JStr ''#FFFFFF'')]),
                   (''border'', JObj [(''borderRadius'', JStr ''22px'')]),
                   (''font'', JObj [(''color'', JStr ''#000000de'')])])]),
               (''primary'', JObj
                [(''base'', JObj
                  [(''border'', JObj [(''borderRadius'', JStr ''22px'')]),
                   (''font'', JObj [(''color'', JStr ''#ffffffe6'')])])]),
               (''secondary'', JObj
                [(''base'', JObj
                  [(''border'', JObj [(''borderRadius'', JStr ''22px'')]),
                   (''font'', JObj [(''color'', JStr ''#000000de'')])])])]),
             (''colors'', JObj
              [(''alerts'', JObj
                [(''error'', JObj [(''main'', JStr ''#ffd8d8'')]),
                 (''info'', JObj [(''main'', JStr ''#eff7fd'')]),
                 (''neutral'', JObj [(''main'', JStr ''#f8f8f9'')]),
                 (''warning'', JObj [(''main'', JStr ''#fff6e7'')])]),
               (''background'', JObj
                [(''body'', JObj [(''main'', JStr ''#fbfbfb'')]),
                 (''surface'', JObj
                  [(''main'', JStr ''#ffffff''),
                   (''dark'', JStr ''#F6F4F2''),
                   (''light'', JStr ''#f9fafb''),
                   (''inverted'', JStr ''#212A32'')])]),
               (''illustrations'', JObj
                [(''accent1'', JObj [(''main'', JStr ''#3865B5'')]),
                 (''accent2'', JObj [(''main'', JStr ''#19BECE'')]),
                 (''accent3'', JObj [(''main'', JStr ''#FFFFFF'')]),
                 (''primary'', JObj [(''main'', primary)]),
                 (''secondary'', JObj [(''main'', JStr ''#E0E1E2'')])]),
               (''outlined'', JObj [(''default'', JStr ''#dadce0'')]),
               (''primary'', JObj [(''main'', primary)]),
               (''secondary'', JObj [(''main'', secondary)]),
               (''text'', JObj [(''primary'', JStr ''#000000de''), (''secondary'', JStr ''#00000066'')])]),
             (''images'', JObj
              [(''favicon'', JObj [(''imgURL'', favicon_url)]),
               (''logo'', JObj [(''altText'', logo_alt), (''imgURL'', logo_url)]),
               (''myAccountLogo'', JObj [(''title'', JStr ''Account'')])]),
             (''inputs'', JObj
              [(''base'', JObj
                [(''background'', JObj [(''backgroundColor'', JStr ''#FFFFFF'')]),
                 (''border'', JObj [(''borderRadius'', JStr ''8px'')])])]),
             (''loginBox'', JObj
              [(''border'', JObj [(''borderRadius'', JStr ''12px''), (''borderWidth'', JStr ''1px'')])]),
             (''typography'', JObj [(''font'', JObj [(''fontFamily'', JStr ''Gilmer'')])])])]),
         (''urls'', JObj
          [(''cookiePolicyURL'', JStr ''''),
           (''privacyPolicyURL'', JStr ''''),
           (''termsOfUseURL'', JStr '''')])])])"

definition branding_endpoint :: "string \<Rightarrow> string" where
  "branding_endpoint tenant = tenant @ ''/o/api/server/v1/branding-preference''"

definition not_synced :: "bool \<Rightarrow> int \<Rightarrow> string \<Rightarrow> dual_write_result" where
  "not_synced ok st m =
     \<lparr>db_success = ok, is_success = False, db_status = st, is_status = 0, error_message = m, api_debug = JNull\<rparr>"

definition sync_failed :: "int \<Rightarrow> is_result \<Rightarrow> dual_write_result" where
  "sync_failed st result =
     \<lparr>db_success = True, is_success = False, db_status = st, is_status = ir_status result,
      error_message = ''IS branding sync failed with status '' @ str_int (ir_status result),
      api_debug = ir_debug result\<rparr>"

definition synced :: "int \<Rightarrow> is_result \<Rightarrow> dual_write_result" where
  "synced st result =
     \<lparr>db_success = True, is_success = True, db_status = st, is_status = ir_status result,
      error_message = '''', api_debug = ir_debug result\<rparr>"

definition sync_branding ::
  "('w, 'k) portal_env \<Rightarrow> dict \<Rightarrow> string \<Rightarrow> string \<Rightarrow> string \<Rightarrow> int
     \<Rightarrow> (('w, 'z) portal_state_scheme, dual_write_result) prog" where
  "sync_branding V data token tenant org_name db_st =
     (let payload = Some (build_is_branding_payload data org_name) in
      andthen (is_call V ''PUT'' (branding_endpoint tenant) token [] payload) (\<lambda>result.
        if ir_status result \<in> {200, 201} then ret (synced db_st result)
        else if ir_status result = 404 then
          andthen (is_call V ''POST'' (branding_endpoint tenant) token [] payload) (\<lambda>result'.
            ret (if ir_status result' \<in> {200, 201} then synced db_st result' else sync_failed db_st result'))
        else ret (sync_failed db_st result)))"

definition update_branding ::
  "('w, 'k) portal_env \<Rightarrow> dict \<Rightarrow> string \<Rightarrow> string \<Rightarrow> string \<Rightarrow> (('w, 'z) portal_state_scheme, dual_write_result) prog" where
  "update_branding V data token tenant org_name =
     andthen (portal_upsert_personalization V (JObj data)) (\<lambda>db_result.
       if ar_status db_result \<notin> {200, 201} then
         ret (not_synced False (ar_status db_result) ''Failed to update branding in DB'')
       else if token = [] then
         ret (not_synced True (ar_status db_result) ''No access token available for IS sync'')
       else sync_branding V data token tenant org_name (ar_status db_result))"

definition branding_query :: "string \<Rightarrow> string" where
  "branding_query org_id = ''?locale=en-US&name='' @ org_id @ ''&type=ORG''"

definition delete_branding ::
  "('w, 'k) portal_env \<Rightarrow> string \<Rightarrow> string \<Rightarrow> string \<Rightarrow> (('w, 'z) portal_state_scheme, dual_write_result) prog" where
  "delete_branding V org_id token tenant =
     andthen (portal_delete_personalization V org_id) (\<lambda>db_result.
       (let ok = (ar_status db_result \<in> {200, 201, 204}) in
        if token = [] then
          ret (not_synced ok (ar_status db_result) ''No access token available for IS delete'')
        else
          andthen (is_call V ''DELETE'' (branding_endpoint tenant @ branding_query org_id) token [] None) (\<lambda>result.
            ret \<lparr>db_success = ok, is_success = (ir_status result \<in> {200, 204}), db_status = ar_status db_result,
              is_status = ir_status result, error_message = '''', api_debug = ir_debug result\<rparr>)))"

text \<open>\<open>v.get(a, {}).get(b, {}).get(c, default)\<close>.\<close>

definition nested_get :: "dict \<Rightarrow> string \<Rightarrow> string \<Rightarrow> string \<Rightarrow> string \<Rightarrow> exn + json" where
  "nested_get d a b c dflt =
     bind_res (as_obj (get_or d a (JObj []))) (\<lambda>d1.
     bind_res (as_obj (get_or d1 b (JObj []))) (\<lambda>d2. Inr (get_or d2 c (JStr dflt))))"

definition theme_of :: "dict \<Rightarrow> json \<Rightarrow> exn + dict" where
  "theme_of theme active =
     (case active of
        JStr a \<Rightarrow> as_obj (get_or theme a (JObj []))
      | JList _ \<Rightarrow> Inl (TypeError ''unhashable type'')
      | JObj _ \<Rightarrow> Inl (TypeError ''unhashable type'')
      | _ \<Rightarrow> Inr [])"

definition extract_branding :: "string \<Rightarrow> json \<Rightarrow> exn + json" where
  "extract_branding org_id data =
     bind_res (as_obj data) (\<lambda>d.
     bind_res (as_obj (get_or d ''preference'' (JObj []))) (\<lambda>pref.
     bind_res (as_obj (get_or pref ''theme'' (JObj []))) (\<lambda>theme.
     bind_res (theme_of theme (get_or theme ''activeTheme'' (JStr ''LIGHT''))) (\<lambda>t.
     bind_res (nested_get t ''images'' ''logo'' ''imgURL'' '''') (\<lambda>logo_url.
     bind_res (nested_get t ''images'' ''logo'' ''altText'' '''') (\<lambda>logo_alt.
     bind_res (nested_get t ''images'' ''favicon'' ''imgURL'' '''') (\<lambda>favicon_url.
     bind_res (nested_get t ''colors'' ''primary'' ''main'' DEFAULT_PRIMARY_COLOR) (\<lambda>primary.
     bind_res (nested_get t ''colors'' ''secondary'' ''main'' DEFAULT_SECONDARY_COLOR) (\<lambda>secondary.
       Inr (JObj [(''org'', JStr org_id), (''logo_url'', logo_url), (''logo_alt_text'', logo_alt),
         (''favicon_url'', favicon_url), (''primary_color'', primary), (''secondary_color'', secondary)]))))))))))"

definition fetch_branding_from_is ::
  "('w, 'k) portal_env \<Rightarrow> string \<Rightarrow> string \<Rightarrow> string \<Rightarrow> (('w, 'z) portal_state_scheme, json) prog" where
  "fetch_branding_from_is V org_id token tenant =
     (if token = [] then ret JNull
      else
        andthen (is_call V ''GET'' (branding_endpoint tenant @ ''/resolve'' @ branding_query org_id) token [] None) (\<lambda>result.
          if ir_status result \<noteq> 200 \<or> \<not> truthy (ir_data result) then ret JNull
          else ret (case extract_branding org_id (ir_data result) of Inr b \<Rightarrow> b | Inl _ \<Rightarrow> JNull)))"

subsection \<open>How much the operations send\<close>

lemma sleep_quiet [simp, intro]: "calls P n (sleep dt)" "keeps session (sleep dt)" "sends A (sleep dt)"
  by (simp_all add: sleep_def calls_quiet keeps_modify sends_modify)

lemma poll_attempts_calls: "calls P n (poll_attempts V token tenant role use_org n)"
proof (induction n)
  case (Suc n)
  show ?case
    unfolding poll_attempts.simps Let_def unfolding Suc_eq_plus1_left
    by (intro calls_andthen is_call_once calls_if calls_basic calls_zero_andthen sleep_quiet Suc)
qed (simp only: poll_attempts.simps calls_basic)

lemma poll_calls: "calls P 5 (poll_for_role_id V token tenant role use_org)"
  unfolding poll_for_role_id_def by (rule poll_attempts_calls)

lemma assign_roles_calls:
  "calls P (6 * length names) (assign_roles_to_user V token tenant user_id names debug use_org)"
proof (induction names arbitrary: debug)
  case (Cons name names)
  have n: "6 * length (name # names) = 5 + (1 + 6 * length names)" by simp
  show ?case
    unfolding n assign_roles_to_user.simps
    by (intro calls_andthen poll_calls calls_if is_call_once Cons calls_mono [OF Cons le_add2])
qed simp

lemma share_roles_once: "calls P 1 (share_roles_with_org V token tenant org names debug)"
  unfolding share_roles_with_org_def by (intro calls_if calls_andthen_zero is_call_once calls_basic)

lemma roles_keep_session [simp, intro]:
  "keeps session (assign_roles_to_user V token tenant user_id names debug use_org)"
  "keeps session (share_roles_with_org V token tenant org names debug)"
proof -
  have attempts: "keeps session (poll_attempts V token tenant role use_org n)" for role n
    by (induction n) (auto simp: Let_def simp del: prog_run intro!: keeps_andthen keeps_if)
  show "keeps session (assign_roles_to_user V token tenant user_id names debug use_org)"
    by (induction names arbitrary: debug) (auto simp: poll_for_role_id_def intro!: keeps_andthen keeps_if attempts)
  show "keeps session (share_roles_with_org V token tenant org names debug)"
    unfolding share_roles_with_org_def by (intro keeps_if keeps_andthen is_call_keeps_session keeps_basic)
qed

text \<open>The requests about one role, or some roles, of one user.\<close>

definition role_call :: "('w, 'k) portal_env \<Rightarrow> string \<Rightarrow> json \<Rightarrow> string \<Rightarrow> bool \<Rightarrow> request \<Rightarrow> bool" where
  "role_call V tenant user_id name use_org q \<longleftrightarrow>
     (\<exists>token extra role_id.
        q = is_request V ''GET'' (poll_path V tenant name use_org) token extra None \<or>
        q = is_request V ''PATCH'' (tenant @ segment use_org @ ''/scim2/v2/Roles/'' @ role_id) token extra
              (Some (assignment user_id)))"

definition role_request :: "('w, 'k) portal_env \<Rightarrow> string \<Rightarrow> json \<Rightarrow> string list \<Rightarrow> bool \<Rightarrow> request \<Rightarrow> bool" where
  "role_request V tenant user_id names use_org q \<longleftrightarrow> (\<exists>name \<in> set names. role_call V tenant user_id name use_org q)"

lemma role_calls:
  "role_call V tenant user_id name use_org (is_request V ''GET'' (poll_path V tenant name use_org) token extra None)"
  "role_call V tenant user_id name use_org
     (is_request V ''PATCH'' (tenant @ segment use_org @ ''/scim2/v2/Roles/'' @ role_id) token extra
        (Some (assignment user_id)))"
  unfolding role_call_def by blast+

lemma poll_attempts_sends:
  "(\<And>token extra. is_request V ''GET'' (poll_path V tenant role use_org) token extra None \<in> A)
     \<Longrightarrow> sends A (poll_attempts V token tenant role use_org n)"
  by (induction n) (auto simp: Let_def intro!: sends_andthen sends_if is_call_sends)

lemma assign_roles_sends:
  "(\<And>q. role_request V tenant user_id names use_org q \<Longrightarrow> q \<in> A)
     \<Longrightarrow> sends A (assign_roles_to_user V token tenant user_id names debug use_org)"
proof (induction names arbitrary: debug)
  case (Cons name names)
  have one: "q \<in> A" if "role_call V tenant user_id name use_org q" for q
    using Cons.prems that by (simp add: role_request_def)
  have rest: "q \<in> A" if "role_request V tenant user_id names use_org q" for q
    using Cons.prems that by (simp add: role_request_def)
  show ?case
    unfolding assign_roles_to_user.simps poll_for_role_id_def
    by (intro sends_andthen sends_if poll_attempts_sends is_call_sends Cons.IH rest one role_calls)
qed simp

lemma share_roles_sends:
  "is_request V ''PATCH'' (tenant @ ''/api/server/v1/applications/share'') token [] (Some (share_body V org names)) \<in> A
     \<Longrightarrow> sends A (share_roles_with_org V token tenant org names debug)"
  unfolding share_roles_with_org_def by (intro sends_if sends_andthen is_call_sends sends_basic)

subsection \<open>Branding is written to the Business API first\<close>

definition branding_put :: "('w, 'k) portal_env \<Rightarrow> string \<Rightarrow> dict \<Rightarrow> string \<Rightarrow> string \<Rightarrow> string \<Rightarrow> request" where
  "branding_put V m data token tenant org_name =
     is_request V m (branding_endpoint tenant) token [] (Some (build_is_branding_payload data org_name))"

lemma sync_branding_runs:
  fixes V :: "('w, 'k) portal_env" and s t :: "('w, 'z) portal_state_scheme"
  assumes "sync_branding V data token tenant org_name st s = (Inr res, t)"
  shows "db_success res \<and> db_status res = st \<and>
    (sent t = sent s @ [branding_put V ''PUT'' data token tenant org_name] \<or>
     sent t = sent s @ [branding_put V ''PUT'' data token tenant org_name, branding_put V ''POST'' data token tenant org_name])"
proof -
  let ?payload = "Some (build_is_branding_payload data org_name)"
  have sent_after: "sent u = sent v @ [branding_put V m data token tenant org_name]"
    if "is_call V m (branding_endpoint tenant) token [] ?payload v = (r, u)" for m r u and v :: "('w, 'z) portal_state_scheme"
    using is_call_runs [OF that] by (simp add: branding_put_def)
  obtain result u where put: "is_call V ''PUT'' (branding_endpoint tenant) token [] ?payload s = (Inr result, u)"
    using assms unfolding sync_branding_def Let_def andthen_Inr_conv by blast
  show ?thesis
  proof (cases "ir_status result = 404")
    case True
    then obtain result' where "is_call V ''POST'' (branding_endpoint tenant) token [] ?payload u = (Inr result', t)"
      and "res = (if ir_status result' \<in> {200, 201} then synced st result' else sync_failed st result')"
      using assms put unfolding sync_branding_def Let_def
      by (auto simp: andthen_def split: prod.splits sum.splits)
    then show ?thesis using sent_after [OF put] sent_after by (auto simp: synced_def sync_failed_def)
  next
    case False
    then have "t = u" "res = synced st result \<or> res = sync_failed st result"
      using assms put unfolding sync_branding_def Let_def by (auto simp: andthen_def split: if_splits)
    then show ?thesis using sent_after [OF put] by (auto simp: synced_def sync_failed_def)
  qed
qed



end
