(* ===== verification/Portal_Access.thy ===== *)
theory Portal_Access
  imports Portal_Api
begin

text \<open>
  Who may do what in the portal: the roles (\<open>webapp/utils/roles.py\<close>), the plans
  (\<open>webapp/plans.py\<close>), the decorators of the routes (\<open>webapp/utils/decorators.py\<close>), the gate in
  front of the agent pages (\<open>webapp/blueprints/agents.py\<close>) and the helpers that shape a page by
  role (\<open>webapp/utils/helpers.py\<close>).
\<close>

subsection \<open>Roles and plans\<close>

definition TEAMSPACE_ADMIN :: string where "TEAMSPACE_ADMIN = ''teamspace-admin''"
definition TEAMSPACE_USER :: string where "TEAMSPACE_USER = ''teamspace-user''"
definition BASIC_BRANDING_EDITOR :: string where "BASIC_BRANDING_EDITOR = ''basic-branding-editor''"
definition ADVANCED_BRANDING_EDITOR :: string where "ADVANCED_BRANDING_EDITOR = ''advanced-branding-editor''"
definition IDP_MANAGER :: string where "IDP_MANAGER = ''idp-manager''"

definition PLAN_ROLES :: "(string \<times> string list) list" where
  "PLAN_ROLES =
     [(''basic'', []), (''business'', [BASIC_BRANDING_EDITOR]),
      (''enterprise'', [BASIC_BRANDING_EDITOR, ADVANCED_BRANDING_EDITOR, IDP_MANAGER])]"

record plan =
  plan_id :: string
  plan_name :: string
  plan_price :: string
  plan_features :: "string list"
  plan_roles_shared :: "string list"
  plan_upgrade_roles :: "string list"

definition PLANS :: "plan list" where
  "PLANS =
     [\<lparr>plan_id = ''basic'', plan_name = ''Basic'', plan_price = ''Free'',
       plan_features = [''Manage Meetings'', ''User Management'', ''Role Management''],
       plan_roles_shared = [TEAMSPACE_ADMIN, TEAMSPACE_USER], plan_upgrade_roles = []\<rparr>,
      \<lparr>plan_id = ''business'', plan_name = ''Business'', plan_price = ''$5/user/month'',
       plan_features = [''Everything in Basic'', ''Basic Branding'', ''Custom Logo & Colors''],
       plan_roles_shared = [TEAMSPACE_ADMIN, TEAMSPACE_USER, BASIC_BRANDING_EDITOR],
       plan_upgrade_roles = [BASIC_BRANDING_EDITOR]\<rparr>,
      \<lparr>plan_id = ''enterprise'', plan_name = ''Enterprise'', plan_price = ''$9/user/month'',
       plan_features = [''Everything in Business'', ''Advanced Branding'', ''Federated IdP'',
         ''Security Settings'', ''AI Agents''],
       plan_roles_shared = [TEAMSPACE_ADMIN, TEAMSPACE_USER, BASIC_BRANDING_EDITOR, ADVANCED_BRANDING_EDITOR, IDP_MANAGER],
       plan_upgrade_roles = [BASIC_BRANDING_EDITOR, ADVANCED_BRANDING_EDITOR, IDP_MANAGER]\<rparr>]"

subsection \<open>Decorators\<close>

text \<open>What a route answers: a rendered template with its context, or a redirect to an endpoint.\<close>

datatype portal_answer =
    Rendered string "(string \<times> json) list"
  | Redirected string "(string \<times> string) list"

type_synonym ('w, 'z) route = "(('w, 'z) portal_state_scheme, portal_answer) prog"

text \<open>The organization of the route and of the session: both given and different is a 403.\<close>

definition same_org :: "string \<Rightarrow> (('w, 'z) portal_state_scheme, unit) prog" where
  "same_org route_org =
     andthen (user_field ''org_handle'') (\<lambda>session_org.
       if route_org \<noteq> [] \<and> truthy session_org \<and> JStr route_org \<noteq> session_org then raise (HttpError 403 '''')
       else ret ())"

definition login_required :: "string \<Rightarrow> ('w, 'z) route \<Rightarrow> ('w, 'z) route" where
  "login_required route_org f =
     andthen (asks (\<lambda>s. dict_get (session s) ''user'')) (\<lambda>user.
       if user = None then
         ret (Redirected ''main.login'' (if route_org \<noteq> [] then [(''org_handle'', route_org)] else []))
       else andthen (same_org route_org) (\<lambda>_. f))"

definition org_required :: "string \<Rightarrow> ('w, 'z) route \<Rightarrow> ('w, 'z) route" where
  "org_required route_org f =
     andthen (asks (\<lambda>s. dict_get (session s) ''user'')) (\<lambda>user.
       if user = None then raise (HttpError 401 '''') else andthen (same_org route_org) (\<lambda>_. f))"

definition admin_required :: "('w, 'z) route \<Rightarrow> ('w, 'z) route" where
  "admin_required f =
     andthen (session_get ''is_admin'' JNull) (\<lambda>is_admin. if \<not> truthy is_admin then raise (HttpError 403 '''') else f)"

fun any_role :: "string list \<Rightarrow> json \<Rightarrow> exn + bool" where
  "any_role [] user_roles = Inr False"
| "any_role (r # rs) user_roles =
     bind_res (key_in r user_roles) (\<lambda>yes. if yes then Inr True else any_role rs user_roles)"

definition role_required :: "string list \<Rightarrow> ('w, 'z) route \<Rightarrow> ('w, 'z) route" where
  "role_required roles f =
     andthen (session_get ''user_roles'' (JList [])) (\<lambda>user_roles.
     andthen (lift_res (any_role roles user_roles)) (\<lambda>yes. if \<not> yes then raise (HttpError 403 '''') else f))"

definition require_plan_and_role ::
  "('w, 'k) portal_env \<Rightarrow> string \<Rightarrow> string \<Rightarrow> ('w, 'z) route \<Rightarrow> ('w, 'z) route" where
  "require_plan_and_role V required_plan required_role f =
     andthen (user_field ''org_id'') (\<lambda>org_id.
     andthen (get_organization_plan V (py_str (pe_fr V) org_id)) (\<lambda>plan_info.
     andthen (lift_res (as_obj plan_info)) (\<lambda>d.
       if get_or d ''plan'' (JStr ''basic'') \<noteq> JStr required_plan then raise (HttpError 403 '''')
       else
         andthen (session_get ''user_roles'' (JList [])) (\<lambda>user_roles.
         andthen (lift_res (key_in required_role user_roles)) (\<lambda>yes.
           if \<not> yes then raise (HttpError 403 '''') else f)))))"

definition has_role :: "string list \<Rightarrow> (('w, 'z) portal_state_scheme, bool) prog" where
  "has_role roles =
     andthen (session_get ''user_roles'' (JList [])) (\<lambda>user_roles. lift_res (any_role roles user_roles))"

definition has_scope :: "string list \<Rightarrow> (('w, 'z) portal_state_scheme, bool) prog" where
  "has_scope wanted =
     andthen (session_get ''user_scopes'' (JList [])) (\<lambda>user_scopes. lift_res (any_role wanted user_scopes))"

subsection \<open>The gate of the agent pages\<close>

text \<open>The three outcomes for a plan, which may be unknown (\<open>JNull\<close>), and a role.\<close>

definition gate_answer ::
  "string \<Rightarrow> string \<Rightarrow> string \<Rightarrow> string \<Rightarrow> string \<Rightarrow> string \<Rightarrow> json \<Rightarrow> bool \<Rightarrow> portal_answer option" where
  "gate_answer org_handle required_plan required_role title description upgrade_template org_plan has =
     (if org_plan \<noteq> JNull \<and> org_plan \<noteq> JStr required_plan then
        Some (Rendered upgrade_template [(''org_handle'', JStr org_handle)])
      else if \<not> has then
        (if org_plan = JStr required_plan then
           Some (Rendered ''admin/access_denied.html''
             [(''org_handle'', JStr org_handle), (''title'', JStr title), (''description'', JStr description),
              (''required_role'', JStr required_role)])
         else Some (Rendered upgrade_template [(''org_handle'', JStr org_handle)]))
      else None)"

definition check_plan_and_role ::
  "('w, 'k) portal_env \<Rightarrow> string \<Rightarrow> string \<Rightarrow> string \<Rightarrow> string \<Rightarrow> string \<Rightarrow> string
     \<Rightarrow> (('w, 'z) portal_state_scheme, portal_answer option) prog" where
  "check_plan_and_role V org_handle required_plan required_role title description upgrade_template =
     andthen (user_field ''org_id'') (\<lambda>org_id.
     andthen (session_get ''user_roles'' (JList [])) (\<lambda>user_roles.
     andthen (resolve_plan_for_gating V (if truthy org_id then py_str (pe_fr V) org_id else [])) (\<lambda>org_plan.
       if org_plan \<noteq> JNull \<and> org_plan \<noteq> JStr required_plan then
         ret (gate_answer org_handle required_plan required_role title description upgrade_template org_plan False)
       else
         andthen (lift_res (key_in required_role user_roles)) (\<lambda>has.
           ret (gate_answer org_handle required_plan required_role title description upgrade_template org_plan has)))))"

definition gate_agents_by_plan ::
  "('w, 'k) portal_env \<Rightarrow> string \<Rightarrow> (('w, 'z) portal_state_scheme, portal_answer option) prog" where
  "gate_agents_by_plan V org_handle =
     andthen (session_get ''is_admin'' JNull) (\<lambda>is_admin.
       if \<not> truthy is_admin then raise (HttpError 403 '''')
       else
         check_plan_and_role V org_handle ''enterprise'' TEAMSPACE_ADMIN ''AI Agents''
           ''Deploy autonomous AI agents to interact with your team.'' ''admin/agents_upgrade.html'')"

subsection \<open>The sidebar\<close>

record sidebar_item =
  si_id :: string
  si_label :: string
  si_icon :: string
  si_href :: "string \<Rightarrow> string"
  si_roles :: "string list"
  si_children :: "(string \<Rightarrow> string) list"

definition org_path :: "string \<Rightarrow> string \<Rightarrow> string" where
  "org_path rest org_handle = ''/o/'' @ org_handle @ rest"

definition SIDEBAR_ITEMS :: "sidebar_item list" where
  "SIDEBAR_ITEMS =
     [\<lparr>si_id = ''home'', si_label = ''Dashboard'', si_icon = ''home'', si_href = org_path '''', si_roles = [''*''],
       si_children = []\<rparr>,
      \<lparr>si_id = ''meetings'', si_label = ''Manage Meetings'', si_icon = ''calendar'', si_href = org_path ''/meetings'',
       si_roles = [''*''], si_children = []\<rparr>,
      \<lparr>si_id = ''users'', si_label = ''Manage Users'', si_icon = ''users'', si_href = org_path ''/admin/users'',
       si_roles = [TEAMSPACE_ADMIN], si_children = []\<rparr>,
      \<lparr>si_id = ''roles'', si_label = ''Manage Roles'', si_icon = ''shield'', si_href = org_path ''/admin/roles'',
       si_roles = [TEAMSPACE_ADMIN], si_children = []\<rparr>,
      \<lparr>si_id = ''personalization'', si_label = ''Personalization'', si_icon = ''palette'',
       si_href = org_path ''/personalization'',
       si_roles = [TEAMSPACE_ADMIN, BASIC_BRANDING_EDITOR, ADVANCED_BRANDING_EDITOR], si_children = []\<rparr>,
      \<lparr>si_id = ''agents'', si_label = ''AI Agents'', si_icon = ''bot'', si_href = org_path ''/admin/agents'',
       si_roles = [TEAMSPACE_ADMIN], si_children = []\<rparr>,
      \<lparr>si_id = ''security'', si_label = ''Security'', si_icon = ''lock'', si_href = org_path ''/admin/security'',
       si_roles = [TEAMSPACE_ADMIN, IDP_MANAGER],
       si_children = [org_path ''/admin/idp'', org_path ''/admin/security/login-flow'']\<rparr>,
      \<lparr>si_id = ''subscription'', si_label = ''Subscription'', si_icon = ''credit-card'',
       si_href = org_path ''/subscription'', si_roles = [TEAMSPACE_ADMIN], si_children = []\<rparr>]"

definition at_or_below :: "string \<Rightarrow> string \<Rightarrow> bool" where
  "at_or_below request_path target \<longleftrightarrow>
     rstrip_char (CHR ''/'') request_path = rstrip_char (CHR ''/'') target \<or> startswith request_path (target @ ''/'')"

definition item_active :: "string \<Rightarrow> string \<Rightarrow> sidebar_item \<Rightarrow> bool" where
  "item_active request_path org_handle i \<longleftrightarrow>
     (if si_id i = ''home''
      then rstrip_char (CHR ''/'') request_path = rstrip_char (CHR ''/'') (si_href i org_handle)
      else at_or_below request_path (si_href i org_handle)) \<or>
     list_ex (\<lambda>child. at_or_below request_path (child org_handle)) (si_children i)"

text \<open>The items a user sees, with their link and, on a known path, whether they are active.\<close>

definition get_sidebar_items ::
  "string \<Rightarrow> string list \<Rightarrow> string \<Rightarrow> (sidebar_item \<times> string \<times> bool option) list" where
  "get_sidebar_items org_handle user_roles request_path =
     map (\<lambda>i. (i, si_href i org_handle,
         if request_path \<noteq> [] then Some (item_active request_path org_handle i) else None))
       (filter (\<lambda>i. ''*'' \<in> set (si_roles i) \<or> list_ex (\<lambda>r. r \<in> set user_roles) (si_roles i)) SIDEBAR_ITEMS)"

subsection \<open>Who passes the gate\<close>

text \<open>An answer says nothing of the plan when it is neither a plan nor a clean "not found".\<close>

definition plan_unknown :: "response \<Rightarrow> bool" where
  "plan_unknown resp \<longleftrightarrow> status resp \<notin> {200, 404} \<or> (status resp = 200 \<and> resp_json resp = None)"

lemma plan_answer_unknown: "plan_answer resp = Inr JNull \<longleftrightarrow> plan_unknown resp"
proof -
  have "or_else v (JStr DEFAULT_PLAN) \<noteq> JNull" for v by (cases v) (simp_all add: or_else_def)
  then show ?thesis
    by (auto simp: plan_answer_def plan_unknown_def bind_res_Inr_conv split: option.splits)
qed

lemma resolve_plan_runs:
  assumes "resolve_plan_for_gating V org s = (Inr plan, t)" and "org \<noteq> []"
  obtains resp where "proxy_call V ''GET'' (''/plans/org/'' @ org) [] [] NoBody s = (Inr resp, t)"
    and "plan_answer resp = Inr plan"
  using assms by (auto simp: resolve_plan_for_gating_def andthen_Inr_conv)

lemma gate_answer_None:
  "gate_answer oh plan role ti de up org_plan has = None \<longleftrightarrow> (org_plan = JNull \<or> org_plan = JStr plan) \<and> has"
  by (simp add: gate_answer_def)

lemma check_plan_and_role_runs:
  assumes "check_plan_and_role V oh plan role ti de up s = (Inr a, t)"
    and org: "user_field ''org_id'' s = (Inr (JStr org), s)"
  obtains org_plan where "resolve_plan_for_gating V org s = (Inr org_plan, t)"
    and "a = None \<longleftrightarrow> (org_plan = JNull \<or> org_plan = JStr plan) \<and>
      key_in role (get_or (session s) ''user_roles'' (JList [])) = Inr True"
proof -
  have org': "(if org \<noteq> [] then py_str (pe_fr V) (JStr org) else []) = org" by (cases org) simp_all
  have run: "andthen (resolve_plan_for_gating V org) (\<lambda>org_plan.
      if org_plan \<noteq> JNull \<and> org_plan \<noteq> JStr plan then
        ret (gate_answer oh plan role ti de up org_plan False)
      else andthen (lift_res (key_in role (get_or (session s) ''user_roles'' (JList [])))) (\<lambda>has.
        ret (gate_answer oh plan role ti de up org_plan has))) s = (Inr a, t)"
    using assms(1) org unfolding check_plan_and_role_def session_get_def
    by (simp add: andthen_def [of "user_field ''org_id''"] org')
  then obtain org_plan u where res: "resolve_plan_for_gating V org s = (Inr org_plan, u)"
    unfolding andthen_Inr_conv by blast
  show thesis
  proof (cases "org_plan \<noteq> JNull \<and> org_plan \<noteq> JStr plan")
    case True
    then have "u = t" "a = gate_answer oh plan role ti de up org_plan False" using run res by (simp_all add: andthen_def)
    then show thesis using that res True gate_answer_None by blast
  next
    case False
    then have "andthen (lift_res (key_in role (get_or (session s) ''user_roles'' (JList [])))) (\<lambda>has.
        ret (gate_answer oh plan role ti de up org_plan has)) u = (Inr a, t)" using run res by (auto simp: andthen_def)
    then obtain has where "key_in role (get_or (session s) ''user_roles'' (JList [])) = Inr has" "u = t"
      "a = gate_answer oh plan role ti de up org_plan has"
      by (cases "key_in role (get_or (session s) ''user_roles'' (JList []))") auto
    then show thesis using that res False gate_answer_None by auto
  qed
qed

text \<open>
  C22: The pages about AI agents are reached only by an administrator who holds the administrator role,
  and only if the organization's plan is enterprise or the Business API could not tell the plan: a
  stored lower plan or no plan at all closes them whatever the role, an outage never does.
\<close>

theorem agent_pages_need_plan_and_role:
  assumes run: "gate_agents_by_plan V oh s = (Inr a, t)"
    and org: "user_field ''org_id'' s = (Inr (JStr org), s)" "org \<noteq> []"
  shows "truthy (get_or (session s) ''is_admin'' JNull) \<and>
    (\<exists>resp plan. proxy_call V ''GET'' (''/plans/org/'' @ org) [] [] NoBody s = (Inr resp, t) \<and>
       plan_answer resp = Inr plan \<and>
       (a = None \<longleftrightarrow> key_in TEAMSPACE_ADMIN (get_or (session s) ''user_roles'' (JList [])) = Inr True \<and>
          (plan_unknown resp \<or> plan = JStr ''enterprise'')))"
proof -
  have admin: "truthy (get_or (session s) ''is_admin'' JNull)"
    and check: "check_plan_and_role V oh ''enterprise'' TEAMSPACE_ADMIN ''AI Agents''
      ''Deploy autonomous AI agents to interact with your team.'' ''admin/agents_upgrade.html'' s = (Inr a, t)"
    using run by (simp_all add: gate_agents_by_plan_def session_get_def split: if_splits)
  obtain plan where plan: "resolve_plan_for_gating V org s = (Inr plan, t)"
    and a: "a = None \<longleftrightarrow> (plan = JNull \<or> plan = JStr ''enterprise'') \<and>
      key_in TEAMSPACE_ADMIN (get_or (session s) ''user_roles'' (JList [])) = Inr True"
    by (rule check_plan_and_role_runs [OF check org(1)])
  obtain resp where resp: "proxy_call V ''GET'' (''/plans/org/'' @ org) [] [] NoBody s = (Inr resp, t)"
    and ans: "plan_answer resp = Inr plan" by (rule resolve_plan_runs [OF plan org(2)])
  have "plan = JNull \<longleftrightarrow> plan_unknown resp" using ans plan_answer_unknown [of resp] by simp
  then show ?thesis using admin resp ans a by blast
qed

theorem agent_pages_need_plan_and_role_witness:
  "\<exists>t. gate_agents_by_plan (demo_portal 503 []) ''o''
      (demo_visit [(''user'', JObj [(''org_id'', JStr ''1'')]), (''is_admin'', JBool True),
        (''user_roles'', JList [JStr TEAMSPACE_ADMIN])]) = (Inr None, t) \<and>
    (\<exists>resp. plan_unknown resp \<and> plan_answer resp = Inr JNull)"
proof -
  let ?s = "demo_visit [(''user'', JObj [(''org_id'', JStr ''1'')]), (''is_admin'', JBool True),
        (''user_roles'', JList [JStr TEAMSPACE_ADMIN])]"
  have org: "user_field ''org_id'' ?s = (Inr (JStr ''1''), ?s)" "''1'' \<noteq> []"
    by (simp_all add: user_field_def session_get_def demo_visit_def get_or_def andthen_def)
  obtain t where run: "gate_agents_by_plan (demo_portal 503 []) ''o'' ?s = (Inr None, t)"
    by (simp add: gate_agents_by_plan_def check_plan_and_role_def user_field_def session_get_def demo_visit_def
        get_or_def andthen_def resolve_plan_for_gating_def proxy_call_def catch_def send_def demo_portal_def
        plan_answer_def gate_answer_def key_in_def)
  obtain resp plan where "plan_answer resp = Inr plan" "plan_unknown resp \<or> plan = JStr ''enterprise''"
    "proxy_call (demo_portal 503 []) ''GET'' (''/plans/org/'' @ ''1'') [] [] NoBody ?s = (Inr resp, t)"
    using agent_pages_need_plan_and_role [OF run org] by blast
  then have "plan_unknown resp"
    by (auto simp: proxy_call_def session_get_def demo_visit_def demo_portal_def send_def catch_def get_or_def
        plan_unknown_def)
  then show ?thesis using run plan_answer_unknown by blast
qed

end
