(* ===== verification/Portal_Session.thy ===== *)
theory Portal_Session
  imports Portal_Ops Portal_Access Py_Format
begin

text \<open>
  What every page of the portal rests on: the language of a visit and its translated texts
  (\<open>webapp/utils/i18n.py\<close>), and what \<open>webapp/app.py\<close> does around each request, namely the branding,
  plan and agent it caches in the session, the values every template sees, and the headers of every
  answer.
\<close>

subsection \<open>Languages\<close>

text \<open>The parts of a request that pages read besides their form.\<close>

record visit =
  v_args :: "(string \<times> string) list"
  v_accept_language :: string
  v_path :: string
  v_secure :: bool
  v_referrer :: "string option"

definition accepted_locale :: "visit \<Rightarrow> string" where
  "accepted_locale R =
     (let accepted = lower (v_accept_language R) in
      if contains accepted ''pt'' \<or> contains accepted ''br'' then ''pt'' else ''en'')"

definition get_locale :: "visit \<Rightarrow> (('w, 'z) portal_state_scheme, json) prog" where
  "get_locale R =
     (let lang = map_of (v_args R) ''lang'' in
      if lang \<in> {Some ''en'', Some ''pt''} then
        andthen (session_set ''lang'' (opt_json (map_option JStr lang))) (\<lambda>_. ret (opt_json (map_option JStr lang)))
      else
        asks (\<lambda>s. case dict_get (session s) ''lang'' of Some l \<Rightarrow> l | None \<Rightarrow> JStr (accepted_locale R)))"

text \<open>\<open>/set_lang\<close>, which sends the visitor back.\<close>

definition set_lang :: "visit \<Rightarrow> (('w, 'z) portal_state_scheme, string) prog" where
  "set_lang R =
     (let lang = (case map_of (v_args R) ''lang'' of None \<Rightarrow> ''en'' | Some l \<Rightarrow> l);
          back = (case v_referrer R of None \<Rightarrow> ''/'' | Some r \<Rightarrow> if r = [] then ''/'' else r) in
      andthen (if lang \<in> {''en'', ''pt''} then session_set ''lang'' (JStr lang) else ret ()) (\<lambda>_. ret back))"

text \<open>\<open>markupsafe.escape\<close>.\<close>

definition markup_escape :: "string \<Rightarrow> string" where
  "markup_escape s =
     concat (map (\<lambda>c. if ord c = 38 then CHR 0x26 # ''amp;'' else if c = CHR ''<'' then CHR 0x26 # ''lt;''
       else if c = CHR ''>'' then CHR 0x26 # ''gt;'' else if ord c = 34 then CHR 0x26 # ''#34;''
       else if ord c = 39 then CHR 0x26 # ''#39;'' else [c]) s)"

type_synonym catalogs = "(string \<times> (string \<times> string) list) list"

definition language_map :: "catalogs \<Rightarrow> json \<Rightarrow> (string \<times> string) list" where
  "language_map T locale =
     (case locale of JStr l \<Rightarrow> (case map_of T l of Some m \<Rightarrow> m | None \<Rightarrow> []) | _ \<Rightarrow> [])"

text \<open>The template of a key: of the language, of English, or the key itself.\<close>

definition template_of :: "catalogs \<Rightarrow> json \<Rightarrow> string \<Rightarrow> string" where
  "template_of T locale key =
     (let m = language_map T locale;
          m' = (if map_of m key = None then language_map T (JStr ''en'') else m)
      in case map_of m' key of Some t \<Rightarrow> t | None \<Rightarrow> key)"

definition fill_in :: "format_field \<Rightarrow> (string \<times> string) list \<Rightarrow> string \<Rightarrow> string" where
  "fill_in F kwargs t =
     (if kwargs = [] then t
      else case py_format F (map (\<lambda>(k, v). (k, markup_escape v)) kwargs) t of Inr out \<Rightarrow> out | Inl _ \<Rightarrow> t)"

definition translate ::
  "format_field \<Rightarrow> catalogs \<Rightarrow> visit \<Rightarrow> string \<Rightarrow> (string \<times> string) list
     \<Rightarrow> (('w, 'z) portal_state_scheme, string) prog" where
  "translate F T R key kwargs =
     andthen (get_locale R) (\<lambda>locale. ret (fill_in F kwargs (template_of T locale key)))"

text \<open>\<open>init_translations\<close>: a file that is missing or is not JSON leaves its language empty.\<close>

definition init_translations :: "(string \<Rightarrow> (string \<times> string) list option) \<Rightarrow> catalogs" where
  "init_translations file =
     concat (map (\<lambda>lang. case file lang of Some m \<Rightarrow> [(lang, m)] | None \<Rightarrow> []) [''en'', ''pt''])"

subsection \<open>What is cached in a session\<close>

text \<open>
  \<open>requests.RequestException\<close>: the transport, an error status that was raised, and \<open>resp.json()\<close>
  on a body that is not JSON.
\<close>

fun is_requests_exception :: "exn \<Rightarrow> bool" where
  "is_requests_exception (Transport _) = True"
| "is_requests_exception (Timeout _) = True"
| "is_requests_exception (HttpStatus _) = True"
| "is_requests_exception (ValueError m) = (m = ''Expecting value'')"
| "is_requests_exception _ = False"

definition populate_org_plan ::
  "('w, 'k) portal_env \<Rightarrow> json \<Rightarrow> (('w, 'z) portal_state_scheme, unit) prog" where
  "populate_org_plan V org_id =
     andthen (asks (\<lambda>s. dict_get (session s) ''org_plan'')) (\<lambda>known.
       if \<not> truthy org_id \<or> known \<noteq> None then ret ()
       else
         catch
           (andthen (get_organization_plan V (py_str (pe_fr V) org_id)) (\<lambda>plan_info.
            andthen (lift_res (as_obj plan_info)) (\<lambda>d.
              session_set ''org_plan'' (get_or d ''plan'' (JStr ''basic'')))))
           (\<lambda>e. if is_requests_exception e then ret () else session_set ''org_plan'' (JStr ''basic'')))"

definition populate_agent_availability ::
  "('w, 'k) portal_env \<Rightarrow> json \<Rightarrow> (('w, 'z) portal_state_scheme, unit) prog" where
  "populate_agent_availability V org_id =
     andthen (asks (\<lambda>s. dict_get (session s) ''has_agent_config'')) (\<lambda>known.
       if \<not> truthy org_id \<or> known \<noteq> None then ret ()
       else
         catch
           (andthen (get_agent_config_via_service_token V (py_str (pe_fr V) org_id)) (\<lambda>cfg.
              session_set ''has_agent_config'' (JBool (truthy cfg))))
           (\<lambda>e. if is_requests_exception e then ret () else session_set ''has_agent_config'' (JBool False)))"

text \<open>The branding of WSO2 IS, stored in the Business API when that has none; any exception gives none.\<close>

definition sync_branding_from_is ::
  "('w, 'k) portal_env \<Rightarrow> string \<Rightarrow> (('w, 'z) portal_state_scheme, json option) prog" where
  "sync_branding_from_is V org_id =
     catch
       (andthen (session_get ''access_token'' (JStr '''')) (\<lambda>token.
        andthen (fetch_branding_from_is V org_id (if truthy token then py_str (pe_fr V) token else [])
            (po_tenant_path (pe_cfg V))) (\<lambda>branding.
          if truthy branding then
            andthen (portal_upsert_personalization V branding) (\<lambda>stored.
              ret (if ar_status stored \<in> {200, 201} then Some branding else None))
          else ret None)))
       (\<lambda>e. ret None)"

definition load_branding :: "('w, 'k) portal_env \<Rightarrow> string \<Rightarrow> (('w, 'z) portal_state_scheme, unit) prog" where
  "load_branding V org_id =
     andthen (portal_get_personalization V org_id) (\<lambda>branding.
       if truthy branding then session_set ''org_branding'' branding
       else
         andthen (session_get ''is_admin'' (JBool False)) (\<lambda>is_admin.
           if \<not> truthy is_admin then session_set ''org_branding'' JNull
           else
             andthen (sync_branding_from_is V org_id) (\<lambda>branding'.
               session_set ''org_branding'' (opt_json branding'))))"

definition ensure_branding_loaded :: "('w, 'k) portal_env \<Rightarrow> (('w, 'z) portal_state_scheme, unit) prog" where
  "ensure_branding_loaded V =
     andthen (asks (\<lambda>s. dict_get (session s) ''org_branding'')) (\<lambda>known.
       if known \<noteq> None then ret ()
       else
         andthen (user_field ''org_id'') (\<lambda>org_id.
           if \<not> truthy org_id then ret () else load_branding V (py_str (pe_fr V) org_id)))"

text \<open>Before every request; what it raises is logged.\<close>

definition auto_ensure_branding :: "('w, 'k) portal_env \<Rightarrow> (('w, 'z) portal_state_scheme, unit) prog" where
  "auto_ensure_branding V = catch (ensure_branding_loaded V) (\<lambda>e. ret ())"

subsection \<open>What every template sees\<close>

definition strings_of :: "json \<Rightarrow> string list" where
  "strings_of v = (case v of JList xs \<Rightarrow> concat (map (\<lambda>x. case x of JStr s \<Rightarrow> [s] | _ \<Rightarrow> []) xs) | _ \<Rightarrow> [])"

definition sidebar_json :: "sidebar_item \<times> string \<times> bool option \<Rightarrow> json" where
  "sidebar_json x =
     (case x of (i, href, active) \<Rightarrow>
        JObj ([(''id'', JStr (si_id i)), (''label'', JStr (si_label i)), (''icon'', JStr (si_icon i)),
            (''href'', JStr href), (''roles'', JList (map JStr (si_roles i)))] @
          (if si_children i = [] then []
           else [(''children'', JList (map (\<lambda>child. JStr (child ''{org_handle}'')) (si_children i)))]) @
          (case active of None \<Rightarrow> [] | Some b \<Rightarrow> [(''is_active'', JBool b)])))"

definition inject_globals ::
  "('w, 'k) portal_env \<Rightarrow> visit \<Rightarrow> (('w, 'z) portal_state_scheme, dict) prog" where
  "inject_globals V R =
     andthen (session_get ''user'' (JObj [])) (\<lambda>user.
     andthen (user_field ''org_handle'') (\<lambda>org_handle.
     andthen (user_field ''org_id'') (\<lambda>org_id.
     andthen (session_get ''user_roles'' (JList [])) (\<lambda>user_roles.
     andthen (session_get ''org_branding'' JNull) (\<lambda>org_branding.
     andthen (populate_org_plan V org_id) (\<lambda>_.
     andthen (populate_agent_availability V org_id) (\<lambda>_.
     andthen (session_get ''is_admin'' (JBool False)) (\<lambda>is_admin.
     andthen (session_get ''org_plan'' (JStr ''basic'')) (\<lambda>org_plan.
     andthen (session_get ''has_agent_config'' (JBool False)) (\<lambda>has_agent_config.
     andthen (get_locale R) (\<lambda>locale.
       ret [(''current_user'', user), (''org_handle'', org_handle), (''org_id'', org_id),
         (''sidebar_items'',
           JList (if truthy org_handle
             then map sidebar_json (get_sidebar_items (py_str (pe_fr V) org_handle) (strings_of user_roles) (v_path R))
             else [])),
         (''is_admin'', is_admin), (''org_branding'', org_branding), (''org_plan'', org_plan),
         (''has_agent_config'', has_agent_config), (''current_locale'', locale)])))))))))))"

subsection \<open>The headers of every answer\<close>

definition CONTENT_SECURITY_POLICY :: string where
  "CONTENT_SECURITY_POLICY =
     (let self = [CHR 0x27] @ ''self'' @ [CHR 0x27]; inline = [CHR 0x27] @ ''unsafe-inline'' @ [CHR 0x27];
          evals = [CHR 0x27] @ ''unsafe-eval'' @ [CHR 0x27] in
      ''default-src '' @ self @ ''; '' @
      ''style-src '' @ self @ '' '' @ inline @ '' https://fonts.googleapis.com https://cdn.jsdelivr.net; '' @
      ''font-src '' @ self @ '' https://fonts.gstatic.com https://cdn.jsdelivr.net; '' @
      ''script-src '' @ self @ '' '' @ inline @ '' '' @ evals @ '' https://unpkg.com https://cdn.jsdelivr.net; '' @
      ''img-src '' @ self @ '' data: https:; '' @
      ''connect-src '' @ self @ '' https://unpkg.com https://cdn.jsdelivr.net'')"

definition add_security_headers :: "environ \<Rightarrow> visit \<Rightarrow> (string \<times> string) list \<Rightarrow> (string \<times> string) list" where
  "add_security_headers E R hs =
     update_headers hs
       ([(''X-Content-Type-Options'', ''nosniff''), (''X-Frame-Options'', ''DENY'')] @
        (if E ''FLASK_ENV'' = Some ''production'' then [(''Content-Security-Policy'', CONTENT_SECURITY_POLICY)] else []) @
        (if v_secure R then [(''Strict-Transport-Security'', ''max-age=31536000; includeSubDomains'')] else []))"

definition portal_health :: json where
  "portal_health = JObj [(''status'', JStr ''healthy'')]"

text \<open>Where sessions are kept: the answer of the Redis client, when one is asked for and reached.\<close>

datatype session_backend = RedisSessions string | FileSessions

definition configure_session_backend :: "environ \<Rightarrow> (string \<Rightarrow> exn + unit) \<Rightarrow> session_backend" where
  "configure_session_backend E ping =
     (let redis_url = strip (getenv E ''REDIS_URL'' '''') in
      if redis_url \<noteq> [] then
        (case ping redis_url of
           Inr _ \<Rightarrow> RedisSessions (getenv E ''REDIS_KEY_PREFIX'' '''' @ ''teamspace:session:'')
         | Inl _ \<Rightarrow> FileSessions)
      else FileSessions)"

subsection \<open>What an outage leaves in the session\<close>

lemma get_plan_offline:
  assumes down: "\<And>q w. \<exists>m. fst (pe_net V q w) = Inl (Transport m)"
  shows "\<exists>t. get_organization_plan V org s = (Inr (JObj [(''org'', JStr org), (''plan'', JStr ''basic'')]), t) \<and>
    session t = session s"
proof -
  have "\<exists>t. proxy_call V ''GET'' path [] [] NoBody s = (Inr OFFLINE, t)" for path
  proof -
    obtain m dt w where "pe_net V (proxy_request V ''GET'' path (get_or (session s) ''access_token'' (JStr [])) [] NoBody) (world s)
        = (Inl (Transport m), dt, w)"
      using down by (metis prod.collapse)
    then show ?thesis by (simp add: proxy_call_def session_get_def catch_def send_def andthen_def)
  qed
  then obtain t where t: "proxy_call V ''GET'' (''/plans/org/'' @ org) [] [] NoBody s = (Inr OFFLINE, t)" by blast
  then have "session t = session s" using keepsD [OF proxy_keeps_session(1)] by (metis snd_conv)
  then show ?thesis using t by (simp add: get_organization_plan_def andthen_def OFFLINE_def DEFAULT_PLAN_def)
qed

lemma populate_known: "dict_get (session s) ''org_plan'' = Some v \<Longrightarrow> populate_org_plan V org_id s = (Inr (), s)"
  by (simp add: populate_org_plan_def)

text \<open>
  When the Business API cannot be reached while a page is built, the portal caches the plan basic
  for the rest of the session, and no later visit asks again, even once the API is back: the lookup
  turns the outage into an answer, so the handler that would leave the plan unknown never runs.
\<close>

theorem outage_caches_basic_plan:
  fixes V :: "('w, 'k) portal_env" and s :: "('w, 'z) portal_state_scheme"
  assumes down: "\<And>q w. \<exists>m. fst (pe_net V q w) = Inl (Transport m)"
    and org: "org \<noteq> []" and new: "dict_get (session s) ''org_plan'' = None"
  shows "\<exists>t. populate_org_plan V (JStr org) s = (Inr (), t) \<and>
    session t = dict_set (session s) ''org_plan'' (JStr ''basic'') \<and>
    (\<forall>V' :: ('w, 'k) portal_env. populate_org_plan V' (JStr org) t = (Inr (), t))"
proof -
  obtain u where u: "get_organization_plan V org s = (Inr (JObj [(''org'', JStr org), (''plan'', JStr ''basic'')]), u)"
    and "session u = session s" using get_plan_offline [OF down] by blast
  then have run: "populate_org_plan V (JStr org) s =
      (Inr (), u\<lparr>session := dict_set (session s) ''org_plan'' (JStr ''basic'')\<rparr>)"
    using org new by (simp add: populate_org_plan_def catch_def andthen_def session_set_def get_or_def)
  have "populate_org_plan V' (JStr org) (u\<lparr>session := dict_set (session s) ''org_plan'' (JStr ''basic'')\<rparr>) =
      (Inr (), u\<lparr>session := dict_set (session s) ''org_plan'' (JStr ''basic'')\<rparr>)" for V' :: "('w, 'k) portal_env"
    by (rule populate_known) simp
  then show ?thesis using run by simp
qed

theorem outage_caches_basic_plan_witness:
  "\<exists>t. populate_org_plan ((demo_portal 200 [])\<lparr>pe_net := \<lambda>q w. (Inl (Transport ''down''), 1, ())\<rparr>) (JStr ''1'')
      (demo_visit []) = (Inr (), t) \<and> session t = [(''org_plan'', JStr ''basic'')]"
proof -
  have new: "dict_get (session (demo_visit [])) ''org_plan'' = None" by (simp add: demo_visit_def)
  show ?thesis
    using outage_caches_basic_plan [of "(demo_portal 200 [])\<lparr>pe_net := \<lambda>q w. (Inl (Transport ''down''), 1, ())\<rparr>" "''1''",
        OF _ _ new] by (auto simp: demo_visit_def)
qed

subsection \<open>Translations add no markup\<close>

lemma markup_escape_safe [simp]: "markup (markup_escape s) = []"
  by (induction s) (auto simp: markup_escape_def)

lemma filled_in_markup:
  assumes "template_ok False t"
  shows "markup (fill_in F kwargs t) = markup t"
proof -
  have "markup out = markup t" if "py_format F (map (\<lambda>(k, v). (k, markup_escape v)) kwargs) t = Inr out" for out
    by (rule py_format_markup [OF _ assms that]) auto
  then show ?thesis by (simp add: fill_in_def split: sum.split)
qed

end
