(* ===== verification/Portal_Plans.thy ===== *)
theory Portal_Plans
  imports Portal_Ops Portal_Access
begin

text \<open>
  Plans bought: the sign-up of an organization (\<open>webapp/blueprints/signup.py\<close>) and the upgrade
  of its plan (\<open>webapp/blueprints/subscription.py\<close>), with the handle made from the
  organization's name (\<open>slugify\<close> in \<open>webapp/utils/helpers.py\<close>). A submitted form is the list
  of its fields. What is provisioned at WSO2 IS is provisioned for one organization.
\<close>

subsection \<open>Handles\<close>

text \<open>A word character of Python's regular expressions, in Latin-1.\<close>

definition word_char :: "char \<Rightarrow> bool" where
  "word_char c \<longleftrightarrow> (let n = ord c in
     (48 \<le> n \<and> n \<le> 57) \<or> (65 \<le> n \<and> n \<le> 90) \<or> n = 95 \<or> (97 \<le> n \<and> n \<le> 122) \<or>
     n \<in> {170, 178, 179, 181, 185, 186, 188, 189, 190} \<or> (192 \<le> n \<and> n \<noteq> 215 \<and> n \<noteq> 247))"

text \<open>\<open>re.sub(r"[P]+", c, s)\<close>: every run of characters of \<open>P\<close> becomes one \<open>c\<close>.\<close>

lemma length_dropWhile_Suc [termination_simp]: "length (dropWhile P xs) < Suc (length xs)"
  by (simp add: length_dropWhile_le less_Suc_eq_le)

fun squash :: "(char \<Rightarrow> bool) \<Rightarrow> char \<Rightarrow> string \<Rightarrow> string" where
  "squash P c [] = []"
| "squash P c (x # xs) = (if P x then c # squash P c (dropWhile P xs) else x # squash P c xs)"

definition strip_char :: "char \<Rightarrow> string \<Rightarrow> string" where
  "strip_char c s = rstrip_char c (lstrip_char c s)"

definition hyphen :: char where "hyphen = CHR ''-''"

definition slugify :: "string \<Rightarrow> string" where
  "slugify s =
     (let kept = filter (\<lambda>c. word_char c \<or> is_space c \<or> c = hyphen) (strip (lower s));
          dashed = squash (\<lambda>c. is_space c \<or> c = CHR ''_'') hyphen kept
      in strip_char hyphen (squash (\<lambda>c. c = hyphen) hyphen dashed))"

text \<open>What a handle looks like: lower-case word characters in groups joined by single hyphens.\<close>

definition slug_char :: "char \<Rightarrow> bool" where
  "slug_char c \<longleftrightarrow> word_char c \<and> c \<noteq> CHR ''_'' \<and> lower_char c = c"

definition is_slug :: "string \<Rightarrow> bool" where
  "is_slug s \<longleftrightarrow> (\<forall>c \<in> set s. slug_char c \<or> c = hyphen) \<and> \<not> contains s [hyphen, hyphen] \<and>
     (s \<noteq> [] \<longrightarrow> hd s \<noteq> hyphen \<and> last s \<noteq> hyphen)"

subsection \<open>The sign-up form\<close>

type_synonym form = "(string \<times> string) list"

definition field_text :: "form \<Rightarrow> string \<Rightarrow> string \<Rightarrow> string" where
  "field_text form k dflt = (case map_of form k of None \<Rightarrow> dflt | Some v \<Rightarrow> if v = [] then dflt else v)"

definition invalid_field :: "string \<Rightarrow> string \<Rightarrow> (('w, 'z) portal_state_scheme, portal_answer option) prog" where
  "invalid_field field message =
     andthen (flash (JObj [(''type'', JStr ''error''), (''message'', JStr (field @ '': '' @ message))]) ''message'')
       (\<lambda>_. ret (Some (Redirected ''signup.signup_form'' [])))"

definition control_char :: "char \<Rightarrow> bool" where
  "control_char c \<longleftrightarrow> (let n = ord c in n \<le> 8 \<or> n = 11 \<or> n = 12 \<or> (14 \<le> n \<and> n \<le> 31))"

definition forbidden_char :: "char \<Rightarrow> bool" where
  "forbidden_char c \<longleftrightarrow> c \<in> {CHR ''<'', CHR ''>'', CHR 0x26, CHR 0x00}"

definition mail_char :: "char \<Rightarrow> bool" where
  "mail_char c \<longleftrightarrow> c \<noteq> CHR ''@'' \<and> \<not> is_space c \<and> 31 < ord c"

definition domain_ok :: "string \<Rightarrow> bool" where
  "domain_ok d \<longleftrightarrow> list_all mail_char d \<and>
     list_ex (\<lambda>i. d ! i = CHR ''.'') [1..<length d - 1]"

definition mail_ok :: "string \<Rightarrow> bool" where
  "mail_ok v =
     (case partition_char (CHR ''@'') v of (local_part, found, domain) \<Rightarrow>
        found \<and> local_part \<noteq> [] \<and> list_all mail_char local_part \<and> domain_ok domain)"

text \<open>\<open>_EMAIL_RE.match(value)\<close>: \<open>$\<close> also matches before a final newline.\<close>

definition EMAIL_RE :: "string \<Rightarrow> bool" where
  "EMAIL_RE v \<longleftrightarrow> mail_ok v \<or> (v \<noteq> [] \<and> last v = CHR 0x0A \<and> mail_ok (butlast v))"

definition check_org_name :: "string \<Rightarrow> (('w, 'z) portal_state_scheme, portal_answer option) prog" where
  "check_org_name v =
     (if v = [] then invalid_field ''Organization name'' ''is required''
      else if 100 < length v then invalid_field ''Organization name'' ''must be at most 100 characters''
      else if list_ex forbidden_char v \<or> list_ex control_char v
        then invalid_field ''Organization name'' ''contains forbidden characters''
      else ret None)"

definition check_org_handle :: "string \<Rightarrow> (('w, 'z) portal_state_scheme, portal_answer option) prog" where
  "check_org_handle v =
     (if v \<noteq> [] \<and> list_ex forbidden_char v then invalid_field ''Organization handle'' ''contains forbidden characters''
      else ret None)"

definition check_admin_email :: "string \<Rightarrow> (('w, 'z) portal_state_scheme, portal_answer option) prog" where
  "check_admin_email v =
     (if v = [] \<or> CHR ''@'' \<notin> set v \<or> list_ex control_char v then invalid_field ''Email'' ''must be a valid address''
      else if \<not> EMAIL_RE v then invalid_field ''Email'' ''must be a valid address''
      else ret None)"

definition check_admin_password :: "string \<Rightarrow> (('w, 'z) portal_state_scheme, portal_answer option) prog" where
  "check_admin_password v =
     (if v = [] \<or> 128 < length v then invalid_field ''Password'' ''is required and must be reasonable length''
      else ret None)"

definition check_name_field :: "string \<Rightarrow> string \<Rightarrow> (('w, 'z) portal_state_scheme, portal_answer option) prog" where
  "check_name_field label v =
     (if 100 < length v \<or> list_ex control_char v then invalid_field label ''must be at most 100 characters''
      else ret None)"

record signup_fields =
  sf_org_name :: string
  sf_org_handle :: string
  sf_admin_email :: string
  sf_admin_password :: string
  sf_first_name :: string
  sf_last_name :: string
  sf_plan :: string

definition signup_fields_of :: "form \<Rightarrow> signup_fields" where
  "signup_fields_of form =
     (let org_name = strip (field_text form ''org_name'' ''''); org_handle = strip (field_text form ''org_handle'' '''')
      in \<lparr>sf_org_name = org_name, sf_org_handle = (if org_handle \<noteq> [] then org_handle else slugify org_name),
          sf_admin_email = strip (field_text form ''email'' ''''),
          sf_admin_password = field_text form ''password'' '''',
          sf_first_name = strip (field_text form ''first_name'' ''''),
          sf_last_name = strip (field_text form ''last_name'' ''''),
          sf_plan = strip (field_text form ''plan'' ''basic'')\<rparr>)"

text \<open>The tuple of checks is built before it is looped over: every check runs, the first failure answers.\<close>

fun first_failure ::
  "(('w, 'z) portal_state_scheme, portal_answer option) prog list
     \<Rightarrow> (('w, 'z) portal_state_scheme, portal_answer option) prog" where
  "first_failure [] = ret None"
| "first_failure (c # cs) =
     andthen c (\<lambda>a. andthen (first_failure cs) (\<lambda>b. ret (case a of None \<Rightarrow> b | Some _ \<Rightarrow> a)))"

definition signup_checks ::
  "form \<Rightarrow> (('w, 'z) portal_state_scheme, portal_answer option) prog list" where
  "signup_checks form =
     (let f = signup_fields_of form in
      [check_org_name (sf_org_name f), check_org_handle (strip (field_text form ''org_handle'' '''')),
       check_admin_email (sf_admin_email f), check_admin_password (sf_admin_password f),
       check_name_field ''First name'' (sf_first_name f), check_name_field ''Last name'' (sf_last_name f)])"

definition validate_signup_form ::
  "form \<Rightarrow> (('w, 'z) portal_state_scheme, portal_answer + signup_fields) prog" where
  "validate_signup_form form =
     andthen (first_failure (signup_checks form)) (\<lambda>failed.
       ret (case failed of Some a \<Rightarrow> Inl a | None \<Rightarrow> Inr (signup_fields_of form)))"

subsection \<open>Signing up\<close>

definition flash_calls ::
  "string \<Rightarrow> string \<Rightarrow> json list \<Rightarrow> (('w, 'z) portal_state_scheme, unit) prog" where
  "flash_calls kind message debug_list =
     flash (JObj [(''type'', JStr kind), (''message'', JStr message), (''api_debug_list'', JList debug_list)]) ''message''"

definition flash_call :: "string \<Rightarrow> string \<Rightarrow> json \<Rightarrow> (('w, 'z) portal_state_scheme, unit) prog" where
  "flash_call kind message debug =
     flash (JObj [(''type'', JStr kind), (''message'', JStr message), (''api_debug'', debug)]) ''message''"

text \<open>\<open>flash(...)\<close> and \<open>return redirect(url_for(...))\<close>.\<close>

definition flash_to :: "(('w, 'z) portal_state_scheme, unit) prog \<Rightarrow> string \<Rightarrow> (string \<times> string) list \<Rightarrow> ('w, 'z) route" where
  "flash_to m endpoint args = andthen m (\<lambda>_. ret (Redirected endpoint args))"

definition org_request :: "signup_fields \<Rightarrow> json" where
  "org_request f =
     JObj [(''name'', JStr (sf_org_name f)), (''type'', JStr ''TENANT''), (''orgHandle'', JStr (sf_org_handle f))]"

definition admin_user_request :: "signup_fields \<Rightarrow> json" where
  "admin_user_request f =
     JObj [(''schemas'', JList []), (''userName'', JStr (sf_admin_email f)), (''password'', JStr (sf_admin_password f)),
       (''name'', JObj [(''givenName'', JStr (sf_first_name f)), (''familyName'', JStr (sf_last_name f))]),
       (''emails'', JList [JObj [(''value'', JStr (sf_admin_email f)), (''primary'', JBool True)]])]"

definition plan_extra_roles :: "string \<Rightarrow> string list" where
  "plan_extra_roles plan = (case map_of PLAN_ROLES plan of None \<Rightarrow> [] | Some rs \<Rightarrow> rs)"

text \<open>\<open>url_for\<close> leaves a value that is None out.\<close>

definition url_arg :: "(real \<Rightarrow> string) \<Rightarrow> string \<Rightarrow> json \<Rightarrow> (string \<times> string) list" where
  "url_arg fr k v = (if v = JNull then [] else [(k, py_str fr v)])"

definition finish_signup ::
  "('w, 'k) portal_env \<Rightarrow> signup_fields \<Rightarrow> json \<Rightarrow> json \<Rightarrow> string \<Rightarrow> json list \<Rightarrow> ('w, 'z) route" where
  "finish_signup V f org_id org_handle token debug_list =
     andthen (save_organization_plan V org_id (sf_plan f) token) (\<lambda>saved.
       if ar_status saved \<notin> {200, 201} then
         flash_to (flash_calls ''warning''
            (''Organization '' @ [CHR 0x27] @ sf_org_name f @ [CHR 0x27] @ '' was created, but saving the '' @ sf_plan f @
             '' plan failed ('' @ str_int (ar_status saved) @ ''). It starts on the basic plan; an admin can '' @
             ''upgrade it from the Subscription page.'') debug_list)
           ''main.landing'' (url_arg (pe_fr V) ''org_handle'' org_handle)
       else
         flash_to (flash_calls ''success''
            (''Organization '' @ [CHR 0x27] @ sf_org_name f @ [CHR 0x27] @ '' created! You can now sign in.'') debug_list)
           ''main.landing'' (url_arg (pe_fr V) ''org_handle'' org_handle))"

definition create_org_admin ::
  "('w, 'k) portal_env \<Rightarrow> signup_fields \<Rightarrow> json \<Rightarrow> json \<Rightarrow> string \<Rightarrow> json list \<Rightarrow> ('w, 'z) route" where
  "create_org_admin V f org_id org_handle token debug_list =
     (let tenant = po_tenant_path (pe_cfg V) in
      andthen (is_call V ''POST'' (tenant @ ''/o/scim2/Users'') token [] (Some (admin_user_request f))) (\<lambda>user_result.
        if ir_status user_result \<notin> {200, 201} then
          flash_to (flash_calls ''error'' (''Failed to create admin user: '' @ py_str (pe_fr V) (ir_data user_result))
            (debug_list @ [ir_debug user_result])) ''signup.signup_form'' []
        else
          andthen (lift_res (as_obj (ir_data user_result))) (\<lambda>user.
          andthen (assign_roles_to_user V token tenant (get_or user ''id'' (JStr ''''))
             ([TEAMSPACE_ADMIN, TEAMSPACE_USER] @ plan_extra_roles (sf_plan f))
             (debug_list @ [ir_debug user_result]) True) (\<lambda>debug_list'.
             finish_signup V f org_id org_handle token debug_list'))))"

definition provision_org ::
  "('w, 'k) portal_env \<Rightarrow> signup_fields \<Rightarrow> string \<Rightarrow> json \<Rightarrow> json \<Rightarrow> json list \<Rightarrow> ('w, 'z) route" where
  "provision_org V f root_token org_id org_handle debug_list =
     andthen (share_roles_with_org V root_token (po_tenant_path (pe_cfg V)) (py_str (pe_fr V) org_id)
        (plan_extra_roles (sf_plan f)) debug_list) (\<lambda>debug_list'.
     andthen (switch_org_token V (py_str (pe_fr V) org_id) root_token) (\<lambda>token.
       if token = [] then
         flash_to (flash (JStr ''Failed to switch to new organization context.'') ''error'') ''signup.signup_form'' []
       else create_org_admin V f org_id org_handle token debug_list'))"

text \<open>The identifier and the handle of the answer to the creation of an organization.\<close>

definition created_org :: "json \<Rightarrow> exn + (json \<times> json)" where
  "created_org data =
     bind_res (item data ''id'') (\<lambda>i. bind_res (as_obj data) (\<lambda>d. Inr (i, get_or d ''orgHandle'' i)))"

definition sign_up :: "('w, 'k) portal_env \<Rightarrow> signup_fields \<Rightarrow> ('w, 'z) route" where
  "sign_up V f =
     andthen (get_client_credentials_token V) (\<lambda>root_token.
       if root_token = [] then
         flash_to (flash (JStr ''Failed to authenticate with Identity Server.'') ''error'') ''signup.signup_form'' []
       else
         andthen (is_call V ''POST'' (po_tenant_path (pe_cfg V) @ ''/api/server/v1/organizations'') root_token []
            (Some (org_request f))) (\<lambda>result.
           if ir_status result \<notin> {200, 201} then
             flash_to (flash_call ''error'' (''Failed to create organization: '' @ py_str (pe_fr V) (ir_data result))
               (ir_debug result)) ''signup.signup_form'' []
           else
             andthen (lift_res (created_org (ir_data result))) (\<lambda>(org_id, org_handle).
               provision_org V f root_token org_id org_handle [ir_debug result])))"

definition register :: "('w, 'k) portal_env \<Rightarrow> form \<Rightarrow> ('w, 'z) route" where
  "register V form =
     andthen (validate_signup_form form) (\<lambda>v. case v of Inl answer \<Rightarrow> ret answer | Inr f \<Rightarrow> sign_up V f)"

definition signup_form :: "('w, 'z) route" where
  "signup_form = ret (Rendered ''signup.html'' [])"

subsection \<open>Upgrading\<close>

definition plan_json :: "plan \<Rightarrow> json" where
  "plan_json p =
     JObj [(''id'', JStr (plan_id p)), (''name'', JStr (plan_name p)), (''price'', JStr (plan_price p)),
       (''features'', JList (map JStr (plan_features p))), (''roles_shared'', JList (map JStr (plan_roles_shared p))),
       (''upgrade_roles'', JList (map JStr (plan_upgrade_roles p)))]"

definition plans_page :: "('w, 'k) portal_env \<Rightarrow> string \<Rightarrow> ('w, 'z) route" where
  "plans_page V org_handle =
     login_required org_handle
       (andthen (user_field ''org_id'') (\<lambda>org_id.
        andthen (get_organization_plan V (py_str (pe_fr V) org_id)) (\<lambda>plan_info.
        andthen (lift_res (as_obj plan_info)) (\<lambda>d.
          ret (Rendered ''subscription/plans.html''
            [(''org_handle'', JStr org_handle), (''plans'', JList (map plan_json PLANS)),
             (''current_plan'', get_or d ''plan'' (JStr ''basic''))])))))"

definition to_plans :: "string \<Rightarrow> (('w, 'z) portal_state_scheme, unit) prog \<Rightarrow> ('w, 'z) route" where
  "to_plans org_handle m = flash_to m ''subscription.plans'' [(''org_handle'', org_handle)]"

text \<open>Saving the plan, and what the user is told. Only a saved plan is shown as the current one.\<close>

definition save_upgrade ::
  "('w, 'k) portal_env \<Rightarrow> string \<Rightarrow> plan \<Rightarrow> json \<Rightarrow> string \<Rightarrow> json list \<Rightarrow> ('w, 'z) route" where
  "save_upgrade V org_handle p org_id token debug_list =
     andthen (save_organization_plan V org_id (plan_id p) token) (\<lambda>saved.
       if ar_status saved \<notin> {200, 201} then
         to_plans org_handle (flash_calls ''error''
           (''Roles for the '' @ plan_name p @ '' plan were granted, but saving the plan failed ('' @
            str_int (ar_status saved) @ ''). Your organization is still on its previous plan '' @ [CHR 0x97] @
            '' please retry.'') debug_list)
       else
         andthen (session_set ''org_plan'' (JStr (plan_id p))) (\<lambda>_.
           to_plans org_handle (flash_calls ''success''
             (''Upgraded to '' @ plan_name p @ '' plan! Please log out and back in to see new features.'') debug_list)))"

definition apply_plan ::
  "('w, 'k) portal_env \<Rightarrow> string \<Rightarrow> plan \<Rightarrow> string \<Rightarrow> json \<Rightarrow> json \<Rightarrow> ('w, 'z) route" where
  "apply_plan V org_handle p root_token org_id user_id =
     (let tenant = po_tenant_path (pe_cfg V); org = py_str (pe_fr V) org_id in
      andthen (share_roles_with_org V root_token tenant org (plan_upgrade_roles p) []) (\<lambda>debug_list.
      andthen (switch_org_token V org root_token) (\<lambda>token.
        if token = [] then
          to_plans org_handle (flash (JStr ''Failed to update organization plan. Please try again.'') ''error'')
        else
          andthen (if plan_upgrade_roles p \<noteq> [] \<and> truthy user_id
             then assign_roles_to_user V token tenant user_id (plan_upgrade_roles p) debug_list True
             else ret debug_list) (\<lambda>debug_list'.
            save_upgrade V org_handle p org_id token debug_list'))))"

definition find_plan :: "string option \<Rightarrow> plan option" where
  "find_plan target = find (\<lambda>p. Some (plan_id p) = target) PLANS"

definition do_upgrade :: "('w, 'k) portal_env \<Rightarrow> string \<Rightarrow> string option \<Rightarrow> ('w, 'z) route" where
  "do_upgrade V org_handle target =
     (case find_plan target of
        None \<Rightarrow> to_plans org_handle (flash (JStr ''Invalid plan.'') ''error'')
      | Some p \<Rightarrow>
          andthen (get_client_credentials_token V) (\<lambda>root_token.
            if root_token = [] then
              to_plans org_handle (flash (JStr ''Failed to authenticate with Identity Server.'') ''error'')
            else
              andthen (user_field ''org_id'') (\<lambda>org_id.
              andthen (user_field ''sub'') (\<lambda>user_id.
                apply_plan V org_handle p root_token org_id user_id))))"

definition upgrade :: "('w, 'k) portal_env \<Rightarrow> string \<Rightarrow> string option \<Rightarrow> ('w, 'z) route" where
  "upgrade V org_handle target = login_required org_handle (admin_required (do_upgrade V org_handle target))"

subsection \<open>Handles are canonical\<close>

lemma word_char_not_space: "word_char c \<Longrightarrow> \<not> is_space c"
  unfolding word_char_def is_space_def Let_def by fastforce

lemma ord_hyphen: "ord hyphen = 45"
  by (simp add: hyphen_def)

lemma hyphen_facts [simp]: "\<not> is_space hyphen" "lower_char hyphen = hyphen" "hyphen \<noteq> CHR ''_''" "CHR ''_'' \<noteq> hyphen"
  by (simp_all add: hyphen_def is_space_def lower_char_def)

lemma lower_char_idem [simp]: "lower_char (lower_char c) = lower_char c"
proof -
  have ord: "ord (chr (ord c + 32)) = ord c + 32" if "ord c \<le> 222" using that by (intro ord_chr) simp
  show ?thesis
    by (auto simp: lower_char_def Let_def ord)
qed

lemma set_squash: "set (squash P c xs) \<subseteq> insert c {x \<in> set xs. \<not> P x}"
proof (induction P c xs rule: squash.induct)
  case (2 P c x xs)
  then show ?case using set_dropWhileD [of _ P xs] by (cases "P x") auto
qed simp

lemma squash_id: "list_all (\<lambda>x. \<not> P x) xs \<Longrightarrow> squash P c xs = xs"
  by (induction xs) auto

lemma hd_squash: "xs = [] \<or> \<not> P (hd xs) \<Longrightarrow> squash P c xs = [] \<or> \<not> P (hd (squash P c xs))"
  by (cases xs) auto

lemma squash_no_double: "\<not> contains (squash (\<lambda>c. c = hyphen) hyphen xs) [hyphen, hyphen]"
proof (induction xs rule: length_induct)
  case (1 xs)
  show ?case
  proof (cases xs)
    case (Cons x ys)
    let ?S = "squash (\<lambda>c. c = hyphen) hyphen"
    let ?zs = "dropWhile (\<lambda>c. c = hyphen) ys"
    have step: "\<not> contains (a # u) [hyphen, hyphen]"
      if "\<not> contains u [hyphen, hyphen]" "a \<noteq> hyphen \<or> u = [] \<or> hd u \<noteq> hyphen" for a u
      using that by (cases u) (auto simp: contains_iff_sublist sublist_Cons_right)
    show ?thesis
    proof (cases "x = hyphen")
      case True
      have "length ?zs < length xs" using Cons length_dropWhile_Suc [of _ ys] by simp
      moreover have "?zs = [] \<or> hd ?zs \<noteq> hyphen" using hd_dropWhile [of "\<lambda>c. c = hyphen" ys] by auto
      ultimately show ?thesis using 1 True Cons step [of "?S ?zs" hyphen]
          hd_squash [of ?zs "\<lambda>c. c = hyphen" hyphen] by auto
    next
      case False
      then show ?thesis using 1 Cons step [of "?S ys" x] by auto
    qed
  qed (simp add: contains_iff_sublist)
qed

lemma squash_single:
  "\<not> contains xs [hyphen, hyphen] \<Longrightarrow> squash (\<lambda>c. c = hyphen) hyphen xs = xs"
proof (induction xs)
  case (Cons x xs)
  have rest: "\<not> contains xs [hyphen, hyphen]"
    using Cons.prems by (auto simp: contains_iff_sublist sublist_Cons_right)
  have "dropWhile (\<lambda>c. c = hyphen) xs = xs" if "x = hyphen"
    using Cons.prems that by (cases xs) (auto simp: contains_iff_sublist sublist_Cons_right)
  then show ?case using Cons.IH rest by auto
qed simp

lemma sublist_strip_char: "sublist (strip_char c s) s"
proof -
  have "prefix (rstrip_char c u) u" for u
    unfolding rstrip_char_def by (metis rev_rev_ident suffix_dropWhile suffix_to_prefix)
  moreover have "suffix (lstrip_char c s) s" by (simp add: lstrip_char_def suffix_dropWhile)
  ultimately show ?thesis
    unfolding strip_char_def by (meson prefix_imp_sublist suffix_imp_sublist sublist_order.order_trans)
qed

lemma strip_char_ends: "strip_char c s \<noteq> [] \<Longrightarrow> hd (strip_char c s) \<noteq> c \<and> last (strip_char c s) \<noteq> c"
proof -
  assume ne: "strip_char c s \<noteq> []"
  let ?u = "lstrip_char c s"
  have pre: "prefix (strip_char c s) ?u"
    unfolding strip_char_def rstrip_char_def by (metis rev_rev_ident suffix_dropWhile suffix_to_prefix)
  then have "hd (strip_char c s) = hd ?u" using ne by (metis hd_append2 prefix_def)
  moreover have "?u \<noteq> []" using ne pre by auto
  moreover have "last (strip_char c s) = hd (dropWhile (\<lambda>x. x = c) (rev ?u))"
    using ne by (simp add: strip_char_def rstrip_char_def last_rev)
  moreover have "dropWhile (\<lambda>x. x = c) (rev ?u) \<noteq> []"
    using ne by (simp add: strip_char_def rstrip_char_def)
  ultimately show ?thesis
    using hd_dropWhile [of "\<lambda>x. x = c" s] hd_dropWhile [of "\<lambda>x. x = c" "rev ?u"] by (simp add: lstrip_char_def)
qed

lemma strip_char_id: "s = [] \<or> hd s \<noteq> c \<and> last s \<noteq> c \<Longrightarrow> strip_char c s = s"
  by (auto simp: strip_char_def lstrip_char_def rstrip_char_def dropWhile_hd_not hd_rev)

lemma slugify_is_slug: "is_slug (slugify s)"
proof -
  let ?low = "strip (lower s)"
  let ?kept = "filter (\<lambda>c. word_char c \<or> is_space c \<or> c = hyphen) ?low"
  let ?dashed = "squash (\<lambda>c. is_space c \<or> c = CHR ''_'') hyphen ?kept"
  let ?one = "squash (\<lambda>c. c = hyphen) hyphen ?dashed"
  have low: "lower_char c = c" if "c \<in> set ?low" for c
    using set_strip [of "lower s"] that by (auto simp: lower_def)
  have dashed: "slug_char c \<or> c = hyphen" if "c \<in> set ?dashed" for c
    using set_squash [of "\<lambda>c. is_space c \<or> c = CHR ''_''" hyphen ?kept] that low
    by (auto simp: slug_char_def)
  have one: "slug_char c \<or> c = hyphen" if "c \<in> set ?one" for c
    using set_squash [of "\<lambda>c. c = hyphen" hyphen ?dashed] that dashed by auto
  have eq: "slugify s = strip_char hyphen ?one" by (simp add: slugify_def Let_def)
  have sub: "sublist (slugify s) ?one" unfolding eq by (rule sublist_strip_char)
  have "\<forall>c \<in> set (slugify s). slug_char c \<or> c = hyphen" using set_mono_sublist [OF sub] one by auto
  moreover have "\<not> contains (slugify s) [hyphen, hyphen]"
    using squash_no_double sub unfolding contains_iff_sublist by (meson sublist_order.order_trans)
  moreover have "slugify s \<noteq> [] \<longrightarrow> hd (slugify s) \<noteq> hyphen \<and> last (slugify s) \<noteq> hyphen"
    unfolding eq using strip_char_ends by blast
  ultimately show ?thesis by (simp add: is_slug_def)
qed

lemma slugify_keeps_slugs:
  assumes slug: "is_slug s"
  shows "slugify s = s"
proof -
  have cs: "slug_char c \<or> c = hyphen" if "c \<in> set s" for c using slug that by (auto simp: is_slug_def)
  have facts: "lower_char c = c" "\<not> is_space c" "word_char c \<or> c = hyphen" "c \<noteq> CHR ''_''" if "c \<in> set s" for c
    using cs [OF that] by (auto simp: slug_char_def word_char_not_space)
  have "lower s = s" unfolding lower_def using facts(1) by (simp add: map_idI)
  moreover have "strip s = s" using facts(2) by (simp add: strip_no_space)
  moreover have "filter (\<lambda>c. word_char c \<or> is_space c \<or> c = hyphen) s = s" using facts(3) by (auto simp: filter_id_conv)
  moreover have "squash (\<lambda>c. is_space c \<or> c = CHR ''_'') hyphen s = s"
    using facts(2, 4) by (intro squash_id) (auto simp: list_all_iff)
  ultimately show ?thesis
    using slug squash_single [of s] strip_char_id [of s hyphen] by (auto simp: slugify_def is_slug_def)
qed

text \<open>
  The handle made from an organization's name is canonical: lower-case word characters in groups
  joined by single hyphens, none at either end; a canonical handle is kept as it is, so making a handle
  of a handle changes nothing.
\<close>

theorem handles_are_canonical: "is_slug (slugify s) \<and> slugify (slugify s) = slugify s"
  using slugify_is_slug slugify_keeps_slugs by blast

subsection \<open>What an upgrade may ask for\<close>

text \<open>
  Everything an upgrade of the organization \<open>org_id\<close> to the plan \<open>p\<close> by the user \<open>user_id\<close> may
  send: the portal's own token, the roles of the plan shared with that organization, the token of
  that organization, the roles of the plan given to that user, and the plan saved for that organization.
\<close>

definition upgrade_request ::
  "('w, 'k) portal_env \<Rightarrow> json \<Rightarrow> json \<Rightarrow> plan \<Rightarrow> request \<Rightarrow> bool" where
  "upgrade_request V org_id user_id p q \<longleftrightarrow>
     (let tenant = po_tenant_path (pe_cfg V); org = py_str (pe_fr V) org_id in
      (\<exists>scope. q = portal_token_request V ''client_credentials'' scope []) \<or>
      (\<exists>token. q = is_request V ''PATCH'' (tenant @ ''/api/server/v1/applications/share'') token []
          (Some (share_body V org (plan_upgrade_roles p)))) \<or>
      (\<exists>scope token. q = portal_token_request V ''organization_switch'' scope
          [(''token'', token), (''switching_organization'', org)]) \<or>
      role_request V tenant user_id (plan_upgrade_roles p) True q \<or>
      (\<exists>token. q = proxy_request V ''POST'' ''/plans'' token []
          (JsonBody (JObj [(''org'', org_id), (''plan'', JStr (plan_id p))]))))"

text \<open>The user of the session.\<close>

abbreviation signed_in :: "dict \<Rightarrow> ('w, 'z) portal_state_scheme \<Rightarrow> bool" where
  "signed_in u \<equiv> \<lambda>s. dict_get (session s) ''user'' = Some (JObj u)"

lemma user_field_signed_in: "signed_in u s \<Longrightarrow> user_field f s = (Inr (get_or u f (JStr [])), s)"
  by (simp add: user_field_def session_get_def get_or_def andthen_def)

lemma guards_user_field:
  "guards (signed_in u) A (g (get_or u f (JStr []))) \<Longrightarrow> guards (signed_in u) A (andthen (user_field f) g)"
  by (auto simp: guards_def andthen_def user_field_signed_in)

lemma guards_keeps_session:
  "sends A m \<Longrightarrow> keeps session m \<Longrightarrow> guards (signed_in u) A m"
  by (intro guardsI keeps_stable)

lemma flash_guards [simp, intro]:
  "guards (signed_in u) A (flash m c)" "guards (signed_in u) A (flash_calls k msg l)"
  "guards (signed_in u) A (to_plans oh (flash m c))" "guards (signed_in u) A (to_plans oh (flash_calls k msg l))"
proof -
  show f: "guards (signed_in u) A (flash m c)" for m c by (simp add: guards_def flash_def exI [of _ "[]"])
  show g: "guards (signed_in u) A (flash_calls k msg l)" for k msg l unfolding flash_calls_def by (rule f)
  show "guards (signed_in u) A (to_plans oh (flash m c))" "guards (signed_in u) A (to_plans oh (flash_calls k msg l))"
    unfolding to_plans_def flash_to_def by (intro guards_andthen f g guards_basic)+
qed

lemma set_plan_guards: "k \<noteq> ''user'' \<Longrightarrow> guards (signed_in u) A (session_set k v)"
  by (simp add: guards_def session_set_def exI [of _ "[]"])

lemma apply_plan_guards:
  fixes V :: "('w, 'k) portal_env"
  assumes A: "\<And>q. upgrade_request V org_id user_id p q \<Longrightarrow> q \<in> A"
  shows "guards (signed_in u) A (apply_plan V oh p root_token org_id user_id :: ('w, 'z) route)"
proof -
  let ?tenant = "po_tenant_path (pe_cfg V)" and ?org = "py_str (pe_fr V) org_id"
  have share: "guards (signed_in u) A (share_roles_with_org V root_token ?tenant ?org (plan_upgrade_roles p) debug
      :: (('w, 'z) portal_state_scheme, json list) prog)" for debug
    by (rule guards_keeps_session [OF share_roles_sends [OF A] roles_keep_session(2)])
      (auto simp: upgrade_request_def Let_def)
  have switch: "guards (signed_in u) A (switch_org_token V ?org root_token :: (('w, 'z) portal_state_scheme, string) prog)"
    unfolding switch_org_token_def
    by (rule guards_keeps_session [OF request_token_sends [OF A] request_token_keeps_session])
      (simp only: upgrade_request_def Let_def, blast)
  have assign: "guards (signed_in u) A (assign_roles_to_user V token ?tenant user_id (plan_upgrade_roles p) debug True
      :: (('w, 'z) portal_state_scheme, json list) prog)" for token debug
    by (rule guards_keeps_session [OF assign_roles_sends [OF A] roles_keep_session(1)])
      (simp only: upgrade_request_def Let_def, blast)
  have save: "guards (signed_in u) A (save_organization_plan V org_id (plan_id p) token
      :: (('w, 'z) portal_state_scheme, api_result) prog)" for token
    unfolding save_organization_plan_def
    by (rule guards_keeps_session [OF proxy_result_sends [OF A] proxy_keeps_session(2)])
      (simp only: upgrade_request_def Let_def, blast)
  have key: "''org_plan'' \<noteq> ''user''" by simp
  have saved: "guards (signed_in u) A (save_upgrade V oh p org_id token debug :: ('w, 'z) route)" for token debug
    unfolding save_upgrade_def
    by (intro guards_andthen guards_if save set_plan_guards [OF key] flash_guards)
  show ?thesis
    unfolding apply_plan_def Let_def
    by (intro guards_andthen guards_if share switch assign saved flash_guards guards_basic)
qed

lemma do_upgrade_guards:
  fixes V :: "('w, 'k) portal_env"
  assumes A: "\<And>q p. find_plan target = Some p \<Longrightarrow>
      upgrade_request V (get_or u ''org_id'' (JStr [])) (get_or u ''sub'' (JStr [])) p q \<Longrightarrow> q \<in> A"
  shows "guards (signed_in u) A (do_upgrade V oh target :: ('w, 'z) route)"
proof (cases "find_plan target")
  case None
  then show ?thesis by (simp add: do_upgrade_def flash_guards)
next
  case (Some p)
  have token: "guards (signed_in u) A (get_client_credentials_token V :: (('w, 'z) portal_state_scheme, string) prog)"
    unfolding get_client_credentials_token_def
    by (rule guards_keeps_session [OF request_token_sends [OF A [OF Some]] request_token_keeps_session])
      (simp only: upgrade_request_def Let_def, blast)
  show ?thesis
    unfolding do_upgrade_def Some option.case
    by (intro guards_andthen guards_if guards_user_field token flash_guards apply_plan_guards A [OF Some])
qed

text \<open>A decorated route either changes nothing or is the route itself.\<close>

lemma login_required_runs:
  assumes "login_required oh f s = (r, t)"
  shows "t = s \<or> (dict_get (session s) ''user'' \<noteq> None \<and> f s = (r, t))"
proof -
  have "snd (same_org oh s) = s" for s :: "('a, 'b) portal_state_scheme"
    by (simp add: same_org_def user_field_def session_get_def andthen_def split: sum.split)
  then show ?thesis
    using assms unfolding login_required_def
    by (auto simp: andthen_def split: prod.splits sum.splits if_splits) (metis snd_conv)+
qed

lemma admin_required_runs:
  "admin_required f s = (r, t) \<Longrightarrow> t = s \<or> (truthy (get_or (session s) ''is_admin'' JNull) \<and> f s = (r, t))"
  by (auto simp: admin_required_def session_get_def split: if_splits)

text \<open>
  C23: An upgrade asks for nothing beyond the upgrade of the signed-in user's own organization: every
  request it sends is one of \<open>upgrade_request\<close> for the organization and the user of the session and
  for the chosen plan. So roles are shared with that organization alone and no other organization's
  plan or roles change; and unless the session is an administrator's, nothing is sent.
\<close>

theorem upgrade_stays_in_own_org:
  fixes V :: "('w, 'k) portal_env" and s t :: "('w, 'z) portal_state_scheme"
  assumes user: "signed_in u s" and run: "upgrade V oh target s = (r, t)"
  shows "\<exists>qs. sent t = sent s @ qs \<and> (\<forall>q \<in> set qs. truthy (get_or (session s) ''is_admin'' JNull) \<and>
    (\<exists>p. find_plan target = Some p \<and>
       upgrade_request V (get_or u ''org_id'' (JStr [])) (get_or u ''sub'' (JStr [])) p q))"
proof -
  let ?A = "{q. \<exists>p. find_plan target = Some p \<and>
       upgrade_request V (get_or u ''org_id'' (JStr [])) (get_or u ''sub'' (JStr [])) p q}"
  consider "t = s"
    | "truthy (get_or (session s) ''is_admin'' JNull)" "do_upgrade V oh target s = (r, t)"
    using login_required_runs [OF run [unfolded upgrade_def]] admin_required_runs by blast
  then show ?thesis
  proof cases
    case 2
    have "guards (signed_in u) ?A (do_upgrade V oh target :: ('w, 'z) route)" by (rule do_upgrade_guards) blast
    from guardsD [of "signed_in u" ?A "do_upgrade V oh target" s r t, OF this user 2(2)]
    obtain qs where "sent t = sent s @ qs" and "set qs \<subseteq> ?A" .
    then show ?thesis using 2(1) by (intro exI [of _ qs] conjI ballI) (auto dest: subsetD)
  qed simp
qed

theorem upgrade_stays_in_own_org_witness:
  "\<exists>r t. upgrade (demo_portal 200 []) [] (Some ''basic'') (demo_visit [(''user'', JObj [])]) = (r, t) \<and>
     (\<forall>q \<in> set (sent t). \<exists>p. find_plan (Some ''basic'') = Some p \<and>
        upgrade_request (demo_portal 200 []) (JStr []) (JStr []) p q)"
proof -
  obtain r t where run: "upgrade (demo_portal 200 []) [] (Some ''basic'') (demo_visit [(''user'', JObj [])]) = (r, t)"
    by (meson surj_pair)
  have user: "signed_in [] (demo_visit [(''user'', JObj [])])" by (simp add: demo_visit_def)
  show ?thesis
    using run upgrade_stays_in_own_org [OF user run] by (auto simp: demo_visit_def get_or_def)
qed

subsection \<open>The plan shown is a plan saved\<close>

lemma andthen_keeps:
  assumes "andthen m g s = (r, t)" and "keeps f m"
  shows "f t = f s \<or> (\<exists>x u. f u = f s \<and> g x u = (r, t))"
  using assms keepsD [OF assms(2), of s] by (auto simp: andthen_def split: prod.splits sum.splits)

lemma flash_keeps_session [simp, intro]:
  "keeps session (flash m c)" "keeps session (flash_calls k msg l)" "keeps session (flash_call k msg d)"
  "keeps session (to_plans oh (flash m c))" "keeps session (to_plans oh (flash_calls k msg l))"
proof -
  show f: "keeps session (flash m c)" for m c by (simp add: flash_def keeps_modify)
  show g: "keeps session (flash_calls k msg l)" for k msg l unfolding flash_calls_def by (rule f)
  show "keeps session (flash_call k msg d)" unfolding flash_call_def by (rule f)
  show "keeps session (to_plans oh (flash m c))" "keeps session (to_plans oh (flash_calls k msg l))"
    unfolding to_plans_def flash_to_def by (intro keeps_andthen f g keeps_basic)+
qed

text \<open>The plan was saved for the organization by an answer of 200 or 201.\<close>

definition plan_saved :: "('w, 'k) portal_env \<Rightarrow> 'z itself \<Rightarrow> json \<Rightarrow> string \<Rightarrow> bool" where
  "plan_saved V ty org_id plan \<longleftrightarrow>
     (\<exists>token s res t. save_organization_plan V org_id plan token (s :: ('w, 'z) portal_state_scheme) = (Inr res, t) \<and>
        ar_status res \<in> {200, 201})"

lemma save_upgrade_session:
  fixes s t :: "('w, 'z) portal_state_scheme"
  assumes run: "save_upgrade V oh p org_id token debug s = (r, t)"
  shows "session t = session s \<or>
    (plan_saved V TYPE('z) org_id (plan_id p) \<and> session t = dict_set (session s) ''org_plan'' (JStr (plan_id p)))"
proof -
  have "keeps session (save_organization_plan V org_id (plan_id p) token)"
    unfolding save_organization_plan_def by simp
  from keepsD [OF this, of s] have kept: "session u = session s"
    if "save_organization_plan V org_id (plan_id p) token s = (x, u)" for x u using that by simp
  show ?thesis
  proof (cases "save_organization_plan V org_id (plan_id p) token s")
    case (Pair x u)
    show ?thesis
    proof (cases x)
      case (Inr res)
      have flashed: "session w = session v" if "to_plans oh (flash_calls k msg l) v = (y, w)" for k msg l y and v w :: "('w, 'z) portal_state_scheme"
        using keepsD [OF flash_keeps_session(5), of oh k msg l v] that by simp
      show ?thesis
      proof (cases "ar_status res \<in> {200, 201}")
        case True
        then have "to_plans oh (flash_calls ''success''
             (''Upgraded to '' @ plan_name p @ '' plan! Please log out and back in to see new features.'') debug)
             (u\<lparr>session := dict_set (session u) ''org_plan'' (JStr (plan_id p))\<rparr>) = (r, t)"
          using run Pair Inr unfolding save_upgrade_def by (auto simp: andthen_def session_set_def)
        from flashed [OF this] show ?thesis
          using True Pair Inr kept [OF Pair] by (auto simp: plan_saved_def)
      next
        case False
        then show ?thesis
          using run Pair Inr kept [OF Pair] unfolding save_upgrade_def by (auto simp: andthen_def dest!: flashed)
      qed
    qed (use run Pair kept [OF Pair] in \<open>auto simp: save_upgrade_def andthen_def\<close>)
  qed
qed

lemma user_field_keeps_session [simp, intro]: "keeps session (user_field f)"
  unfolding user_field_def session_get_def by (intro keeps_andthen keeps_basic)

lemma apply_plan_session:
  fixes s t :: "('w, 'z) portal_state_scheme"
  assumes run: "apply_plan V oh p root_token org_id user_id s = (r, t)"
  shows "session t = session s \<or>
    (plan_saved V TYPE('z) org_id (plan_id p) \<and> session t = dict_set (session s) ''org_plan'' (JStr (plan_id p)))"
proof -
  let ?done = "\<lambda>s :: ('w, 'z) portal_state_scheme. session t = session s \<or>
    (plan_saved V TYPE('z) org_id (plan_id p) \<and> session t = dict_set (session s) ''org_plan'' (JStr (plan_id p)))"
  have step: "?done v" if "andthen m g v = (r, t)" "keeps session m" "\<And>x u. g x u = (r, t) \<Longrightarrow> ?done u"
    for v and m :: "(('w, 'z) portal_state_scheme, 'b) prog" and g
    using andthen_keeps [OF that(1, 2)] that(3) by metis
  have mid: "?done v" if "(if token = [] then
        to_plans oh (flash (JStr ''Failed to update organization plan. Please try again.'') ''error'')
      else andthen (if plan_upgrade_roles p \<noteq> [] \<and> truthy user_id
       then assign_roles_to_user V token (po_tenant_path (pe_cfg V)) user_id (plan_upgrade_roles p) debug True else ret debug)
       (\<lambda>debug'. save_upgrade V oh p org_id token debug')) v = (r, t)" for token debug v
  proof (cases "token = []")
    case True
    then show ?thesis
      using that keepsD [OF flash_keeps_session(4), of oh "JStr ''Failed to update organization plan. Please try again.''" "''error''" v]
      by simp
  next
    case False
    then have "andthen (if plan_upgrade_roles p \<noteq> [] \<and> truthy user_id
       then assign_roles_to_user V token (po_tenant_path (pe_cfg V)) user_id (plan_upgrade_roles p) debug True else ret debug)
       (\<lambda>debug'. save_upgrade V oh p org_id token debug') v = (r, t)" using that by simp
    then show ?thesis
      by (rule step) (intro keeps_if roles_keep_session keeps_basic, erule save_upgrade_session)
  qed
  show ?thesis
    by (rule step [OF run [unfolded apply_plan_def Let_def] roles_keep_session(2)],
        erule step [OF _ own_tokens_keep_session(4)], erule mid)
qed

text \<open>
  The plan that the portal shows changes only to one that was saved: after an upgrade the session
  is as it was, or its plan is the chosen one and the Business API has answered that it saved that
  plan for the organization of the session. A failed save leaves the old plan on the page.
\<close>

theorem plan_shown_was_saved:
  fixes s t :: "('w, 'z) portal_state_scheme"
  assumes user: "signed_in u s" and run: "upgrade V oh target s = (r, t)"
  shows "session t = session s \<or>
    (\<exists>p. find_plan target = Some p \<and> plan_saved V TYPE('z) (get_or u ''org_id'' (JStr [])) (plan_id p) \<and>
       session t = dict_set (session s) ''org_plan'' (JStr (plan_id p)))"
proof -
  consider "t = s" | "do_upgrade V oh target s = (r, t)"
    using login_required_runs [OF run [unfolded upgrade_def]] admin_required_runs by blast
  then show ?thesis
  proof cases
    case 2
    show ?thesis
    proof (cases "find_plan target")
      case None
      then show ?thesis
        using 2 keepsD [OF flash_keeps_session(4), of oh "JStr ''Invalid plan.''" "''error''" s]
        by (simp add: do_upgrade_def)
    next
      case (Some p)
      let ?rest = "\<lambda>root_token. if root_token = [] then
              to_plans oh (flash (JStr ''Failed to authenticate with Identity Server.'') ''error'')
            else
              andthen (user_field ''org_id'') (\<lambda>org_id.
              andthen (user_field ''sub'') (\<lambda>user_id. apply_plan V oh p root_token org_id user_id))"
      have rest: "session t = session v \<or> (plan_saved V TYPE('z) (get_or u ''org_id'' (JStr [])) (plan_id p) \<and>
           session t = dict_set (session v) ''org_plan'' (JStr (plan_id p)))"
        if "?rest token v = (r, t)" and v: "signed_in u v" for token and v :: "('w, 'z) portal_state_scheme"
      proof (cases "token = []")
        case True
        then show ?thesis
          using that keepsD [OF flash_keeps_session(4), of oh "JStr ''Failed to authenticate with Identity Server.''" "''error''" v]
          by simp
      next
        case False
        then have "apply_plan V oh p token (get_or u ''org_id'' (JStr [])) (get_or u ''sub'' (JStr [])) v = (r, t)"
          using that(1) user_field_signed_in [OF v] by (simp add: andthen_def)
        then show ?thesis by (rule apply_plan_session)
      qed
      have "andthen (get_client_credentials_token V) ?rest s = (r, t)" using 2 Some by (simp add: do_upgrade_def)
      from andthen_keeps [OF this own_tokens_keep_session(1)] show ?thesis
        using Some rest user by (metis (no_types, lifting))
    qed
  qed simp
qed

theorem plan_shown_was_saved_witness:
  "\<exists>r t. upgrade (demo_portal 200 []) [] (Some ''basic'') (demo_visit [(''user'', JObj [])]) = (r, t) \<and>
     (session t = session (demo_visit [(''user'', JObj [])]) \<or>
      (\<exists>p. find_plan (Some ''basic'') = Some p \<and> session t = dict_set [(''user'', JObj [])] ''org_plan'' (JStr (plan_id p))))"
proof -
  obtain r t where run: "upgrade (demo_portal 200 []) [] (Some ''basic'') (demo_visit [(''user'', JObj [])]) = (r, t)"
    by (meson surj_pair)
  have user: "signed_in [] (demo_visit [(''user'', JObj [])])" by (simp add: demo_visit_def)
  show ?thesis using run plan_shown_was_saved [OF user run] by (auto simp: demo_visit_def)
qed

subsection \<open>Which sign-ups are accepted\<close>

lemma domain_ok_iff:
  "domain_ok d \<longleftrightarrow> list_all mail_char d \<and> (\<exists>a b. a \<noteq> [] \<and> b \<noteq> [] \<and> d = a @ CHR ''.'' # b)"
proof
  assume ok: "domain_ok d"
  then obtain i where "1 \<le> i" and i: "i < length d - 1" "d ! i = CHR ''.''"
    by (auto simp: domain_ok_def list_ex_iff)
  have "d = take i d @ d ! i # drop (Suc i) d" by (rule id_take_nth_drop) (use i(1) in simp)
  then have "d = take i d @ CHR ''.'' # drop (Suc i) d" by (simp only: i(2))
  moreover have "take i d \<noteq> []" "drop (Suc i) d \<noteq> []" using \<open>1 \<le> i\<close> i(1) by auto
  ultimately show "list_all mail_char d \<and> (\<exists>a b. a \<noteq> [] \<and> b \<noteq> [] \<and> d = a @ CHR ''.'' # b)"
    using ok unfolding domain_ok_def by blast
next
  assume "list_all mail_char d \<and> (\<exists>a b. a \<noteq> [] \<and> b \<noteq> [] \<and> d = a @ CHR ''.'' # b)"
  then obtain a b where all: "list_all mail_char d" and ne: "a \<noteq> []" "b \<noteq> []" and d: "d = a @ CHR ''.'' # b" by blast
  have "length a \<in> set [1..<length d - 1]" 
  proof -
    have "0 < length a" "0 < length b" using ne by simp_all
    then show ?thesis unfolding d set_upt by (simp del: length_greater_0_conv)
  qed
  moreover have "d ! length a = CHR ''.''" unfolding d by simp
  ultimately show "domain_ok d" unfolding domain_ok_def list_ex_iff using all by blast
qed

text \<open>A mail address: a local part, an at sign, and a domain with a dot inside.\<close>

definition mail_address :: "string \<Rightarrow> bool" where
  "mail_address v \<longleftrightarrow> (\<exists>l a b. v = l @ CHR ''@'' # a @ CHR ''.'' # b \<and> l \<noteq> [] \<and> a \<noteq> [] \<and> b \<noteq> [] \<and>
     list_all mail_char l \<and> list_all mail_char a \<and> list_all mail_char b)"

lemma partition_char_found:
  assumes "partition_char c s = (h, True, u)"
  shows "s = h @ c # u"
proof -
  have "c \<in> set s" and hu: "h = takeWhile (\<lambda>x. x \<noteq> c) s" "u = tl (dropWhile (\<lambda>x. x \<noteq> c) s)"
    using assms by (auto simp: partition_char_def)
  have ne: "dropWhile (\<lambda>x. x \<noteq> c) s \<noteq> []" using \<open>c \<in> set s\<close> by auto
  then have "dropWhile (\<lambda>x. x \<noteq> c) s = c # u"
    using hd_dropWhile [OF ne] hu(2) by (cases "dropWhile (\<lambda>x. x \<noteq> c) s") auto
  then show ?thesis using takeWhile_dropWhile_id [of "\<lambda>x. x \<noteq> c" s] hu(1) by simp
qed

lemma mail_ok_iff: "mail_ok v \<longleftrightarrow> mail_address v"
proof
  assume ok: "mail_ok v"
  obtain l f d where p: "partition_char (CHR ''@'') v = (l, f, d)" by (cases "partition_char (CHR ''@'') v")
  have "f" "l \<noteq> []" "list_all mail_char l" "domain_ok d" using ok p by (auto simp: mail_ok_def)
  moreover have "v = l @ CHR ''@'' # d" using partition_char_found p \<open>f\<close> by simp
  ultimately show "mail_address v" unfolding mail_address_def domain_ok_iff by fastforce
next
  assume "mail_address v"
  then obtain l a b where v: "v = l @ CHR ''@'' # a @ CHR ''.'' # b" and parts: "l \<noteq> []" "a \<noteq> []" "b \<noteq> []"
    "list_all mail_char l" "list_all mail_char a" "list_all mail_char b" unfolding mail_address_def by blast
  have l: "CHR ''@'' \<notin> set l" using parts(4) by (auto simp: list_all_iff mail_char_def)
  have "partition_char (CHR ''@'') v = (l, True, a @ CHR ''.'' # b)"
    unfolding v by (simp add: partition_char_def takeWhile_neq_append [OF l] dropWhile_neq_append [OF l])
  moreover have "mail_char (CHR ''.'')" by (simp add: mail_char_def is_space_def)
  moreover have "domain_ok (a @ CHR ''.'' # b)" using parts \<open>mail_char (CHR ''.'')\<close> unfolding domain_ok_iff by auto
  ultimately show "mail_ok v" using parts by (simp add: mail_ok_def)
qed

lemma EMAIL_RE_strip: "EMAIL_RE (strip v) \<longleftrightarrow> mail_address (strip v)"
proof -
  have "last (strip v) \<noteq> CHR 0x0A" if "strip v \<noteq> []"
  proof -
    have "last (strip v) = hd (dropWhile is_space (rev (lstrip v)))" "dropWhile is_space (rev (lstrip v)) \<noteq> []"
      using that by (simp_all add: strip_def rstrip_def last_rev)
    then show ?thesis using hd_dropWhile [of is_space "rev (lstrip v)"] by (auto simp: is_space_def)
  qed
  then show ?thesis by (auto simp: EMAIL_RE_def mail_ok_iff)
qed

text \<open>What the form has to hold.\<close>

definition form_ok :: "form \<Rightarrow> bool" where
  "form_ok form \<longleftrightarrow>
     (let f = signup_fields_of form; handle = strip (field_text form ''org_handle'' '''') in
      sf_org_name f \<noteq> [] \<and> length (sf_org_name f) \<le> 100 \<and>
      (\<forall>c \<in> set (sf_org_name f). \<not> forbidden_char c \<and> \<not> control_char c) \<and>
      (\<forall>c \<in> set handle. \<not> forbidden_char c) \<and>
      mail_address (sf_admin_email f) \<and>
      sf_admin_password f \<noteq> [] \<and> length (sf_admin_password f) \<le> 128 \<and>
      (\<forall>v \<in> {sf_first_name f, sf_last_name f}. length v \<le> 100 \<and> (\<forall>c \<in> set v. \<not> control_char c)))"

text \<open>A check that passes when \<open>ok\<close> holds, and otherwise leaves one message and sends the user back.\<close>

definition back_to_form :: portal_answer where
  "back_to_form = Redirected ''signup.signup_form'' []"

definition checks :: "bool \<Rightarrow> (('w, 'z) portal_state_scheme, portal_answer option) prog \<Rightarrow> bool" where
  "checks ok c \<longleftrightarrow> (if ok then \<forall>s. c s = (Inr None, s)
     else \<exists>m. \<forall>s. c s = (Inr (Some back_to_form), s\<lparr>flashed := flashed s @ [m]\<rparr>))"

lemma checks_invalid: "\<not> ok \<Longrightarrow> checks ok (invalid_field f m)"
  by (auto simp: checks_def invalid_field_def flash_def back_to_form_def)

lemma checks_pass: "ok \<Longrightarrow> checks ok (ret None)"
  by (simp add: checks_def)

lemma checks_if: "checks (\<not> b \<and> ok) m \<or> b \<Longrightarrow> (b \<Longrightarrow> \<not> ok') \<Longrightarrow> (\<not> b \<Longrightarrow> ok' = ok) \<Longrightarrow> b \<or> checks ok m \<Longrightarrow>
    checks ok' (if b then invalid_field f msg else m)"
  by (auto intro: checks_invalid)

lemma field_checks:
  "checks (v \<noteq> [] \<and> length v \<le> 100 \<and> (\<forall>c \<in> set v. \<not> forbidden_char c \<and> \<not> control_char c)) (check_org_name v)"
  "checks (\<forall>c \<in> set v. \<not> forbidden_char c) (check_org_handle v)"
  "checks (v \<noteq> [] \<and> length v \<le> 128) (check_admin_password v)"
  "checks (length v \<le> 100 \<and> (\<forall>c \<in> set v. \<not> control_char c)) (check_name_field l v)"
  unfolding check_org_name_def check_org_handle_def check_admin_password_def check_name_field_def
  by (auto simp: list_ex_iff intro!: checks_invalid checks_pass)

lemma mail_char_plain: "mail_char c \<Longrightarrow> \<not> control_char c"
  by (auto simp: mail_char_def control_char_def is_space_def Let_def)

lemma mail_address_plain:
  assumes "mail_address v"
  shows "v \<noteq> []" and "CHR ''@'' \<in> set v" and "\<not> list_ex control_char v"
proof -
  have at: "\<not> control_char (CHR ''@'')" "\<not> control_char (CHR ''.'')" by (simp_all add: control_char_def)
  show "v \<noteq> []" "CHR ''@'' \<in> set v" "\<not> list_ex control_char v"
    using assms mail_char_plain at by (auto simp: mail_address_def list_ex_iff list_all_iff)
qed

lemma email_checks: "checks (mail_address (strip v)) (check_admin_email (strip v))"
  unfolding check_admin_email_def EMAIL_RE_strip
  using mail_address_plain [of "strip v"] by (auto intro!: checks_invalid checks_pass)

lemma first_failure_checks:
  assumes "list_all2 checks oks cs"
  shows "if list_all (\<lambda>x. x) oks then first_failure cs s = (Inr None, s)
    else \<exists>ms. ms \<noteq> [] \<and> first_failure cs s = (Inr (Some back_to_form), s\<lparr>flashed := flashed s @ ms\<rparr>)"
  using assms
proof (induction oks cs arbitrary: s rule: list_all2_induct)
  case (Cons ok oks c cs)
  show ?case
  proof (cases ok)
    case True
    then have "first_failure (c # cs) s = first_failure cs s"
      using Cons.hyps(1) by (simp add: checks_def andthen_def split: prod.split sum.split)
    then show ?thesis using True Cons.IH [of s] by (simp del: first_failure.simps)
  next
    case False
    then obtain m where m: "c s = (Inr (Some back_to_form), s\<lparr>flashed := flashed s @ [m]\<rparr>)"
      using Cons.hyps(1) by (auto simp: checks_def)
    let ?s = "s\<lparr>flashed := flashed s @ [m]\<rparr>"
    obtain ms b where "first_failure cs ?s = (Inr b, ?s\<lparr>flashed := flashed ?s @ ms\<rparr>)"
      using Cons.IH [of ?s] by (cases "list_all (\<lambda>x. x) oks") fastforce+
    then show ?thesis using False m by (auto simp: andthen_def intro!: exI [of _ "m # ms"])
  qed
qed simp

lemma register_result:
  "if form_ok form then register V form s = sign_up V (signup_fields_of form) s
   else \<exists>ms. ms \<noteq> [] \<and> register V form s = (Inr back_to_form, s\<lparr>flashed := flashed s @ ms\<rparr>)"
proof -
  let ?f = "signup_fields_of form" and ?handle = "strip (field_text form ''org_handle'' '''')"
  let ?plain = "\<lambda>v. length v \<le> 100 \<and> (\<forall>c \<in> set v. \<not> control_char c)"
  let ?oks = "[sf_org_name ?f \<noteq> [] \<and> length (sf_org_name ?f) \<le> 100 \<and>
        (\<forall>c \<in> set (sf_org_name ?f). \<not> forbidden_char c \<and> \<not> control_char c),
      \<forall>c \<in> set ?handle. \<not> forbidden_char c, mail_address (sf_admin_email ?f),
      sf_admin_password ?f \<noteq> [] \<and> length (sf_admin_password ?f) \<le> 128, ?plain (sf_first_name ?f), ?plain (sf_last_name ?f)]"
  have mail: "sf_admin_email ?f = strip (field_text form ''email'' '''')" by (simp add: signup_fields_of_def Let_def)
  have all: "list_all2 checks ?oks (signup_checks form)"
    unfolding signup_checks_def Let_def
    by (intro list_all2_Cons [THEN iffD2] conjI field_checks list_all2_Nil [THEN iffD2])
      (simp_all add: mail email_checks)
  have ok: "list_all (\<lambda>x. x) ?oks \<longleftrightarrow> form_ok form" by (auto simp: form_ok_def Let_def)
  from first_failure_checks [OF all, of s, unfolded ok] show ?thesis
    by (auto simp: register_def validate_signup_form_def andthen_def split: if_splits)
qed

lemma register_valid: "form_ok form \<Longrightarrow> register V form s = sign_up V (signup_fields_of form) s"
  using register_result [of form V s] by simp

lemma register_invalid:
  "\<not> form_ok form \<Longrightarrow> \<exists>ms. ms \<noteq> [] \<and> register V form s = (Inr back_to_form, s\<lparr>flashed := flashed s @ ms\<rparr>)"
  using register_result [of form V s] by simp

text \<open>
  A sign-up goes on exactly when the form is acceptable: a name of at most 100 characters without
  markup or control characters, a handle without markup, a mail address with a local part and a dotted
  domain, a password of at most 128 characters, and personal names without control characters. Any other
  form leaves messages, returns the user to the form and sends nothing anywhere.
\<close>

theorem signup_accepts_iff:
  "if form_ok form then register V form s = sign_up V (signup_fields_of form) s
   else \<exists>ms. ms \<noteq> [] \<and> register V form s = (Inr back_to_form, s\<lparr>flashed := flashed s @ ms\<rparr>)"
  by (rule register_result)

subsection \<open>How much a sign-up sends\<close>

lemma flash_quiet [simp, intro]:
  "calls P n (flash m c)" "calls P n (flash_calls k msg l)" "calls P n (flash_call k msg d)"
proof -
  show f: "calls P n (flash m c)" for m c by (simp add: flash_def calls_quiet)
  show "calls P n (flash_calls k msg l)" "calls P n (flash_call k msg d)"
    unfolding flash_calls_def flash_call_def by (rule f)+
qed

lemma flash_to_quiet: "calls P 0 m \<Longrightarrow> calls P n (flash_to m e a)"
  unfolding flash_to_def by (intro calls_zero_andthen calls_basic)

lemma plan_extra_roles_length: "length (plan_extra_roles plan) \<le> 3"
  by (simp add: plan_extra_roles_def PLAN_ROLES_def split: option.split)

lemma save_plan_once: "calls P 1 (save_organization_plan V org_id plan token)"
  unfolding save_organization_plan_def by (rule proxy_result_once)

lemma finish_signup_once: "calls P 1 (finish_signup V f org_id oh token debug)"
  unfolding finish_signup_def
  by (intro calls_andthen_zero save_plan_once calls_if flash_to_quiet flash_quiet)

lemma create_org_admin_calls: "calls P 32 (create_org_admin V f org_id oh token debug)"
proof -
  have roles: "calls P 30 (assign_roles_to_user V token tenant uid
      ([TEAMSPACE_ADMIN, TEAMSPACE_USER] @ plan_extra_roles (sf_plan f)) l True)" for tenant uid l
    by (rule calls_mono [OF assign_roles_calls]) (use plan_extra_roles_length [of "sf_plan f"] in simp)
  have n: "(32 :: nat) = 1 + (30 + 1)" by simp
  show ?thesis
    unfolding create_org_admin_def Let_def n
    by (intro calls_andthen is_call_once calls_if flash_to_quiet flash_quiet calls_zero_andthen calls_basic
        roles finish_signup_once)
qed

lemma provision_org_calls: "calls P 34 (provision_org V f root_token org_id oh debug)"
proof -
  have n: "(34 :: nat) = 1 + (1 + 32)" by simp
  show ?thesis
    unfolding provision_org_def n
    by (intro calls_andthen share_roles_once own_tokens_once calls_if flash_to_quiet flash_quiet create_org_admin_calls)
qed

lemma sign_up_calls: "calls P 36 (sign_up V f)"
proof -
  have n: "(36 :: nat) = 1 + (1 + 34)" by simp
  show ?thesis
    unfolding sign_up_def n
    by (intro calls_andthen own_tokens_once calls_if flash_to_quiet flash_quiet is_call_once calls_zero_andthen calls_basic)
      (auto intro: calls_zero_andthen provision_org_calls)
qed

text \<open>
  C24: A sign-up ends after at most 36 requests, whatever WSO2 IS answers: each of at most five roles
  is looked up at most five times and assigned at most once, and six requests do the rest.
\<close>

theorem signup_sends_at_most_36:
  "\<exists>qs. sent (snd (register V form s)) = sent s @ qs \<and> length qs \<le> 36"
proof (cases "form_ok form")
  case True
  have reg: "register V form s = sign_up V (signup_fields_of form) s" using register_valid [OF True] .
  obtain qs where "sent (snd (sign_up V (signup_fields_of form) s)) = sent s @ qs" "length (filter (\<lambda>_. True) qs) \<le> 36"
    using callsD [OF sign_up_calls surjective_pairing] by blast
  then show ?thesis unfolding reg by auto
next
  case False
  then show ?thesis using register_invalid [OF False, of V s] by auto
qed

end
