(* ===== verification/Portal_Pages.thy ===== *)
theory Portal_Pages
  imports Portal_Session Portal_Plans
begin

text \<open>
  The pages of the portal for everyday work: meetings (\<open>webapp/blueprints/dashboard.py\<close>), branding
  (\<open>webapp/blueprints/personalization.py\<close>) and the organization's AI agent
  (\<open>webapp/blueprints/agents.py\<close>). A page is a route: it may send requests, change the session and
  leave messages, and it answers with a template or a redirect.
\<close>

subsection \<open>Meetings\<close>

text \<open>\<open>request.form[k]\<close>: a missing field is a bad request.\<close>

definition form_item :: "form \<Rightarrow> string \<Rightarrow> exn + json" where
  "form_item form k = (case map_of form k of Some v \<Rightarrow> Inr (JStr v) | None \<Rightarrow> Inl (HttpError 400 ''''))"

definition form_get :: "form \<Rightarrow> string \<Rightarrow> string \<Rightarrow> string" where
  "form_get form k dflt = (case map_of form k of Some v \<Rightarrow> v | None \<Rightarrow> dflt)"

definition meeting_form_data :: "form \<Rightarrow> exn + json" where
  "meeting_form_data form =
     bind_res (form_item form ''topic'') (\<lambda>topic.
     bind_res (form_item form ''date'') (\<lambda>date.
     bind_res (form_item form ''start_time'') (\<lambda>start_time.
       Inr (JObj [(''topic'', topic), (''date'', date), (''start_time'', start_time),
         (''duration'', JStr (form_get form ''duration'' ''60'')),
         (''time_zone'', JStr (form_get form ''time_zone'' ''America/Sao_Paulo''))]))))"

definition to_meetings :: "string \<Rightarrow> string \<Rightarrow> string \<Rightarrow> ('w, 'z) route" where
  "to_meetings org_handle message category =
     flash_to (flash (JStr message) category) ''dashboard.meetings'' [(''org_handle'', org_handle)]"

definition meetings_page :: "('w, 'k) portal_env \<Rightarrow> string \<Rightarrow> ('w, 'z) route" where
  "meetings_page V org_handle =
     login_required org_handle
       (andthen (portal_get_meetings V) (\<lambda>meetings.
          ret (Rendered ''dashboard/meetings.html'' [(''org_handle'', JStr org_handle), (''meetings'', meetings)])))"

definition meeting_form_page :: "string \<Rightarrow> json \<Rightarrow> portal_answer" where
  "meeting_form_page org_handle meeting =
     Rendered ''dashboard/meeting_form.html'' [(''org_handle'', JStr org_handle), (''meeting'', meeting)]"

definition meeting_form :: "string \<Rightarrow> ('w, 'z) route" where
  "meeting_form org_handle = login_required org_handle (ret (meeting_form_page org_handle JNull))"

definition create_meeting_page :: "('w, 'k) portal_env \<Rightarrow> string \<Rightarrow> form \<Rightarrow> ('w, 'z) route" where
  "create_meeting_page V org_handle form =
     login_required org_handle
       (andthen (lift_res (meeting_form_data form)) (\<lambda>data.
        andthen (portal_create_meeting V data) (\<lambda>created.
          if ar_status created = 201 then to_meetings org_handle ''Meeting scheduled successfully.'' ''success''
          else to_meetings org_handle ''Failed to create meeting.'' ''error'')))"

fun find_meeting_by_id :: "string \<Rightarrow> json list \<Rightarrow> exn + json" where
  "find_meeting_by_id i [] = Inr JNull"
| "find_meeting_by_id i (m # ms) = bind_res (item m ''id'') (\<lambda>v. if v = JStr i then Inr m else find_meeting_by_id i ms)"

definition edit_form :: "('w, 'k) portal_env \<Rightarrow> string \<Rightarrow> string \<Rightarrow> ('w, 'z) route" where
  "edit_form V org_handle meeting_id =
     login_required org_handle
       (andthen (portal_get_meetings V) (\<lambda>meetings.
        andthen (lift_res (bind_res (py_list meetings) (find_meeting_by_id meeting_id))) (\<lambda>meeting.
          ret (meeting_form_page org_handle meeting))))"

definition update_meeting_page :: "('w, 'k) portal_env \<Rightarrow> string \<Rightarrow> string \<Rightarrow> form \<Rightarrow> ('w, 'z) route" where
  "update_meeting_page V org_handle meeting_id form =
     login_required org_handle
       (andthen (lift_res (meeting_form_data form)) (\<lambda>data.
        andthen (portal_update_meeting V meeting_id data) (\<lambda>updated.
          if ar_status updated = 200 then to_meetings org_handle ''Meeting updated.'' ''success''
          else to_meetings org_handle ''Failed to update meeting.'' ''error'')))"

definition delete_meeting_page :: "('w, 'k) portal_env \<Rightarrow> string \<Rightarrow> string \<Rightarrow> ('w, 'z) route" where
  "delete_meeting_page V org_handle meeting_id =
     login_required org_handle
       (andthen (portal_delete_meeting V meeting_id) (\<lambda>deleted.
          if ar_status deleted = 204 then to_meetings org_handle ''Meeting deleted.'' ''success''
          else to_meetings org_handle ''Failed to delete meeting.'' ''error''))"

text \<open>What the dashboard shows of the id token: its claims about roles, unverified.\<close>

definition shown_claims :: "dict \<Rightarrow> dict" where
  "shown_claims claims = filter (\<lambda>(k, v). k \<in> {''roles'', ''groups'', ''application_roles'', ''scope''}) claims"

definition id_token_debug :: "('w, 'k) portal_env \<Rightarrow> json \<Rightarrow> string" where
  "id_token_debug V id_raw =
     (if \<not> truthy id_raw then ''''
      else case id_raw of
        JStr raw \<Rightarrow>
          (case jwt_decode_unverified (pe_jwt V) raw of
             Inr claims \<Rightarrow>
               (if shown_claims claims \<noteq> [] then dumps_indent (pe_fr V) 0 (JObj (shown_claims claims))
                else ''No roles/groups claims found in id_token'')
           | Inl _ \<Rightarrow> ''Failed to decode id_token'')
      | _ \<Rightarrow> ''Failed to decode id_token'')"

definition home :: "('w, 'k) portal_env \<Rightarrow> string \<Rightarrow> ('w, 'z) route" where
  "home V org_handle =
     login_required org_handle
       (andthen (ensure_branding_loaded V) (\<lambda>_.
        andthen (session_get ''user'' (JObj [])) (\<lambda>user.
        andthen (session_get ''id_token_raw'' (JStr '''')) (\<lambda>id_raw.
          ret (Rendered ''dashboard/home.html''
            [(''org_handle'', JStr org_handle), (''user'', user), (''id_token_debug'', JStr (id_token_debug V id_raw))])))))"

subsection \<open>Branding\<close>

definition is_hex :: "char \<Rightarrow> bool" where
  "is_hex c \<longleftrightarrow> (let n = ord c in (48 \<le> n \<and> n \<le> 57) \<or> (65 \<le> n \<and> n \<le> 70) \<or> (97 \<le> n \<and> n \<le> 102))"

definition hex_colour :: "string \<Rightarrow> bool" where
  "hex_colour v \<longleftrightarrow> (case v of c # h \<Rightarrow> c = CHR ''#'' \<and> 3 \<le> length h \<and> length h \<le> 8 \<and> list_all is_hex h | [] \<Rightarrow> False)"

text \<open>\<open>_COLOR_RE.match(v)\<close>; \<open>$\<close> also matches before a final newline.\<close>

definition COLOR_RE :: "string \<Rightarrow> bool" where
  "COLOR_RE v \<longleftrightarrow> hex_colour v \<or> (v \<noteq> [] \<and> last v = CHR 0x0A \<and> hex_colour (butlast v))"

definition valid_http_url :: "string \<Rightarrow> bool" where
  "valid_http_url v \<longleftrightarrow> v \<noteq> [] \<and>
     (startswith (lower (strip v)) ''http://'' \<or> startswith (lower (strip v)) ''https://'')"

definition flash_message :: "string \<Rightarrow> string \<Rightarrow> (string \<times> json) list \<Rightarrow> (('w, 'z) portal_state_scheme, unit) prog" where
  "flash_message kind message extra =
     flash (JObj ([(''message'', JStr message), (''type'', JStr kind)] @ extra)) ''message''"

definition to_branding :: "string \<Rightarrow> (('w, 'z) portal_state_scheme, unit) prog \<Rightarrow> ('w, 'z) route" where
  "to_branding org_handle m = flash_to m ''personalization.branding'' [(''org_handle'', org_handle)]"

definition branding_denied :: "string \<Rightarrow> json \<Rightarrow> portal_answer" where
  "branding_denied org_handle org_plan =
     (if org_plan \<in> {JStr ''business'', JStr ''enterprise''} then
        Rendered ''admin/access_denied.html''
          [(''org_handle'', JStr org_handle), (''title'', JStr ''Personalization''),
           (''description'', JStr (''Customize your organization'' @ [CHR 0x27] @ ''s branding, logo, and colors.'')),
           (''required_role'', JStr (if org_plan = JStr ''business'' then BASIC_BRANDING_EDITOR else ADVANCED_BRANDING_EDITOR))]
      else Rendered ''personalization/upgrade_prompt.html'' [(''org_handle'', JStr org_handle)])"

definition branding_page :: "('w, 'k) portal_env \<Rightarrow> string \<Rightarrow> ('w, 'z) route" where
  "branding_page V org_handle =
     login_required org_handle
       (andthen (session_get ''user_roles'' (JList [])) (\<lambda>user_roles.
        andthen (lift_res (any_role [BASIC_BRANDING_EDITOR, ADVANCED_BRANDING_EDITOR] user_roles)) (\<lambda>can_edit.
        andthen (user_field ''org_id'') (\<lambda>org_id.
          if \<not> can_edit then
            andthen (get_organization_plan V (py_str (pe_fr V) org_id)) (\<lambda>plan_info.
            andthen (lift_res (as_obj plan_info)) (\<lambda>d.
              ret (branding_denied org_handle (get_or d ''plan'' (JStr ''basic'')))))
          else
            andthen (lift_res (key_in ADVANCED_BRANDING_EDITOR user_roles)) (\<lambda>is_advanced.
            andthen (portal_get_personalization V (py_str (pe_fr V) org_id)) (\<lambda>current.
              ret (Rendered ''personalization/branding.html''
                [(''org_handle'', JStr org_handle), (''current'', current), (''is_advanced'', JBool is_advanced)])))))))"

text \<open>The first thing wrong with a submitted branding.\<close>

definition branding_error :: "form \<Rightarrow> string option" where
  "branding_error form =
     (let logo_url = form_get form ''logo_url'' ''''; favicon_url = form_get form ''favicon_url'' '''' in
      if \<not> COLOR_RE (form_get form ''primary_color'' DEFAULT_PRIMARY_COLOR) then
        Some ''Invalid primary color. Use a hex value like #4F46E5.''
      else if \<not> COLOR_RE (form_get form ''secondary_color'' DEFAULT_SECONDARY_COLOR) then
        Some ''Invalid secondary color. Use a hex value like #E0E7FF.''
      else if logo_url \<noteq> [] \<and> \<not> valid_http_url logo_url then
        Some ''Invalid logo URL. Must start with http:// or https://.''
      else if favicon_url \<noteq> [] \<and> \<not> valid_http_url favicon_url then
        Some ''Invalid favicon URL. Must start with http:// or https://.''
      else None)"

definition branding_data :: "json \<Rightarrow> form \<Rightarrow> dict" where
  "branding_data org_id form =
     [(''org'', org_id), (''logo_url'', JStr (form_get form ''logo_url'' '''')),
      (''logo_alt_text'', JStr (form_get form ''logo_alt_text'' '''')),
      (''favicon_url'', JStr (form_get form ''favicon_url'' '''')),
      (''primary_color'', JStr (form_get form ''primary_color'' DEFAULT_PRIMARY_COLOR)),
      (''secondary_color'', JStr (form_get form ''secondary_color'' DEFAULT_SECONDARY_COLOR))]"

definition branding_outcome :: "string \<Rightarrow> dict \<Rightarrow> dual_write_result \<Rightarrow> ('w, 'z) route" where
  "branding_outcome org_handle data res =
     (if db_success res then
        andthen (session_set ''org_branding'' (JObj data)) (\<lambda>_.
          to_branding org_handle
            (if is_success res then
               flash_message ''success'' ''Branding updated and synced to login portal.'' [(''api_debug'', api_debug res)]
             else
               flash_message ''warning''
                 (''Branding updated locally, but failed to sync to login portal: '' @ error_message res)
                 [(''api_debug'', api_debug res)]))
      else
        to_branding org_handle
          (flash_message ''error'' (''Failed to update branding: '' @ error_message res) [(''api_debug'', api_debug res)]))"

definition token_text :: "('w, 'k) portal_env \<Rightarrow> json \<Rightarrow> string" where
  "token_text V token = (if truthy token then py_str (pe_fr V) token else [])"

definition do_update_branding :: "('w, 'k) portal_env \<Rightarrow> string \<Rightarrow> form \<Rightarrow> ('w, 'z) route" where
  "do_update_branding V org_handle form =
     andthen (user_field ''org_id'') (\<lambda>org_id.
       (case branding_error form of
          Some message \<Rightarrow> to_branding org_handle (flash_message ''error'' message [])
        | None \<Rightarrow>
            andthen (session_get ''access_token'' (JStr '''')) (\<lambda>token.
            andthen (user_field ''org_name'') (\<lambda>org_name.
            andthen (update_branding V (branding_data org_id form) (token_text V token) (po_tenant_path (pe_cfg V))
                (py_str (pe_fr V) org_name)) (\<lambda>res.
              branding_outcome org_handle (branding_data org_id form) res)))))"

definition update_branding_page :: "('w, 'k) portal_env \<Rightarrow> string \<Rightarrow> form \<Rightarrow> ('w, 'z) route" where
  "update_branding_page V org_handle form =
     login_required org_handle
       (role_required [BASIC_BRANDING_EDITOR, ADVANCED_BRANDING_EDITOR] (do_update_branding V org_handle form))"

definition reset_outcome :: "string \<Rightarrow> dual_write_result \<Rightarrow> ('w, 'z) route" where
  "reset_outcome org_handle res =
     (if db_success res then
        andthen (session_pop ''org_branding'') (\<lambda>_.
          to_branding org_handle
            (if is_success res then
               flash_message ''success'' ''Branding reverted to defaults.'' [(''api_debug'', api_debug res)]
             else
               flash_message ''warning'' ''Branding reverted locally, but failed to sync removal to login portal.''
                 [(''api_debug'', api_debug res)]))
      else to_branding org_handle (flash_message ''error'' ''Failed to revert branding.'' []))"

definition reset_branding :: "('w, 'k) portal_env \<Rightarrow> string \<Rightarrow> ('w, 'z) route" where
  "reset_branding V org_handle =
     login_required org_handle
       (role_required [BASIC_BRANDING_EDITOR, ADVANCED_BRANDING_EDITOR]
         (andthen (user_field ''org_id'') (\<lambda>org_id.
          andthen (session_get ''access_token'' (JStr '''')) (\<lambda>token.
          andthen (delete_branding V (py_str (pe_fr V) org_id) (token_text V token) (po_tenant_path (pe_cfg V))) (\<lambda>res.
            reset_outcome org_handle res)))))"

subsection \<open>Who may change the branding, and to what\<close>

lemma same_org_state: "snd (same_org oh s) = s"
  by (simp add: same_org_def user_field_def session_get_def andthen_def split: sum.split)

lemma role_required_runs:
  assumes "role_required roles f s = (r, t)"
  shows "t = s \<or> (any_role roles (get_or (session s) ''user_roles'' (JList [])) = Inr True \<and> f s = (r, t))"
  using assms
  by (cases "any_role roles (get_or (session s) ''user_roles'' (JList []))")
    (auto simp: role_required_def session_get_def split: if_splits)

lemma keeps_sent [simp, intro]:
  "keeps sent (flash m c)" "keeps sent (flash_message k msg e)" "keeps sent (user_field f)"
  by (simp_all add: flash_message_def flash_def user_field_def session_get_def keeps_def)

lemma flash_to_keeps: "keeps f m \<Longrightarrow> keeps f (flash_to m e a)"
  unfolding flash_to_def by (intro keeps_andthen keeps_basic)

lemma do_update_branding_quiet:
  assumes "branding_error form = Some m" and "do_update_branding V oh form s = (r, t)"
  shows "sent t = sent s"
proof -
  have "keeps sent (do_update_branding V oh form)"
    unfolding do_update_branding_def assms(1) option.case to_branding_def
    by (intro keeps_andthen flash_to_keeps keeps_sent)
  then show ?thesis using assms(2) keepsD [of sent "do_update_branding V oh form" s] by simp
qed

text \<open>
  The branding page sends nothing anywhere unless a signed-in user with a branding role submits a
  form whose colours are hex colours and whose logo and icon are empty or http addresses: no other
  value, such as a script address or a piece of a style sheet, ever reaches the stored branding.
\<close>

theorem branding_changes_are_vetted:
  assumes run: "update_branding_page V oh form s = (r, t)" and changed: "sent t \<noteq> sent s"
  shows "dict_get (session s) ''user'' \<noteq> None \<and>
    any_role [BASIC_BRANDING_EDITOR, ADVANCED_BRANDING_EDITOR] (get_or (session s) ''user_roles'' (JList [])) = Inr True \<and>
    COLOR_RE (form_get form ''primary_color'' DEFAULT_PRIMARY_COLOR) \<and>
    COLOR_RE (form_get form ''secondary_color'' DEFAULT_SECONDARY_COLOR) \<and>
    list_all (\<lambda>k. form_get form k '''' = [] \<or> valid_http_url (form_get form k '''')) [''logo_url'', ''favicon_url'']"
proof -
  have ne: "t \<noteq> s" using changed by blast
  have user: "dict_get (session s) ''user'' \<noteq> None"
    and inner: "role_required [BASIC_BRANDING_EDITOR, ADVANCED_BRANDING_EDITOR] (do_update_branding V oh form) s = (r, t)"
    using login_required_runs [OF run [unfolded update_branding_page_def]] ne by blast+
  have role: "any_role [BASIC_BRANDING_EDITOR, ADVANCED_BRANDING_EDITOR] (get_or (session s) ''user_roles'' (JList [])) = Inr True"
    and update: "do_update_branding V oh form s = (r, t)"
    using role_required_runs [OF inner] ne by blast+
  have "branding_error form = None"
    using do_update_branding_quiet [OF _ update] changed by (cases "branding_error form") auto
  then show ?thesis using user role by (auto simp: branding_error_def Let_def split: if_splits)
qed

theorem branding_changes_are_vetted_witness:
  "\<exists>r t. update_branding_page (demo_portal 200 []) [] [(''primary_color'', ''#abc'')]
      (demo_visit [(''user'', JObj []), (''user_roles'', JList [JStr BASIC_BRANDING_EDITOR])]) = (r, t) \<and>
    sent t \<noteq> [] \<and> COLOR_RE ''#abc''"
proof -
  let ?s = "demo_visit [(''user'', JObj []), (''user_roles'', JList [JStr BASIC_BRANDING_EDITOR])]"
  let ?form = "[(''primary_color'', ''#abc'')]"
  have ok: "branding_error ?form = None"
    by (simp add: branding_error_def form_get_def COLOR_RE_def hex_colour_def is_hex_def DEFAULT_PRIMARY_COLOR_def
        DEFAULT_SECONDARY_COLOR_def)
  obtain r t where run: "update_branding_page (demo_portal 200 []) [] ?form ?s = (r, t)" by (meson surj_pair)
  have "do_update_branding (demo_portal 200 []) [] ?form ?s = (r, t)"
    using run by (simp add: update_branding_page_def login_required_def same_org_def user_field_def session_get_def
        role_required_def demo_visit_def get_or_def andthen_def key_in_def)
  then have sent: "sent t \<noteq> sent ?s"
    by (auto simp: do_update_branding_def ok user_field_def session_get_def get_or_def andthen_def demo_visit_def
        update_branding_def portal_upsert_personalization_def proxy_result_def proxy_call_def catch_def send_def
        demo_portal_def parse_response_def token_text_def branding_outcome_def not_synced_def session_set_def
        to_branding_def flash_to_def flash_message_def flash_def)
  show ?thesis using run sent branding_changes_are_vetted [OF run sent] by (auto simp: form_get_def demo_visit_def)
qed

end
