(* ===== verification/Portal_Agents.thy ===== *)
theory Portal_Agents
  imports Portal_Pages
begin

text \<open>
  The administration of an organization's AI agent (\<open>webapp/blueprints/agents.py\<close>): an identity at
  WSO2 IS with the role of a user, and its credentials in the Business API. Every route of the
  blueprint runs behind the gate on plan and role, then behind its own decorators.
\<close>

definition agents_route :: "('w, 'k) portal_env \<Rightarrow> string \<Rightarrow> ('w, 'z) route \<Rightarrow> ('w, 'z) route" where
  "agents_route V org_handle f =
     andthen (gate_agents_by_plan V org_handle) (\<lambda>denied.
       case denied of Some answer \<Rightarrow> ret answer | None \<Rightarrow> login_required org_handle (admin_required f))"

definition list_agents :: "('w, 'k) portal_env \<Rightarrow> string \<Rightarrow> ('w, 'z) route" where
  "list_agents V org_handle =
     agents_route V org_handle
       (andthen (user_field ''org_id'') (\<lambda>org_id.
        andthen (if truthy org_id then portal_get_agent_config V (py_str (pe_fr V) org_id) else ret JNull) (\<lambda>cfg.
          ret (Rendered ''admin/agents.html'' [(''org_handle'', JStr org_handle), (''agent_config'', cfg)]))))"

definition agent_form :: "('w, 'k) portal_env \<Rightarrow> string \<Rightarrow> ('w, 'z) route" where
  "agent_form V org_handle =
     agents_route V org_handle (ret (Rendered ''admin/agent_form.html'' [(''org_handle'', JStr org_handle)]))"

definition to_agents :: "string \<Rightarrow> (('w, 'z) portal_state_scheme, unit) prog \<Rightarrow> ('w, 'z) route" where
  "to_agents org_handle m = flash_to m ''agents.list_agents'' [(''org_handle'', org_handle)]"

definition flash_typed :: "string \<Rightarrow> string \<Rightarrow> (('w, 'z) portal_state_scheme, unit) prog" where
  "flash_typed kind message = flash (JObj [(''type'', JStr kind), (''message'', JStr message)]) ''message''"

record agent_form_fields =
  af_display_name :: json
  af_description :: string
  af_gemini_api_key :: string
  af_custom_prompt :: string

definition agent_form_of :: "form \<Rightarrow> exn + agent_form_fields" where
  "agent_form_of form =
     bind_res (form_item form ''display_name'') (\<lambda>display_name.
       Inr \<lparr>af_display_name = display_name, af_description = form_get form ''description'' '''',
         af_gemini_api_key = form_get form ''gemini_api_key'' '''', af_custom_prompt = form_get form ''custom_prompt'' ''''\<rparr>)"

definition agent_body :: "(real \<Rightarrow> string) \<Rightarrow> agent_form_fields \<Rightarrow> json \<Rightarrow> json \<Rightarrow> json" where
  "agent_body fr a sub org_handle =
     JObj [(''urn:scim:wso2:agent:schema'', JObj
       [(''DisplayName'', af_display_name a), (''Description'', JStr (af_description a)),
        (''Owner'', JStr (py_str fr sub @ ''@'' @ py_str fr org_handle))])]"

definition agent_config_body :: "agent_form_fields \<Rightarrow> json \<Rightarrow> json \<Rightarrow> json \<Rightarrow> json" where
  "agent_config_body a org_id agent_id agent_secret =
     JObj [(''org'', org_id), (''agent_id'', agent_id), (''agent_secret'', agent_secret),
       (''display_name'', af_display_name a), (''description'', JStr (af_description a)),
       (''gemini_api_key'', JStr (af_gemini_api_key a)), (''custom_prompt'', JStr (af_custom_prompt a))]"

text \<open>The role of a user for the agent, given at the root tenant where agents live.\<close>

definition assign_agent_role ::
  "('w, 'k) portal_env \<Rightarrow> json \<Rightarrow> json list \<Rightarrow> (('w, 'z) portal_state_scheme, json list) prog" where
  "assign_agent_role V agent_id debug_list =
     andthen (get_root_role_management_token V) (\<lambda>root_token.
       if root_token \<noteq> [] \<and> truthy agent_id then
         assign_roles_to_user V root_token (po_tenant_path (pe_cfg V)) agent_id [TEAMSPACE_USER] debug_list False
       else ret debug_list)"

definition store_agent ::
  "('w, 'k) portal_env \<Rightarrow> string \<Rightarrow> agent_form_fields \<Rightarrow> json \<Rightarrow> json \<Rightarrow> json list \<Rightarrow> ('w, 'z) route" where
  "store_agent V org_handle a agent_id agent_secret debug_list =
     andthen (user_field ''org_id'') (\<lambda>org_id.
     andthen (portal_save_agent_config V (agent_config_body a org_id agent_id agent_secret)) (\<lambda>saved.
       if ar_status saved \<in> {200, 201} then
         andthen (flash_calls ''success''
           (''Agent '' @ [CHR 0x27] @ py_str (pe_fr V) (af_display_name a) @ [CHR 0x27] @ '' deployed successfully.'')
           debug_list) (\<lambda>_.
         andthen (session_set ''has_agent_config'' (JBool True)) (\<lambda>_.
           ret (Redirected ''agents.list_agents'' [(''org_handle'', org_handle)])))
       else to_agents org_handle (flash_calls ''warning'' ''Agent created in IS but config save failed.'' debug_list)))"

definition deploy_agent :: "('w, 'k) portal_env \<Rightarrow> string \<Rightarrow> agent_form_fields \<Rightarrow> string \<Rightarrow> ('w, 'z) route" where
  "deploy_agent V org_handle a agent_token =
     andthen (user_field ''sub'') (\<lambda>sub.
     andthen (user_field ''org_handle'') (\<lambda>own_handle.
     andthen (is_call V ''POST'' (po_tenant_path (pe_cfg V) @ ''/o/scim2/Agents'') agent_token []
        (Some (agent_body (pe_fr V) a sub own_handle))) (\<lambda>result.
       if ir_status result \<notin> {200, 201} then
         to_agents org_handle (flash_call ''error'' ''Failed to create agent in IS.'' (ir_debug result))
       else
         andthen (lift_res (as_obj (ir_data result))) (\<lambda>d.
           let agent_id = get_or d ''id'' (JStr ''''); agent_secret = get_or d ''password'' (JStr '''') in
           andthen (assign_agent_role V agent_id [ir_debug result]) (\<lambda>debug_list.
             store_agent V org_handle a agent_id agent_secret debug_list)))))"

definition do_add_agent :: "('w, 'k) portal_env \<Rightarrow> string \<Rightarrow> form \<Rightarrow> ('w, 'z) route" where
  "do_add_agent V org_handle form =
     andthen (lift_res (agent_form_of form)) (\<lambda>a.
     andthen (get_agent_management_token V) (\<lambda>agent_token.
       if agent_token = [] then
         to_agents org_handle (flash_typed ''error'' ''Failed to get agent management token. Check IS configuration.'')
       else deploy_agent V org_handle a agent_token))"

definition add_agent :: "('w, 'k) portal_env \<Rightarrow> string \<Rightarrow> form \<Rightarrow> ('w, 'z) route" where
  "add_agent V org_handle form = agents_route V org_handle (do_add_agent V org_handle form)"

text \<open>The identity at WSO2 IS goes first; whatever comes of that, the stored credentials are removed.\<close>

definition delete_agent_identity ::
  "('w, 'k) portal_env \<Rightarrow> json \<Rightarrow> (('w, 'z) portal_state_scheme, unit) prog" where
  "delete_agent_identity V agent_id =
     andthen (get_agent_management_token V) (\<lambda>agent_token.
       if agent_token \<noteq> [] \<and> truthy agent_id then
         andthen (is_call V ''DELETE'' (po_tenant_path (pe_cfg V) @ ''/o/scim2/Agents/'' @ py_str (pe_fr V) agent_id)
            agent_token [] None) (\<lambda>result.
           if ir_status result \<notin> {204, 404} then
             flash_call ''warning'' ''Failed to delete agent from IS.'' (ir_debug result)
           else ret ())
       else ret ())"

definition remove_agent :: "('w, 'k) portal_env \<Rightarrow> string \<Rightarrow> json \<Rightarrow> json \<Rightarrow> ('w, 'z) route" where
  "remove_agent V org_handle org_id agent_id =
     andthen (delete_agent_identity V agent_id) (\<lambda>_.
     andthen (portal_delete_agent_config V (py_str (pe_fr V) org_id)) (\<lambda>_.
     andthen (session_set ''has_agent_config'' (JBool False)) (\<lambda>_.
       to_agents org_handle (flash_typed ''success'' ''Agent removed.''))))"

definition do_delete_agent :: "('w, 'k) portal_env \<Rightarrow> string \<Rightarrow> ('w, 'z) route" where
  "do_delete_agent V org_handle =
     andthen (user_field ''org_id'') (\<lambda>org_id.
     andthen (portal_get_agent_config V (py_str (pe_fr V) org_id)) (\<lambda>cfg.
       if \<not> truthy cfg then to_agents org_handle (flash_typed ''error'' ''No agent configured.'')
       else
         andthen (lift_res (as_obj cfg)) (\<lambda>d.
           remove_agent V org_handle org_id (get_or d ''agent_id'' (JStr '''')))))"

definition delete_agent :: "('w, 'k) portal_env \<Rightarrow> string \<Rightarrow> ('w, 'z) route" where
  "delete_agent V org_handle = agents_route V org_handle (do_delete_agent V org_handle)"

subsection \<open>Behind the gate\<close>

lemma same_org_keeps [simp, intro]: "keeps f (same_org oh)"
  by (simp add: keeps_def same_org_state)

lemma proxy_call_get_sends: "sends {q. meth q = ''GET''} (proxy_call V ''GET'' path token hs NoBody)"
  by (rule proxy_call_sends) (simp add: proxy_request_def)

lemma gate_sends_gets: "sends {q. meth q = ''GET''} (gate_agents_by_plan V oh)"
  unfolding gate_agents_by_plan_def check_plan_and_role_def resolve_plan_for_gating_def
  by (intro sends_intros portal_quiet proxy_call_get_sends)

text \<open>
  No agent is created, given a role, stored or removed unless the gate opened: a route of the agent
  pages that sends anything but reads comes from a signed-in administrator whose role and plan passed
  the gate. Everyone else gets at most the gate's own lookup of the plan.
\<close>

theorem agents_change_behind_the_gate:
  assumes run: "agents_route V oh f s = (r, t)"
    and other: "sent t = sent s @ qs" "\<exists>q \<in> set qs. meth q \<noteq> ''GET''"
  shows "\<exists>u. gate_agents_by_plan V oh s = (Inr None, u) \<and> dict_get (session u) ''user'' \<noteq> None \<and>
    truthy (get_or (session u) ''is_admin'' JNull) \<and> f u = (r, t)"
proof -
  obtain a u where gate: "gate_agents_by_plan V oh s = (a, u)" by (cases "gate_agents_by_plan V oh s")
  obtain ps where ps: "sent u = sent s @ ps" "set ps \<subseteq> {q. meth q = ''GET''}"
    by (rule sendsD [OF gate_sends_gets gate])
  have "t \<noteq> u"
  proof
    assume "t = u"
    then have "qs = ps" using other(1) ps(1) by simp
    then show False using other(2) ps(2) by blast
  qed
  moreover have "a = Inr None \<and> login_required oh (admin_required f) u = (r, t)"
    using run gate \<open>t \<noteq> u\<close> unfolding agents_route_def
    by (auto simp: andthen_def split: sum.splits option.splits)
  ultimately show ?thesis
    using gate login_required_runs [of oh "admin_required f" u r t] admin_required_runs [of f u r t] by blast
qed

definition demo_admin :: dict where
  "demo_admin = [(''user'', JObj [(''org_id'', JStr ''1'')]), (''is_admin'', JBool True),
     (''user_roles'', JList [JStr TEAMSPACE_ADMIN])]"

lemma demo_gate_opens:
  "\<exists>u. gate_agents_by_plan (demo_portal 200 [(''plan'', JStr ''enterprise'')]) [] (demo_visit demo_admin) = (Inr None, u) \<and>
     session u = demo_admin"
  by (simp add: gate_agents_by_plan_def check_plan_and_role_def user_field_def session_get_def demo_visit_def demo_admin_def
      get_or_def andthen_def resolve_plan_for_gating_def proxy_call_def catch_def send_def demo_portal_def
      plan_answer_def gate_answer_def key_in_def or_else_def)

theorem agents_change_behind_the_gate_witness:
  "\<exists>r t u. agents_route (demo_portal 200 [(''plan'', JStr ''enterprise'')]) []
       (to_agents [] (andthen (portal_delete_agent_config (demo_portal 200 []) ''1'') (\<lambda>_. ret ()))) (demo_visit demo_admin) = (r, t) \<and>
     gate_agents_by_plan (demo_portal 200 [(''plan'', JStr ''enterprise'')]) [] (demo_visit demo_admin) = (Inr None, u)"
proof -
  let ?V = "demo_portal 200 [(''plan'', JStr ''enterprise'')]"
  let ?f = "to_agents [] (andthen (portal_delete_agent_config (demo_portal 200 []) ''1'') (\<lambda>_. ret ())) :: (unit, unit) route"
  obtain u where u: "gate_agents_by_plan ?V [] (demo_visit demo_admin) = (Inr None, u)" "session u = demo_admin"
    using demo_gate_opens by blast
  obtain r t where run: "agents_route ?V [] ?f (demo_visit demo_admin) = (r, t)" by (meson surj_pair)
  have "?f u = (r, t)"
    using run u by (simp add: agents_route_def login_required_def same_org_def user_field_def session_get_def
        admin_required_def get_or_def andthen_def demo_admin_def)
  then have "sent t = sent u @ [proxy_request (demo_portal 200 []) ''DELETE'' ''/agent-config/org/1'' (JStr []) [] NoBody]"
    using u(2) by (auto simp: to_agents_def flash_to_def portal_delete_agent_config_def proxy_result_def proxy_call_def
        session_get_def catch_def send_def demo_portal_def andthen_def parse_response_def get_or_def demo_admin_def)
  moreover obtain ps where "sent u = sent (demo_visit demo_admin) @ ps" by (rule sendsD [OF gate_sends_gets u(1)])
  ultimately have "sent t = sent (demo_visit demo_admin) @ (ps @ [proxy_request (demo_portal 200 []) ''DELETE'' ''/agent-config/org/1'' (JStr []) [] NoBody])"
    by simp
  from agents_change_behind_the_gate [OF run this] run show ?thesis by (auto simp: proxy_request_def)
qed

end
