(* ===== verification/Portal_Admin.thy ===== *)
theory Portal_Admin
  imports Portal_Agents
begin

text \<open>
  \<open>webapp/blueprints/admin.py\<close>, first part: what its routes share, and the pages on which an
  administrator keeps the users of the organization and the members of its roles. The pages work with
  the access token of the session, so WSO2 IS decides last what the user may do.
\<close>

subsection \<open>What the routes share\<close>

text \<open>\<open>[f(x) for x in xs]\<close> and \<open>[x for x in xs if p(x)]\<close>, where looking at an item may raise.\<close>

fun each :: "('a \<Rightarrow> exn + 'b) \<Rightarrow> 'a list \<Rightarrow> exn + 'b list" where
  "each f [] = Inr []"
| "each f (x # xs) = bind_res (f x) (\<lambda>y. bind_res (each f xs) (\<lambda>ys. Inr (y # ys)))"

fun only :: "('a \<Rightarrow> exn + bool) \<Rightarrow> 'a list \<Rightarrow> exn + 'a list" where
  "only p [] = Inr []"
| "only p (x # xs) = bind_res (p x) (\<lambda>yes. bind_res (only p xs) (\<lambda>ys. Inr (if yes then x # ys else ys)))"

text \<open>\<open>[f(x) for x in xs if p(x)]\<close>, item by item.\<close>

fun pick :: "('a \<Rightarrow> exn + bool) \<Rightarrow> ('a \<Rightarrow> exn + 'b) \<Rightarrow> 'a list \<Rightarrow> exn + 'b list" where
  "pick p f [] = Inr []"
| "pick p f (x # xs) =
     bind_res (p x) (\<lambda>yes.
       if yes then bind_res (f x) (\<lambda>y. bind_res (pick p f xs) (\<lambda>ys. Inr (y # ys))) else pick p f xs)"

text \<open>\<open>form.getlist(k)\<close>.\<close>

definition form_getlist :: "form \<Rightarrow> string \<Rightarrow> string list" where
  "form_getlist form k = map snd (filter (\<lambda>(a, _). a = k) form)"

text \<open>\<open>session["access_token"]\<close>, as the client uses it.\<close>

definition session_token :: "('w, 'k) portal_env \<Rightarrow> (('w, 'z) portal_state_scheme, string) prog" where
  "session_token V =
     andthen (asks session) (\<lambda>d. lift_res (bind_res (item (JObj d) ''access_token'') (\<lambda>t. Inr (token_text V t))))"

text \<open>A call whose description is kept for the page.\<close>

definition traced ::
  "('w, 'k) portal_env \<Rightarrow> string \<Rightarrow> string \<Rightarrow> string \<Rightarrow> json option \<Rightarrow> json list
     \<Rightarrow> (('w, 'z) portal_state_scheme, is_result \<times> json list) prog" where
  "traced V m path token payload debug_list =
     andthen (is_call V m path token [] payload) (\<lambda>result. ret (result, debug_list @ [ir_debug result]))"

definition scim_resources :: "is_result \<Rightarrow> json" where
  "scim_resources result =
     (case ir_data result of
        JObj d \<Rightarrow> or_else (get_or d ''Resources'' (JList [])) (JList [])
      | _ \<Rightarrow> JList [])"

definition verify_org_handle :: "string \<Rightarrow> (('w, 'z) portal_state_scheme, unit) prog" where
  "verify_org_handle org_handle =
     andthen (user_field ''org_handle'') (\<lambda>session_org_handle.
       if truthy session_org_handle \<and> JStr org_handle \<noteq> session_org_handle then raise (HttpError 403 '''')
       else ret ())"

text \<open>\<open>flash\<close> of a message that is any value, with more fields beside it.\<close>

definition flash_json :: "string \<Rightarrow> json \<Rightarrow> (string \<times> json) list \<Rightarrow> (('w, 'z) portal_state_scheme, unit) prog" where
  "flash_json kind message extra = flash (JObj ([(''type'', JStr kind), (''message'', message)] @ extra)) ''message''"

definition users_path :: "('w, 'k) portal_env \<Rightarrow> string" where
  "users_path V = po_tenant_path (pe_cfg V) @ ''/o/scim2/Users''"

definition roles_path :: "('w, 'k) portal_env \<Rightarrow> string" where
  "roles_path V = po_tenant_path (pe_cfg V) @ ''/o/scim2/v2/Roles''"

definition role_path :: "('w, 'k) portal_env \<Rightarrow> string \<Rightarrow> string" where
  "role_path V role_id = roles_path V @ ''/'' @ role_id"

definition patch_op :: "string \<Rightarrow> json list \<Rightarrow> json" where
  "patch_op path values =
     JObj [(''schemas'', JList [JStr ''urn:ietf:params:scim:api:messages:2.0:PatchOp'']),
       (''Operations'', JList [JObj [(''op'', JStr ''replace''), (''path'', JStr path), (''value'', JList values)]])]"

text \<open>A route for administrators of the organization, with the token of the session.\<close>

definition admin_route ::
  "('w, 'k) portal_env \<Rightarrow> string \<Rightarrow> (string \<Rightarrow> ('w, 'z) route) \<Rightarrow> ('w, 'z) route" where
  "admin_route V org_handle f =
     login_required org_handle (admin_required
       (andthen (verify_org_handle org_handle) (\<lambda>_. andthen (session_token V) f)))"

subsection \<open>Users\<close>

definition to_users :: "string \<Rightarrow> (('w, 'z) portal_state_scheme, unit) prog \<Rightarrow> ('w, 'z) route" where
  "to_users org_handle m = flash_to m ''admin.users'' [(''org_handle'', org_handle)]"

definition users_page :: "('w, 'k) portal_env \<Rightarrow> string \<Rightarrow> ('w, 'z) route" where
  "users_page V org_handle =
     admin_route V org_handle (\<lambda>token.
       andthen (is_call V ''GET'' (users_path V) token [] None) (\<lambda>users_resp.
         ret (Rendered ''admin/users.html''
           [(''org_handle'', JStr org_handle), (''users'', scim_resources users_resp),
            (''api_debug'', ir_debug users_resp)])))"

definition user_form :: "string \<Rightarrow> ('w, 'z) route" where
  "user_form org_handle =
     login_required org_handle (admin_required
       (ret (Rendered ''admin/user_form.html'' [(''org_handle'', JStr org_handle), (''user'', JNull)])))"

definition user_body :: "form \<Rightarrow> exn + json" where
  "user_body form =
     bind_res (form_item form ''email'') (\<lambda>email.
     bind_res (form_item form ''password'') (\<lambda>password.
     bind_res (form_item form ''first_name'') (\<lambda>first.
     bind_res (form_item form ''last_name'') (\<lambda>last.
       Inr (JObj [(''schemas'', JList []), (''userName'', email), (''password'', password),
         (''name'', JObj [(''givenName'', first), (''familyName'', last)]),
         (''emails'', JList [JObj [(''value'', email), (''primary'', JBool True)]])])))))"

text \<open>A new user gets the role of a user, if the answer names the user.\<close>

definition add_user :: "('w, 'k) portal_env \<Rightarrow> string \<Rightarrow> form \<Rightarrow> ('w, 'z) route" where
  "add_user V org_handle form =
     admin_route V org_handle (\<lambda>token.
       andthen (lift_res (user_body form)) (\<lambda>user.
       andthen (is_call V ''POST'' (users_path V) token [] (Some user)) (\<lambda>created.
         if ir_status created \<in> {200, 201} then
           andthen (lift_res (field_or (ir_data created) ''id'' (JStr ''''))) (\<lambda>user_id.
             if truthy user_id then
               andthen (assign_roles_to_user V token (po_tenant_path (pe_cfg V)) user_id [TEAMSPACE_USER]
                   [ir_debug created] True) (\<lambda>debug_list.
                 to_users org_handle (flash_calls ''success'' ''User created.'' debug_list))
             else to_users org_handle (flash_call ''success'' ''User created.'' (ir_debug created)))
         else to_users org_handle (flash_call ''error'' ''Failed to create user.'' (ir_debug created)))))"

text \<open>\<open>session.get("user", {}).get("sub")\<close>.\<close>

definition own_id :: "(('w, 'z) portal_state_scheme, json) prog" where
  "own_id =
     andthen (session_get ''user'' (JObj [])) (\<lambda>user. lift_res (field_or user ''sub'' JNull))"

definition drop_user :: "('w, 'k) portal_env \<Rightarrow> string \<Rightarrow> string \<Rightarrow> string \<Rightarrow> ('w, 'z) route" where
  "drop_user V org_handle user_id token =
     andthen (is_call V ''DELETE'' (users_path V @ ''/'' @ user_id) token [] None) (\<lambda>deleted.
       to_users org_handle
         (if ir_status deleted = 204 then flash_call ''success'' ''User deleted.'' (ir_debug deleted)
          else flash_call ''error'' ''Failed to delete user.'' (ir_debug deleted)))"

definition delete_user :: "('w, 'k) portal_env \<Rightarrow> string \<Rightarrow> string \<Rightarrow> ('w, 'z) route" where
  "delete_user V org_handle user_id =
     login_required org_handle (admin_required
       (andthen (verify_org_handle org_handle) (\<lambda>_.
        andthen own_id (\<lambda>current_user_id.
          if current_user_id = JStr user_id then
            to_users org_handle (flash_typed ''error'' ''You cannot delete your own user account.'')
          else andthen (session_token V) (drop_user V org_handle user_id)))))"

subsection \<open>Roles\<close>

text \<open>The roles of the Console application are not shown.\<close>

definition shown_role :: "json \<Rightarrow> exn + bool" where
  "shown_role role =
     bind_res (field_or role ''audience'' (JObj [])) (\<lambda>audience.
     bind_res (field_or audience ''type'' (JStr '''')) (\<lambda>kind.
     bind_res (field_or audience ''display'' (JStr '''')) (\<lambda>display.
       Inr (\<not> (kind = JStr ''application'' \<and> display = JStr ''Console'')))))"

definition role_shown_with :: "json \<Rightarrow> json \<Rightarrow> json \<Rightarrow> exn + json" where
  "role_shown_with role role_id assigned_users =
     bind_res (field_or role ''displayName'' (JStr '''')) (\<lambda>display_name.
     bind_res (field_or role ''audience'' (JObj [])) (\<lambda>audience.
       Inr (JObj [(''id'', role_id), (''displayName'', display_name), (''audience'', audience), (''users'', assigned_users)])))"

fun roles_with_users ::
  "('w, 'k) portal_env \<Rightarrow> string \<Rightarrow> json list \<Rightarrow> json list \<Rightarrow> json list
     \<Rightarrow> (('w, 'z) portal_state_scheme, json list \<times> json list) prog" where
  "roles_with_users V token [] found debug_list = ret (found, debug_list)"
| "roles_with_users V token (role # roles) found debug_list =
     andthen (lift_res (item role ''id'')) (\<lambda>role_id.
     andthen (traced V ''GET'' (role_path V (py_str (pe_fr V) role_id)) token None debug_list) (\<lambda>(detail, debug_list').
     andthen (lift_res (if ir_status detail = 200 then field_or (ir_data detail) ''users'' (JList []) else Inr (JList []))) (\<lambda>users.
     andthen (lift_res (role_shown_with role role_id users)) (\<lambda>shown.
       roles_with_users V token roles (found @ [shown]) debug_list'))))"

definition roles_page :: "('w, 'k) portal_env \<Rightarrow> string \<Rightarrow> ('w, 'z) route" where
  "roles_page V org_handle =
     admin_route V org_handle (\<lambda>token.
       andthen (traced V ''GET'' (roles_path V) token None []) (\<lambda>(roles_resp, debug_list).
       andthen (lift_res (bind_res (py_list (scim_resources roles_resp)) (only shown_role))) (\<lambda>roles.
       andthen (roles_with_users V token roles [] debug_list) (\<lambda>(shown, debug_list').
       andthen (traced V ''GET'' (users_path V) token None debug_list') (\<lambda>(users_resp, debug_list'').
         ret (Rendered ''admin/roles.html''
           [(''org_handle'', JStr org_handle), (''roles'', JList shown), (''all_users'', scim_resources users_resp),
            (''api_debug_list'', JList debug_list'')]))))))"

definition detail_or :: "json \<Rightarrow> is_result \<Rightarrow> json" where
  "detail_or dflt result = (case ir_data result of JObj d \<Rightarrow> get_or d ''detail'' dflt | _ \<Rightarrow> dflt)"

definition update_role_members :: "('w, 'k) portal_env \<Rightarrow> string \<Rightarrow> string \<Rightarrow> form \<Rightarrow> ('w, 'z) route" where
  "update_role_members V org_handle role_id form =
     admin_route V org_handle (\<lambda>token.
       andthen (traced V ''PATCH'' (role_path V role_id) token
           (Some (patch_op ''users'' (map (\<lambda>uid. JObj [(''value'', JStr uid)]) (form_getlist form ''user_ids'')))) [])
         (\<lambda>(patched, debug_list).
         flash_to
           (if ir_status patched \<in> {200, 204} then
              flash_calls ''success'' ''Role members updated successfully.'' debug_list
            else
              flash_json ''error'' (detail_or (JStr ''Failed to update role members.'') patched)
                [(''api_debug_list'', JList debug_list)])
           ''admin.roles'' [(''org_handle'', org_handle)]))"

subsection \<open>Who deletes whom\<close>

lemma verify_org_handle_state: "snd (verify_org_handle oh s) = s"
  by (simp add: verify_org_handle_def user_field_def session_get_def andthen_def split: sum.split)

lemma verify_org_handle_runs:
  assumes "signed_in u s" and "andthen (verify_org_handle oh) f s = (r, t)"
  shows "t = s \<or> ((truthy (get_or u ''org_handle'' (JStr [])) \<longrightarrow> get_or u ''org_handle'' (JStr []) = JStr oh) \<and> f () s = (r, t))"
  using assms
  by (auto simp: verify_org_handle_def andthen_def user_field_signed_in split: if_splits)

lemma flash_keeps_sent [simp, intro]:
  "keeps sent (flash_typed k msg)" "keeps sent (flash_json k v e)" "keeps sent (flash_call k msg d)"
  "keeps sent (flash_calls k msg l)"
  by (simp_all add: flash_typed_def flash_json_def flash_call_def flash_calls_def)

lemma flash_to_sent: "keeps sent m \<Longrightarrow> flash_to m e a s = (r, t) \<Longrightarrow> sent t = sent s"
  using keepsD [OF flash_to_keeps, of sent m e a s] by simp

lemma drop_user_sends:
  assumes run: "drop_user V oh user_id token s = (r, t)"
  shows "sent t = sent s @ [is_request V ''DELETE'' (users_path V @ ''/'' @ user_id) token [] None]"
proof -
  obtain y v where call: "is_call V ''DELETE'' (users_path V @ ''/'' @ user_id) token [] None s = (y, v)"
    by (meson surj_pair)
  have "sent t = sent v"
  proof (cases y)
    case (Inr deleted)
    then have "flash_to (if ir_status deleted = 204 then flash_call ''success'' ''User deleted.'' (ir_debug deleted)
        else flash_call ''error'' ''Failed to delete user.'' (ir_debug deleted)) ''admin.users'' [(''org_handle'', oh)] v = (r, t)"
      using run call by (simp add: drop_user_def to_users_def andthen_def)
    then show ?thesis by (rule flash_to_sent [rotated]) (intro keeps_if flash_keeps_sent)
  qed (use run call in \<open>simp add: drop_user_def andthen_def\<close>)
  then show ?thesis using is_call_runs [OF call] by simp
qed

lemma session_token_run:
  "dict_get (session s) ''access_token'' = Some token \<Longrightarrow> session_token V s = (Inr (token_text V token), s)"
  by (simp add: session_token_def item_def)

lemma session_token_runs:
  assumes "andthen (session_token V) f s = (r, t)"
  obtains "t = s" | token where "f token s = (r, t)"
  using assms by (auto simp: session_token_def andthen_def split: sum.splits)

lemma own_id_signed_in: "signed_in u s \<Longrightarrow> own_id s = (Inr (get_or u ''sub'' JNull), s)"
  by (simp add: own_id_def session_get_def get_or_def field_or_def)

lemma delete_other_user:
  assumes "signed_in u s" and "get_or u ''sub'' JNull \<noteq> JStr user_id" and "get_or u ''org_handle'' (JStr []) = JStr oh"
    and "truthy (get_or (session s) ''is_admin'' JNull)" and "dict_get (session s) ''access_token'' = Some token"
  shows "delete_user V oh user_id s = drop_user V oh user_id (token_text V token) s"
  using assms own_id_signed_in [OF assms(1)] session_token_run [OF assms(5), of V]
  by (simp add: delete_user_def login_required_def same_org_def admin_required_def verify_org_handle_def
      user_field_signed_in session_get_def andthen_def)


definition demo_user_admin :: dict where
  "demo_user_admin = [(''user'', JObj [(''org_id'', JStr ''1''), (''sub'', JStr ''u1''), (''org_handle'', JStr ''acme'')]),
     (''is_admin'', JBool True), (''access_token'', JStr ''t'')]"


text \<open>
  The guard compares texts, and the identifier goes into the address as it is. An administrator's own
  identifier with a question mark behind it is another text, and the address it makes is that of the
  administrator's own account with an empty query: the guard is passed and the own account is deleted.
\<close>

theorem own_account_behind_a_question_mark:
  assumes user: "signed_in u s" "get_or u ''sub'' JNull = JStr me" "get_or u ''org_handle'' (JStr []) = JStr oh"
    and admin: "truthy (get_or (session s) ''is_admin'' JNull)" "dict_get (session s) ''access_token'' = Some token"
  shows "\<exists>r t q. delete_user V oh (me @ ''?'') s = (r, t) \<and> sent t = sent s @ [q] \<and> meth q = ''DELETE'' \<and>
    url q = is_url V (users_path V @ ''/'' @ me) @ ''?''"
proof -
  obtain r t where run: "delete_user V oh (me @ ''?'') s = (r, t)" by (meson surj_pair)
  then have "drop_user V oh (me @ ''?'') (token_text V token) s = (r, t)"
    using delete_other_user [OF user(1) _ user(3) admin, of "me @ ''?''" V] user(2) by simp
  note drop_user_sends [OF this]
  moreover have "8 \<le> length (users_path V)" by (simp add: users_path_def)
  then have "is_url V (users_path V @ x) = (if startswith (users_path V) ''http://'' \<or> startswith (users_path V) ''https://''
      then users_path V @ x else po_is_base_url (pe_cfg V) @ users_path V @ x)" for x
    by (simp add: is_url_def startswith_def)
  ultimately show ?thesis using run by (simp add: is_request_def)
qed

end
