(* ===== verification/Portal_Idp.thy ===== *)
theory Portal_Idp
  imports Portal_Admin
begin

text \<open>
  \<open>webapp/blueprints/admin.py\<close>, second part: the identity providers of an organization. Every route
  stands behind the roles and the gate on plan and role; adding or changing an identity provider
  takes a series of calls at WSO2 IS for its settings, its claims and the groups of its users.
\<close>

subsection \<open>The gate\<close>

definition check_idp_access ::
  "('w, 'k) portal_env \<Rightarrow> string \<Rightarrow> string \<Rightarrow> string \<Rightarrow> string \<Rightarrow> (('w, 'z) portal_state_scheme, portal_answer option) prog" where
  "check_idp_access V org_handle title description upgrade_template =
     check_plan_and_role V org_handle ''enterprise'' IDP_MANAGER title description upgrade_template"

definition gated_route ::
  "('w, 'k) portal_env \<Rightarrow> string \<Rightarrow> string \<Rightarrow> string \<Rightarrow> string \<Rightarrow> (string \<Rightarrow> ('w, 'z) route) \<Rightarrow> ('w, 'z) route" where
  "gated_route V org_handle title description upgrade_template f =
     login_required org_handle (role_required [TEAMSPACE_ADMIN, IDP_MANAGER]
       (andthen (verify_org_handle org_handle) (\<lambda>_.
        andthen (check_idp_access V org_handle title description upgrade_template) (\<lambda>denied.
          case denied of Some answer \<Rightarrow> ret answer | None \<Rightarrow> andthen (session_token V) f))))"

definition idp_route :: "('w, 'k) portal_env \<Rightarrow> string \<Rightarrow> (string \<Rightarrow> ('w, 'z) route) \<Rightarrow> ('w, 'z) route" where
  "idp_route V org_handle =
     gated_route V org_handle ''Identity Providers'' ''Connect external identity providers for federated SSO.''
       ''admin/idp_upgrade.html''"

subsection \<open>Addresses\<close>

definition idps_path :: "('w, 'k) portal_env \<Rightarrow> string" where
  "idps_path V = po_tenant_path (pe_cfg V) @ ''/o/api/server/v1/identity-providers''"

definition idp_path :: "('w, 'k) portal_env \<Rightarrow> string \<Rightarrow> string" where
  "idp_path V idp_id = idps_path V @ ''/'' @ idp_id"

definition apps_path :: "('w, 'k) portal_env \<Rightarrow> string" where
  "apps_path V = po_tenant_path (pe_cfg V) @ ''/o/api/server/v1/applications''"

subsection \<open>The application and its login flow\<close>

fun find_app :: "string \<Rightarrow> json list \<Rightarrow> exn + dict option" where
  "find_app app_name [] = Inr None"
| "find_app app_name (a # apps) =
     bind_res (as_obj a) (\<lambda>d. if dict_get d ''name'' = Some (JStr app_name) then Inr (Some d) else find_app app_name apps)"

definition app_of_answer :: "('w, 'k) portal_env \<Rightarrow> is_result \<Rightarrow> exn + dict option" where
  "app_of_answer V apps_res =
     (case ir_data apps_res of
        JObj d \<Rightarrow>
          if ir_status apps_res \<noteq> 200 then Inr None
          else bind_res (py_list (get_or d ''applications'' (JList []))) (find_app (po_app_name (pe_cfg V)))
      | _ \<Rightarrow> Inr None)"

definition resolve_teamspace_app_id ::
  "('w, 'k) portal_env \<Rightarrow> string \<Rightarrow> json list \<Rightarrow> (('w, 'z) portal_state_scheme, json \<times> json list) prog" where
  "resolve_teamspace_app_id V token debug_list =
     andthen (traced V ''GET'' (apps_path V) token None debug_list) (\<lambda>(apps_res, debug_list').
     andthen (lift_res (app_of_answer V apps_res)) (\<lambda>app.
       ret (case app of None \<Rightarrow> JNull | Some d \<Rightarrow> opt_json (dict_get d ''id''), debug_list')))"

definition local_option :: json where
  "local_option = JObj [(''idp'', JStr ''LOCAL''), (''authenticator'', JStr ''BasicAuthenticator'')]"

definition auth_sequence :: "string \<Rightarrow> json list \<Rightarrow> json" where
  "auth_sequence kind options =
     JObj [(''type'', JStr kind), (''steps'', JList [JObj [(''id'', JInt 1), (''options'', JList options)]])]"

definition patch_auth_sequence ::
  "('w, 'k) portal_env \<Rightarrow> string \<Rightarrow> string \<Rightarrow> json \<Rightarrow> json list \<Rightarrow> (('w, 'z) portal_state_scheme, json list) prog" where
  "patch_auth_sequence V token app_id sequence debug_list =
     andthen (traced V ''PATCH'' (apps_path V @ ''/'' @ app_id) token
        (Some (JObj [(''authenticationSequence'', sequence)])) debug_list) (\<lambda>(_, debug_list'). ret debug_list')"

text \<open>The login flow of the application is replaced if the application is found.\<close>

definition replace_login_flow ::
  "('w, 'k) portal_env \<Rightarrow> string \<Rightarrow> json \<Rightarrow> json list \<Rightarrow> (('w, 'z) portal_state_scheme, json list) prog" where
  "replace_login_flow V token sequence debug_list =
     andthen (resolve_teamspace_app_id V token debug_list) (\<lambda>(app_id, debug_list').
       if truthy app_id then patch_auth_sequence V token (py_str (pe_fr V) app_id) sequence debug_list' else ret debug_list')"

subsection \<open>Settings of an identity provider\<close>

definition oidc_prop :: "string \<Rightarrow> json \<Rightarrow> json" where
  "oidc_prop k v = JObj [(''key'', JStr k), (''value'', v)]"

definition or_text :: "string \<Rightarrow> string \<Rightarrow> string" where
  "or_text a b = (if a \<noteq> [] then a else b)"

text \<open>The secret comes from the form or, when an identity provider is changed, from WSO2 IS.\<close>

definition build_oidc_authenticator_properties ::
  "('w, 'k) portal_env \<Rightarrow> form \<Rightarrow> exn + json \<Rightarrow> json \<Rightarrow> string \<Rightarrow> exn + json" where
  "build_oidc_authenticator_properties V form client_secret org_id token_endpoint =
     bind_res (form_item form ''client_id'') (\<lambda>client_id.
     bind_res client_secret (\<lambda>secret.
     bind_res (form_item form ''auth_endpoint'') (\<lambda>auth_endpoint.
       let base = po_is_base_url (pe_cfg V);
           default_scopes = ''openid email profile groups'';
           jwks_uri = strip (form_get form ''jwks_uri'' '''');
           userinfo_endpoint = strip (form_get form ''userinfo_endpoint'' '''');
           logout_endpoint = strip (form_get form ''logout_endpoint'' '''');
           scopes = or_text (strip (or_text (form_get form ''scopes'' default_scopes) default_scopes)) default_scopes;
           at_endpoint = (\<lambda>rest. replace_str ''/oauth2/token'' rest token_endpoint)
       in Inr (JList
        [oidc_prop ''ClientId'' client_id, oidc_prop ''ClientSecret'' secret, oidc_prop ''OAuth2AuthzEPUrl'' auth_endpoint,
         oidc_prop ''OAuth2TokenEPUrl'' (JStr token_endpoint),
         oidc_prop ''JwksUri'' (JStr (or_text jwks_uri (at_endpoint ''/oauth2/jwks''))),
         oidc_prop ''UserInfoUrl'' (JStr (or_text userinfo_endpoint (at_endpoint ''/oauth2/userinfo''))),
         oidc_prop ''OIDCLogoutEPUrl'' (JStr (or_text logout_endpoint (at_endpoint ''/oidc/logout''))),
         oidc_prop ''Scopes'' (JStr scopes), oidc_prop ''IsPKCEEnabled'' (JStr ''false''),
         oidc_prop ''IsBasicAuthEnabled'' (JStr ''false''),
         oidc_prop ''callbackUrl'' (JStr (base @ ''/o/'' @ py_str (pe_fr V) org_id @ ''/commonauth'')),
         oidc_prop ''AdditionalQueryParameters'' (JStr (''scope='' @ scopes)),
         oidc_prop ''commonAuthEPUrl'' (JStr (base @ ''/commonauth''))]))))"

definition build_jit_put_body :: "bool \<Rightarrow> json" where
  "build_jit_put_body jit_enabled =
     JObj [(''accountLookupAttributeMappings'', JList []), (''associateLocalUser'', JBool True),
       (''attributeSyncMethod'', JStr ''PRESERVE_LOCAL''), (''isEnabled'', JBool jit_enabled),
       (''scheme'', JStr ''PROVISION_SILENTLY''), (''skipJITForLookupFailure'', JBool False),
       (''userstore'', JStr ''PRIMARY'')]"

definition jit_enabled_in :: "form \<Rightarrow> bool" where
  "jit_enabled_in form \<longleftrightarrow> map_of form ''jit_enabled'' = Some ''true''"

definition put_jit ::
  "('w, 'k) portal_env \<Rightarrow> string \<Rightarrow> string \<Rightarrow> form \<Rightarrow> json list \<Rightarrow> (('w, 'z) portal_state_scheme, is_result \<times> json list) prog" where
  "put_jit V token idp_id form debug_list =
     traced V ''PUT'' (idp_path V idp_id @ ''/provisioning/jit'') token
       (Some (build_jit_put_body (jit_enabled_in form))) debug_list"

subsection \<open>Groups of an identity provider and roles\<close>

text \<open>Dict keys and members of a set: lists and dicts are unhashable, numbers compare by value.\<close>

definition hashed :: "json \<Rightarrow> exn + json" where
  "hashed v = (case v of JList _ \<Rightarrow> Inl (TypeError ''unhashable type'') | JObj _ \<Rightarrow> Inl (TypeError ''unhashable type'') | _ \<Rightarrow> Inr v)"

fun number :: "json \<Rightarrow> real option" where
  "number (JBool b) = Some (if b then 1 else 0)"
| "number (JInt i) = Some (real_of_int i)"
| "number (JFloat r) = Some r"
| "number _ = None"

definition same_key :: "json \<Rightarrow> json \<Rightarrow> bool" where
  "same_key a b \<longleftrightarrow> a = b \<or> (number a \<noteq> None \<and> number a = number b)"

definition external_group_names :: "form \<Rightarrow> string list" where
  "external_group_names form = filter (\<lambda>g. g \<noteq> []) (map strip (split_char (CHR '','') (form_get form ''groups'' [])))"

definition group_named :: "string \<Rightarrow> json" where
  "group_named name = JObj [(''name'', JStr name), (''id'', JStr '''')]"

definition resolve_groups ::
  "('w, 'k) portal_env \<Rightarrow> string \<Rightarrow> string \<Rightarrow> form \<Rightarrow> json list \<Rightarrow> (('w, 'z) portal_state_scheme, json \<times> json list) prog" where
  "resolve_groups V token idp_id form debug_list =
     andthen (traced V ''PUT'' (idp_path V idp_id @ ''/groups'') token
        (Some (JList (map group_named (external_group_names form)))) debug_list) (\<lambda>(groups_res, debug_list').
       if ir_status groups_res \<in> {200, 201} \<and> (\<exists>gs. ir_data groups_res = JList gs) then
         ret (ir_data groups_res, debug_list')
       else
         andthen (traced V ''GET'' (idp_path V idp_id) token None debug_list') (\<lambda>(detail_res, debug_list'').
         andthen (lift_res (if ir_status detail_res = 200 then field_or (ir_data detail_res) ''groups'' (JList [])
             else Inr (JList []))) (\<lambda>groups.
           ret (groups, debug_list''))))"

text \<open>The identifiers of those groups that have one, and that also have a name of the list.\<close>

definition with_id :: "json \<Rightarrow> exn + bool" where
  "with_id g = bind_res (field_or g ''id'' JNull) (\<lambda>i. Inr (truthy i))"

definition selected :: "string list \<Rightarrow> json \<Rightarrow> exn + bool" where
  "selected names g =
     bind_res (field_or g ''name'' JNull) (\<lambda>name. if name \<in> JStr ` set names then with_id g else Inr False)"

definition idp_group_ids :: "json list \<Rightarrow> exn + json list" where
  "idp_group_ids groups = pick with_id (\<lambda>g. bind_res (item g ''id'') hashed) groups"

definition selected_gids :: "string list \<Rightarrow> json list \<Rightarrow> exn + json list" where
  "selected_gids names groups = pick (selected names) (\<lambda>g. item g ''id'') groups"

definition foreign :: "json list \<Rightarrow> json \<Rightarrow> exn + bool" where
  "foreign ids g =
     bind_res (field_or g ''value'' JNull) (\<lambda>v. bind_res (hashed v) (\<lambda>k. Inr (\<not> list_ex (same_key k) ids)))"

definition combined_groups :: "json list \<Rightarrow> json list \<Rightarrow> json \<Rightarrow> exn + json list" where
  "combined_groups ids gids current_groups =
     bind_res (py_list current_groups) (\<lambda>current.
     bind_res (only (foreign ids) current) (\<lambda>others.
       Inr (others @ map (\<lambda>gid. JObj [(''value'', gid)]) gids)))"

definition role_groups_key :: "string \<Rightarrow> string" where
  "role_groups_key role_id = ''role_groups['' @ role_id @ '']''"

definition update_role_groups ::
  "('w, 'k) portal_env \<Rightarrow> string \<Rightarrow> json list \<Rightarrow> json list \<Rightarrow> string \<Rightarrow> is_result \<Rightarrow> json list
     \<Rightarrow> (('w, 'z) portal_state_scheme, json list) prog" where
  "update_role_groups V token ids gids role_id role_detail debug_list =
     (if ir_status role_detail \<noteq> 200 then ret debug_list
      else
        andthen (lift_res (bind_res (field_or (ir_data role_detail) ''groups'' (JList [])) (combined_groups ids gids)))
          (\<lambda>combined.
          andthen (traced V ''PATCH'' (role_path V role_id) token (Some (patch_op ''groups'' combined)) debug_list)
            (\<lambda>(_, debug_list'). ret debug_list')))"

definition map_role ::
  "('w, 'k) portal_env \<Rightarrow> string \<Rightarrow> form \<Rightarrow> json list \<Rightarrow> json list \<Rightarrow> json \<Rightarrow> json list
     \<Rightarrow> (('w, 'z) portal_state_scheme, json list) prog" where
  "map_role V token form groups ids role debug_list =
     andthen (lift_res (item role ''id'')) (\<lambda>rid.
       let role_id = py_str (pe_fr V) rid in
       andthen (lift_res (selected_gids (form_getlist form (role_groups_key role_id)) groups)) (\<lambda>gids.
       andthen (traced V ''GET'' (role_path V role_id) token None debug_list) (\<lambda>(role_detail, debug_list').
         update_role_groups V token ids gids role_id role_detail debug_list')))"

fun map_roles ::
  "('w, 'k) portal_env \<Rightarrow> string \<Rightarrow> form \<Rightarrow> json list \<Rightarrow> json list \<Rightarrow> json list \<Rightarrow> json list
     \<Rightarrow> (('w, 'z) portal_state_scheme, json list) prog" where
  "map_roles V token form groups ids [] debug_list = ret debug_list"
| "map_roles V token form groups ids (role # roles) debug_list =
     andthen (map_role V token form groups ids role debug_list) (\<lambda>debug_list'.
       map_roles V token form groups ids roles debug_list')"

definition roles_if_ok :: "is_result \<Rightarrow> json" where
  "roles_if_ok roles_res = (if ir_status roles_res = 200 then scim_resources roles_res else JList [])"

definition apply_idp_role_group_mappings ::
  "('w, 'k) portal_env \<Rightarrow> string \<Rightarrow> string \<Rightarrow> form \<Rightarrow> json list \<Rightarrow> (('w, 'z) portal_state_scheme, json list) prog" where
  "apply_idp_role_group_mappings V token idp_id form debug_list =
     andthen (resolve_groups V token idp_id form debug_list) (\<lambda>(resolved, debug_list').
     andthen (traced V ''GET'' (roles_path V) token None debug_list') (\<lambda>(roles_res, debug_list'').
     andthen (lift_res (py_list resolved)) (\<lambda>groups.
     andthen (lift_res (idp_group_ids groups)) (\<lambda>ids.
     andthen (lift_res (py_list (roles_if_ok roles_res))) (\<lambda>roles.
       map_roles V token form groups ids roles debug_list'')))))"

subsection \<open>The pages\<close>

definition idps_of :: "is_result \<Rightarrow> json" where
  "idps_of idp_resp = (case ir_data idp_resp of JObj d \<Rightarrow> get_or d ''identityProviders'' (JList []) | _ \<Rightarrow> JList [])"

definition idp_page :: "('w, 'k) portal_env \<Rightarrow> string \<Rightarrow> ('w, 'z) route" where
  "idp_page V org_handle =
     idp_route V org_handle (\<lambda>token.
       andthen (is_call V ''GET'' (idps_path V) token [] None) (\<lambda>idp_resp.
         ret (Rendered ''admin/idp.html''
           [(''org_handle'', JStr org_handle), (''idps'', idps_of idp_resp), (''api_debug'', ir_debug idp_resp)])))"

definition idp_form :: "('w, 'k) portal_env \<Rightarrow> string \<Rightarrow> ('w, 'z) route" where
  "idp_form V org_handle =
     idp_route V org_handle (\<lambda>token.
       andthen (is_call V ''GET'' (roles_path V) token [] None) (\<lambda>roles_res.
         ret (Rendered ''admin/idp_form.html''
           [(''org_handle'', JStr org_handle), (''roles'', roles_if_ok roles_res), (''api_debug'', ir_debug roles_res)])))"

definition to_idp :: "string \<Rightarrow> (('w, 'z) portal_state_scheme, unit) prog \<Rightarrow> ('w, 'z) route" where
  "to_idp org_handle m = flash_to m ''admin.idp'' [(''org_handle'', org_handle)]"

subsection \<open>Adding an identity provider\<close>

fun has_org_role :: "json list \<Rightarrow> exn + bool" where
  "has_org_role [] = Inr False"
| "has_org_role (r # rs) =
     bind_res (field_or r ''audience'' (JObj [])) (\<lambda>audience.
     bind_res (field_or audience ''type'' JNull) (\<lambda>kind.
       if kind \<in> {JStr ''organization'', JStr ''application''} then Inr True else has_org_role rs))"

definition role_exists :: "is_result \<Rightarrow> exn + bool" where
  "role_exists check_res =
     (if ir_status check_res = 200 then bind_res (py_list (scim_resources check_res)) has_org_role else Inr False)"

definition org_role_body :: "string \<Rightarrow> json \<Rightarrow> json" where
  "org_role_body role_name org_id =
     JObj [(''displayName'', JStr role_name),
       (''audience'', JObj [(''type'', JStr ''organization''), (''value'', org_id)]), (''schemas'', JList [])]"

fun ensure_roles ::
  "('w, 'k) portal_env \<Rightarrow> string \<Rightarrow> json \<Rightarrow> string list \<Rightarrow> json list \<Rightarrow> (('w, 'z) portal_state_scheme, json list) prog" where
  "ensure_roles V token org_id [] debug_list = ret debug_list"
| "ensure_roles V token org_id (role_name # role_names) debug_list =
     andthen (traced V ''GET'' (roles_path V @ ''?filter=displayName+eq+'' @ role_name) token None debug_list)
       (\<lambda>(check_res, debug_list').
     andthen (lift_res (role_exists check_res)) (\<lambda>exists.
     andthen (if exists then ret debug_list'
        else andthen (traced V ''POST'' (roles_path V) token (Some (org_role_body role_name org_id)) debug_list')
          (\<lambda>(_, debug_list''). ret debug_list'')) (\<lambda>debug_list''.
       ensure_roles V token org_id role_names debug_list'')))"

definition claim_uri :: "string \<Rightarrow> string" where
  "claim_uri name = ''http://wso2.org/claims/'' @ name"

definition claim_mapping :: "string \<Rightarrow> json \<Rightarrow> json" where
  "claim_mapping idp_claim local_claim = JObj [(''idpClaim'', JStr idp_claim), (''localClaim'', local_claim)]"

definition uri_only :: "string \<Rightarrow> json" where
  "uri_only name = JObj [(''uri'', JStr (claim_uri name))]"

definition role_mapping :: "string \<Rightarrow> string \<Rightarrow> json" where
  "role_mapping idp_role local_role = JObj [(''idpRole'', JStr idp_role), (''localRole'', JStr local_role)]"

definition idp_body :: "string \<Rightarrow> json \<Rightarrow> string \<Rightarrow> bool \<Rightarrow> json \<Rightarrow> json" where
  "idp_body org_handle name group_attribute jit_enabled properties =
     JObj
      [(''name'', name),
       (''federatedAuthenticators'', JObj
         [(''defaultAuthenticatorId'', JStr OIDC_AUTHENTICATOR_ID),
          (''authenticators'', JList [JObj
            [(''authenticatorId'', JStr OIDC_AUTHENTICATOR_ID), (''isEnabled'', JBool True), (''properties'', properties)]])]),
       (''claims'', JObj
         [(''userIdClaim'', uri_only ''emailaddress''), (''roleClaim'', uri_only ''roles''),
          (''mappings'', JList
            [claim_mapping ''sub'' (uri_only ''username''), claim_mapping ''email'' (uri_only ''emailaddress''),
             claim_mapping group_attribute (uri_only ''roles''), claim_mapping ''roles'' (uri_only ''roles'')])]),
       (''roles'', JObj
         [(''mappings'', JList
           [role_mapping ''admin'' TEAMSPACE_ADMIN, role_mapping ''user'' TEAMSPACE_USER,
            role_mapping ''PRIMARY/admin'' TEAMSPACE_ADMIN, role_mapping ''PRIMARY/user'' TEAMSPACE_USER,
            role_mapping (org_handle @ ''/admin'') TEAMSPACE_ADMIN, role_mapping (org_handle @ ''/user'') TEAMSPACE_USER])]),
       (''provisioning'', JObj [(''jit'', build_jit_put_body jit_enabled)])]"

definition idp_body_of :: "('w, 'k) portal_env \<Rightarrow> string \<Rightarrow> json \<Rightarrow> form \<Rightarrow> exn + (json \<times> json)" where
  "idp_body_of V org_handle org_id form =
     bind_res (form_item form ''name'') (\<lambda>name.
     bind_res (form_item form ''token_endpoint'') (\<lambda>token_endpoint.
     bind_res (build_oidc_authenticator_properties V form (form_item form ''client_secret'') org_id
         (py_str (pe_fr V) token_endpoint)) (\<lambda>properties.
       Inr (name, idp_body org_handle name (form_get form ''group_attribute'' ''groups'') (jit_enabled_in form) properties))))"

definition idp_option :: "json \<Rightarrow> json" where
  "idp_option name = JObj [(''idp'', name), (''authenticator'', JStr ''OpenIDConnectAuthenticator'')]"

text \<open>What follows once WSO2 IS has created the identity provider.\<close>

definition complete_idp ::
  "('w, 'k) portal_env \<Rightarrow> string \<Rightarrow> string \<Rightarrow> json \<Rightarrow> json \<Rightarrow> form \<Rightarrow> json list \<Rightarrow> ('w, 'z) route" where
  "complete_idp V org_handle token name created form debug_list =
     andthen (lift_res (field_or created ''id'' JNull)) (\<lambda>idp_id.
     andthen (if truthy idp_id then
          andthen (put_jit V token (py_str (pe_fr V) idp_id) form debug_list) (\<lambda>(_, debug_list').
            apply_idp_role_group_mappings V token (py_str (pe_fr V) idp_id) form debug_list')
        else ret debug_list) (\<lambda>debug_list'.
     andthen (replace_login_flow V token (auth_sequence ''USER_DEFINED'' [local_option, idp_option name]) debug_list')
       (\<lambda>debug_list''.
       to_idp org_handle (flash_calls ''success'' ''Identity Provider created.'' debug_list''))))"

definition do_add_idp :: "('w, 'k) portal_env \<Rightarrow> string \<Rightarrow> form \<Rightarrow> string \<Rightarrow> ('w, 'z) route" where
  "do_add_idp V org_handle form token =
     andthen (user_field ''org_id'') (\<lambda>org_id.
     andthen (ensure_roles V token org_id [TEAMSPACE_ADMIN, TEAMSPACE_USER] []) (\<lambda>debug_list.
     andthen (lift_res (idp_body_of V org_handle org_id form)) (\<lambda>(name, idp).
     andthen (traced V ''POST'' (idps_path V) token (Some idp) debug_list) (\<lambda>(created, debug_list').
       if ir_status created \<in> {200, 201} then complete_idp V org_handle token name (ir_data created) form debug_list'
       else to_idp org_handle (flash_calls ''error'' ''Failed to create IdP.'' debug_list')))))"

definition add_idp :: "('w, 'k) portal_env \<Rightarrow> string \<Rightarrow> form \<Rightarrow> ('w, 'z) route" where
  "add_idp V org_handle form = idp_route V org_handle (do_add_idp V org_handle form)"

subsection \<open>Removing one\<close>

definition do_delete_idp :: "('w, 'k) portal_env \<Rightarrow> string \<Rightarrow> string \<Rightarrow> string \<Rightarrow> ('w, 'z) route" where
  "do_delete_idp V org_handle idp_id token =
     andthen (traced V ''GET'' (idp_path V idp_id) token None []) (\<lambda>(_, debug_list).
     andthen (replace_login_flow V token (auth_sequence ''DEFAULT'' [local_option]) debug_list) (\<lambda>debug_list'.
     andthen (traced V ''DELETE'' (idp_path V idp_id) token None debug_list') (\<lambda>(deleted, debug_list'').
       to_idp org_handle
         (if ir_status deleted \<in> {200, 204} then
            flash_calls ''success'' ''Identity Provider deleted successfully.'' debug_list''
          else flash_calls ''error'' ''Failed to delete Identity Provider.'' debug_list''))))"

definition delete_idp :: "('w, 'k) portal_env \<Rightarrow> string \<Rightarrow> string \<Rightarrow> ('w, 'z) route" where
  "delete_idp V org_handle idp_id = idp_route V org_handle (do_delete_idp V org_handle idp_id)"

subsection \<open>Changing one\<close>

text \<open>A dict whose entries are looked up by strings only: entries under other keys are left out.\<close>

definition key_set :: "dict \<Rightarrow> json \<Rightarrow> json \<Rightarrow> exn + dict" where
  "key_set d k v = bind_res (hashed k) (\<lambda>k'. Inr (case k' of JStr s \<Rightarrow> dict_set d s v | _ \<Rightarrow> d))"

fun props_dict :: "dict \<Rightarrow> json list \<Rightarrow> exn + dict" where
  "props_dict d [] = Inr d"
| "props_dict d (p # ps) =
     bind_res (field_or p ''key'' JNull) (\<lambda>k.
       if truthy k then
         bind_res (field_or p ''value'' JNull) (\<lambda>v. bind_res (key_set d k v) (\<lambda>d'. props_dict d' ps))
       else props_dict d ps)"

definition props_of :: "is_result \<Rightarrow> exn + dict" where
  "props_of auth_res =
     (case ir_data auth_res of
        JObj d \<Rightarrow>
          if ir_status auth_res = 200 then bind_res (py_list (get_or d ''properties'' (JList []))) (props_dict [])
          else Inr []
      | _ \<Rightarrow> Inr [])"

definition authenticator_path :: "('w, 'k) portal_env \<Rightarrow> string \<Rightarrow> string" where
  "authenticator_path V idp_id = idp_path V idp_id @ ''/federated-authenticators/'' @ OIDC_AUTHENTICATOR_ID"

definition fetch_idp_props_dict ::
  "('w, 'k) portal_env \<Rightarrow> string \<Rightarrow> string \<Rightarrow> json list \<Rightarrow> (('w, 'z) portal_state_scheme, dict \<times> json list) prog" where
  "fetch_idp_props_dict V token idp_id debug_list =
     andthen (traced V ''GET'' (authenticator_path V idp_id) token None debug_list) (\<lambda>(auth_res, debug_list').
     andthen (lift_res (props_of auth_res)) (\<lambda>props. ret (props, debug_list')))"

definition DEFAULT_LOCAL_CLAIMS :: "(string \<times> json) list" where
  "DEFAULT_LOCAL_CLAIMS =
     [(claim_uri ''username'', JObj [(''id'', JStr ''aHR0cDovL3dzbzIub3JnL2NsYWltcy91c2VybmFtZQ''), (''displayName'', JStr ''Username'')]),
      (claim_uri ''emailaddress'', JObj [(''id'', JStr ''aHR0cDovL3dzbzIub3JnL2NsYWltcy9lbWFpbGFkZHJlc3M''), (''displayName'', JStr ''Email'')]),
      (claim_uri ''roles'', JObj [(''id'', JStr ''aHR0cDovL3dzbzIub3JnL2NsYWltcy9yb2xlcw''), (''displayName'', JStr ''Roles'')])]"

definition index_claim :: "dict \<Rightarrow> json \<Rightarrow> exn + dict" where
  "index_claim idx c =
     bind_res (as_obj c) (\<lambda>d.
       if truthy (get_or d ''uri'' JNull) then
         key_set idx (get_or d ''uri'' JNull)
           (JObj [(''id'', get_or d ''id'' JNull), (''displayName'', get_or d ''displayName'' JNull)])
       else Inr idx)"

fun index_mappings :: "dict \<Rightarrow> json list \<Rightarrow> exn + dict" where
  "index_mappings idx [] = Inr idx"
| "index_mappings idx (m # ms) =
     bind_res (field_or m ''localClaim'' (JObj [])) (\<lambda>lc. bind_res (index_claim idx lc) (\<lambda>idx'. index_mappings idx' ms))"

definition claim_known :: "dict \<Rightarrow> string \<Rightarrow> bool" where
  "claim_known idx uri \<longleftrightarrow> (case dict_get idx uri of Some (JObj d) \<Rightarrow> truthy (get_or d ''id'' JNull) | _ \<Rightarrow> False)"

fun fill_claims :: "(string \<times> json) list \<Rightarrow> dict \<Rightarrow> dict" where
  "fill_claims [] idx = idx"
| "fill_claims ((uri, v) # defaults) idx =
     fill_claims defaults (if claim_known idx uri then idx else dict_set idx uri v)"

definition build_local_claims_index :: "dict \<Rightarrow> exn + dict" where
  "build_local_claims_index current_idp =
     bind_res (as_obj (get_or current_idp ''claims'' (JObj []))) (\<lambda>claims.
     bind_res (index_claim [] (get_or claims ''userIdClaim'' (JObj []))) (\<lambda>idx.
     bind_res (index_claim idx (get_or claims ''roleClaim'' (JObj []))) (\<lambda>idx'.
     bind_res (py_list (get_or claims ''mappings'' (JList []))) (\<lambda>ms.
     bind_res (index_mappings idx' ms) (\<lambda>idx''. Inr (fill_claims DEFAULT_LOCAL_CLAIMS idx''))))))"

definition make_local_claim :: "dict \<Rightarrow> string \<Rightarrow> json" where
  "make_local_claim idx uri =
     (let info = (case get_or idx uri (JObj []) of JObj d \<Rightarrow> d | _ \<Rightarrow> []) in
      JObj [(''uri'', JStr uri), (''id'', get_or info ''id'' (JStr '''')),
        (''displayName'', get_or info ''displayName'' (JStr ''''))])"

definition build_claims_put_body :: "dict \<Rightarrow> json \<Rightarrow> json" where
  "build_claims_put_body idx group_attribute =
     (let local_claim = (\<lambda>name. make_local_claim idx (claim_uri name));
          mapping = (\<lambda>c l. JObj [(''idpClaim'', c), (''localClaim'', l)]) in
      JObj
      [(''userIdClaim'', local_claim ''emailaddress''), (''roleClaim'', local_claim ''roles''),
       (''mappings'', JList
         [mapping (JStr ''sub'') (local_claim ''username''), mapping (JStr ''email'') (local_claim ''emailaddress''),
          mapping group_attribute (local_claim ''roles''), mapping (JStr ''roles'') (local_claim ''roles'')])])"

definition edited_secret :: "form \<Rightarrow> dict \<Rightarrow> json" where
  "edited_secret form props =
     (let posted = form_get form ''client_secret'' '''' in
      if posted \<noteq> [] then JStr posted else opt_json (dict_get props ''ClientSecret''))"

definition authenticator_body :: "json \<Rightarrow> json" where
  "authenticator_body properties =
     JObj [(''name'', JStr OIDC_AUTHENTICATOR_NAME), (''isEnabled'', JBool True), (''definedBy'', JStr ''SYSTEM''),
       (''isDefault'', JBool True), (''properties'', properties)]"

definition rename_body :: "json \<Rightarrow> json" where
  "rename_body name =
     JList [JObj [(''operation'', JStr ''REPLACE''), (''path'', JStr ''/name''), (''value'', name)]]"

definition put_claims ::
  "('w, 'k) portal_env \<Rightarrow> string \<Rightarrow> string \<Rightarrow> form \<Rightarrow> json \<Rightarrow> json list \<Rightarrow> (('w, 'z) portal_state_scheme, json list) prog" where
  "put_claims V token idp_id form current_idp debug_list =
     andthen (lift_res (form_item form ''group_attribute'')) (\<lambda>group_attribute.
     andthen (lift_res (bind_res (as_obj current_idp) build_local_claims_index)) (\<lambda>idx.
     andthen (traced V ''PUT'' (idp_path V idp_id @ ''/claims'') token
        (Some (build_claims_put_body idx group_attribute)) debug_list) (\<lambda>(_, debug_list'). ret debug_list')))"

text \<open>The calls of an edit after the identity provider and its properties have been read.\<close>

definition save_idp ::
  "('w, 'k) portal_env \<Rightarrow> string \<Rightarrow> string \<Rightarrow> form \<Rightarrow> json \<Rightarrow> dict \<Rightarrow> json list \<Rightarrow> (('w, 'z) portal_state_scheme, json list) prog" where
  "save_idp V token idp_id form current_idp props debug_list =
     andthen (lift_res (form_item form ''name'')) (\<lambda>name.
     andthen (lift_res (form_item form ''token_endpoint'')) (\<lambda>token_endpoint.
     andthen (user_field ''org_id'') (\<lambda>org_id.
     andthen (traced V ''PATCH'' (idp_path V idp_id) token (Some (rename_body name)) debug_list) (\<lambda>(_, debug_list').
     andthen (lift_res (build_oidc_authenticator_properties V form (Inr (edited_secret form props)) org_id
         (py_str (pe_fr V) token_endpoint))) (\<lambda>properties.
     andthen (traced V ''PUT'' (authenticator_path V idp_id) token (Some (authenticator_body properties)) debug_list')
       (\<lambda>(_, debug_list'').
     andthen (put_jit V token idp_id form debug_list'') (\<lambda>(_, debug_list''').
     andthen (put_claims V token idp_id form current_idp debug_list''') (\<lambda>debug_list''''.
       apply_idp_role_group_mappings V token idp_id form debug_list''''))))))))"

definition do_edit_idp :: "('w, 'k) portal_env \<Rightarrow> string \<Rightarrow> string \<Rightarrow> form \<Rightarrow> string \<Rightarrow> ('w, 'z) route" where
  "do_edit_idp V org_handle idp_id form token =
     andthen (traced V ''GET'' (idp_path V idp_id) token None []) (\<lambda>(idp_res, debug_list).
       if ir_status idp_res \<noteq> 200 then
         to_idp org_handle (flash_calls ''error'' ''Failed to update Identity Provider details.'' debug_list)
       else
         andthen (fetch_idp_props_dict V token idp_id debug_list) (\<lambda>(props, debug_list').
         andthen (save_idp V token idp_id form (ir_data idp_res) props debug_list') (\<lambda>debug_list''.
           to_idp org_handle (flash_calls ''success'' ''Identity Provider updated successfully.'' debug_list''))))"

definition edit_idp :: "('w, 'k) portal_env \<Rightarrow> string \<Rightarrow> string \<Rightarrow> form \<Rightarrow> ('w, 'z) route" where
  "edit_idp V org_handle idp_id form = idp_route V org_handle (do_edit_idp V org_handle idp_id form)"

subsection \<open>The form for changing one\<close>

fun group_mapping :: "json list \<Rightarrow> exn + dict option" where
  "group_mapping [] = Inr None"
| "group_mapping (m # ms) =
     bind_res (as_obj m) (\<lambda>d.
     bind_res (field_or (get_or d ''localClaim'' (JObj [])) ''uri'' JNull) (\<lambda>uri.
       if uri \<in> {JStr (claim_uri ''groups''), JStr (claim_uri ''roles'')} then Inr (Some d) else group_mapping ms))"

definition group_attribute_of :: "is_result \<Rightarrow> exn + json" where
  "group_attribute_of claims_res =
     bind_res (field_or (ir_data claims_res) ''mappings'' (JList [])) (\<lambda>mappings.
     bind_res (bind_res (py_list mappings) group_mapping) (\<lambda>found.
       Inr (case found of Some m \<Rightarrow> get_or m ''idpClaim'' JNull | None \<Rightarrow> JStr ''groups'')))"

definition jit_of :: "dict \<Rightarrow> exn + json" where
  "jit_of idp_data =
     bind_res (field_or (get_or idp_data ''provisioning'' (JObj [])) ''jit'' (JObj [])) (\<lambda>jit.
       field_or jit ''isEnabled'' (JBool False))"

definition with_name :: "json \<Rightarrow> exn + bool" where
  "with_name g = bind_res (field_or g ''name'' JNull) (\<lambda>n. Inr (truthy n))"

text \<open>\<open>", ".join(names)\<close>: an item that is not a string raises.\<close>

definition join_names :: "json list \<Rightarrow> exn + string" where
  "join_names names =
     bind_res (each (\<lambda>n. case n of JStr s \<Rightarrow> Inr s | _ \<Rightarrow> Inl (TypeError ''expected str instance'')) names) (\<lambda>ss.
       Inr (join_str '', '' ss))"

definition names_among :: "json \<Rightarrow> json list \<Rightarrow> exn + json list" where
  "names_among assigned =
     pick
       (\<lambda>g. bind_res (with_id g) (\<lambda>yes.
         if yes then
           bind_res (py_list assigned) (\<lambda>gs.
           bind_res (each (\<lambda>a. field_or a ''value'' JNull) gs) (\<lambda>vs.
           bind_res (item g ''id'') (\<lambda>i. Inr (list_ex (same_key i) vs))))
         else Inr False))
       (\<lambda>g. item g ''name'')"

fun roles_with_mappings ::
  "('w, 'k) portal_env \<Rightarrow> string \<Rightarrow> json \<Rightarrow> json list \<Rightarrow> json list \<Rightarrow> (('w, 'z) portal_state_scheme, json list) prog" where
  "roles_with_mappings V token idp_groups [] found = ret found"
| "roles_with_mappings V token idp_groups (role # roles) found =
     andthen (lift_res (item role ''id'')) (\<lambda>role_id.
     andthen (is_call V ''GET'' (role_path V (py_str (pe_fr V) role_id)) token [] None) (\<lambda>detail.
     andthen (lift_res (if ir_status detail = 200 then
           bind_res (field_or (ir_data detail) ''groups'' (JList [])) (\<lambda>assigned.
           bind_res (py_list idp_groups) (names_among assigned))
         else Inr [])) (\<lambda>mapped.
     andthen (lift_res (field_or role ''displayName'' JNull)) (\<lambda>display_name.
       roles_with_mappings V token idp_groups roles
         (found @ [JObj [(''id'', role_id), (''displayName'', display_name), (''mapped_groups'', JList mapped)]])))))"

definition idp_edit_context ::
  "string \<Rightarrow> string \<Rightarrow> dict \<Rightarrow> dict \<Rightarrow> json \<Rightarrow> json \<Rightarrow> json list \<Rightarrow> string \<Rightarrow> json list \<Rightarrow> json \<Rightarrow> (string \<times> json) list" where
  "idp_edit_context org_handle idp_id idp_data props jit group_attribute groups groups_str roles debug =
     [(''org_handle'', JStr org_handle), (''idp_id'', JStr idp_id), (''idp'', JObj idp_data),
      (''client_id'', get_or props ''ClientId'' (JStr '''')), (''auth_endpoint'', get_or props ''OAuth2AuthzEPUrl'' (JStr '''')),
      (''token_endpoint'', get_or props ''OAuth2TokenEPUrl'' (JStr '''')), (''jwks_uri'', get_or props ''JwksUri'' (JStr '''')),
      (''userinfo_endpoint'', get_or props ''UserInfoUrl'' (JStr '''')),
      (''logout_endpoint'', get_or props ''OIDCLogoutEPUrl'' (JStr '''')),
      (''scopes'', get_or props ''Scopes'' (JStr ''openid email profile groups'')), (''jit_enabled'', jit),
      (''group_attribute'', group_attribute), (''external_groups'', JList groups),
      (''external_groups_str'', JStr groups_str), (''roles'', JList roles), (''api_debug'', debug)]"

definition do_edit_idp_form :: "('w, 'k) portal_env \<Rightarrow> string \<Rightarrow> string \<Rightarrow> string \<Rightarrow> ('w, 'z) route" where
  "do_edit_idp_form V org_handle idp_id token =
     andthen (is_call V ''GET'' (idp_path V idp_id) token [] None) (\<lambda>idp_res.
       if ir_status idp_res \<noteq> 200 then
         to_idp org_handle (flash_call ''error'' ''Failed to fetch Identity Provider details.'' (ir_debug idp_res))
       else
         andthen (is_call V ''GET'' (authenticator_path V idp_id) token [] None) (\<lambda>auth_res.
         andthen (lift_res (props_of auth_res)) (\<lambda>props.
         andthen (lift_res (as_obj (ir_data idp_res))) (\<lambda>idp_data.
         andthen (lift_res (jit_of idp_data)) (\<lambda>jit.
         andthen (is_call V ''GET'' (idp_path V idp_id @ ''/claims'') token [] None) (\<lambda>claims_res.
         andthen (lift_res (group_attribute_of claims_res)) (\<lambda>group_attribute.
         let idp_groups = get_or idp_data ''groups'' (JList []) in
         andthen (lift_res (bind_res (py_list idp_groups) (\<lambda>gs.
             pick with_name (\<lambda>g. item g ''name'') gs))) (\<lambda>external_groups.
         andthen (lift_res (join_names external_groups)) (\<lambda>external_groups_str.
         andthen (is_call V ''GET'' (roles_path V) token [] None) (\<lambda>roles_res.
         andthen (lift_res (py_list (roles_if_ok roles_res))) (\<lambda>scim_roles.
         andthen (roles_with_mappings V token idp_groups scim_roles []) (\<lambda>roles.
           ret (Rendered ''admin/idp_edit.html''
             (idp_edit_context org_handle idp_id idp_data props jit group_attribute external_groups external_groups_str
                roles (ir_debug idp_res)))))))))))))))"

definition edit_idp_form :: "('w, 'k) portal_env \<Rightarrow> string \<Rightarrow> string \<Rightarrow> ('w, 'z) route" where
  "edit_idp_form V org_handle idp_id = idp_route V org_handle (do_edit_idp_form V org_handle idp_id)"

subsection \<open>Behind the gate\<close>

lemma check_idp_sends_gets: "sends {q. meth q = ''GET''} (check_idp_access V oh ti de up)"
  unfolding check_idp_access_def check_plan_and_role_def resolve_plan_for_gating_def
  by (intro sends_intros portal_quiet proxy_call_get_sends)

lemma plan_lookup_keeps_session [simp, intro]: "keeps session (resolve_plan_for_gating V org)"
  unfolding resolve_plan_for_gating_def by (intro keeps_andthen keeps_if keeps_basic proxy_keeps_session)

lemma gated_route_runs:
  assumes "gated_route V oh ti de up f s = (r, t)" and "signed_in u s"
  obtains "t = s"
  | (gate) a v where "check_idp_access V oh ti de up s = (a, v)"
      "truthy (get_or u ''org_handle'' (JStr [])) \<longrightarrow> get_or u ''org_handle'' (JStr []) = JStr oh"
      "t = v \<or> (a = Inr None \<and> (\<exists>token. f token v = (r, t)))"
proof -
  let ?gate = "andthen (check_idp_access V oh ti de up) (\<lambda>denied.
          case denied of Some answer \<Rightarrow> ret answer | None \<Rightarrow> andthen (session_token V) f)"
  consider "t = s"
    | "truthy (get_or u ''org_handle'' (JStr [])) \<longrightarrow> get_or u ''org_handle'' (JStr []) = JStr oh" "?gate s = (r, t)"
    using login_required_runs [OF assms(1) [unfolded gated_route_def]] role_required_runs verify_org_handle_runs [OF assms(2)]
    by blast
  then show thesis
  proof cases
    case 2
    obtain a v where gate: "check_idp_access V oh ti de up s = (a, v)" by (meson surj_pair)
    have "t = v \<or> (a = Inr None \<and> (\<exists>token. f token v = (r, t)))"
      using 2(2) gate session_token_runs [of V f v r t]
      by (auto simp: andthen_def [of "check_idp_access V oh ti de up"] split: sum.splits option.splits)
    then show thesis using that(2) gate 2(1) by blast
  qed (use that(1) in blast)
qed

text \<open>
  C28: Nothing about identity providers or the login flow changes unless the gate opened: a route that
  sends anything but reads was called in the organization of the session by a user who holds the role
  of an identity provider manager, while the organization's plan was enterprise or could not be told;
  the route itself then ran. Everyone else gets at most the gate's own lookup of the plan.
\<close>

theorem idp_changes_behind_the_gate:
  assumes run: "gated_route V oh ti de up f s = (r, t)"
    and user: "signed_in u s" "get_or u ''org_id'' (JStr []) = JStr org"
    and other: "sent t = sent s @ qs" "\<exists>q \<in> set qs. meth q \<noteq> ''GET''"
  shows "key_in IDP_MANAGER (get_or (session s) ''user_roles'' (JList [])) = Inr True \<and>
    (truthy (get_or u ''org_handle'' (JStr [])) \<longrightarrow> get_or u ''org_handle'' (JStr []) = JStr oh) \<and>
    (\<exists>plan v token. resolve_plan_for_gating V org s = (Inr plan, v) \<and> (plan = JNull \<or> plan = JStr ''enterprise'') \<and>
       f token v = (r, t))"
  using run user(1)
proof (cases rule: gated_route_runs)
  case (gate a v)
  obtain ps where ps: "sent v = sent s @ ps" "set ps \<subseteq> {q. meth q = ''GET''}"
    by (rule sendsD [OF check_idp_sends_gets gate(1)])
  have "t \<noteq> v"
  proof
    assume "t = v"
    then have "qs = ps" using other(1) ps(1) by simp
    then show False using other(2) ps(2) by blast
  qed
  then obtain token where a: "a = Inr None" and f: "f token v = (r, t)" using gate(3) by blast
  have "check_plan_and_role V oh ''enterprise'' IDP_MANAGER ti de up s = (Inr None, v)"
    using gate(1) a by (simp add: check_idp_access_def)
  moreover have "user_field ''org_id'' s = (Inr (JStr org), s)" using user by (simp add: user_field_signed_in)
  ultimately show ?thesis
    by (rule check_plan_and_role_runs) (use gate(2) f in blast)
qed (use other in auto)

subsection \<open>What a mapping of groups changes\<close>

lemma traced_sends: "is_request V m path token [] payload \<in> A \<Longrightarrow> sends A (traced V m path token payload l)"
  unfolding traced_def by (intro sends_intros is_call_sends)

lemma is_call_answer:
  assumes "is_call V m path token extra payload s = (Inr res, t)"
  obtains resp where "fst (pe_net V (is_request V m path token extra payload) (world s)) = Inr resp"
    and "ir_status res = status resp" and "ir_data res = body_data resp"
  using assms that unfolding is_call_def Let_def
  by (auto simp: andthen_def send_def split: prod.splits sum.splits)

lemma traced_answer:
  assumes "traced V m path token payload l s = (Inr (res, l'), t)"
  obtains resp where "fst (pe_net V (is_request V m path token [] payload) (world s)) = Inr resp"
    and "ir_status res = status resp" and "ir_data res = body_data resp"
  using assms that unfolding traced_def by (auto simp: andthen_Inr_conv elim!: is_call_answer)

lemma hashed_Inr: "hashed v = Inr k \<Longrightarrow> k = v"
  by (cases v) (simp_all add: hashed_def)

lemma each_hashed: "pick p (\<lambda>g. bind_res (f g) hashed) xs = Inr ids \<Longrightarrow> pick p f xs = Inr ids"
proof (induction xs arbitrary: ids)
  case (Cons x xs)
  from Cons.prems obtain yes where p: "p x = Inr yes" unfolding pick.simps bind_res_Inr_conv by blast
  show ?case
  proof (cases yes)
    case True
    then have "bind_res (bind_res (f x) hashed) (\<lambda>y. bind_res (pick p (\<lambda>g. bind_res (f g) hashed) xs) (\<lambda>ys. Inr (y # ys))) = Inr ids"
      using Cons.prems p by simp
    then obtain v k ys where fx: "f x = Inr v" "hashed v = Inr k" and ys: "pick p (\<lambda>g. bind_res (f g) hashed) xs = Inr ys"
      and ids: "ids = k # ys" unfolding bind_res_Inr_conv by blast
    show ?thesis using True p fx Cons.IH [OF ys] ids hashed_Inr [OF fx(2)] by simp
  next
    case False
    then show ?thesis using Cons p by simp
  qed
qed simp

lemma pick_subset:
  assumes "\<And>x. p x = Inr True \<Longrightarrow> p' x = Inr True" and "pick p f xs = Inr ys" and "pick p' f xs = Inr zs"
  shows "set ys \<subseteq> set zs"
  using assms(2,3)
proof (induction xs arbitrary: ys zs)
  case (Cons x xs)
  then show ?case using assms(1) [of x] by (fastforce simp: bind_res_Inr_conv split: if_splits)
qed simp

lemma selected_gids_are_ids:
  assumes gids: "selected_gids names groups = Inr gids" and ids: "idp_group_ids groups = Inr ids"
  shows "set gids \<subseteq> set ids"
proof (rule pick_subset [OF _ gids [unfolded selected_gids_def]])
  show "with_id g = Inr True" if "selected names g = Inr True" for g
    using that by (auto simp: selected_def bind_res_Inr_conv split: if_splits)
  show "pick with_id (\<lambda>g. item g ''id'') groups = Inr ids"
    by (rule each_hashed) (rule ids [unfolded idp_group_ids_def])
qed

text \<open>
  A change of a role's groups that takes away nothing but groups of the identity provider, \<open>ids\<close>, from
  what WSO2 IS had just answered, and adds nothing but some of them.
\<close>

definition keeps_foreign_groups :: "('w, 'k) portal_env \<Rightarrow> string \<Rightarrow> json list \<Rightarrow> request \<Rightarrow> bool" where
  "keeps_foreign_groups V token ids q \<longleftrightarrow>
     (\<exists>role_id w resp d current others gids.
        fst (pe_net V (is_request V ''GET'' (role_path V role_id) token [] None) w) = Inr resp \<and> status resp = 200 \<and>
        body_data resp = JObj d \<and> py_list (get_or d ''groups'' (JList [])) = Inr current \<and>
        only (foreign ids) current = Inr others \<and> set gids \<subseteq> set ids \<and>
        q = is_request V ''PATCH'' (role_path V role_id) token []
          (Some (patch_op ''groups'' (others @ map (\<lambda>gid. JObj [(''value'', gid)]) gids))))"

abbreviation map_role_requests :: "('w, 'k) portal_env \<Rightarrow> string \<Rightarrow> json list \<Rightarrow> request set" where
  "map_role_requests V token ids \<equiv> {q. meth q = ''GET'' \<or> keeps_foreign_groups V token ids q}"

lemma update_role_groups_sends:
  assumes ids: "set gids \<subseteq> set ids"
    and run: "traced V ''GET'' (role_path V rid) token None l s = (Inr (detail, l'), t)"
  shows "sends (map_role_requests V token ids) (update_role_groups V token ids gids rid detail l'')"
proof (cases "ir_status detail = 200")
  case True
  obtain resp where got: "fst (pe_net V (is_request V ''GET'' (role_path V rid) token [] None) (world s)) = Inr resp"
      "ir_status detail = status resp" "ir_data detail = body_data resp" by (rule traced_answer [OF run])
  show ?thesis
    unfolding update_role_groups_def
  proof (intro sends_if sends_basic sends_andthen_result [OF sends_basic(4)])
    fix s t combined
    assume "lift_res (bind_res (field_or (ir_data detail) ''groups'' (JList [])) (combined_groups ids gids)) s = (Inr combined, t)"
    then obtain d current others where "body_data resp = JObj d" "py_list (get_or d ''groups'' (JList [])) = Inr current"
      "only (foreign ids) current = Inr others" "combined = others @ map (\<lambda>gid. JObj [(''value'', gid)]) gids"
      using got by (auto simp: field_or_def combined_groups_def bind_res_Inr_conv)
    then have "keeps_foreign_groups V token ids (is_request V ''PATCH'' (role_path V rid) token [] (Some (patch_op ''groups'' combined)))"
      unfolding keeps_foreign_groups_def using got True ids by metis
    then show "sends (map_role_requests V token ids)
        (andthen (traced V ''PATCH'' (role_path V rid) token (Some (patch_op ''groups'' combined)) l'') (\<lambda>(_, l). ret l))"
      by (intro sends_intros traced_sends) simp
  qed
qed (simp add: update_role_groups_def)

lemma get_in: "is_request V ''GET'' path token [] None \<in> {q. meth q = ''GET'' \<or> P q}"
  by (simp add: is_request_def)

lemma map_role_sends:
  assumes ids: "idp_group_ids groups = Inr ids"
  shows "sends (map_role_requests V token ids) (map_role V token form groups ids role l)"
  unfolding map_role_def Let_def
proof (rule sends_andthen [OF sends_basic(4)], rule sends_andthen_result [OF sends_basic(4)],
    rule sends_andthen_result [OF traced_sends [OF get_in]])
  fix rid s t gids s' t' and x :: "is_result \<times> json list"
  assume "lift_res (selected_gids (form_getlist form (role_groups_key (py_str (pe_fr V) rid))) groups) s = (Inr gids, t)"
  then have gids: "set gids \<subseteq> set ids" by (auto dest: selected_gids_are_ids [OF _ ids])
  assume run: "traced V ''GET'' (role_path V (py_str (pe_fr V) rid)) token None l s' = (Inr x, t')"
  obtain res l' where x: "x = (res, l')" by (cases x)
  show "sends (map_role_requests V token ids)
      (case x of (role_detail, l') \<Rightarrow> update_role_groups V token ids gids (py_str (pe_fr V) rid) role_detail l')"
    unfolding x prod.case by (rule update_role_groups_sends [OF gids run [unfolded x]])
qed

lemma map_roles_sends:
  assumes ids: "idp_group_ids groups = Inr ids"
  shows "sends (map_role_requests V token ids) (map_roles V token form groups ids roles l)"
proof (induction roles arbitrary: l)
  case (Cons role roles)
  show ?case unfolding map_roles.simps by (intro sends_andthen map_role_sends [OF ids] Cons.IH)
qed simp

definition put_groups_request :: "('w, 'k) portal_env \<Rightarrow> string \<Rightarrow> string \<Rightarrow> form \<Rightarrow> request" where
  "put_groups_request V token idp_id form =
     is_request V ''PUT'' (idp_path V idp_id @ ''/groups'') token []
       (Some (JList (map group_named (external_group_names form))))"


subsection \<open>Removing an identity provider\<close>

lemma traced_runs:
  assumes "traced V m path token payload l s = (r, t)"
  shows "sent t = sent s @ [is_request V m path token [] payload]"
  using assms unfolding traced_def
  by (auto simp: andthen_def dest!: is_call_runs split: prod.splits sum.splits)

definition flow_patch :: "('w, 'k) portal_env \<Rightarrow> string \<Rightarrow> json \<Rightarrow> string \<Rightarrow> request" where
  "flow_patch V token sequence app_id =
     is_request V ''PATCH'' (apps_path V @ ''/'' @ app_id) token [] (Some (JObj [(''authenticationSequence'', sequence)]))"

lemma replace_login_flow_runs:
  assumes run: "replace_login_flow V token sequence l s = (Inr l', t)"
  shows "\<exists>ps. sent t = sent s @ is_request V ''GET'' (apps_path V) token [] None # ps \<and>
    (ps = [] \<or> (\<exists>app_id. ps = [flow_patch V token sequence app_id]))"
proof -
  obtain app_id l1 u where app: "resolve_teamspace_app_id V token l s = (Inr (app_id, l1), u)"
    and rest: "(if truthy app_id then patch_auth_sequence V token (py_str (pe_fr V) app_id) sequence l1 else ret l1) u = (Inr l', t)"
    using run unfolding replace_login_flow_def andthen_Inr_conv by auto
  have "sent u = sent s @ [is_request V ''GET'' (apps_path V) token [] None]"
    using app unfolding resolve_teamspace_app_id_def
    by (auto simp: andthen_Inr_conv dest!: traced_runs)
  moreover have "sent t = sent u \<or> sent t = sent u @ [flow_patch V token sequence (py_str (pe_fr V) app_id)]"
    using rest by (auto simp: patch_auth_sequence_def andthen_Inr_conv flow_patch_def dest!: traced_runs split: if_splits)
  ultimately show ?thesis by auto
qed

text \<open>
  Removing an identity provider resets the login flow of the application first, to user name and
  password alone, and asks for the removal afterwards: when that is refused, the flow stays reset.
\<close>

theorem removal_resets_login_flow_first:
  assumes run: "do_delete_idp V oh idp_id token s = (Inr a, t)"
  shows "\<exists>ps. sent t = sent s @ [is_request V ''GET'' (idp_path V idp_id) token [] None,
        is_request V ''GET'' (apps_path V) token [] None] @ ps @ [is_request V ''DELETE'' (idp_path V idp_id) token [] None] \<and>
      (ps = [] \<or> (\<exists>app_id. ps = [flow_patch V token (auth_sequence ''DEFAULT'' [local_option]) app_id]))"
proof -
  obtain x1 u1 x2 u2 x3 l3 u3 where steps: "traced V ''GET'' (idp_path V idp_id) token None [] s = (Inr x1, u1)"
      "replace_login_flow V token (auth_sequence ''DEFAULT'' [local_option]) (snd x1) u1 = (Inr x2, u2)"
      "traced V ''DELETE'' (idp_path V idp_id) token None x2 u2 = (Inr (x3, l3), u3)"
    and last: "to_idp oh (if ir_status x3 \<in> {200, 204} then
            flash_calls ''success'' ''Identity Provider deleted successfully.'' l3
          else flash_calls ''error'' ''Failed to delete Identity Provider.'' l3) u3 = (Inr a, t)"
    using run unfolding do_delete_idp_def by (auto simp: andthen_Inr_conv split: prod.splits)
  have "sent t = sent u3"
    by (rule flash_to_sent [OF _ last [unfolded to_idp_def]]) (intro keeps_if flash_keeps_sent)
  then show ?thesis
    using traced_runs [OF steps(1)] replace_login_flow_runs [OF steps(2)] traced_runs [OF steps(3)] by auto
qed

lemma gated_route_open:
  assumes "signed_in u s" and "get_or u ''org_handle'' (JStr []) = JStr oh"
    and "any_role [TEAMSPACE_ADMIN, IDP_MANAGER] (get_or (session s) ''user_roles'' (JList [])) = Inr True"
    and "check_idp_access V oh ti de up s = (Inr None, v)" and "session_token V v = (Inr token, v)"
  shows "gated_route V oh ti de up f s = f token v"
  using assms
  by (simp add: gated_route_def login_required_def same_org_def role_required_def verify_org_handle_def
      user_field_signed_in session_get_def andthen_def del: any_role.simps)

definition demo_idp_manager :: dict where
  "demo_idp_manager = [(''user'', JObj [(''org_id'', JStr ''1''), (''org_handle'', JStr ''acme'')]),
     (''user_roles'', JList [JStr IDP_MANAGER]), (''access_token'', JStr ''t'')]"

lemma demo_idp_gate_opens:
  "\<exists>u. check_idp_access (demo_portal 200 [(''plan'', JStr ''enterprise'')]) oh ti de up (demo_visit demo_idp_manager) = (Inr None, u) \<and>
     session u = demo_idp_manager"
  by (simp add: check_idp_access_def check_plan_and_role_def user_field_def session_get_def demo_visit_def
      demo_idp_manager_def get_or_def andthen_def resolve_plan_for_gating_def proxy_call_def catch_def send_def
      demo_portal_def plan_answer_def gate_answer_def key_in_def or_else_def)

lemma demo_removal_runs: "\<exists>a t. do_delete_idp (demo_portal 200 [(''plan'', p)]) oh i token u = (Inr a, t)"
  by (simp add: do_delete_idp_def traced_def is_call_def Let_def send_def demo_portal_def andthen_def
      replace_login_flow_def resolve_teamspace_app_id_def app_of_answer_def body_data_def get_or_def py_list_def
      to_idp_def flash_to_def flash_calls_def flash_def)

theorem idp_changes_behind_the_gate_witness:
  "\<exists>a t plan v. delete_idp (demo_portal 200 [(''plan'', JStr ''enterprise'')]) ''acme'' ''i'' (demo_visit demo_idp_manager) = (Inr a, t) \<and>
     resolve_plan_for_gating (demo_portal 200 [(''plan'', JStr ''enterprise'')]) ''1'' (demo_visit demo_idp_manager) = (Inr plan, v) \<and>
     (plan = JNull \<or> plan = JStr ''enterprise'')"
proof -
  let ?V = "demo_portal 200 [(''plan'', JStr ''enterprise'')]" and ?s = "demo_visit demo_idp_manager"
    and ?u = "[(''org_id'', JStr ''1''), (''org_handle'', JStr ''acme'')]"
    and ?ti = "''Identity Providers''" and ?de = "''Connect external identity providers for federated SSO.''"
    and ?up = "''admin/idp_upgrade.html''" and ?token = "token_text (demo_portal 200 [(''plan'', JStr ''enterprise'')]) (JStr ''t'')"
  have user: "signed_in ?u ?s" "get_or ?u ''org_id'' (JStr []) = JStr ''1''"
    by (simp_all add: demo_visit_def demo_idp_manager_def get_or_def)
  obtain u where u: "check_idp_access ?V ''acme'' ?ti ?de ?up ?s = (Inr None, u)" "session u = demo_idp_manager"
    using demo_idp_gate_opens by blast
  obtain a t where removed: "do_delete_idp ?V ''acme'' ''i'' ?token u = (Inr a, t)" using demo_removal_runs by blast
  have token: "session_token ?V u = (Inr ?token, u)" by (rule session_token_run) (simp add: u demo_idp_manager_def)
  have "gated_route ?V ''acme'' ?ti ?de ?up (do_delete_idp ?V ''acme'' ''i'') ?s = do_delete_idp ?V ''acme'' ''i'' ?token u"
    by (rule gated_route_open [OF user(1) _ _ u(1) token])
      (simp_all add: get_or_def demo_visit_def demo_idp_manager_def key_in_def TEAMSPACE_ADMIN_def IDP_MANAGER_def)
  note run = this [unfolded removed]
  obtain ps where ps: "sent u = sent ?s @ ps" by (rule sendsD [OF check_idp_sends_gets u(1)])
  obtain qs where "sent t = sent u @ qs @ [is_request ?V ''DELETE'' (idp_path ?V ''i'') ?token [] None]"
    using removal_resets_login_flow_first [OF removed] by (metis append.assoc)
  then have "sent t = sent ?s @ (ps @ qs @ [is_request ?V ''DELETE'' (idp_path ?V ''i'') ?token [] None])"
    using ps by simp
  from idp_changes_behind_the_gate [OF run user this] run show ?thesis
    by (auto simp: is_request_def delete_idp_def idp_route_def)
qed

subsection \<open>Claims\<close>

lemma fill_claims_keeps: "claim_known idx uri \<Longrightarrow> dict_get (fill_claims defaults idx) uri = dict_get idx uri"
proof (induction defaults idx rule: fill_claims.induct)
  case (2 u v defaults idx)
  show ?case
  proof (cases "u = uri")
    case False
    then have "claim_known (if claim_known idx u then idx else dict_set idx u v) uri"
      using "2.prems" by (auto simp: claim_known_def)
    then show ?thesis using "2.IH" False by simp
  qed (use 2 in simp)
qed simp

lemma fill_claims_known:
  assumes "\<forall>(u, v) \<in> set defaults. \<exists>d. v = JObj d \<and> truthy (get_or d ''id'' JNull)" and "uri \<in> fst ` set defaults"
  shows "claim_known (fill_claims defaults idx) uri"
  using assms
proof (induction defaults idx rule: fill_claims.induct)
  case (2 u v defaults idx)
  let ?idx = "if claim_known idx u then idx else dict_set idx u v"
  show ?case
  proof (cases "uri = u")
    case True
    then have "claim_known ?idx uri" using "2.prems" by (auto simp: claim_known_def)
    then show ?thesis using fill_claims_keeps [of ?idx uri defaults] by (simp add: claim_known_def)
  next
    case False
    then show ?thesis using 2 by auto
  qed
qed simp

text \<open>
  Whatever WSO2 IS knows of an identity provider's claims, the claims sent back name each local claim
  with an identifier: the one it knew, or the built-in one.
\<close>

theorem claims_are_identified:
  assumes "build_local_claims_index current_idp = Inr idx" and "name \<in> {''username'', ''emailaddress'', ''roles''}"
  shows "\<exists>i display_name. make_local_claim idx (claim_uri name) =
      JObj [(''uri'', JStr (claim_uri name)), (''id'', i), (''displayName'', display_name)] \<and> truthy i"
proof -
  obtain idx0 where idx: "idx = fill_claims DEFAULT_LOCAL_CLAIMS idx0"
    using assms(1) unfolding build_local_claims_index_def by (auto simp: bind_res_Inr_conv)
  have "claim_known idx (claim_uri name)"
    unfolding idx by (rule fill_claims_known) (use assms(2) in \<open>auto simp: DEFAULT_LOCAL_CLAIMS_def get_or_def\<close>)
  then show ?thesis
    by (auto simp: claim_known_def make_local_claim_def get_or_def split: option.splits json.splits)
qed

end
