(* ===== verification/Portal_Login_Flow.thy ===== *)
theory Portal_Login_Flow
  imports Portal_Idp
begin

text \<open>
  \<open>webapp/blueprints/admin.py\<close>, third part: the login flow of the organization's application, shown
  with the authenticators it may use and replaced by the steps that the page posts as JSON.
\<close>

subsection \<open>The page\<close>

definition security :: "string \<Rightarrow> ('w, 'z) route" where
  "security org_handle =
     login_required org_handle (role_required [TEAMSPACE_ADMIN, IDP_MANAGER]
       (ret (Rendered ''admin/security.html'' [(''org_handle'', JStr org_handle)])))"

definition flow_route :: "('w, 'k) portal_env \<Rightarrow> string \<Rightarrow> (string \<Rightarrow> ('w, 'z) route) \<Rightarrow> ('w, 'z) route" where
  "flow_route V org_handle =
     gated_route V org_handle ''Login Flow Configuration'' ''Customize the login flow for your organization.''
       ''admin/login_flow_upgrade.html''"

definition SUPPORTED_LOCAL_AUTH_NAMES :: "string list" where
  "SUPPORTED_LOCAL_AUTH_NAMES =
     [''BasicAuthenticator'', ''FIDOAuthenticator'', ''MagicLinkAuthenticator'', ''email-otp-authenticator'',
      ''sms-otp-authenticator'', ''totp'', ''IdentifierExecutor'']"

definition named_authenticator :: "string \<Rightarrow> string \<Rightarrow> json" where
  "named_authenticator name display_name = JObj [(''name'', JStr name), (''displayName'', JStr display_name)]"

definition DEFAULT_LOCAL_AUTHENTICATORS :: "json list" where
  "DEFAULT_LOCAL_AUTHENTICATORS =
     [named_authenticator ''BasicAuthenticator'' ''Username & Password'',
      named_authenticator ''FIDOAuthenticator'' ''Passkey'',
      named_authenticator ''MagicLinkAuthenticator'' ''Magic Link'',
      named_authenticator ''email-otp-authenticator'' ''Email OTP'',
      named_authenticator ''sms-otp-authenticator'' ''SMS OTP'',
      named_authenticator ''totp'' ''TOTP'']"

definition flow_sequence :: "json \<Rightarrow> json" where
  "flow_sequence steps =
     JObj [(''type'', JStr ''USER_DEFINED''), (''steps'', steps), (''subjectStepId'', JInt 1), (''attributeStepId'', JInt 1)]"

definition DEFAULT_AUTH_SEQUENCE :: json where
  "DEFAULT_AUTH_SEQUENCE =
     flow_sequence (JList [JObj [(''id'', JInt 1), (''options'', JList [local_option])]])"

definition usable_authenticator :: "json \<Rightarrow> exn + bool" where
  "usable_authenticator a =
     bind_res (field_or a ''isEnabled'' JNull) (\<lambda>enabled.
       if truthy enabled then
         bind_res (field_or a ''name'' JNull) (\<lambda>name. bind_res (hashed name) (\<lambda>n.
           Inr (n \<in> JStr ` set SUPPORTED_LOCAL_AUTH_NAMES)))
       else Inr False)"

definition fetch_local_authenticators :: "('w, 'k) portal_env \<Rightarrow> string \<Rightarrow> (('w, 'z) portal_state_scheme, json) prog" where
  "fetch_local_authenticators V token =
     andthen (is_call V ''GET'' (po_tenant_path (pe_cfg V) @ ''/o/api/server/v1/configs/authenticators'') token [] None)
       (\<lambda>auths_res.
       (case (ir_status auths_res = 200, ir_data auths_res) of
          (True, JList as) \<Rightarrow> andthen (lift_res (only usable_authenticator as)) (\<lambda>us. ret (JList us))
        | _ \<Rightarrow> ret (JList DEFAULT_LOCAL_AUTHENTICATORS)))"

definition fetch_idps :: "('w, 'k) portal_env \<Rightarrow> string \<Rightarrow> (('w, 'z) portal_state_scheme, json) prog" where
  "fetch_idps V token =
     andthen (is_call V ''GET'' (idps_path V) token [] None) (\<lambda>idp_res.
       ret (if ir_status idp_res = 200 then idps_of idp_res else JList []))"

text \<open>Of the response, the page shows the authentication sequence only.\<close>

definition flow_debug :: "json \<Rightarrow> json" where
  "flow_debug debug =
     (case debug of
        JObj d \<Rightarrow>
          (case dict_get d ''response_body'' of
             Some (JObj shown) \<Rightarrow>
               JObj (dict_set d ''response_body''
                 (JObj [(''authenticationSequence'', get_or shown ''authenticationSequence'' JNull)]))
           | _ \<Rightarrow> JObj d)
      | v \<Rightarrow> v)"

definition fetch_teamspace_login_flow ::
  "('w, 'k) portal_env \<Rightarrow> string \<Rightarrow> (('w, 'z) portal_state_scheme, json \<times> json \<times> json) prog" where
  "fetch_teamspace_login_flow V token =
     andthen (is_call V ''GET'' (apps_path V) token [] None) (\<lambda>apps_res.
     andthen (lift_res (app_of_answer V apps_res)) (\<lambda>app.
       (case app of
          None \<Rightarrow> ret (JNull, JNull, JNull)
        | Some d \<Rightarrow>
            andthen (lift_res (item (JObj d) ''id'')) (\<lambda>app_id.
            andthen (is_call V ''GET'' (apps_path V @ ''/'' @ py_str (pe_fr V) app_id) token [] None) (\<lambda>detail.
              let current_sequence = (case (ir_status detail = 200, ir_data detail) of
                    (True, JObj shown) \<Rightarrow> get_or shown ''authenticationSequence'' JNull | _ \<Rightarrow> JNull) in
              ret (app_id, current_sequence, flow_debug (ir_debug detail)))))))"

definition do_login_flow :: "('w, 'k) portal_env \<Rightarrow> string \<Rightarrow> string \<Rightarrow> ('w, 'z) route" where
  "do_login_flow V org_handle token =
     andthen (fetch_local_authenticators V token) (\<lambda>local_authenticators.
     andthen (fetch_idps V token) (\<lambda>idps.
     andthen (fetch_teamspace_login_flow V token) (\<lambda>(app_id, current_sequence, login_flow_debug).
       ret (Rendered ''admin/login_flow.html''
         [(''org_handle'', JStr org_handle), (''local_authenticators'', local_authenticators), (''idps'', idps),
          (''current_sequence'', or_else current_sequence DEFAULT_AUTH_SEQUENCE), (''app_id'', app_id),
          (''api_debug'', login_flow_debug)]))))"

definition login_flow :: "('w, 'k) portal_env \<Rightarrow> string \<Rightarrow> ('w, 'z) route" where
  "login_flow V org_handle = flow_route V org_handle (do_login_flow V org_handle)"

subsection \<open>Replacing the flow\<close>

text \<open>What CPython computes: the value of a number's text, and the text of an exception.\<close>

record flow_lib =
  fl_float :: "string \<Rightarrow> real"
  fl_text :: "exn \<Rightarrow> string"

definition check_option :: "json \<Rightarrow> exn + unit" where
  "check_option opt =
     bind_res (key_in ''idp'' opt) (\<lambda>idp.
     bind_res (if idp then key_in ''authenticator'' opt else Inr False) (\<lambda>both.
       if both then Inr ()
       else Inl (ValueError (''Each option must have '' @ [CHR 0x27] @ ''idp'' @ [CHR 0x27] @ '' and '' @ [CHR 0x27] @
         ''authenticator'' @ [CHR 0x27, CHR ''.'']))))"

fun check_each :: "('a \<Rightarrow> exn + unit) \<Rightarrow> 'a list \<Rightarrow> exn + unit" where
  "check_each f [] = Inr ()"
| "check_each f (x # xs) = bind_res (f x) (\<lambda>_. check_each f xs)"

definition check_step :: "json \<Rightarrow> exn + unit" where
  "check_step step =
     bind_res (key_in ''id'' step) (\<lambda>has_id.
     bind_res (if has_id then key_in ''options'' step else Inr False) (\<lambda>both.
       if \<not> both then
         Inl (ValueError (''Each step must have '' @ [CHR 0x27] @ ''id'' @ [CHR 0x27] @ '' and '' @ [CHR 0x27] @
           ''options'' @ [CHR 0x27, CHR ''.'']))
       else
         bind_res (item step ''options'') (\<lambda>options.
           (case options of
              JList (opt # opts) \<Rightarrow> check_each check_option (opt # opts)
            | _ \<Rightarrow> Inl (ValueError ''Each step must have at least one option.'')))))"

text \<open>\<open>json.loads(None)\<close> is a \<open>TypeError\<close>.\<close>

definition parse_login_flow_steps :: "flow_lib \<Rightarrow> string option \<Rightarrow> exn + json" where
  "parse_login_flow_steps L steps_json =
     (case steps_json of
        None \<Rightarrow> Inl (TypeError ''the JSON object must be str, bytes or bytearray, not NoneType'')
      | Some text \<Rightarrow>
          (case loads (fl_float L) text of
             None \<Rightarrow> Inl (ValueError ''Expecting value'')
           | Some (JList (step # steps)) \<Rightarrow>
               bind_res (check_each check_step (step # steps)) (\<lambda>_. Inr (JList (step # steps)))
           | Some _ \<Rightarrow> Inl (ValueError ''Steps must be a non-empty list.'')))"

definition build_login_flow_patch_body :: "json \<Rightarrow> json" where
  "build_login_flow_patch_body steps = JObj [(''authenticationSequence'', flow_sequence steps)]"

definition extract_login_flow_error_message :: "('w, 'k) portal_env \<Rightarrow> is_result \<Rightarrow> json" where
  "extract_login_flow_error_message V patch_resp =
     (let fallback = (if truthy (ir_data patch_resp) then JStr (py_str (pe_fr V) (ir_data patch_resp))
        else JStr ''Failed to update login flow.'') in
      case ir_data patch_resp of JObj d \<Rightarrow> get_or d ''description'' fallback | _ \<Rightarrow> fallback)"

definition to_login_flow :: "string \<Rightarrow> (('w, 'z) portal_state_scheme, unit) prog \<Rightarrow> ('w, 'z) route" where
  "to_login_flow org_handle m = flash_to m ''admin.login_flow'' [(''org_handle'', org_handle)]"

definition flow_update_request :: "('w, 'k) portal_env \<Rightarrow> string \<Rightarrow> string \<Rightarrow> json \<Rightarrow> request" where
  "flow_update_request V token app_id steps =
     is_request V ''PATCH'' (apps_path V @ ''/'' @ app_id) token [] (Some (build_login_flow_patch_body steps))"

definition patch_login_flow :: "('w, 'k) portal_env \<Rightarrow> string \<Rightarrow> string \<Rightarrow> string \<Rightarrow> json \<Rightarrow> ('w, 'z) route" where
  "patch_login_flow V org_handle token app_id steps =
     andthen (is_call V ''PATCH'' (apps_path V @ ''/'' @ app_id) token [] (Some (build_login_flow_patch_body steps)))
       (\<lambda>patch_resp.
       to_login_flow org_handle
         (if ir_status patch_resp \<in> {200, 204} then
            flash_call ''success'' ''Login flow updated successfully.'' (ir_debug patch_resp)
          else
            flash_json ''error'' (extract_login_flow_error_message V patch_resp) [(''api_debug'', ir_debug patch_resp)]))"

definition do_update_login_flow ::
  "('w, 'k) portal_env \<Rightarrow> flow_lib \<Rightarrow> string \<Rightarrow> form \<Rightarrow> string \<Rightarrow> ('w, 'z) route" where
  "do_update_login_flow V L org_handle form token =
     (let app_id = form_get form ''app_id'' [] in
      if app_id = [] then
        to_login_flow org_handle (flash_typed ''error'' ''Application ID is required.'')
      else
        (case parse_login_flow_steps L (map_of form ''steps_json'') of
           Inl e \<Rightarrow> to_login_flow org_handle (flash_typed ''error'' (''Invalid login flow structure: '' @ fl_text L e))
         | Inr steps \<Rightarrow> patch_login_flow V org_handle token app_id steps))"

definition update_login_flow :: "('w, 'k) portal_env \<Rightarrow> flow_lib \<Rightarrow> string \<Rightarrow> form \<Rightarrow> ('w, 'z) route" where
  "update_login_flow V L org_handle form = flow_route V org_handle (do_update_login_flow V L org_handle form)"

subsection \<open>Which flows are accepted\<close>

text \<open>
  An option is meant to be an object with the two keys. A list that contains the two names, and a text
  that contains them, also pass, because \<open>in\<close> works on them too.
\<close>

fun flow_option :: "json \<Rightarrow> bool" where
  "flow_option (JObj d) \<longleftrightarrow> dict_get d ''idp'' \<noteq> None \<and> dict_get d ''authenticator'' \<noteq> None"
| "flow_option (JList xs) \<longleftrightarrow> JStr ''idp'' \<in> set xs \<and> JStr ''authenticator'' \<in> set xs"
| "flow_option (JStr t) \<longleftrightarrow> contains t ''idp'' \<and> contains t ''authenticator''"
| "flow_option _ \<longleftrightarrow> False"

fun flow_step :: "json \<Rightarrow> bool" where
  "flow_step (JObj d) \<longleftrightarrow>
     dict_get d ''id'' \<noteq> None \<and>
     (case dict_get d ''options'' of Some (JList opts) \<Rightarrow> opts \<noteq> [] \<and> list_all flow_option opts | _ \<Rightarrow> False)"
| "flow_step _ \<longleftrightarrow> False"

text \<open>The steps of a form that may be sent on: those the text denotes, if they are well-formed.\<close>

definition flow_of :: "flow_lib \<Rightarrow> form \<Rightarrow> json option" where
  "flow_of L form =
     (case map_option (loads (fl_float L)) (map_of form ''steps_json'') of
        Some (Some (JList steps)) \<Rightarrow> if steps \<noteq> [] \<and> list_all flow_step steps then Some (JList steps) else None
      | _ \<Rightarrow> None)"

lemma check_each_ok: "check_each f xs = Inr () \<longleftrightarrow> list_all (\<lambda>x. f x = Inr ()) xs"
  by (induction xs) (auto simp: bind_res_Inr_conv)

lemma check_option_ok: "check_option opt = Inr () \<longleftrightarrow> flow_option opt"
  by (cases opt) (auto simp: check_option_def key_in_def)

lemma check_step_ok: "check_step step = Inr () \<longleftrightarrow> flow_step step"
proof (cases step)
  case (JObj d)
  show ?thesis
  proof (cases "dict_get d ''id'' \<noteq> None \<and> dict_get d ''options'' \<noteq> None")
    case True
    then obtain options where options: "dict_get d ''options'' = Some options" by blast
    show ?thesis
      using True options JObj
      by (cases options rule: json.exhaust; cases "\<exists>xs. options = JList xs \<and> xs \<noteq> []")
        (auto simp: check_step_def key_in_def item_def check_each_ok check_option_ok neq_Nil_conv split: list.splits
          simp del: check_each.simps)
  qed (auto simp: JObj check_step_def key_in_def)
qed (auto simp: check_step_def key_in_def item_def)

lemma parse_login_flow_steps_ok:
  "parse_login_flow_steps L text = Inr steps \<longleftrightarrow>
    (\<exists>t xs. text = Some t \<and> loads (fl_float L) t = Some (JList xs) \<and> xs \<noteq> [] \<and> list_all flow_step xs \<and> steps = JList xs)"
proof -
  have "bind_res (check_each check_step xs) (\<lambda>_. Inr (JList xs)) = Inr steps \<longleftrightarrow> list_all flow_step xs \<and> steps = JList xs" for xs
    using check_each_ok [of check_step xs] by (auto simp: bind_res_Inr_conv check_step_ok)
  then show ?thesis
    by (auto simp: parse_login_flow_steps_def neq_Nil_conv split: option.splits json.splits list.splits
        simp del: check_each.simps)
qed

lemma flow_of_parsed: "flow_of L form = (case parse_login_flow_steps L (map_of form ''steps_json'') of Inl e \<Rightarrow> None | Inr steps \<Rightarrow> Some steps)"
proof (cases "parse_login_flow_steps L (map_of form ''steps_json'')")
  case (Inl e)
  then show ?thesis
    using parse_login_flow_steps_ok [of L "map_of form ''steps_json''"]
    by (auto simp: flow_of_def split: option.splits json.splits)
next
  case (Inr steps)
  then show ?thesis
    using parse_login_flow_steps_ok [of L "map_of form ''steps_json''" steps] by (auto simp: flow_of_def)
qed

lemma patch_login_flow_sends:
  assumes run: "patch_login_flow V oh token app_id steps s = (r, t)"
  shows "sent t = sent s @ [flow_update_request V token app_id steps]"
proof -
  obtain y v where call: "is_call V ''PATCH'' (apps_path V @ ''/'' @ app_id) token [] (Some (build_login_flow_patch_body steps)) s = (y, v)"
    by (meson surj_pair)
  have "sent t = sent v"
  proof (cases y)
    case (Inr resp)
    then have "flash_to (if ir_status resp \<in> {200, 204} then
            flash_call ''success'' ''Login flow updated successfully.'' (ir_debug resp)
          else flash_json ''error'' (extract_login_flow_error_message V resp) [(''api_debug'', ir_debug resp)])
        ''admin.login_flow'' [(''org_handle'', oh)] v = (r, t)"
      using run call by (simp add: patch_login_flow_def to_login_flow_def andthen_def)
    then show ?thesis by (rule flash_to_sent [rotated]) (intro keeps_if flash_keeps_sent)
  qed (use run call in \<open>simp add: patch_login_flow_def andthen_def\<close>)
  then show ?thesis using is_call_runs [OF call] by (simp add: flow_update_request_def)
qed

text \<open>
  C30: The login flow of an application is replaced exactly when the form names the application and its
  text is JSON for well-formed steps, a non-empty list of objects with an identifier and a non-empty
  list of options; then one request is sent and carries exactly those steps. Any other form, even one
  that is not JSON, leaves a message and sends nothing.
\<close>

theorem login_flow_replaced_iff:
  assumes run: "do_update_login_flow V L oh form token s = (r, t)"
  shows "sent t = sent s @
    (case flow_of L form of
       Some steps \<Rightarrow> if form_get form ''app_id'' [] = [] then []
         else [flow_update_request V token (form_get form ''app_id'' []) steps]
     | None \<Rightarrow> [])"
proof -
  have quiet: "sent t = sent s" if "to_login_flow oh (flash_typed ''error'' m) s = (r, t)" for m
    using that flash_to_sent [OF flash_keeps_sent(1)] by (simp add: to_login_flow_def)
  show ?thesis
  proof (cases "form_get form ''app_id'' [] = []")
    case True
    then show ?thesis
      using run quiet by (simp add: do_update_login_flow_def Let_def split: option.split)
  next
    case False
    then show ?thesis
      using run quiet patch_login_flow_sends [of V oh token "form_get form ''app_id'' []" _ s r t]
      by (auto simp: do_update_login_flow_def Let_def flow_of_parsed split: sum.splits)
  qed
qed

definition demo_flow_lib :: flow_lib where
  "demo_flow_lib = \<lparr>fl_float = (\<lambda>t. 0), fl_text = (\<lambda>e. [])\<rparr>"

definition demo_flow_text :: string where
  "demo_flow_text = ''[{'' @ [CHR 0x22] @ ''id'' @ [CHR 0x22] @ '':1,'' @ [CHR 0x22] @ ''options'' @ [CHR 0x22] @ '':[{'' @
     [CHR 0x22] @ ''idp'' @ [CHR 0x22] @ '':1,'' @ [CHR 0x22] @ ''authenticator'' @ [CHR 0x22] @ '':1}]}]''"

definition demo_flow_steps :: json where
  "demo_flow_steps = JList [JObj [(''id'', JInt 1), (''options'', JList [JObj [(''idp'', JInt 1), (''authenticator'', JInt 1)]])]]"

lemma demo_flow: "flow_of demo_flow_lib [(''app_id'', ''a''), (''steps_json'', demo_flow_text)] = Some demo_flow_steps"
proof -
  have "loads (\<lambda>t. 0) demo_flow_text = Some demo_flow_steps" by code_simp
  then show ?thesis by (simp add: flow_of_def demo_flow_lib_def demo_flow_steps_def)
qed

theorem login_flow_replaced_iff_witness:
  "\<exists>r t. do_update_login_flow (demo_portal 200 []) demo_flow_lib ''o'' [(''app_id'', ''a''), (''steps_json'', demo_flow_text)] ''t''
       (demo_visit []) = (r, t) \<and>
     sent t = [flow_update_request (demo_portal 200 []) ''t'' ''a'' demo_flow_steps]"
proof -
  obtain r t where run: "do_update_login_flow (demo_portal 200 []) demo_flow_lib ''o''
      [(''app_id'', ''a''), (''steps_json'', demo_flow_text)] ''t'' (demo_visit []) = (r, t)" by (meson surj_pair)
  from login_flow_replaced_iff [OF run] run show ?thesis
    by (simp add: demo_flow form_get_def demo_visit_def)
qed

text \<open>An option that is a text passes: it only has to contain the two names.\<close>

lemma text_option_accepted: "flow_option (JStr ''idp authenticator'')"
  by (simp add: startswith_def)

end
