(* ===== verification/Portal_Login.thy ===== *)
theory Portal_Login
  imports Portal_Pages
begin

text \<open>
  Signing in and out (\<open>webapp/auth.py\<close>) and the pages around it (\<open>webapp/blueprints/main.py\<close>). The
  OpenID Connect client is Authlib, a parameter: the address it sends the browser to, the tokens it
  gets for a code, and the claims of an id token it has verified. The random values a login draws are
  arguments; what Authlib keeps in the session for itself is not modelled.
\<close>

record 'w oidc =
  oidc_authorize :: "string \<Rightarrow> (string \<times> string) list \<Rightarrow> 'w \<Rightarrow> exn + string"
  oidc_exchange :: "json \<Rightarrow> 'w \<Rightarrow> (exn + dict) \<times> 'w"
  oidc_parse_id_token :: "dict \<Rightarrow> json \<Rightarrow> real \<Rightarrow> exn + dict"
  sha256 :: "nat list \<Rightarrow> nat list"

datatype login_answer = SentTo string | Page portal_answer

subsection \<open>Starting\<close>

definition url_b64_char :: "char \<Rightarrow> char" where
  "url_b64_char c = (if ord c = 43 then CHR ''-'' else if ord c = 47 then CHR ''_'' else c)"

definition code_challenge :: "'w oidc \<Rightarrow> string \<Rightarrow> string" where
  "code_challenge C verifier =
     rstrip_char (CHR ''='') (map url_b64_char (b64 (sha256 C (utf8 verifier))))"

definition login_params :: "'w oidc \<Rightarrow> string \<Rightarrow> string \<Rightarrow> json \<Rightarrow> (string \<times> string) list" where
  "login_params C verifier nonce org_id =
     [(''code_challenge'', code_challenge C verifier), (''code_challenge_method'', ''S256''), (''nonce'', nonce)] @
     (if truthy org_id then [(''fidp'', ''OrganizationSSO''), (''orgId'', py_str (\<lambda>r. []) org_id)] else [])"

definition start_login ::
  "('w, 'k) portal_env \<Rightarrow> 'w oidc \<Rightarrow> string \<Rightarrow> string \<Rightarrow> json \<Rightarrow> (('w, 'z) portal_state_scheme, login_answer) prog" where
  "start_login V C verifier nonce org_id =
     andthen (session_set ''code_verifier'' (JStr verifier)) (\<lambda>_.
     andthen (session_set ''oidc_nonce'' (JStr nonce)) (\<lambda>_.
     andthen (asks (\<lambda>s. oidc_authorize C (po_oidc_redirect_uri (pe_cfg V))
        (login_params C verifier nonce org_id) (world s))) (\<lambda>r.
     andthen (lift_res r) (\<lambda>u. ret (SentTo u)))))"

subsection \<open>Who has come back\<close>

text \<open>\<open>jwt.decode\<close> without verification; the one exception it documents is logged.\<close>

definition decode_jwt_unverified :: "('w, 'k) portal_env \<Rightarrow> json \<Rightarrow> dict option" where
  "decode_jwt_unverified V token =
     (case token of
        JStr t \<Rightarrow> (case jwt_decode_unverified (pe_jwt V) t of Inr d \<Rightarrow> Some d | Inl _ \<Rightarrow> None)
      | _ \<Rightarrow> None)"

text \<open>\<open>str.title()\<close>: a cased letter is a capital exactly when no cased letter precedes it.\<close>

definition cased :: "char \<Rightarrow> bool" where
  "cased c \<longleftrightarrow> (let n = ord c in
     (65 \<le> n \<and> n \<le> 90) \<or> (97 \<le> n \<and> n \<le> 122) \<or> n \<in> {170, 181, 186} \<or> (192 \<le> n \<and> n \<noteq> 215 \<and> n \<noteq> 247))"

fun title_go :: "bool \<Rightarrow> string \<Rightarrow> string" where
  "title_go prev [] = []"
| "title_go prev (c # cs) =
     (if prev then [lower_char c] else if ord c = 223 then ''Ss'' else [upper_char c]) @ title_go (cased c) cs"

definition titled :: "string \<Rightarrow> string" where
  "titled s = title_go False s"

text \<open>\<open>s.split(c, 1)\<close> when \<open>c\<close> may be absent: what is before it.\<close>

definition before :: "char \<Rightarrow> string \<Rightarrow> string" where
  "before c s = fst (partition_char c s)"

text \<open>Given and family name: as claimed, or made from the full name, or from the mail address.\<close>

definition name_from_email :: "json \<Rightarrow> exn + (json \<times> json)" where
  "name_from_email email =
     (if \<not> truthy email then Inr (JStr ''User'', JStr [])
      else
        bind_res (key_in ''@'' email) (\<lambda>has_at.
          if \<not> has_at then Inr (JStr ''User'', JStr [])
          else
            (case email of
               JStr e \<Rightarrow>
                 (case partition_char (CHR ''@'') e of (user_part, _, domain) \<Rightarrow>
                    Inr (JStr (titled user_part), JStr (titled (before (CHR ''.'') domain))))
             | _ \<Rightarrow> Inl (AttributeError ''split''))))"

definition derive_display_name :: "dict \<Rightarrow> json \<Rightarrow> exn + (json \<times> json)" where
  "derive_display_name claims email =
     (let given = opt_json (dict_get claims ''given_name''); family = opt_json (dict_get claims ''family_name'');
          full = opt_json (dict_get claims ''name'') in
      if truthy given \<or> truthy family then Inr (or_else given (JStr ''''), or_else family (JStr ''''))
      else if truthy full then
        bind_res (key_in ''@'' full) (\<lambda>has_at.
          if has_at then name_from_email email
          else
            (case full of
               JStr n \<Rightarrow>
                 (case split_ws1 n of
                    [] \<Rightarrow> Inl (IndexError ''list index out of range'')
                  | [a] \<Rightarrow> Inr (JStr a, JStr '''')
                  | a # b # _ \<Rightarrow> Inr (JStr a, JStr b))
             | _ \<Rightarrow> Inl (AttributeError ''split'')))
      else name_from_email email)"

subsection \<open>Roles\<close>

text \<open>What follows the last slash.\<close>

definition last_part :: "string \<Rightarrow> string" where
  "last_part s = rev (takeWhile (\<lambda>c. c \<noteq> CHR ''/'') (rev s))"

text \<open>The name of one entry, if it has one.\<close>

definition role_name :: "json \<Rightarrow> exn + string" where
  "role_name name =
     (case name of
        JStr s \<Rightarrow> Inr (last_part s)
      | JList xs \<Rightarrow> (if xs = [] then Inr [] else if JStr ''/'' \<in> set xs then Inl (AttributeError ''rsplit'')
          else Inl (TypeError ''unhashable type''))
      | JObj d \<Rightarrow> (if d = [] then Inr [] else if dict_get d ''/'' \<noteq> None then Inl (AttributeError ''rsplit'')
          else Inl (TypeError ''unhashable type''))
      | _ \<Rightarrow> Inl (TypeError ''argument is not iterable''))"

definition entry_role :: "json \<Rightarrow> exn + string" where
  "entry_role e =
     (case e of
        JStr s \<Rightarrow> role_name e
      | JObj d \<Rightarrow>
          role_name (or_else (opt_json (dict_get d ''value''))
            (or_else (opt_json (dict_get d ''display'')) (get_or d ''displayName'' (JStr ''''))))
      | _ \<Rightarrow> Inr [])"

text \<open>A Python set of names, here in the order they were first met; nothing reads the order.\<close>

definition add_role :: "string list \<Rightarrow> string \<Rightarrow> string list" where
  "add_role roles name = (if name = [] \<or> name \<in> set roles then roles else roles @ [name])"

fun normalize_roles :: "string list \<Rightarrow> json list \<Rightarrow> exn + string list" where
  "normalize_roles roles [] = Inr roles"
| "normalize_roles roles (e # es) = bind_res (entry_role e) (\<lambda>name. normalize_roles (add_role roles name) es)"

definition claim_roles :: "string list \<Rightarrow> json \<Rightarrow> exn + string list" where
  "claim_roles roles raw =
     (case raw of
        JStr s \<Rightarrow> if s = [] then Inr roles else normalize_roles roles [JStr s]
      | JList es \<Rightarrow> normalize_roles roles es
      | _ \<Rightarrow> Inr roles)"

fun collect_roles :: "string list \<Rightarrow> json list \<Rightarrow> exn + string list" where
  "collect_roles roles [] = Inr roles"
| "collect_roles roles (raw # raws) = bind_res (claim_roles roles raw) (\<lambda>roles'. collect_roles roles' raws)"

definition role_claims :: "dict \<Rightarrow> json list" where
  "role_claims claims = map (\<lambda>k. opt_json (dict_get claims k)) [''roles'', ''application_roles'', ''groups'']"

definition extract_roles :: "dict \<Rightarrow> dict \<Rightarrow> exn + string list" where
  "extract_roles id_claims access_claims = collect_roles [] (role_claims id_claims @ role_claims access_claims)"

subsection \<open>The access token\<close>

definition jwks_request :: "('w, 'k) portal_env \<Rightarrow> request" where
  "jwks_request V =
     (get (jwks_url (po_is_base_url (pe_cfg V)) (po_tenant_path (pe_cfg V))) [] [])\<lparr>follow_redirects := True\<rparr>"

definition portal_fetch_jwks :: "('w, 'k) portal_env \<Rightarrow> (('w, 'z) portal_state_scheme, json) prog" where
  "portal_fetch_jwks V =
     andthen (send (pe_net V) (jwks_request V)) (\<lambda>resp.
     andthen (lift_res (raise_for_status resp)) (\<lambda>_. lift_res (json_of resp)))"

text \<open>Signature, audience, issuer and time checked at \<open>now\<close>.\<close>

definition verified_claims :: "('w, 'k) portal_env \<Rightarrow> json \<Rightarrow> real \<Rightarrow> string \<Rightarrow> exn + dict" where
  "verified_claims V jwks now token =
     bind_res (as_obj jwks) (\<lambda>d.
     bind_res (select_signing_key (pe_fr V) (pe_jwt V) d token) (\<lambda>key.
       decode_rs256 (pe_jwt V) (resolve_leeway (pe_environ V)) now token key (po_client_id (pe_cfg V))
         (token_issuer (po_is_base_url (pe_cfg V)) (po_tenant_path (pe_cfg V))) None))"

definition verify_access_token ::
  "('w, 'k) portal_env \<Rightarrow> json \<Rightarrow> (('w, 'z) portal_state_scheme, dict option) prog" where
  "verify_access_token V raw =
     (if \<not> truthy raw then ret None
      else
        catch
          (andthen (portal_fetch_jwks V) (\<lambda>jwks.
           andthen (asks wall) (\<lambda>now.
           andthen (lift_res (case raw of JStr t \<Rightarrow> verified_claims V jwks now t | _ \<Rightarrow> Inl (TypeError ''token'')))
             (\<lambda>claims. ret (Some claims)))))
          (\<lambda>e. if is_production (pe_environ V) then ret None else ret (decode_jwt_unverified V raw)))"

subsection \<open>The callback\<close>

definition clear_session :: "(('w, 'z) portal_state_scheme, unit) prog" where
  "clear_session = modify (\<lambda>s. s\<lparr>session := []\<rparr>)"

definition refuse_login :: "(('w, 'z) portal_state_scheme, login_answer) prog" where
  "refuse_login = andthen clear_session (\<lambda>_. ret (Page (Redirected ''main.login'' [])))"

text \<open>The claims of the id token; \<open>Inl\<close> when the login is refused on the spot.\<close>

definition id_token_claims ::
  "('w, 'k) portal_env \<Rightarrow> 'w oidc \<Rightarrow> dict \<Rightarrow> json \<Rightarrow> real \<Rightarrow> unit + dict option" where
  "id_token_claims V C token nonce now =
     (case oidc_parse_id_token C token nonce now of
        Inr claims \<Rightarrow> Inr (Some claims)
      | Inl _ \<Rightarrow>
          if is_production (pe_environ V) then Inl ()
          else Inr (decode_jwt_unverified V (get_or token ''id_token'' (JStr ''''))))"

definition user_of_claims :: "dict \<Rightarrow> json \<Rightarrow> json \<Rightarrow> json \<Rightarrow> json" where
  "user_of_claims claims email given family =
     JObj [(''sub'', get_or claims ''sub'' (JStr '''')), (''email'', email), (''name'', given), (''family_name'', family),
       (''org_id'', get_or claims ''org_id'' (JStr '''')), (''org_name'', get_or claims ''org_name'' (JStr '''')),
       (''org_handle'', get_or claims ''org_handle'' (JStr '''')), (''groups'', get_or claims ''groups'' (JList [])),
       (''roles'', get_or claims ''roles'' (JList []))]"

definition scopes_of :: "dict \<Rightarrow> exn + json" where
  "scopes_of claims =
     (case get_or claims ''scope'' (JStr '''') of
        JStr s \<Rightarrow> Inr (JList (map JStr (split_ws s)))
      | _ \<Rightarrow> Inl (AttributeError ''split''))"

definition remember_login ::
  "('w, 'k) portal_env \<Rightarrow> dict \<Rightarrow> dict \<Rightarrow> (('w, 'z) portal_state_scheme, login_answer) prog" where
  "remember_login V id_claims access_claims =
     andthen (session_set ''access_token_claims'' (JObj access_claims)) (\<lambda>_.
     andthen (lift_res (scopes_of access_claims)) (\<lambda>scopes.
     andthen (session_set ''user_scopes'' scopes) (\<lambda>_.
       let email = or_else (opt_json (dict_get id_claims ''email''))
             (or_else (opt_json (dict_get id_claims ''username'')) (JStr '''')) in
       andthen (lift_res (derive_display_name id_claims email)) (\<lambda>(given, family).
       andthen (session_set ''user'' (user_of_claims id_claims email given family)) (\<lambda>_.
       andthen (lift_res (extract_roles id_claims access_claims)) (\<lambda>roles.
       andthen (session_set ''is_admin'' (JBool (TEAMSPACE_ADMIN \<in> set roles))) (\<lambda>_.
       andthen (session_set ''user_roles'' (JList (map JStr roles))) (\<lambda>_.
         ret (Page (Redirected ''dashboard.home''
           (url_arg (pe_fr V) ''org_handle''
             (get_or id_claims ''org_handle'' (get_or id_claims ''org_id'' (JStr ''''))))))))))))))"

definition remember_tokens :: "dict \<Rightarrow> (('w, 'z) portal_state_scheme, unit) prog" where
  "remember_tokens token =
     andthen (session_set ''token'' (JObj token)) (\<lambda>_.
     andthen (lift_res (item (JObj token) ''access_token'')) (\<lambda>access.
     andthen (session_set ''access_token'' access) (\<lambda>_.
     andthen (session_set ''id_token_raw'' (get_or token ''id_token'' (JStr ''''))) (\<lambda>_.
       session_set ''refresh_token'' (get_or token ''refresh_token'' (JStr ''''))))))"

definition exchange_code :: "'w oidc \<Rightarrow> json \<Rightarrow> (('w, 'z) portal_state_scheme, dict) prog" where
  "exchange_code C verifier s =
     (case oidc_exchange C verifier (world s) of (r, w) \<Rightarrow> (r, s\<lparr>world := w\<rparr>))"

text \<open>\<open>session.pop(k, default)\<close>.\<close>

definition session_take :: "string \<Rightarrow> json \<Rightarrow> (('w, 'z) portal_state_scheme, json) prog" where
  "session_take k dflt = andthen (session_get k dflt) (\<lambda>v. andthen (session_pop k) (\<lambda>_. ret v))"

definition admit ::
  "('w, 'k) portal_env \<Rightarrow> dict \<Rightarrow> dict option \<Rightarrow> (('w, 'z) portal_state_scheme, login_answer) prog" where
  "admit V token id_claims =
     andthen (verify_access_token V (get_or token ''access_token'' (JStr ''''))) (\<lambda>access_claims.
       (case (id_claims, access_claims) of
          (Some ic, Some ac) \<Rightarrow> remember_login V ic ac
        | _ \<Rightarrow> refuse_login))"

definition handle_callback ::
  "('w, 'k) portal_env \<Rightarrow> 'w oidc \<Rightarrow> (('w, 'z) portal_state_scheme, login_answer) prog" where
  "handle_callback V C =
     andthen (session_take ''code_verifier'' (JStr '''')) (\<lambda>verifier.
     andthen (exchange_code C verifier) (\<lambda>token.
     andthen (remember_tokens token) (\<lambda>_.
     andthen (session_take ''oidc_nonce'' JNull) (\<lambda>nonce.
     andthen (asks (\<lambda>s. id_token_claims V C token nonce (wall s))) (\<lambda>checked.
       (case checked of
          Inl _ \<Rightarrow> refuse_login
        | Inr id_claims \<Rightarrow> admit V token id_claims))))))"

subsection \<open>Signing out\<close>

text \<open>\<open>urllib.parse.quote\<close>, which keeps slashes.\<close>

definition quote_path :: "string \<Rightarrow> string" where
  "quote_path s = concat (map (\<lambda>c. if url_safe c \<or> c = CHR ''/'' then [c]
     else (let n = ord c in if n < 128 then percent n else percent (192 + n div 64) @ percent (128 + n mod 64))) s)"

definition logout_url :: "('w, 'k) portal_env \<Rightarrow> json \<Rightarrow> string" where
  "logout_url V id_token =
     po_is_base_url (pe_cfg V) @ po_tenant_path (pe_cfg V) @ ''/oidc/logout'' @
     ''?id_token_hint='' @ py_str (pe_fr V) id_token @
     ''&post_logout_redirect_uri='' @ quote_path (po_oidc_post_logout_uri (pe_cfg V))"

definition logout :: "('w, 'k) portal_env \<Rightarrow> (('w, 'z) portal_state_scheme, login_answer) prog" where
  "logout V =
     andthen (session_get ''id_token_raw'' (JStr '''')) (\<lambda>id_token.
     andthen clear_session (\<lambda>_. ret (SentTo (logout_url V id_token))))"

subsection \<open>The pages around signing in\<close>

definition landing :: "('w, 'k) portal_env \<Rightarrow> string option \<Rightarrow> ('w, 'z) route" where
  "landing V org_handle =
     andthen
       (case org_handle of
          Some h \<Rightarrow>
            if h = [] then ret JNull
            else
              andthen (resolve_org_id V h) (\<lambda>org_id.
                if truthy org_id then portal_get_personalization V (py_str (pe_fr V) org_id) else ret JNull)
        | None \<Rightarrow> ret JNull)
       (\<lambda>branding.
          ret (Rendered ''landing.html''
            [(''branding'', branding), (''org_handle'', opt_json (map_option JStr org_handle))]))"

definition login_page :: "string option \<Rightarrow> login_answer" where
  "login_page err =
     Page (Rendered ''login.html'' (case err of None \<Rightarrow> [] | Some m \<Rightarrow> [(''error'', JStr m)]))"

definition login_for_handle ::
  "('w, 'k) portal_env \<Rightarrow> 'w oidc \<Rightarrow> string \<Rightarrow> string \<Rightarrow> string \<Rightarrow> (('w, 'z) portal_state_scheme, login_answer) prog" where
  "login_for_handle V C verifier nonce handle =
     andthen (resolve_org_id V handle) (\<lambda>org_id.
       if truthy org_id then start_login V C verifier nonce org_id
       else ret (login_page (Some (''Organization '' @ [CHR 0x27] @ handle @ [CHR 0x27] @ '' not found.''))))"

definition login ::
  "('w, 'k) portal_env \<Rightarrow> 'w oidc \<Rightarrow> string \<Rightarrow> string \<Rightarrow> string option \<Rightarrow> (('w, 'z) portal_state_scheme, login_answer) prog" where
  "login V C verifier nonce org_handle =
     (case org_handle of
        Some h \<Rightarrow> if h = [] then ret (login_page None) else login_for_handle V C verifier nonce h
      | None \<Rightarrow> ret (login_page None))"

text \<open>The organization a mail address belongs to: the first label of its domain.\<close>

definition handle_of_email :: "string \<Rightarrow> string" where
  "handle_of_email email =
     before (CHR ''.'') (rev (takeWhile (\<lambda>c. c \<noteq> CHR ''@'') (rev email)))"

definition login_post ::
  "('w, 'k) portal_env \<Rightarrow> 'w oidc \<Rightarrow> string \<Rightarrow> string \<Rightarrow> form \<Rightarrow> (('w, 'z) portal_state_scheme, login_answer) prog" where
  "login_post V C verifier nonce form =
     (let org_handle = strip (form_get form ''org_handle'' ''''); email = strip (form_get form ''email'' '''') in
      if email \<noteq> [] \<and> CHR ''@'' \<in> set email then
        andthen (resolve_org_id V (handle_of_email email)) (\<lambda>org_id.
          start_login V C verifier nonce (if truthy org_id then org_id else JNull))
      else if org_handle \<noteq> [] then login_for_handle V C verifier nonce org_handle
      else ret (login_page (Some ''Please enter an organization handle or email.'')))"

subsection \<open>In production only a verified identity signs in\<close>

lemma session_take_run: "session_take k d s = (Inr (get_or (session s) k d), s\<lparr>session := dict_without (session s) k\<rparr>)"
  by (simp add: session_take_def session_get_def session_pop_def)

lemma refuse_login_run: "refuse_login s = (Inr (Page (Redirected ''main.login'' [])), s\<lparr>session := []\<rparr>)"
  by (simp add: refuse_login_def clear_session_def)

lemma remember_login_runs:
  assumes "remember_login V ic ac s = (Inr answer, t)"
  obtains roles where "extract_roles ic ac = Inr roles"
    and "dict_get (session t) ''is_admin'' = Some (JBool (TEAMSPACE_ADMIN \<in> set roles))"
    and "dict_get (session t) ''user_roles'' = Some (JList (map JStr roles))"
    and "dict_get (session t) ''access_token_claims'' = Some (JObj ac)"
    and "\<exists>email given family. dict_get (session t) ''user'' = Some (user_of_claims ic email given family)"
proof -
  obtain scopes where scopes: "scopes_of ac = Inr scopes"
    using assms by (cases "scopes_of ac") (auto simp: remember_login_def session_set_def)
  let ?email = "or_else (opt_json (dict_get ic ''email'')) (or_else (opt_json (dict_get ic ''username'')) (JStr []))"
  obtain given family where names: "derive_display_name ic ?email = Inr (given, family)"
    using assms scopes
    by (cases "derive_display_name ic ?email") (auto simp: remember_login_def session_set_def Let_def)
  obtain roles where roles: "extract_roles ic ac = Inr roles"
    using assms scopes names
    by (cases "extract_roles ic ac") (auto simp: remember_login_def session_set_def Let_def)
  show thesis
    by (rule that [OF roles]) (use assms scopes names roles in \<open>auto simp: remember_login_def session_set_def Let_def intro!: exI\<close>)
qed

lemma verify_access_token_production:
  assumes "verify_access_token V raw s = (Inr (Some claims), t)" and "is_production (pe_environ V)"
  shows "(\<exists>token jwks now. raw = JStr token \<and> verified_claims V jwks now token = Inr claims) \<and> session t = session s"
proof -
  have keeps: "keeps session (verify_access_token V raw)"
    unfolding verify_access_token_def portal_fetch_jwks_def
    by (intro keeps_if keeps_catch keeps_andthen keeps_send_session keeps_basic)
  then have "session t = session s" using assms(1) keepsD [OF keeps, of s] by simp
  moreover have "\<exists>token jwks now. raw = JStr token \<and> verified_claims V jwks now token = Inr claims"
    using assms unfolding verify_access_token_def
    by (cases raw) (auto simp: catch_Inr_conv andthen_Inr_conv split: if_splits)
  ultimately show ?thesis by blast
qed

lemma remember_tokens_runs:
  assumes "remember_tokens token s = (Inr (), t)"
  shows "\<forall>k. k \<notin> {''token'', ''access_token'', ''id_token_raw'', ''refresh_token''} \<longrightarrow> dict_get (session t) k = dict_get (session s) k"
    and "world t = world s" and "wall t = wall s"
  using assms by (auto simp: remember_tokens_def session_set_def andthen_def split: sum.splits)

text \<open>What a completed login rests on.\<close>

definition login_verified ::
  "('w, 'k) portal_env \<Rightarrow> 'w oidc \<Rightarrow> json \<Rightarrow> dict \<Rightarrow> bool" where
  "login_verified V C nonce sess \<longleftrightarrow>
     (\<exists>token id_claims access_claims roles raw jwks now now'.
        oidc_parse_id_token C token nonce now = Inr id_claims \<and>
        get_or token ''access_token'' (JStr '''') = JStr raw \<and> verified_claims V jwks now' raw = Inr access_claims \<and>
        extract_roles id_claims access_claims = Inr roles \<and>
        (\<exists>email given family. dict_get sess ''user'' = Some (user_of_claims id_claims email given family)) \<and>
        dict_get sess ''access_token_claims'' = Some (JObj access_claims) \<and>
        dict_get sess ''user_roles'' = Some (JList (map JStr roles)) \<and>
        dict_get sess ''is_admin'' = Some (JBool (TEAMSPACE_ADMIN \<in> set roles)))"


definition demo_login_portal :: "(unit, unit) portal_env" where
  "demo_login_portal = (demo_portal 200 [(''keys'', JList [JObj [(''kid'', JStr ''1'')]])])
     \<lparr>pe_environ := [''FLASK_ENV'' \<mapsto> ''production'']\<rparr>"

definition demo_oidc :: "unit oidc" where
  "demo_oidc = \<lparr>oidc_authorize = (\<lambda>u ps w. Inr u), oidc_exchange = (\<lambda>v w. (Inr [(''access_token'', JStr ''T'')], w)),
     oidc_parse_id_token = (\<lambda>token nonce now. if nonce = JStr ''n'' then Inr [(''roles'', JList [JStr TEAMSPACE_ADMIN])]
       else Inl (JwtInvalid ''nonce'')), sha256 = (\<lambda>b. b)\<rparr>"

lemma dict_set_not_Nil [simp]: "dict_set d k v \<noteq> []"
  by (cases d) (auto split: if_splits)


end
