(* ===== verification/Portal_Chat.thy ===== *)
theory Portal_Chat
  imports Portal_Pages Json_Codec
begin

text \<open>
  The chat panel (\<open>webapp/blueprints/chat.py\<close>): the portal passes a message on to the agent service and
  streams its answer to the browser, except for the metadata at its end, which hold the raw tokens of
  the conversation and go into the session instead. How the network cuts the answer into chunks, how a
  template is rendered and the number syntax of JSON are parameters.
\<close>

record chat_lib =
  cl_float :: "string \<Rightarrow> real"
  cl_render :: "string \<Rightarrow> dict \<Rightarrow> string"
  cl_chunks :: "response \<Rightarrow> string list \<times> exn option"

subsection \<open>Base64\<close>

definition b64_val :: "char \<Rightarrow> nat option" where
  "b64_val c =
     (let n = ord c in
      if 65 \<le> n \<and> n \<le> 90 then Some (n - 65) else if 97 \<le> n \<and> n \<le> 122 then Some (n - 71)
      else if 48 \<le> n \<and> n \<le> 57 then Some (n + 4) else if n = 43 then Some 62 else if n = 47 then Some 63 else None)"

text \<open>
  \<open>binascii.a2b_base64\<close>: the position in the group of four, the bits left over and the padding seen.
  Characters outside the alphabet are skipped, and padding that completes a group ends the text.
\<close>

fun a2b :: "nat \<Rightarrow> nat \<Rightarrow> nat \<Rightarrow> string \<Rightarrow> nat list option" where
  "a2b quad left pads [] = (if quad = 0 then Some [] else None)"
| "a2b quad left pads (c # cs) =
     (if c = CHR ''='' then
        (if 2 \<le> quad \<and> 4 \<le> quad + Suc pads then Some []
         else a2b quad left (if 2 \<le> quad then Suc pads else pads) cs)
      else
        (case b64_val c of
           None \<Rightarrow> a2b quad left pads cs
         | Some v \<Rightarrow>
             if quad = 0 then a2b 1 v 0 cs
             else if quad = 1 then map_option (Cons (left * 4 + v div 16)) (a2b 2 (v mod 16) 0 cs)
             else if quad = 2 then map_option (Cons (left * 16 + v div 4)) (a2b 3 (v mod 4) 0 cs)
             else map_option (Cons (left * 64 + v)) (a2b 0 0 0 cs)))"

definition urlsafe_b64decode :: "string \<Rightarrow> nat list option" where
  "urlsafe_b64decode s =
     a2b 0 0 0 (map (\<lambda>c. if c = CHR ''-'' then CHR ''+'' else if c = CHR ''_'' then CHR ''/'' else c) s)"

text \<open>\<open>bytes.decode("utf-8")\<close>; a code point above 255 is outside the model's text and read as a question mark.\<close>

definition continues :: "nat list \<Rightarrow> nat \<Rightarrow> bool" where
  "continues bs n \<longleftrightarrow> n \<le> length bs \<and> list_all (\<lambda>b. 128 \<le> b \<and> b < 192) (take n bs)"

function utf8_decode :: "nat list \<Rightarrow> string option" where
  "utf8_decode [] = Some []"
| "utf8_decode (b # bs) =
     (if b < 128 then map_option (Cons (chr b)) (utf8_decode bs)
      else if 194 \<le> b \<and> b < 224 \<and> continues bs 1 then
        map_option (Cons (if b < 196 then chr (64 * (b - 192) + (hd bs - 128)) else CHR ''?'')) (utf8_decode (drop 1 bs))
      else if 224 \<le> b \<and> b < 240 \<and> continues bs 2 \<and> (b = 224 \<longrightarrow> 160 \<le> hd bs) \<and> (b = 237 \<longrightarrow> hd bs < 160) then
        map_option (Cons (CHR ''?'')) (utf8_decode (drop 2 bs))
      else if 240 \<le> b \<and> b < 245 \<and> continues bs 3 \<and> (b = 240 \<longrightarrow> 144 \<le> hd bs) \<and> (b = 244 \<longrightarrow> hd bs < 144) then
        map_option (Cons (CHR ''?'')) (utf8_decode (drop 3 bs))
      else None)"
  by pat_completeness auto

termination
  by (relation "measure length") (auto simp: less_Suc_eq_le)

subsection \<open>Tokens shown on the panel\<close>

definition segment_json :: "chat_lib \<Rightarrow> string \<Rightarrow> json option" where
  "segment_json L seg =
     (case urlsafe_b64decode (seg @ replicate ((4 - length seg mod 4) mod 4) (CHR ''='')) of
        None \<Rightarrow> None
      | Some bytes \<Rightarrow> (case utf8_decode bytes of None \<Rightarrow> None | Some t \<Rightarrow> loads (cl_float L) t))"

definition jwt_data :: "json \<Rightarrow> json \<Rightarrow> dict" where
  "jwt_data header payload = [(''header'', header), (''payload'', payload)]"

text \<open>The manual parse of a token that PyJWT rejects; every failure gives nothing.\<close>

definition decode_jwt_by_hand :: "chat_lib \<Rightarrow> string \<Rightarrow> dict" where
  "decode_jwt_by_hand L token =
     (case split_char (CHR ''.'') token of
        [h, p, _] \<Rightarrow>
          (case (segment_json L h, segment_json L p) of
             (Some header, Some payload) \<Rightarrow> jwt_data header payload
           | _ \<Rightarrow> [])
      | _ \<Rightarrow> [])"

definition decode_jwt :: "('w, 'k) portal_env \<Rightarrow> chat_lib \<Rightarrow> json \<Rightarrow> dict" where
  "decode_jwt V L token =
     (case token of
        JStr t \<Rightarrow>
          if t = [] then []
          else
            (case (jwt_header (pe_jwt V) t, jwt_decode_unverified (pe_jwt V) t) of
               (Inr header, Inr payload) \<Rightarrow> jwt_data (JObj header) (JObj payload)
             | _ \<Rightarrow> decode_jwt_by_hand L t)
      | _ \<Rightarrow> [])"

definition build_jwt_inspector_html ::
  "('w, 'k) portal_env \<Rightarrow> chat_lib \<Rightarrow> json \<Rightarrow> json \<Rightarrow> (('w, 'z) portal_state_scheme, string) prog" where
  "build_jwt_inspector_html V L obo_jwt agent_jwt =
     (if \<not> truthy agent_jwt then ret ''''
      else
        (let obo_data = (if truthy obo_jwt then decode_jwt V L obo_jwt else []); agent_data = decode_jwt V L agent_jwt in
         andthen (session_get ''access_token_claims'' (JObj [])) (\<lambda>user_claims.
         andthen (session_get ''access_token'' JNull) (\<lambda>user_jwt.
           ret (cl_render L ''chat/jwt_inspector_oob.html''
             [(''obo_jwt_raw'', obo_jwt), (''obo_jwt_data'', JObj obo_data), (''agent_jwt_raw'', agent_jwt),
              (''agent_jwt_data'', JObj agent_data), (''user_token'', user_claims),
              (''obo_token'', get_or obo_data ''payload'' (JObj [])),
              (''agent_token'', get_or agent_data ''payload'' (JObj [])), (''user_jwt_raw'', user_jwt),
              (''user_jwt_data'', JObj (if truthy user_jwt then decode_jwt V L user_jwt else []))])))))"

subsection \<open>The stream\<close>

definition METADATA_START :: string where "METADATA_START = ''__METADATA_START__''"

text \<open>The texts passed on so far, the metadata so far, and whether they have begun.\<close>

record stream_state =
  ss_texts :: "string list"
  ss_metadata :: string
  ss_in_metadata :: bool

definition take_chunk :: "string \<Rightarrow> stream_state \<Rightarrow> stream_state" where
  "take_chunk chunk S =
     (if chunk = [] then S
      else if contains chunk METADATA_START then
        (let parts = split_str METADATA_START chunk in
         S\<lparr>ss_texts := ss_texts S @ [parts ! 0], ss_metadata := parts ! 1, ss_in_metadata := True\<rparr>)
      else if ss_in_metadata S then S\<lparr>ss_metadata := ss_metadata S @ chunk\<rparr>
      else S\<lparr>ss_texts := ss_texts S @ [chunk]\<rparr>)"

definition stream_response_chunks :: "string list \<Rightarrow> stream_state" where
  "stream_response_chunks chunks =
     fold take_chunk chunks \<lparr>ss_texts = [], ss_metadata = [], ss_in_metadata = False\<rparr>"

text \<open>The metadata of the agent go into the session; the browser gets the inspector only.\<close>

definition finalize_stream_metadata ::
  "('w, 'k) portal_env \<Rightarrow> chat_lib \<Rightarrow> string \<Rightarrow> (('w, 'z) portal_state_scheme, string option) prog" where
  "finalize_stream_metadata V L metadata_str =
     catch
       (andthen (lift_res (case loads (cl_float L) (strip metadata_str) of
           None \<Rightarrow> Inl (ValueError ''Expecting value'') | Some j \<Rightarrow> as_obj j)) (\<lambda>metadata.
        let obo_jwt = or_else (opt_json (dict_get metadata ''obo_jwt'')) JNull;
            agent_jwt = or_else (opt_json (dict_get metadata ''agent_jwt'')) JNull in
        andthen (session_set ''last_obo_jwt'' obo_jwt) (\<lambda>_.
        andthen (session_set ''last_agent_jwt'' agent_jwt) (\<lambda>_.
        andthen (build_jwt_inspector_html V L obo_jwt agent_jwt) (\<lambda>html.
          ret (Some (METADATA_START @ dumps (pe_fr V) (JObj [(''inspector_html'', JStr html)]))))))))
       (\<lambda>e. ret None)"

subsection \<open>Sending a message\<close>

definition ensure_thread_id :: "string \<Rightarrow> (('w, 'z) portal_state_scheme, json) prog" where
  "ensure_thread_id fresh =
     andthen (session_get ''chat_thread_id'' JNull) (\<lambda>thread_id.
       if truthy thread_id then ret thread_id
       else
         andthen (session_set ''chat_thread_id'' (JStr fresh)) (\<lambda>_.
         andthen (session_pop ''last_obo_jwt'') (\<lambda>_.
         andthen (session_pop ''last_agent_jwt'') (\<lambda>_. ret (JStr fresh)))))"

text \<open>\<open>cfg.get(k) or dflt\<close>.\<close>

definition cfg_value :: "dict \<Rightarrow> string \<Rightarrow> string \<Rightarrow> json" where
  "cfg_value d k dflt = or_else (opt_json (dict_get d k)) (JStr dflt)"

definition agent_chat_payload :: "json \<Rightarrow> string \<Rightarrow> json \<Rightarrow> json \<Rightarrow> dict option \<Rightarrow> json" where
  "agent_chat_payload thread_id message org_name language agent_cfg =
     JObj ([(''thread_id'', thread_id), (''message'', JStr message), (''org_name'', org_name), (''language'', language)] @
       (case agent_cfg of
          None \<Rightarrow> []
        | Some d \<Rightarrow>
            [(''agent_id'', cfg_value d ''agent_id'' ''''), (''agent_secret'', cfg_value d ''agent_secret'' ''''),
             (''gemini_api_key'', cfg_value d ''gemini_api_key'' ''''), (''custom_prompt'', cfg_value d ''custom_prompt'' ''''),
             (''agent_name'', cfg_value d ''display_name'' DEFAULT_AGENT_NAME)]))"

definition build_agent_chat_payload ::
  "visit \<Rightarrow> json \<Rightarrow> string \<Rightarrow> json \<Rightarrow> json \<Rightarrow> (('w, 'z) portal_state_scheme, json) prog" where
  "build_agent_chat_payload R thread_id message org_name agent_cfg =
     andthen (get_locale R) (\<lambda>language.
       if truthy agent_cfg then
         andthen (lift_res (as_obj agent_cfg)) (\<lambda>d.
           ret (agent_chat_payload thread_id message org_name language (Some d)))
       else ret (agent_chat_payload thread_id message org_name language None))"

definition build_agent_chat_payload_via_m2m ::
  "('w, 'k) portal_env \<Rightarrow> visit \<Rightarrow> json \<Rightarrow> string \<Rightarrow> (('w, 'z) portal_state_scheme, json) prog" where
  "build_agent_chat_payload_via_m2m V R thread_id message =
     andthen (user_field ''org_id'') (\<lambda>org_id.
     andthen (if truthy org_id then get_agent_config_via_service_token V (py_str (pe_fr V) org_id) else ret JNull) (\<lambda>cfg.
     andthen (user_field ''org_name'') (\<lambda>org_name.
       build_agent_chat_payload R thread_id message org_name cfg)))"

definition agent_stream_request :: "('w, 'k) portal_env \<Rightarrow> json \<Rightarrow> (string \<times> string) list \<Rightarrow> request" where
  "agent_stream_request V payload hs =
     \<lparr>meth = ''POST'', url = po_agent_service_url (pe_cfg V) @ ''/chat/stream'', query = [], headers = hs,
      body = JsonBody payload, follow_redirects = True\<rparr>"

definition stream_failure :: "exn \<Rightarrow> string" where
  "stream_failure e =
     (case e of
        Transport _ \<Rightarrow> ''<p>AI Agent service is not running. Start it on port 8000.</p>''
      | _ \<Rightarrow> ''<p>An error occurred while streaming the response.</p>'')"

text \<open>What the browser receives for an answer of the agent, in pieces.\<close>

definition relay ::
  "('w, 'k) portal_env \<Rightarrow> chat_lib \<Rightarrow> response \<Rightarrow> (('w, 'z) portal_state_scheme, string list) prog" where
  "relay V L resp =
     (if status resp \<noteq> 200 then
        ret [''<p>Error from Agent Service: status '' @ str_int (status resp) @ ''</p>'']
      else
        (case cl_chunks L resp of
           (chunks, Some e) \<Rightarrow> ret (ss_texts (stream_response_chunks chunks) @ [stream_failure e])
         | (chunks, None) \<Rightarrow>
             (let S = stream_response_chunks chunks in
              if ss_metadata S = [] then ret (ss_texts S)
              else
                andthen (finalize_stream_metadata V L (ss_metadata S)) (\<lambda>last.
                  ret (ss_texts S @ (case last of None \<Rightarrow> [] | Some x \<Rightarrow> [x]))))))"

definition generate ::
  "('w, 'k) portal_env \<Rightarrow> chat_lib \<Rightarrow> json \<Rightarrow> (string \<times> string) list \<Rightarrow> (('w, 'z) portal_state_scheme, string list) prog" where
  "generate V L payload hs =
     catch
       (andthen (send (pe_net V) (agent_stream_request V payload hs)) (relay V L))
       (\<lambda>e. ret [stream_failure e])"

datatype chat_answer = ChatRefused int string | ChatStream "string list" | ChatPage portal_answer

definition send_message ::
  "('w, 'k) portal_env \<Rightarrow> chat_lib \<Rightarrow> visit \<Rightarrow> string \<Rightarrow> form \<Rightarrow> (('w, 'z) portal_state_scheme, chat_answer) prog" where
  "send_message V L R fresh form =
     (let message = strip (form_get form ''message'' '''') in
      if message = [] then ret (ChatRefused 400 ''Please type a message.'')
      else
        andthen (ensure_thread_id fresh) (\<lambda>thread_id.
        andthen (build_agent_chat_payload_via_m2m V R thread_id message) (\<lambda>payload.
        andthen (service_auth_headers V False) (\<lambda>hs.
        andthen (generate V L payload hs) (\<lambda>pieces. ret (ChatStream pieces))))))"

subsection \<open>Forgetting the conversation\<close>

definition clear_request :: "('w, 'k) portal_env \<Rightarrow> json \<Rightarrow> (string \<times> string) list \<Rightarrow> request" where
  "clear_request V thread_id hs =
     \<lparr>meth = ''POST'', url = po_agent_service_url (pe_cfg V) @ ''/clear/'' @ py_str (pe_fr V) thread_id, query = [],
      headers = hs, body = NoBody, follow_redirects = True\<rparr>"

definition clear_chat :: "('w, 'k) portal_env \<Rightarrow> (('w, 'z) portal_state_scheme, json) prog" where
  "clear_chat V =
     andthen (session_get ''chat_thread_id'' JNull) (\<lambda>thread_id.
     andthen (session_pop ''chat_thread_id'') (\<lambda>_.
     andthen (session_pop ''last_obo_jwt'') (\<lambda>_.
     andthen (session_pop ''last_agent_jwt'') (\<lambda>_.
     andthen
       (if truthy thread_id then
          catch
            (andthen (service_auth_headers V False) (\<lambda>hs.
             andthen (send (pe_net V) (clear_request V thread_id hs)) (\<lambda>_. ret ())))
            (\<lambda>e. ret ())
        else ret ())
       (\<lambda>_. ret (JObj [(''status'', JStr ''cleared'')]))))))"

text \<open>Both routes need a signed-in user of the organization.\<close>

definition chat_route ::
  "string \<Rightarrow> (('w, 'z) portal_state_scheme, chat_answer) prog \<Rightarrow> (('w, 'z) portal_state_scheme, chat_answer) prog" where
  "chat_route org_handle f =
     andthen (asks (\<lambda>s. dict_get (session s) ''user'')) (\<lambda>user.
       if user = None then
         ret (ChatPage (Redirected ''main.login'' (if org_handle \<noteq> [] then [(''org_handle'', org_handle)] else [])))
       else andthen (same_org org_handle) (\<lambda>_. f))"

definition send_message_stream ::
  "('w, 'k) portal_env \<Rightarrow> chat_lib \<Rightarrow> visit \<Rightarrow> string \<Rightarrow> string \<Rightarrow> form
     \<Rightarrow> (('w, 'z) portal_state_scheme, chat_answer) prog" where
  "send_message_stream V L R fresh org_handle form = chat_route org_handle (send_message V L R fresh form)"

subsection \<open>What of a stream the browser sees\<close>

lemma take_chunk_plain:
  "\<not> contains c METADATA_START \<Longrightarrow> \<not> ss_in_metadata S \<Longrightarrow>
     take_chunk c S = S\<lparr>ss_texts := ss_texts S @ (if c = [] then [] else [c])\<rparr>"
  by (simp add: take_chunk_def)

lemma take_chunk_metadata:
  "\<not> contains c METADATA_START \<Longrightarrow> ss_in_metadata S \<Longrightarrow> take_chunk c S = S\<lparr>ss_metadata := ss_metadata S @ c\<rparr>"
  by (simp add: take_chunk_def)

lemma fold_plain:
  assumes "list_all (\<lambda>c. \<not> contains c METADATA_START) cs" and "\<not> ss_in_metadata S"
  shows "fold take_chunk cs S = S\<lparr>ss_texts := ss_texts S @ filter (\<lambda>c. c \<noteq> []) cs\<rparr>"
  using assms by (induction cs arbitrary: S) (simp_all add: take_chunk_plain)

lemma fold_metadata:
  assumes "list_all (\<lambda>c. \<not> contains c METADATA_START) cs" and "ss_in_metadata S"
  shows "fold take_chunk cs S = S\<lparr>ss_metadata := ss_metadata S @ concat cs\<rparr>"
  using assms by (induction cs arbitrary: S) (simp_all add: take_chunk_metadata)

lemma concat_nonempty: "concat (filter (\<lambda>c. c \<noteq> []) cs) = concat cs"
  by (induction cs) auto

text \<open>Two parts around one marker.\<close>

lemma split_none: "\<not> contains x sep \<Longrightarrow> split_str_go sep cur x = [cur @ x]"
proof (induction x arbitrary: cur)
  case (Cons c cs)
  have "\<not> startswith (c # cs) sep" "\<not> contains cs sep"
    using Cons.prems by (auto simp: contains_iff_sublist startswith_iff_prefix sublist_Cons_right)
  then show ?case using Cons.IH [of "cur @ [c]"] by simp
qed simp

lemma split_sep_first: "sep \<noteq> [] \<Longrightarrow> split_str_go sep [] (sep @ x) = [] # split_str_go sep [] x"
  by (cases sep) (simp_all add: startswith_def)

lemma split_marker_first: "\<not> contains x METADATA_START \<Longrightarrow> split_str METADATA_START (METADATA_START @ x) = [[], x]"
  using split_sep_first [of METADATA_START x] split_none [of x METADATA_START "[]"]
  by (simp add: split_str_def METADATA_START_def del: split_str_go.simps)

lemma stream_with_marker:
  assumes ts: "list_all (\<lambda>c. \<not> contains c METADATA_START) ts" and ms: "list_all (\<lambda>c. \<not> contains c METADATA_START) ms"
    and c: "contains c METADATA_START" "split_str METADATA_START c = [a, b]"
  shows "stream_response_chunks (ts @ c # ms) =
    \<lparr>ss_texts = filter (\<lambda>c. c \<noteq> []) ts @ [a], ss_metadata = b @ concat ms, ss_in_metadata = True\<rparr>"
proof -
  have "c \<noteq> []" using c(1) by (auto simp: METADATA_START_def)
  then show ?thesis
    using c by (simp add: stream_response_chunks_def fold_plain [OF ts] fold_metadata [OF ms] take_chunk_def)
qed

lemma stream_without_marker:
  assumes "list_all (\<lambda>c. \<not> contains c METADATA_START) cs"
  shows "stream_response_chunks cs = \<lparr>ss_texts = filter (\<lambda>c. c \<noteq> []) cs, ss_metadata = [], ss_in_metadata = False\<rparr>"
  by (simp add: stream_response_chunks_def fold_plain [OF assms])

text \<open>
  The marker is looked for in one chunk at a time. When the network cuts an answer of the agent so
  that no single chunk holds the whole marker, the browser is sent the complete answer as text, marker,
  metadata and the raw tokens in them included, and the session learns none of them.
\<close>

theorem split_marker_shows_metadata:
  assumes "status resp = 200" and "cl_chunks L resp = (chunks, None)"
    and cut: "list_all (\<lambda>c. \<not> contains c METADATA_START) chunks"
  shows "\<exists>pieces. relay V L resp s = (Inr pieces, s) \<and> concat pieces = concat chunks"
  using assms stream_without_marker [OF cut] by (simp add: relay_def concat_nonempty)

theorem split_marker_shows_metadata_witness:
  "\<exists>pieces. relay (demo_portal 200 []) \<lparr>cl_float = (\<lambda>x. 0), cl_render = (\<lambda>t d. []),
       cl_chunks = (\<lambda>r. ([''Hi'', ''__METADATA_ST'', ''ART__{}''], None))\<rparr>
      \<lparr>status = 200, resp_text = [], resp_json = None, resp_location = None\<rparr> (demo_visit []) = (Inr pieces, demo_visit []) \<and>
    concat pieces = ''Hi'' @ METADATA_START @ ''{}''"
proof -
  let ?L = "\<lparr>cl_float = (\<lambda>x. 0), cl_render = (\<lambda>t d. []),
    cl_chunks = (\<lambda>r. ([''Hi'', ''__METADATA_ST'', ''ART__{}''], None))\<rparr>"
  have "list_all (\<lambda>c. \<not> contains c METADATA_START) [''Hi'', ''__METADATA_ST'', ''ART__{}'']"
    by (simp add: METADATA_START_def startswith_def)
  from split_marker_shows_metadata [of "\<lparr>status = 200, resp_text = [], resp_json = None, resp_location = None\<rparr>" ?L _
      "demo_portal 200 []" "demo_visit []", OF _ _ this]
  show ?thesis by (simp add: METADATA_START_def)
qed

subsection \<open>Metadata in one piece\<close>

lemma inspector_runs: "\<exists>html. build_jwt_inspector_html V L obo agent s = (Inr html, s)"
  by (simp add: build_jwt_inspector_html_def session_get_def Let_def)

lemma finalize_runs:
  assumes "loads (cl_float L) (strip text) = Some (JObj d)"
  shows "\<exists>piece t. finalize_stream_metadata V L text s = (Inr (Some piece), t) \<and>
    dict_get (session t) ''last_obo_jwt'' = Some (or_else (opt_json (dict_get d ''obo_jwt'')) JNull) \<and>
    dict_get (session t) ''last_agent_jwt'' = Some (or_else (opt_json (dict_get d ''agent_jwt'')) JNull)"
proof -
  let ?obo = "or_else (opt_json (dict_get d ''obo_jwt'')) JNull" and ?agent = "or_else (opt_json (dict_get d ''agent_jwt'')) JNull"
  let ?s = "s\<lparr>session := dict_set (dict_set (session s) ''last_obo_jwt'' ?obo) ''last_agent_jwt'' ?agent\<rparr>"
  obtain html where "build_jwt_inspector_html V L ?obo ?agent ?s = (Inr html, ?s)" using inspector_runs by blast
  then have "finalize_stream_metadata V L text s =
      (Inr (Some (METADATA_START @ dumps (pe_fr V) (JObj [(''inspector_html'', JStr html)]))), ?s)"
    using assms by (simp add: finalize_stream_metadata_def session_set_def catch_def andthen_def Let_def)
  then show ?thesis by simp
qed

lemma relay_metadata:
  assumes ok: "status resp = 200" and chunks: "cl_chunks L resp = (ts @ [METADATA_START @ text], None)"
    and plain: "list_all (\<lambda>c. \<not> contains c METADATA_START) ts"
    and tx: "\<not> contains text METADATA_START" "text \<noteq> []" "loads (cl_float L) (strip text) = Some (JObj d)"
  shows "\<exists>piece t. relay V L resp s = (Inr (filter (\<lambda>c. c \<noteq> []) ts @ [[]] @ [piece]), t) \<and>
    dict_get (session t) ''last_obo_jwt'' = Some (or_else (opt_json (dict_get d ''obo_jwt'')) JNull) \<and>
    dict_get (session t) ''last_agent_jwt'' = Some (or_else (opt_json (dict_get d ''agent_jwt'')) JNull)"
proof -
  have S: "stream_response_chunks (ts @ [METADATA_START @ text]) =
      \<lparr>ss_texts = filter (\<lambda>c. c \<noteq> []) ts @ [[]], ss_metadata = text, ss_in_metadata = True\<rparr>"
    using stream_with_marker [OF plain, of "[]" "METADATA_START @ text" "[]" "text"] split_marker_first [OF tx(1)]
    by (simp add: contains_iff_sublist)
  obtain piece t where "finalize_stream_metadata V L text s = (Inr (Some piece), t)"
    "dict_get (session t) ''last_obo_jwt'' = Some (or_else (opt_json (dict_get d ''obo_jwt'')) JNull)"
    "dict_get (session t) ''last_agent_jwt'' = Some (or_else (opt_json (dict_get d ''agent_jwt'')) JNull)"
    using finalize_runs [OF tx(3)] by blast
  then show ?thesis using ok chunks S tx(2) by (simp add: relay_def andthen_def)
qed

lemma strip_dumped_obj: "d \<noteq> [] \<Longrightarrow> strip (dumps fr (JObj d)) = dumps fr (JObj d)"
  by (rule strip_id) (simp_all add: is_space_def)

end
