(* ===== verification/Callback_Pattern.thy ===== *)
theory Callback_Pattern
  imports Py_Str
begin

text \<open>
  Callback patterns. Both set-up scripts register the addresses to which WSO2 IS may send a browser as
  \<open>regexp=(...)\<close>, alternatives of escaped addresses and of \<open>.*\<close>. Here are \<open>re.escape\<close> of Python, and
  which addresses such a pattern admits: the documented meaning of regular expressions, by recursion on
  the text, for the constructs that the scripts write. An address has no line breaks.
\<close>

subsection \<open>\<open>re.escape\<close>\<close>

definition re_special :: "char \<Rightarrow> bool" where
  "re_special c \<longleftrightarrow> c \<in> set ''()[]{}?*+-|^$.&~# '' \<or> ord c = 92 \<or> (9 \<le> ord c \<and> ord c \<le> 13)"

definition re_escape :: "string \<Rightarrow> string" where
  "re_escape s = concat (map (\<lambda>c. if re_special c then [CHR 0x5C, c] else [c]) s)"

subsection \<open>What a pattern admits\<close>

datatype pattern_item = Exactly char | Anything

text \<open>
  One alternative. A backslash before a character that has a meaning takes the meaning away; a character
  without one stands for itself; \<open>.*\<close> is any text. Other constructs are not of this form.
\<close>

fun pattern_items :: "string \<Rightarrow> pattern_item list option" where
  "pattern_items [] = Some []"
| "pattern_items (c # cs) =
     (if ord c = 92 then
        (case cs of
           d # ds \<Rightarrow> if re_special d then map_option ((#) (Exactly d)) (pattern_items ds) else None
         | [] \<Rightarrow> None)
      else if c = CHR ''.'' then
        (case cs of
           d # ds \<Rightarrow> if d = CHR ''*'' then map_option ((#) Anything) (pattern_items ds) else None
         | [] \<Rightarrow> None)
      else if re_special c then None
      else map_option ((#) (Exactly c)) (pattern_items cs))"

text \<open>The alternatives of a group: its parts between bars that are not escaped.\<close>

fun alternatives :: "string \<Rightarrow> string \<Rightarrow> string list" where
  "alternatives cur [] = [cur]"
| "alternatives cur (c # cs) =
     (if c = CHR ''|'' then cur # alternatives [] cs
      else if ord c = 92 then
        (case cs of d # ds \<Rightarrow> alternatives (cur @ [c, d]) ds | [] \<Rightarrow> [cur @ [c]])
      else alternatives (cur @ [c]) cs)"

fun item_matches :: "pattern_item list \<Rightarrow> string \<Rightarrow> bool" where
  "item_matches [] u = (u = [])"
| "item_matches (Exactly c # p) [] = False"
| "item_matches (Exactly c # p) (x # u) = (x = c \<and> item_matches p u)"
| "item_matches (Anything # p) [] = item_matches p []"
| "item_matches (Anything # p) (x # u) = (item_matches p (x # u) \<or> item_matches (Anything # p) u)"

definition alternative_admits :: "string \<Rightarrow> string \<Rightarrow> bool" where
  "alternative_admits a u = (case pattern_items a of Some p \<Rightarrow> item_matches p u | None \<Rightarrow> False)"

definition pattern_group :: "string \<Rightarrow> string" where
  "pattern_group body = ''regexp=('' @ body @ '')''"

definition pattern_body :: "string \<Rightarrow> string option" where
  "pattern_body pat =
     (if startswith pat ''regexp=('' \<and> 9 \<le> length pat \<and> last pat = CHR '')'' then Some (butlast (drop 8 pat)) else None)"

definition callback_admits :: "string \<Rightarrow> string \<Rightarrow> bool" where
  "callback_admits pat u =
     (case pattern_body pat of
        Some body \<Rightarrow> list_ex (\<lambda>a. alternative_admits a u) (alternatives [] body)
      | None \<Rightarrow> False)"

subsection \<open>Escaped text stands for itself\<close>

lemma backslash: "ord c = 92 \<longleftrightarrow> c = CHR 0x5C"
  using of_char_eq_iff [of c "CHR 0x5C", where ?'a = nat] by simp

lemma special_facts [simp]:
  "re_special (CHR 0x5C)" "re_special (CHR ''.'')" "re_special (CHR ''|'')" "re_special (CHR ''*'')"
  by (simp_all add: re_special_def)

lemma re_escape_simps [simp]:
  "re_escape [] = []"
  "re_escape (c # s) = (if re_special c then [CHR 0x5C, c] else [c]) @ re_escape s"
  by (simp_all add: re_escape_def)

lemma items_of_escaped:
  "pattern_items (re_escape s @ rest) = map_option (\<lambda>p. map Exactly s @ p) (pattern_items rest)"
  by (induction s) (auto simp: backslash option.map_comp comp_def option.map_ident)

lemma alternatives_of_escaped: "alternatives cur (re_escape s @ rest) = alternatives (cur @ re_escape s) rest"
  by (induction s arbitrary: cur) (auto simp: backslash)

lemma matches_exactly: "item_matches (map Exactly s @ p) u \<longleftrightarrow> (\<exists>v. u = s @ v \<and> item_matches p v)"
proof (induction s arbitrary: u)
  case (Cons c s)
  then show ?case by (cases u) auto
qed simp

lemma matches_anything: "item_matches (Anything # p) u \<longleftrightarrow> (\<exists>a v. u = a @ v \<and> item_matches p v)"
proof (induction u)
  case (Cons x u)
  have "(\<exists>a v. x # u = a @ v \<and> item_matches p v) \<longleftrightarrow> item_matches p (x # u) \<or> (\<exists>a v. u = a @ v \<and> item_matches p v)"
    by (metis append_Cons append_Nil neq_Nil_conv list.inject)
  then show ?case using Cons by simp
qed simp

text \<open>Plain text in a pattern: characters without a meaning, in front of \<open>.*\<close> or of nothing.\<close>

lemma items_of_plain:
  "list_all (\<lambda>c. \<not> re_special c) s \<Longrightarrow> pattern_items (s @ rest) = map_option (\<lambda>p. map Exactly s @ p) (pattern_items rest)"
  using items_of_escaped [of s rest] by (simp add: re_escape_def list_all_iff concat_map_singleton cong: map_cong)

lemma alternatives_of_plain: "list_all (\<lambda>c. \<not> re_special c) s \<Longrightarrow> alternatives cur (s @ rest) = alternatives (cur @ s) rest"
  using alternatives_of_escaped [of cur s rest] by (simp add: re_escape_def list_all_iff concat_map_singleton cong: map_cong)

lemma items_of_dot_star: "pattern_items (''.*'' @ rest) = map_option ((#) Anything) (pattern_items rest)"
  by (simp add: backslash)

lemma alternatives_of_dot_star: "alternatives cur (''.*'' @ rest) = alternatives (cur @ ''.*'') rest"
  by (simp add: backslash)

lemma callback_admits_group [simp]: "callback_admits (pattern_group body) u \<longleftrightarrow> list_ex (\<lambda>a. alternative_admits a u) (alternatives [] body)"
  by (simp add: callback_admits_def pattern_body_def pattern_group_def startswith_def butlast_append)

text \<open>
  \<open>re.escape\<close> takes every meaning away: as a pattern, an escaped text admits that text and no
  other, whatever characters it has.
\<close>

theorem escaped_text_is_exact: "alternative_admits (re_escape s) u \<longleftrightarrow> u = s"
  using items_of_escaped [of s "[]"] matches_exactly [of s "[]" u] by (simp add: alternative_admits_def)

end
