(* ===== verification/Setup_Is.thy ===== *)
theory Setup_Is
  imports Portal_Ops Portal_Access Callback_Pattern
begin

text \<open>
  \<open>setup_is.py\<close>, which prepares WSO2 IS for the services: the tenant, the application with its OIDC
  settings, the API resources with their scopes, the roles with their permissions, and the sharing
  with organizations. Its messages to the console are not modelled; \<open>sys.exit(1)\<close> is an exception.
\<close>

subsection \<open>Settings\<close>

record setup_config =
  su_base_url :: string
  su_portal_url :: string
  su_agent_service_url :: string
  su_tenant_domain :: string
  su_super_admin :: "string \<times> string"
  su_tenant_admin_username :: string
  su_tenant_admin_password :: string
  su_tenant_admin_email :: string
  su_app_name :: string
  su_logo_url :: string
  su_favicon_url :: string

definition Setup_Config :: "environ \<Rightarrow> setup_config" where
  "Setup_Config E =
     (let handle = getenv E ''IS_ORG_HANDLE'' []; cdn = getenv E ''CDN_IMG_BASE_URL'' (CDN_IMG_BASE_URL CommonDefaults) in
      \<lparr>su_base_url = rstrip_char (CHR ''/'') (getenv E ''IS_BASE_URL'' ''https://localhost:9443''),
       su_portal_url = rstrip_char (CHR ''/'') (getenv E ''PORTAL_URL'' ''http://localhost:5001''),
       su_agent_service_url = rstrip_char (CHR ''/'') (getenv E ''AGENT_SERVICE_URL'' ''http://localhost:8000''),
       su_tenant_domain = (if handle \<noteq> [] then handle else ''teamspace''),
       su_super_admin = (getenv E ''IS_SUPER_ADMIN_USERNAME'' ''admin'', getenv E ''IS_SUPER_ADMIN_PASSWORD'' []),
       su_tenant_admin_username = getenv E ''IS_TENANT_ADMIN_USERNAME'' ''teamspaceadmin'',
       su_tenant_admin_password = getenv E ''IS_TENANT_ADMIN_PASSWORD'' [],
       su_tenant_admin_email = getenv E ''IS_TENANT_ADMIN_EMAIL'' ''teamspaceadmin@mail.com'',
       su_app_name = getenv E ''APP_NAME'' ''Teamspace'',
       su_logo_url = getenv E ''DEFAULT_LOGO_URL'' (cdn @ ''/teamspace-logo.svg''),
       su_favicon_url = getenv E ''DEFAULT_FAVICON_URL'' (cdn @ ''/teamspace-favicon.svg'')\<rparr>)"

definition app_callback :: "setup_config \<Rightarrow> string" where
  "app_callback C =
     pattern_group (re_escape (su_portal_url C) @ ''.*|'' @ re_escape (su_agent_service_url C) @ ''.*'')"

definition SERVER_API :: "setup_config \<Rightarrow> string" where
  "SERVER_API C = su_base_url C @ ''/api/server/v1''"

definition TENANT_API :: "setup_config \<Rightarrow> string" where
  "TENANT_API C = su_base_url C @ ''/t/'' @ su_tenant_domain C @ ''/api/server/v1''"

definition TENANT_SCIM :: "setup_config \<Rightarrow> string" where
  "TENANT_SCIM C = su_base_url C @ ''/t/'' @ su_tenant_domain C @ ''/scim2/v2''"

definition tenant_admin_auth :: "setup_config \<Rightarrow> string \<times> string" where
  "tenant_admin_auth C = (su_tenant_admin_username C @ ''@'' @ su_tenant_domain C, su_tenant_admin_password C)"

definition BRANDING_PAYLOAD :: "setup_config \<Rightarrow> json" where
  "BRANDING_PAYLOAD C =
     (case build_is_branding_payload
        [(''primary_color'', JStr DEFAULT_PRIMARY_COLOR), (''secondary_color'', JStr DEFAULT_SECONDARY_COLOR),
         (''logo_url'', JStr (su_logo_url C)), (''logo_alt_text'', JStr ''Teamspace App Logo''),
         (''favicon_url'', JStr (su_favicon_url C))] [] of
        JObj d \<Rightarrow> JObj (dict_set d ''name'' (JStr (su_tenant_domain C)))
      | v \<Rightarrow> v)"

subsection \<open>Calls\<close>

text \<open>The calls go through \<open>ISClient\<close>, whose \<open>json()\<close> never raises: a body that is not JSON is its text.\<close>

text \<open>\<open>requests\<close> sends \<open>auth\<close> as basic authentication, in Latin-1.\<close>

definition basic_auth :: "string \<times> string \<Rightarrow> string" where
  "basic_auth a = ''Basic '' @ b64 (map ord (fst a @ '':'' @ snd a))"

definition setup_request ::
  "string \<Rightarrow> string \<Rightarrow> (string \<times> string) list \<Rightarrow> string \<times> string \<Rightarrow> json option \<Rightarrow> request" where
  "setup_request m u params auth payload =
     \<lparr>meth = m, url = u, query = params,
      headers = [(''Content-Type'', ''application/json''), (''Authorization'', basic_auth auth)],
      body = (case payload of None \<Rightarrow> NoBody | Some j \<Rightarrow> JsonBody j), follow_redirects = True\<rparr>"

definition setup_call ::
  "'w net \<Rightarrow> string \<Rightarrow> string \<Rightarrow> (string \<times> string) list \<Rightarrow> string \<times> string \<Rightarrow> json option
     \<Rightarrow> (('w, 'z) net_state_scheme, response) prog" where
  "setup_call net m u params auth payload = send net (setup_request m u params auth payload)"

definition as_tenant ::
  "'w net \<Rightarrow> setup_config \<Rightarrow> string \<Rightarrow> string \<Rightarrow> (string \<times> string) list \<Rightarrow> json option
     \<Rightarrow> (('w, 'z) net_state_scheme, response) prog" where
  "as_tenant net C m path params payload = setup_call net m (TENANT_API C @ path) params (tenant_admin_auth C) payload"

text \<open>\<open>resp.json().get(k, [])\<close>, and \<open>xs[0]["id"]\<close>.\<close>

definition found_in :: "response \<Rightarrow> string \<Rightarrow> exn + json" where
  "found_in resp k = field_or (body_data resp) k (JList [])"

definition first_id :: "json \<Rightarrow> exn + json" where
  "first_id xs = bind_res (first_item xs) (\<lambda>x. item x ''id'')"

text \<open>\<open>resp.json().get("code", "") if resp.content else ""\<close>.\<close>

definition answer_code :: "response \<Rightarrow> exn + json" where
  "answer_code resp = (if resp_text resp = [] then Inr (JStr []) else field_or (body_data resp) ''code'' (JStr []))"

definition exit_1 :: "('s, 'a) prog" where
  "exit_1 = raise (OtherError ''SystemExit: 1'')"

subsection \<open>Tenant, branding and application\<close>

definition tenant_filter :: "setup_config \<Rightarrow> (string \<times> string) list" where
  "tenant_filter C = [(''filter'', ''domainName eq '' @ su_tenant_domain C)]"

definition tenant_body :: "setup_config \<Rightarrow> json" where
  "tenant_body C =
     JObj [(''domain'', JStr (su_tenant_domain C)), (''name'', JStr (su_app_name C)),
       (''owners'', JList [JObj
         [(''firstname'', JStr ''Teamspace''), (''lastname'', JStr ''Admin''),
          (''username'', JStr (su_tenant_admin_username C)), (''email'', JStr (su_tenant_admin_email C)),
          (''password'', JStr (su_tenant_admin_password C)), (''provisioningMethod'', JStr ''inline-password'')]])]"

definition create_tenant :: "'w net \<Rightarrow> setup_config \<Rightarrow> (('w, 'z) net_state_scheme, json) prog" where
  "create_tenant net C =
     andthen (setup_call net ''GET'' (SERVER_API C @ ''/tenants'') (tenant_filter C) (su_super_admin C) None) (\<lambda>resp.
     andthen (lift_res (found_in resp ''tenants'')) (\<lambda>tenants.
       if truthy tenants then lift_res (first_id tenants)
       else
         andthen (setup_call net ''POST'' (SERVER_API C @ ''/tenants'') [] (su_super_admin C) (Some (tenant_body C)))
           (\<lambda>created.
           if status created \<notin> {200, 201, 202} then exit_1
           else
             andthen (setup_call net ''GET'' (SERVER_API C @ ''/tenants'') (tenant_filter C) (su_super_admin C) None)
               (\<lambda>again. lift_res (bind_res (item (body_data again) ''tenants'') first_id)))))"

definition set_branding :: "'w net \<Rightarrow> setup_config \<Rightarrow> (('w, 'z) net_state_scheme, unit) prog" where
  "set_branding net C =
     andthen (as_tenant net C ''POST'' ''/branding-preference'' [] (Some (BRANDING_PAYLOAD C))) (\<lambda>resp.
       if status resp = 409 then
         andthen (as_tenant net C ''PUT'' ''/branding-preference'' [] (Some (BRANDING_PAYLOAD C))) (\<lambda>_. ret ())
       else ret ())"

definition app_filter :: "setup_config \<Rightarrow> (string \<times> string) list" where
  "app_filter C = [(''excludeSystemPortals'', ''false''), (''filter'', ''name eq '' @ su_app_name C)]"

definition GRANT_TYPES :: json where
  "GRANT_TYPES = JList (map JStr [''authorization_code'', ''client_credentials'', ''organization_switch'', ''refresh_token''])"

definition access_token_settings :: "string \<Rightarrow> bool \<Rightarrow> json" where
  "access_token_settings binding revoke =
     JObj [(''accessTokenAttributes'', JList [JStr ''email'']), (''applicationAccessTokenExpiryInSeconds'', JInt 3600),
       (''bindingType'', JStr binding), (''revokeTokensWhenIDPSessionTerminated'', JBool revoke),
       (''type'', JStr ''JWT''), (''userAccessTokenExpiryInSeconds'', JInt 3600), (''validateTokenBinding'', JBool False)]"

definition oidc_settings :: "setup_config \<Rightarrow> string \<Rightarrow> bool \<Rightarrow> dict" where
  "oidc_settings C binding revoke =
     [(''grantTypes'', GRANT_TYPES),
      (''allowedOrigins'', JList [JStr (su_portal_url C), JStr (su_agent_service_url C)]),
      (''callbackURLs'', JList [JStr (app_callback C)]), (''publicClient'', JBool False),
      (''accessToken'', access_token_settings binding revoke),
      (''refreshToken'', JObj [(''expiryInSeconds'', JInt 86400)])]"

definition claim :: "string \<Rightarrow> json" where
  "claim name = JObj [(''uri'', JStr (''http://wso2.org/claims/'' @ name))]"

definition app_body :: "setup_config \<Rightarrow> json" where
  "app_body C =
     JObj [(''name'', JStr (su_app_name C)),
       (''advancedConfigurations'', JObj [(''discoverableByEndUsers'', JBool False), (''skipLogoutConsent'', JBool True),
          (''skipLoginConsent'', JBool False)]),
       (''authenticationSequence'', JObj [(''type'', JStr ''DEFAULT''),
          (''steps'', JList [JObj [(''id'', JInt 1),
             (''options'', JList [JObj [(''idp'', JStr ''LOCAL''), (''authenticator'', JStr ''basic'')]])]])]),
       (''claimConfiguration'', JObj [(''dialect'', JStr ''LOCAL''),
          (''requestedClaims'', JList [JObj [(''claim'', claim ''username'')]])]),
       (''inboundProtocolConfiguration'', JObj [(''oidc'', JObj (oidc_settings C ''None'' False))]),
       (''templateId'', JStr ''b9c5e11e-fc78-484b-9bec-015d247561b8''),
       (''associatedRoles'', JObj [(''allowedAudience'', JStr ''APPLICATION''), (''roles'', JList [])])]"

definition create_application :: "'w net \<Rightarrow> setup_config \<Rightarrow> (('w, 'z) net_state_scheme, json) prog" where
  "create_application net C =
     andthen (as_tenant net C ''GET'' ''/applications'' (app_filter C) None) (\<lambda>resp.
     andthen (lift_res (found_in resp ''applications'')) (\<lambda>apps.
       if truthy apps then lift_res (first_id apps)
       else
         andthen (as_tenant net C ''POST'' ''/applications'' [] (Some (app_body C))) (\<lambda>created.
           if status created \<notin> {200, 201} then exit_1
           else
             andthen (as_tenant net C ''GET'' ''/applications'' (app_filter C) None) (\<lambda>again.
               lift_res (bind_res (item (body_data again) ''applications'') first_id)))))"

subsection \<open>Credentials, sharing, claims and OIDC settings\<close>

definition oidc_path :: "json \<Rightarrow> (real \<Rightarrow> string) \<Rightarrow> string" where
  "oidc_path app_id fr = ''/applications/'' @ py_str fr app_id @ ''/inbound-protocols/oidc''"

definition get_credentials ::
  "'w net \<Rightarrow> (real \<Rightarrow> string) \<Rightarrow> setup_config \<Rightarrow> json \<Rightarrow> (('w, 'z) net_state_scheme, json \<times> json) prog" where
  "get_credentials net fr C app_id =
     andthen (as_tenant net C ''GET'' (oidc_path app_id fr) [] None) (\<lambda>resp.
     andthen (lift_res (as_obj (body_data resp))) (\<lambda>d.
       ret (get_or d ''clientId'' (JStr []), get_or d ''clientSecret'' (JStr []))))"

definition share_policy :: "json \<Rightarrow> json \<Rightarrow> json" where
  "share_policy app_id role_sharing =
     JObj [(''applicationId'', app_id), (''policy'', JStr ''ALL_EXISTING_AND_FUTURE_ORGS''), (''roleSharing'', role_sharing)]"

text \<open>Of a refusal only the code is looked at, to choose a message; reading it may raise.\<close>

definition share_with_all ::
  "'w net \<Rightarrow> setup_config \<Rightarrow> json \<Rightarrow> json \<Rightarrow> (('w, 'z) net_state_scheme, unit) prog" where
  "share_with_all net C app_id role_sharing =
     andthen (as_tenant net C ''POST'' ''/applications/share-with-all'' [] (Some (share_policy app_id role_sharing))) (\<lambda>resp.
       if status resp \<in> {200, 201, 202, 204} then ret ()
       else andthen (lift_res (answer_code resp)) (\<lambda>_. ret ()))"

definition set_initial_sharing :: "'w net \<Rightarrow> setup_config \<Rightarrow> json \<Rightarrow> (('w, 'z) net_state_scheme, unit) prog" where
  "set_initial_sharing net C app_id =
     share_with_all net C app_id (JObj [(''mode'', JStr ''NONE''), (''roles'', JList [])])"

definition requested_claim :: "string \<Rightarrow> json" where
  "requested_claim name = JObj [(''claim'', claim name), (''mandatory'', JBool False)]"

definition claims_body :: json where
  "claims_body =
     JObj [(''claimConfiguration'', JObj
       [(''dialect'', JStr ''LOCAL''),
        (''requestedClaims'', JList (map requested_claim
          [''identity/emailVerified'', ''emailaddress'', ''username'', ''givenname'', ''lastname'', ''roles'', ''groups''])),
        (''role'', JObj [(''claim'', claim ''roles''), (''includeUserDomain'', JBool False)]),
        (''subject'', JObj [(''claim'', claim ''userid''), (''includeTenantDomain'', JBool False),
          (''includeUserDomain'', JBool False), (''mappedLocalSubjectMandatory'', JBool False),
          (''useMappedLocalSubject'', JBool True)])])]"

definition app_path :: "(real \<Rightarrow> string) \<Rightarrow> json \<Rightarrow> string" where
  "app_path fr app_id = ''/applications/'' @ py_str fr app_id"

definition update_claims ::
  "'w net \<Rightarrow> (real \<Rightarrow> string) \<Rightarrow> setup_config \<Rightarrow> json \<Rightarrow> (('w, 'z) net_state_scheme, unit) prog" where
  "update_claims net fr C app_id =
     andthen (as_tenant net C ''PATCH'' (app_path fr app_id) [] (Some claims_body)) (\<lambda>_. ret ())"

definition update_oidc_config ::
  "'w net \<Rightarrow> (real \<Rightarrow> string) \<Rightarrow> setup_config \<Rightarrow> json \<Rightarrow> json \<Rightarrow> (('w, 'z) net_state_scheme, unit) prog" where
  "update_oidc_config net fr C app_id client_id =
     andthen (as_tenant net C ''PUT'' (oidc_path app_id fr) []
        (Some (JObj ((''clientId'', client_id) # oidc_settings C ''sso-session'' True)))) (\<lambda>_. ret ())"

definition enable_api_based_auth ::
  "'w net \<Rightarrow> (real \<Rightarrow> string) \<Rightarrow> setup_config \<Rightarrow> json \<Rightarrow> (('w, 'z) net_state_scheme, unit) prog" where
  "enable_api_based_auth net fr C app_id =
     andthen (as_tenant net C ''PATCH'' (app_path fr app_id) []
        (Some (JObj [(''advancedConfigurations'', JObj [(''enableAPIBasedAuthentication'', JBool True)])]))) (\<lambda>_. ret ())"

subsection \<open>API resources\<close>

text \<open>An API resource of the project: its scopes, and those the application is authorized for.\<close>

record api_resource =
  ar_name :: string
  ar_identifier :: string
  ar_description :: string
  ar_scopes :: "(string \<times> string) list"
  ar_mcp :: bool
  ar_authorized :: "string list"

definition api_resource_body :: "api_resource \<Rightarrow> json" where
  "api_resource_body r =
     JObj ([(''name'', JStr (ar_name r)), (''identifier'', JStr (ar_identifier r)),
       (''description'', JStr (ar_description r)), (''requiresAuthorization'', JBool True),
       (''scopes'', JList (map (\<lambda>(n, d). JObj [(''name'', JStr n), (''displayName'', JStr d)]) (ar_scopes r)))] @
       (if ar_mcp r then [(''resourceType'', JStr ''MCP'')] else []))"

definition first_id_or_none :: "json \<Rightarrow> exn + json" where
  "first_id_or_none xs = (if truthy xs then first_id xs else Inr JNull)"

definition get_api_resource_id ::
  "'w net \<Rightarrow> setup_config \<Rightarrow> string \<Rightarrow> (('w, 'z) net_state_scheme, json) prog" where
  "get_api_resource_id net C filter_query =
     andthen (as_tenant net C ''GET'' ''/api-resources'' [(''filter'', filter_query)] None) (\<lambda>resp.
       lift_res (bind_res (found_in resp ''apiResources'') first_id_or_none))"

text \<open>Created, or looked up when the creation is refused.\<close>

definition create_api_resource ::
  "'w net \<Rightarrow> setup_config \<Rightarrow> api_resource \<Rightarrow> (('w, 'z) net_state_scheme, json) prog" where
  "create_api_resource net C r =
     andthen (as_tenant net C ''POST'' ''/api-resources'' [] (Some (api_resource_body r))) (\<lambda>resp.
       if status resp \<in> {200, 201} then lift_res (field_or (body_data resp) ''id'' (JStr []))
       else get_api_resource_id net C (''identifier eq '' @ ar_identifier r))"

definition authorization_body :: "json \<Rightarrow> string list \<Rightarrow> json" where
  "authorization_body api_id scopes =
     JObj [(''id'', api_id), (''policyIdentifier'', JStr ''RBAC''), (''scopes'', JList (map JStr scopes))]"

definition authorize_api ::
  "'w net \<Rightarrow> (real \<Rightarrow> string) \<Rightarrow> setup_config \<Rightarrow> json \<Rightarrow> json \<Rightarrow> string list \<Rightarrow> (('w, 'z) net_state_scheme, unit) prog" where
  "authorize_api net fr C app_id api_id scopes =
     (if \<not> truthy api_id then ret ()
      else
        andthen (as_tenant net C ''POST'' (app_path fr app_id @ ''/authorized-apis'') []
           (Some (authorization_body api_id scopes))) (\<lambda>resp.
          if status resp \<in> {200, 201} then ret ()
          else andthen (lift_res (answer_code resp)) (\<lambda>_. ret ())))"

definition MEETING_API :: api_resource where
  "MEETING_API = \<lparr>ar_name = ''Meeting Service'', ar_identifier = ''urn:teamspace:meetings'',
     ar_description = ''Meeting Service API'',
     ar_scopes = [(''list_meetings'', ''List Meetings''), (''create_meeting'', ''Create Meetings''),
       (''view_meeting'', ''View Meetings''), (''update_meeting'', ''Update Meetings''),
       (''delete_meeting'', ''Delete Meetings''), (''view_agent_config'', ''View Agent Config''),
       (''manage_agent_config'', ''Manage Agent Config'')],
     ar_mcp = False,
     ar_authorized = [''create_meeting'', ''delete_meeting'', ''list_meetings'', ''update_meeting'', ''view_meeting'',
       ''view_agent_config'', ''manage_agent_config'']\<rparr>"

definition MCP_API :: api_resource where
  "MCP_API = \<lparr>ar_name = ''Meeting Agent'', ar_identifier = ''mcp://meeting-agent'',
     ar_description = ''Meeting Agent MCP API'',
     ar_scopes = [(''create_meeting_agent'', ''Create Meeting Agent''), (''list_meetings_agent'', ''List Meetings Agent''),
       (''delete_meeting_agent'', ''Delete Meeting Agent''), (''update_meeting_agent'', ''Update Meeting Agent'')],
     ar_mcp = True,
     ar_authorized = [''create_meeting_agent'', ''list_meetings_agent'', ''delete_meeting_agent'', ''update_meeting_agent'']\<rparr>"

definition PERSONALIZATION_API :: api_resource where
  "PERSONALIZATION_API = \<lparr>ar_name = ''Personalization Service'', ar_identifier = ''urn:teamspace:personalization'',
     ar_description = ''Personalization Service API'',
     ar_scopes = [(''create_basic_branding'', ''Create Basic Branding''),
       (''create_advanced_branding'', ''Create Advanced Branding''), (''update_branding'', ''Update Branding''),
       (''delete_branding'', ''Delete Branding'')],
     ar_mcp = False,
     ar_authorized = [''create_advanced_branding'', ''create_basic_branding'', ''delete_branding'', ''update_branding'']\<rparr>"

definition INTERNAL_API :: api_resource where
  "INTERNAL_API = \<lparr>ar_name = ''Teamspace Internal Services'', ar_identifier = ''urn:teamspace:internal'',
     ar_description = ''Service-to-service authentication for the Teamspace microservices'',
     ar_scopes = [(SERVICE_SCOPE, ''Internal Service Call'')], ar_mcp = False, ar_authorized = [SERVICE_SCOPE]\<rparr>"

text \<open>The built-in APIs by the query that finds them, with the scopes authorized.\<close>

definition crud :: "string \<Rightarrow> string list \<Rightarrow> string list" where
  "crud prefix_text verbs = map (\<lambda>v. prefix_text @ ''_'' @ v) verbs"

definition AGENT_APIS :: "(string \<times> string list) list" where
  "AGENT_APIS = [(''identifier eq /scim2/Agents'',
     crud ''internal_agent_mgt'' [''create'', ''delete'', ''list'', ''update'', ''view''])]"

definition ORG_APIS :: "(string \<times> string list) list" where
  "ORG_APIS =
     [(''identifier sw /o/scim2/Users'', crud ''internal_org_user_mgt'' [''create'', ''delete'', ''list'', ''update'', ''view'']),
      (''identifier sw /o/scim2/Roles'', crud ''internal_org_role_mgt'' [''create'', ''delete'', ''update'', ''view'']),
      (''identifier sw /o/scim2/Groups'', crud ''internal_org_group_mgt'' [''create'', ''delete'', ''update'', ''view'']),
      (''identifier sw /o/api/server/v1/identity-provider'', crud ''internal_org_idp'' [''create'', ''delete'', ''update'', ''view'']),
      (''identifier sw /o/api/server/v1/applications'',
        crud ''internal_org_application_mgt'' [''create'', ''delete'', ''update'', ''view'']),
      (''identifier sw /o/api/server/v1/claim-dialects'', crud ''internal_org_claim_meta'' [''update'', ''view'']),
      (''identifier sw /o/api/server/v1/branding-preference'', crud ''internal_org_branding_preference'' [''update'']),
      (''identifier eq /o/api/server/v1/organizations'',
        crud ''internal_org_organization'' [''create'', ''delete'', ''update'', ''view'']),
      (''identifier eq /o/api/server/v1/userstore'', crud ''internal_org_userstore'' [''create'', ''delete'', ''update'', ''view''])]"

definition ROOT_APIS :: "(string \<times> string list) list" where
  "ROOT_APIS =
     [(''identifier eq /api/server/v1/organizations'', crud ''internal_organization'' [''create'', ''delete'', ''update'', ''view'']),
      (''identifier eq /api/server/v1/applications'', crud ''internal_application_mgt'' [''create'', ''delete'', ''update'', ''view'']),
      (''identifier eq /api/server/v1/applications/share'', crud ''internal_shared_application'' [''create'', ''delete'', ''view'']),
      (''identifier eq /scim2/Roles'', crud ''internal_role_mgt'' [''create'', ''delete'', ''update'', ''view'']),
      (''identifier eq /scim2/Users'', crud ''internal_user_mgt'' [''create'', ''delete'', ''list'', ''update'', ''view''])]"

fun each_prog :: "('a \<Rightarrow> ('s, unit) prog) \<Rightarrow> 'a list \<Rightarrow> ('s, unit) prog" where
  "each_prog f [] = ret ()"
| "each_prog f (x # xs) = andthen (f x) (\<lambda>_. each_prog f xs)"

definition own_api ::
  "'w net \<Rightarrow> (real \<Rightarrow> string) \<Rightarrow> setup_config \<Rightarrow> json \<Rightarrow> api_resource \<Rightarrow> (('w, 'z) net_state_scheme, unit) prog" where
  "own_api net fr C app_id r =
     andthen (create_api_resource net C r) (\<lambda>api_id. authorize_api net fr C app_id api_id (ar_authorized r))"

definition built_in_api ::
  "'w net \<Rightarrow> (real \<Rightarrow> string) \<Rightarrow> setup_config \<Rightarrow> json \<Rightarrow> string \<times> string list \<Rightarrow> (('w, 'z) net_state_scheme, unit) prog" where
  "built_in_api net fr C app_id r =
     andthen (get_api_resource_id net C (fst r)) (\<lambda>api_id. authorize_api net fr C app_id api_id (snd r))"

definition setup_api_resources ::
  "'w net \<Rightarrow> (real \<Rightarrow> string) \<Rightarrow> setup_config \<Rightarrow> json \<Rightarrow> (('w, 'z) net_state_scheme, unit) prog" where
  "setup_api_resources net fr C app_id =
     andthen (each_prog (own_api net fr C app_id) [MEETING_API, MCP_API, PERSONALIZATION_API, INTERNAL_API]) (\<lambda>_.
       each_prog (built_in_api net fr C app_id) (AGENT_APIS @ ORG_APIS @ ROOT_APIS))"

subsection \<open>Roles\<close>

definition ROLE_PERMISSIONS :: "(string \<times> string list) list" where
  "ROLE_PERMISSIONS =
     [(TEAMSPACE_ADMIN,
        crud ''internal_org_user_mgt'' [''delete'', ''update'', ''view'', ''create'', ''list''] @
        crud ''internal_org_role_mgt'' [''view'', ''create'', ''update'', ''delete''] @
        crud ''internal_org_group_mgt'' [''create'', ''delete'', ''view'', ''update''] @
        [''internal_org_idp_view''] @
        crud ''internal_org_application_mgt'' [''create'', ''update'', ''delete'', ''view''] @
        crud ''internal_org_claim_meta'' [''update'', ''view''] @
        crud ''internal_agent_mgt'' [''create'', ''delete'', ''list'', ''view''] @
        [''view_meeting'', ''list_meetings'', ''update_meeting'', ''delete_meeting'', ''create_meeting'',
         ''view_agent_config'', ''manage_agent_config'',
         ''create_meeting_agent'', ''list_meetings_agent'', ''delete_meeting_agent'', ''update_meeting_agent'']),
      (TEAMSPACE_USER,
        [''view_meeting'', ''list_meetings'', ''update_meeting'', ''delete_meeting'', ''create_meeting'',
         ''create_meeting_agent'', ''list_meetings_agent'', ''delete_meeting_agent'', ''update_meeting_agent'']),
      (IDP_MANAGER, crud ''internal_org_idp'' [''view'', ''create'', ''delete'', ''update'']),
      (BASIC_BRANDING_EDITOR,
        [''create_basic_branding'', ''delete_branding'', ''update_branding'', ''internal_org_branding_preference_update'']),
      (ADVANCED_BRANDING_EDITOR,
        [''update_branding'', ''create_advanced_branding'', ''create_basic_branding'', ''delete_branding'',
         ''internal_org_branding_preference_update''])]"

definition permission_values :: "string list \<Rightarrow> json" where
  "permission_values permissions = JList (map (\<lambda>p. JObj [(''value'', JStr p)]) permissions)"

definition setup_role_body :: "json \<Rightarrow> string \<Rightarrow> string list \<Rightarrow> json" where
  "setup_role_body app_id role_name permissions =
     JObj [(''audience'', JObj [(''type'', JStr ''APPLICATION''), (''value'', app_id)]),
       (''displayName'', JStr role_name), (''permissions'', permission_values permissions), (''schemas'', JList [])]"

definition permissions_patch :: "string list \<Rightarrow> json" where
  "permissions_patch permissions =
     JObj [(''schemas'', JList [JStr ''urn:ietf:params:scim:api:messages:2.0:PatchOp'']),
       (''Operations'', JList [JObj [(''op'', JStr ''replace''), (''path'', JStr ''permissions''),
          (''value'', permission_values permissions)]])]"

definition setup_roles_url :: "setup_config \<Rightarrow> string" where
  "setup_roles_url C = TENANT_SCIM C @ ''/Roles''"

definition patch_role_permissions ::
  "'w net \<Rightarrow> (real \<Rightarrow> string) \<Rightarrow> setup_config \<Rightarrow> json \<Rightarrow> string \<Rightarrow> string list \<Rightarrow> (('w, 'z) net_state_scheme, unit) prog" where
  "patch_role_permissions net fr C app_id role_name permissions =
     andthen (setup_call net ''GET'' (setup_roles_url C)
        [(''filter'', ''displayName eq '' @ role_name @ '' and audience.value eq '' @ py_str fr app_id)]
        (tenant_admin_auth C) None) (\<lambda>resp.
     andthen (lift_res (found_in resp ''Resources'')) (\<lambda>roles.
       if \<not> truthy roles then ret ()
       else
         andthen (lift_res (first_id roles)) (\<lambda>role_id.
         andthen (setup_call net ''PATCH'' (setup_roles_url C @ ''/'' @ py_str fr role_id) [] (tenant_admin_auth C)
            (Some (permissions_patch permissions))) (\<lambda>_. ret ()))))"

text \<open>A role that already exists has its permissions replaced.\<close>

definition create_role ::
  "'w net \<Rightarrow> (real \<Rightarrow> string) \<Rightarrow> setup_config \<Rightarrow> json \<Rightarrow> string \<times> string list \<Rightarrow> (('w, 'z) net_state_scheme, unit) prog" where
  "create_role net fr C app_id r =
     andthen (setup_call net ''POST'' (setup_roles_url C) [] (tenant_admin_auth C)
        (Some (setup_role_body app_id (fst r) (snd r)))) (\<lambda>resp.
       if status resp \<in> {200, 201, 401} then ret ()
       else if status resp = 409 then patch_role_permissions net fr C app_id (fst r) (snd r)
       else
         andthen (lift_res (if resp_text resp = [] then Inr [] else as_obj (body_data resp))) (\<lambda>_. ret ()))"

definition create_roles ::
  "'w net \<Rightarrow> (real \<Rightarrow> string) \<Rightarrow> setup_config \<Rightarrow> json \<Rightarrow> (('w, 'z) net_state_scheme, unit) prog" where
  "create_roles net fr C app_id = each_prog (create_role net fr C app_id) ROLE_PERMISSIONS"

definition shared_role :: "setup_config \<Rightarrow> string \<Rightarrow> json" where
  "shared_role C role_name =
     JObj [(''audience'', JObj [(''display'', JStr (su_app_name C)), (''type'', JStr ''application'')]),
       (''displayName'', JStr role_name)]"

definition share_with_roles :: "'w net \<Rightarrow> setup_config \<Rightarrow> json \<Rightarrow> (('w, 'z) net_state_scheme, unit) prog" where
  "share_with_roles net C app_id =
     share_with_all net C app_id
       (JObj [(''mode'', JStr ''SELECTED''), (''roles'', JList [shared_role C TEAMSPACE_ADMIN, shared_role C TEAMSPACE_USER])])"

subsection \<open>The whole run\<close>

text \<open>The result is what the run prints at its end: the identifier and secret of the client and the application.\<close>

definition setup_main ::
  "'w net \<Rightarrow> (real \<Rightarrow> string) \<Rightarrow> setup_config \<Rightarrow> (('w, 'z) net_state_scheme, json \<times> json \<times> json) prog" where
  "setup_main net fr C =
     andthen
       (catch (setup_call net ''GET'' (SERVER_API C @ ''/tenants'') [] (su_super_admin C) None)
          (\<lambda>e. case e of Transport _ \<Rightarrow> exit_1 | _ \<Rightarrow> raise e)) (\<lambda>_.
     andthen (create_tenant net C) (\<lambda>_.
     andthen (set_branding net C) (\<lambda>_.
     andthen (create_application net C) (\<lambda>app_id.
     andthen (get_credentials net fr C app_id) (\<lambda>(client_id, client_secret).
     andthen (set_initial_sharing net C app_id) (\<lambda>_.
     andthen (update_claims net fr C app_id) (\<lambda>_.
     andthen (update_oidc_config net fr C app_id client_id) (\<lambda>_.
     andthen (enable_api_based_auth net fr C app_id) (\<lambda>_.
     andthen (setup_api_resources net fr C app_id) (\<lambda>_.
     andthen (create_roles net fr C app_id) (\<lambda>_.
     andthen (share_with_roles net C app_id) (\<lambda>_.
       ret (client_id, client_secret, app_id)))))))))))))"

subsection \<open>Which scopes exist\<close>

text \<open>Every scope the application is authorized for once the setup has run.\<close>

definition authorized_scope_list :: "string list" where
  "authorized_scope_list =
     concat (map ar_authorized [MEETING_API, MCP_API, PERSONALIZATION_API, INTERNAL_API]) @
     concat (map snd (AGENT_APIS @ ORG_APIS @ ROOT_APIS))"

abbreviation authorized_scopes :: "string set" where
  "authorized_scopes \<equiv> set authorized_scope_list"

lemmas scope_tables = authorized_scope_list_def MEETING_API_def MCP_API_def PERSONALIZATION_API_def INTERNAL_API_def
  AGENT_APIS_def ORG_APIS_def ROOT_APIS_def crud_def

lemma scopes_authorizedI: "list_all (\<lambda>x. x \<in> set authorized_scope_list) (split_ws scope) \<Longrightarrow> set (split_ws scope) \<subseteq> authorized_scopes"
  by (auto simp: list_all_iff)

lemma role_permissions_authorized: "r \<in> set ROLE_PERMISSIONS \<Longrightarrow> set (snd r) \<subseteq> authorized_scopes"
  by (auto simp: ROLE_PERMISSIONS_def scope_tables)

lemma own_scopes_declared: "r \<in> {MEETING_API, MCP_API, PERSONALIZATION_API, INTERNAL_API} \<Longrightarrow> set (ar_authorized r) = fst ` set (ar_scopes r)"
  by (auto simp: scope_tables)

subsection \<open>What the roles are granted\<close>

text \<open>A request that gives a role permissions, those the setup lists for a role.\<close>

definition grants_listed :: "(real \<Rightarrow> string) \<Rightarrow> setup_config \<Rightarrow> json \<Rightarrow> request \<Rightarrow> bool" where
  "grants_listed fr C app_id q \<longleftrightarrow>
     (\<exists>role_name permissions. (role_name, permissions) \<in> set ROLE_PERMISSIONS \<and> set permissions \<subseteq> authorized_scopes \<and>
        (q = setup_request ''POST'' (setup_roles_url C) [] (tenant_admin_auth C)
             (Some (setup_role_body app_id role_name permissions)) \<or>
         (\<exists>role_id. q = setup_request ''PATCH'' (setup_roles_url C @ ''/'' @ role_id) [] (tenant_admin_auth C)
             (Some (permissions_patch permissions)))))"

lemma setup_call_sends: "setup_request m u params auth payload \<in> A \<Longrightarrow> sends A (setup_call net m u params auth payload)"
  unfolding setup_call_def by (rule sends_send)

lemma each_prog_sends: "(\<And>x. x \<in> set xs \<Longrightarrow> sends A (f x)) \<Longrightarrow> sends A (each_prog f xs)"
  by (induction xs) (auto intro!: sends_andthen)

lemma create_role_sends:
  assumes "r \<in> set ROLE_PERMISSIONS"
  shows "sends {q. meth q = ''GET'' \<or> grants_listed fr C app_id q} (create_role net fr C app_id r)"
proof -
  have listed: "(fst r, snd r) \<in> set ROLE_PERMISSIONS" "set (snd r) \<subseteq> authorized_scopes"
    using assms role_permissions_authorized by auto
  have "grants_listed fr C app_id (setup_request ''POST'' (setup_roles_url C) [] (tenant_admin_auth C)
             (Some (setup_role_body app_id (fst r) (snd r))))"
    and "grants_listed fr C app_id (setup_request ''PATCH'' (setup_roles_url C @ ''/'' @ role_id) [] (tenant_admin_auth C)
             (Some (permissions_patch (snd r))))" for role_id
    unfolding grants_listed_def using listed by blast+
  then show ?thesis
    unfolding create_role_def patch_role_permissions_def
    by (intro sends_intros setup_call_sends) (simp_all add: setup_request_def)
qed

text \<open>
  C31: Whatever WSO2 IS answers, the setup of the roles sends besides reads only grants of its own table:
  a new role with exactly the permissions listed for it, or their replacement in an existing role. Each
  permission granted is a scope that the setup authorizes the application for, so none can be dead.
\<close>

theorem roles_get_listed_permissions:
  "sends {q. meth q = ''GET'' \<or> grants_listed fr C app_id q} (create_roles net fr C app_id)"
  unfolding create_roles_def by (intro each_prog_sends create_role_sends)

subsection \<open>Running it again\<close>

text \<open>What the world answers to a lookup is that nothing is there.\<close>

definition absent :: "'w net \<Rightarrow> 'w \<Rightarrow> request \<Rightarrow> string \<Rightarrow> bool" where
  "absent net w q k \<longleftrightarrow> (\<exists>resp xs. fst (net q w) = Inr resp \<and> found_in resp k = Inr xs \<and> \<not> truthy xs)"

definition tenant_lookup :: "setup_config \<Rightarrow> request" where
  "tenant_lookup C = setup_request ''GET'' (SERVER_API C @ ''/tenants'') (tenant_filter C) (su_super_admin C) None"

definition tenant_creation :: "setup_config \<Rightarrow> request" where
  "tenant_creation C = setup_request ''POST'' (SERVER_API C @ ''/tenants'') [] (su_super_admin C) (Some (tenant_body C))"

definition app_lookup :: "setup_config \<Rightarrow> request" where
  "app_lookup C = setup_request ''GET'' (TENANT_API C @ ''/applications'') (app_filter C) (tenant_admin_auth C) None"

definition app_creation :: "setup_config \<Rightarrow> request" where
  "app_creation C = setup_request ''POST'' (TENANT_API C @ ''/applications'') [] (tenant_admin_auth C) (Some (app_body C))"

text \<open>\<open>m\<close> looks something up and creates it only if it is absent; then it may look it up once more.\<close>

definition creates_if_absent ::
  "'w net \<Rightarrow> request \<Rightarrow> request \<Rightarrow> string \<Rightarrow> (('w, 'z) net_state_scheme, 'a) prog \<Rightarrow> bool" where
  "creates_if_absent net look creation k m \<longleftrightarrow>
     (\<forall>s. sent (snd (m s)) = sent s @ [look] \<or>
        (absent net (world s) look k \<and>
         (sent (snd (m s)) = sent s @ [look, creation] \<or> sent (snd (m s)) = sent s @ [look, creation, look])))"

lemma lookup_or_create:
  fixes net :: "'w net"
  shows "creates_if_absent net look creation k
     ((andthen (send net look) (\<lambda>resp. andthen (lift_res (found_in resp k)) (\<lambda>xs.
        if truthy xs then lift_res (first_id xs)
        else andthen (send net creation) (\<lambda>created. if bad created then raise e
          else andthen (send net look) (\<lambda>again. lift_res (f again)))))) :: (('w, 'z) net_state_scheme, json) prog)"
  (is "creates_if_absent _ _ _ _ ?m")
  unfolding creates_if_absent_def
proof
  fix s :: "('w, 'z) net_state_scheme"
  let ?create = "andthen (send net creation) (\<lambda>created. if bad created then raise e
          else andthen (send net look) (\<lambda>again. lift_res (f again)))"
  obtain r t where look: "send net look s = (r, t)" by (meson surj_pair)
  have t: "sent t = sent s @ [look]" by (rule send_runs [OF look])
  have create: "sent (snd (?create u)) = sent u @ [creation] \<or> sent (snd (?create u)) = sent u @ [creation, look]"
    for u :: "('w, 'z) net_state_scheme"
  proof -
    obtain x v where c: "send net creation u = (x, v)" by (meson surj_pair)
    obtain y w where l: "send net look v = (y, w)" by (meson surj_pair)
    show ?thesis using send_runs [OF c] send_runs [OF l] c l by (auto simp: andthen_def split: sum.split)
  qed
  show "sent (snd (?m s)) = sent s @ [look] \<or>
        (absent net (world s) look k \<and>
         (sent (snd (?m s)) = sent s @ [look, creation] \<or> sent (snd (?m s)) = sent s @ [look, creation, look]))"
  proof (cases "\<exists>resp xs. r = Inr resp \<and> found_in resp k = Inr xs \<and> \<not> truthy xs")
    case True
    then have "absent net (world s) look k" using look by (auto simp: absent_def send_def split: prod.splits)
    moreover have "?m s = ?create t" using True look by (auto simp: andthen_def)
    ultimately show ?thesis using create [of t] t by auto
  next
    case False
    then have "snd (?m s) = t" using look by (cases r) (auto simp: andthen_def lift_res_def split: sum.split)
    then show ?thesis using t by simp
  qed
qed

text \<open>
  C32: Run again, the setup creates no second tenant and no second application: each is created only if
  WSO2 IS has just answered that it has none under that name. A run sends one lookup, or the lookup, the
  creation and at most the lookup again, and nothing else.
\<close>

theorem created_only_when_absent:
  "creates_if_absent net (tenant_lookup C) (tenant_creation C) ''tenants'' (create_tenant net C) \<and>
   creates_if_absent net (app_lookup C) (app_creation C) ''applications'' (create_application net C)"
  unfolding create_tenant_def create_application_def as_tenant_def setup_call_def exit_1_def tenant_lookup_def
    tenant_creation_def app_lookup_def app_creation_def
  by (intro conjI lookup_or_create)

subsection \<open>Tokens the portal asks for\<close>

text \<open>A token request whose scopes are all authorized by the setup.\<close>

definition asks_authorized :: "('w, 'k) portal_env \<Rightarrow> request \<Rightarrow> bool" where
  "asks_authorized V q \<longleftrightarrow>
     (\<exists>g scope extra. q = portal_token_request V g scope extra \<and> set (split_ws scope) \<subseteq> authorized_scopes)"

text \<open>
  The portal asks for no scope it cannot get: every token request it sends for itself, for
  organizations, roles, agents and the switch to an organization, names only scopes that the setup
  authorizes its application for.
\<close>

theorem portal_asks_authorized_scopes:
  "sends (Collect (asks_authorized V)) (get_client_credentials_token V) \<and>
   sends (Collect (asks_authorized V)) (get_root_role_management_token V) \<and>
   sends (Collect (asks_authorized V)) (get_agent_management_token V) \<and>
   sends (Collect (asks_authorized V)) (switch_org_token V org_id token)"
proof (intro conjI)
  have request: "sends (Collect (asks_authorized V)) (request_token V g scope extra)"
    if "list_all (\<lambda>x. x \<in> set authorized_scope_list) (split_ws scope)" for g scope extra
    by (rule request_token_sends) (use scopes_authorizedI [OF that] in \<open>auto simp: asks_authorized_def\<close>)
  show "sends (Collect (asks_authorized V)) (get_client_credentials_token V)"
    unfolding get_client_credentials_token_def by (rule request) code_simp
  show "sends (Collect (asks_authorized V)) (get_root_role_management_token V)"
    unfolding get_root_role_management_token_def by (rule request) code_simp
  show "sends (Collect (asks_authorized V)) (get_agent_management_token V)"
    unfolding get_agent_management_token_def by (rule request) code_simp
  show "sends (Collect (asks_authorized V)) (switch_org_token V org_id token)"
    unfolding switch_org_token_def by (rule request) code_simp
qed

subsection \<open>Where browsers may be sent\<close>

lemma prefix_pattern: "alternative_admits (re_escape s @ ''.*'') u \<longleftrightarrow> (\<exists>v. u = s @ v)"
  using items_of_escaped [of s "''.*''"] matches_exactly [of s "[Anything]" u] matches_anything [of "[]"] items_of_dot_star [of "[]"]
  by (auto simp: alternative_admits_def)

lemma app_callback_alternatives:
  "alternatives [] (re_escape a @ ''.*|'' @ re_escape b @ ''.*'') = [re_escape a @ ''.*'', re_escape b @ ''.*'']"
  using alternatives_of_dot_star [of "re_escape a" "''|'' @ re_escape b @ ''.*''"] alternatives_of_escaped [of "[]" b "''.*''"]
    alternatives_of_dot_star [of "re_escape b" "[]"]
  by (simp add: alternatives_of_escaped)

lemma app_callback_prefixes:
  "callback_admits (app_callback C) u \<longleftrightarrow> (\<exists>v. u = su_portal_url C @ v) \<or> (\<exists>v. u = su_agent_service_url C @ v)"
  unfolding app_callback_def callback_admits_group app_callback_alternatives list_ex_iff
  by (simp only: list.set bex_simps prefix_pattern) blast

text \<open>An address of another host passes: the portal's host name with more labels behind it.\<close>

lemma other_host_admitted:
  "su_portal_url C = ''https://portal.acme.com'' \<Longrightarrow>
    callback_admits (app_callback C) ''https://portal.acme.com.evil.org/callback''"
  unfolding app_callback_prefixes by simp

text \<open>
  C33: The callback registered for the application admits exactly the addresses that begin with the
  portal's or with the agent's address, whatever follows. What follows need not begin with a slash: the
  portal's host name with more labels behind it, which is another host, passes as well.
\<close>

theorem app_callback_admits:
  "callback_admits (app_callback C) u \<longleftrightarrow> (\<exists>rest. u = su_portal_url C @ rest \<or> u = su_agent_service_url C @ rest)"
  unfolding app_callback_prefixes by blast

end
