(* ===== verification/Portal_App.thy ===== *)
theory Portal_App
  imports Portal_Session Rate_Limit Setup_Is
begin

text \<open>
  What the portal is started with, beside the settings of \<open>Portal_Api\<close>: the key and the options of
  the session cookie, the scopes of the login, the rate limiter (\<open>webapp/config.py\<close>, \<open>webapp/app.py\<close>)
  and the registration of the OIDC client (\<open>webapp/auth.py\<close>). Flask, Flask-Limiter and Authlib are
  third-party: what they are given is modelled. Then, whether the addresses that the portal and the
  agent name as their callbacks are among those that \<open>setup_is.py\<close> registers.
\<close>

subsection \<open>Session key and cookie\<close>

text \<open>The key and whether it is only good until the next start; \<open>fresh\<close> is \<open>secrets.token_hex(32)\<close>.\<close>

definition secret_key :: "string \<Rightarrow> environ \<Rightarrow> string \<times> bool" where
  "secret_key fresh E = (case E ''FLASK_SECRET_KEY'' of Some k \<Rightarrow> if k \<noteq> [] then (k, False) else (fresh, True) | None \<Rightarrow> (fresh, True))"

record cookie_options =
  co_httponly :: bool
  co_samesite :: string
  co_secure :: bool

definition session_cookie :: "environ \<Rightarrow> cookie_options" where
  "session_cookie E = \<lparr>co_httponly = True, co_samesite = ''Lax'', co_secure = (E ''FLASK_ENV'' = Some ''production'')\<rparr>"

subsection \<open>Login\<close>

definition OIDC_SCOPE_LIST :: "string list" where
  "OIDC_SCOPE_LIST =
     [''openid'', ''email'', ''profile'', ''groups'', ''roles'', ''internal_login'',
      ''internal_organization_create'', ''internal_organization_view'',
      ''internal_org_user_mgt_create'', ''internal_org_user_mgt_list'',
      ''internal_org_user_mgt_view'', ''internal_org_user_mgt_update'',
      ''internal_org_user_mgt_delete'',
      ''internal_org_role_mgt_create'', ''internal_org_role_mgt_view'',
      ''internal_org_role_mgt_update'', ''internal_org_role_mgt_delete'',
      ''internal_org_idp_create'', ''internal_org_idp_view'',
      ''internal_org_idp_update'', ''internal_org_idp_delete'',
      ''internal_org_application_mgt_view'', ''internal_org_application_mgt_update'',
      ''internal_org_branding_preference_update'',
      ''internal_agent_mgt_create'', ''internal_agent_mgt_list'',
      ''internal_agent_mgt_view'', ''internal_agent_mgt_delete'',
      ''list_meetings'', ''create_meeting'', ''view_meeting'',
      ''update_meeting'', ''delete_meeting'',
      ''create_basic_branding'', ''create_advanced_branding'',
      ''update_branding'', ''delete_branding'',
      ''view_agent_config'', ''manage_agent_config'']"

definition OIDC_SCOPES :: string where
  "OIDC_SCOPES = join_str '' '' OIDC_SCOPE_LIST"

record oidc_client =
  oc_client_id :: string
  oc_client_secret :: string
  oc_metadata_url :: string
  oc_scope :: string
  oc_auth_method :: string
  oc_verify :: verify_tls

text \<open>A client of the same name is registered anew.\<close>

definition init_oauth :: "portal_settings \<Rightarrow> (string \<Rightarrow> oidc_client option) \<Rightarrow> (string \<Rightarrow> oidc_client option)" where
  "init_oauth c clients = clients(''wso2is'' \<mapsto>
     \<lparr>oc_client_id = po_client_id c, oc_client_secret = po_client_secret c,
      oc_metadata_url = po_is_base_url c @ po_tenant_path c @ ''/oauth2/token/.well-known/openid-configuration'',
      oc_scope = OIDC_SCOPES, oc_auth_method = ''client_secret_post'', oc_verify = po_is_verify_tls c\<rparr>)"

text \<open>Whether an exception, by the name of its type and its text, is explained as a failure of TLS.\<close>

definition explain_tls_failure :: "string \<Rightarrow> string \<Rightarrow> bool" where
  "explain_tls_failure type_name message =
     (let txt = type_name @ '': '' @ message in
      contains txt ''CERTIFICATE_VERIFY_FAILED'' \<or> contains txt ''SSLError'' \<or> contains txt ''SSLCertVerification'')"

subsection \<open>Rate limits\<close>

text \<open>What the limiter is made with, and the limit put on the chat routes.\<close>

record limiter_options =
  lo_storage_uri :: string
  lo_enabled :: bool
  lo_default_limits :: "string list"
  lo_chat_limit :: string

definition limit_spec :: "rate_config \<Rightarrow> string \<Rightarrow> string" where
  "limit_spec rc n = (case limit_specs rc n of Some v \<Rightarrow> v | None \<Rightarrow> [])"

definition configure_rate_limiting :: "environ \<Rightarrow> rate_config \<Rightarrow> limiter_options" where
  "configure_rate_limiting E rc =
     \<lparr>lo_storage_uri = storage_uri E, lo_enabled = rl_enabled rc,
      lo_default_limits = (if limit_spec rc ''DEFAULT_LIMIT'' \<noteq> [] then [limit_spec rc ''DEFAULT_LIMIT''] else []),
      lo_chat_limit = limit_spec rc ''CHAT_LIMIT''\<rparr>"

subsection \<open>Scopes of the login\<close>

text \<open>Scopes of OpenID Connect and of WSO2 IS itself, which belong to no API resource.\<close>

definition STANDARD_SCOPES :: "string list" where
  "STANDARD_SCOPES = [''openid'', ''email'', ''profile'', ''groups'', ''roles'', ''internal_login'']"

lemma oidc_scopes_known: "set OIDC_SCOPE_LIST \<subseteq> set STANDARD_SCOPES \<union> authorized_scopes"
  by (simp add: OIDC_SCOPE_LIST_def STANDARD_SCOPES_def scope_tables)

subsection \<open>Callbacks\<close>

text \<open>The addresses the portal names, when it has settings at all.\<close>

lemma portal_addresses:
  assumes "Portal_Config is_file E = Inr c" and "E ''PORTAL_URL'' = Some u"
  shows "po_oidc_redirect_uri (complete_settings c) = su_portal_url (Setup_Config E) @ ''/callback''"
    and "po_oidc_post_logout_uri (complete_settings c) = su_portal_url (Setup_Config E)"
proof -
  have set_url: "getenv E ''PORTAL_URL'' d = u" for d using assms(2) by (simp add: getenv_def)
  have "po_portal_url c = rstrip_char (CHR ''/'') u"
    using assms(1) unfolding Portal_Config_def set_url by (cases "parse_int (getenv E ''FLASK_PORT'' (str_int (FLASK_PORT CommonDefaults)))") auto
  moreover have "su_portal_url (Setup_Config E) = rstrip_char (CHR ''/'') u"
    unfolding Setup_Config_def set_url Let_def by simp
  ultimately show "po_oidc_redirect_uri (complete_settings c) = su_portal_url (Setup_Config E) @ ''/callback''"
    and "po_oidc_post_logout_uri (complete_settings c) = su_portal_url (Setup_Config E)"
    by (simp_all add: complete_settings_def)
qed

text \<open>
  The login asks for nothing that cannot be granted: each scope in the portal's login request is one
  of OpenID Connect or of WSO2 IS itself, or is a scope that the setup authorizes the application for.
\<close>

theorem login_scopes_authorized:
  "OIDC_SCOPES = join_str '' '' OIDC_SCOPE_LIST \<and> set OIDC_SCOPE_LIST \<subseteq> set STANDARD_SCOPES \<union> authorized_scopes"
  using oidc_scopes_known by (simp only: OIDC_SCOPES_def simp_thms)

text \<open>
  C38: With the portal's address set for both, its callback and the address it returns to after logout are
  among those that the setup registers for the application, so that WSO2 IS accepts them.
\<close>

theorem portal_callback_registered:
  assumes "Portal_Config is_file E = Inr c" and "E ''PORTAL_URL'' = Some u"
  shows "callback_admits (app_callback (Setup_Config E)) (po_oidc_redirect_uri (complete_settings c)) \<and>
    callback_admits (app_callback (Setup_Config E)) (po_oidc_post_logout_uri (complete_settings c))"
  unfolding portal_addresses [OF assms] app_callback_prefixes by blast

definition acme_portal :: environ where
  "acme_portal = [''PORTAL_URL'' \<mapsto> ''https://portal.acme.com'', ''FLASK_PORT'' \<mapsto> ''443'']"

lemma acme_settings: "\<exists>c. Portal_Config (\<lambda>_. False) acme_portal = Inr c"
proof -
  have "getenv acme_portal ''FLASK_PORT'' d = ''443''" for d by (simp add: acme_portal_def getenv_def)
  moreover have "parse_int ''443'' = Some 443" by code_simp
  ultimately show ?thesis unfolding Portal_Config_def by simp
qed

theorem portal_callback_registered_witness:
  "\<exists>c. Portal_Config (\<lambda>_. False) acme_portal = Inr c \<and>
     callback_admits (app_callback (Setup_Config acme_portal)) (po_oidc_redirect_uri (complete_settings c))"
proof -
  obtain c where "Portal_Config (\<lambda>_. False) acme_portal = Inr c" using acme_settings by blast
  then show ?thesis using portal_callback_registered [of "\<lambda>_. False" acme_portal c] by (auto simp: acme_portal_def)
qed

text \<open>An agent moved to another address, with nothing else set.\<close>

definition moved_agent :: environ where
  "moved_agent = [''AGENT_SERVICE_URL'' \<mapsto> ''https://agent.acme.com'']"

lemma agent_callback_fixed: "ag_redirect_uri (Agent_Settings is_file moved_agent) = ''http://localhost:8000/callback''"
  by (simp add: Agent_Settings_def moved_agent_def getenv_def CommonDefaults_def)

lemma moved_agent_prefixes:
  "su_portal_url (Setup_Config moved_agent) = ''http://localhost:5001''"
  "su_agent_service_url (Setup_Config moved_agent) = ''https://agent.acme.com''"
  by (simp_all add: Setup_Config_def moved_agent_def getenv_def rstrip_char_def Let_def)

text \<open>
  The agent's callback does not follow its address. With only \<open>AGENT_SERVICE_URL\<close> set, the setup
  registers the callback below that address, while the agent still names the default one, which the
  registered pattern refuses.
\<close>

theorem agent_callback_not_derived:
  "\<not> callback_admits (app_callback (Setup_Config moved_agent)) (ag_redirect_uri (Agent_Settings is_file moved_agent))"
  unfolding app_callback_prefixes agent_callback_fixed moved_agent_prefixes by simp

end
