(* ===== verification/Setup_Idp_Server.thy ===== *)
theory Setup_Idp_Server
  imports Setup_Is
begin

text \<open>
  \<open>setup_idp_server.py\<close>, which prepares a second WSO2 IS as the federated identity provider of the
  demonstration: a tenant with its branding, the scope of groups, the client application with the
  callbacks to the primary server, and test users in their groups. The credentials of the client go to
  a file, so the state has files with their modes beside the network.
\<close>

subsection \<open>Settings\<close>

record federated_config =
  fe_base_url :: string
  fe_super_admin :: "string \<times> string"
  fe_tenant_domain :: string
  fe_admin_username :: string
  fe_admin_password :: string
  fe_admin_email :: string
  fe_user_password :: string
  fe_is_base_url :: string
  fe_logo_url :: string
  fe_favicon_url :: string
  fe_primary_color :: string
  fe_secondary_color :: string

definition Federated_Config :: "environ \<Rightarrow> federated_config" where
  "Federated_Config E =
     (let cdn = getenv E ''CDN_IMG_BASE_URL'' (CDN_IMG_BASE_URL CommonDefaults) in
      \<lparr>fe_base_url = rstrip_char (CHR ''/'') (getenv E ''FEDERATED_IS_BASE_URL'' ''https://localhost:9444''),
       fe_super_admin = (getenv E ''IS_SUPER_ADMIN_USERNAME'' ''admin'', getenv E ''IS_SUPER_ADMIN_PASSWORD'' []),
       fe_tenant_domain = getenv E ''FEDERATED_IDP_TENANT_DOMAIN'' ''worklink.com'',
       fe_admin_username = getenv E ''FEDERATED_IDP_TENANT_ADMIN_USERNAME'' ''teamspaceadmin'',
       fe_admin_password = getenv E ''IS_TENANT_ADMIN_PASSWORD'' [],
       fe_admin_email = getenv E ''FEDERATED_IDP_TENANT_ADMIN_EMAIL'' ''teamspaceadmin@mail.com'',
       fe_user_password = getenv E ''FEDERATED_USER_PASSWORD'' [],
       fe_is_base_url = rstrip_char (CHR ''/'') (getenv E ''IS_BASE_URL'' ''https://localhost:9443''),
       fe_logo_url = getenv E ''WORKLINK_IDP_LOGO_URL'' (cdn @ ''/worklink-idp-logo.svg''),
       fe_favicon_url = getenv E ''WORKLINK_IDP_FAVICON_URL'' (cdn @ ''/worklink-idp-favicon.svg''),
       fe_primary_color = getenv E ''WORKLINK_IDP_PRIMARY_COLOR'' ''#155E75'',
       fe_secondary_color = getenv E ''WORKLINK_IDP_SECONDARY_COLOR'' ''#D7EEF5''\<rparr>)"

definition fed_server_api :: "federated_config \<Rightarrow> string" where
  "fed_server_api F = fe_base_url F @ ''/api/server/v1''"

definition fed_tenant_api :: "federated_config \<Rightarrow> string" where
  "fed_tenant_api F = fe_base_url F @ ''/t/'' @ fe_tenant_domain F @ ''/api/server/v1''"

definition fed_scim :: "federated_config \<Rightarrow> string" where
  "fed_scim F = fe_base_url F @ ''/t/'' @ fe_tenant_domain F @ ''/scim2''"

definition fed_admin_auth :: "federated_config \<Rightarrow> string \<times> string" where
  "fed_admin_auth F = (fe_admin_username F @ ''@'' @ fe_tenant_domain F, fe_admin_password F)"

subsection \<open>Callbacks to the primary server\<close>

definition commonauth_alternatives :: "string \<Rightarrow> string list" where
  "commonauth_alternatives base_url =
     [re_escape base_url @ ''/commonauth.*'', re_escape base_url @ ''/o/.*/commonauth.*'']"

definition commonauth_callback_regexp :: "string list \<Rightarrow> string" where
  "commonauth_callback_regexp base_urls =
     pattern_group (join_str ''|'' (concat (map commonauth_alternatives base_urls)))"

text \<open>
  \<open>urlparse\<close> and \<open>geturl\<close> for an address with a scheme in lower case, \<open>://\<close> and a host that is not in
  brackets: the address with another host and the same port, path and scheme. A port that is no number,
  for which Python stops the script as it starts, is left out here.
\<close>

definition url_parts :: "string \<Rightarrow> string \<times> string \<times> string" where
  "url_parts u =
     (case split_str ''://'' u of
        scheme # r # rs \<Rightarrow>
          (let rest = join_str ''://'' (r # rs); stop = (\<lambda>c. c \<in> set ''/?#'') in
           (scheme @ ''://'', takeWhile (\<lambda>c. \<not> stop c) rest, dropWhile (\<lambda>c. \<not> stop c) rest))
      | _ \<Rightarrow> ([], [], u))"

definition port_suffix :: "string \<Rightarrow> string" where
  "port_suffix netloc =
     (case partition_char (CHR '':'') (case rev (split_char (CHR ''@'') netloc) of h # _ \<Rightarrow> h | [] \<Rightarrow> []) of
        (_, found, port) \<Rightarrow>
          (if found \<and> port \<noteq> [] then
             (case parse_int port of Some n \<Rightarrow> if n = 0 then [] else '':'' @ str_int n | None \<Rightarrow> [])
           else []))"

definition docker_internal_url :: "string \<Rightarrow> string" where
  "docker_internal_url u =
     (case url_parts u of (scheme, netloc, rest) \<Rightarrow> scheme @ ''host.docker.internal'' @ port_suffix netloc @ rest)"

definition primary_callback_urls :: "federated_config \<Rightarrow> json" where
  "primary_callback_urls F = JList [JStr (commonauth_callback_regexp [fe_is_base_url F])]"

text \<open>\<open>list(dict.fromkeys(xs))\<close> keeps the first of equal items.\<close>

definition primary_callback_urls_with_docker :: "federated_config \<Rightarrow> json" where
  "primary_callback_urls_with_docker F =
     (let own = fe_is_base_url F; docker = docker_internal_url own in
      JList [JStr (commonauth_callback_regexp (if docker = own then [own] else [own, docker]))])"

subsection \<open>Calls and files\<close>

text \<open>A file has its text and its mode; a new file gets the mode that the process's umask leaves.\<close>

record 'w idp_state = "'w net_state" +
  files :: "string \<Rightarrow> (string \<times> nat) option"

record 'w federated_env =
  fd_net :: "'w net"
  fd_fr :: "real \<Rightarrow> string"
  fd_new_mode :: nat
  fd_cfg :: federated_config

definition write_file :: "nat \<Rightarrow> string \<Rightarrow> string \<Rightarrow> (('w, 'z) idp_state_scheme, unit) prog" where
  "write_file new_mode path txt =
     modify (\<lambda>s. s\<lparr>files := (files s)(path \<mapsto> (txt, case files s path of Some (_, m) \<Rightarrow> m | None \<Rightarrow> new_mode))\<rparr>)"

definition chmod_file :: "string \<Rightarrow> nat \<Rightarrow> (('w, 'z) idp_state_scheme, unit) prog" where
  "chmod_file path m = modify (\<lambda>s. s\<lparr>files := (files s)(path := map_option (\<lambda>(txt, _). (txt, m)) (files s path))\<rparr>)"

text \<open>\<open>requests\<close> adds the content type of a JSON body unless the call has one.\<close>

definition fed_request ::
  "string \<Rightarrow> string \<Rightarrow> (string \<times> string) list \<Rightarrow> string \<times> string \<Rightarrow> (string \<times> string) list \<Rightarrow> json option \<Rightarrow> request" where
  "fed_request m u params auth hs payload =
     \<lparr>meth = m, url = u, query = params,
      headers = (if payload \<noteq> None \<and> map_of hs ''Content-Type'' = None then [(''Content-Type'', ''application/json'')] else []) @
        hs @ [(''Authorization'', basic_auth auth)],
      body = (case payload of None \<Rightarrow> NoBody | Some j \<Rightarrow> JsonBody j), follow_redirects = True\<rparr>"

definition fed_call ::
  "'w federated_env \<Rightarrow> string \<Rightarrow> string \<Rightarrow> (string \<times> string) list \<Rightarrow> (string \<times> string) list \<Rightarrow> json option
     \<Rightarrow> (('w, 'z) idp_state_scheme, response) prog" where
  "fed_call D m u params hs payload =
     send (fd_net D) (fed_request m u params (fed_admin_auth (fd_cfg D)) hs payload)"

definition bootstrap_failed :: "('s, 'a) prog" where
  "bootstrap_failed = raise (RuntimeError ''federated IdP bootstrap failed'')"

text \<open>\<open>resp.json().get(k, [])\<close>, where the body has to be JSON.\<close>

definition listed :: "response \<Rightarrow> string \<Rightarrow> exn + json" where
  "listed resp k = bind_res (json_of resp) (\<lambda>j. field_or j k (JList []))"

subsection \<open>Tenant, branding and scope\<close>

definition fed_tenant_body :: "federated_config \<Rightarrow> json" where
  "fed_tenant_body F =
     JObj [(''domain'', JStr (fe_tenant_domain F)), (''name'', JStr ''Teamspace Federated IdP''),
       (''owners'', JList [JObj
         [(''firstname'', JStr ''Federated''), (''lastname'', JStr ''Admin''), (''username'', JStr (fe_admin_username F)),
          (''email'', JStr (fe_admin_email F)), (''password'', JStr (fe_admin_password F)),
          (''provisioningMethod'', JStr ''inline-password'')]])]"

definition bootstrap_tenant :: "'w federated_env \<Rightarrow> (('w, 'z) idp_state_scheme, unit) prog" where
  "bootstrap_tenant D =
     (let F = fd_cfg D; u = fed_server_api F @ ''/tenants'' in
      andthen (send (fd_net D) (fed_request ''GET'' u [(''filter'', ''domainName eq '' @ fe_tenant_domain F)] (fe_super_admin F) [] None))
        (\<lambda>resp.
      andthen (lift_res (listed resp ''tenants'')) (\<lambda>tenants.
        if truthy tenants then ret ()
        else
          andthen (send (fd_net D) (fed_request ''POST'' u [] (fe_super_admin F) [] (Some (fed_tenant_body F)))) (\<lambda>created.
            if status created \<notin> {200, 201, 202} then bootstrap_failed else ret ()))))"

definition fed_branding :: "federated_config \<Rightarrow> json" where
  "fed_branding F =
     (case build_is_branding_payload
        [(''primary_color'', JStr (fe_primary_color F)), (''secondary_color'', JStr (fe_secondary_color F)),
         (''logo_url'', JStr (fe_logo_url F)), (''logo_alt_text'', JStr ''Worklink IdP''),
         (''favicon_url'', JStr (fe_favicon_url F))] ''Worklink'' of
        JObj d \<Rightarrow> JObj (dict_set d ''name'' (JStr (fe_tenant_domain F)))
      | v \<Rightarrow> v)"

text \<open>Messages to the console aside, a refusal changes nothing: created, or updated after a conflict.\<close>

definition bootstrap_branding :: "'w federated_env \<Rightarrow> (('w, 'z) idp_state_scheme, unit) prog" where
  "bootstrap_branding D =
     (let u = fed_tenant_api (fd_cfg D) @ ''/branding-preference''; payload = Some (fed_branding (fd_cfg D)) in
      andthen (fed_call D ''POST'' u [] [] payload) (\<lambda>resp.
        if status resp = 409 then andthen (fed_call D ''PUT'' u [] [] payload) (\<lambda>_. ret ()) else ret ()))"

definition scope_fields :: dict where
  "scope_fields =
     [(''displayName'', JStr ''groups''), (''description'', JStr ''User groups scope''),
      (''claims'', JList [JStr ''groups'', JStr ''roles''])]"

definition bootstrap_groups_scope :: "'w federated_env \<Rightarrow> (('w, 'z) idp_state_scheme, unit) prog" where
  "bootstrap_groups_scope D =
     (let u = fed_tenant_api (fd_cfg D) @ ''/oidc/scopes'' in
      andthen (fed_call D ''POST'' u [] [] (Some (JObj ((''name'', JStr ''groups'') # scope_fields)))) (\<lambda>resp.
        if status resp = 409 then
          andthen (fed_call D ''PUT'' (u @ ''/groups'') [] [] (Some (JObj scope_fields))) (\<lambda>_. ret ())
        else ret ()))"

subsection \<open>The client application\<close>

definition fed_app_filter :: "(string \<times> string) list" where
  "fed_app_filter = [(''filter'', ''name eq FederatedClient'')]"

definition fed_oidc_settings :: "json \<Rightarrow> string \<Rightarrow> bool \<Rightarrow> dict" where
  "fed_oidc_settings callbacks binding revoke =
     [(''grantTypes'', JList [JStr ''authorization_code'', JStr ''refresh_token'']),
      (''allowedOrigins'', JList []), (''callbackURLs'', callbacks), (''publicClient'', JBool False),
      (''accessToken'', access_token_settings binding revoke),
      (''refreshToken'', JObj [(''expiryInSeconds'', JInt 86400)])]"

definition fed_app_body :: "federated_config \<Rightarrow> json" where
  "fed_app_body F =
     JObj [(''name'', JStr ''FederatedClient''), (''templateId'', JStr ''b9c5e11e-fc78-484b-9bec-015d247561b8''),
       (''inboundProtocolConfiguration'', JObj [(''oidc'', JObj (fed_oidc_settings (primary_callback_urls F) ''None'' False))])]"

definition bootstrap_application :: "'w federated_env \<Rightarrow> (('w, 'z) idp_state_scheme, json) prog" where
  "bootstrap_application D =
     (let u = fed_tenant_api (fd_cfg D) @ ''/applications'' in
      andthen (fed_call D ''GET'' u fed_app_filter [] None) (\<lambda>resp.
      andthen (lift_res (listed resp ''applications'')) (\<lambda>apps.
        if truthy apps then lift_res (first_id apps)
        else
          andthen (fed_call D ''POST'' u [] [] (Some (fed_app_body (fd_cfg D)))) (\<lambda>created.
            if status created \<notin> {200, 201} then bootstrap_failed
            else
              andthen (fed_call D ''GET'' u fed_app_filter [] None) (\<lambda>again.
                lift_res (bind_res (json_of again) (\<lambda>j. bind_res (item j ''applications'') first_id)))))))"

definition fed_claims_body :: json where
  "fed_claims_body =
     JObj [(''claimConfiguration'', JObj
       [(''dialect'', JStr ''LOCAL''),
        (''requestedClaims'', JList (map requested_claim [''emailaddress'', ''givenname'', ''lastname'', ''username'', ''groups''])),
        (''role'', JObj [(''claim'', claim ''groups''), (''includeUserDomain'', JBool False)]),
        (''subject'', JObj [(''claim'', claim ''emailaddress''), (''includeTenantDomain'', JBool False),
          (''includeUserDomain'', JBool False), (''mappedLocalSubjectMandatory'', JBool False),
          (''useMappedLocalSubject'', JBool True)])])]"

definition credentials_path :: string where
  "credentials_path = ''scratch/idp_credentials.json''"

text \<open>\<open>stat.S_IRUSR | stat.S_IWUSR\<close>: the owner reads and writes, nobody else has anything.\<close>

definition OWNER_ONLY :: nat where
  "OWNER_ONLY = 256 + 128"

definition credentials_json :: "json \<Rightarrow> json \<Rightarrow> json" where
  "credentials_json client_id client_secret = JObj [(''client_id'', client_id), (''client_secret'', client_secret)]"

definition write_credentials ::
  "'w federated_env \<Rightarrow> json \<Rightarrow> json \<Rightarrow> (('w, 'z) idp_state_scheme, unit) prog" where
  "write_credentials D client_id client_secret =
     andthen (write_file (fd_new_mode D) credentials_path (dumps (fd_fr D) (credentials_json client_id client_secret))) (\<lambda>_.
       chmod_file credentials_path OWNER_ONLY)"

definition bootstrap_application_claims_and_oidc ::
  "'w federated_env \<Rightarrow> json \<Rightarrow> (('w, 'z) idp_state_scheme, unit) prog" where
  "bootstrap_application_claims_and_oidc D app_id =
     (let F = fd_cfg D; app_url = fed_tenant_api F @ ''/applications/'' @ py_str (fd_fr D) app_id;
          oidc_url = app_url @ ''/inbound-protocols/oidc'' in
      andthen (fed_call D ''PATCH'' app_url [] [] (Some fed_claims_body)) (\<lambda>resp.
        if status resp \<notin> {200, 201} then bootstrap_failed
        else
          andthen (fed_call D ''GET'' oidc_url [] [] None) (\<lambda>oidc.
          andthen (lift_res (bind_res (json_of oidc) as_obj)) (\<lambda>data.
          let client_id = get_or data ''clientId'' (JStr []); client_secret = get_or data ''clientSecret'' (JStr []) in
          andthen (fed_call D ''PUT'' oidc_url [] []
             (Some (JObj ((''clientId'', client_id) #
                fed_oidc_settings (primary_callback_urls_with_docker F) ''sso-session'' True)))) (\<lambda>updated.
            if status updated \<notin> {200, 201} then bootstrap_failed
            else write_credentials D client_id client_secret)))))"

subsection \<open>Users\<close>

record federated_user =
  fu_username :: string
  fu_firstname :: string
  fu_lastname :: string
  fu_group :: string

definition USERS_TO_CREATE :: "federated_user list" where
  "USERS_TO_CREATE =
     [\<lparr>fu_username = ''john'', fu_firstname = ''John'', fu_lastname = ''Doe'', fu_group = ''user''\<rparr>,
      \<lparr>fu_username = ''tom'', fu_firstname = ''Tom'', fu_lastname = ''Admin'', fu_group = ''admin''\<rparr>]"

definition fed_user_body :: "federated_config \<Rightarrow> federated_user \<Rightarrow> json" where
  "fed_user_body F u =
     JObj [(''schemas'', JList [JStr ''urn:ietf:params:scim:schemas:core:2.0:User'']),
       (''userName'', JStr (fu_username u)), (''password'', JStr (fe_user_password F)),
       (''name'', JObj [(''givenName'', JStr (fu_firstname u)), (''familyName'', JStr (fu_lastname u))]),
       (''emails'', JList [JObj [(''value'', JStr (fu_username u @ ''@'' @ fe_tenant_domain F)), (''primary'', JBool True)]])]"

definition bootstrap_user :: "'w federated_env \<Rightarrow> federated_user \<Rightarrow> (('w, 'z) idp_state_scheme, json) prog" where
  "bootstrap_user D u =
     andthen (fed_call D ''GET'' (fed_scim (fd_cfg D) @ ''/Users?filter=userName+eq+'' @ fu_username u) [] [] None) (\<lambda>resp.
     andthen (lift_res (listed resp ''Resources'')) (\<lambda>resources.
       if truthy resources then lift_res (first_id resources)
       else
         andthen (fed_call D ''POST'' (fed_scim (fd_cfg D) @ ''/Users'') [] [] (Some (fed_user_body (fd_cfg D) u))) (\<lambda>created.
           if status created \<notin> {200, 201} then bootstrap_failed
           else lift_res (bind_res (json_of created) (\<lambda>j. item j ''id'')))))"

text \<open>The identifiers by user name, in a dict.\<close>

fun bootstrap_each_user ::
  "'w federated_env \<Rightarrow> federated_user list \<Rightarrow> dict \<Rightarrow> (('w, 'z) idp_state_scheme, dict) prog" where
  "bootstrap_each_user D [] user_ids = ret user_ids"
| "bootstrap_each_user D (u # us) user_ids =
     andthen (bootstrap_user D u) (\<lambda>uid. bootstrap_each_user D us (dict_set user_ids (fu_username u) uid))"

definition bootstrap_users ::
  "'w federated_env \<Rightarrow> federated_user list \<Rightarrow> (('w, 'z) idp_state_scheme, dict) prog" where
  "bootstrap_users D users =
     (if fe_user_password (fd_cfg D) = [] then bootstrap_failed else bootstrap_each_user D users [])"

subsection \<open>Groups\<close>

definition SCIM_HEADERS :: "(string \<times> string) list" where
  "SCIM_HEADERS = [(''Content-Type'', ''application/scim+json''), (''Accept'', ''application/json'')]"

definition group_url :: "'w federated_env \<Rightarrow> json \<Rightarrow> string" where
  "group_url D group_id = fed_scim (fd_cfg D) @ ''/Groups/'' @ py_str (fd_fr D) group_id"

definition user_ref :: "'w federated_env \<Rightarrow> json \<Rightarrow> string" where
  "user_ref D uid = fed_scim (fd_cfg D) @ ''/Users/'' @ py_str (fd_fr D) uid"

definition member_of :: "json \<Rightarrow> string \<Rightarrow> string \<Rightarrow> json" where
  "member_of uid username ref = JObj [(''value'', uid), (''display'', JStr username), (''$ref'', JStr ref)]"

definition group_body :: "string \<Rightarrow> json list \<Rightarrow> json" where
  "group_body group_name members =
     JObj [(''schemas'', JList [JStr ''urn:ietf:params:scim:schemas:core:2.0:Group'']),
       (''displayName'', JStr group_name), (''members'', JList members)]"

text \<open>A member as the full update repeats it.\<close>

definition kept_member :: "json \<Rightarrow> exn + json" where
  "kept_member m =
     bind_res (item m ''value'') (\<lambda>v.
     bind_res (field_or m ''display'' v) (\<lambda>display.
     bind_res (field_or m ''$ref'' (JStr [])) (\<lambda>ref.
       Inr (JObj [(''value'', v), (''display'', display), (''$ref'', ref)]))))"

fun kept_members :: "json list \<Rightarrow> exn + json list" where
  "kept_members [] = Inr []"
| "kept_members (m # ms) = bind_res (kept_member m) (\<lambda>k. bind_res (kept_members ms) (\<lambda>ks. Inr (k # ks)))"

text \<open>\<open>any(m["value"] == uid for m in members)\<close>, which stops at the first; identifiers are texts.\<close>

fun any_member :: "json \<Rightarrow> json list \<Rightarrow> exn + bool" where
  "any_member uid [] = Inr False"
| "any_member uid (m # ms) = bind_res (item m ''value'') (\<lambda>v. if v = uid then Inr True else any_member uid ms)"

definition put_member_fallback ::
  "'w federated_env \<Rightarrow> json \<Rightarrow> string \<Rightarrow> json \<Rightarrow> federated_user \<Rightarrow> json \<Rightarrow> (('w, 'z) idp_state_scheme, unit) prog" where
  "put_member_fallback D gid gname member_uid u existing =
     andthen (lift_res (bind_res (py_list existing) kept_members)) (\<lambda>kept.
     andthen (fed_call D ''PUT'' (group_url D gid) [] SCIM_HEADERS
        (Some (group_body gname (kept @ [member_of member_uid (fu_username u) (user_ref D member_uid)])))) (\<lambda>_. ret ()))"

definition add_member_patch :: "'w federated_env \<Rightarrow> federated_user \<Rightarrow> json \<Rightarrow> json" where
  "add_member_patch D u uid =
     JObj [(''schemas'', JList [JStr ''urn:ietf:params:scim:api:messages:2.0:PatchOp'']),
       (''Operations'', JList [JObj [(''op'', JStr ''add''), (''path'', JStr ''members''),
          (''value'', JList [member_of uid (fu_username u) (user_ref D uid)])]])]"

text \<open>The members as an answer tells them: none, when it is not the group.\<close>

definition members_in :: "response \<Rightarrow> exn + json" where
  "members_in resp =
     (if status resp = 200 then bind_res (json_of resp) (\<lambda>j. field_or j ''members'' (JList [])) else Inr (JList []))"

definition is_member :: "json \<Rightarrow> json \<Rightarrow> exn + bool" where
  "is_member uid members = bind_res (py_list members) (any_member uid)"

text \<open>
  An addition that is accepted is verified, and counting the members for the message may raise; one that
  is refused is tried as a full update and then again.
\<close>

definition add_user_to_existing_group ::
  "'w federated_env \<Rightarrow> json \<Rightarrow> string \<Rightarrow> federated_user \<Rightarrow> json \<Rightarrow> (('w, 'z) idp_state_scheme, unit) prog" where
  "add_user_to_existing_group D group_id group_name u uid =
     andthen (fed_call D ''GET'' (group_url D group_id) [] [] None) (\<lambda>full_resp.
     andthen (lift_res (members_in full_resp)) (\<lambda>existing.
     andthen (lift_res (is_member uid existing)) (\<lambda>already.
       if already then ret ()
       else
         let patch = fed_call D ''PATCH'' (group_url D group_id) [] SCIM_HEADERS (Some (add_member_patch D u uid));
             fallback = put_member_fallback D group_id group_name uid u existing in
         andthen patch (\<lambda>resp.
           if status resp \<in> {200, 204} then
             andthen (fed_call D ''GET'' (group_url D group_id) [] [] None) (\<lambda>verify_resp.
             andthen (lift_res (members_in verify_resp)) (\<lambda>vmembers.
             andthen (lift_res (is_member uid vmembers)) (\<lambda>added.
               if added then andthen (lift_res (py_len vmembers)) (\<lambda>_. ret ()) else fallback)))
           else andthen fallback (\<lambda>_. andthen patch (\<lambda>_. ret ()))))))"

definition create_group_with_member ::
  "'w federated_env \<Rightarrow> string \<Rightarrow> federated_user \<Rightarrow> json \<Rightarrow> (('w, 'z) idp_state_scheme, unit) prog" where
  "create_group_with_member D group_name u uid =
     andthen (fed_call D ''POST'' (fed_scim (fd_cfg D) @ ''/Groups'') [] SCIM_HEADERS
        (Some (group_body group_name [member_of uid (fu_username u) (user_ref D uid)]))) (\<lambda>_. ret ())"

definition bootstrap_group ::
  "'w federated_env \<Rightarrow> dict \<Rightarrow> federated_user \<Rightarrow> (('w, 'z) idp_state_scheme, unit) prog" where
  "bootstrap_group D user_ids u =
     andthen (lift_res (item (JObj user_ids) (fu_username u))) (\<lambda>uid.
     andthen (fed_call D ''GET'' (fed_scim (fd_cfg D) @ ''/Groups?filter=displayName+eq+'' @ fu_group u) [] [] None) (\<lambda>resp.
     andthen (lift_res (listed resp ''Resources'')) (\<lambda>resources.
       if truthy resources then
         andthen (lift_res (first_id resources)) (\<lambda>gid. add_user_to_existing_group D gid (fu_group u) u uid)
       else create_group_with_member D (fu_group u) u uid)))"

definition bootstrap_groups ::
  "'w federated_env \<Rightarrow> federated_user list \<Rightarrow> dict \<Rightarrow> (('w, 'z) idp_state_scheme, unit) prog" where
  "bootstrap_groups D users user_ids = each_prog (bootstrap_group D user_ids) users"

subsection \<open>The whole run\<close>

definition bootstrap_federated_idp :: "'w federated_env \<Rightarrow> (('w, 'z) idp_state_scheme, unit) prog" where
  "bootstrap_federated_idp D =
     andthen (bootstrap_tenant D) (\<lambda>_.
     andthen (bootstrap_branding D) (\<lambda>_.
     andthen (bootstrap_groups_scope D) (\<lambda>_.
     andthen (bootstrap_application D) (\<lambda>app_id.
     andthen (bootstrap_application_claims_and_oidc D app_id) (\<lambda>_.
     andthen (bootstrap_users D USERS_TO_CREATE) (\<lambda>user_ids.
       bootstrap_groups D USERS_TO_CREATE user_ids))))))"

definition federated_main :: "'w federated_env \<Rightarrow> (('w, 'z) idp_state_scheme, unit) prog" where
  "federated_main D = catch (bootstrap_federated_idp D) (\<lambda>e. case e of RuntimeError _ \<Rightarrow> exit_1 | _ \<Rightarrow> raise e)"

subsection \<open>Where browsers may be sent\<close>

text \<open>A part that the bars of the group around it do not cut.\<close>

definition uncut :: "string \<Rightarrow> bool" where
  "uncut p \<longleftrightarrow> (\<forall>cur rest. alternatives cur (p @ rest) = alternatives (cur @ p) rest)"

lemma uncut_append: "uncut p \<Longrightarrow> uncut q \<Longrightarrow> uncut (p @ q)"
  by (simp add: uncut_def)

lemma uncut_basic [simp]: "uncut (re_escape s)" "uncut ''.*''" "list_all (\<lambda>c. \<not> re_special c) s \<Longrightarrow> uncut s"
  by (simp_all add: uncut_def alternatives_of_escaped alternatives_of_dot_star alternatives_of_plain del: append.simps)

lemma alternatives_of_join: "\<forall>p \<in> set (p # ps). uncut p \<Longrightarrow> alternatives [] (join_str ''|'' (p # ps)) = p # ps"
proof (induction ps arbitrary: p)
  case Nil
  then have "alternatives [] (p @ []) = alternatives ([] @ p) []" by (auto simp only: uncut_def list.set)
  then show ?case by simp
next
  case (Cons q ps)
  then have "alternatives [] (p @ ''|'' @ join_str ''|'' (q # ps)) = alternatives p (''|'' @ join_str ''|'' (q # ps))"
    by (auto simp: uncut_def)
  then show ?case using Cons by simp
qed

lemma prefix_then_anything:
  "pattern_items c = Some (map Exactly d @ [Anything]) \<Longrightarrow>
    alternative_admits (re_escape b @ c) u \<longleftrightarrow> (\<exists>v. u = b @ d @ v)"
  using matches_anything [of "[]"]
  by (auto simp: alternative_admits_def items_of_escaped matches_exactly)

lemma prefix_anything_then_anything:
  "pattern_items c = Some (map Exactly d @ Anything # map Exactly e @ [Anything]) \<Longrightarrow>
    alternative_admits (re_escape b @ c) u \<longleftrightarrow> (\<exists>x v. u = b @ d @ x @ e @ v)"
  using matches_anything [of "[]"]
  by (auto simp: alternative_admits_def items_of_escaped matches_exactly matches_anything) blast

lemma commonauth_alternative:
  "alternative_admits (re_escape b @ ''/commonauth.*'') u \<longleftrightarrow> (\<exists>v. u = b @ ''/commonauth'' @ v)"
  "alternative_admits (re_escape b @ ''/o/.*/commonauth.*'') u \<longleftrightarrow> (\<exists>x v. u = b @ ''/o/'' @ x @ ''/commonauth'' @ v)"
  by (rule prefix_then_anything, code_simp) (rule prefix_anything_then_anything, code_simp)

lemma commonauth_uncut: "p \<in> set (commonauth_alternatives b) \<Longrightarrow> uncut p"
proof -
  have plain: "uncut ''/commonauth''" "uncut ''/o/''" by (rule uncut_basic(3); code_simp)+
  have "uncut (re_escape b @ ''/commonauth'' @ ''.*'')" "uncut (re_escape b @ ''/o/'' @ ''.*'' @ ''/commonauth'' @ ''.*'')"
    by (intro uncut_append uncut_basic(1,2) plain)+
  then show "p \<in> set (commonauth_alternatives b) \<Longrightarrow> uncut p" by (auto simp: commonauth_alternatives_def)
qed

text \<open>
  C34: The callback registered at the federated server admits exactly the primary server's own
  authentication endpoints: for one of the addresses given, whatever characters it has, the address
  followed by \<open>/commonauth\<close> or by \<open>/o/\<close>, any text and \<open>/commonauth\<close>, and then anything.
\<close>

theorem commonauth_callback_admits:
  "callback_admits (commonauth_callback_regexp (b # bs)) u \<longleftrightarrow>
     (\<exists>base \<in> set (b # bs). (\<exists>v. u = base @ ''/commonauth'' @ v) \<or> (\<exists>x v. u = base @ ''/o/'' @ x @ ''/commonauth'' @ v))"
proof -
  let ?parts = "concat (map commonauth_alternatives (b # bs))"
  obtain p ps where parts: "?parts = p # ps" by (simp add: commonauth_alternatives_def)
  have "alternatives [] (join_str ''|'' ?parts) = ?parts"
    unfolding parts by (rule alternatives_of_join) (use commonauth_uncut parts [symmetric] in auto)
  then have "callback_admits (commonauth_callback_regexp (b # bs)) u \<longleftrightarrow>
      (\<exists>base \<in> set (b # bs). list_ex (\<lambda>a. alternative_admits a u) (commonauth_alternatives base))"
    unfolding commonauth_callback_regexp_def callback_admits_group by (auto simp only: list_ex_iff set_concat set_map UN_iff image_iff)
  then show ?thesis by (simp only: commonauth_alternatives_def list_ex_iff list.set bex_simps commonauth_alternative) blast
qed

subsection \<open>The file with the credentials\<close>

lemma keeps_files_basic [simp, intro]: "keeps files (fed_call D m u params hs payload)" "keeps files (send net q)"
  by (auto intro!: keepsI simp: fed_call_def send_def split: prod.splits)

lemma keeps_files_failed [simp, intro]: "keeps files bootstrap_failed" "keeps files exit_1"
  by (simp_all add: bootstrap_failed_def exit_1_def)

lemma keeps_each_prog: "(\<And>x. keeps f (g x)) \<Longrightarrow> keeps f (each_prog g xs)"
  by (induction xs) auto

lemma before_keeps:
  "keeps files (bootstrap_tenant D)" "keeps files (bootstrap_branding D)" "keeps files (bootstrap_groups_scope D)"
  "keeps files (bootstrap_application D)"
  by (auto simp: bootstrap_tenant_def bootstrap_branding_def bootstrap_groups_scope_def bootstrap_application_def Let_def
      intro!: keeps_andthen keeps_if)

lemma users_keep: "keeps files (bootstrap_each_user D us ids)"
  by (induction us arbitrary: ids) (auto simp: bootstrap_user_def intro!: keeps_andthen keeps_if)

lemma groups_keep: "keeps files (bootstrap_groups D us ids)"
  by (auto simp: bootstrap_groups_def bootstrap_group_def add_user_to_existing_group_def create_group_with_member_def
      put_member_fallback_def Let_def intro!: keeps_each_prog keeps_andthen keeps_if)

lemma after_keeps: "keeps files (andthen (bootstrap_users D us) (bootstrap_groups D vs))"
  by (auto simp: bootstrap_users_def intro!: keeps_andthen keeps_if users_keep groups_keep)

text \<open>The files once the credentials are written.\<close>

definition with_credentials ::
  "'w federated_env \<Rightarrow> (string \<Rightarrow> (string \<times> nat) option) \<Rightarrow> (string \<Rightarrow> (string \<times> nat) option) \<Rightarrow> bool" where
  "with_credentials D before after \<longleftrightarrow>
     (\<exists>client_id client_secret.
        after = before(credentials_path \<mapsto> (dumps (fd_fr D) (credentials_json client_id client_secret), OWNER_ONLY)))"

lemma with_credentialsI:
  "with_credentials D before (before(credentials_path \<mapsto>
     (dumps (fd_fr D) (credentials_json client_id client_secret), OWNER_ONLY)))"
  unfolding with_credentials_def by blast

lemma write_credentials_run:
  "write_credentials D client_id client_secret s = (r, t) \<Longrightarrow> r = Inr () \<and> with_credentials D (files s) (files t)"
  by (auto simp: write_credentials_def write_file_def chmod_file_def andthen_def modify_def intro!: with_credentialsI)

lemma claims_and_oidc_files:
  assumes "bootstrap_application_claims_and_oidc D app_id s = (r, t)"
  shows "case r of Inl _ \<Rightarrow> files t = files s | Inr _ \<Rightarrow> with_credentials D (files s) (files t)"
proof -
  have call: "files v = files u" if "fed_call D m a params hs payload u = (x, v)" for m a params hs payload u x v
    using keepsD [OF keeps_files_basic(1), of D m a params hs payload u] that by simp
  show ?thesis
    using assms unfolding bootstrap_application_claims_and_oidc_def Let_def andthen_def lift_res_def bootstrap_failed_def raise_def
    by (auto split: prod.splits sum.splits if_splits dest!: call dest: write_credentials_run)
qed

lemma federated_run:
  "bootstrap_federated_idp D =
     andthen (andthen (bootstrap_tenant D) (\<lambda>_. andthen (bootstrap_branding D) (\<lambda>_.
       andthen (bootstrap_groups_scope D) (\<lambda>_. bootstrap_application D)))) (\<lambda>app_id.
     andthen (bootstrap_application_claims_and_oidc D app_id) (\<lambda>_.
     andthen (bootstrap_users D USERS_TO_CREATE) (bootstrap_groups D USERS_TO_CREATE)))"
  unfolding bootstrap_federated_idp_def by (auto simp: andthen_def fun_eq_iff split: prod.splits sum.splits)

lemma federated_files:
  fixes s t :: "('w, 'z) idp_state_scheme"
  assumes "bootstrap_federated_idp D s = (r, t)"
  shows "with_credentials D (files s) (files t) \<or> (files t = files s \<and> (\<exists>e. r = Inl e))"
proof -
  let ?before = "andthen (bootstrap_tenant D) (\<lambda>_. andthen (bootstrap_branding D) (\<lambda>_.
       andthen (bootstrap_groups_scope D) (\<lambda>_. bootstrap_application D))) :: (('w, 'z) idp_state_scheme, json) prog"
  let ?after = "andthen (bootstrap_users D USERS_TO_CREATE) (bootstrap_groups D USERS_TO_CREATE)
    :: (('w, 'z) idp_state_scheme, unit) prog"
  have "keeps files ?before" by (intro keeps_andthen before_keeps)
  then have before: "files v = files u" if "?before u = (x, v)" for u x v
    using that keepsD [of files ?before u] by simp
  have after: "files v = files u" if "?after u = (x, v)" for u x v
    using keepsD [OF after_keeps, of D USERS_TO_CREATE USERS_TO_CREATE u] that by simp
  have step: "with_credentials D (files u) (files v) \<or> (files v = files u \<and> (\<exists>e. x = Inl e))"
    if "andthen (bootstrap_application_claims_and_oidc D app_id) (\<lambda>_. ?after) u = (x, v)" for app_id u x v
    using that claims_and_oidc_files [of D app_id u]
    by (auto simp: andthen_def [of "bootstrap_application_claims_and_oidc D app_id"] split: prod.splits sum.splits dest!: after)
  show ?thesis
    using assms unfolding federated_run andthen_def [of ?before]
    by (auto split: prod.splits sum.splits dest!: before dest: step)
qed


subsection \<open>Groups keep their members\<close>

lemma kept_members_values:
  "kept_members ms = Inr ks \<Longrightarrow> map (\<lambda>k. item k ''value'') ks = map (\<lambda>m. item m ''value'') ms"
  by (induction ms arbitrary: ks) (auto simp: bind_res_Inr_conv kept_member_def item_def)

definition group_read :: "'w federated_env \<Rightarrow> json \<Rightarrow> request" where
  "group_read D gid = fed_request ''GET'' (group_url D gid) [] (fed_admin_auth (fd_cfg D)) [] None"

definition group_addition :: "'w federated_env \<Rightarrow> json \<Rightarrow> federated_user \<Rightarrow> json \<Rightarrow> request" where
  "group_addition D gid u uid =
     fed_request ''PATCH'' (group_url D gid) [] (fed_admin_auth (fd_cfg D)) SCIM_HEADERS (Some (add_member_patch D u uid))"

definition group_replacement :: "'w federated_env \<Rightarrow> json \<Rightarrow> string \<Rightarrow> json list \<Rightarrow> request" where
  "group_replacement D gid gname members =
     fed_request ''PUT'' (group_url D gid) [] (fed_admin_auth (fd_cfg D)) SCIM_HEADERS (Some (group_body gname members))"

text \<open>
  C36: A group whose members could not be read, and to which the addition was refused, is overwritten:
  the fallback takes the failed read for an empty group and sends a full update that lists the new
  member alone, so that every other member of the group is removed.
\<close>

theorem failed_read_empties_group:
  assumes "fd_net D (group_read D gid) (world s) = (Inr r1, d1, w1)" and "status r1 \<noteq> 200"
    and "fd_net D (group_addition D gid u uid) w1 = (Inr r2, d2, w2)" and "status r2 \<notin> {200, 204}"
  shows "\<exists>tail. sent (snd (add_user_to_existing_group D gid gname u uid s)) =
    sent s @ [group_read D gid, group_addition D gid u uid,
      group_replacement D gid gname [member_of uid (fu_username u) (user_ref D uid)]] @ tail"
  using assms
  unfolding add_user_to_existing_group_def fed_call_def group_read_def [symmetric] group_addition_def [symmetric] Let_def
    put_member_fallback_def
  by (auto simp: andthen_def send_def members_in_def is_member_def py_list_def lift_res_def group_replacement_def
      split: prod.splits sum.splits)

text \<open>A server that refuses everything.\<close>

definition refusing_env :: "unit federated_env" where
  "refusing_env =
     \<lparr>fd_net = (\<lambda>q w. (Inr \<lparr>status = 500, resp_text = [], resp_json = None, resp_location = None\<rparr>, 1, w)),
      fd_fr = (\<lambda>_. []), fd_new_mode = 420, fd_cfg = Federated_Config (\<lambda>_. None)\<rparr>"

theorem failed_read_empties_group_witness:
  "\<exists>tail. sent (snd (add_user_to_existing_group refusing_env (JStr ''g1'') ''user'' (hd USERS_TO_CREATE) (JStr ''u1'')
      \<lparr>world = (), wall = 0, mono = 0, sent = [], files = \<lambda>_. None\<rparr>)) =
    [] @ [group_read refusing_env (JStr ''g1''), group_addition refusing_env (JStr ''g1'') (hd USERS_TO_CREATE) (JStr ''u1''),
      group_replacement refusing_env (JStr ''g1'') ''user''
        [member_of (JStr ''u1'') (fu_username (hd USERS_TO_CREATE)) (user_ref refusing_env (JStr ''u1''))]] @ tail"
  using failed_read_empties_group [where D = refusing_env and gid = "JStr ''g1''" and gname = "''user''"
      and u = "hd USERS_TO_CREATE" and uid = "JStr ''u1''"
      and s = "\<lparr>world = (), wall = 0, mono = 0, sent = [], files = \<lambda>_. None\<rparr>"]
  by (simp add: refusing_env_def)

text \<open>A full update after a good read repeats everybody: the values in it are those read, and the new one.\<close>

lemma full_update_repeats_members:
  assumes "kept_members ms = Inr ks"
  shows "sent (snd (put_member_fallback D gid gname uid u (JList ms) s)) =
      sent s @ [group_replacement D gid gname (ks @ [member_of uid (fu_username u) (user_ref D uid)])]"
    and "map (\<lambda>k. item k ''value'') (ks @ [member_of uid (fu_username u) (user_ref D uid)]) =
      map (\<lambda>m. item m ''value'') ms @ [Inr uid]"
proof -
  show "sent (snd (put_member_fallback D gid gname uid u (JList ms) s)) =
      sent s @ [group_replacement D gid gname (ks @ [member_of uid (fu_username u) (user_ref D uid)])]"
    using assms by (auto simp: put_member_fallback_def fed_call_def andthen_def send_def py_list_def group_replacement_def
      split: prod.splits sum.splits)
  show "map (\<lambda>k. item k ''value'') (ks @ [member_of uid (fu_username u) (user_ref D uid)]) =
      map (\<lambda>m. item m ''value'') ms @ [Inr uid]"
    using kept_members_values [OF assms] by (simp add: member_of_def item_def)
qed

end
