(* ===== verification/Setup_Secondary.thy ===== *)
theory Setup_Secondary
  imports Setup_Idp_Server
begin

text \<open>
  \<open>setup_secondary_is.py\<close>, which clones a WSO2 IS installation, moves it to another port, starts it,
  waits until it answers and hands over to \<open>setup_idp_server.py\<close>. The state has the directories and
  what the operator types, beside the files and the network. The programs it starts (\<open>cp\<close>, \<open>lsof\<close>,
  \<open>wso2server.sh\<close>) are not part of the repository: they are a parameter, which may change files,
  directories and the world and takes its time. Messages to the console are not modelled.
\<close>

subsection \<open>Files, input and programs\<close>

type_synonym filesystem = "(string \<Rightarrow> (string \<times> nat) option) \<times> (string \<Rightarrow> bool)"

record 'w secondary_state = "'w idp_state" +
  dirs :: "string \<Rightarrow> bool"
  inputs :: "string list"

text \<open>What a program leaves: its return code, its output, the seconds it took, the files and the world.\<close>

record 'w outcome =
  oc_code :: int
  oc_output :: string
  oc_seconds :: real
  oc_files :: filesystem
  oc_world :: 'w

text \<open>\<open>se_program\<close> is \<open>None\<close> for a program that cannot be started.\<close>

record 'w secondary_env =
  se_fed :: "'w federated_env"
  se_environ :: environ
  se_here :: string
  se_program :: "string list \<Rightarrow> string option \<Rightarrow> filesystem \<Rightarrow> 'w \<Rightarrow> 'w outcome option"

definition path_join :: "string \<Rightarrow> string \<Rightarrow> string" where
  "path_join a b =
     (if startswith b ''/'' then b else if a = [] \<or> last a = CHR ''/'' then a @ b else a @ ''/'' @ b)"

definition basename :: "string \<Rightarrow> string" where
  "basename p = rev (takeWhile (\<lambda>c. c \<noteq> CHR ''/'') (rev p))"

definition path_exists :: "string \<Rightarrow> ('w, 'z) secondary_state_scheme \<Rightarrow> bool" where
  "path_exists p s \<longleftrightarrow> files s p \<noteq> None \<or> dirs s p"

definition input_line :: "(('w, 'z) secondary_state_scheme, string) prog" where
  "input_line s =
     (case inputs s of
        [] \<Rightarrow> (Inl (OtherError ''EOFError''), s)
      | l # ls \<Rightarrow> (Inr l, s\<lparr>inputs := ls\<rparr>))"

definition typed_answer :: "(('w, 'z) secondary_state_scheme, string) prog" where
  "typed_answer = andthen input_line (\<lambda>l. ret (lower (strip l)))"

text \<open>\<open>subprocess.run(cmd, cwd=cwd, check=True)\<close>; the result is what the program printed.\<close>

definition run_program ::
  "'w secondary_env \<Rightarrow> string list \<Rightarrow> string option \<Rightarrow> (('w, 'z) secondary_state_scheme, string) prog" where
  "run_program E cmd cwd s =
     (case se_program E cmd cwd (files s, dirs s) (world s) of
        None \<Rightarrow> (Inl (OtherError ''FileNotFoundError''), s)
      | Some oc \<Rightarrow>
          (if oc_code oc = 0 then Inr (oc_output oc) else Inl (OtherError ''CalledProcessError''),
           s\<lparr>files := fst (oc_files oc), dirs := snd (oc_files oc), world := oc_world oc,
             wall := wall s + oc_seconds oc, mono := mono s + oc_seconds oc\<rparr>))"

text \<open>\<open>shutil.rmtree\<close> removes a directory with all that is in it.\<close>

definition inside :: "string \<Rightarrow> string \<Rightarrow> bool" where
  "inside dir p \<longleftrightarrow> p = dir \<or> startswith p (dir @ ''/'')"

definition rmtree :: "string \<Rightarrow> (('w, 'z) secondary_state_scheme, unit) prog" where
  "rmtree dir =
     andthen (asks (\<lambda>s. dirs s dir)) (\<lambda>is_dir.
       if \<not> is_dir then raise (OtherError ''NotADirectoryError'')
       else modify (\<lambda>s. s\<lparr>files := (\<lambda>p. if inside dir p then None else files s p),
          dirs := (\<lambda>p. \<not> inside dir p \<and> dirs s p)\<rparr>))"

text \<open>\<open>os.makedirs(p, exist_ok=True)\<close>, where the directories above it exist.\<close>

definition makedirs :: "string \<Rightarrow> (('w, 'z) secondary_state_scheme, unit) prog" where
  "makedirs p =
     andthen (asks (\<lambda>s. files s p)) (\<lambda>file.
       if file \<noteq> None then raise (OtherError ''FileExistsError'')
       else modify (\<lambda>s. s\<lparr>dirs := (dirs s)(p := True)\<rparr>))"

text \<open>Reading a text file turns every line end into a newline; its encoding is not modelled.\<close>

fun newlines :: "bool \<Rightarrow> string \<Rightarrow> string" where
  "newlines after_cr [] = []"
| "newlines after_cr (c # cs) =
     (if ord c = 13 then CHR 0x0A # newlines True cs
      else if ord c = 10 \<and> after_cr then newlines False cs
      else c # newlines False cs)"

definition read_file :: "string \<Rightarrow> (('w, 'z) secondary_state_scheme, string) prog" where
  "read_file p =
     andthen (asks (\<lambda>s. (files s p, dirs s p))) (\<lambda>(file, is_dir).
       case file of
         Some (txt, _) \<Rightarrow> ret (newlines False txt)
       | None \<Rightarrow> raise (OtherError (if is_dir then ''IsADirectoryError'' else ''FileNotFoundError'')))"

subsection \<open>The clone\<close>

definition DEFAULT_SRC_PATH :: "'w secondary_env \<Rightarrow> string" where
  "DEFAULT_SRC_PATH E = getenv (se_environ E) ''WSO2_IS_TEMPLATE_PATH'' []"

definition DEFAULT_DST_PATH :: "'w secondary_env \<Rightarrow> string" where
  "DEFAULT_DST_PATH E =
     (let base = basename (rstrip_char (CHR ''/'') (DEFAULT_SRC_PATH E)) in
      path_join (se_here E) ((if base = [] then ''wso2is'' else base) @ ''-secondary''))"

definition dirname :: "string \<Rightarrow> string" where
  "dirname p =
     (let head = rev (dropWhile (\<lambda>c. c \<noteq> CHR ''/'') (rev p)); cut = rstrip_char (CHR ''/'') head in
      if cut = [] then head else cut)"

definition clone :: "'w secondary_env \<Rightarrow> (('w, 'z) secondary_state_scheme, unit) prog" where
  "clone E = andthen (run_program E [''cp'', ''-R'', DEFAULT_SRC_PATH E, DEFAULT_DST_PATH E] None) (\<lambda>_. ret ())"

text \<open>A clone that is there already is replaced only on the operator's word.\<close>

definition setup_directory :: "'w secondary_env \<Rightarrow> (('w, 'z) secondary_state_scheme, string) prog" where
  "setup_directory E =
     (let dst = DEFAULT_DST_PATH E in
      andthen (asks (path_exists (DEFAULT_SRC_PATH E))) (\<lambda>found.
        if \<not> found then exit_1
        else
          andthen (asks (path_exists dst)) (\<lambda>present.
            if present then
              andthen typed_answer (\<lambda>choice.
                if choice = ''y'' then andthen (rmtree dst) (\<lambda>_. andthen (clone E) (\<lambda>_. ret dst))
                else ret dst)
            else andthen (makedirs (dirname dst)) (\<lambda>_. andthen (clone E) (\<lambda>_. ret dst)))))"

subsection \<open>The port\<close>

text \<open>What follows a match of \<open>offset\s*=\s*\d+\<close> at the front; each part takes all it can.\<close>

definition after_offset :: "string \<Rightarrow> string option" where
  "after_offset s =
     (if startswith s ''offset'' then
        (case lstrip (drop 6 s) of
           e # r \<Rightarrow>
             (if e = CHR ''='' \<and> takeWhile is_digit (lstrip r) \<noteq> [] then Some (dropWhile is_digit (lstrip r)) else None)
         | [] \<Rightarrow> None)
      else None)"

lemma after_offset_shorter: "after_offset s = Some r \<Longrightarrow> length r < length s"
proof -
  assume m: "after_offset s = Some r"
  then obtain e q where e: "lstrip (drop 6 s) = e # q" and r: "r = dropWhile is_digit (lstrip q)"
    by (auto simp: after_offset_def split: if_splits list.splits)
  have "length (e # q) \<le> length s" using length_dropWhile_le [of is_space "drop 6 s"] e by (simp add: lstrip_def)
  moreover have "length r \<le> length q" using length_dropWhile_le order_trans unfolding r lstrip_def by blast
  ultimately show ?thesis by simp
qed

function sub_offset :: "string \<Rightarrow> string" where
  "sub_offset [] = []"
| "sub_offset (c # cs) =
     (case after_offset (c # cs) of
        Some rest \<Rightarrow> ''offset = 1'' @ sub_offset rest
      | None \<Rightarrow> c # sub_offset cs)"
  by pat_completeness auto
termination
  by (relation "measure length") (auto dest: after_offset_shorter)

definition offset_lines :: string where
  "offset_lines = ''[server]'' @ [CHR 0x0A] @ ''offset = 1''"

definition with_port_offset :: "string \<Rightarrow> string" where
  "with_port_offset content =
     (if contains content ''offset ='' then sub_offset content
      else if contains content ''[server]'' then replace_str ''[server]'' offset_lines content
      else offset_lines @ [CHR 0x0A, CHR 0x0A] @ content)"

definition toml_path :: "string \<Rightarrow> string" where
  "toml_path dst = path_join (path_join (path_join dst ''repository'') ''conf'') ''deployment.toml''"

definition configure_port_offset :: "'w secondary_env \<Rightarrow> string \<Rightarrow> (('w, 'z) secondary_state_scheme, unit) prog" where
  "configure_port_offset E dst =
     andthen (asks (path_exists (toml_path dst))) (\<lambda>found.
       if \<not> found then exit_1
       else
         andthen (read_file (toml_path dst)) (\<lambda>content.
           write_file (fd_new_mode (se_fed E)) (toml_path dst) (with_port_offset content)))"

subsection \<open>Starting and waiting\<close>

definition exit_0 :: "('s, 'a) prog" where
  "exit_0 = raise (OtherError ''SystemExit: 0'')"

text \<open>\<open>except Exception\<close> lets the exit of the interpreter through.\<close>

definition is_exit :: "exn \<Rightarrow> bool" where
  "is_exit e \<longleftrightarrow> e = OtherError ''SystemExit: 0'' \<or> e = OtherError ''SystemExit: 1''"

text \<open>Whether the port is taken and the operator goes on with it; any failure to tell counts as free.\<close>

definition port_taken :: "'w secondary_env \<Rightarrow> (('w, 'z) secondary_state_scheme, bool) prog" where
  "port_taken E =
     catch
       (andthen (run_program E [''lsof'', ''-t'', ''-i:9444''] None) (\<lambda>output.
          if strip output = [] then ret False
          else andthen typed_answer (\<lambda>choice. if choice = ''n'' then exit_0 else ret True)))
       (\<lambda>e. if is_exit e then raise e else ret False)"

definition start_server :: "'w secondary_env \<Rightarrow> string \<Rightarrow> (('w, 'z) secondary_state_scheme, unit) prog" where
  "start_server E dst =
     andthen (port_taken E) (\<lambda>taken.
       if taken then ret ()
       else andthen (run_program E [''bash'', ''./wso2server.sh'', ''start''] (Some (path_join dst ''bin''))) (\<lambda>_. ret ()))"

text \<open>A poll, with the default headers of the session; a failure of any kind is one more reason to wait.\<close>

definition health_request :: "federated_config \<Rightarrow> request" where
  "health_request F =
     \<lparr>meth = ''GET'', url = fed_server_api F @ ''/tenants'', query = [],
      headers = [(''Accept'', ''application/json''), (''Content-Type'', ''application/json''),
        (''Authorization'', basic_auth (fe_super_admin F))],
      body = NoBody, follow_redirects = True\<rparr>"

definition healthy_now :: "'w secondary_env \<Rightarrow> (('w, 'z) secondary_state_scheme, bool) prog" where
  "healthy_now E =
     catch (andthen (send (fd_net (se_fed E)) (health_request (fd_cfg (se_fed E)))) (\<lambda>resp. ret (status resp = 200)))
       (\<lambda>_. ret False)"

text \<open>The loop, with fuel: whether the server became healthy in time, or nothing when the fuel ran out.\<close>

fun poll_health :: "'w secondary_env \<Rightarrow> real \<Rightarrow> nat \<Rightarrow> (('w, 'z) secondary_state_scheme, bool option) prog" where
  "poll_health E start 0 = ret None"
| "poll_health E start (Suc n) =
     andthen (asks wall) (\<lambda>now.
       if \<not> now - start < 180 then ret (Some False)
       else
         andthen (healthy_now E) (\<lambda>healthy.
           if healthy then ret (Some True)
           else andthen (sleep 3) (\<lambda>_. poll_health E start n)))"

definition POLL_FUEL :: nat where
  "POLL_FUEL = 61"

definition wait_for_health :: "'w secondary_env \<Rightarrow> (('w, 'z) secondary_state_scheme, unit) prog" where
  "wait_for_health E =
     andthen (asks wall) (\<lambda>start.
     andthen (poll_health E start POLL_FUEL) (\<lambda>healthy.
       case healthy of
         Some True \<Rightarrow> ret ()
       | Some False \<Rightarrow> exit_1
       | None \<Rightarrow> raise (OtherError ''out of fuel'')))"

definition secondary_main :: "'w secondary_env \<Rightarrow> (('w, 'z) secondary_state_scheme, unit) prog" where
  "secondary_main E =
     andthen (setup_directory E) (\<lambda>dst.
     andthen (configure_port_offset E dst) (\<lambda>_.
     andthen (start_server E dst) (\<lambda>_.
     andthen (wait_for_health E) (\<lambda>_.
       bootstrap_federated_idp (se_fed E)))))"

subsection \<open>Waiting ends\<close>

lemma healthy_now_run:
  assumes "net_causal (fd_net (se_fed E))" and "healthy_now E s = (r, t)"
  shows "\<exists>b. r = Inr b" and "wall s \<le> wall t" and "length (sent t) = Suc (length (sent s))"
proof -
  obtain x dt w where net: "fd_net (se_fed E) (health_request (fd_cfg (se_fed E))) (world s) = (x, dt, w)"
    by (metis prod_cases3)
  have "0 \<le> dt" using assms(1) net unfolding net_causal_def by (metis fst_conv snd_conv)
  then show "\<exists>b. r = Inr b" "wall s \<le> wall t" "length (sent t) = Suc (length (sent s))"
    using assms(2) net by (auto simp: healthy_now_def catch_def andthen_def send_def split: sum.splits)
qed

lemma poll_health_ends:
  assumes "net_causal (fd_net (se_fed E))" and "180 - 3 * real n \<le> wall s - start"
    and "poll_health E start (Suc n) s = (r, t)"
  shows "(\<exists>b. r = Inr (Some b)) \<and> length (sent t) \<le> length (sent s) + n"
  using assms(2,3)
proof (induction n arbitrary: s)
  case 0
  then show ?case by auto
next
  case (Suc n)
  show ?case
  proof (cases "wall s - start < 180")
    case True
    obtain x u where now: "healthy_now E s = (x, u)" by (meson surj_pair)
    note run = healthy_now_run [OF assms(1) now]
    obtain b where b: "x = Inr b" using run(1) by blast
    show ?thesis
    proof (cases b)
      case True
      then show ?thesis using Suc.prems \<open>wall s - start < 180\<close> now b run(3) by (auto simp: andthen_def)
    next
      case False
      obtain v where v: "sleep 3 u = (Inr (), v)" "wall v = wall u + 3" "sent v = sent u" by (auto simp: sleep_def modify_def)
      have "poll_health E start (Suc n) v = (r, t)"
        using Suc.prems(2) True now b False v(1)
        by (subst (asm) poll_health.simps(2)) (simp add: andthen_def [of "healthy_now E"] andthen_def [of "sleep 3"]
            del: poll_health.simps)
      moreover have "180 - 3 * real n \<le> wall v - start" using Suc.prems(1) run(2) v(2) by simp
      ultimately show ?thesis using Suc.IH [of v] run(3) v(3) by auto
    qed
  next
    case False
    then show ?thesis using Suc.prems by auto
  qed
qed

text \<open>
  C37: Waiting for the server ends. Where no answer arrives before it was asked for, at most sixty polls
  are sent, the fuel is never used up, and the result is that the server is healthy or that the run exits.
\<close>

theorem waiting_for_health_ends:
  assumes "net_causal (fd_net (se_fed E))" and "wait_for_health E s = (r, t)"
  shows "(r = Inr () \<or> r = Inl (OtherError ''SystemExit: 1'')) \<and> length (sent t) \<le> length (sent s) + 60"
proof -
  obtain x u where run: "poll_health E (wall s) POLL_FUEL s = (x, u)" by (meson surj_pair)
  have "(\<exists>b. x = Inr (Some b)) \<and> length (sent u) \<le> length (sent s) + 60"
    using poll_health_ends [OF assms(1), of 60 s "wall s" x u] run by (simp add: POLL_FUEL_def del: poll_health.simps)
  then obtain b where "x = Inr (Some b)" "length (sent u) \<le> length (sent s) + 60" by blast
  then show ?thesis using assms(2) run by (cases b) (auto simp: wait_for_health_def exit_1_def andthen_def)
qed

text \<open>A server that refuses everything after a second, and no program that can be started.\<close>

definition refusing_host :: "unit secondary_env" where
  "refusing_host = \<lparr>se_fed = refusing_env, se_environ = (\<lambda>_. None), se_here = ''/srv'', se_program = (\<lambda>_ _ _ _. None)\<rparr>"

definition idle_host :: "unit secondary_state" where
  "idle_host = \<lparr>world = (), wall = 0, mono = 0, sent = [], files = (\<lambda>_. None), dirs = (\<lambda>_. False), inputs = []\<rparr>"

theorem waiting_for_health_ends_witness:
  "case wait_for_health refusing_host idle_host of
     (r, t) \<Rightarrow> (r = Inr () \<or> r = Inl (OtherError ''SystemExit: 1'')) \<and> length (sent t) \<le> length (sent idle_host) + 60"
proof -
  have "net_causal (fd_net (se_fed refusing_host))"
    by (simp add: net_causal_def refusing_host_def refusing_env_def)
  from waiting_for_health_ends [OF this prod.collapse [symmetric], of idle_host] show ?thesis
    by (simp add: split_beta)
qed

subsection \<open>The offset is set once\<close>

definition offset_text :: "string \<Rightarrow> string \<Rightarrow> char \<Rightarrow> string" where
  "offset_text v w d = ''offset'' @ v @ ''='' @ w @ [d]"

lemma lstrip_spaces: "list_all is_space v \<Longrightarrow> \<not> is_space c \<Longrightarrow> lstrip (v @ c # s) = c # s"
  by (induction v) (auto simp: lstrip_def)

lemma digit_no_space: "is_digit d \<Longrightarrow> \<not> is_space d"
  by (auto simp: is_digit_def is_space_def Let_def)

text \<open>A match begins with \<open>offset\<close>, spaces, an equals sign, spaces and a digit.\<close>

lemma after_offset_iff:
  "after_offset s \<noteq> None \<longleftrightarrow>
     (\<exists>v w d r. s = offset_text v w d @ r \<and> list_all is_space v \<and> list_all is_space w \<and> is_digit d)"
proof
  assume "after_offset s \<noteq> None"
  then obtain e q where s: "startswith s ''offset''" and e: "lstrip (drop 6 s) = e # q" "e = CHR ''=''"
    and d: "takeWhile is_digit (lstrip q) \<noteq> []"
    by (auto simp: after_offset_def split: if_splits list.splits)
  let ?v = "takeWhile is_space (drop 6 s)" and ?w = "takeWhile is_space q"
  obtain d r where dr: "lstrip q = d # r" "is_digit d" using d by (cases "lstrip q") (auto split: if_splits)
  obtain s' where s': "s = ''offset'' @ s'" using s unfolding startswith_def by (metis append_take_drop_id)
  then have "s = ''offset'' @ drop 6 s" by simp
  also have "drop 6 s = ?v @ ''='' @ q" using e takeWhile_dropWhile_id [of is_space "drop 6 s"] by (simp add: lstrip_def)
  also have "q = ?w @ d # r" using dr takeWhile_dropWhile_id [of is_space q] by (simp add: lstrip_def)
  finally have "s = offset_text ?v ?w d @ r" by (simp add: offset_text_def)
  moreover have "list_all is_space ?v" "list_all is_space ?w" by (auto simp: list_all_iff dest: set_takeWhileD)
  ultimately show "\<exists>v w d r. s = offset_text v w d @ r \<and> list_all is_space v \<and> list_all is_space w \<and> is_digit d"
    using dr(2) by blast
next
  assume "\<exists>v w d r. s = offset_text v w d @ r \<and> list_all is_space v \<and> list_all is_space w \<and> is_digit d"
  then obtain v w d r where s: "s = ''offset'' @ v @ CHR ''='' # w @ d # r" and sp: "list_all is_space v" "list_all is_space w"
    and d: "is_digit d"
    by (auto simp: offset_text_def)
  have eq: "\<not> is_space (CHR ''='')" by (simp add: is_space_def)
  have "lstrip (drop 6 s) = CHR ''='' # w @ d # r" unfolding s using lstrip_spaces [OF sp(1) eq] by simp
  moreover have "lstrip (w @ d # r) = d # r" by (rule lstrip_spaces [OF sp(2) digit_no_space [OF d]])
  ultimately show "after_offset s \<noteq> None"
    using d unfolding after_offset_def by (simp add: s startswith_def)
qed

lemma after_offset_o: "c \<noteq> CHR ''o'' \<Longrightarrow> after_offset (c # cs) = None"
  by (simp add: after_offset_def startswith_def)

lemma after_offset_set: "after_offset (''offset = 1'' @ s) = Some (dropWhile is_digit s)"
  by (simp add: after_offset_def startswith_def lstrip_def is_space_def is_digit_def)

lemma after_offset_no_digit:
  assumes "after_offset s = Some r"
  shows "dropWhile is_digit r = r"
proof -
  obtain q where "r = dropWhile is_digit q" using assms by (auto simp: after_offset_def split: if_splits list.splits)
  then show ?thesis by (simp add: dropWhile_idem)
qed

lemma sub_offset_plain: "CHR ''o'' \<notin> set p \<Longrightarrow> sub_offset (p @ r) = p @ sub_offset r"
  by (induction p) (auto simp: after_offset_o)

lemma sub_offset_hd: "sub_offset s = [] \<longleftrightarrow> s = []" "s \<noteq> [] \<Longrightarrow> hd (sub_offset s) = hd s"
proof -
  have "c = CHR ''o''" if "after_offset (c # cs) = Some r" for c cs r
    using that after_offset_o [of c cs] by (cases "c = CHR ''o''") auto
  then show "sub_offset s = [] \<longleftrightarrow> s = []" "s \<noteq> [] \<Longrightarrow> hd (sub_offset s) = hd s"
    by (cases s; auto split: option.splits)+
qed

text \<open>What has no \<open>o\<close> in front of the result was in front of the text.\<close>

lemma sub_offset_from:
  "CHR ''o'' \<notin> set p \<Longrightarrow> sub_offset s = p @ r \<Longrightarrow> \<exists>q. s = p @ q"
proof (induction p arbitrary: s)
  case (Cons x p)
  then obtain c cs where s: "s = c # cs" by (cases s) auto
  have "c = x" using sub_offset_hd(2) [of s] Cons.prems(2) s by simp
  then have "sub_offset s = c # sub_offset cs" using Cons.prems(1) s after_offset_o [of c cs] by auto
  then show ?case using Cons s \<open>c = x\<close> by auto
qed simp

lemma spaces_no_o: "list_all is_space v \<Longrightarrow> CHR ''o'' \<notin> set v"
  by (auto simp: list_all_iff is_space_def)

lemma no_new_match: "after_offset (c # cs) = None \<Longrightarrow> after_offset (c # sub_offset cs) = None"
proof (rule ccontr)
  assume none: "after_offset (c # cs) = None" and "after_offset (c # sub_offset cs) \<noteq> None"
  then obtain v w d r where m: "c # sub_offset cs = offset_text v w d @ r"
    and sp: "list_all is_space v" "list_all is_space w" and d: "is_digit d"
    unfolding after_offset_iff by blast
  let ?p = "''ffset'' @ v @ ''='' @ w @ [d]"
  have "c = CHR ''o''" and tail: "sub_offset cs = ?p @ r" using m by (simp_all add: offset_text_def)
  moreover have "CHR ''o'' \<notin> set ?p" using spaces_no_o [OF sp(1)] spaces_no_o [OF sp(2)] d by (auto simp: is_digit_def)
  then obtain q where "cs = ?p @ q" using sub_offset_from tail by blast
  ultimately have "c # cs = offset_text v w d @ q" by (simp add: offset_text_def)
  then have "after_offset (c # cs) \<noteq> None" unfolding after_offset_iff using sp d by blast
  then show False using none by simp
qed

lemma sub_offset_idem: "sub_offset (sub_offset s) = sub_offset s"
proof (induction s rule: sub_offset.induct)
  case (2 c cs)
  show ?case
  proof (cases "after_offset (c # cs)")
    case None
    then show ?thesis using 2(1) no_new_match by simp
  next
    case (Some r)
    have "dropWhile is_digit (sub_offset r) = sub_offset r"
      using after_offset_no_digit [OF Some] sub_offset_hd [of r] unfolding dropWhile_eq_self_iff by metis
    then have "sub_offset (''offset = 1'' @ sub_offset r) = ''offset = 1'' @ sub_offset (sub_offset r)"
      using after_offset_set [of "sub_offset r"] by simp
    then show ?thesis using Some 2(2) by simp
  qed
qed simp

lemma contains_Cons: "contains s x \<Longrightarrow> contains (c # s) x"
  by (cases x) auto

lemma contains_append: "contains (x @ s) x"
  by (simp add: contains_iff_sublist)

lemma sub_offset_keeps: "contains s ''offset ='' \<Longrightarrow> contains (sub_offset s) ''offset =''"
proof (induction s rule: sub_offset.induct)
  case (2 c cs)
  show ?case
  proof (cases "after_offset (c # cs)")
    case (Some r)
    then show ?thesis using contains_append [of "''offset =''" "'' 1'' @ sub_offset r"] by simp
  next
    case None
    from 2(3) consider (here) "startswith (c # cs) ''offset =''" | (later) "contains cs ''offset =''"
      by (simp only: contains.simps) blast
    then show ?thesis
    proof cases
      case here
      then obtain r where "c # cs = ''offset ='' @ r" unfolding startswith_def by (metis append_take_drop_id)
      then have "c = CHR ''o''" "cs = ''ffset ='' @ r" by simp_all
      then show ?thesis
        using None sub_offset_plain [of "''ffset =''" r] contains_append [of "''offset =''" "sub_offset r"] by simp
    next
      case later
      then show ?thesis using None 2(1) contains_Cons by simp
    qed
  qed
qed simp

text \<open>A text with \<open>[server]\<close> in it has something on each side to put the lines between.\<close>

lemma split_str_go_some: "split_str_go sep cur s \<noteq> []"
  by (induction sep cur s rule: split_str_go.induct) auto

lemma split_str_go_two: "contains s sep \<Longrightarrow> sep \<noteq> [] \<Longrightarrow> \<exists>a b bs. split_str_go sep cur s = a # b # bs"
proof (induction sep cur s rule: split_str_go.induct)
  case (1 sep cur)
  then show ?case by (cases sep) auto
next
  case (2 sep cur c cs)
  show ?case
  proof (cases "startswith (c # cs) sep")
    case True
    obtain b bs where "split_str_go sep [] (drop (length sep) (c # cs)) = b # bs"
      using split_str_go_some neq_Nil_conv by metis
    then show ?thesis using True 2(4) by (simp del: drop.simps)
  next
    case False
    then have "contains cs sep" using 2(3,4) by (cases sep) auto
    then show ?thesis using False 2 by auto
  qed
qed

lemma contains_in_append: "contains s x \<Longrightarrow> contains (a @ s @ b) x"
  unfolding contains_iff_sublist sublist_def by (metis append.assoc)

lemma replace_str_contains:
  assumes "contains s old" and "old \<noteq> []" and "contains new x"
  shows "contains (replace_str old new s) x"
proof -
  obtain a b bs where "split_str old s = a # b # bs" using split_str_go_two [OF assms(1,2)] unfolding split_str_def by blast
  then have "replace_str old new s = a @ new @ join_str new (b # bs)" by (simp add: replace_str_def)
  then show ?thesis using contains_in_append [OF assms(3)] by simp
qed

lemma offset_lines_contain: "contains offset_lines ''offset =''"
  by (simp add: offset_lines_def startswith_def)

lemma offset_present: "contains (with_port_offset c) ''offset =''"
proof -
  have "contains (offset_lines @ s) ''offset =''" for s
    using contains_in_append [OF offset_lines_contain, of "[]"] by simp
  then show ?thesis
    using sub_offset_keeps replace_str_contains [of c "''[server]''" offset_lines "''offset =''"] offset_lines_contain
    unfolding with_port_offset_def by simp
qed

text \<open>
  Once a configuration has an offset in the form that is looked for, running the setup again leaves
  it as it is: setting the port a second time changes nothing. A configuration that the setup has
  written always has one.
\<close>

theorem port_offset_set_once:
  "contains (with_port_offset c) ''offset ='' \<and>
   (contains c ''offset ='' \<longrightarrow> with_port_offset (with_port_offset c) = with_port_offset c)"
proof (intro conjI impI)
  show "contains (with_port_offset c) ''offset =''" by (rule offset_present)
  assume has: "contains c ''offset =''"
  then show "with_port_offset (with_port_offset c) = with_port_offset c"
    using sub_offset_keeps [OF has] sub_offset_idem [of c] unfolding with_port_offset_def by simp
qed

theorem port_offset_set_once_witness:
  "with_port_offset (with_port_offset ''offset = 7'') = with_port_offset ''offset = 7''"
  by (rule port_offset_set_once [THEN conjunct2, THEN mp]) code_simp

text \<open>An offset without a space in front of the equals sign is not found: it gets a second one.\<close>

lemma offset_without_a_space_doubled:
  "with_port_offset (''[server]'' @ [CHR 0x0A] @ ''offset=2'') =
     ''[server]'' @ [CHR 0x0A] @ ''offset = 1'' @ [CHR 0x0A] @ ''offset=2''"
  by code_simp

text \<open>The pattern is not bound to a key of that name.\<close>

lemma other_offsets_rewritten: "with_port_offset ''time_offset = 30'' = ''time_offset = 1''"
  by code_simp

end
