(* ===== verification/Api_Migrations.thy ===== *)
theory Api_Migrations
  imports Api_Main
begin

text \<open>
  The schema of the Business API's database, which the repository states twice: in the models of
  \<open>api/models.py\<close> and in the baseline migration under \<open>migrations/versions\<close>. Here are both, as
  tables with columns, key and indexes. Alembic's operations are third-party: they are a parameter,
  with their documented effect on the schema as the hypothesis \<open>ddl_ok\<close>. Alembic's own bookkeeping and
  its offline mode are not modelled.
\<close>

subsection \<open>Schemas and operations on them\<close>

datatype sa_type = SaString nat | SaDateTime

text \<open>Columns with their type and whether they may be null; indexes by name, columns and uniqueness.\<close>

record table =
  t_columns :: "(string \<times> sa_type \<times> bool) list"
  t_key :: "string list"
  t_indexes :: "(string \<times> string list \<times> bool) list"

type_synonym schema = "string \<Rightarrow> table option"

text \<open>Alembic's operations on a database, and the schema that the database has.\<close>

record 'd ddl =
  dd_schema :: "'d \<Rightarrow> schema"
  dd_create_table :: "string \<Rightarrow> table \<Rightarrow> ('d, unit) prog"
  dd_drop_table :: "string \<Rightarrow> ('d, unit) prog"
  dd_create_index :: "string \<Rightarrow> string \<Rightarrow> string list \<Rightarrow> bool \<Rightarrow> ('d, unit) prog"
  dd_drop_index :: "string \<Rightarrow> string \<Rightarrow> ('d, unit) prog"

text \<open>What an operation does that may change the schema: it changes it, or raises and leaves it.\<close>

definition does :: "'d ddl \<Rightarrow> ('d, unit) prog \<Rightarrow> 'd \<Rightarrow> schema option \<Rightarrow> bool" where
  "does L m d target \<longleftrightarrow>
     (case target of
        Some s \<Rightarrow> \<exists>d'. m d = (Inr (), d') \<and> dd_schema L d' = s
      | None \<Rightarrow> \<exists>e d'. m d = (Inl e, d') \<and> dd_schema L d' = dd_schema L d)"

definition ddl_ok :: "'d ddl \<Rightarrow> bool" where
  "ddl_ok L \<longleftrightarrow>
     (\<forall>d n t. does L (dd_create_table L n t) d (if dd_schema L d n = None then Some ((dd_schema L d)(n \<mapsto> t)) else None)) \<and>
     (\<forall>d n. does L (dd_drop_table L n) d (if dd_schema L d n = None then None else Some ((dd_schema L d)(n := None)))) \<and>
     (\<forall>d n i cs u t. dd_schema L d n = Some t \<longrightarrow> i \<notin> fst ` set (t_indexes t) \<longrightarrow>
        does L (dd_create_index L n i cs u) d (Some ((dd_schema L d)(n \<mapsto> t\<lparr>t_indexes := t_indexes t @ [(i, cs, u)]\<rparr>)))) \<and>
     (\<forall>d n i t. dd_schema L d n = Some t \<longrightarrow> i \<in> fst ` set (t_indexes t) \<longrightarrow>
        does L (dd_drop_index L n i) d
          (Some ((dd_schema L d)(n \<mapsto> t\<lparr>t_indexes := filter (\<lambda>x. fst x \<noteq> i) (t_indexes t)\<rparr>))))"

subsection \<open>The models\<close>

text \<open>A column as a model declares it: name, type, \<open>nullable\<close> if given, \<open>primary_key\<close> and \<open>index\<close>.\<close>

datatype model_column = model_column (mc_name: string) (mc_type: sa_type) (mc_nullable: "bool option") (mc_key: bool) (mc_index: bool)

definition MEETINGS_MODEL :: "model_column list" where
  "MEETINGS_MODEL =
     [model_column ''id'' (SaString 36) None True False,
      model_column ''org'' (SaString 200) (Some False) False True,
      model_column ''created_at'' (SaDateTime) None False False,
      model_column ''updated_at'' (SaDateTime) None False False,
      model_column ''topic'' (SaString 200) (Some False) False False,
      model_column ''date'' (SaString 20) (Some False) False False,
      model_column ''start_time'' (SaString 10) (Some False) False False,
      model_column ''duration'' (SaString 10) (Some False) False False,
      model_column ''time_zone'' (SaString 50) (Some False) False False,
      model_column ''user_id'' (SaString 200) (Some False) False False,
      model_column ''email_address'' (SaString 200) (Some True) False False,
      model_column ''actor_user_id'' (SaString 200) (Some True) False False]"

definition AGENT_CONFIGS_MODEL :: "model_column list" where
  "AGENT_CONFIGS_MODEL =
     [model_column ''org'' (SaString 200) None True False,
      model_column ''agent_id'' (SaString 200) (Some False) False False,
      model_column ''agent_secret'' (SaString 200) (Some False) False False,
      model_column ''display_name'' (SaString 200) (Some False) False False,
      model_column ''description'' (SaString 500) (Some True) False False,
      model_column ''gemini_api_key'' (SaString 200) (Some True) False False,
      model_column ''org_client_id'' (SaString 200) (Some True) False False,
      model_column ''org_client_secret'' (SaString 500) (Some True) False False,
      model_column ''custom_prompt'' (SaString 2000) (Some True) False False,
      model_column ''created_at'' (SaDateTime) None False False,
      model_column ''updated_at'' (SaDateTime) None False False]"

definition PERSONALIZATIONS_MODEL :: "model_column list" where
  "PERSONALIZATIONS_MODEL =
     [model_column ''org'' (SaString 200) None True False,
      model_column ''logo_url'' (SaString 500) (Some True) False False,
      model_column ''logo_alt_text'' (SaString 200) (Some True) False False,
      model_column ''favicon_url'' (SaString 500) (Some True) False False,
      model_column ''primary_color'' (SaString 20) (Some True) False False,
      model_column ''secondary_color'' (SaString 20) (Some True) False False,
      model_column ''updated_at'' (SaDateTime) None False False]"

definition ORGANIZATION_PLANS_MODEL :: "model_column list" where
  "ORGANIZATION_PLANS_MODEL =
     [model_column ''org'' (SaString 200) None True False,
      model_column ''plan'' (SaString 50) (Some False) False False,
      model_column ''updated_at'' (SaDateTime) None False False]"

text \<open>What SQLAlchemy makes of it: a column may be null unless it is in the key or says otherwise.\<close>

definition model_table :: "string \<Rightarrow> model_column list \<Rightarrow> table" where
  "model_table name cs =
     \<lparr>t_columns = map (\<lambda>c. (mc_name c, mc_type c, case mc_nullable c of Some b \<Rightarrow> b | None \<Rightarrow> \<not> mc_key c)) cs,
      t_key = map mc_name (filter mc_key cs),
      t_indexes = map (\<lambda>c. (''ix_'' @ name @ ''_'' @ mc_name c, [mc_name c], False)) (filter mc_index cs)\<rparr>"

definition metadata :: "(string \<times> table) list" where
  "metadata = map (\<lambda>(name, cs). (name, model_table name cs))
     [(''meetings'', MEETINGS_MODEL), (''agent_configs'', AGENT_CONFIGS_MODEL),
      (''personalizations'', PERSONALIZATIONS_MODEL), (''organization_plans'', ORGANIZATION_PLANS_MODEL)]"

subsection \<open>The baseline migration\<close>

definition AGENT_CONFIGS_BASELINE :: table where
  "AGENT_CONFIGS_BASELINE =
     \<lparr>t_columns =
        [(''org'', SaString 200, False),
         (''agent_id'', SaString 200, False),
         (''agent_secret'', SaString 200, False),
         (''display_name'', SaString 200, False),
         (''description'', SaString 500, True),
         (''gemini_api_key'', SaString 200, True),
         (''org_client_id'', SaString 200, True),
         (''org_client_secret'', SaString 500, True),
         (''custom_prompt'', SaString 2000, True),
         (''created_at'', SaDateTime, True),
         (''updated_at'', SaDateTime, True)],
      t_key = [''org''], t_indexes = []\<rparr>"

definition MEETINGS_BASELINE :: table where
  "MEETINGS_BASELINE =
     \<lparr>t_columns =
        [(''id'', SaString 36, False),
         (''org'', SaString 200, False),
         (''created_at'', SaDateTime, True),
         (''updated_at'', SaDateTime, True),
         (''topic'', SaString 200, False),
         (''date'', SaString 20, False),
         (''start_time'', SaString 10, False),
         (''duration'', SaString 10, False),
         (''time_zone'', SaString 50, False),
         (''user_id'', SaString 200, False),
         (''email_address'', SaString 200, True),
         (''actor_user_id'', SaString 200, True)],
      t_key = [''id''], t_indexes = []\<rparr>"

definition ORGANIZATION_PLANS_BASELINE :: table where
  "ORGANIZATION_PLANS_BASELINE =
     \<lparr>t_columns =
        [(''org'', SaString 200, False),
         (''plan'', SaString 50, False),
         (''updated_at'', SaDateTime, True)],
      t_key = [''org''], t_indexes = []\<rparr>"

definition PERSONALIZATIONS_BASELINE :: table where
  "PERSONALIZATIONS_BASELINE =
     \<lparr>t_columns =
        [(''org'', SaString 200, False),
         (''logo_url'', SaString 500, True),
         (''logo_alt_text'', SaString 200, True),
         (''favicon_url'', SaString 500, True),
         (''primary_color'', SaString 20, True),
         (''secondary_color'', SaString 20, True),
         (''updated_at'', SaDateTime, True)],
      t_key = [''org''], t_indexes = []\<rparr>"

definition baseline_upgrade :: "'d ddl \<Rightarrow> ('d, unit) prog" where
  "baseline_upgrade L =
     andthen (dd_create_table L ''agent_configs'' AGENT_CONFIGS_BASELINE) (\<lambda>_.
     andthen (dd_create_table L ''meetings'' MEETINGS_BASELINE) (\<lambda>_.
     andthen (dd_create_index L ''meetings'' ''ix_meetings_org'' [''org''] False) (\<lambda>_.
     andthen (dd_create_table L ''organization_plans'' ORGANIZATION_PLANS_BASELINE) (\<lambda>_.
       dd_create_table L ''personalizations'' PERSONALIZATIONS_BASELINE))))"

definition baseline_downgrade :: "'d ddl \<Rightarrow> ('d, unit) prog" where
  "baseline_downgrade L =
     andthen (dd_drop_table L ''personalizations'') (\<lambda>_.
     andthen (dd_drop_table L ''organization_plans'') (\<lambda>_.
     andthen (dd_drop_index L ''meetings'' ''ix_meetings_org'') (\<lambda>_.
     andthen (dd_drop_table L ''meetings'') (\<lambda>_.
       dd_drop_table L ''agent_configs''))))"

subsection \<open>Which database\<close>

text \<open>\<open>-x url=...\<close> of the command line comes first.\<close>

definition migration_url :: "string option \<Rightarrow> api_settings \<Rightarrow> string" where
  "migration_url x_url cfg = (case x_url of Some u \<Rightarrow> if u \<noteq> [] then u else api_database_url cfg | None \<Rightarrow> api_database_url cfg)"

text \<open>The engine of an online run: one of its own for another database, else the service's.\<close>

definition migration_engine :: "string option \<Rightarrow> api_settings \<Rightarrow> (database, engine_args) prog" where
  "migration_engine x_url cfg =
     (case x_url of
        Some u \<Rightarrow>
          if u \<noteq> [] then ret \<lparr>eng_url = u, eng_check_same_thread = None, eng_pool_pre_ping = False\<rparr>
          else Database_engine cfg
      | None \<Rightarrow> Database_engine cfg)"

subsection \<open>Both say the same\<close>

lemmas model_defs = MEETINGS_MODEL_def AGENT_CONFIGS_MODEL_def PERSONALIZATIONS_MODEL_def ORGANIZATION_PLANS_MODEL_def

lemmas baseline_defs = MEETINGS_BASELINE_def AGENT_CONFIGS_BASELINE_def PERSONALIZATIONS_BASELINE_def
  ORGANIZATION_PLANS_BASELINE_def

lemma model_tables:
  "model_table ''meetings'' MEETINGS_MODEL = MEETINGS_BASELINE\<lparr>t_indexes := [(''ix_meetings_org'', [''org''], False)]\<rparr>"
  "model_table ''agent_configs'' AGENT_CONFIGS_MODEL = AGENT_CONFIGS_BASELINE"
  "model_table ''personalizations'' PERSONALIZATIONS_MODEL = PERSONALIZATIONS_BASELINE"
  "model_table ''organization_plans'' ORGANIZATION_PLANS_MODEL = ORGANIZATION_PLANS_BASELINE"
  by (simp_all add: model_table_def model_defs baseline_defs)

lemma no_baseline_indexes: "t_indexes MEETINGS_BASELINE = []"
  by (simp add: MEETINGS_BASELINE_def)

lemma ddl_okD:
  "ddl_ok L \<Longrightarrow> does L (dd_create_table L n t) d (if dd_schema L d n = None then Some ((dd_schema L d)(n \<mapsto> t)) else None)"
  "ddl_ok L \<Longrightarrow> does L (dd_drop_table L n) d (if dd_schema L d n = None then None else Some ((dd_schema L d)(n := None)))"
  unfolding ddl_ok_def by (elim conjE allE; assumption)+

lemma created: "ddl_ok L \<Longrightarrow> dd_schema L d n = None \<Longrightarrow> \<exists>d'. dd_create_table L n t d = (Inr (), d') \<and> dd_schema L d' = (dd_schema L d)(n \<mapsto> t)"
  using ddl_okD(1) [of L n t d] by (simp add: does_def)

lemma not_created: "ddl_ok L \<Longrightarrow> dd_schema L d n \<noteq> None \<Longrightarrow> \<exists>e d'. dd_create_table L n t d = (Inl e, d') \<and> dd_schema L d' = dd_schema L d"
  using ddl_okD(1) [of L n t d] by (auto simp: does_def)

lemma dropped: "ddl_ok L \<Longrightarrow> dd_schema L d n \<noteq> None \<Longrightarrow> \<exists>d'. dd_drop_table L n d = (Inr (), d') \<and> dd_schema L d' = (dd_schema L d)(n := None)"
  using ddl_okD(2) [of L n d] by (auto simp: does_def)

lemma indexed:
  "ddl_ok L \<Longrightarrow> dd_schema L d n = Some t \<Longrightarrow> i \<notin> fst ` set (t_indexes t) \<Longrightarrow>
    \<exists>d'. dd_create_index L n i cs u d = (Inr (), d') \<and>
      dd_schema L d' = (dd_schema L d)(n \<mapsto> t\<lparr>t_indexes := t_indexes t @ [(i, cs, u)]\<rparr>)"
  unfolding ddl_ok_def does_def by simp

lemma index_dropped:
  "ddl_ok L \<Longrightarrow> dd_schema L d n = Some t \<Longrightarrow> i \<in> fst ` set (t_indexes t) \<Longrightarrow>
    \<exists>d'. dd_drop_index L n i d = (Inr (), d') \<and>
      dd_schema L d' = (dd_schema L d)(n \<mapsto> t\<lparr>t_indexes := filter (\<lambda>x. fst x \<noteq> i) (t_indexes t)\<rparr>)"
  unfolding ddl_ok_def does_def by simp

text \<open>The schema of a database that has no table of the models, with the models' tables added.\<close>

definition with_models :: "schema \<Rightarrow> schema" where
  "with_models s = s ++ map_of metadata"

definition without_models :: "schema \<Rightarrow> bool" where
  "without_models s \<longleftrightarrow> list_all (\<lambda>n. s n = None) (map fst metadata)"

lemma with_models_alt:
  "with_models s = s(''agent_configs'' \<mapsto> AGENT_CONFIGS_BASELINE,
     ''meetings'' \<mapsto> MEETINGS_BASELINE\<lparr>t_indexes := [(''ix_meetings_org'', [''org''], False)]\<rparr>,
     ''organization_plans'' \<mapsto> ORGANIZATION_PLANS_BASELINE, ''personalizations'' \<mapsto> PERSONALIZATIONS_BASELINE)"
  by (simp add: with_models_def metadata_def model_tables map_add_upd fun_upd_twist)

lemma without_models_alt:
  "without_models s \<longleftrightarrow> s ''agent_configs'' = None \<and> s ''meetings'' = None \<and> s ''organization_plans'' = None \<and>
     s ''personalizations'' = None"
  by (auto simp: without_models_def metadata_def)

lemma upgrade_run:
  assumes "ddl_ok L" and "without_models (dd_schema L d)"
  shows "\<exists>d'. baseline_upgrade L d = (Inr (), d') \<and> dd_schema L d' = with_models (dd_schema L d)"
proof -
  note none = assms(2) [unfolded without_models_alt]
  obtain d1 where 1: "dd_create_table L ''agent_configs'' AGENT_CONFIGS_BASELINE d = (Inr (), d1)"
      "dd_schema L d1 = (dd_schema L d)(''agent_configs'' \<mapsto> AGENT_CONFIGS_BASELINE)"
    using created [OF assms(1)] none by blast
  obtain d2 where 2: "dd_create_table L ''meetings'' MEETINGS_BASELINE d1 = (Inr (), d2)"
      "dd_schema L d2 = (dd_schema L d1)(''meetings'' \<mapsto> MEETINGS_BASELINE)"
    using created [OF assms(1), of d1 "''meetings''"] none 1 by auto
  obtain d3 where 3: "dd_create_index L ''meetings'' ''ix_meetings_org'' [''org''] False d2 = (Inr (), d3)"
      "dd_schema L d3 = (dd_schema L d2)(''meetings'' \<mapsto>
        MEETINGS_BASELINE\<lparr>t_indexes := [(''ix_meetings_org'', [''org''], False)]\<rparr>)"
    using indexed [OF assms(1), of d2 "''meetings''" MEETINGS_BASELINE "''ix_meetings_org''"] 2
    by (auto simp: no_baseline_indexes)
  obtain d4 where 4: "dd_create_table L ''organization_plans'' ORGANIZATION_PLANS_BASELINE d3 = (Inr (), d4)"
      "dd_schema L d4 = (dd_schema L d3)(''organization_plans'' \<mapsto> ORGANIZATION_PLANS_BASELINE)"
    using created [OF assms(1), of d3 "''organization_plans''"] none 1 2 3 by auto
  obtain d5 where 5: "dd_create_table L ''personalizations'' PERSONALIZATIONS_BASELINE d4 = (Inr (), d5)"
      "dd_schema L d5 = (dd_schema L d4)(''personalizations'' \<mapsto> PERSONALIZATIONS_BASELINE)"
    using created [OF assms(1), of d4 "''personalizations''"] none 1 2 3 4 by auto
  show ?thesis
    using 1 2 3 4 5 by (simp add: baseline_upgrade_def andthen_def with_models_alt)
qed

lemma downgrade_run:
  assumes "ddl_ok L" and "without_models s" and "dd_schema L d = with_models s"
  shows "\<exists>d'. baseline_downgrade L d = (Inr (), d') \<and> dd_schema L d' = s"
proof -
  note none = assms(2) [unfolded without_models_alt] and all = assms(3) [unfolded with_models_alt]
  obtain d1 where 1: "dd_drop_table L ''personalizations'' d = (Inr (), d1)"
      "dd_schema L d1 = (dd_schema L d)(''personalizations'' := None)"
    using dropped [OF assms(1), of d "''personalizations''"] all by auto
  obtain d2 where 2: "dd_drop_table L ''organization_plans'' d1 = (Inr (), d2)"
      "dd_schema L d2 = (dd_schema L d1)(''organization_plans'' := None)"
    using dropped [OF assms(1), of d1 "''organization_plans''"] all 1 by auto
  obtain d3 where 3: "dd_drop_index L ''meetings'' ''ix_meetings_org'' d2 = (Inr (), d3)"
      "\<exists>t. dd_schema L d3 = (dd_schema L d2)(''meetings'' \<mapsto> t)"
    using index_dropped [OF assms(1), of d2 "''meetings''" _ "''ix_meetings_org''"] all 1 2 by auto
  obtain d4 where 4: "dd_drop_table L ''meetings'' d3 = (Inr (), d4)"
      "dd_schema L d4 = (dd_schema L d3)(''meetings'' := None)"
    using dropped [OF assms(1), of d3 "''meetings''"] 3 by auto
  obtain d5 where 5: "dd_drop_table L ''agent_configs'' d4 = (Inr (), d5)"
      "dd_schema L d5 = (dd_schema L d4)(''agent_configs'' := None)"
    using dropped [OF assms(1), of d4 "''agent_configs''"] all 1 2 3 4 by auto
  have "dd_schema L d5 = s"
    using none all 1 2 3 4 5 by (auto simp: fun_eq_iff)
  then show ?thesis
    using 1 2 3 4 5 by (simp add: baseline_downgrade_def andthen_def)
qed

text \<open>A database that is its schema, for concrete runs.\<close>

definition plain_ddl :: "schema ddl" where
  "plain_ddl =
     \<lparr>dd_schema = (\<lambda>s. s),
      dd_create_table = (\<lambda>n t s. if s n = None then (Inr (), s(n \<mapsto> t)) else (Inl (OtherError ''OperationalError''), s)),
      dd_drop_table = (\<lambda>n s. if s n = None then (Inl (OtherError ''OperationalError''), s) else (Inr (), s(n := None))),
      dd_create_index = (\<lambda>n i cs u s. case s n of
         Some t \<Rightarrow> if i \<in> fst ` set (t_indexes t) then (Inl (OtherError ''OperationalError''), s)
           else (Inr (), s(n \<mapsto> t\<lparr>t_indexes := t_indexes t @ [(i, cs, u)]\<rparr>))
       | None \<Rightarrow> (Inl (OtherError ''OperationalError''), s)),
      dd_drop_index = (\<lambda>n i s. case s n of
         Some t \<Rightarrow> if i \<notin> fst ` set (t_indexes t) then (Inl (OtherError ''OperationalError''), s)
           else (Inr (), s(n \<mapsto> t\<lparr>t_indexes := filter (\<lambda>x. fst x \<noteq> i) (t_indexes t)\<rparr>))
       | None \<Rightarrow> (Inl (OtherError ''OperationalError''), s))\<rparr>"

lemma plain_ddl_ok: "ddl_ok plain_ddl"
  by (simp add: ddl_ok_def does_def plain_ddl_def)

text \<open>
  C39: The baseline migration and the models agree: where none of the four tables exists, the upgrade
  succeeds and adds exactly the tables, columns, types, keys and indexes that the models declare. Where
  the models' tables exist already it fails and changes nothing, which is why such a database is to be
  stamped instead.
\<close>

theorem baseline_is_what_the_models_say:
  assumes "ddl_ok L"
  shows "(without_models (dd_schema L d) \<longrightarrow>
      (\<exists>d'. baseline_upgrade L d = (Inr (), d') \<and> dd_schema L d' = with_models (dd_schema L d))) \<and>
    (dd_schema L d = with_models s \<longrightarrow>
      (\<exists>e d'. baseline_upgrade L d = (Inl e, d') \<and> dd_schema L d' = dd_schema L d))"
proof (intro conjI impI)
  assume "dd_schema L d = with_models s"
  then have "dd_schema L d ''agent_configs'' \<noteq> None" by (simp add: with_models_alt)
  from not_created [OF assms this, of AGENT_CONFIGS_BASELINE]
  show "\<exists>e d'. baseline_upgrade L d = (Inl e, d') \<and> dd_schema L d' = dd_schema L d"
    by (auto simp: baseline_upgrade_def andthen_def)
qed (rule upgrade_run [OF assms])

theorem baseline_is_what_the_models_say_witness:
  "(\<exists>d'. baseline_upgrade plain_ddl (\<lambda>_. None) = (Inr (), d') \<and> dd_schema plain_ddl d' = with_models (\<lambda>_. None)) \<and>
   (\<exists>e d'. baseline_upgrade plain_ddl (with_models (\<lambda>_. None)) = (Inl e, d') \<and>
     dd_schema plain_ddl d' = with_models (\<lambda>_. None))"
proof
  have "without_models (dd_schema plain_ddl (\<lambda>_. None))" by (simp add: plain_ddl_def without_models_alt)
  then show "\<exists>d'. baseline_upgrade plain_ddl (\<lambda>_. None) = (Inr (), d') \<and> dd_schema plain_ddl d' = with_models (\<lambda>_. None)"
    using baseline_is_what_the_models_say [OF plain_ddl_ok, of "\<lambda>_. None"] by (simp add: plain_ddl_def)
  show "\<exists>e d'. baseline_upgrade plain_ddl (with_models (\<lambda>_. None)) = (Inl e, d') \<and>
     dd_schema plain_ddl d' = with_models (\<lambda>_. None)"
    using baseline_is_what_the_models_say [OF plain_ddl_ok, of "with_models (\<lambda>_. None)" "\<lambda>_. None"] by (simp add: plain_ddl_def)
qed

text \<open>
  The downgrade undoes the upgrade: with none of the four tables there, going up and down again
  brings the schema back, whatever other tables it has.
\<close>

theorem downgrade_undoes_upgrade:
  assumes "ddl_ok L" and "without_models (dd_schema L d)"
  shows "\<exists>d'. andthen (baseline_upgrade L) (\<lambda>_. baseline_downgrade L) d = (Inr (), d') \<and> dd_schema L d' = dd_schema L d"
proof -
  obtain d1 where "baseline_upgrade L d = (Inr (), d1)" "dd_schema L d1 = with_models (dd_schema L d)"
    using upgrade_run [OF assms] by blast
  then show ?thesis using downgrade_run [OF assms] by (simp add: andthen_def)
qed

theorem downgrade_undoes_upgrade_witness:
  "\<exists>d'. andthen (baseline_upgrade plain_ddl) (\<lambda>_. baseline_downgrade plain_ddl) (\<lambda>_. None) = (Inr (), d') \<and>
     dd_schema plain_ddl d' = (\<lambda>_. None)"
proof -
  have "without_models (dd_schema plain_ddl (\<lambda>_. None))" by (simp add: plain_ddl_def without_models_alt)
  from downgrade_undoes_upgrade [OF plain_ddl_ok this] show ?thesis by (simp add: plain_ddl_def)
qed

end
